(* ===== verification/Rts2_Prelude.thy ===== *)
theory Rts2_Prelude
  imports Main "HOL-Library.Word"
begin

text \<open>
  Shared vocabulary of the development: the type of status words, the collections of
  simplification rules the component theories fill and use, and the facts on masked words
  and on lists that several components need.
\<close>

unbundle bit_operations_syntax

section \<open>Rule collections\<close>

named_theorems status_bits \<open>the constants of status.h and the masks built from them\<close>
named_theorems mask_simps \<open>reading a group of bits of a masked status word\<close>

section \<open>Status words\<close>

text \<open>\<open>rts2_status_t\<close> of \<open>include/status.h\<close> is \<open>uint32_t\<close>.\<close>

type_synonym rts2_status = "32 word"

text \<open>
  The expression \<open>(s & ~m) | v\<close>, by which every component changes a group of bits of
  its state.
\<close>

definition masked :: "rts2_status \<Rightarrow> rts2_status \<Rightarrow> rts2_status \<Rightarrow> rts2_status" where
  "masked s m v = (s AND NOT m) OR v"

lemma masked_inside [mask_simps]:
  assumes "k AND NOT m = 0"
  shows "masked s m v AND k = v AND k"
proof (rule bit_word_eqI)
  fix n assume n: "n < LENGTH(32)"
  from assms have "bit (k AND NOT m) n = bit (0::rts2_status) n" by simp
  with n show "bit (masked s m v AND k) n = bit (v AND k) n"
    by (auto simp: masked_def bit_simps)
qed

lemma masked_outside [mask_simps]:
  assumes "k AND m = 0" and "k AND v = 0"
  shows "masked s m v AND k = s AND k"
proof (rule bit_word_eqI)
  fix n assume n: "n < LENGTH(32)"
  from assms have "bit (k AND m) n = bit (0::rts2_status) n" "bit (k AND v) n = bit (0::rts2_status) n"
    by simp_all
  with n show "bit (masked s m v AND k) n = bit (s AND k) n"
    by (auto simp: masked_def bit_simps)
qed

lemma masked_idem: "v AND NOT m = 0 \<Longrightarrow> masked (masked s m v) m v = masked s m v"
  by (rule bit_word_eqI) (auto simp: masked_def bit_simps)

lemma masked_same_group: "masked s m (s AND m) = s"
  by (rule bit_word_eqI) (auto simp: masked_def bit_simps)

lemma masked_twice: "m1 AND NOT m2 = 0 \<Longrightarrow> masked (masked s m1 v1) m2 v2 = masked s m2 (v1 AND NOT m2 OR v2)"
proof (rule bit_word_eqI)
  fix n assume "m1 AND NOT m2 = 0" and n: "n < LENGTH(32)"
  then have "bit (m1 AND NOT m2) n = bit (0::rts2_status) n" by simp
  with n show "bit (masked (masked s m1 v1) m2 v2) n = bit (masked s m2 (v1 AND NOT m2 OR v2)) n"
    by (auto simp: masked_def bit_simps)
qed

lemma and_sub_zero: "s AND k = 0 \<Longrightarrow> j AND NOT k = 0 \<Longrightarrow> s AND j = (0::rts2_status)"
proof (rule bit_word_eqI)
  fix n assume a: "s AND k = 0" "j AND NOT k = 0" and n: "n < LENGTH(32)"
  then have "bit (s AND k) n = bit (0::rts2_status) n" "bit (j AND NOT k) n = bit (0::rts2_status) n"
    by simp_all
  with n show "bit (s AND j) n = bit (0::rts2_status) n"
    by (auto simp: bit_simps)
qed

lemma and_sub_eq:
  assumes "s AND k = t AND k" and "j AND NOT k = 0"
  shows "s AND j = t AND (j::rts2_status)"
proof (rule bit_word_eqI)
  fix n assume n: "n < LENGTH(32)"
  from assms have "bit (s AND k) n = bit (t AND k) n" "bit (j AND NOT k) n = bit (0::rts2_status) n"
    by simp_all
  with n show "bit (s AND j) n = bit (t AND j) n"
    by (auto simp: bit_simps)
qed

section \<open>First-in first-out channels\<close>

text \<open>
  The contract of a component that queues work and hands it on: \<open>put\<close> accepts an item,
  \<open>tick\<close> is an answer of the peer. Items leave in the order in which they were put, and
  every answer moves the queue on.
\<close>

fun lefts :: "('a + 'b) list \<Rightarrow> 'a list" where
  "lefts [] = []"
| "lefts (Inl x # es) = x # lefts es"
| "lefts (Inr r # es) = lefts es"

lemma lefts_Inr [simp]: "lefts (map Inr rs) = []"
  by (induction rs) simp_all

locale fifo_channel =
  fixes put :: "'a \<Rightarrow> 's \<Rightarrow> 's"
    and tick :: "'r \<Rightarrow> 's \<Rightarrow> 's"
    and handed :: "'s \<Rightarrow> 'a list"
    and pending :: "'s \<Rightarrow> 'a list"
    and ok :: "'s \<Rightarrow> bool"
  assumes put_ok: "ok s \<Longrightarrow> ok (put x s)"
    and tick_ok: "ok s \<Longrightarrow> ok (tick r s)"
    and put_order: "ok s \<Longrightarrow> handed (put x s) @ pending (put x s) = handed s @ pending s @ [x]"
    and tick_order: "ok s \<Longrightarrow> handed (tick r s) @ pending (tick r s) = handed s @ pending s"
    and tick_progress: "ok s \<Longrightarrow> pending s \<noteq> [] \<Longrightarrow> length (pending (tick r s)) < length (pending s)"
    and tick_shrinks: "ok s \<Longrightarrow> length (pending (tick r s)) \<le> length (pending s)"
begin

definition event :: "'a + 'r \<Rightarrow> 's \<Rightarrow> 's" where
  "event e = case_sum put tick e"

lemma run_ok: "ok s \<Longrightarrow> ok (fold event es s)"
  by (induction es arbitrary: s) (auto simp: event_def put_ok tick_ok split: sum.splits)

lemma run_order:
  "ok s \<Longrightarrow> handed (fold event es s) @ pending (fold event es s) = handed s @ pending s @ lefts es"
proof (induction es arbitrary: s)
  case (Cons e es)
  then show ?case
    by (cases e) (simp_all add: event_def put_ok tick_ok put_order tick_order)
qed simp

lemma drain:
  "ok s \<Longrightarrow> length (pending s) \<le> length rs \<Longrightarrow> pending (fold tick rs s) = []"
proof (induction rs arbitrary: s)
  case (Cons r rs)
  have "length (pending (tick r s)) \<le> length rs"
  proof (cases "pending s = []")
    case True
    then show ?thesis using tick_shrinks [OF Cons.prems(1), of r] by simp
  next
    case False
    then show ?thesis using Cons.prems tick_progress [of s r] by simp
  qed
  then show ?case using Cons.prems(1) Cons.IH [of "tick r s"] tick_ok by simp
qed simp

end

lemma and_mask_zero: "k AND m = 0 \<Longrightarrow> (k AND f) AND m = (0::rts2_status)"
  by (metis and.assoc and.commute bit.conj_zero_right)

end
