(* ===== verification/Rts2_Status.thy ===== *)
theory Rts2_Status
  imports Rts2_Prelude
begin

text \<open>
  The status words of \<open>include/status.h\<close>, the \<open>ServerState\<close> class of
  \<open>include/serverstate.h\<close> with the predicates connections and daemons read from it
  (\<open>include/connection.h\<close>), and the printed form of the central server state
  (\<open>lib/rts2/centralstate.cpp\<close>). The codes that scripts return (\<open>include/rts2script/script.h\<close>) are here as well.
\<close>

named_theorems return_codes \<open>the C return codes and device types of status.h\<close>

section \<open>Constants of status.h\<close>

definition DEVICE_ERROR_MASK :: rts2_status where [status_bits]: "DEVICE_ERROR_MASK = 0x000f0000"
definition DEVICE_NO_ERROR :: rts2_status where [status_bits]: "DEVICE_NO_ERROR = 0x00000000"
definition DEVICE_ERROR_KILL :: rts2_status where [status_bits]: "DEVICE_ERROR_KILL = 0x00010000"
definition DEVICE_ERROR_HW :: rts2_status where [status_bits]: "DEVICE_ERROR_HW = 0x00020000"
definition DEVICE_NOT_READY :: rts2_status where [status_bits]: "DEVICE_NOT_READY = 0x00040000"
definition BOP_MASK :: rts2_status where [status_bits]: "BOP_MASK = 0x3f000000"
definition BOP_EXPOSURE :: rts2_status where [status_bits]: "BOP_EXPOSURE = 0x01000000"
definition BOP_READOUT :: rts2_status where [status_bits]: "BOP_READOUT = 0x02000000"
definition BOP_TEL_MOVE :: rts2_status where [status_bits]: "BOP_TEL_MOVE = 0x04000000"
definition BOP_WILL_EXPOSE :: rts2_status where [status_bits]: "BOP_WILL_EXPOSE = 0x08000000"
definition BOP_TRIG_EXPOSE :: rts2_status where [status_bits]: "BOP_TRIG_EXPOSE = 0x10000000"
definition STOP_MASK :: rts2_status where [status_bits]: "STOP_MASK = 0x40000000"
definition CAN_MOVE :: rts2_status where [status_bits]: "CAN_MOVE = 0x00000000"
definition STOP_EVERYTHING :: rts2_status where [status_bits]: "STOP_EVERYTHING = 0x40000000"
definition WEATHER_MASK :: rts2_status where [status_bits]: "WEATHER_MASK = 0x80000000"
definition GOOD_WEATHER :: rts2_status where [status_bits]: "GOOD_WEATHER = 0x00000000"
definition BAD_WEATHER :: rts2_status where [status_bits]: "BAD_WEATHER = 0x80000000"
definition DEVICE_STATUS_MASK :: rts2_status where [status_bits]: "DEVICE_STATUS_MASK = 0x00000fff"
definition WR_MASK :: rts2_status where [status_bits]: "WR_MASK = 0x00f00000"
definition WR_RAIN :: rts2_status where [status_bits]: "WR_RAIN = 0x00100000"
definition WR_WIND :: rts2_status where [status_bits]: "WR_WIND = 0x00200000"
definition WR_HUMIDITY :: rts2_status where [status_bits]: "WR_HUMIDITY = 0x00400000"
definition WR_CLOUD :: rts2_status where [status_bits]: "WR_CLOUD = 0x00800000"
definition DEVICE_MISC_MASK :: rts2_status where [status_bits]: "DEVICE_MISC_MASK = 0x0000f000"
definition DEVICE_SC_CURR :: rts2_status where [status_bits]: "DEVICE_SC_CURR = 0x00001000"
definition DEVICE_BLOCK_CLOSE :: rts2_status where [status_bits]: "DEVICE_BLOCK_CLOSE = 0x00002000"
definition DEVICE_BLOCK_OPEN :: rts2_status where [status_bits]: "DEVICE_BLOCK_OPEN = 0x00004000"
definition DEVICE_SHUTDOWN :: rts2_status where [status_bits]: "DEVICE_SHUTDOWN = 0x00008000"
definition DEVICE_IDLE :: rts2_status where [status_bits]: "DEVICE_IDLE = 0x00000000"
definition CAM_MASK_CHIP :: rts2_status where [status_bits]: "CAM_MASK_CHIP = 0x0ff"
definition CAM_MASK_EXPOSE :: rts2_status where [status_bits]: "CAM_MASK_EXPOSE = 0x011"
definition CAM_MASK_SHIFTING :: rts2_status where [status_bits]: "CAM_MASK_SHIFTING = 0x020"
definition CAM_NOEXPOSURE :: rts2_status where [status_bits]: "CAM_NOEXPOSURE = 0x000"
definition CAM_EXPOSING :: rts2_status where [status_bits]: "CAM_EXPOSING = 0x001"
definition CAM_EXPOSING_NOIM :: rts2_status where [status_bits]: "CAM_EXPOSING_NOIM = 0x010"
definition CAM_SHIFT :: rts2_status where [status_bits]: "CAM_SHIFT = 0x020"
definition CAM_MASK_READING :: rts2_status where [status_bits]: "CAM_MASK_READING = 0x002"
definition CAM_NOTREADING :: rts2_status where [status_bits]: "CAM_NOTREADING = 0x000"
definition CAM_READING :: rts2_status where [status_bits]: "CAM_READING = 0x002"
definition CAM_MASK_FT :: rts2_status where [status_bits]: "CAM_MASK_FT = 0x004"
definition CAM_FT :: rts2_status where [status_bits]: "CAM_FT = 0x004"
definition CAM_NOFT :: rts2_status where [status_bits]: "CAM_NOFT = 0x000"
definition CAM_MASK_HAS_IMAGE :: rts2_status where [status_bits]: "CAM_MASK_HAS_IMAGE = 0x008"
definition CAM_HAS_IMAGE :: rts2_status where [status_bits]: "CAM_HAS_IMAGE = 0x008"
definition CAM_HASNOT_IMAGE :: rts2_status where [status_bits]: "CAM_HASNOT_IMAGE = 0x000"
definition CAM_WORKING :: rts2_status where [status_bits]: "CAM_WORKING = CAM_EXPOSING OR CAM_EXPOSING_NOIM OR CAM_READING"
definition CAM_MASK_SHUTTER :: rts2_status where [status_bits]: "CAM_MASK_SHUTTER = 0x300"
definition CAM_SHUT_CLEARED :: rts2_status where [status_bits]: "CAM_SHUT_CLEARED = 0x000"
definition CAM_SHUT_SET :: rts2_status where [status_bits]: "CAM_SHUT_SET = 0x100"
definition CAM_SHUT_TRANS :: rts2_status where [status_bits]: "CAM_SHUT_TRANS = 0x200"
definition PHOT_MASK_INTEGRATE :: rts2_status where [status_bits]: "PHOT_MASK_INTEGRATE = 0x001"
definition PHOT_NOINTEGRATE :: rts2_status where [status_bits]: "PHOT_NOINTEGRATE = 0x000"
definition PHOT_INTEGRATE :: rts2_status where [status_bits]: "PHOT_INTEGRATE = 0x001"
definition PHOT_MASK_FILTER :: rts2_status where [status_bits]: "PHOT_MASK_FILTER = 0x002"
definition PHOT_FILTER_IDLE :: rts2_status where [status_bits]: "PHOT_FILTER_IDLE = 0x000"
definition PHOT_FILTER_MOVE :: rts2_status where [status_bits]: "PHOT_FILTER_MOVE = 0x002"
definition FOC_MASK_FOCUSING :: rts2_status where [status_bits]: "FOC_MASK_FOCUSING = 0x001"
definition FOC_SLEEPING :: rts2_status where [status_bits]: "FOC_SLEEPING = 0x000"
definition FOC_FOCUSING :: rts2_status where [status_bits]: "FOC_FOCUSING = 0x001"
definition ROT_MASK_ROTATING :: rts2_status where [status_bits]: "ROT_MASK_ROTATING = 0x001"
definition ROT_IDLE :: rts2_status where [status_bits]: "ROT_IDLE = 0x000"
definition ROT_ROTATING :: rts2_status where [status_bits]: "ROT_ROTATING = 0x001"
definition ROT_MASK_PATRACK :: rts2_status where [status_bits]: "ROT_MASK_PATRACK = 0x002"
definition ROT_PA_NOT :: rts2_status where [status_bits]: "ROT_PA_NOT = 0x000"
definition ROT_PA_TRACK :: rts2_status where [status_bits]: "ROT_PA_TRACK = 0x002"
definition ROT_MASK_AUTOROT :: rts2_status where [status_bits]: "ROT_MASK_AUTOROT = 0x004"
definition ROT_NOAUTO :: rts2_status where [status_bits]: "ROT_NOAUTO = 0x000"
definition ROT_AUTO :: rts2_status where [status_bits]: "ROT_AUTO = 0x004"
definition ROT_MASK_PARK :: rts2_status where [status_bits]: "ROT_MASK_PARK = 0x018"
definition ROT_PARKING :: rts2_status where [status_bits]: "ROT_PARKING = 0x008"
definition ROT_PARKED :: rts2_status where [status_bits]: "ROT_PARKED = 0x010"
definition TEL_MASK_MOVING :: rts2_status where [status_bits]: "TEL_MASK_MOVING = 0x007"
definition TEL_MASK_CUP_MOVING :: rts2_status where [status_bits]: "TEL_MASK_CUP_MOVING = 0x00f"
definition TEL_OBSERVING :: rts2_status where [status_bits]: "TEL_OBSERVING = 0x000"
definition TEL_MOVING :: rts2_status where [status_bits]: "TEL_MOVING = 0x001"
definition TEL_PARKED :: rts2_status where [status_bits]: "TEL_PARKED = 0x002"
definition TEL_PARKING :: rts2_status where [status_bits]: "TEL_PARKING = 0x004"
definition TEL_MASK_CUP :: rts2_status where [status_bits]: "TEL_MASK_CUP = 0x008"
definition TEL_NO_WAIT_CUP :: rts2_status where [status_bits]: "TEL_NO_WAIT_CUP = 0x000"
definition TEL_WAIT_CUP :: rts2_status where [status_bits]: "TEL_WAIT_CUP = 0x008"
definition TEL_MASK_TRACK :: rts2_status where [status_bits]: "TEL_MASK_TRACK = 0x020"
definition TEL_NOTRACK :: rts2_status where [status_bits]: "TEL_NOTRACK = 0x000"
definition TEL_TRACKING :: rts2_status where [status_bits]: "TEL_TRACKING = 0x020"
definition TEL_MASK_CORRECTING :: rts2_status where [status_bits]: "TEL_MASK_CORRECTING = 0x040"
definition TEL_NOT_CORRECTING :: rts2_status where [status_bits]: "TEL_NOT_CORRECTING = 0x000"
definition TEL_CORRECTING :: rts2_status where [status_bits]: "TEL_CORRECTING = 0x040"
definition TEL_MASK_NEED_STOP :: rts2_status where [status_bits]: "TEL_MASK_NEED_STOP = 0x080"
definition TEL_NEED_STOP :: rts2_status where [status_bits]: "TEL_NEED_STOP = 0x080"
definition TEL_MASK_PAN :: rts2_status where [status_bits]: "TEL_MASK_PAN = 0x100"
definition TEL_NO_PAN :: rts2_status where [status_bits]: "TEL_NO_PAN = 0x000"
definition TEL_PANNING :: rts2_status where [status_bits]: "TEL_PANNING = 0x100"
definition TEL_MASK_OFFSETING :: rts2_status where [status_bits]: "TEL_MASK_OFFSETING = 0x200"
definition TEL_NO_OFFSETING :: rts2_status where [status_bits]: "TEL_NO_OFFSETING = 0x000"
definition TEL_OFFSETING :: rts2_status where [status_bits]: "TEL_OFFSETING = 0x200"
definition TEL_MASK_UNSTABLE :: rts2_status where [status_bits]: "TEL_MASK_UNSTABLE = 0x400"
definition TEL_STABLE :: rts2_status where [status_bits]: "TEL_STABLE = 0x000"
definition TEL_UNSTABLE :: rts2_status where [status_bits]: "TEL_UNSTABLE = 0x400"
definition SENSOR_INPROGRESS :: rts2_status where [status_bits]: "SENSOR_INPROGRESS = 0x001"
definition DOME_DOME_MASK :: rts2_status where [status_bits]: "DOME_DOME_MASK = 0x01f"
definition DOME_UNKNOW :: rts2_status where [status_bits]: "DOME_UNKNOW = 0x000"
definition DOME_CLOSED :: rts2_status where [status_bits]: "DOME_CLOSED = 0x001"
definition DOME_OPENING :: rts2_status where [status_bits]: "DOME_OPENING = 0x002"
definition DOME_OPENED :: rts2_status where [status_bits]: "DOME_OPENED = 0x004"
definition DOME_CLOSING :: rts2_status where [status_bits]: "DOME_CLOSING = 0x008"
definition DOME_WAIT_CLOSING :: rts2_status where [status_bits]: "DOME_WAIT_CLOSING = 0x010"
definition DOME_STOPPED_MASK :: rts2_status where [status_bits]: "DOME_STOPPED_MASK = 0x020"
definition DOME_STOPPED :: rts2_status where [status_bits]: "DOME_STOPPED = 0x020"
definition DOME_CUP_MASK :: rts2_status where [status_bits]: "DOME_CUP_MASK = 0x0c0"
definition DOME_CUP_MASK_MOVE :: rts2_status where [status_bits]: "DOME_CUP_MASK_MOVE = 0x040"
definition DOME_CUP_NOT_MOVE :: rts2_status where [status_bits]: "DOME_CUP_NOT_MOVE = 0x000"
definition DOME_CUP_MOVE :: rts2_status where [status_bits]: "DOME_CUP_MOVE = 0x040"
definition DOME_CUP_MASK_SYNC :: rts2_status where [status_bits]: "DOME_CUP_MASK_SYNC = 0x080"
definition DOME_CUP_NOT_SYNC :: rts2_status where [status_bits]: "DOME_CUP_NOT_SYNC = 0x000"
definition DOME_CUP_SYNC :: rts2_status where [status_bits]: "DOME_CUP_SYNC = 0x080"
definition MIRROR_MASK :: rts2_status where [status_bits]: "MIRROR_MASK = 0x01f"
definition MIRROR_MASK_MOVE :: rts2_status where [status_bits]: "MIRROR_MASK_MOVE = 0x010"
definition MIRROR_MOVE :: rts2_status where [status_bits]: "MIRROR_MOVE = 0x010"
definition MIRROR_NOTMOVE :: rts2_status where [status_bits]: "MIRROR_NOTMOVE = 0x000"
definition FILTERD_MASK :: rts2_status where [status_bits]: "FILTERD_MASK = 0x002"
definition FILTERD_IDLE :: rts2_status where [status_bits]: "FILTERD_IDLE = 0x000"
definition FILTERD_MOVE :: rts2_status where [status_bits]: "FILTERD_MOVE = 0x002"
definition SERVERD_STATUS_MASK :: rts2_status where [status_bits]: "SERVERD_STATUS_MASK = 0x00f"
definition SERVERD_DAY :: rts2_status where [status_bits]: "SERVERD_DAY = 0x000"
definition SERVERD_EVENING :: rts2_status where [status_bits]: "SERVERD_EVENING = 0x001"
definition SERVERD_DUSK :: rts2_status where [status_bits]: "SERVERD_DUSK = 0x002"
definition SERVERD_NIGHT :: rts2_status where [status_bits]: "SERVERD_NIGHT = 0x003"
definition SERVERD_DAWN :: rts2_status where [status_bits]: "SERVERD_DAWN = 0x004"
definition SERVERD_MORNING :: rts2_status where [status_bits]: "SERVERD_MORNING = 0x005"
definition SERVERD_UNKNOW :: rts2_status where [status_bits]: "SERVERD_UNKNOW = 13"
definition SERVERD_ONOFF_MASK :: rts2_status where [status_bits]: "SERVERD_ONOFF_MASK = 0x030"
definition SERVERD_ON :: rts2_status where [status_bits]: "SERVERD_ON = 0x000"
definition SERVERD_STANDBY :: rts2_status where [status_bits]: "SERVERD_STANDBY = 0x010"
definition SERVERD_SOFT_OFF :: rts2_status where [status_bits]: "SERVERD_SOFT_OFF = 0x020"
definition SERVERD_HARD_OFF :: rts2_status where [status_bits]: "SERVERD_HARD_OFF = 0x030"
definition EXEC_STATE_MASK :: rts2_status where [status_bits]: "EXEC_STATE_MASK = 0x00f"
definition EXEC_IDLE :: rts2_status where [status_bits]: "EXEC_IDLE = 0x000"
definition EXEC_MOVE :: rts2_status where [status_bits]: "EXEC_MOVE = 0x001"
definition EXEC_ACQUIRE :: rts2_status where [status_bits]: "EXEC_ACQUIRE = 0x002"
definition EXEC_ACQUIRE_WAIT :: rts2_status where [status_bits]: "EXEC_ACQUIRE_WAIT = 0x003"
definition EXEC_OBSERVE :: rts2_status where [status_bits]: "EXEC_OBSERVE = 0x004"
definition EXEC_LASTREAD :: rts2_status where [status_bits]: "EXEC_LASTREAD = 0x005"
definition EXEC_MASK_END :: rts2_status where [status_bits]: "EXEC_MASK_END = 0x010"
definition EXEC_NOT_END :: rts2_status where [status_bits]: "EXEC_NOT_END = 0x000"
definition EXEC_END :: rts2_status where [status_bits]: "EXEC_END = 0x010"
definition EXEC_MASK_ACQ :: rts2_status where [status_bits]: "EXEC_MASK_ACQ = 0x060"
definition EXEC_NOT_ACQ :: rts2_status where [status_bits]: "EXEC_NOT_ACQ = 0x000"
definition EXEC_ACQ_OK :: rts2_status where [status_bits]: "EXEC_ACQ_OK = 0x020"
definition EXEC_ACQ_FAILED :: rts2_status where [status_bits]: "EXEC_ACQ_FAILED = 0x040"
definition EXEC_MASK_SCRIPT :: rts2_status where [status_bits]: "EXEC_MASK_SCRIPT = 0x080"
definition EXEC_SCRIPT_RUNNING :: rts2_status where [status_bits]: "EXEC_SCRIPT_RUNNING = 0x080"
definition IMGPROC_MASK_RUN :: rts2_status where [status_bits]: "IMGPROC_MASK_RUN = 0x001"
definition IMGPROC_IDLE :: rts2_status where [status_bits]: "IMGPROC_IDLE = 0x000"
definition IMGPROC_RUN :: rts2_status where [status_bits]: "IMGPROC_RUN = 0x001"
definition SEL_SIMULATING :: rts2_status where [status_bits]: "SEL_SIMULATING = 0x001"
definition SEL_IDLE :: rts2_status where [status_bits]: "SEL_IDLE = 0x000"
definition DEVDEM_DATA :: rts2_status where [status_bits]: "DEVDEM_DATA = 0x080"

text \<open>Return codes of the command handlers and device types are C \<open>int\<close>s.\<close>

definition DEVDEM_OK :: int where [return_codes]: "DEVDEM_OK = 0"
definition DEVDEM_E_COMMAND :: int where [return_codes]: "DEVDEM_E_COMMAND = - 1"
definition DEVDEM_E_PARAMSNUM :: int where [return_codes]: "DEVDEM_E_PARAMSNUM = - 2"
definition DEVDEM_E_PARAMSVAL :: int where [return_codes]: "DEVDEM_E_PARAMSVAL = - 3"
definition DEVDEM_E_HW :: int where [return_codes]: "DEVDEM_E_HW = - 4"
definition DEVDEM_E_SYSTEM :: int where [return_codes]: "DEVDEM_E_SYSTEM = - 5"
definition DEVDEM_E_PRIORITY :: int where [return_codes]: "DEVDEM_E_PRIORITY = - 6"
definition DEVDEM_E_TIMEOUT :: int where [return_codes]: "DEVDEM_E_TIMEOUT = - 7"
definition DEVDEM_E_IGNORE :: int where [return_codes]: "DEVDEM_E_IGNORE = - 8"
definition DEVDEM_I_QUED :: int where [return_codes]: "DEVDEM_I_QUED = 1"
definition PLANCOMM_E_NAMESPACE :: int where [return_codes]: "PLANCOMM_E_NAMESPACE = - 101"
definition PLANCOMM_E_HOSTACCES :: int where [return_codes]: "PLANCOMM_E_HOSTACCES = - 102"
definition PLANCOMM_E_COMMAND :: int where [return_codes]: "PLANCOMM_E_COMMAND = - 103"
definition PLANCOMM_E_PARAMSNUM :: int where [return_codes]: "PLANCOMM_E_PARAMSNUM = - 104"
definition DEVICE_TYPE_UNKNOW :: int where [return_codes]: "DEVICE_TYPE_UNKNOW = 0"
definition DEVICE_TYPE_SERVERD :: int where [return_codes]: "DEVICE_TYPE_SERVERD = 1"
definition DEVICE_TYPE_MOUNT :: int where [return_codes]: "DEVICE_TYPE_MOUNT = 2"
definition DEVICE_TYPE_CCD :: int where [return_codes]: "DEVICE_TYPE_CCD = 3"
definition DEVICE_TYPE_DOME :: int where [return_codes]: "DEVICE_TYPE_DOME = 4"
definition DEVICE_TYPE_WEATHER :: int where [return_codes]: "DEVICE_TYPE_WEATHER = 5"
definition DEVICE_TYPE_ROTATOR :: int where [return_codes]: "DEVICE_TYPE_ROTATOR = 6"
definition DEVICE_TYPE_PHOT :: int where [return_codes]: "DEVICE_TYPE_PHOT = 7"
definition DEVICE_TYPE_PLAN :: int where [return_codes]: "DEVICE_TYPE_PLAN = 8"
definition DEVICE_TYPE_GRB :: int where [return_codes]: "DEVICE_TYPE_GRB = 9"
definition DEVICE_TYPE_FOCUS :: int where [return_codes]: "DEVICE_TYPE_FOCUS = 10"
definition DEVICE_TYPE_MIRROR :: int where [return_codes]: "DEVICE_TYPE_MIRROR = 11"
definition DEVICE_TYPE_CUPOLA :: int where [return_codes]: "DEVICE_TYPE_CUPOLA = 12"
definition DEVICE_TYPE_FW :: int where [return_codes]: "DEVICE_TYPE_FW = 13"
definition DEVICE_TYPE_AUGERSH :: int where [return_codes]: "DEVICE_TYPE_AUGERSH = 14"
definition DEVICE_TYPE_SENSOR :: int where [return_codes]: "DEVICE_TYPE_SENSOR = 15"
definition DEVICE_TYPE_CAT :: int where [return_codes]: "DEVICE_TYPE_CAT = 16"
definition DEVICE_TYPE_AXIS :: int where [return_codes]: "DEVICE_TYPE_AXIS = 18"
definition DEVICE_TYPE_EXECUTOR :: int where [return_codes]: "DEVICE_TYPE_EXECUTOR = 20"
definition DEVICE_TYPE_IMGPROC :: int where [return_codes]: "DEVICE_TYPE_IMGPROC = 21"
definition DEVICE_TYPE_SELECTOR :: int where [return_codes]: "DEVICE_TYPE_SELECTOR = 22"
definition DEVICE_TYPE_HTTPD :: int where [return_codes]: "DEVICE_TYPE_HTTPD = 23"
definition DEVICE_TYPE_INDI :: int where [return_codes]: "DEVICE_TYPE_INDI = 24"
definition DEVICE_TYPE_LOGD :: int where [return_codes]: "DEVICE_TYPE_LOGD = 25"
definition DEVICE_TYPE_SCRIPTOR :: int where [return_codes]: "DEVICE_TYPE_SCRIPTOR = 26"
definition DEVICE_TYPE_BB :: int where [return_codes]: "DEVICE_TYPE_BB = 27"
definition DEVICE_TYPE_REDIS :: int where [return_codes]: "DEVICE_TYPE_REDIS = 28"
definition DEVICE_TYPE_THRIFT :: int where [return_codes]: "DEVICE_TYPE_THRIFT = 29"
text \<open>The bit of \<open>include/command.h\<close> for commands that wait for the end of a state.\<close>

definition BOP_WHILE_STATE :: rts2_status where [status_bits]: "BOP_WHILE_STATE = 0x00001000"

definition DEVICE_NAME_SIZE :: nat where "DEVICE_NAME_SIZE = 50"

section \<open>What the scripts of devices answer\<close>

definition NEXT_COMMAND_STOP_TARGET :: int where "NEXT_COMMAND_STOP_TARGET = -3"
definition NEXT_COMMAND_NEXT :: int where "NEXT_COMMAND_NEXT = -2"
definition NEXT_COMMAND_END_SCRIPT :: int where "NEXT_COMMAND_END_SCRIPT = -1"
definition NEXT_COMMAND_KEEP :: int where "NEXT_COMMAND_KEEP = 1"
definition NEXT_COMMAND_WAITING :: int where "NEXT_COMMAND_WAITING = 2"
definition NEXT_COMMAND_RESYNC :: int where "NEXT_COMMAND_RESYNC = 3"
definition NEXT_COMMAND_CHECK_WAIT :: int where "NEXT_COMMAND_CHECK_WAIT = 4"
definition NEXT_COMMAND_PRECISION_FAILED :: int where "NEXT_COMMAND_PRECISION_FAILED = 5"
definition NEXT_COMMAND_PRECISION_OK :: int where "NEXT_COMMAND_PRECISION_OK = 6"
definition NEXT_COMMAND_WAIT_ACQUSITION :: int where "NEXT_COMMAND_WAIT_ACQUSITION = 7"
definition NEXT_COMMAND_ACQUSITION_IMAGE :: int where "NEXT_COMMAND_ACQUSITION_IMAGE = 8"
definition NEXT_COMMAND_WAIT_SIGNAL :: int where "NEXT_COMMAND_WAIT_SIGNAL = 9"
definition NEXT_COMMAND_WAIT_MIRROR :: int where "NEXT_COMMAND_WAIT_MIRROR = 10"
definition NEXT_COMMAND_WAIT_SEARCH :: int where "NEXT_COMMAND_WAIT_SEARCH = 11"
definition NEXT_COMMAND_MASK_BLOCK :: int where "NEXT_COMMAND_MASK_BLOCK = 0x100000"

lemmas next_codes =
  NEXT_COMMAND_STOP_TARGET_def NEXT_COMMAND_NEXT_def NEXT_COMMAND_END_SCRIPT_def NEXT_COMMAND_KEEP_def NEXT_COMMAND_WAITING_def
  NEXT_COMMAND_RESYNC_def NEXT_COMMAND_CHECK_WAIT_def NEXT_COMMAND_PRECISION_FAILED_def NEXT_COMMAND_PRECISION_OK_def
  NEXT_COMMAND_WAIT_ACQUSITION_def NEXT_COMMAND_ACQUSITION_IMAGE_def NEXT_COMMAND_WAIT_SIGNAL_def NEXT_COMMAND_WAIT_MIRROR_def
  NEXT_COMMAND_WAIT_SEARCH_def

section \<open>ServerState\<close>

text \<open>
  \<open>lastUpdate\<close> of the class is written by \<open>setValue\<close> and read nowhere; it is left out.
\<close>

record server_state =
  ss_value :: rts2_status
  ss_oldValue :: rts2_status

definition new_ServerState :: server_state where
  "new_ServerState = \<lparr>ss_value = DEVICE_NOT_READY, ss_oldValue = 0\<rparr>"

definition ss_setValue :: "rts2_status \<Rightarrow> server_state \<Rightarrow> server_state" where
  "ss_setValue v s = \<lparr>ss_value = v, ss_oldValue = ss_value s\<rparr>"

definition maskValueChanged :: "rts2_status \<Rightarrow> server_state \<Rightarrow> bool" where
  "maskValueChanged q s \<longleftrightarrow> ss_value s AND q \<noteq> ss_oldValue s AND q"

lemma ss_value_setValue [simp]: "ss_value (ss_setValue v s) = v"
  and ss_oldValue_setValue [simp]: "ss_oldValue (ss_setValue v s) = ss_value s"
  by (simp_all add: ss_setValue_def)

text \<open>What a connection reads from the state its peer reported.\<close>

definition st_isGoodWeather :: "rts2_status \<Rightarrow> bool" where
  "st_isGoodWeather s \<longleftrightarrow> s AND WEATHER_MASK = GOOD_WEATHER"

definition st_canMove :: "rts2_status \<Rightarrow> bool" where
  "st_canMove s \<longleftrightarrow> s AND STOP_MASK = CAN_MOVE"

definition st_bopState :: "rts2_status \<Rightarrow> rts2_status" where
  "st_bopState s = s AND BOP_MASK"

section \<open>Printed central state\<close>

definition getStringShort :: "rts2_status \<Rightarrow> string" where
  "getStringShort s =
     (let k = s AND SERVERD_STATUS_MASK in
      if k = SERVERD_DAY then ''day''
      else if k = SERVERD_EVENING then ''evening''
      else if k = SERVERD_DUSK then ''dusk''
      else if k = SERVERD_NIGHT then ''night''
      else if k = SERVERD_DAWN then ''dawn''
      else if k = SERVERD_MORNING then ''morning''
      else ''unknow'')"

definition central_getString :: "rts2_status \<Rightarrow> string" where
  "central_getString s =
     (if s AND WEATHER_MASK = BAD_WEATHER then ''bad weather | '' else '''') @
     (if s AND WR_RAIN \<noteq> 0 then ''rain |'' else '''') @
     (if s AND WR_WIND \<noteq> 0 then ''wind |'' else '''') @
     (if s AND WR_HUMIDITY \<noteq> 0 then ''humidity |'' else '''') @
     (if s AND WR_CLOUD \<noteq> 0 then ''cloud |'' else '''') @
     (if s AND STOP_MASK = STOP_EVERYTHING then ''stop | '' else '''') @
     (if s AND SERVERD_ONOFF_MASK = SERVERD_HARD_OFF then ''HARD OFF ''
      else if s AND SERVERD_ONOFF_MASK = SERVERD_SOFT_OFF then ''SOFT OFF ''
      else if s AND SERVERD_ONOFF_MASK = SERVERD_STANDBY then ''standby ''
      else ''ON '') @
     getStringShort s @
     (if s AND BOP_EXPOSURE \<noteq> 0 then '', block exposure'' else '''') @
     (if s AND BOP_READOUT \<noteq> 0 then '', block readout'' else '''') @
     (if s AND BOP_TEL_MOVE \<noteq> 0 then '', block telescope move'' else '''')"

section \<open>Facts on the groups of bits\<close>

text \<open>The bits of a two-bit group take one of four values.\<close>

lemma onoff_cases:
  obtains "s AND SERVERD_ONOFF_MASK = SERVERD_ON" | "s AND SERVERD_ONOFF_MASK = SERVERD_STANDBY"
    | "s AND SERVERD_ONOFF_MASK = SERVERD_SOFT_OFF" | "s AND SERVERD_ONOFF_MASK = SERVERD_HARD_OFF"
proof -
  have "s AND 0x30 = (if bit s 4 then 0x10 else 0) OR (if bit s 5 then 0x20 else (0::rts2_status))"
    by (rule bit_word_eqI) (auto simp: bit_simps less_Suc_eq numeral_eq_Suc)
  then have "s AND 0x30 \<in> {0, 0x10, 0x20, 0x30}"
    by (simp split: if_splits)
  with that show thesis by (auto simp: status_bits)
qed

lemma weather_cases: "s AND WEATHER_MASK = GOOD_WEATHER \<or> s AND WEATHER_MASK = BAD_WEATHER"
proof -
  have "s AND 0x80000000 = (if bit s 31 then 0x80000000 else (0::rts2_status))"
    by (rule bit_word_eqI) (auto simp: bit_simps less_Suc_eq numeral_eq_Suc)
  then show ?thesis by (simp add: status_bits)
qed

lemma stop_cases: "s AND STOP_MASK = CAN_MOVE \<or> s AND STOP_MASK = STOP_EVERYTHING"
proof -
  have "s AND 0x40000000 = (if bit s 30 then 0x40000000 else (0::rts2_status))"
    by (rule bit_word_eqI) (auto simp: bit_simps less_Suc_eq numeral_eq_Suc)
  then show ?thesis by (simp add: status_bits)
qed

lemma not_good_weather: "\<not> st_isGoodWeather s \<longleftrightarrow> s AND WEATHER_MASK = BAD_WEATHER"
  using weather_cases [of s] by (auto simp: st_isGoodWeather_def status_bits)

end
