(* ===== verification/Rts2_Params.thy ===== *)
theory Rts2_Params
  imports Rts2_Prelude
begin

text \<open>
  Reading the parameters of a command line, \<open>Connection::param*\<close> of
  \<open>lib/rts2/connection.cpp\<close>, and the decimal numbers written on the other side.
  \<open>command_buf_top\<close> points into a NUL terminated buffer: it is modelled by the characters
  from the pointer to the terminating NUL, which the functions return with their result.
\<close>

named_theorems param_simps \<open>reading one parameter off the front of a line\<close>

section \<open>Characters and numbers of the C library\<close>

definition isspace :: "char \<Rightarrow> bool" where
  "isspace c \<longleftrightarrow> c = CHR '' '' \<or> (9 \<le> (of_char c :: nat) \<and> (of_char c :: nat) \<le> 13)"

definition isdigit :: "char \<Rightarrow> bool" where
  "isdigit c \<longleftrightarrow> 48 \<le> (of_char c :: nat) \<and> (of_char c :: nat) \<le> 57"

definition digit_val :: "char \<Rightarrow> nat" where
  "digit_val c = of_char c - 48"

definition digit_char :: "nat \<Rightarrow> char" where
  "digit_char d = char_of (48 + d)"

definition digits_val :: "string \<Rightarrow> nat" where
  "digits_val ds = foldl (\<lambda>a c. 10 * a + digit_val c) 0 ds"

text \<open>Decimal output of \<open>operator<<\<close> for unsigned and signed numbers.\<close>

fun show_nat :: "nat \<Rightarrow> string" where
  "show_nat n = (if n < 10 then [digit_char n] else show_nat (n div 10) @ [digit_char (n mod 10)])"

declare show_nat.simps [simp del]

definition show_int :: "int \<Rightarrow> string" where
  "show_int i = (if i < 0 then CHR ''-'' # show_nat (nat (- i)) else show_nat (nat i))"

text \<open>
  \<open>strtol\<close> and \<open>strtoll\<close> in base 10 (both types have 64 bits): optional blanks, a sign,
  digits; the value saturates, and without a digit nothing is read.
\<close>

definition clamp64 :: "int \<Rightarrow> int" where
  "clamp64 i = max (- (2 ^ 63)) (min (2 ^ 63 - 1) i)"

definition strtol_sign :: "string \<Rightarrow> int \<times> string" where
  "strtol_sign s = (case s of
       [] \<Rightarrow> (1, [])
     | c # cs \<Rightarrow> if c = CHR ''-'' then (-1, cs) else if c = CHR ''+'' then (1, cs) else (1, s))"

definition strtol :: "string \<Rightarrow> int \<times> string" where
  "strtol s =
     (let (sg, t) = strtol_sign (dropWhile isspace s); ds = takeWhile isdigit t in
      if ds = [] then (0, s)
      else (clamp64 (sg * int (digits_val ds)), dropWhile isdigit t))"

text \<open>Assigning a \<open>long\<close> to an \<open>int\<close> keeps the low 32 bits.\<close>

definition to_int32 :: "int \<Rightarrow> int" where
  "to_int32 i = signed_take_bit 31 i"

definition int32 :: "int \<Rightarrow> bool" where
  "int32 i \<longleftrightarrow> - (2 ^ 31) \<le> i \<and> i < 2 ^ 31"

section \<open>The parameter readers\<close>

definition paramEnd :: "string \<Rightarrow> bool \<times> string" where
  "paramEnd b = (let r = dropWhile isspace b in (r = [], r))"

text \<open>The delimiters are given as a list; \<open>NULL\<close> is the empty list.\<close>

definition paramNextString :: "string \<Rightarrow> string \<Rightarrow> string option \<times> string" where
  "paramNextString delims buf =
     (case dropWhile isspace buf of
        [] \<Rightarrow> (None, [])
      | c # cs \<Rightarrow>
          if c = CHR ''\"''
          then (Some (takeWhile (\<lambda>x. x \<noteq> CHR ''\"'') cs), drop 1 (dropWhile (\<lambda>x. x \<noteq> CHR ''\"'') cs))
          else (let ok = (\<lambda>x. \<not> isspace x \<and> x \<notin> set delims)
                in (Some (takeWhile ok (c # cs)), drop 1 (dropWhile ok (c # cs)))))"

definition paramNextWholeString :: "string \<Rightarrow> string" where
  "paramNextWholeString b = dropWhile isspace b"

text \<open>The returned code is 0 for success; on failure the output string is not set.\<close>

definition paramNextStringNull :: "string \<Rightarrow> int \<times> string option \<times> string" where
  "paramNextStringNull b =
     (case paramNextString [] b of
        (None, r) \<Rightarrow> (if fst (paramEnd r) then 0 else 1, None, snd (paramEnd r))
      | (Some s, r) \<Rightarrow> (0, Some s, r))"

definition paramNextInteger :: "string \<Rightarrow> int option \<times> string" where
  "paramNextInteger b =
     (case paramNextString '','' b of
        (None, r) \<Rightarrow> (None, r)
      | (Some s, r) \<Rightarrow> (let (v, e) = strtol s in (if e \<noteq> [] then None else Some (to_int32 v), r)))"

definition paramNextLong :: "string \<Rightarrow> int option \<times> string" where
  "paramNextLong b =
     (case paramNextString '','' b of
        (None, r) \<Rightarrow> (None, r)
      | (Some s, r) \<Rightarrow> (let (v, e) = strtol s in (if e \<noteq> [] then None else Some v, r)))"

definition paramNextLongLong :: "string \<Rightarrow> int option \<times> string" where
  "paramNextLongLong b =
     (case paramNextString '','' b of
        (None, r) \<Rightarrow> (None, r)
      | (Some s, r) \<Rightarrow> (let (v, e) = strtol s in (if e \<noteq> [] then None else Some v, r)))"

text \<open>A \<open>long\<close> assigned to a \<open>size_t\<close> is taken modulo \<open>2 ^ 64\<close>.\<close>

definition paramNextSizeT :: "string \<Rightarrow> int option \<times> string" where
  "paramNextSizeT b =
     (case paramNextString [] b of
        (None, r) \<Rightarrow> (None, r)
      | (Some s, r) \<Rightarrow> (let (v, e) = strtol s in (if e \<noteq> [] then None else Some (v mod 2 ^ 64), r)))"

definition paramNextSSizeT :: "string \<Rightarrow> int option \<times> string" where
  "paramNextSSizeT b =
     (case paramNextString [] b of
        (None, r) \<Rightarrow> (None, r)
      | (Some s, r) \<Rightarrow> (let (v, e) = strtol s in (if e \<noteq> [] then None else Some v, r)))"

definition paramNextTimeval :: "string \<Rightarrow> (int \<times> int) option \<times> string" where
  "paramNextTimeval b =
     (case paramNextInteger b of
        (None, r) \<Rightarrow> (None, r)
      | (Some sec, r) \<Rightarrow> (case paramNextInteger r of
            (None, r') \<Rightarrow> (None, r')
          | (Some usec, r') \<Rightarrow> (Some (sec, usec), r')))"

text \<open>
  \<open>unquoteRest\<close> drops the blanks and one quote in front of the rest of the line, and, when
  there was a quote, that quote and the blanks at its end.
\<close>

definition unquoteRest :: "string \<Rightarrow> string" where
  "unquoteRest b =
     (case dropWhile isspace b of
        [] \<Rightarrow> []
      | c # cs \<Rightarrow>
          if c = CHR ''\"'' \<or> c = CHR 0x27
          then rev (dropWhile (\<lambda>x. isspace x \<or> x = c) (rev cs))
          else c # cs)"

section \<open>Decimal numbers: what is written is what is read\<close>

lemma isspace_blank [simp]: "isspace CHR '' ''" "\<not> isspace CHR ''\"''" "\<not> isspace CHR ''-''"
  by (simp_all add: isspace_def)

lemma digit_char_props:
  assumes "d < 10"
  shows "isdigit (digit_char d)" "digit_val (digit_char d) = d" "\<not> isspace (digit_char d)"
    "digit_char d \<noteq> CHR ''-''" "digit_char d \<noteq> CHR ''+''" "digit_char d \<noteq> CHR '',''"
    "digit_char d \<noteq> CHR ''\"''"
proof -
  have 1: "(of_char (digit_char d) :: nat) = 48 + d"
    using assms by (simp add: digit_char_def)
  show "isdigit (digit_char d)" "digit_val (digit_char d) = d"
    using assms 1 by (simp_all add: isdigit_def digit_val_def)
  have ne: "digit_char d \<noteq> c" if "(of_char c :: nat) < 48" for c
    using 1 that by auto
  show "\<not> isspace (digit_char d)"
    using 1 ne [of "CHR '' ''"] by (auto simp: isspace_def)
  show "digit_char d \<noteq> CHR ''-''" "digit_char d \<noteq> CHR ''+''" "digit_char d \<noteq> CHR '',''"
    "digit_char d \<noteq> CHR ''\"''"
    using ne by auto
qed

lemma isdigit_not_special:
  assumes "isdigit c"
  shows "\<not> isspace c" "c \<noteq> CHR ''-''" "c \<noteq> CHR ''+''" "c \<noteq> CHR '',''" "c \<noteq> CHR ''\"''"
  using assms by (auto simp: isdigit_def isspace_def)

lemma show_nat_digits: "\<forall>c \<in> set (show_nat n). isdigit c"
proof (induction n rule: show_nat.induct)
  case (1 n)
  show ?case
    using 1 digit_char_props(1) by (subst show_nat.simps) auto
qed

lemma show_nat_not_Nil [simp]: "show_nat n \<noteq> []"
  by (subst show_nat.simps) simp

lemma digits_val_snoc: "digits_val (ds @ [c]) = 10 * digits_val ds + digit_val c"
  by (simp add: digits_val_def)

lemma digits_val_show_nat: "digits_val (show_nat n) = n"
proof (induction n rule: show_nat.induct)
  case (1 n)
  show ?case
  proof (cases "n < 10")
    case True
    then show ?thesis
      by (subst show_nat.simps) (simp add: digits_val_def digit_char_props(2))
  next
    case False
    with 1 show ?thesis
      by (subst show_nat.simps) (simp add: digits_val_snoc digit_char_props(2))
  qed
qed

lemma takeWhile_show_nat: "\<forall>c \<in> set (show_nat n). P c \<Longrightarrow> takeWhile P (show_nat n) = show_nat n"
  by (simp add: takeWhile_eq_all_conv)

lemma strtol_sign_digit: "t \<noteq> [] \<Longrightarrow> isdigit (hd t) \<Longrightarrow> strtol_sign t = (1, t)"
  using isdigit_not_special by (cases t) (auto simp: strtol_sign_def)

lemma show_nat_hd: "isdigit (hd (show_nat n))"
  using show_nat_digits [of n] by (metis hd_in_set show_nat_not_Nil)

lemma dropWhile_id: "xs = [] \<or> \<not> P (hd xs) \<Longrightarrow> dropWhile P xs = xs"
  by (cases xs) auto

lemma strtol_show_nat: "strtol (show_nat n) = (clamp64 (int n), [])"
proof -
  have 1: "dropWhile isspace (show_nat n) = show_nat n"
    using show_nat_hd [of n] isdigit_not_special(1) by (intro dropWhile_id) auto
  have 2: "takeWhile isdigit (show_nat n) = show_nat n" "dropWhile isdigit (show_nat n) = []"
    using show_nat_digits [of n] by (auto simp: takeWhile_eq_all_conv)
  show ?thesis
    by (simp add: strtol_def 1 2 strtol_sign_digit show_nat_hd digits_val_show_nat)
qed

lemma strtol_show_neg: "strtol (CHR ''-'' # show_nat n) = (clamp64 (- int n), [])"
proof -
  have 1: "dropWhile isspace (CHR ''-'' # show_nat n) = CHR ''-'' # show_nat n"
    by (simp add: isspace_def)
  have 2: "takeWhile isdigit (show_nat n) = show_nat n" "dropWhile isdigit (show_nat n) = []"
    using show_nat_digits [of n] by (auto simp: takeWhile_eq_all_conv)
  show ?thesis
    by (simp add: strtol_def 1 2 strtol_sign_def digits_val_show_nat)
qed

lemma strtol_show_int: "strtol (show_int i) = (clamp64 i, [])"
  by (simp add: show_int_def strtol_show_nat strtol_show_neg)

lemma clamp64_id: "- (2 ^ 63) \<le> i \<Longrightarrow> i < 2 ^ 63 \<Longrightarrow> clamp64 i = i"
  by (simp add: clamp64_def)

lemma to_int32_id: "- (2 ^ 31) \<le> i \<Longrightarrow> i < 2 ^ 31 \<Longrightarrow> to_int32 i = i"
  unfolding to_int32_def by (rule signed_take_bit_int_eq_self) simp_all

lemma to_int32_range: "- (2 ^ 31) \<le> to_int32 i \<and> to_int32 i < 2 ^ 31"
  unfolding to_int32_def
  using signed_take_bit_int_greater_eq_minus_exp [of 31 i] signed_take_bit_int_less_exp [of 31 i] by simp

section \<open>Tokens\<close>

text \<open>A token ends at the end of the line or at one delimiter, which is consumed.\<close>

lemma show_int_chars:
  assumes "c \<in> set (show_int i)"
  shows "\<not> isspace c" "c \<noteq> CHR '',''" "c \<noteq> CHR ''\"''"
proof -
  from assms have c: "c = CHR ''-'' \<or> isdigit c"
    using show_nat_digits by (auto simp: show_int_def split: if_splits)
  show "\<not> isspace c" using c isdigit_not_special(1) by auto
  show "c \<noteq> CHR '',''" using c isdigit_not_special(4) by fastforce
  show "c \<noteq> CHR ''\"''" using c isdigit_not_special(5) by fastforce
qed

lemma show_int_not_Nil [simp]: "show_int i \<noteq> []"
  by (simp add: show_int_def)

lemma paramNextString_word [param_simps]:
  assumes "w \<noteq> []" and "\<forall>c \<in> set w. \<not> isspace c \<and> c \<notin> set ds" and "hd w \<noteq> CHR ''\"''"
    and "r = [] \<or> isspace (hd r) \<or> hd r \<in> set ds"
  shows "paramNextString ds (w @ r) = (Some w, drop 1 r)"
proof -
  let ?ok = "\<lambda>x. \<not> isspace x \<and> x \<notin> set ds"
  from assms have d: "dropWhile isspace (w @ r) = w @ r"
    by (cases w) auto
  from assms have r: "takeWhile ?ok r = []" "dropWhile ?ok r = r"
    by (cases r; auto)+
  from assms(2) r have t: "takeWhile ?ok (w @ r) = w" "dropWhile ?ok (w @ r) = r"
    by simp_all
  obtain c cs where w: "w = c # cs" using assms(1) by (cases w) auto
  with assms(3) have q: "c \<noteq> CHR ''\"''" by simp
  from t w have t': "takeWhile ?ok (c # cs @ r) = w" "dropWhile ?ok (c # cs @ r) = r"
    by simp_all
  show ?thesis
    unfolding paramNextString_def d using w q t' by (simp add: Let_def del: takeWhile.simps dropWhile.simps)
qed

lemma dropWhile_split: "x \<notin> set s \<Longrightarrow> dropWhile (\<lambda>y. y \<noteq> x) (s @ x # r) = x # r"
  and takeWhile_split: "x \<notin> set s \<Longrightarrow> takeWhile (\<lambda>y. y \<noteq> x) (s @ x # r) = s"
  by (induction s) auto

lemma paramNextString_quoted [param_simps]:
  assumes "CHR ''\"'' \<notin> set s"
  shows "paramNextString ds (CHR ''\"'' # s @ CHR ''\"'' # r) = (Some s, r)"
  using assms by (simp add: paramNextString_def isspace_def dropWhile_split takeWhile_split)

lemma paramNextString_blank [param_simps]: "isspace c \<Longrightarrow> paramNextString ds (c # b) = paramNextString ds b"
  by (simp add: paramNextString_def)

lemma paramNextString_Nil [param_simps]: "paramNextString ds [] = (None, [])"
  by (simp add: paramNextString_def)

lemma paramEnd_Nil [param_simps]: "paramEnd [] = (True, [])"
  by (simp add: paramEnd_def)

text \<open>A successful read shortens the line: loops that read parameters until one fails end.\<close>

lemma paramNextString_shorter:
  assumes "paramNextString ds b = (Some s, r)"
  shows "length r < length b"
proof -
  obtain c cs where b: "dropWhile isspace b = c # cs"
    using assms by (cases "dropWhile isspace b") (auto simp: paramNextString_def)
  have len: "length (c # cs) \<le> length b"
    using length_dropWhile_le [of isspace b] b by simp
  show ?thesis
  proof (cases "c = CHR ''\"''")
    case True
    with assms b have "r = drop 1 (dropWhile (\<lambda>x. x \<noteq> CHR ''\"'') cs)"
      by (simp add: paramNextString_def)
    then have "length r \<le> length cs"
      using length_dropWhile_le [of _ cs] by (metis diff_le_self le_trans length_drop)
    with len show ?thesis by simp
  next
    case False
    let ?d = "dropWhile (\<lambda>x. \<not> isspace x \<and> x \<notin> set ds) (c # cs)"
    from assms b False have r: "r = drop 1 ?d"
      by (auto simp: paramNextString_def Let_def)
    have "length r < length (c # cs)"
      using length_dropWhile_le [of "\<lambda>x. \<not> isspace x \<and> x \<notin> set ds" "c # cs"] unfolding r length_drop
      by (cases "length ?d") auto
    with len show ?thesis by simp
  qed
qed

lemma paramNextString_fails: "fst (paramNextString ds b) = None \<longleftrightarrow> dropWhile isspace b = []"
  by (cases "dropWhile isspace b") (simp_all add: paramNextString_def Let_def del: dropWhile_eq_Nil_conv)

lemma paramNextString_rest_fail: "paramNextString ds b = (None, r) \<Longrightarrow> r = []"
  by (auto simp: paramNextString_def Let_def split: list.splits if_splits)

lemma paramNextInteger_token [param_simps]:
  assumes "- (2 ^ 31) \<le> i" "i < 2 ^ 31" and "r = [] \<or> isspace (hd r) \<or> hd r = CHR '',''"
  shows "paramNextInteger (show_int i @ r) = (Some i, drop 1 r)"
proof -
  have "paramNextString '','' (show_int i @ r) = (Some (show_int i), drop 1 r)"
    using assms(3) show_int_chars [of _ i] hd_in_set [of "show_int i"]
    by (intro paramNextString_word) auto
  then show ?thesis
    using assms by (simp add: paramNextInteger_def strtol_show_int clamp64_id to_int32_id)
qed

lemma paramNextLongLong_token [param_simps]:
  assumes "- (2 ^ 63) \<le> i" "i < 2 ^ 63" and "r = [] \<or> isspace (hd r) \<or> hd r = CHR '',''"
  shows "paramNextLongLong (show_int i @ r) = (Some i, drop 1 r)"
proof -
  have "paramNextString '','' (show_int i @ r) = (Some (show_int i), drop 1 r)"
    using assms(3) show_int_chars [of _ i] hd_in_set [of "show_int i"]
    by (intro paramNextString_word) auto
  then show ?thesis
    using assms by (simp add: paramNextLongLong_def strtol_show_int clamp64_id)
qed

end
