(* ===== verification/Rts2_Framing.thy ===== *)
theory Rts2_Framing
  imports Rts2_Params
begin

text \<open>
  Cutting the byte stream of a connection into lines: \<open>Connection::processBuffer\<close> and the
  reading part of \<open>Connection::receive\<close> (\<open>lib/rts2/connection.cpp\<close>). The handler of one
  line and the consumption of binary data that follows a line are functions on a state the
  caller chooses; \<open>bin r s\<close> returns how many bytes of the rest \<open>r\<close> belong to a binary
  transfer (0 when \<open>activeReadData\<close> is negative).
\<close>

section \<open>processBuffer\<close>

abbreviation NUL :: char where "NUL \<equiv> CHR 0x00"
abbreviation CR :: char where "CR \<equiv> CHR 0x0D"
abbreviation LF :: char where "LF \<equiv> CHR 0x0A"

definition in_line :: "char \<Rightarrow> bool" where
  "in_line c \<longleftrightarrow> c \<noteq> NUL \<and> c \<noteq> LF \<and> c \<noteq> CR"

lemma in_line_consts [simp]: "\<not> in_line NUL" "\<not> in_line LF" "\<not> in_line CR"
  by (simp_all add: in_line_def)

lemma isspace_consts [simp]: "isspace CR" "isspace LF" "\<not> isspace NUL"
  by (simp_all add: isspace_def)

lemma lone_cr_shorter:
  assumes "dropWhile in_line (dropWhile isspace r) = CR # r3"
  shows "length (CR # r3) < length r"
proof -
  let ?r1 = "dropWhile isspace r"
  have le: "length ?r1 \<le> length r" "length (CR # r3) \<le> length ?r1"
    using length_dropWhile_le [of isspace r] length_dropWhile_le [of in_line ?r1] assms by simp_all
  have "?r1 \<noteq> CR # r3"
  proof
    assume "?r1 = CR # r3"
    then have "\<not> isspace CR" by (metis hd_dropWhile list.discI list.sel(1))
    then show False by simp
  qed
  then have "length (CR # r3) \<noteq> length ?r1"
    using assms by (metis append_self_conv2 length_append add_cancel_right_left length_0_conv
        takeWhile_dropWhile_id)
  with le show ?thesis by linarith
qed

text \<open>
  The buffer from \<open>buf_top\<close> on is \<open>r\<close>. The result holds the bytes that stay in the buffer,
  from \<open>command_start\<close> to \<open>buf_top\<close>: the next read continues at \<open>buf_top\<close>, so what follows
  a NUL byte is overwritten.
\<close>

function process_loop ::
  "(string \<Rightarrow> 's \<Rightarrow> 's) \<Rightarrow> (string \<Rightarrow> 's \<Rightarrow> nat \<times> 's) \<Rightarrow> string \<Rightarrow> 's \<Rightarrow> string \<times> 's"
where
  "process_loop line bin r s =
     (if r = [] \<or> hd r = NUL then ([], s)
      else
        let r1 = dropWhile isspace r; l = takeWhile in_line r1 in
        (case dropWhile in_line r1 of
           [] \<Rightarrow> (l, s)
         | c # r3 \<Rightarrow>
             if c = NUL then (l, s)
             else if c = CR then
               (case r3 of
                  [] \<Rightarrow> (l @ [CR], s)
                | c' # r4 \<Rightarrow>
                    if c' = LF then
                      (let s1 = line l s; (n, s2) = bin r4 s1 in process_loop line bin (drop n r4) s2)
                    else if c' = NUL then (l @ [CR], s)
                    else process_loop line bin (c # r3) s)
             else (let s1 = line l s; (n, s2) = bin r3 s1 in process_loop line bin (drop n r3) s2)))"
  by pat_completeness auto
termination
proof (relation "measure (\<lambda>(line, bin, r, s). length r)", goal_cases)
  case 1 show ?case by simp
next
  case (2 line bin r s x xa c r3 c' r4 x' n s2)
  then have "length (c # c' # r4) \<le> length r"
    using length_dropWhile_le [of isspace r] length_dropWhile_le [of in_line "dropWhile isspace r"]
    by (metis le_trans)
  then show ?case by simp
next
  case (3 line bin r s x xa c r3 c' r4)
  then show ?case using lone_cr_shorter [of r r3] by simp
next
  case (4 line bin r s x xa c r3 x' n s2)
  then have "length (c # r3) \<le> length r"
    using length_dropWhile_le [of isspace r] length_dropWhile_le [of in_line "dropWhile isspace r"]
    by (metis le_trans)
  then show ?case by simp
qed

declare process_loop.simps [simp del]

definition no_binary :: "string \<Rightarrow> 's \<Rightarrow> nat \<times> 's" where
  "no_binary r s = (0, s)"

text \<open>\<open>Connection::receive\<close> puts one block of data behind what the buffer holds.\<close>

definition receive_data ::
  "(string \<Rightarrow> 's \<Rightarrow> 's) \<Rightarrow> (string \<Rightarrow> 's \<Rightarrow> nat \<times> 's) \<Rightarrow> string \<Rightarrow> string \<times> 's \<Rightarrow> string \<times> 's"
where
  "receive_data line bin data bs = process_loop line bin (fst bs @ data) (snd bs)"

section \<open>The first word of a line\<close>

text \<open>\<open>processLine\<close> ends the command at its first blank.\<close>

definition split_command :: "string \<Rightarrow> string \<times> string" where
  "split_command l = (takeWhile (\<lambda>c. \<not> isspace c) l, drop 1 (dropWhile (\<lambda>c. \<not> isspace c) l))"

section \<open>One round of the loop\<close>

lemma process_loop_done [simp]: "process_loop line bin [] s = ([], s)"
  by (subst process_loop.simps) simp

text \<open>The first line end of a text decides the round.\<close>

definition line_char :: "char \<Rightarrow> bool" where
  "line_char c \<longleftrightarrow> in_line c \<and> \<not> isspace c"

lemma process_loop_blank:
  assumes "isspace c" and "r \<noteq> []" and "hd r \<noteq> NUL"
  shows "process_loop line bin (c # r) s = process_loop line bin r s"
proof -
  have "c \<noteq> NUL" using assms(1) by auto
  then show ?thesis
    using assms by (subst (1 2) process_loop.simps) simp
qed

lemma takeWhile_line [simp]:
  "\<forall>x \<in> set l. in_line x \<Longrightarrow> \<not> in_line c \<Longrightarrow> takeWhile in_line (l @ c # r) = l"
  "\<forall>x \<in> set l. in_line x \<Longrightarrow> \<not> in_line c \<Longrightarrow> dropWhile in_line (l @ c # r) = c # r"
  by (induction l) auto

text \<open>A line as \<open>sendMsg\<close> writes it: not empty, no leading blank, no line end inside.\<close>

definition wire_line :: "string \<Rightarrow> bool" where
  "wire_line l \<longleftrightarrow> l \<noteq> [] \<and> \<not> isspace (hd l) \<and> (\<forall>c \<in> set l. in_line c)"

lemma wire_line_dropWhile: "wire_line l \<Longrightarrow> dropWhile isspace (l @ r) = l @ r"
  by (cases l) (auto simp: wire_line_def)

lemma process_loop_line:
  assumes "wire_line l"
  shows "process_loop line bin (l @ LF # r) s =
    (let s1 = line l s; (n, s2) = bin r s1 in process_loop line bin (drop n r) s2)"
proof -
  from assms have "l @ LF # r \<noteq> []" "hd (l @ LF # r) \<noteq> NUL"
    by (auto simp: wire_line_def in_line_def neq_Nil_conv)
  with assms show ?thesis
    by (subst process_loop.simps) (simp add: wire_line_dropWhile wire_line_def Let_def)
qed

lemma process_loop_line_text:
  "wire_line l \<Longrightarrow> process_loop line no_binary (l @ LF # r) s = process_loop line no_binary r (line l s)"
  by (simp add: process_loop_line no_binary_def)

lemma process_loop_wire:
  assumes "\<forall>l \<in> set ls. wire_line l"
  shows "process_loop line no_binary (concat (map (\<lambda>l. l @ [LF]) ls)) s = ([], fold line ls s)"
  using assms
proof (induction ls arbitrary: s)
  case Nil
  show ?case by simp
next
  case (Cons l ls)
  then have w: "wire_line l" by simp
  have e: "concat (map (\<lambda>l. l @ [LF]) (l # ls)) = l @ LF # concat (map (\<lambda>l. l @ [LF]) ls)" by simp
  show ?case
    unfolding e process_loop_line_text [OF w] using Cons by simp
qed

section \<open>The cut into lines does not depend on the cut into blocks\<close>

lemma dropWhile_isspace_idem [simp]: "dropWhile isspace (dropWhile isspace r) = dropWhile isspace r"
  by (metis dropWhile_eq_Nil_conv hd_dropWhile dropWhile_id)

text \<open>What a round does depends on the text behind the leading blanks only.\<close>

lemma process_loop_strip:
  assumes "NUL \<notin> set r"
  shows "process_loop line no_binary (dropWhile isspace r) s = process_loop line no_binary r s"
  using assms
proof (induction r)
  case (Cons c r)
  show ?case
  proof (cases "isspace c")
    case True
    show ?thesis
    proof (cases "r = []")
      case True
      with \<open>isspace c\<close> show ?thesis by (subst (2) process_loop.simps) auto
    next
      case False
      with Cons.prems have "hd r \<noteq> NUL" by (metis hd_in_set list.set_intros(2))
      with True False Cons show ?thesis by (simp add: process_loop_blank)
    qed
  next
    case False
    then show ?thesis by simp
  qed
qed simp

text \<open>Stripped text is empty, an unfinished line, or a line and what follows its end.\<close>

lemma stripped_cases:
  assumes "NUL \<notin> set x"
  obtains (blank) "dropWhile isspace x = []"
  | (partial) "wire_line (dropWhile isspace x)"
  | (ended) l c r where "dropWhile isspace x = l @ c # r" "wire_line l" "c = CR \<or> c = LF"
      "length (c # r) < length x" "NUL \<notin> set (c # r)"
proof (cases "dropWhile in_line (dropWhile isspace x)")
  case Nil
  then have "dropWhile isspace x = [] \<or> wire_line (dropWhile isspace x)"
    unfolding wire_line_def by (metis dropWhile_eq_Nil_conv hd_dropWhile)
  with blank partial show thesis by blast
next
  case (Cons c r)
  let ?l = "takeWhile in_line (dropWhile isspace x)"
  have eq: "dropWhile isspace x = ?l @ c # r" using Cons by (metis takeWhile_dropWhile_id)
  have sub: "set (c # r) \<subseteq> set x" using Cons by (metis set_dropWhileD subsetI)
  have "\<not> in_line c" using Cons by (metis hd_dropWhile list.discI list.sel(1))
  with sub assms have c: "c = CR \<or> c = LF" by (auto simp: in_line_def)
  have "\<not> isspace (hd (dropWhile isspace x))" using eq by (metis hd_dropWhile append_is_Nil_conv list.discI)
  then have hd: "\<not> isspace (hd (?l @ c # r))" using eq by metis
  have ne: "?l \<noteq> []" using hd c by (metis append_Nil isspace_consts(1,2) list.sel(1))
  have hdl: "\<not> isspace (hd ?l)" using hd ne by (metis hd_append2)
  have w: "wire_line ?l" unfolding wire_line_def using ne hdl by (metis set_takeWhileD)
  have "length (c # r) < length (?l @ c # r)" using ne by (metis length_append less_add_same_cancel2 length_greater_0_conv)
  also have "\<dots> \<le> length x" using length_dropWhile_le [of isspace x] eq by metis
  finally have "length (c # r) < length x" .
  with ended [OF eq w c] sub assms show thesis by blast
qed

lemma wire_line_all: "wire_line l \<Longrightarrow> takeWhile in_line l = l \<and> dropWhile in_line l = []"
  by (simp add: wire_line_def)

lemma wire_line_hd: "wire_line l \<Longrightarrow> l @ z \<noteq> [] \<and> hd (l @ z) \<noteq> NUL"
  by (auto simp: wire_line_def in_line_def neq_Nil_conv)

lemma process_loop_partial:
  "wire_line l \<Longrightarrow> process_loop line bin l s = (l, s)"
  using wire_line_hd [of l "[]"] wire_line_dropWhile [of l "[]"] wire_line_all [of l] unfolding append_Nil2
  by (subst process_loop.simps) (simp add: Let_def del: dropWhile_eq_Nil_conv)

lemma process_loop_crlf:
  "wire_line l \<Longrightarrow> process_loop line no_binary (l @ CR # LF # z) s = process_loop line no_binary z (line l s)"
  using wire_line_hd [of l "CR # LF # z"]
  by (subst process_loop.simps) (simp add: wire_line_dropWhile, simp add: wire_line_def no_binary_def)

lemma process_loop_cr_end:
  "wire_line l \<Longrightarrow> process_loop line bin (l @ [CR]) s = (l @ [CR], s)"
  using wire_line_hd [of l "[CR]"]
  by (subst process_loop.simps) (simp add: wire_line_dropWhile, simp add: wire_line_def)

text \<open>A carriage return inside a line drops what stands before it.\<close>

lemma process_loop_lone_cr:
  "wire_line l \<Longrightarrow> d \<noteq> LF \<Longrightarrow> d \<noteq> NUL \<Longrightarrow>
    process_loop line bin (l @ CR # d # z) s = process_loop line bin (CR # d # z) s"
  using wire_line_hd [of l "CR # d # z"]
  by (subst process_loop.simps) (simp add: wire_line_dropWhile, simp add: wire_line_def)

lemma process_loop_strip_append:
  assumes "NUL \<notin> set x" and "NUL \<notin> set y"
  shows "process_loop line no_binary (dropWhile isspace x @ y) s = process_loop line no_binary (x @ y) s"
proof (cases "dropWhile isspace x = []")
  case True
  then have "dropWhile isspace (x @ y) = dropWhile isspace y" by (simp add: dropWhile_append)
  then show ?thesis
    using process_loop_strip [of "x @ y" line s] process_loop_strip [of y line s] assms True
    by (simp del: dropWhile_eq_Nil_conv)
next
  case False
  then have "dropWhile isspace (x @ y) = dropWhile isspace x @ y"
    by (metis dropWhile_append1 dropWhile_eq_Nil_conv)
  then show ?thesis
    using process_loop_strip [of "x @ y" line s] assms by simp
qed

lemma process_loop_append:
  assumes "NUL \<notin> set x" and "NUL \<notin> set y"
  shows "process_loop line no_binary (x @ y) s =
    (case process_loop line no_binary x s of (k, s1) \<Rightarrow> process_loop line no_binary (k @ y) s1)"
  using assms(1)
proof (induction "length x" arbitrary: x s rule: less_induct)
  case less
  let ?P = "process_loop line no_binary"
  have xy: "?P (x @ y) s = ?P (dropWhile isspace x @ y) s" and px: "?P x s = ?P (dropWhile isspace x) s"
    using process_loop_strip_append process_loop_strip less.prems assms(2) by metis+
  from less.prems show ?case
  proof (cases rule: stripped_cases)
    case blank
    then show ?thesis using xy px by (simp del: dropWhile_eq_Nil_conv)
  next
    case partial
    then show ?thesis using xy px by (simp add: process_loop_partial)
  next
    case (ended l c r)
    have IH: "?P (t @ y) s' = (case ?P t s' of (k, s1) \<Rightarrow> ?P (k @ y) s1)"
      if "length t \<le> length (c # r)" "set t \<subseteq> set (c # r)" for t s'
      using that ended(4,5) less.hyps [of t s'] by force
    show ?thesis
    proof (cases "c = LF")
      case True
      then show ?thesis
        using xy px ended(1,2) IH [of r] by (auto simp: process_loop_line_text)
    next
      case False
      with ended(3) have cr: "c = CR" by simp
      show ?thesis
      proof (cases r)
        case Nil
        then show ?thesis using xy px ended(1,2) cr by (simp add: process_loop_cr_end)
      next
        case (Cons d z)
        then have dn: "d \<noteq> NUL" using ended(5) by auto
        show ?thesis
        proof (cases "d = LF")
          case True
          then show ?thesis
            using xy px ended(1,2) cr Cons IH [of z] by (auto simp: process_loop_crlf)
        next
          case False
          then show ?thesis
            using xy px ended(1,2) cr Cons dn IH [of "c # r"] by (simp add: process_loop_lone_cr)
        qed
      qed
    qed
  qed
qed

text \<open>A stream of lines arrives whole however it is cut into blocks.\<close>

lemma receive_all_blocks:
  assumes "\<forall>d \<in> set ds. NUL \<notin> set d" and "NUL \<notin> set b"
  shows "fold (receive_data line no_binary) ds (process_loop line no_binary b s)
    = process_loop line no_binary (b @ concat ds) s"
  using assms
proof (induction ds arbitrary: b)
  case Nil
  then show ?case by simp
next
  case (Cons d ds)
  have "receive_data line no_binary d (process_loop line no_binary b s) = process_loop line no_binary (b @ d) s"
    using Cons.prems process_loop_append [of b d line s] by (simp add: receive_data_def split: prod.splits)
  then show ?case using Cons.prems Cons.IH [of "b @ d"] by simp
qed

end
