(* ===== verification/Rts2_Utils.thy ===== *)
theory Rts2_Utils
  imports Rts2_Params
begin

text \<open>
  String helpers of \<open>lib/rts2/utilsfunc.cpp\<close>: comparison without case, booleans, index ranges,
  splitting of strings, names with a device, the CRC of the Modbus messages. C \<open>int\<close>s that
  may overflow wrap (\<open>to_int32\<close>).
\<close>

section \<open>Comparison without case\<close>

definition lower :: "char \<Rightarrow> char" where
  "lower c = (if 65 \<le> (of_char c :: nat) \<and> (of_char c :: nat) \<le> 90 then char_of ((of_char c :: nat) + 32) else c)"

definition strcaseeq :: "string \<Rightarrow> string \<Rightarrow> bool" where
  "strcaseeq a b \<longleftrightarrow> List.map lower a = List.map lower b"

lemma strcaseeq_refl [simp]: "strcaseeq a a"
  by (simp add: strcaseeq_def)

lemma strcaseeq_sym: "strcaseeq a b \<longleftrightarrow> strcaseeq b a"
  by (auto simp: strcaseeq_def)

lemma strcaseeq_trans: "strcaseeq a b \<Longrightarrow> strcaseeq b c \<Longrightarrow> strcaseeq a c"
  by (simp add: strcaseeq_def)

definition charToBool :: "string \<Rightarrow> bool option" where
  "charToBool s =
     (if strcaseeq s ''ON'' \<or> strcaseeq s ''TRUE'' \<or> strcaseeq s ''YES'' \<or> s = ''1'' then Some True
      else if strcaseeq s ''OFF'' \<or> strcaseeq s ''FALSE'' \<or> strcaseeq s ''NO'' \<or> s = ''0'' then Some False
      else None)"

section \<open>Index ranges\<close>

datatype range_state = FROM | TO | ARRAY_LEFT

text \<open>
  What a comma or the end of the text adds to the result: \<open>from\<close> and \<open>to\<close> are counted from
  one, 0 stands for a number that was not given.
\<close>

definition range_flush :: "int \<Rightarrow> range_state \<Rightarrow> int \<Rightarrow> int \<Rightarrow> int list" where
  "range_flush asize st from to =
     (let f = if from > 0 then from - 1 else from;
          t = if to = 0 \<or> to > asize
              then (if st = TO then asize else if to > asize then f else f + 1)
              else to
      in [f..t - 1])"

fun range_loop :: "int \<Rightarrow> range_state \<Rightarrow> int \<Rightarrow> int \<Rightarrow> int list \<Rightarrow> string \<Rightarrow> int list \<times> string" where
  "range_loop asize st from to ret [] =
     (if st = TO \<or> from = 0 \<or> (st = FROM \<and> from > 0) then ret @ range_flush asize st from to else ret, [])"
| "range_loop asize st from to ret (c # cs) =
     (if isdigit c then
        (if st = TO then range_loop asize TO from (to_int32 (to * 10 + int (digit_val c))) ret cs
         else range_loop asize FROM (to_int32 (from * 10 + int (digit_val c))) to ret cs)
      else if c = CHR '':'' then
        (if st = TO then (ret, c # cs) else range_loop asize TO from to ret cs)
      else if c = CHR '','' then
        range_loop asize ARRAY_LEFT 0 0 (ret @ range_flush asize st from to) cs
      else (ret, c # cs))"

text \<open>The indices and what is left of the text; text is left when it is not a range.\<close>

definition parseRange :: "string \<Rightarrow> int \<Rightarrow> int list \<times> string" where
  "parseRange s asize = (if s = [] then ([0..asize - 1], []) else range_loop asize FROM 0 0 [] s)"

section \<open>Splitting\<close>

text \<open>The mode for the delimiter blank, which knows quotes; \<open>r\<close> is the text from \<open>pos\<close> on.\<close>

function split_blank :: "string \<Rightarrow> string list" where
  "split_blank r =
     (case dropWhile isspace r of
        [] \<Rightarrow> []
      | c # cs \<Rightarrow>
          if c = CHR ''\"'' \<or> c = CHR 0x27 then
            (let tok = takeWhile (\<lambda>x. x \<noteq> c) cs; rest = drop 1 (dropWhile (\<lambda>x. x \<noteq> c) cs)
             in (if tok \<noteq> [] then tok # split_blank rest else split_blank rest))
          else takeWhile (\<lambda>x. \<not> isspace x) (c # cs) # split_blank (dropWhile (\<lambda>x. \<not> isspace x) cs))"
  by pat_completeness auto
termination
proof (relation "measure length", goal_cases)
  case 1 show ?case by simp
next
  case (2 r c cs tok rest)
  then have "length rest \<le> length cs" "length (c # cs) \<le> length r"
    using length_dropWhile_le [of "\<lambda>x. x \<noteq> c" cs] length_dropWhile_le [of isspace r] by simp_all
  then show ?case by simp
next
  case (3 r c cs tok rest)
  then have "length rest \<le> length cs" "length (c # cs) \<le> length r"
    using length_dropWhile_le [of "\<lambda>x. x \<noteq> c" cs] length_dropWhile_le [of isspace r] by simp_all
  then show ?case by simp
next
  case (4 r c cs)
  then have "length (c # cs) \<le> length r" using length_dropWhile_le [of isspace r] by simp
  then show ?case using length_dropWhile_le [of "\<lambda>x. \<not> isspace x" cs] by simp
qed

declare split_blank.simps [simp del]

text \<open>\<open>std::string::find\<close>: the position of the first occurrence not before \<open>pos\<close>.\<close>

fun find_in :: "string \<Rightarrow> string \<Rightarrow> nat option" where
  "find_in d t = (if take (length d) t = d then Some 0
     else case t of [] \<Rightarrow> None | _ # t' \<Rightarrow> map_option Suc (find_in d t'))"

declare find_in.simps [simp del]

definition find_from :: "string \<Rightarrow> string \<Rightarrow> nat \<Rightarrow> nat option" where
  "find_from text d pos = map_option (\<lambda>k. pos + k) (find_in d (drop pos text))"

text \<open>The mode for the other delimiters; the empty delimiter never gets on.\<close>

partial_function (option) split_delim :: "string \<Rightarrow> string \<Rightarrow> nat \<Rightarrow> string list \<Rightarrow> string list option" where
  "split_delim text d oldpos result =
     (case find_from text d oldpos of
        None \<Rightarrow> Some (result @ [drop oldpos text])
      | Some pos \<Rightarrow>
          if pos = oldpos then
            (if length text = 1 then Some result else split_delim text d (oldpos + length d) result)
          else
            (let result' = result @ [take (pos - oldpos) (drop oldpos text)] in
             if pos = length text - 1 then Some result' else split_delim text d (pos + length d) result'))"

definition SplitStr :: "string \<Rightarrow> string \<Rightarrow> string list option" where
  "SplitStr text d =
     (if text = [] then Some [] else if d = '' '' then Some (split_blank text) else split_delim text d 0 [])"

section \<open>Names with a device\<close>

definition parseVariableName :: "string \<Rightarrow> (string \<times> string) option" where
  "parseVariableName n =
     (if CHR ''.'' \<in> set n
      then Some (takeWhile (\<lambda>c. c \<noteq> CHR ''.'') n, drop 1 (dropWhile (\<lambda>c. c \<noteq> CHR ''.'') n))
      else None)"

section \<open>CRC-16\<close>

text \<open>One bit: \<open>ret\<close> and \<open>ch\<close> after one round of the inner loop; \<open>char\<close> is signed.\<close>

definition CRC_16 :: "16 word" where "CRC_16 = 0xA001"

definition crc_bit :: "16 word \<times> 8 word \<Rightarrow> 16 word \<times> 8 word" where
  "crc_bit rc = (case rc of (ret, ch) \<Rightarrow>
     (if (ret XOR scast ch) AND 1 \<noteq> 0 then drop_bit 1 ret XOR CRC_16 else drop_bit 1 ret,
      signed_drop_bit 1 ch))"

definition crc_byte :: "8 word \<Rightarrow> 16 word \<Rightarrow> 16 word" where
  "crc_byte ch ret = fst ((crc_bit ^^ 8) (ret, ch))"

definition getMsgBufCRC16 :: "8 word list \<Rightarrow> 16 word" where
  "getMsgBufCRC16 msg = fold crc_byte msg 0xffff"

section \<open>Salt\<close>

text \<open>The character for a number below 62 drawn from \<open>random\<close>.\<close>

definition salt_char :: "nat \<Rightarrow> char" where
  "salt_char rn = char_of (if rn < 12 then 46 + rn else if rn < 37 then 65 - 12 + rn else 97 - 37 + rn)"

definition random_salt :: "nat list \<Rightarrow> string" where
  "random_salt rns = map salt_char rns"

section \<open>A range of indices as a user writes it\<close>

definition horner :: "nat \<Rightarrow> string \<Rightarrow> nat" where
  "horner v ds = foldl (\<lambda>a c. 10 * a + digit_val c) v ds"

lemma horner_ge: "v \<le> horner v ds"
proof (induction ds arbitrary: v)
  case (Cons c ds)
  have "v \<le> 10 * v + digit_val c" by simp
  also have "\<dots> \<le> horner (10 * v + digit_val c) ds" by (rule Cons)
  finally show ?case by (simp add: horner_def)
qed (simp add: horner_def)

lemma horner_Cons: "horner v (c # ds) = horner (10 * v + digit_val c) ds"
  by (simp add: horner_def)

lemma digit_step:
  assumes "horner v (c # ds) < 2 ^ 31"
  shows "to_int32 (int v * 10 + int (digit_val c)) = int (10 * v + digit_val c)"
proof -
  have "10 * v + digit_val c < 2 ^ 31"
    using assms horner_ge [of "10 * v + digit_val c" ds] by (simp add: horner_Cons)
  then show ?thesis by (subst to_int32_id) simp_all
qed

lemma range_loop_digits_to:
  assumes "\<forall>c \<in> set ds. isdigit c" and "horner v ds < 2 ^ 31"
  shows "range_loop n TO from (int v) ret (ds @ r) = range_loop n TO from (int (horner v ds)) ret r"
  using assms
proof (induction ds arbitrary: v)
  case (Cons c ds)
  then show ?case using digit_step [of v c ds] Cons.IH [of "10 * v + digit_val c"] by (simp add: horner_Cons)
qed (simp add: horner_def)

lemma range_loop_digits_from:
  assumes "\<forall>c \<in> set ds. isdigit c" and "horner v ds < 2 ^ 31" and "ds \<noteq> []" "st \<noteq> TO"
  shows "range_loop n st (int v) to ret (ds @ r) = range_loop n FROM (int (horner v ds)) to ret r"
  using assms
proof (induction ds arbitrary: v st)
  case (Cons c ds)
  then show ?case using digit_step [of v c ds] Cons.IH [of "10 * v + digit_val c" FROM]
    by (cases "ds = []") (simp_all add: horner_Cons, simp add: horner_def)
qed simp

lemma horner_show_nat [simp]: "horner 0 (show_nat n) = n"
  using digits_val_show_nat [of n] by (simp add: horner_def digits_val_def)

lemma range_loop_number:
  assumes "n < 2 ^ 31"
  shows "range_loop k TO from 0 ret (show_nat n @ r) = range_loop k TO from (int n) ret r"
    and "st \<noteq> TO \<Longrightarrow> range_loop k st 0 to ret (show_nat n @ r) = range_loop k FROM (int n) to ret r"
  using range_loop_digits_to [of "show_nat n" 0] range_loop_digits_from [of "show_nat n" 0] assms show_nat_digits
  by simp_all

lemma isdigit_consts [simp]: "\<not> isdigit CHR '':''" "\<not> isdigit CHR '',''"
  by (simp_all add: isdigit_def)

text \<open>A range \<open>a:b\<close> or one index, as a user writes them.\<close>

datatype range_item = Span nat nat | Single nat

fun show_item :: "range_item \<Rightarrow> string" where
  "show_item (Span a b) = show_nat a @ CHR '':'' # show_nat b"
| "show_item (Single a) = show_nat a"

fun item_indices :: "range_item \<Rightarrow> int list" where
  "item_indices (Span a b) = [int a - 1..int b - 1]"
| "item_indices (Single a) = [int a - 1]"

fun item_ok :: "int \<Rightarrow> range_item \<Rightarrow> bool" where
  "item_ok n (Span a b) \<longleftrightarrow> 1 \<le> a \<and> 1 \<le> b \<and> int b \<le> n \<and> a < 2 ^ 31 \<and> b < 2 ^ 31"
| "item_ok n (Single a) \<longleftrightarrow> 0 \<le> n \<and> 1 \<le> a \<and> a < 2 ^ 31"

lemma range_loop_item_end:
  assumes "item_ok n it" "st \<noteq> TO"
  shows "range_loop n st 0 0 ret (show_item it) = (ret @ item_indices it, [])"
  using assms range_loop_number(2) [of _ st n 0 ret "[]"]
  by (cases it) (simp_all add: range_loop_number range_loop_number(1) [of _ n _ ret "[]", simplified] range_flush_def Let_def)

lemma range_loop_item_comma:
  assumes "item_ok n it" "st \<noteq> TO"
  shows "range_loop n st 0 0 ret (show_item it @ CHR '','' # r) = range_loop n ARRAY_LEFT 0 0 (ret @ item_indices it) r"
  using assms by (cases it) (simp_all add: range_loop_number range_flush_def Let_def)

lemma range_loop_items:
  assumes "\<forall>i \<in> set (it # its). item_ok n i" "st \<noteq> TO"
  shows "range_loop n st 0 0 ret (show_item it @ concat (map (\<lambda>i. CHR '','' # show_item i) its))
    = (ret @ concat (map item_indices (it # its)), [])"
  using assms
proof (induction its arbitrary: it st ret)
  case Nil
  then show ?case by (simp add: range_loop_item_end)
next
  case (Cons i its)
  then show ?case using Cons.IH [of i ARRAY_LEFT "ret @ item_indices it"] by (simp add: range_loop_item_comma)
qed

lemma show_item_not_Nil: "show_item it \<noteq> []"
  by (cases it) simp_all

text \<open>A comma separated list of indices and spans, counted from one, is read as the indices
  counted from zero, in the order given; the whole text is consumed. The size of the array
  bounds the spans only: a single index behind the end of the array is returned as it is.\<close>

theorem parseRange_items:
  assumes "\<forall>i \<in> set (it # its). item_ok n i"
  shows "parseRange (show_item it @ concat (map (\<lambda>i. CHR '','' # show_item i) its)) n
    = (concat (map item_indices (it # its)), [])"
  using range_loop_items [OF assms, of FROM "[]"] show_item_not_Nil [of it] by (simp add: parseRange_def)

theorem parseRange_items_witness:
  "item_ok 5 (Span 2 4) \<and> item_ok 5 (Single 9) \<and>
   parseRange (show_item (Span 2 4) @ concat (map (\<lambda>i. CHR '','' # show_item i) [Single 9])) 5 = ([1, 2, 3, 8], [])"
  using parseRange_items [of "Span 2 4" "[Single 9]" 5]
  by (simp add: upto.simps)

section \<open>The CRC of a message followed by its CRC is zero\<close>

lemma crc_bit_match:
  assumes "bit ret 0 = bit ch 0"
  shows "crc_bit (ret, ch) = (drop_bit 1 ret, signed_drop_bit 1 ch)"
proof -
  have "(ret XOR scast ch) AND 1 = 0"
    using assms by (intro bit_word_eqI) (auto simp: bit_simps bit_1_iff)
  then show ?thesis by (simp add: crc_bit_def)
qed

lemma crc_bits_match:
  assumes "k \<le> 8" "\<forall>i < 8. bit ret i = bit ch i"
  shows "(crc_bit ^^ k) (ret, ch) = (drop_bit k ret, signed_drop_bit k ch)"
  using assms(1)
proof (induction k)
  case (Suc k)
  then have "bit (drop_bit k ret) 0 = bit (signed_drop_bit k ch) 0"
    using assms(2) by (simp add: bit_simps)
  then show ?case
    using Suc crc_bit_match [of "drop_bit k ret" "signed_drop_bit k ch"]
    by (simp add: drop_bit_drop_bit signed_drop_bit_signed_drop_bit)
qed simp

lemma crc_byte_match:
  assumes "\<forall>i < 8. bit ret i = bit ch i"
  shows "crc_byte ch ret = drop_bit 8 ret"
  using crc_bits_match [OF order.refl assms] by (simp add: crc_byte_def)

text \<open>A message followed by the two bytes of its CRC, the low one first, has the CRC 0: this
  is what a receiver checks.\<close>

theorem crc_residue:
  "getMsgBufCRC16 (msg @ [ucast (getMsgBufCRC16 msg), ucast (drop_bit 8 (getMsgBufCRC16 msg))]) = 0"
proof -
  let ?r = "getMsgBufCRC16 msg"
  have "crc_byte (ucast ?r) ?r = drop_bit 8 ?r"
    by (rule crc_byte_match) (simp add: bit_simps)
  moreover have "crc_byte (ucast (drop_bit 8 ?r)) (drop_bit 8 ?r) = drop_bit 8 (drop_bit 8 ?r)"
    by (rule crc_byte_match) (simp add: bit_simps)
  moreover have "drop_bit 8 (drop_bit 8 ?r) = 0"
    by (rule bit_word_eqI) (auto simp: bit_simps dest: bit_imp_le_length)
  ultimately show ?thesis by (simp add: getMsgBufCRC16_def)
qed

section \<open>Splitting stops\<close>

lemma find_in_bound: "find_in d t = Some k \<Longrightarrow> k \<le> length t"
proof (induction t arbitrary: k)
  case Nil
  then show ?case by (subst (asm) find_in.simps) (simp split: if_splits)
next
  case (Cons c t)
  then show ?case by (subst (asm) find_in.simps) (auto split: if_splits)
qed

lemma find_in_length: "find_in d t = Some k \<Longrightarrow> k + length d \<le> length t"
proof (induction t arbitrary: k)
  case Nil
  then show ?case by (subst (asm) find_in.simps) (simp split: if_splits)
next
  case (Cons c t)
  from Cons.prems have "take (length d) (c # t) = d \<and> k = 0 \<or> (\<exists>j. find_in d t = Some j \<and> k = Suc j)"
    by (subst (asm) find_in.simps) (auto split: if_splits)
  then show ?case
  proof
    assume a: "take (length d) (c # t) = d \<and> k = 0"
    then have "length d = min (length (c # t)) (length d)" by (metis length_take)
    with a show ?thesis by simp
  next
    assume "\<exists>j. find_in d t = Some j \<and> k = Suc j"
    with Cons.IH show ?thesis by fastforce
  qed
qed

lemma find_from_bound: "find_from text d pos = Some k \<Longrightarrow> pos \<le> length text \<Longrightarrow> pos \<le> k \<and> k + length d \<le> length text"
  by (auto simp: find_from_def dest!: find_in_length)

text \<open>Splitting at a delimiter that is not empty comes to an end, for every text.\<close>

theorem SplitStr_returns:
  assumes "d \<noteq> []"
  shows "\<exists>r. SplitStr text d = Some r"
proof -
  have "\<exists>r. split_delim text d pos res = Some r" if "pos \<le> length text" for pos res
    using that
  proof (induction "length text - pos" arbitrary: pos res rule: less_induct)
    case less
    show ?case
    proof (cases "find_from text d pos")
      case None
      then show ?thesis by (simp add: split_delim.simps)
    next
      case (Some k)
      have k: "pos \<le> k" "k + length d \<le> length text" using find_from_bound [OF Some less.prems] by simp_all
      then have "length text - (k + length d) < length text - pos" using assms by (cases d) auto
      from less.hyps [OF this k(2)] show ?thesis
        using Some by (subst split_delim.simps) (auto simp: Let_def)
    qed
  qed
  then show ?thesis by (simp add: SplitStr_def)
qed

theorem SplitStr_returns_witness: "''/'' \<noteq> '''' \<and> (\<exists>r. SplitStr ''/api//get/'' ''/'' = Some r)"
  using SplitStr_returns [of "''/''" "''/api//get/''"] by simp

end
