(* ===== verification/Rts2_Values.thy ===== *)
theory Rts2_Values
  imports Rts2_Utils
begin

text \<open>
  Values, \<open>include/value.h\<close>, \<open>lib/rts2/value.cpp\<close> and the array classes of
  \<open>lib/rts2/valuearray.cpp\<close>. A value is a record with the members of class \<open>Value\<close> and the
  data of its class. Modelled are the string, integer, boolean, selection and long values and
  the arrays of strings and of integers; a selection keeps the names of its choices, not the
  data attached to them. The virtual functions are one function each, by cases on the class.
  C integers wrap when they overflow.
\<close>

section \<open>Type and flag bits\<close>

definition RTS2_VALUE_STRING :: rts2_status where [status_bits]: "RTS2_VALUE_STRING = 0x00000001"
definition RTS2_VALUE_INTEGER :: rts2_status where [status_bits]: "RTS2_VALUE_INTEGER = 0x00000002"
definition RTS2_VALUE_BOOL :: rts2_status where [status_bits]: "RTS2_VALUE_BOOL = 0x00000006"
definition RTS2_VALUE_SELECTION :: rts2_status where [status_bits]: "RTS2_VALUE_SELECTION = 0x00000007"
definition RTS2_VALUE_LONGINT :: rts2_status where [status_bits]: "RTS2_VALUE_LONGINT = 0x00000008"
definition RTS2_VALUE_ARRAY :: rts2_status where [status_bits]: "RTS2_VALUE_ARRAY = 0x00000040"
definition RTS2_VALUE_MASK :: rts2_status where [status_bits]: "RTS2_VALUE_MASK = 0x0000007f"
definition RTS2_VALUE_DEBUG :: rts2_status where [status_bits]: "RTS2_VALUE_DEBUG = 0x00000080"
definition RTS2_VALUE_FITS :: rts2_status where [status_bits]: "RTS2_VALUE_FITS = 0x00000100"
definition RTS2_VALUE_DEVPREFIX :: rts2_status where [status_bits]: "RTS2_VALUE_DEVPREFIX = 0x00000200"
definition RTS2_VALUE_CHANGED :: rts2_status where [status_bits]: "RTS2_VALUE_CHANGED = 0x00000400"
definition RTS2_VWHEN_RECORD_CHANGE :: rts2_status where [status_bits]: "RTS2_VWHEN_RECORD_CHANGE = 0x00000800"
definition RTS2_VWHEN_MASK :: rts2_status where [status_bits]: "RTS2_VWHEN_MASK = 0x0000f000"
definition RTS2_TYPE_MASK :: rts2_status where [status_bits]: "RTS2_TYPE_MASK = 0x003f0000"
definition RTS2_FITS_HEADERS :: rts2_status where [status_bits]: "RTS2_FITS_HEADERS = 0x00400000"
definition RTS2_VALUE_AUTOSAVE :: rts2_status where [status_bits]: "RTS2_VALUE_AUTOSAVE = 0x00800000"
definition RTS2_VALUE_NEED_SEND :: rts2_status where [status_bits]: "RTS2_VALUE_NEED_SEND = 0x01000000"
definition RTS2_VALUE_WRITABLE :: rts2_status where [status_bits]: "RTS2_VALUE_WRITABLE = 0x02000000"
definition RTS2_VALUE_SCRIPTTEMPORARY :: rts2_status where [status_bits]: "RTS2_VALUE_SCRIPTTEMPORARY = 0x04000000"
definition RTS2_VALUE_NOTNULL :: rts2_status where [status_bits]: "RTS2_VALUE_NOTNULL = 0x08000000"
definition RTS2_VALUE_ERRORMASK :: rts2_status where [status_bits]: "RTS2_VALUE_ERRORMASK = 0x30000000"
definition RTS2_VALUE_WARNING :: rts2_status where [status_bits]: "RTS2_VALUE_WARNING = 0x10000000"
definition RTS2_VALUE_ERROR :: rts2_status where [status_bits]: "RTS2_VALUE_ERROR = 0x20000000"

section \<open>Values\<close>

datatype value_data =
    VString string
  | VInteger int
  | VBool int
  | VSelection int "string list"
  | VLong int
  | VStringArray "string list"
  | VIntegerArray "int list"
  | VBoolArray "int list"

record rts2_value =
  v_name :: string
  v_description :: string
  v_rts2Type :: rts2_status
  v_data :: value_data

definition isValue :: "string \<Rightarrow> rts2_value \<Rightarrow> bool" where
  "isValue n v \<longleftrightarrow> strcaseeq n (v_name v)"

definition getValueType :: "rts2_value \<Rightarrow> rts2_status" where
  "getValueType v = v_rts2Type v AND RTS2_VALUE_MASK"

definition isAutosave :: "rts2_value \<Rightarrow> bool" where
  "isAutosave v \<longleftrightarrow> v_data v \<noteq> VBool 2 \<and> v_rts2Type v AND RTS2_VALUE_AUTOSAVE \<noteq> 0"

definition isWritable :: "rts2_value \<Rightarrow> bool" where
  "isWritable v \<longleftrightarrow> v_rts2Type v AND RTS2_VALUE_WRITABLE \<noteq> 0"

definition setWriteToFits :: "rts2_value \<Rightarrow> rts2_value" where
  "setWriteToFits v = v\<lparr>v_rts2Type := v_rts2Type v OR RTS2_VALUE_FITS\<rparr>"

definition setWritable :: "rts2_value \<Rightarrow> rts2_value" where
  "setWritable v = v\<lparr>v_rts2Type := v_rts2Type v OR RTS2_VALUE_WRITABLE\<rparr>"

definition setReadOnly :: "rts2_value \<Rightarrow> rts2_value" where
  "setReadOnly v = v\<lparr>v_rts2Type := v_rts2Type v AND NOT RTS2_VALUE_WRITABLE\<rparr>"

definition isTemporary :: "rts2_value \<Rightarrow> bool" where
  "isTemporary v \<longleftrightarrow> v_rts2Type v AND RTS2_VALUE_SCRIPTTEMPORARY \<noteq> 0"

definition setTemporary :: "rts2_value \<Rightarrow> rts2_value" where
  "setTemporary v = v\<lparr>v_rts2Type := v_rts2Type v OR RTS2_VALUE_SCRIPTTEMPORARY\<rparr>"

definition setFlags :: "rts2_status \<Rightarrow> rts2_value \<Rightarrow> rts2_value" where
  "setFlags nflags v =
     v\<lparr>v_rts2Type := (nflags AND NOT RTS2_VALUE_MASK) OR (v_rts2Type v AND RTS2_VALUE_MASK)\<rparr>"

definition resetValueChanged :: "rts2_value \<Rightarrow> rts2_value" where
  "resetValueChanged v = v\<lparr>v_rts2Type := v_rts2Type v AND NOT RTS2_VALUE_CHANGED\<rparr>"

definition wasChanged :: "rts2_value \<Rightarrow> bool" where
  "wasChanged v \<longleftrightarrow> v_rts2Type v AND RTS2_VALUE_CHANGED \<noteq> 0"

definition needSend :: "rts2_value \<Rightarrow> bool" where
  "needSend v \<longleftrightarrow> v_rts2Type v AND RTS2_VALUE_NEED_SEND \<noteq> 0"

definition resetNeedSend :: "rts2_value \<Rightarrow> rts2_value" where
  "resetNeedSend v = v\<lparr>v_rts2Type := v_rts2Type v AND NOT RTS2_VALUE_NEED_SEND\<rparr>"

definition changed :: "rts2_value \<Rightarrow> rts2_value" where
  "changed v = v\<lparr>v_rts2Type := v_rts2Type v OR RTS2_VALUE_CHANGED OR RTS2_VALUE_NEED_SEND\<rparr>"

definition maskError :: "rts2_status \<Rightarrow> rts2_value \<Rightarrow> rts2_value" where
  "maskError err v = v\<lparr>v_rts2Type := masked (v_rts2Type v) RTS2_VALUE_ERRORMASK err\<rparr>"

definition getErrorMask :: "rts2_value \<Rightarrow> rts2_status" where
  "getErrorMask v = v_rts2Type v AND RTS2_VALUE_ERRORMASK"

definition isError :: "rts2_value \<Rightarrow> bool" where
  "isError v \<longleftrightarrow> getErrorMask v AND RTS2_VALUE_ERROR \<noteq> 0"

definition isWarning :: "rts2_value \<Rightarrow> bool" where
  "isWarning v \<longleftrightarrow> getErrorMask v AND RTS2_VALUE_WARNING \<noteq> 0"

definition setValueFlags :: "rts2_status \<Rightarrow> rts2_value \<Rightarrow> rts2_value" where
  "setValueFlags flags v =
     v\<lparr>v_rts2Type := v_rts2Type v OR
       ((RTS2_TYPE_MASK OR RTS2_VWHEN_MASK OR RTS2_VWHEN_RECORD_CHANGE OR RTS2_VALUE_DEVPREFIX OR RTS2_VALUE_DEBUG
         OR RTS2_FITS_HEADERS OR RTS2_VALUE_WRITABLE OR RTS2_VALUE_NOTNULL OR RTS2_VALUE_ERRORMASK
         OR RTS2_VALUE_AUTOSAVE) AND flags)\<rparr>"

text \<open>The constructor of \<open>Value\<close> and those of the classes.\<close>

definition new_Value :: "string \<Rightarrow> string \<Rightarrow> bool \<Rightarrow> rts2_status \<Rightarrow> value_data \<Rightarrow> rts2_value" where
  "new_Value n d writeToFits flags data =
     (let v = \<lparr>v_name = n, v_description = d, v_rts2Type = 0, v_data = data\<rparr>;
          v1 = (if writeToFits then setWriteToFits v else v)
      in setValueFlags flags v1)"

definition add_type :: "rts2_status \<Rightarrow> rts2_value \<Rightarrow> rts2_value" where
  "add_type t v = v\<lparr>v_rts2Type := v_rts2Type v OR t\<rparr>"

definition new_ValueString :: "string \<Rightarrow> string \<Rightarrow> bool \<Rightarrow> rts2_status \<Rightarrow> rts2_value" where
  "new_ValueString n d w flags = add_type RTS2_VALUE_STRING (new_Value n d w flags (VString ''''))"

definition INT_MIN :: int where "INT_MIN = - (2 ^ 31)"

definition new_ValueInteger :: "string \<Rightarrow> string \<Rightarrow> bool \<Rightarrow> rts2_status \<Rightarrow> rts2_value" where
  "new_ValueInteger n d w flags = add_type RTS2_VALUE_INTEGER
     (new_Value n d w flags (VInteger (if flags AND RTS2_VALUE_NOTNULL \<noteq> 0 then INT_MIN else 0)))"

definition set_type :: "rts2_status \<Rightarrow> rts2_value \<Rightarrow> rts2_value" where
  "set_type t v = v\<lparr>v_rts2Type := (NOT RTS2_VALUE_MASK AND v_rts2Type v) OR t\<rparr>"

text \<open>The base constructor leaves 0 or \<open>INT_MIN\<close>, so setting 2 (unknown) marks the value changed.\<close>

definition new_ValueBool :: "string \<Rightarrow> string \<Rightarrow> bool \<Rightarrow> rts2_status \<Rightarrow> rts2_value" where
  "new_ValueBool n d w flags = (changed (set_type RTS2_VALUE_BOOL (new_ValueInteger n d w flags)))\<lparr>v_data := VBool 2\<rparr>"

definition new_ValueSelection :: "string \<Rightarrow> string \<Rightarrow> bool \<Rightarrow> rts2_status \<Rightarrow> rts2_value" where
  "new_ValueSelection n d w flags = (set_type RTS2_VALUE_SELECTION (new_ValueInteger n d w flags))\<lparr>v_data :=
     VSelection (if flags AND RTS2_VALUE_NOTNULL \<noteq> 0 then INT_MIN else 0) []\<rparr>"

definition new_ValueLong :: "string \<Rightarrow> string \<Rightarrow> bool \<Rightarrow> rts2_status \<Rightarrow> rts2_value" where
  "new_ValueLong n d w flags = add_type RTS2_VALUE_LONGINT (new_Value n d w flags (VLong 0))"

definition new_StringArray :: "string \<Rightarrow> string \<Rightarrow> bool \<Rightarrow> rts2_status \<Rightarrow> rts2_value" where
  "new_StringArray n d w flags = add_type (RTS2_VALUE_ARRAY OR RTS2_VALUE_STRING) (new_Value n d w flags (VStringArray []))"

definition new_IntegerArray :: "string \<Rightarrow> string \<Rightarrow> bool \<Rightarrow> rts2_status \<Rightarrow> rts2_value" where
  "new_IntegerArray n d w flags = add_type (RTS2_VALUE_ARRAY OR RTS2_VALUE_INTEGER) (new_Value n d w flags (VIntegerArray []))"

definition new_BoolArray :: "string \<Rightarrow> string \<Rightarrow> bool \<Rightarrow> rts2_status \<Rightarrow> rts2_value" where
  "new_BoolArray n d w flags =
     (let v = new_IntegerArray n d w flags
      in v\<lparr>v_rts2Type := (v_rts2Type v AND NOT RTS2_VALUE_INTEGER) OR RTS2_VALUE_BOOL, v_data := VBoolArray []\<rparr>)"

section \<open>Reading\<close>

text \<open>\<open>operator<<\<close> of a list: one blank between the elements.\<close>

fun unwords :: "string list \<Rightarrow> string" where
  "unwords [] = []"
| "unwords [w] = w"
| "unwords (w # ws) = w @ CHR '' '' # unwords ws"

definition quote_if_blank :: "string \<Rightarrow> string" where
  "quote_if_blank s = (if CHR '' '' \<in> set s then CHR ''\"'' # s @ [CHR ''\"''] else s)"

definition StringArray_getValue :: "string list \<Rightarrow> string" where [simp]:
  "StringArray_getValue ss =
     unwords (map quote_if_blank ss)"

definition IntegerArray_getValue :: "int list \<Rightarrow> string" where [simp]:
  "IntegerArray_getValue is =
     unwords (map show_int is)"

definition getValue :: "rts2_value \<Rightarrow> string" where
  "getValue v = (case v_data v of
       VString s \<Rightarrow> s
     | VInteger i \<Rightarrow> show_int i
     | VBool i \<Rightarrow> show_int i
     | VSelection i sel \<Rightarrow> show_int i
     | VLong i \<Rightarrow> show_int i
     | VStringArray ss \<Rightarrow> StringArray_getValue ss
     | VIntegerArray is \<Rightarrow> IntegerArray_getValue is
     | VBoolArray is \<Rightarrow> IntegerArray_getValue is)"

definition getValueInteger :: "rts2_value \<Rightarrow> int" where
  "getValueInteger v = (case v_data v of
       VInteger i \<Rightarrow> i | VBool i \<Rightarrow> i | VSelection i sel \<Rightarrow> i | VLong i \<Rightarrow> to_int32 i | _ \<Rightarrow> -1)"

definition getValueLong :: "rts2_value \<Rightarrow> int" where
  "getValueLong v = (case v_data v of VLong i \<Rightarrow> i | _ \<Rightarrow> getValueInteger v)"

definition getValueBool :: "rts2_value \<Rightarrow> bool" where
  "getValueBool v \<longleftrightarrow> getValueInteger v = 1"

definition getSelName :: "string list \<Rightarrow> int \<Rightarrow> string" where
  "getSelName sel index = (if index < 0 \<or> nat index \<ge> length sel then ''UNK'' else sel ! nat index)"

definition getDisplayValue_sel :: "rts2_value \<Rightarrow> string" where
  "getDisplayValue_sel v = (case v_data v of VSelection i sel \<Rightarrow> getSelName sel i | _ \<Rightarrow> getValue v)"

text \<open>The first choice with the name, -2 when there is none.\<close>

fun sel_index :: "string \<Rightarrow> string list \<Rightarrow> int \<Rightarrow> int" where
  "sel_index n [] i = -2"
| "sel_index n (x # xs) i = (if x = n then i else sel_index n xs (i + 1))"

definition getSelIndex :: "string \<Rightarrow> string list \<Rightarrow> int" where
  "getSelIndex n sel = sel_index n sel 0"

definition checkNotNull :: "rts2_value \<Rightarrow> int" where
  "checkNotNull v = (case v_data v of
       VString s \<Rightarrow> if length s > 0 then 0 else 1
     | VInteger i \<Rightarrow> if i \<noteq> INT_MIN then 0 else 1
     | VBool i \<Rightarrow> if i \<noteq> INT_MIN then 0 else 1
     | VSelection i sel \<Rightarrow> if i \<noteq> INT_MIN then 0 else 1
     | _ \<Rightarrow> 1)"

section \<open>Setting\<close>

abbreviation with_data :: "value_data \<Rightarrow> rts2_value \<Rightarrow> rts2_value" where
  "with_data d v \<equiv> v\<lparr>v_data := d\<rparr>"

text \<open>The virtual \<open>setValueInteger\<close>; for a long value it ends in \<open>setValueLong\<close>.\<close>

definition setValueLong :: "int \<Rightarrow> rts2_value \<Rightarrow> rts2_value" where
  "setValueLong n v = (if v_data v \<noteq> VLong n then with_data (VLong n) (changed v) else v)"

definition setValueInteger :: "int \<Rightarrow> rts2_value \<Rightarrow> int \<times> rts2_value" where
  "setValueInteger n v = (case v_data v of
       VString s \<Rightarrow> (0, changed (with_data (VString (show_int n)) v))
     | VInteger i \<Rightarrow> (0, if i \<noteq> n then with_data (VInteger n) (changed v) else v)
     | VBool i \<Rightarrow> (0, if i \<noteq> n then with_data (VBool n) (changed v) else v)
     | VSelection i sel \<Rightarrow>
         if n < 0 \<or> nat n \<ge> length sel then (-1, v)
         else (0, if i \<noteq> n then with_data (VSelection n sel) (changed v) else v)
     | VLong i \<Rightarrow> (0, setValueLong n v)
     | _ \<Rightarrow> (-1, v))"

definition setValueBool :: "bool \<Rightarrow> rts2_value \<Rightarrow> rts2_value" where
  "setValueBool b v =
     (let v1 = (if (if b then 1 else 0) \<noteq> getValueInteger v then changed v else v)
      in snd (setValueInteger (if b then 1 else 0) v1))"

definition atoi :: "string \<Rightarrow> int" where
  "atoi s = to_int32 (fst (strtol s))"

text \<open>
  The loop over the words that stops at the first one that is no boolean, having pushed those
  before it.
\<close>

fun push_bools :: "int list \<Rightarrow> string list \<Rightarrow> int \<times> int list" where
  "push_bools acc [] = (0, acc)"
| "push_bools acc (w # ws) =
     (case charToBool w of None \<Rightarrow> (-1, acc) | Some b \<Rightarrow> push_bools (acc @ [if b then 1 else 0]) ws)"

text \<open>The arrays of numbers append the words to what they hold.\<close>

definition ValueString_setValueCharArr :: "string \<Rightarrow> string \<Rightarrow> rts2_value \<Rightarrow> int \<times> rts2_value" where [simp]:
  "ValueString_setValueCharArr t s v =
     (0, with_data (VString t) (if s \<noteq> t then changed v else v))"

definition ValueInteger_setValueCharArr :: "string \<Rightarrow> rts2_value \<Rightarrow> int \<times> rts2_value" where [simp]:
  "ValueInteger_setValueCharArr t v =
     setValueInteger (atoi t) v"

definition ValueBool_setValueCharArr :: "string \<Rightarrow> rts2_value \<Rightarrow> int \<times> rts2_value" where [simp]:
  "ValueBool_setValueCharArr t v =
     (case charToBool t of None \<Rightarrow> (-1, v) | Some b \<Rightarrow> (0, setValueBool b v))"

definition ValueSelection_setValueCharArr :: "string \<Rightarrow> string list \<Rightarrow> rts2_value \<Rightarrow> int \<times> rts2_value" where [simp]:
  "ValueSelection_setValueCharArr t sel v =
     (if snd (strtol t) = [] then setValueInteger (to_int32 (fst (strtol t))) v
      else let k = getSelIndex t sel in if k < 0 then (-1, v) else setValueInteger k v)"

definition ValueLong_setValueCharArr :: "string \<Rightarrow> rts2_value \<Rightarrow> int \<times> rts2_value" where [simp]:
  "ValueLong_setValueCharArr t v =
     (0, setValueLong (fst (strtol t)) v)"

definition StringArray_setValueCharArr :: "string \<Rightarrow> rts2_value \<Rightarrow> int \<times> rts2_value" where [simp]:
  "StringArray_setValueCharArr t v =
     (0, changed (with_data (VStringArray (split_blank t)) v))"

definition IntegerArray_setValueCharArr :: "string \<Rightarrow> int list \<Rightarrow> rts2_value \<Rightarrow> int \<times> rts2_value" where [simp]:
  "IntegerArray_setValueCharArr t is v =
     (0, changed (with_data (VIntegerArray (is @ map atoi (split_blank t))) v))"

definition BoolArray_setValueCharArr :: "string \<Rightarrow> int list \<Rightarrow> rts2_value \<Rightarrow> int \<times> rts2_value" where [simp]:
  "BoolArray_setValueCharArr t is v =
     (let (r, bs) = push_bools is (split_blank t); v1 = with_data (VBoolArray bs) v
      in (r, if r = 0 then changed v1 else v1))"

definition setValueCharArr :: "string \<Rightarrow> rts2_value \<Rightarrow> int \<times> rts2_value" where
  "setValueCharArr t v = (case v_data v of
       VString s \<Rightarrow> ValueString_setValueCharArr t s v
     | VInteger i \<Rightarrow> ValueInteger_setValueCharArr t v
     | VBool i \<Rightarrow> ValueBool_setValueCharArr t v
     | VSelection i sel \<Rightarrow> ValueSelection_setValueCharArr t sel v
     | VLong i \<Rightarrow> ValueLong_setValueCharArr t v
     | VStringArray ss \<Rightarrow> StringArray_setValueCharArr t v
     | VIntegerArray is \<Rightarrow> IntegerArray_setValueCharArr t is v
     | VBoolArray is \<Rightarrow> BoolArray_setValueCharArr t is v)"

text \<open>
  The loop \<open>while (!paramEnd ()) { paramNext... }\<close> of the arrays: success, the elements read,
  the rest of the line.
\<close>

function read_list :: "string \<Rightarrow> (string \<Rightarrow> 'a option) \<Rightarrow> 'a list \<Rightarrow> string \<Rightarrow> bool \<times> 'a list \<times> string" where
  "read_list delims conv acc b =
     (case paramEnd b of
        (True, r) \<Rightarrow> (True, acc, r)
      | (False, r) \<Rightarrow>
          (case paramNextString delims r of
             (None, r') \<Rightarrow> (False, acc, r')
           | (Some s, r') \<Rightarrow>
               (case conv s of
                  None \<Rightarrow> (False, acc, r')
                | Some x \<Rightarrow> read_list delims conv (acc @ [x]) r')))"
  by pat_completeness auto
termination
  by (relation "measure (\<lambda>(delims, conv, acc, b). length b)")
    (auto simp: paramEnd_def Let_def dest!: sym [of _ "paramNextString _ _"] paramNextString_shorter
      intro: less_le_trans length_dropWhile_le)

declare read_list.simps [simp del]

definition int_token :: "string \<Rightarrow> int option" where
  "int_token s = (let (v, e) = strtol s in if e \<noteq> [] then None else Some (to_int32 v))"

definition bool_token :: "string \<Rightarrow> int option" where
  "bool_token s = map_option (\<lambda>b. if b then 1 else 0) (charToBool s)"

text \<open>\<open>setValue (Connection *)\<close> reads the parameters \<open>b\<close>: code, value, rest of the line.\<close>

definition end_or_fail :: "int \<times> rts2_value \<Rightarrow> int \<times> rts2_value" where
  "end_or_fail rv = (if fst rv \<noteq> 0 then (-2, snd rv) else (0, snd rv))"

definition ValueString_setValue :: "string \<Rightarrow> rts2_value \<Rightarrow> int \<times> rts2_value" where [simp]:
  "ValueString_setValue b v =
     (case paramNextString [] b of
        (Some t, r) \<Rightarrow> if fst (paramEnd r) then (0, snd (setValueCharArr t v)) else (-2, v)
      | (None, r) \<Rightarrow> (-2, v))"

definition ValueInteger_setValue :: "string \<Rightarrow> int \<Rightarrow> rts2_value \<Rightarrow> int \<times> rts2_value" where [simp]:
  "ValueInteger_setValue b i v =
     (case paramNextInteger b of
        (Some n, r) \<Rightarrow> if fst (paramEnd r) then (0, with_data (VInteger n) (if i \<noteq> n then changed v else v)) else (-2, v)
      | (None, r) \<Rightarrow> (-2, v))"

definition ValueBool_setValue :: "string \<Rightarrow> rts2_value \<Rightarrow> int \<times> rts2_value" where [simp]:
  "ValueBool_setValue b v =
     (case paramNextString [] b of
        (Some t, r) \<Rightarrow> if fst (paramEnd r) then end_or_fail (setValueCharArr t v) else (-2, v)
      | (None, r) \<Rightarrow> (-2, v))"

definition ValueSelection_setValue :: "string \<Rightarrow> rts2_value \<Rightarrow> int \<times> rts2_value" where [simp]:
  "ValueSelection_setValue b v =
     (case paramNextString [] b of
        (Some t, r) \<Rightarrow> if fst (paramEnd r) then end_or_fail (setValueCharArr t v) else (-2, v)
      | (None, r) \<Rightarrow> (-2, v))"

definition ValueLong_setValue :: "string \<Rightarrow> int \<Rightarrow> rts2_value \<Rightarrow> int \<times> rts2_value" where [simp]:
  "ValueLong_setValue b i v =
     (case paramNextLong b of
        (Some n, r) \<Rightarrow> if fst (paramEnd r) then (0, with_data (VLong n) (if i \<noteq> n then changed v else v)) else (-2, v)
      | (None, r) \<Rightarrow> (-2, v))"

definition StringArray_setValue :: "string \<Rightarrow> rts2_value \<Rightarrow> int \<times> rts2_value" where [simp]:
  "StringArray_setValue b v =
     (case read_list [] Some [] b of
        (True, ws, r) \<Rightarrow> (0, changed (with_data (VStringArray ws) v))
      | (False, ws, r) \<Rightarrow> (-2, with_data (VStringArray ws) v))"

definition IntegerArray_setValue :: "string \<Rightarrow> rts2_value \<Rightarrow> int \<times> rts2_value" where [simp]:
  "IntegerArray_setValue b v =
     (case read_list '','' int_token [] (unquoteRest b) of
        (True, ns, r) \<Rightarrow> (0, changed (with_data (VIntegerArray ns) v))
      | (False, ns, r) \<Rightarrow> (-2, with_data (VIntegerArray ns) v))"

definition BoolArray_setValue :: "string \<Rightarrow> rts2_value \<Rightarrow> int \<times> rts2_value" where [simp]:
  "BoolArray_setValue b v =
     (case read_list [] bool_token [] (unquoteRest b) of
        (True, ns, r) \<Rightarrow> (0, changed (with_data (VBoolArray ns) v))
      | (False, ns, r) \<Rightarrow> (-2, with_data (VBoolArray ns) v))"

definition setValue_conn :: "string \<Rightarrow> rts2_value \<Rightarrow> int \<times> rts2_value" where
  "setValue_conn b v = (case v_data v of
       VString s \<Rightarrow> ValueString_setValue b v
     | VInteger i \<Rightarrow> ValueInteger_setValue b i v
     | VBool i \<Rightarrow> ValueBool_setValue b v
     | VSelection i sel \<Rightarrow> ValueSelection_setValue b v
     | VLong i \<Rightarrow> ValueLong_setValue b i v
     | VStringArray ss \<Rightarrow> StringArray_setValue b v
     | VIntegerArray is \<Rightarrow> IntegerArray_setValue b v
     | VBoolArray is \<Rightarrow> BoolArray_setValue b v)"

section \<open>Operations on two values\<close>

definition to_int64 :: "int \<Rightarrow> int" where
  "to_int64 i = signed_take_bit 63 i"

text \<open>
  The loop of the operation \<open>-\<close> of a selection, \<open>while (new_val < 0) new_val += values.size ()\<close>:
  it does not end when there are no choices.
\<close>

partial_function (option) sel_wrap :: "int \<Rightarrow> int \<Rightarrow> int option" where
  "sel_wrap n k = (if n < 0 then sel_wrap (to_int32 (n + k)) k else Some n)"

text \<open>
  \<open>doOpValue\<close> of the new value against the old one. \<open>None\<close> is a call that does not come back
  (the loop above) or divides by zero. The sum of a selection is taken modulo the number of
  choices as \<open>size_t\<close>.
\<close>

definition base_doOpValue :: "char \<Rightarrow> rts2_value \<Rightarrow> int \<times> rts2_value" where
  "base_doOpValue op v = (if op = CHR ''='' then 0 else -1, v)"

definition integer_doOpValue :: "char \<Rightarrow> rts2_value \<Rightarrow> rts2_value \<Rightarrow> int \<times> rts2_value" where
  "integer_doOpValue op v old =
     (if op = CHR ''+'' then setValueInteger (to_int32 (getValueInteger old + getValueInteger v)) v
      else if op = CHR ''-'' then setValueInteger (to_int32 (getValueInteger old - getValueInteger v)) v
      else if op = CHR ''='' then setValueInteger (getValueInteger v) v
      else base_doOpValue op v)"

definition ValueSelection_doOpValue :: "char \<Rightarrow> int \<Rightarrow> string list \<Rightarrow> rts2_value \<Rightarrow> rts2_value \<Rightarrow> (int \<times> rts2_value) option" where [simp]:
  "ValueSelection_doOpValue op i sel v old =
     (if op = CHR ''+'' then
        (if sel = [] then None
         else Some (setValueInteger
           (to_int32 ((to_int32 (getValueInteger old + i) mod 2 ^ 64) mod int (length sel))) v))
      else if op = CHR ''-'' then
        map_option (\<lambda>n. setValueInteger n v) (sel_wrap (to_int32 (getValueInteger old - i)) (int (length sel)))
      else Some (integer_doOpValue op v old))"

definition ValueLong_doOpValue :: "char \<Rightarrow> int \<Rightarrow> rts2_value \<Rightarrow> rts2_value \<Rightarrow> int \<times> rts2_value" where [simp]:
  "ValueLong_doOpValue op i v old =
     (if op = CHR ''+'' then (0, setValueLong (to_int64 (getValueLong old + i)) v)
      else if op = CHR ''-'' then (0, setValueLong (to_int64 (getValueLong old - i)) v)
      else if op = CHR ''='' then (0, setValueLong i v)
      else base_doOpValue op v)"

definition doOpValue :: "char \<Rightarrow> rts2_value \<Rightarrow> rts2_value \<Rightarrow> (int \<times> rts2_value) option" where
  "doOpValue op v old = (case v_data v of
       VInteger i \<Rightarrow> Some (integer_doOpValue op v old)
     | VBool i \<Rightarrow> Some (integer_doOpValue op v old)
     | VSelection i sel \<Rightarrow> ValueSelection_doOpValue op i sel v old
     | VLong i \<Rightarrow> Some (ValueLong_doOpValue op i v old)
     | _ \<Rightarrow> Some (base_doOpValue op v))"

definition IntegerArray_setFromValue :: "rts2_value \<Rightarrow> rts2_value \<Rightarrow> rts2_value" where [simp]:
  "IntegerArray_setFromValue new v =
     (case v_data new of
        VIntegerArray ns \<Rightarrow> changed (with_data (VIntegerArray ns) v)
      | _ \<Rightarrow> snd (setValueCharArr (getValue new) v))"

definition BoolArray_setFromValue :: "rts2_value \<Rightarrow> rts2_value \<Rightarrow> rts2_value" where [simp]:
  "BoolArray_setFromValue new v =
     (case v_data new of
        VBoolArray ns \<Rightarrow> changed (with_data (VBoolArray ns) v)
      | _ \<Rightarrow> snd (setValueCharArr (getValue new) v))"

definition setFromValue :: "rts2_value \<Rightarrow> rts2_value \<Rightarrow> rts2_value" where
  "setFromValue new v = (case v_data v of
       VString s \<Rightarrow> snd (setValueCharArr (getValue new) v)
     | VInteger i \<Rightarrow> snd (setValueInteger (getValueInteger new) v)
     | VBool i \<Rightarrow> snd (setValueInteger (getValueInteger new) v)
     | VSelection i sel \<Rightarrow> snd (setValueInteger (getValueInteger new) v)
     | VLong i \<Rightarrow> setValueLong (getValueLong new) v
     | VStringArray ss \<Rightarrow> snd (setValueCharArr (getValue new) v)
     | VIntegerArray is \<Rightarrow> IntegerArray_setFromValue new v
     | VBoolArray is \<Rightarrow> BoolArray_setFromValue new v)"

definition isEqual :: "rts2_value \<Rightarrow> rts2_value \<Rightarrow> bool" where
  "isEqual v other = (case v_data v of
       VString s \<Rightarrow> s = getValue other
     | VInteger i \<Rightarrow> i = getValueInteger other
     | VBool i \<Rightarrow> i = getValueInteger other
     | VSelection i sel \<Rightarrow> i = getValueInteger other
     | VLong i \<Rightarrow> i = getValueLong other
     | VStringArray ss \<Rightarrow> getValue v = getValue other
     | VIntegerArray is \<Rightarrow> v_data other = VIntegerArray is
     | VBoolArray is \<Rightarrow> v_data other = VBoolArray is)"

text \<open>\<open>setValues\<close> of the arrays writes one parameter at every index; a write outside the vector is None.\<close>

fun write_all :: "int list \<Rightarrow> 'a \<Rightarrow> 'a list \<Rightarrow> 'a list option" where
  "write_all [] x xs = Some xs"
| "write_all (i # is) x xs = (if 0 \<le> i \<and> nat i < length xs then write_all is x (xs[nat i := x]) else None)"

definition StringArray_setValues :: "int list \<Rightarrow> string \<Rightarrow> string list \<Rightarrow> rts2_value \<Rightarrow> (int \<times> rts2_value) option" where [simp]:
  "StringArray_setValues index b ss v =
     (case paramNextString [] b of
        (Some t, r) \<Rightarrow> if fst (paramEnd r)
          then map_option (\<lambda>xs. (0, changed (with_data (VStringArray xs) v))) (write_all index t ss) else Some (-2, v)
      | (None, r) \<Rightarrow> Some (-2, v))"

definition IntegerArray_setValues :: "int list \<Rightarrow> string \<Rightarrow> int list \<Rightarrow> rts2_value \<Rightarrow> (int \<times> rts2_value) option" where [simp]:
  "IntegerArray_setValues index b is v =
     (case paramNextInteger b of
        (Some n, r) \<Rightarrow> if fst (paramEnd r)
          then map_option (\<lambda>xs. (0, changed (with_data (VIntegerArray xs) v))) (write_all index n is) else Some (-2, v)
      | (None, r) \<Rightarrow> Some (-2, v))"

definition BoolArray_setValues :: "int list \<Rightarrow> string \<Rightarrow> int list \<Rightarrow> rts2_value \<Rightarrow> (int \<times> rts2_value) option" where [simp]:
  "BoolArray_setValues index b is v =
     (case paramNextString [] b of
        (Some t, r) \<Rightarrow> if fst (paramEnd r)
          then (case charToBool t of
              None \<Rightarrow> Some (-2, v)
            | Some x \<Rightarrow> map_option (\<lambda>xs. (0, changed (with_data (VBoolArray xs) v)))
                (write_all index (if x then 1 else 0) is)) else Some (-2, v)
      | (None, r) \<Rightarrow> Some (-2, v))"

definition setValues :: "int list \<Rightarrow> string \<Rightarrow> rts2_value \<Rightarrow> (int \<times> rts2_value) option" where
  "setValues index b v = (case v_data v of
       VStringArray ss \<Rightarrow> StringArray_setValues index b ss v
     | VIntegerArray is \<Rightarrow> IntegerArray_setValues index b is v
     | VBoolArray is \<Rightarrow> BoolArray_setValues index b is v
     | _ \<Rightarrow> Some (-2, v))"

definition array_size :: "rts2_value \<Rightarrow> nat" where
  "array_size v = (case v_data v of
       VStringArray ss \<Rightarrow> length ss | VIntegerArray is \<Rightarrow> length is | VBoolArray is \<Rightarrow> length is | _ \<Rightarrow> 0)"

section \<open>What is sent is what is set\<close>

definition quoted :: "string \<Rightarrow> string" where
  "quoted s = CHR ''\"'' # s @ [CHR ''\"'']"

text \<open>The part of the message with a value that stands behind its name.\<close>

definition wire_text :: "rts2_value \<Rightarrow> string" where
  "wire_text v = (case v_data v of VString s \<Rightarrow> quoted s | _ \<Rightarrow> getValue v)"

text \<open>Words an array of strings can carry: no quotes, not empty, no white space but the blank.\<close>

definition good_word :: "string \<Rightarrow> bool" where
  "good_word w \<longleftrightarrow> w \<noteq> [] \<and> CHR ''\"'' \<notin> set w \<and> hd w \<noteq> CHR 0x27 \<and> (\<forall>c \<in> set w. isspace c \<longrightarrow> c = CHR '' '')"

lemma read_list_blank: "isspace c \<Longrightarrow> read_list ds f acc (c # b) = read_list ds f acc b"
  by (subst (1 2) read_list.simps) (simp add: paramEnd_def)

lemma read_list_Nil [simp]: "read_list ds f acc [] = (True, acc, [])"
  by (subst read_list.simps) (simp add: paramEnd_def)

lemma read_list_token:
  assumes "w \<noteq> []" "\<not> isspace (hd w)" "paramNextString ds (w @ r) = (Some s, r')" "f s = Some x"
  shows "read_list ds f acc (w @ r) = read_list ds f (acc @ [x]) r'"
proof -
  have "dropWhile isspace (w @ r) = w @ r" using assms(1,2) by (cases w) simp_all
  then show ?thesis using assms by (subst read_list.simps) (simp add: paramEnd_def)
qed

lemma read_list_drop_blank: "r = [] \<or> r = CHR '' '' # t \<Longrightarrow> read_list ds f acc (drop 1 r) = read_list ds f acc r"
  by (auto simp: read_list_blank)

lemma read_list_unwords:
  assumes step: "\<And>x acc r. x \<in> set xs \<Longrightarrow> r = [] \<or> hd r = CHR '' '' \<Longrightarrow>
      read_list ds f acc (sh x @ r) = read_list ds f (acc @ [x]) r"
  shows "read_list ds f acc (unwords (map sh xs)) = (True, acc @ xs, [])"
  using assms
proof (induction xs arbitrary: acc)
  case Nil
  then show ?case by simp
next
  case (Cons x xs)
  show ?case
  proof (cases xs)
    case Nil
    then show ?thesis using Cons.prems [of x "[]"] by simp
  next
    case (Cons y ys)
    then have u: "unwords (map sh (x # xs)) = sh x @ CHR '' '' # unwords (map sh xs)" by simp
    show ?thesis
      unfolding u using Cons.prems [of x "CHR '' '' # unwords (map sh xs)"] Cons.IH [of "acc @ [x]"] Cons.prems
      by (simp add: read_list_blank)
  qed
qed

lemma int_token_show: "- (2 ^ 31) \<le> i \<Longrightarrow> i < 2 ^ 31 \<Longrightarrow> int_token (show_int i) = Some i"
  by (simp add: int_token_def strtol_show_int clamp64_id to_int32_id)

lemma read_show_int:
  assumes "r = [] \<or> hd r = CHR '' ''" "- (2 ^ 31) \<le> i" "i < 2 ^ 31"
  shows "read_list '','' int_token acc (show_int i @ r) = read_list '','' int_token (acc @ [i]) r"
proof -
  have "paramNextString '','' (show_int i @ r) = (Some (show_int i), drop 1 r)"
    using assms(1) show_int_chars [of _ i] hd_in_set [of "show_int i"] by (intro paramNextString_word) auto
  then have "read_list '','' int_token acc (show_int i @ r) = read_list '','' int_token (acc @ [i]) (drop 1 r)"
    using int_token_show [OF assms(2,3)] show_int_chars(1) [of "hd (show_int i)" i] hd_in_set [of "show_int i"]
    by (intro read_list_token) simp_all
  then show ?thesis using assms(1) by (cases r) (auto simp: read_list_blank)
qed

lemma read_quoted_word:
  assumes "r = [] \<or> hd r = CHR '' ''" "good_word w"
  shows "read_list [] Some acc (quote_if_blank w @ r) = read_list [] Some (acc @ [w]) r"
proof (cases "CHR '' '' \<in> set w")
  case True
  have "read_list [] Some acc ((CHR ''\"'' # w @ [CHR ''\"'']) @ r) = read_list [] Some (acc @ [w]) r"
    using assms(2) paramNextString_quoted [of w "[]" r] by (intro read_list_token) (simp_all add: good_word_def)
  with True show ?thesis by (simp add: quote_if_blank_def)
next
  case False
  then have ns: "\<forall>c \<in> set w. \<not> isspace c" using assms(2) by (auto simp: good_word_def)
  have "hd w \<noteq> CHR ''\"''" using assms(2) hd_in_set [of w] unfolding good_word_def by metis
  then have "paramNextString [] (w @ r) = (Some w, drop 1 r)"
    using assms ns by (intro paramNextString_word) (auto simp: good_word_def)
  then have "read_list [] Some acc (w @ r) = read_list [] Some (acc @ [w]) (drop 1 r)"
    using assms ns by (intro read_list_token) (auto simp: good_word_def)
  then show ?thesis using assms(1) False by (cases r) (auto simp: read_list_blank quote_if_blank_def)
qed

lemma unwords_hd: "xs \<noteq> [] \<Longrightarrow> hd xs \<noteq> [] \<Longrightarrow> hd (unwords xs) = hd (hd xs)"
  by (cases xs rule: unwords.cases) simp_all

lemma show_int_apostrophe: "c \<in> set (show_int i) \<Longrightarrow> c \<noteq> CHR 0x27"
  using show_nat_digits [of "nat i"] show_nat_digits [of "nat (- i)"]
  by (auto simp: show_int_def isdigit_def split: if_splits)

lemma unquoteRest_ints: "unquoteRest (unwords (map show_int is)) = unwords (map show_int is)"
proof (cases "is")
  case (Cons i js)
  let ?t = "unwords (map show_int is)"
  have hd: "hd ?t = hd (show_int i)" using Cons by (subst unwords_hd) simp_all
  have ne: "?t \<noteq> []" using Cons by (cases js) simp_all
  have "hd (show_int i) \<in> set (show_int i)" by (rule hd_in_set) simp
  then have h: "\<not> isspace (hd ?t)" "hd ?t \<noteq> CHR ''\"''" "hd ?t \<noteq> CHR 0x27"
    unfolding hd using show_int_chars show_int_apostrophe by blast+
  then show ?thesis using ne by (cases ?t) (simp_all add: unquoteRest_def)
qed (simp add: unquoteRest_def)

definition int32_range :: "int \<Rightarrow> bool" where "int32_range i \<longleftrightarrow> - (2 ^ 31) \<le> i \<and> i < 2 ^ 31"
definition int64_range :: "int \<Rightarrow> bool" where "int64_range i \<longleftrightarrow> - (2 ^ 63) \<le> i \<and> i < 2 ^ 63"

text \<open>The value \<open>v\<close> of a peer can be taken over by a value of the same class.\<close>

fun wire_ok :: "value_data \<Rightarrow> value_data \<Rightarrow> bool" where
  "wire_ok (VString _) (VString s) \<longleftrightarrow> CHR ''\"'' \<notin> set s"
| "wire_ok (VInteger _) (VInteger i) \<longleftrightarrow> int32_range i"
| "wire_ok (VBool _) (VBool i) \<longleftrightarrow> i = 0 \<or> i = 1"
| "wire_ok (VSelection _ sel) (VSelection i _) \<longleftrightarrow> 0 \<le> i \<and> i < int (length sel) \<and> int32_range i"
| "wire_ok (VLong _) (VLong i) \<longleftrightarrow> int64_range i"
| "wire_ok (VStringArray _) (VStringArray ws) \<longleftrightarrow> list_all good_word ws"
| "wire_ok (VIntegerArray _) (VIntegerArray is) \<longleftrightarrow> list_all int32_range is"
| "wire_ok (VBoolArray _) (VBoolArray is) \<longleftrightarrow> list_all (\<lambda>i. i = 0 \<or> i = 1) is"
| "wire_ok _ _ \<longleftrightarrow> False"

lemma show_int_bool [simp]: "show_int 0 = ''0''" "show_int 1 = ''1''"
  by code_simp+

lemma bool_tokens [simp]: "charToBool ''1'' = Some True" "charToBool ''0'' = Some False"
  by (simp_all add: charToBool_def strcaseeq_def lower_def)

lemma paramNextString_num:
  "paramNextString [] (show_int i) = (Some (show_int i), [])"
  "paramNextString '','' (show_int i) = (Some (show_int i), [])"
proof -
  have hq: "hd (show_int i) \<noteq> CHR ''\"''" using show_int_chars(3) [of "hd (show_int i)" i] hd_in_set [of "show_int i"] by simp
  show "paramNextString [] (show_int i) = (Some (show_int i), [])"
    using paramNextString_word [of "show_int i" "[]" "[]"] show_int_chars(1) hq by simp
  show "paramNextString '','' (show_int i) = (Some (show_int i), [])"
    using paramNextString_word [of "show_int i" "'',''" "[]"] show_int_chars(1,2) hq by simp
qed

lemma paramNextString_quote: "CHR ''\"'' \<notin> set s \<Longrightarrow> paramNextString ds (quoted s) = (Some s, [])"
  using paramNextString_quoted [of s ds "[]"] by (simp add: quoted_def)

lemma bool_token_show: "i = 0 \<or> i = 1 \<Longrightarrow> bool_token (show_int i) = Some i"
  unfolding bool_token_def by (elim disjE) (simp_all only: show_int_bool bool_tokens option.map if_True if_False)

lemma show_int_word:
  "hd (show_int i) \<noteq> CHR ''\"''" "\<not> isspace (hd (show_int i))"
  "\<forall>c \<in> set (show_int i). \<not> isspace c \<and> c \<notin> set []" "\<forall>c \<in> set (show_int i). \<not> isspace c \<and> c \<notin> set '',''"
  using show_int_chars [of _ i] hd_in_set [of "show_int i"] by auto

lemma read_bool:
  assumes r: "r = [] \<or> hd r = CHR '' ''" and i: "i = 0 \<or> i = 1"
  shows "read_list [] bool_token acc (show_int i @ r) = read_list [] bool_token (acc @ [i]) r"
proof -
  have "paramNextString [] (show_int i @ r) = (Some (show_int i), drop 1 r)"
    using r by (intro paramNextString_word show_int_word show_int_not_Nil) auto
  then have "read_list [] bool_token acc (show_int i @ r) = read_list [] bool_token (acc @ [i]) (drop 1 r)"
    using bool_token_show [OF i] by (rule read_list_token [OF show_int_not_Nil show_int_word(2)])
  then show ?thesis using r by (cases r) (auto simp: read_list_blank)
qed

lemma read_wire_arrays:
  "list_all good_word ws \<Longrightarrow> read_list [] Some [] (unwords (map quote_if_blank ws)) = (True, ws, [])"
  "list_all int32_range is \<Longrightarrow> read_list '','' int_token [] (unwords (map show_int is)) = (True, is, [])"
  "list_all (\<lambda>i. i = 0 \<or> i = 1) is \<Longrightarrow> read_list [] bool_token [] (unwords (map show_int is)) = (True, is, [])"
proof -
  show "list_all good_word ws \<Longrightarrow> read_list [] Some [] (unwords (map quote_if_blank ws)) = (True, ws, [])"
    by (subst read_list_unwords) (simp_all add: read_quoted_word list_all_iff)
  show "list_all int32_range is \<Longrightarrow> read_list '','' int_token [] (unwords (map show_int is)) = (True, is, [])"
    by (subst read_list_unwords) (simp_all add: read_show_int list_all_iff int32_range_def)
  show "list_all (\<lambda>i. i = 0 \<or> i = 1) is \<Longrightarrow> read_list [] bool_token [] (unwords (map show_int is)) = (True, is, [])"
    by (subst read_list_unwords) (simp_all add: read_bool list_all_iff)
qed

lemma num_token [simp]: "int32_range i \<Longrightarrow> paramNextInteger (show_int i) = (Some i, [])"
  "int64_range j \<Longrightarrow> paramNextLong (show_int j) = (Some j, [])"
  by (simp_all add: paramNextInteger_def paramNextLong_def paramNextString_num strtol_show_int int32_range_def
      int64_range_def clamp64_id to_int32_id)

lemma data_changed [simp]: "v_data (changed v) = v_data v"
  by (simp add: changed_def)

lemma data_setValueBool: "v_data v = VBool j \<Longrightarrow> v_data (setValueBool b v) = VBool (if b then 1 else 0)"
  by (simp add: setValueBool_def setValueInteger_def getValueInteger_def Let_def)

lemma data_setSelection:
  assumes "v_data v = VSelection j sel" "0 \<le> i" "i < int (length sel)"
  shows "fst (setValueInteger i v) = 0" "v_data (snd (setValueInteger i v)) = VSelection i sel"
  using assms by (auto simp: setValueInteger_def)

lemma value_wire_copy:
  assumes "wire_ok (v_data u) (v_data v)"
  shows "\<exists>u'. setValue_conn (wire_text v) u = (0, u') \<and> isEqual u' v"
proof (cases "(v_data u, v_data v)" rule: wire_ok.cases)
  case (4 j sel i sel')
  then have i: "0 \<le> i" "i < int (length sel)" "int32_range i" using assms by simp_all
  from 4 have "setValueCharArr (show_int i) u = setValueInteger i u"
    using i(3) by (simp add: setValueCharArr_def strtol_show_int clamp64_id to_int32_id int32_range_def)
  then have "setValue_conn (wire_text v) u = (0, snd (setValueInteger i u))"
    using 4 i data_setSelection [of u j sel i]
    by (simp add: setValue_conn_def wire_text_def getValue_def paramNextString_num paramEnd_Nil end_or_fail_def)
  then show ?thesis using 4 i data_setSelection [of u j sel i] by (simp add: isEqual_def getValueInteger_def)
next
  case (3 j i)
  then have "i = 0 \<or> i = 1" using assms by simp
  with 3 show ?thesis
    using data_setValueBool [of u j True] data_setValueBool [of u j False]
      paramNextString_num(1) [of 0] paramNextString_num(1) [of 1]
    by (auto simp: setValue_conn_def wire_text_def getValue_def paramEnd_Nil end_or_fail_def setValueCharArr_def
        isEqual_def getValueInteger_def)
qed (use assms in \<open>auto simp: setValue_conn_def wire_text_def getValue_def paramNextString_num paramNextString_quote
    paramEnd_Nil setValueCharArr_def isEqual_def getValueInteger_def getValueLong_def read_wire_arrays
    unquoteRest_ints\<close>)

text \<open>A value that is sent to a peer is read there as an equal value, for every class
  modelled: the text written by \<open>send\<close> and \<open>getValue\<close> is what \<open>setValue\<close> accepts.\<close>

theorem value_wire_roundtrip:
  assumes "wire_ok (v_data u) (v_data v)"
  shows "\<exists>u'. setValue_conn (wire_text v) u = (0, u') \<and> isEqual u' v"
  using assms by (rule value_wire_copy)

theorem value_wire_roundtrip_witness:
  "wire_ok (v_data (new_StringArray ''list'' '''' False 0))
     (v_data (new_StringArray ''list'' '''' False 0\<lparr>v_data := VStringArray [''a b'', ''c'']\<rparr>)) \<and>
   (\<exists>u'. setValue_conn (wire_text (new_StringArray ''list'' '''' False 0\<lparr>v_data := VStringArray [''a b'', ''c'']\<rparr>))
      (new_StringArray ''list'' '''' False 0) = (0, u')
      \<and> isEqual u' (new_StringArray ''list'' '''' False 0\<lparr>v_data := VStringArray [''a b'', ''c'']\<rparr>))"
  (is "?ok \<and> ?ex")
proof -
  have d: "v_data (new_StringArray n d w f) = VStringArray []" for n d w f
    by (simp add: new_StringArray_def new_Value_def add_type_def setValueFlags_def setWriteToFits_def Let_def)
  have ok: ?ok by (simp add: d good_word_def isspace_def)
  then show ?thesis using value_wire_roundtrip by blast
qed

section \<open>The operations of a selection\<close>

lemma sel_wrap_mod:
  assumes "- k \<le> n" "n < k" "0 < k" "k < 2 ^ 31"
  shows "sel_wrap n k = Some (n mod k)"
proof (cases "n < 0")
  case True
  then have w: "to_int32 (n + k) = n + k" using assms by (intro to_int32_id) simp_all
  have "sel_wrap (n + k) k = Some (n + k)" using assms(1) by (subst sel_wrap.simps) simp
  moreover have "(n + k) mod k = n + k" using assms(1) True by (intro mod_pos_pos_trivial) simp_all
  then have "n mod k = n + k" by simp
  ultimately show ?thesis using True w by (subst sel_wrap.simps) simp
next
  case False
  then show ?thesis using assms by (subst sel_wrap.simps) simp
qed

text \<open>Adding to or subtracting from a selection that has choices comes back, and walks around
  the choices: the result is the sum or the difference modulo their number.\<close>

theorem selection_operations_wrap:
  assumes "v_data v = VSelection i sel" "getValueInteger old = j"
    and "0 \<le> i" "i < int (length sel)" "0 \<le> j" "j < int (length sel)" "int (length sel) < 2 ^ 30"
  shows "(\<exists>v'. doOpValue (CHR ''+'') v old = Some (0, v') \<and> v_data v' = VSelection ((j + i) mod int (length sel)) sel)
    \<and> (\<exists>v'. doOpValue (CHR ''-'') v old = Some (0, v') \<and> v_data v' = VSelection ((j - i) mod int (length sel)) sel)"
proof
  let ?k = "int (length sel)"
  have k: "0 < ?k" "sel \<noteq> []" using assms(3,4) by auto
  have res: "\<exists>v'. setValueInteger (m mod ?k) v = (0, v') \<and> v_data v' = VSelection (m mod ?k) sel" for m
    using data_setSelection [OF assms(1), of "m mod ?k"] k(1) by (metis pos_mod_bound pos_mod_sign prod.collapse)
  have "to_int32 (j + i) = j + i" using assms(3-7) by (intro to_int32_id) simp_all
  moreover have "(j + i) mod 2 ^ 64 = j + i" using assms(3-7) by (intro mod_pos_pos_trivial) simp_all
  moreover have "to_int32 ((j + i) mod ?k) = (j + i) mod ?k"
  proof (rule to_int32_id)
    have "0 \<le> (j + i) mod ?k" "(j + i) mod ?k < ?k" using k(1) by simp_all
    moreover have "?k < 1073741824" using assms(7) by simp
    ultimately have "- 2147483648 \<le> (j + i) mod ?k" "(j + i) mod ?k < 2147483648" by linarith+
    then show "- (2 ^ 31) \<le> (j + i) mod ?k" "(j + i) mod ?k < 2 ^ 31" by simp_all
  qed
  ultimately show "\<exists>v'. doOpValue (CHR ''+'') v old = Some (0, v') \<and> v_data v' = VSelection ((j + i) mod ?k) sel"
    using res [of "j + i"] k(2) assms(1,2) by (simp add: doOpValue_def)
  have "to_int32 (j - i) = j - i" using assms(3-7) by (intro to_int32_id) simp_all
  moreover have "sel_wrap (j - i) ?k = Some ((j - i) mod ?k)" using assms(3-7) k by (intro sel_wrap_mod) simp_all
  ultimately show "\<exists>v'. doOpValue (CHR ''-'') v old = Some (0, v') \<and> v_data v' = VSelection ((j - i) mod ?k) sel"
    using res [of "j - i"] assms(1,2) by (simp add: doOpValue_def)
qed

theorem selection_operations_wrap_witness:
  "\<exists>v'. doOpValue (CHR ''+'') (new_ValueSelection ''filter'' '''' False 0\<lparr>v_data := VSelection 2 [''r'', ''g'', ''b'']\<rparr>)
       (new_ValueSelection ''filter'' '''' False 0\<lparr>v_data := VSelection 1 [''r'', ''g'', ''b'']\<rparr>) = Some (0, v')
       \<and> v_data v' = VSelection 0 [''r'', ''g'', ''b'']"
proof -
  let ?f = "\<lambda>i. new_ValueSelection ''filter'' '''' False 0\<lparr>v_data := VSelection i [''r'', ''g'', ''b'']\<rparr>"
  have "getValueInteger (?f 1) = 1" by (simp add: getValueInteger_def)
  then have "\<exists>v'. doOpValue (CHR ''+'') (?f 2) (?f 1) = Some (0, v')
      \<and> v_data v' = VSelection ((1 + 2) mod int (length [''r'', ''g'', ''b''])) [''r'', ''g'', ''b'']"
    by (intro conjunct1 [OF selection_operations_wrap]) simp_all
  then show ?thesis by simp
qed

section \<open>Copying a value\<close>

lemma split_blank_skip: "isspace c \<Longrightarrow> split_blank (c # r) = split_blank r"
  by (subst (1 2) split_blank.simps) simp

lemma split_blank_Nil [simp]: "split_blank [] = []"
  by (subst split_blank.simps) simp

lemma split_blank_word:
  assumes "good_word w" "r = [] \<or> hd r = CHR '' ''"
  shows "split_blank (quote_if_blank w @ r) = w # split_blank r"
proof (cases "CHR '' '' \<in> set w")
  case True
  have qn: "CHR ''\"'' \<notin> set w" and ne: "w \<noteq> []" using assms(1) unfolding good_word_def by blast+
  have e: "quote_if_blank w @ r = CHR ''\"'' # w @ CHR ''\"'' # r" using True by (simp add: quote_if_blank_def)
  show ?thesis unfolding e using ne
    by (subst split_blank.simps) (simp add: takeWhile_split [OF qn] dropWhile_split [OF qn])
next
  case False
  then have ns: "\<forall>c \<in> set w. \<not> isspace c" using assms(1) by (auto simp: good_word_def)
  obtain c cs where w: "w = c # cs" "c \<noteq> CHR ''\"''" "c \<noteq> CHR 0x27"
    using assms(1) by (cases w) (auto simp: good_word_def)
  have r: "takeWhile (\<lambda>x. \<not> isspace x) r = []" "dropWhile (\<lambda>x. \<not> isspace x) r = r"
    using assms(2) by (cases r; auto)+
  have e: "quote_if_blank w @ r = c # cs @ r" using False w by (simp add: quote_if_blank_def)
  have c: "\<not> isspace c" "takeWhile (\<lambda>x. \<not> isspace x) (cs @ r) = cs" "dropWhile (\<lambda>x. \<not> isspace x) (cs @ r) = r"
    using ns w r by simp_all
  show ?thesis unfolding e using c w by (subst split_blank.simps) simp
qed

lemma split_blank_unwords:
  "list_all good_word ws \<Longrightarrow> split_blank (unwords (map quote_if_blank ws)) = ws"
proof (induction ws)
  case (Cons w ws)
  show ?case
  proof (cases ws)
    case Nil
    then show ?thesis using Cons.prems split_blank_word [of w "[]"] by simp
  next
    case (Cons x xs)
    then have u: "unwords (map quote_if_blank (w # ws)) = quote_if_blank w @ CHR '' '' # unwords (map quote_if_blank ws)"
      by simp
    show ?thesis unfolding u using Cons.IH Cons.prems by (simp add: split_blank_word split_blank_skip)
  qed
qed simp

text \<open>The values \<open>setFromValue\<close> copies: same class, and what the class can hold.\<close>

fun copy_ok :: "value_data \<Rightarrow> value_data \<Rightarrow> bool" where
  "copy_ok (VString _) (VString _) \<longleftrightarrow> True"
| "copy_ok (VInteger _) (VInteger _) \<longleftrightarrow> True"
| "copy_ok (VBool _) (VBool _) \<longleftrightarrow> True"
| "copy_ok (VSelection _ sel) (VSelection i _) \<longleftrightarrow> 0 \<le> i \<and> i < int (length sel)"
| "copy_ok (VLong _) (VLong _) \<longleftrightarrow> True"
| "copy_ok (VStringArray _) (VStringArray ws) \<longleftrightarrow> list_all good_word ws"
| "copy_ok (VIntegerArray _) (VIntegerArray _) \<longleftrightarrow> True"
| "copy_ok (VBoolArray _) (VBoolArray _) \<longleftrightarrow> True"
| "copy_ok _ _ \<longleftrightarrow> False"

lemma setFromValue_equal:
  assumes "copy_ok (v_data v) (v_data new)"
  shows "isEqual (setFromValue new v) new"
proof (cases "(v_data v, v_data new)" rule: copy_ok.cases)
  case (4 j sel i sel')
  then show ?thesis
    using assms data_setSelection [of v j sel i] by (simp add: setFromValue_def getValueInteger_def isEqual_def)
next
  case (6 us ws)
  then show ?thesis
    using assms by (simp add: setFromValue_def setValueCharArr_def getValue_def isEqual_def split_blank_unwords)
qed (use assms in \<open>auto simp: setFromValue_def setValueCharArr_def setValueInteger_def setValueLong_def
    getValue_def getValueInteger_def getValueLong_def isEqual_def\<close>)

lemma setFromValue_name [simp]: "v_name (setFromValue new v) = v_name v"
  by (simp add: setFromValue_def setValueCharArr_def setValueInteger_def setValueLong_def setValueBool_def changed_def
      Let_def getValueInteger_def split: value_data.split prod.split option.split)

text \<open>A value that was changed is marked, so that it is sent and recorded.\<close>

lemma changed_marks [simp]: "needSend (changed v)" "wasChanged (changed v)" "needSend (with_data d (changed v))"
proof -
  have "(a OR RTS2_VALUE_CHANGED OR RTS2_VALUE_NEED_SEND) AND RTS2_VALUE_NEED_SEND = RTS2_VALUE_NEED_SEND"
    "(a OR RTS2_VALUE_CHANGED OR RTS2_VALUE_NEED_SEND) AND RTS2_VALUE_CHANGED = RTS2_VALUE_CHANGED" for a
    by (rule bit_word_eqI; auto simp: bit_simps)+
  then show "needSend (changed v)" "wasChanged (changed v)" "needSend (with_data d (changed v))"
    by (simp_all add: needSend_def wasChanged_def changed_def) (simp_all add: status_bits)
qed

lemma setFromValue_marks:
  assumes "copy_ok (v_data v) (v_data new)" "\<not> isEqual v new"
  shows "needSend (setFromValue new v)"
proof (cases "(v_data v, v_data new)" rule: copy_ok.cases)
  case (4 j sel i sel')
  then show ?thesis using assms by (auto simp: setFromValue_def setValueInteger_def getValueInteger_def isEqual_def)
next
  case (1 a b)
  then show ?thesis using assms by (auto simp: setFromValue_def setValueCharArr_def getValue_def isEqual_def)
next
  case (6 us ws)
  have "needSend (changed (with_data d v))" for d by (rule changed_marks)
  with 6 show ?thesis by (simp add: setFromValue_def setValueCharArr_def)
qed (use assms in \<open>auto simp: setFromValue_def setValueCharArr_def setValueInteger_def setValueLong_def
    getValueInteger_def getValueLong_def isEqual_def\<close>)

end
