(* ===== verification/Rts2_Connection.thy ===== *)
theory Rts2_Connection
  imports Rts2_Status Rts2_Framing Rts2_Values
begin

text \<open>
  Commands (\<open>lib/rts2/command.cpp\<close>, \<open>include/command.h\<close>) and the part of
  \<open>rts2core::Connection\<close> (\<open>lib/rts2/connection.cpp\<close>) that queues them, sends them when
  the block-of-operation mask allows it, and processes their returns.

  A connection is a record. \<open>cn_write_ok\<close> says whether \<open>write\<close> on the socket succeeds (the
  environment decides); \<open>cn_out\<close> are the messages written, \<open>cn_sent\<close> the calls of
  \<open>Command::send\<close>, each with the block-of-operation state the connection knew, and
  \<open>cn_events\<close> the calls that leave the connection, in order. Logging is left out.
\<close>

named_theorems conn_defs \<open>definitions of the connection operations\<close>

section \<open>Commands\<close>

definition BOP_CIP_MASK :: rts2_status where [status_bits]: "BOP_CIP_MASK = 0x00006000"
definition CIP_NOT_CALLED :: rts2_status where [status_bits]: "CIP_NOT_CALLED = 0x00000000"
definition CIP_WAIT :: rts2_status where [status_bits]: "CIP_WAIT = 0x00002000"
definition CIP_RUN :: rts2_status where [status_bits]: "CIP_RUN = 0x00004000"
definition CIP_RETURN :: rts2_status where [status_bits]: "CIP_RETURN = 0x00006000"
definition RTS2_COMMAND_REQUE :: int where [return_codes]: "RTS2_COMMAND_REQUE = - 5"

datatype login_state = LOGIN_SEND | PASSWORD_SEND | INFO_SEND

text \<open>
  The classes that override \<open>commandReturn*\<close> in this library and in the client; the status
  commands carry their control connection, the login command its state and password.
\<close>

datatype command_class =
    PlainCommand
  | StatusInfoCommand "nat option"
  | LoginCommand login_state string

record command =
  cmd_class :: command_class
  cmd_text :: string
  cmd_bopMask :: rts2_status
  cmd_originator :: "nat option"

definition new_Command :: "string \<Rightarrow> command" where
  "new_Command t = \<lparr>cmd_class = PlainCommand, cmd_text = t, cmd_bopMask = 0, cmd_originator = None\<rparr>"

definition copy_Command :: "command \<Rightarrow> command" where
  "copy_Command c = \<lparr>cmd_class = PlainCommand, cmd_text = cmd_text c, cmd_bopMask = cmd_bopMask c,
     cmd_originator = None\<rparr>"

definition new_CommandStatusInfo :: "nat \<Rightarrow> command" where
  "new_CommandStatusInfo control = \<lparr>cmd_class = StatusInfoCommand (Some control), cmd_text = ''status_info'',
     cmd_bopMask = 0, cmd_originator = None\<rparr>"

definition new_CommandDeviceStatus :: "nat \<Rightarrow> command" where
  "new_CommandDeviceStatus control = \<lparr>cmd_class = StatusInfoCommand (Some control), cmd_text = ''device_status'',
     cmd_bopMask = 0, cmd_originator = None\<rparr>"

definition new_CommandLogin :: "string \<Rightarrow> string \<Rightarrow> string \<Rightarrow> command" where
  "new_CommandLogin login name password = \<lparr>cmd_class = LoginCommand LOGIN_SEND password,
     cmd_text = ''login '' @ login @ '' '' @ name, cmd_bopMask = 0, cmd_originator = None\<rparr>"

definition getStatusCallProgress :: "command \<Rightarrow> rts2_status" where
  "getStatusCallProgress c = cmd_bopMask c AND BOP_CIP_MASK"

definition setStatusCallProgress :: "rts2_status \<Rightarrow> command \<Rightarrow> command" where
  "setStatusCallProgress p c =
     c\<lparr>cmd_bopMask := (cmd_bopMask c AND NOT BOP_CIP_MASK) OR (p AND BOP_CIP_MASK)\<rparr>"

text \<open>A deleted connection is forgotten as originator and as control connection.\<close>

definition cmd_deleteConnection :: "nat \<Rightarrow> command \<Rightarrow> command" where
  "cmd_deleteConnection conn c =
     (let c1 = (if cmd_class c = StatusInfoCommand (Some conn) then c\<lparr>cmd_class := StatusInfoCommand None\<rparr> else c)
      in if cmd_originator c1 = Some conn then c1\<lparr>cmd_originator := None\<rparr> else c1)"

section \<open>Connections\<close>

datatype conn_type = NOT_DEFINED_SERVER | CLIENT_SERVER | DEVICE_SERVER | DEVICE_DEVICE

datatype conn_state = CONN_UNKNOW | CONN_RESOLVING_DEVICE | CONN_CONNECTING | CONN_INPROGRESS
  | CONN_CONNECTED | CONN_BROKEN | CONN_DELETE | CONN_AUTH_PENDING | CONN_AUTH_OK | CONN_AUTH_FAILED

datatype run_status = WAITING | SEND | RETURNING

datatype conn_event =
    EventCommandOK nat command
  | EventCommandFailed nat command
  | UpdateStatusWait nat
  | DeleteAddress int string
  | DeviceReady
  | DeviceIdle
  | MessageReceived "int \<times> int" string int string

record connection =
  cn_id :: nat
  cn_name :: string
  cn_centrald_num :: int
  cn_centrald_id :: int
  cn_key :: int
  cn_conn_state :: conn_state
  cn_type :: conn_type
  cn_sock :: bool
  cn_canDelete :: bool
  cn_serverState :: server_state
  cn_bopState :: server_state
  cn_runningCommand :: "command option"
  cn_runningCommandStatus :: run_status
  cn_commandQue :: "command list"
  cn_commandInProgress :: bool
  cn_connectionTimeout :: int
  cn_lastData :: int
  cn_lastSendReady :: int
  cn_write_ok :: bool
  cn_out :: "string list"
  cn_sent :: "(command \<times> rts2_status) list"
  cn_events :: "conn_event list"
  cn_other_type :: int
  cn_send_all :: bool
  cn_values :: "rts2_value list"

text \<open>The constructor for an accepted socket.\<close>

definition new_Connection :: "nat \<Rightarrow> int \<Rightarrow> connection" where
  "new_Connection i now = \<lparr>cn_id = i, cn_name = [], cn_centrald_num = -1, cn_centrald_id = -1, cn_key = 0,
     cn_conn_state = CONN_CONNECTED, cn_type = NOT_DEFINED_SERVER, cn_sock = True, cn_canDelete = True,
     cn_serverState = new_ServerState, cn_bopState = new_ServerState,
     cn_runningCommand = None, cn_runningCommandStatus = RETURNING, cn_commandQue = [],
     cn_commandInProgress = False, cn_connectionTimeout = 300, cn_lastData = now, cn_lastSendReady = now - 300,
     cn_write_ok = True, cn_out = [], cn_sent = [], cn_events = [],
     cn_other_type = -1, cn_send_all = True, cn_values = []\<rparr>"

definition cn_event :: "conn_event \<Rightarrow> connection \<Rightarrow> connection" where
  "cn_event e c = c\<lparr>cn_events := cn_events c @ [e]\<rparr>"

definition getState :: "connection \<Rightarrow> rts2_status" where
  "getState c = ss_value (cn_serverState c)"

definition getFullBopState :: "connection \<Rightarrow> rts2_status" where
  "getFullBopState c = ss_value (cn_bopState c)"

definition isGoodWeather :: "connection \<Rightarrow> bool" where
  "isGoodWeather c \<longleftrightarrow> st_isGoodWeather (getState c)"

definition canMove :: "connection \<Rightarrow> bool" where
  "canMove c \<longleftrightarrow> st_canMove (getState c)"

definition getBopState :: "connection \<Rightarrow> rts2_status" where
  "getBopState c = st_bopState (getState c)"

definition isConnState :: "connection \<Rightarrow> conn_state \<Rightarrow> bool" where
  "isConnState c s \<longleftrightarrow> cn_conn_state c = s"

definition setKey :: "int \<Rightarrow> connection \<Rightarrow> connection" where
  "setKey k c = (if cn_key c = 0 then c\<lparr>cn_key := k\<rparr> else c)"

definition setName :: "int \<Rightarrow> string \<Rightarrow> connection \<Rightarrow> connection" where
  "setName num n c = c\<lparr>cn_centrald_num := num, cn_name := n\<rparr>"

text \<open>
  \<open>connectionError\<close> calls \<open>setConnState\<close> with \<open>CONN_DELETE\<close> or \<open>CONN_BROKEN\<close>, for which
  that function only stores the state.
\<close>

definition connectionError :: "connection \<Rightarrow> connection" where
  "connectionError c =
     (let c1 = c\<lparr>cn_conn_state := (if cn_canDelete c then CONN_DELETE else CONN_BROKEN), cn_sock := False\<rparr>
      in if cn_name c \<noteq> [] then cn_event (DeleteAddress (cn_centrald_num c) (cn_name c)) c1 else c1)"

definition sendMsg :: "string \<Rightarrow> connection \<Rightarrow> int \<times> connection" where
  "sendMsg m c =
     (if \<not> cn_sock c then (-1, c)
      else if \<not> cn_write_ok c then (-1, connectionError c)
      else (0, c\<lparr>cn_out := cn_out c @ [m]\<rparr>))"

definition command_send :: "command \<Rightarrow> connection \<Rightarrow> connection" where
  "command_send cmd c = snd (sendMsg (cmd_text cmd) (c\<lparr>cn_sent := cn_sent c @ [(cmd, getFullBopState c)]\<rparr>))"

subsection \<open>Sending the running command\<close>

text \<open>\<open>sendCommand\<close> is called with a running command only.\<close>

definition sendCommand :: "connection \<Rightarrow> connection" where
  "sendCommand c =
     (case cn_runningCommand c of
        None \<Rightarrow> c
      | Some cmd \<Rightarrow>
        let blocked = getFullBopState c AND cmd_bopMask cmd AND BOP_MASK \<noteq> 0;
            p = getStatusCallProgress cmd in
        if cmd_bopMask cmd \<noteq> 0 then
          if cmd_bopMask cmd AND BOP_WHILE_STATE \<noteq> 0 then
            if blocked then
              if p = CIP_WAIT then c\<lparr>cn_runningCommandStatus := WAITING\<rparr>
              else (command_send cmd c)\<lparr>cn_runningCommandStatus := SEND,
                     cn_runningCommand := Some (setStatusCallProgress CIP_WAIT cmd)\<rparr>
            else c\<lparr>cn_runningCommand := Some (setStatusCallProgress CIP_RUN cmd)\<rparr>
          else if p = CIP_NOT_CALLED then
            let stat = setStatusCallProgress CIP_RETURN (new_CommandDeviceStatus (cn_id c));
                c1 = command_send stat c in
            c1\<lparr>cn_commandQue := setStatusCallProgress CIP_WAIT cmd # cn_commandQue c1,
               cn_runningCommand := Some stat, cn_runningCommandStatus := SEND\<rparr>
          else if p = CIP_WAIT \<or> p = CIP_RUN then
            let cmd1 = (if p = CIP_WAIT then setStatusCallProgress CIP_RUN cmd else cmd) in
            if blocked then c\<lparr>cn_runningCommand := Some cmd1, cn_runningCommandStatus := WAITING\<rparr>
            else (command_send cmd1 c)\<lparr>cn_runningCommandStatus := SEND,
                   cn_runningCommand := Some (setStatusCallProgress CIP_RETURN cmd1)\<rparr>
          else c
        else (command_send cmd c)\<lparr>cn_runningCommandStatus := SEND\<rparr>)"

definition sendNextCommand :: "connection \<Rightarrow> int \<times> connection" where
  "sendNextCommand c =
     (case cn_commandQue c of
        [] \<Rightarrow> (-1, c\<lparr>cn_runningCommand := None\<rparr>)
      | x # q \<Rightarrow> (0, sendCommand (c\<lparr>cn_runningCommand := Some x, cn_commandQue := q\<rparr>)))"

definition setConnState :: "conn_state \<Rightarrow> connection \<Rightarrow> connection" where
  "setConnState s c =
     (let c1 = (if (s = CONN_AUTH_OK \<or> s = CONN_CONNECTED) \<and> cn_runningCommand c = None
                then snd (sendNextCommand c) else c);
          c2 = c1\<lparr>cn_conn_state := s\<rparr>
      in if s = CONN_AUTH_FAILED then connectionError c2 else c2)"

subsection \<open>Queueing\<close>

definition queCommand :: "command \<Rightarrow> connection \<Rightarrow> int \<times> connection" where
  "queCommand cmd c =
     (if cn_runningCommand c \<noteq> None
        \<or> (cn_conn_state c \<noteq> CONN_AUTH_OK \<and> cn_conn_state c \<noteq> CONN_CONNECTED)
      then (1, c\<lparr>cn_commandQue := cn_commandQue c @ [cmd]\<rparr>)
      else let c1 = sendCommand (c\<lparr>cn_runningCommand := Some cmd\<rparr>)
           in (if cn_runningCommandStatus c1 = SEND then 0 else 1, c1))"

definition queCommand_bop :: "command \<Rightarrow> rts2_status \<Rightarrow> nat option \<Rightarrow> connection \<Rightarrow> connection" where
  "queCommand_bop cmd notBop orig c = snd (queCommand (cmd\<lparr>cmd_bopMask := notBop, cmd_originator := orig\<rparr>) c)"

definition queSend :: "command \<Rightarrow> connection \<Rightarrow> connection" where
  "queSend cmd c =
     (if cn_conn_state c = CONN_CONNECTING \<or> cn_conn_state c = CONN_INPROGRESS \<or> cn_conn_state c = CONN_UNKNOW
      then c\<lparr>cn_commandQue := cmd # cn_commandQue c\<rparr>
      else case cn_runningCommand c of
          None \<Rightarrow> sendCommand (c\<lparr>cn_runningCommand := Some cmd\<rparr>)
        | Some r \<Rightarrow>
            if cn_runningCommandStatus c = SEND \<or> cn_runningCommandStatus c = RETURNING
            then c\<lparr>cn_commandQue := cmd # cn_commandQue c\<rparr>
            else sendCommand (c\<lparr>cn_commandQue := r # cn_commandQue c, cn_runningCommand := Some cmd\<rparr>))"

definition queClear :: "bool \<Rightarrow> connection \<Rightarrow> connection" where
  "queClear running c =
     (let c1 = (if cn_runningCommand c \<noteq> None \<and> (running \<or> cn_runningCommandStatus c \<noteq> SEND)
                then c\<lparr>cn_runningCommand := None\<rparr> else c)
      in c1\<lparr>cn_commandQue := []\<rparr>)"

definition queEmpty :: "connection \<Rightarrow> bool" where
  "queEmpty c =
     (if cn_runningCommandStatus c \<noteq> RETURNING \<and> cn_runningCommand c \<noteq> None then False
      else cn_commandQue c = [])"

definition queEmptyForOriginator :: "nat \<Rightarrow> connection \<Rightarrow> bool" where
  "queEmptyForOriginator orig c =
     (case cn_runningCommand c of
        Some r \<Rightarrow> if cn_runningCommandStatus c \<noteq> RETURNING \<and> cmd_originator r = Some orig then False
                  else \<not> list_ex (\<lambda>q. cmd_originator q = Some orig) (cn_commandQue c)
      | None \<Rightarrow> \<not> list_ex (\<lambda>q. cmd_originator q = Some orig) (cn_commandQue c))"

definition commandOriginatorPending :: "nat \<Rightarrow> connection \<Rightarrow> bool" where
  "commandOriginatorPending orig c \<longleftrightarrow> \<not> queEmptyForOriginator orig c"

definition conn_deleteConnection :: "nat \<Rightarrow> connection \<Rightarrow> connection" where
  "conn_deleteConnection conn c =
     c\<lparr>cn_runningCommand := map_option (cmd_deleteConnection conn) (cn_runningCommand c),
       cn_commandQue := map (cmd_deleteConnection conn) (cn_commandQue c)\<rparr>"

subsection \<open>Status changes\<close>

definition setBopState :: "rts2_status \<Rightarrow> connection \<Rightarrow> connection" where
  "setBopState v c =
     (let c1 = c\<lparr>cn_bopState := ss_setValue v (cn_bopState c)\<rparr> in
      case cn_runningCommand c1 of
        Some r \<Rightarrow> if getStatusCallProgress r = CIP_RUN then sendCommand c1 else c1
      | None \<Rightarrow> c1)"

definition masterStateChanged :: "connection \<Rightarrow> connection" where
  "masterStateChanged c =
     (case cn_runningCommand c of
        Some r \<Rightarrow> if getStatusCallProgress r = CIP_RUN then sendCommand c else c
      | None \<Rightarrow> c)"

definition updateStatusWait :: "connection \<Rightarrow> connection" where
  "updateStatusWait c =
     (case cn_runningCommand c of
        Some r \<Rightarrow> if getStatusCallProgress r = CIP_WAIT then sendCommand c else c
      | None \<Rightarrow> c)"

text \<open>
  The base \<open>setState\<close>; the classes that override it call the base first. The hook of the
  device client is left out.
\<close>

definition setState :: "rts2_status \<Rightarrow> connection \<Rightarrow> connection" where
  "setState v c =
     (let c1 = c\<lparr>cn_serverState := ss_setValue v (cn_serverState c)\<rparr> in
      if maskValueChanged DEVICE_NOT_READY (cn_serverState c1) then
        if v AND DEVICE_NOT_READY = 0 then cn_event DeviceReady c1 else c1
      else if maskValueChanged DEVICE_STATUS_MASK (cn_serverState c1) \<and> v AND DEVICE_STATUS_MASK = DEVICE_IDLE
        then cn_event DeviceIdle c1
      else c1)"

subsection \<open>Returns\<close>

definition post_originator :: "bool \<Rightarrow> command \<Rightarrow> connection \<Rightarrow> connection" where
  "post_originator ok cmd c =
     (case cmd_originator cmd of
        None \<Rightarrow> c
      | Some orig \<Rightarrow> cn_event (if ok then EventCommandOK orig cmd else EventCommandFailed orig cmd) c)"

definition control_updateStatusWait :: "command_class \<Rightarrow> connection \<Rightarrow> connection" where
  "control_updateStatusWait k c =
     (case k of
        StatusInfoCommand (Some i) \<Rightarrow> if i = cn_id c then updateStatusWait c else cn_event (UpdateStatusWait i) c
      | _ \<Rightarrow> c)"

text \<open>\<open>commandReturnOK\<close>, \<open>commandReturnQued\<close> and \<open>commandReturnFailed\<close> with their overrides.\<close>

definition commandReturnOK :: "command \<Rightarrow> connection \<Rightarrow> int \<times> connection" where
  "commandReturnOK cmd c =
     (case cmd_class cmd of
        LoginCommand LOGIN_SEND pw \<Rightarrow>
          (RTS2_COMMAND_REQUE, c\<lparr>cn_runningCommand := Some (cmd\<lparr>cmd_text := ''password '' @ pw,
             cmd_class := LoginCommand PASSWORD_SEND pw\<rparr>)\<rparr>)
      | LoginCommand PASSWORD_SEND pw \<Rightarrow>
          (RTS2_COMMAND_REQUE, c\<lparr>cn_runningCommand := Some (cmd\<lparr>cmd_text := ''info'',
             cmd_class := LoginCommand INFO_SEND pw\<rparr>)\<rparr>)
      | LoginCommand INFO_SEND pw \<Rightarrow> (-1, c)
      | k \<Rightarrow> (-1, post_originator True cmd (control_updateStatusWait k c)))"

definition commandReturnQued :: "command \<Rightarrow> connection \<Rightarrow> int \<times> connection" where
  "commandReturnQued cmd c = commandReturnOK cmd (post_originator True cmd c)"

definition commandReturnFailed :: "command \<Rightarrow> connection \<Rightarrow> int \<times> connection" where
  "commandReturnFailed cmd c =
     (case cmd_class cmd of
        StatusInfoCommand i \<Rightarrow> (-1, post_originator True cmd (control_updateStatusWait (StatusInfoCommand i) c))
      | _ \<Rightarrow> (-1, post_originator False cmd c))"

definition cmd_commandReturn :: "int \<Rightarrow> command \<Rightarrow> connection \<Rightarrow> int \<times> connection" where
  "cmd_commandReturn status cmd c =
     (if status = 0 then commandReturnOK cmd c
      else if status = 1 then commandReturnQued cmd c
      else commandReturnFailed cmd c)"

definition commandReturn :: "int \<Rightarrow> connection \<Rightarrow> int \<times> connection" where
  "commandReturn stat c =
     (case cn_runningCommand c of
        None \<Rightarrow> (-1, c)
      | Some cmd \<Rightarrow>
          let (ret, c1) = cmd_commandReturn stat cmd (c\<lparr>cn_runningCommandStatus := RETURNING\<rparr>) in
          if ret = RTS2_COMMAND_REQUE then (-1, sendCommand c1)
          else if ret = -1 then (-1, snd (sendNextCommand c1))
          else (-1, c1))"

subsection \<open>Watching the peer\<close>

text \<open>\<open>Connection::idle\<close>, at time \<open>now\<close>, without the hook of the device client.\<close>

definition conn_idle :: "int \<Rightarrow> connection \<Rightarrow> connection" where
  "conn_idle now c =
     (if cn_connectionTimeout c > 0 then
        let t = cn_connectionTimeout c;
            c1 = (if now > cn_lastData c + t \<and> now > cn_lastSendReady c + t div 4
                  then (snd (sendMsg ''T ready'' c))\<lparr>cn_lastSendReady := now\<rparr> else c)
        in if now > cn_lastData c1 + t * 2 then connectionError c1 else c1
      else c)"

lemmas [conn_defs] = cn_event_def connectionError_def sendMsg_def command_send_def sendCommand_def
  sendNextCommand_def getFullBopState_def getStatusCallProgress_def setStatusCallProgress_def


section \<open>Runs\<close>

text \<open>Everything that can happen to a connection, the environment's part included.\<close>

datatype conn_op =
    OpQueCommand command
  | OpQueCommandBop command rts2_status "nat option"
  | OpQueSend command
  | OpQueClear bool
  | OpCommandReturn int
  | OpSetBopState rts2_status
  | OpSetState rts2_status
  | OpMasterStateChanged
  | OpUpdateStatusWait
  | OpSetConnState conn_state
  | OpDeleteConnection nat
  | OpIdle int
  | OpDataReceived int
  | OpSocket bool

fun conn_step :: "conn_op \<Rightarrow> connection \<Rightarrow> connection" where
  "conn_step (OpQueCommand cmd) c = snd (queCommand cmd c)"
| "conn_step (OpQueCommandBop cmd m orig) c = queCommand_bop cmd m orig c"
| "conn_step (OpQueSend cmd) c = queSend cmd c"
| "conn_step (OpQueClear running) c = queClear running c"
| "conn_step (OpCommandReturn st) c = snd (commandReturn st c)"
| "conn_step (OpSetBopState v) c = setBopState v c"
| "conn_step (OpSetState v) c = setState v c"
| "conn_step OpMasterStateChanged c = masterStateChanged c"
| "conn_step OpUpdateStatusWait c = updateStatusWait c"
| "conn_step (OpSetConnState s) c = setConnState s c"
| "conn_step (OpDeleteConnection i) c = conn_deleteConnection i c"
| "conn_step (OpIdle now) c = conn_idle now c"
| "conn_step (OpDataReceived now) c = c\<lparr>cn_lastData := now\<rparr>"
| "conn_step (OpSocket ok) c = c\<lparr>cn_write_ok := ok\<rparr>"

definition conn_run :: "conn_op list \<Rightarrow> connection \<Rightarrow> connection" where
  "conn_run ops c = fold conn_step ops c"

section \<open>The block-of-operation mask guards every send\<close>

text \<open>
  A command without \<open>BOP_WHILE_STATE\<close> was sent when none of its bits was blocked, a command
  with it when one of them was.
\<close>

definition sent_allowed :: "command \<times> rts2_status \<Rightarrow> bool" where
  "sent_allowed sb \<longleftrightarrow>
     (cmd_bopMask (fst sb) AND BOP_WHILE_STATE \<noteq> 0) = (snd sb AND cmd_bopMask (fst sb) AND BOP_MASK \<noteq> 0)"

definition all_allowed :: "connection \<Rightarrow> bool" where
  "all_allowed c \<longleftrightarrow> list_all sent_allowed (cn_sent c)"

lemma progress_keeps_mask [simp]:
  "cmd_bopMask (setStatusCallProgress p c) AND BOP_WHILE_STATE = cmd_bopMask c AND BOP_WHILE_STATE"
  "v AND cmd_bopMask (setStatusCallProgress p c) AND BOP_MASK = v AND cmd_bopMask c AND BOP_MASK"
proof -
  have m: "cmd_bopMask (setStatusCallProgress p c) = masked (cmd_bopMask c) BOP_CIP_MASK (p AND BOP_CIP_MASK)"
    by (simp add: setStatusCallProgress_def masked_def)
  show "cmd_bopMask (setStatusCallProgress p c) AND BOP_WHILE_STATE = cmd_bopMask c AND BOP_WHILE_STATE"
    unfolding m by (rule masked_outside) (simp_all add: status_bits and.left_commute)
  have "masked (cmd_bopMask c) BOP_CIP_MASK (p AND BOP_CIP_MASK) AND BOP_MASK = cmd_bopMask c AND BOP_MASK"
    by (rule masked_outside) (simp_all add: status_bits and.left_commute)
  then show "v AND cmd_bopMask (setStatusCallProgress p c) AND BOP_MASK = v AND cmd_bopMask c AND BOP_MASK"
    unfolding m by (metis and.assoc)
qed

lemma progress_simps [simp]:
  "cmd_text (setStatusCallProgress p c) = cmd_text c"
  "cmd_class (setStatusCallProgress p c) = cmd_class c"
  "cmd_originator (setStatusCallProgress p c) = cmd_originator c"
  by (simp_all add: setStatusCallProgress_def)

lemma get_set_progress [simp]: "getStatusCallProgress (setStatusCallProgress p c) = p AND BOP_CIP_MASK"
  by (rule bit_word_eqI) (auto simp: getStatusCallProgress_def setStatusCallProgress_def bit_simps)

lemma sendMsg_sent [simp]:
  "cn_sent (snd (sendMsg m c)) = cn_sent c"
  "cn_bopState (snd (sendMsg m c)) = cn_bopState c"
  by (auto simp: sendMsg_def connectionError_def cn_event_def Let_def)

lemma command_send_sent [simp]:
  "cn_sent (command_send cmd c) = cn_sent c @ [(cmd, getFullBopState c)]"
  by (simp add: command_send_def)

lemma connectionError_sent [simp]: "cn_sent (connectionError c) = cn_sent c"
  by (simp add: connectionError_def cn_event_def Let_def)

lemma post_originator_sent [simp]: "cn_sent (post_originator ok cmd c) = cn_sent c"
  by (simp add: post_originator_def cn_event_def split: option.splits)

lemma new_command_simps [simp]:
  "cmd_bopMask (new_CommandDeviceStatus i) = 0" "cmd_text (new_CommandDeviceStatus i) = ''device_status''"
  "cmd_class (new_CommandDeviceStatus i) = StatusInfoCommand (Some i)"
  "cmd_originator (new_CommandDeviceStatus i) = None"
  "cmd_bopMask (new_Command t) = 0" "cmd_text (new_Command t) = t" "cmd_class (new_Command t) = PlainCommand"
  "cmd_originator (new_Command t) = None"
  by (simp_all add: new_CommandDeviceStatus_def new_Command_def)

lemma cip_distinct [simp]:
  "CIP_RUN \<noteq> CIP_WAIT" "CIP_WAIT \<noteq> CIP_RUN" "CIP_NOT_CALLED \<noteq> CIP_WAIT" "CIP_WAIT \<noteq> CIP_NOT_CALLED"
  "CIP_RETURN \<noteq> CIP_WAIT" "CIP_RETURN \<noteq> CIP_RUN" "CIP_RUN \<noteq> CIP_NOT_CALLED" "CIP_RETURN \<noteq> CIP_NOT_CALLED"
  "CIP_WAIT AND BOP_CIP_MASK = CIP_WAIT" "CIP_RUN AND BOP_CIP_MASK = CIP_RUN"
  "CIP_RETURN AND BOP_CIP_MASK = CIP_RETURN"
  by (simp_all add: status_bits)

lemma sendCommand_allowed: "all_allowed c \<Longrightarrow> all_allowed (sendCommand c)"
  by (simp add: sendCommand_def all_allowed_def sent_allowed_def Let_def
      split: option.splits)

lemma sendNextCommand_allowed: "all_allowed c \<Longrightarrow> all_allowed (snd (sendNextCommand c))"
  using sendCommand_allowed [of "c\<lparr>cn_runningCommand := x, cn_commandQue := q\<rparr>" for x q]
  by (simp add: sendNextCommand_def all_allowed_def split: list.splits)

text \<open>Operations that end in \<open>sendCommand\<close> or leave the list of sends alone.\<close>

lemma allowed_if_same_sent: "cn_sent c' = cn_sent c \<Longrightarrow> all_allowed c \<Longrightarrow> all_allowed c'"
  by (simp add: all_allowed_def)

lemma updateStatusWait_allowed: "all_allowed c \<Longrightarrow> all_allowed (updateStatusWait c)"
  by (simp add: updateStatusWait_def sendCommand_allowed split: option.splits)

lemma control_updateStatusWait_allowed: "all_allowed c \<Longrightarrow> all_allowed (control_updateStatusWait k c)"
  by (auto simp: control_updateStatusWait_def updateStatusWait_allowed cn_event_def all_allowed_def
      split: command_class.splits option.splits intro: updateStatusWait_allowed [unfolded all_allowed_def])

lemma cmd_commandReturn_allowed:
  "all_allowed c \<Longrightarrow> all_allowed (snd (cmd_commandReturn st cmd c))"
  using control_updateStatusWait_allowed [of c "cmd_class cmd"]
    control_updateStatusWait_allowed [of "post_originator True cmd c" "cmd_class cmd"]
  by (auto simp: cmd_commandReturn_def commandReturnOK_def commandReturnQued_def commandReturnFailed_def
      all_allowed_def split: command_class.splits login_state.splits)

lemma commandReturn_allowed: "all_allowed c \<Longrightarrow> all_allowed (snd (commandReturn st c))"
  using cmd_commandReturn_allowed [of "c\<lparr>cn_runningCommandStatus := RETURNING\<rparr>" st "the (cn_runningCommand c)"]
  by (auto simp: commandReturn_def all_allowed_def Let_def
      intro: sendCommand_allowed [unfolded all_allowed_def] sendNextCommand_allowed [unfolded all_allowed_def]
      split: option.splits prod.splits)

lemma queSend_allowed: "all_allowed c \<Longrightarrow> all_allowed (queSend cmd c)"
  by (auto simp: queSend_def all_allowed_def intro!: sendCommand_allowed [unfolded all_allowed_def]
      split: option.splits)

lemma queCommand_allowed: "all_allowed c \<Longrightarrow> all_allowed (snd (queCommand cmd c))"
  by (auto simp: queCommand_def all_allowed_def Let_def intro!: sendCommand_allowed [unfolded all_allowed_def])

lemma setConnState_allowed: "all_allowed c \<Longrightarrow> all_allowed (setConnState s c)"
  using sendNextCommand_allowed [of c] by (simp add: setConnState_def all_allowed_def Let_def)

lemma setBopState_allowed: "all_allowed c \<Longrightarrow> all_allowed (setBopState v c)"
  by (auto simp: setBopState_def all_allowed_def Let_def intro!: sendCommand_allowed [unfolded all_allowed_def]
      split: option.splits)

lemma conn_idle_allowed: "all_allowed c \<Longrightarrow> all_allowed (conn_idle now c)"
  by (simp add: conn_idle_def all_allowed_def Let_def)

lemma conn_step_allowed: "all_allowed c \<Longrightarrow> all_allowed (conn_step op c)"
proof (cases op)
  case OpMasterStateChanged
  then show "all_allowed c \<Longrightarrow> all_allowed (conn_step op c)"
    by (simp add: masterStateChanged_def sendCommand_allowed split: option.splits)
next
  case (OpSetState v)
  then show "all_allowed c \<Longrightarrow> all_allowed (conn_step op c)"
    by (simp add: setState_def all_allowed_def cn_event_def Let_def)
qed (simp_all add: queCommand_allowed queCommand_bop_def queSend_allowed commandReturn_allowed
    setBopState_allowed updateStatusWait_allowed setConnState_allowed conn_idle_allowed,
    simp_all add: all_allowed_def queClear_def conn_deleteConnection_def Let_def)

lemma conn_run_allowed: "all_allowed c \<Longrightarrow> all_allowed (conn_run ops c)"
  by (induction ops arbitrary: c) (simp_all add: conn_run_def conn_step_allowed)

text \<open>C25: whatever happens to a connection, and in whatever order, a command is written only
  when the mask allows it: a plain masked command only when the block-of-operation state the
  connection knows has none of its bits, and a while-state command only when it has one.\<close>

theorem sends_respect_bop_mask:
  "(cmd, b) \<in> set (cn_sent (conn_run ops (new_Connection i now))) \<Longrightarrow>
    (b AND cmd_bopMask cmd AND BOP_MASK = 0) = (cmd_bopMask cmd AND BOP_WHILE_STATE = 0)"
proof -
  have "all_allowed (new_Connection i now)" by (simp add: all_allowed_def new_Connection_def)
  then have "list_all sent_allowed (cn_sent (conn_run ops (new_Connection i now)))"
    using conn_run_allowed unfolding all_allowed_def by blast
  then show "(cmd, b) \<in> set (cn_sent (conn_run ops (new_Connection i now))) \<Longrightarrow>
      (b AND cmd_bopMask cmd AND BOP_MASK = 0) = (cmd_bopMask cmd AND BOP_WHILE_STATE = 0)"
    by (force simp: list_all_iff sent_allowed_def)
qed

theorem sends_respect_bop_mask_witness:
  "BOP_EXPOSURE AND BOP_EXPOSURE AND BOP_MASK \<noteq> 0 \<and>
   (0 AND cmd_bopMask (setStatusCallProgress CIP_RUN (new_Command ''expose''\<lparr>cmd_bopMask := BOP_EXPOSURE\<rparr>)) AND BOP_MASK = 0)
    = (cmd_bopMask (setStatusCallProgress CIP_RUN (new_Command ''expose''\<lparr>cmd_bopMask := BOP_EXPOSURE\<rparr>)) AND BOP_WHILE_STATE = 0)"
proof
  show "BOP_EXPOSURE AND BOP_EXPOSURE AND BOP_MASK \<noteq> 0" by (simp add: status_bits)
  let ?x = "new_Command ''expose''\<lparr>cmd_bopMask := BOP_EXPOSURE\<rparr>"
  let ?ops = "[OpSetBopState BOP_EXPOSURE, OpQueCommandBop (new_Command ''expose'') BOP_EXPOSURE None,
    OpCommandReturn 0, OpSetBopState 0]"
  have "(setStatusCallProgress CIP_RUN ?x, 0) \<in> set (cn_sent (conn_run ?ops (new_Connection 7 0)))"
    by (simp add: conn_run_def new_Connection_def new_ServerState_def setBopState_def ss_setValue_def
        queCommand_bop_def queCommand_def commandReturn_def cmd_commandReturn_def commandReturnOK_def
        control_updateStatusWait_def updateStatusWait_def post_originator_def
        conn_defs new_CommandDeviceStatus_def new_Command_def status_bits Let_def return_codes)
  then show "(0 AND cmd_bopMask (setStatusCallProgress CIP_RUN ?x) AND BOP_MASK = 0) =
      (cmd_bopMask (setStatusCallProgress CIP_RUN ?x) AND BOP_WHILE_STATE = 0)"
    by (rule sends_respect_bop_mask)
qed

section \<open>Unmasked commands leave in order\<close>

definition plain_ready :: "connection \<Rightarrow> bool" where
  "plain_ready c \<longleftrightarrow> cn_sock c \<and> cn_write_ok c \<and> cn_conn_state c \<in> {CONN_AUTH_OK, CONN_CONNECTED}
     \<and> (\<forall>x \<in> set (cn_commandQue c) \<union> set_option (cn_runningCommand c). cmd_class x = PlainCommand \<and> cmd_bopMask x = 0)
     \<and> (cn_runningCommand c = None \<longrightarrow> cn_commandQue c = [])"

lemma plain_send:
  assumes "cn_sock c" "cn_write_ok c" "cn_runningCommand c = Some x" "cmd_bopMask x = 0"
  shows "sendCommand c = c\<lparr>cn_runningCommandStatus := SEND, cn_sent := cn_sent c @ [(x, getFullBopState c)],
    cn_out := cn_out c @ [cmd_text x]\<rparr>"
  using assms by (simp add: sendCommand_def command_send_def sendMsg_def)

lemma plain_que:
  assumes "plain_ready c"
  shows "plain_ready (snd (queCommand (new_Command t) c))"
    and "cn_out (snd (queCommand (new_Command t) c)) @ map cmd_text (cn_commandQue (snd (queCommand (new_Command t) c)))
      = cn_out c @ map cmd_text (cn_commandQue c) @ [t]"
  using assms by (auto simp: plain_ready_def queCommand_def Let_def plain_send)

lemma plain_return:
  assumes "plain_ready c"
  shows "commandReturn st c = (-1, case cn_runningCommand c of None \<Rightarrow> c | Some x \<Rightarrow>
     snd (sendNextCommand (post_originator (st = 0 \<or> st = 1) x
       ((if st = 1 then post_originator True x else id) (c\<lparr>cn_runningCommandStatus := RETURNING\<rparr>)))))"
  using assms by (cases "cn_runningCommand c")
    (auto simp: plain_ready_def commandReturn_def cmd_commandReturn_def commandReturnOK_def commandReturnQued_def
      commandReturnFailed_def control_updateStatusWait_def RTS2_COMMAND_REQUE_def)

lemma post_originator_events:
  "\<exists>es. post_originator ok x c = c\<lparr>cn_events := cn_events c @ es\<rparr>"
proof (cases "cmd_originator x")
  case None
  then have "post_originator ok x c = c\<lparr>cn_events := cn_events c @ []\<rparr>" by (simp add: post_originator_def)
  then show ?thesis by blast
next
  case (Some orig)
  then show ?thesis by (auto simp: post_originator_def cn_event_def)
qed

lemma plain_return_next:
  assumes "plain_ready c" "cn_runningCommand c \<noteq> None"
  obtains es where "commandReturn st c = (-1, snd (sendNextCommand (c\<lparr>cn_runningCommandStatus := RETURNING,
      cn_events := cn_events c @ es\<rparr>)))"
proof -
  let ?c = "c\<lparr>cn_runningCommandStatus := RETURNING\<rparr>"
  obtain x where x: "cn_runningCommand c = Some x" using assms(2) by auto
  have "\<exists>es. (if st = 1 then post_originator True x else id) ?c = ?c\<lparr>cn_events := cn_events ?c @ es\<rparr>"
    using post_originator_events [of True x ?c] by (cases "st = 1") (simp, simp add: exI [of _ "[]"])
  then obtain e1 where e1: "(if st = 1 then post_originator True x else id) ?c = ?c\<lparr>cn_events := cn_events c @ e1\<rparr>"
    by auto
  obtain e2 where e2: "post_originator (st = 0 \<or> st = 1) x (?c\<lparr>cn_events := cn_events c @ e1\<rparr>)
      = ?c\<lparr>cn_events := cn_events c @ e1 @ e2\<rparr>"
    using post_originator_events [of "st = 0 \<or> st = 1" x "?c\<lparr>cn_events := cn_events c @ e1\<rparr>"] by auto
  have "commandReturn st c = (-1, snd (sendNextCommand (post_originator (st = 0 \<or> st = 1) x
      ((if st = 1 then post_originator True x else id) ?c))))"
    using plain_return [OF assms(1), of st] unfolding x by (simp only: option.case)
  then show thesis
    unfolding e1 e2 by (intro that [of "e1 @ e2"]) (simp only: append_assoc)
qed

lemma plain_tick:
  fixes c st
  assumes "plain_ready c"
  defines "d \<equiv> snd (commandReturn st c)"
  shows "plain_ready d"
    and "cn_out d @ map cmd_text (cn_commandQue d) = cn_out c @ map cmd_text (cn_commandQue c)"
    and "cn_commandQue d = tl (cn_commandQue c)"
proof -
  have "plain_ready d \<and> cn_out d @ map cmd_text (cn_commandQue d) = cn_out c @ map cmd_text (cn_commandQue c)
      \<and> cn_commandQue d = tl (cn_commandQue c)"
  proof (cases "cn_runningCommand c = None")
    case True
    then show ?thesis using assms by (simp add: commandReturn_def plain_ready_def)
  next
    case False
    then obtain es where "d = snd (sendNextCommand (c\<lparr>cn_runningCommandStatus := RETURNING,
        cn_events := cn_events c @ es\<rparr>))"
      using plain_return_next [OF assms(1)] unfolding d_def by (metis snd_conv)
    with assms(1) show ?thesis
      by (cases "cn_commandQue c") (auto simp: sendNextCommand_def plain_ready_def plain_send)
  qed
  then show "plain_ready d" "cn_out d @ map cmd_text (cn_commandQue d) = cn_out c @ map cmd_text (cn_commandQue c)"
    "cn_commandQue d = tl (cn_commandQue c)" by blast+
qed

interpretation plain: fifo_channel
  "\<lambda>t c. snd (queCommand (new_Command t) c)" "\<lambda>st c. snd (commandReturn st c)"
  cn_out "\<lambda>c. map cmd_text (cn_commandQue c)" plain_ready
proof unfold_locales
  fix c t st assume r: "plain_ready c"
  show "plain_ready (snd (queCommand (new_Command t) c))" using r by (rule plain_que)
  show "cn_out (snd (queCommand (new_Command t) c)) @ map cmd_text (cn_commandQue (snd (queCommand (new_Command t) c)))
      = cn_out c @ map cmd_text (cn_commandQue c) @ [t]" using r by (rule plain_que)
qed (use plain_tick in auto)

text \<open>A queued text (\<open>Inl\<close>) or an answer of the peer (\<open>Inr\<close>) as an operation of the connection.\<close>

definition plain_op :: "string + int \<Rightarrow> conn_op" where
  "plain_op e = (case e of Inl t \<Rightarrow> OpQueCommand (new_Command t) | Inr st \<Rightarrow> OpCommandReturn st)"

lemma plain_run: "conn_run (map plain_op es) c = fold plain.event es c"
proof (induction es arbitrary: c)
  case (Cons e es)
  then show ?case by (cases e) (simp_all add: conn_run_def plain_op_def plain.event_def)
qed (simp add: conn_run_def)

lemma plain_ready_new: "plain_ready (new_Connection i now)"
  by (simp add: plain_ready_def new_Connection_def)

lemma plain_drained: "map plain_op (map Inr rs) = map OpCommandReturn rs"
  by (simp add: plain_op_def)

lemma fold_plain_returns: "fold plain.event (map Inr rs) c = fold (\<lambda>st c. snd (commandReturn st c)) rs c"
  by (induction rs arbitrary: c) (simp_all add: plain.event_def)




section \<open>A masked command asks for the device status first\<close>

definition masked_command :: "string \<Rightarrow> rts2_status \<Rightarrow> command" where
  "masked_command t m = new_Command t\<lparr>cmd_bopMask := m\<rparr>"

lemma send_masked_fresh:
  assumes "cn_runningCommand c = Some x" "cmd_bopMask x \<noteq> 0" "cmd_bopMask x AND BOP_WHILE_STATE = 0"
    and "getStatusCallProgress x = CIP_NOT_CALLED" "cn_sock c" "cn_write_ok c"
  defines "stat \<equiv> setStatusCallProgress CIP_RETURN (new_CommandDeviceStatus (cn_id c))"
  shows "sendCommand c = c\<lparr>cn_sent := cn_sent c @ [(stat, getFullBopState c)], cn_out := cn_out c @ [''device_status''],
    cn_commandQue := setStatusCallProgress CIP_WAIT x # cn_commandQue c,
    cn_runningCommand := Some stat, cn_runningCommandStatus := SEND\<rparr>"
  using assms(1-6) unfolding stat_def
  by (simp add: sendCommand_def command_send_def sendMsg_def Let_def)

lemma masked_nonzero: "getStatusCallProgress x \<noteq> 0 \<Longrightarrow> cmd_bopMask x \<noteq> 0"
  by (auto simp: getStatusCallProgress_def)

lemma send_masked_waiting:
  assumes "cn_runningCommand c = Some x" "cmd_bopMask x AND BOP_WHILE_STATE = 0"
    and "getStatusCallProgress x = CIP_WAIT \<or> getStatusCallProgress x = CIP_RUN" "cn_sock c" "cn_write_ok c"
  shows "sendCommand c =
    (let x1 = if getStatusCallProgress x = CIP_WAIT then setStatusCallProgress CIP_RUN x else x in
     if getFullBopState c AND cmd_bopMask x AND BOP_MASK \<noteq> 0
     then c\<lparr>cn_runningCommand := Some x1, cn_runningCommandStatus := WAITING\<rparr>
     else c\<lparr>cn_sent := cn_sent c @ [(x1, getFullBopState c)], cn_out := cn_out c @ [cmd_text x],
       cn_runningCommandStatus := SEND, cn_runningCommand := Some (setStatusCallProgress CIP_RETURN x1)\<rparr>)"
proof -
  have "CIP_WAIT \<noteq> 0" "CIP_RUN \<noteq> 0" by (simp_all add: status_bits)
  then have "cmd_bopMask x \<noteq> 0" using assms(3) masked_nonzero [of x] by metis
  then show ?thesis using assms
    by (auto simp: sendCommand_def command_send_def sendMsg_def Let_def)
qed

text \<open>The running command waits for the mask to clear: one update of the block state.\<close>

definition mask_waits :: "string \<Rightarrow> rts2_status \<Rightarrow> string list \<Rightarrow> connection \<Rightarrow> bool" where
  "mask_waits t m out c \<longleftrightarrow> cn_sock c \<and> cn_write_ok c \<and> cn_out c = out \<and>
     cn_runningCommand c = Some (setStatusCallProgress CIP_RUN (setStatusCallProgress CIP_WAIT (masked_command t m)))"

definition mask_done :: "string list \<Rightarrow> connection \<Rightarrow> bool" where
  "mask_done out c \<longleftrightarrow> cn_out c = out \<and>
     (\<exists>x. cn_runningCommand c = Some x \<and> getStatusCallProgress x = CIP_RETURN)"

lemma masked_command_simps [simp]:
  "cmd_bopMask (masked_command t m) = m" "cmd_text (masked_command t m) = t"
  "cmd_class (masked_command t m) = PlainCommand" "cmd_originator (masked_command t m) = None"
  by (simp_all add: masked_command_def new_Command_def)

lemma mask_waits_step:
  assumes "mask_waits t m out c" "m AND BOP_WHILE_STATE = 0"
  shows "if v AND m AND BOP_MASK = 0 then mask_done (out @ [t]) (setBopState v c)
    else mask_waits t m out (setBopState v c)"
  using assms by (auto simp: mask_waits_def mask_done_def setBopState_def ss_setValue_def Let_def
      getFullBopState_def send_masked_waiting)

lemma mask_done_step: "mask_done out c \<Longrightarrow> mask_done out (setBopState v c)"
  by (auto simp: mask_done_def setBopState_def Let_def)

lemma mask_done_run: "mask_done out c \<Longrightarrow> mask_done out (fold setBopState vs c)"
  by (induction vs arbitrary: c) (simp_all add: mask_done_step)

lemma mask_waits_run:
  assumes "mask_waits t m out c" "m AND BOP_WHILE_STATE = 0"
  shows "cn_out (fold setBopState vs c) = out @ (if \<exists>v \<in> set vs. v AND m AND BOP_MASK = 0 then [t] else [])"
  using assms
proof (induction vs arbitrary: c)
  case Nil
  then show ?case by (simp add: mask_waits_def)
next
  case (Cons v vs)
  show ?case
  proof (cases "v AND m AND BOP_MASK = 0")
    case True
    then have "mask_done (out @ [t]) (fold setBopState vs (setBopState v c))"
      using mask_waits_step [OF Cons.prems, of v] mask_done_run by simp
    with True show ?thesis by (simp add: mask_done_def)
  next
    case False
    then show ?thesis using mask_waits_step [OF Cons.prems, of v] Cons.IH [OF _ Cons.prems(2)] by simp
  qed
qed

lemma conn_run_bop: "conn_run (map OpSetBopState vs) c = fold setBopState vs c"
  by (induction vs arbitrary: c) (simp_all add: conn_run_def)

lemma conn_run_append: "conn_run (xs @ ys) c = conn_run ys (conn_run xs c)"
  by (simp add: conn_run_def)

lemma conn_run_Cons: "conn_run (x # xs) c = conn_run xs (conn_step x c)"
  by (simp add: conn_run_def)

text \<open>The answer to \<open>device_status\<close> makes the masked command the running one.\<close>

lemma status_answer:
  assumes "cn_runningCommand c = Some (setStatusCallProgress CIP_RETURN (new_CommandDeviceStatus (cn_id c)))"
  shows "commandReturn st c = (-1, snd (sendNextCommand (c\<lparr>cn_runningCommandStatus := RETURNING\<rparr>)))"
  using assms by (auto simp: commandReturn_def cmd_commandReturn_def commandReturnOK_def commandReturnQued_def
      commandReturnFailed_def control_updateStatusWait_def updateStatusWait_def post_originator_def
      RTS2_COMMAND_REQUE_def)

lemma masked_handshake:
  fixes i :: nat and v :: rts2_status and t :: string and st now :: int
  assumes "m \<noteq> 0" "m AND BOP_CIP_MASK = 0" "m AND BOP_WHILE_STATE = 0"
  defines "d \<equiv> conn_run [OpSetBopState v, OpQueCommandBop (new_Command t) m None, OpCommandReturn st] (new_Connection i now)"
  shows "if v AND m AND BOP_MASK = 0 then mask_done [''device_status'', t] d else mask_waits t m [''device_status''] d"
proof -
  let ?x = "masked_command t m"
  let ?c0 = "setBopState v (new_Connection i now)"
  let ?c1 = "snd (queCommand ?x ?c0)"
  let ?stat = "setStatusCallProgress CIP_RETURN (new_CommandDeviceStatus i)"
  have c0: "cn_runningCommand ?c0 = None" "cn_conn_state ?c0 = CONN_CONNECTED" "cn_sock ?c0" "cn_write_ok ?c0"
    "cn_out ?c0 = []" "cn_commandQue ?c0 = []" "cn_id ?c0 = i" "getFullBopState ?c0 = v"
    by (simp_all add: setBopState_def new_Connection_def ss_setValue_def getFullBopState_def Let_def)
  have p: "getStatusCallProgress ?x = CIP_NOT_CALLED"
    using assms(2) by (simp add: getStatusCallProgress_def CIP_NOT_CALLED_def)
  have c1: "cn_runningCommand ?c1 = Some ?stat" "cn_sock ?c1" "cn_write_ok ?c1" "cn_out ?c1 = [''device_status'']"
    "cn_commandQue ?c1 = [setStatusCallProgress CIP_WAIT ?x]" "cn_id ?c1 = i" "getFullBopState ?c1 = v"
    using c0 p assms(1,3) by (simp_all add: queCommand_def send_masked_fresh Let_def getFullBopState_def)
  have x: "new_Command t\<lparr>cmd_bopMask := m, cmd_originator := None\<rparr> = ?x"
    by (simp add: masked_command_def new_Command_def)
  have d: "d = snd (commandReturn st ?c1)"
    unfolding d_def conn_run_def by (simp only: fold.simps conn_step.simps queCommand_bop_def x o_apply id_apply)
  have "d = sendCommand (?c1\<lparr>cn_runningCommandStatus := RETURNING,
      cn_runningCommand := Some (setStatusCallProgress CIP_WAIT ?x), cn_commandQue := []\<rparr>)"
    unfolding d using c1 by (simp add: status_answer sendNextCommand_def)
  then show ?thesis
    using c1 assms(3) by (simp add: send_masked_waiting getFullBopState_def mask_done_def mask_waits_def Let_def)
qed

text \<open>A command with a block-of-operation mask is preceded by a \<open>device_status\<close> query; when
  its answer is in, the command itself is written as soon as a block state arrives that has none
  of its bits, once, and never while one of them is set.\<close>

theorem masked_command_waits_for_clear:
  assumes "m \<noteq> 0" "m AND BOP_CIP_MASK = 0" "m AND BOP_WHILE_STATE = 0"
  shows "cn_out (conn_run ([OpSetBopState v, OpQueCommandBop (new_Command t) m None, OpCommandReturn st]
      @ map OpSetBopState vs) (new_Connection i now))
    = ''device_status'' # (if \<exists>w \<in> set (v # vs). w AND m AND BOP_MASK = 0 then [t] else [])"
proof (cases "v AND m AND BOP_MASK = 0")
  case True
  then show ?thesis
    using masked_handshake [OF assms, of v t st i now] mask_done_run [of "[''device_status'', t]" _ vs]
    unfolding conn_run_append conn_run_bop mask_done_def by simp
next
  case False
  then show ?thesis
    using masked_handshake [OF assms, of v t st i now] mask_waits_run [OF _ assms(3), of t "[''device_status'']" _ vs]
    unfolding conn_run_append conn_run_bop by simp
qed

theorem masked_command_waits_for_clear_witness:
  "BOP_EXPOSURE \<noteq> 0 \<and> BOP_EXPOSURE AND BOP_CIP_MASK = 0 \<and> BOP_EXPOSURE AND BOP_WHILE_STATE = 0 \<and>
   cn_out (conn_run ([OpSetBopState BOP_EXPOSURE, OpQueCommandBop (new_Command ''move'') BOP_EXPOSURE None,
     OpCommandReturn 0] @ map OpSetBopState [BOP_EXPOSURE, BOP_TEL_MOVE]) (new_Connection 1 0))
   = [''device_status'', ''move'']"
proof -
  have b: "BOP_EXPOSURE \<noteq> 0" "BOP_EXPOSURE AND BOP_CIP_MASK = 0" "BOP_EXPOSURE AND BOP_WHILE_STATE = 0"
    "BOP_TEL_MOVE AND BOP_EXPOSURE AND BOP_MASK = 0"
    by (simp_all add: status_bits)
  then show ?thesis
    using masked_command_waits_for_clear [OF b(1-3), of BOP_EXPOSURE "''move''" 0 "[BOP_EXPOSURE, BOP_TEL_MOVE]" 1 0]
    by simp
qed

section \<open>Login\<close>

lemma login_sent:
  assumes "cn_sock c" "cn_write_ok c" "cn_runningCommand c = Some x" "cmd_bopMask x = 0"
    and "cmd_class x = LoginCommand s pw" "cmd_originator x = None" "cn_commandQue c = [new_Command t]"
  shows "commandReturn 0 c = (-1, sendCommand (case s of
      LOGIN_SEND \<Rightarrow> c\<lparr>cn_runningCommandStatus := RETURNING, cn_runningCommand := Some (x\<lparr>cmd_text := ''password '' @ pw,
        cmd_class := LoginCommand PASSWORD_SEND pw\<rparr>)\<rparr>
    | PASSWORD_SEND \<Rightarrow> c\<lparr>cn_runningCommandStatus := RETURNING, cn_runningCommand := Some (x\<lparr>cmd_text := ''info'',
        cmd_class := LoginCommand INFO_SEND pw\<rparr>)\<rparr>
    | INFO_SEND \<Rightarrow> c\<lparr>cn_runningCommandStatus := RETURNING, cn_runningCommand := Some (new_Command t), cn_commandQue := []\<rparr>))"
    and "st \<noteq> 0 \<Longrightarrow> st \<noteq> 1 \<Longrightarrow> commandReturn st c = (-1, sendCommand (c\<lparr>cn_runningCommandStatus := RETURNING,
      cn_runningCommand := Some (new_Command t), cn_commandQue := []\<rparr>))"
  using assms by (cases s; simp add: commandReturn_def cmd_commandReturn_def commandReturnOK_def
      commandReturnFailed_def post_originator_def sendNextCommand_def RTS2_COMMAND_REQUE_def)+

lemma login_queued:
  "conn_run [OpQueCommand (new_CommandLogin user name pw), OpQueCommand (new_Command t)] (new_Connection i now)
   = (new_Connection i now)\<lparr>cn_runningCommand := Some (new_CommandLogin user name pw), cn_runningCommandStatus := SEND,
      cn_commandQue := [new_Command t], cn_out := [''login '' @ user @ '' '' @ name],
      cn_sent := [(new_CommandLogin user name pw, getFullBopState (new_Connection i now))]\<rparr>"
  by (simp add: conn_run_def queCommand_def plain_send new_Connection_def new_CommandLogin_def Let_def getFullBopState_def)

text \<open>the login command walks through user name, password and \<open>info\<close> on one running command:
  each positive answer writes the next text before anything else that is queued, and the first
  negative one gives up and goes on with the queue.\<close>

theorem login_sequence:
  assumes "k \<le> 2" "st \<noteq> 0" "st \<noteq> 1"
  shows "cn_out (conn_run ([OpQueCommand (new_CommandLogin user name pw), OpQueCommand (new_Command t)]
      @ replicate k (OpCommandReturn 0) @ [OpCommandReturn st]) (new_Connection i now))
    = take (Suc k) [''login '' @ user @ '' '' @ name, ''password '' @ pw, ''info''] @ [t]"
proof -
  from assms(1) have "k = 0 \<or> k = 1 \<or> k = 2" by linarith
  with assms(2,3) show ?thesis
    unfolding conn_run_append login_queued
    by (elim disjE) (simp_all add: conn_run_def numeral_2_eq_2 login_sent plain_send
        new_CommandLogin_def new_Connection_def)
qed

theorem login_sequence_witness:
  "(1::nat) \<le> 2 \<and> (-1::int) \<noteq> 0 \<and> (-1::int) \<noteq> 1 \<and>
   cn_out (conn_run ([OpQueCommand (new_CommandLogin ''petr'' ''mon'' ''secret''), OpQueCommand (new_Command ''info'')]
     @ replicate 1 (OpCommandReturn 0) @ [OpCommandReturn (-1)]) (new_Connection 1 0))
   = [''login petr mon'', ''password secret'', ''info'']"
  using login_sequence [of 1 "-1" "''petr''" "''mon''" "''secret''" "''info''" 1 0] by simp

end
