(* ===== verification/Rts2_Protocol.thy ===== *)
theory Rts2_Protocol
  imports Rts2_Connection
begin

text \<open>
  The messages of the wire protocol (\<open>lib/rts2/connection.cpp\<close>, \<open>PROTO_*\<close> of
  \<open>include/block.h\<close>): what a daemon writes about its values and its state, and what the
  connection on the other side makes of a received line, \<open>Connection::processLine\<close>.
\<close>

section \<open>Sending\<close>

text \<open>\<open>sendMetaInfo\<close> writes the type and, for a selection, its choices.\<close>

definition sendTypeMetaInfo :: "rts2_value \<Rightarrow> connection \<Rightarrow> int \<times> connection" where
  "sendTypeMetaInfo v c =
     (let (r, c1) = sendMsg (''E '' @ show_int (sint (v_rts2Type v)) @ '' '' @ quoted (v_name v) @ '' ''
                      @ quoted (v_description v) @ '' '') c in
      case v_data v of
        VSelection i sel \<Rightarrow>
          if r \<noteq> 0 then (r, c1)
          else sendMsg (''F '' @ quoted (v_name v) @ [LF]
                 @ concat (map (\<lambda>x. ''F '' @ quoted (v_name v) @ '' '' @ quoted x @ [LF]) sel)) c1
      | _ \<Rightarrow> (r, c1))"

definition sendValue_text :: "string \<Rightarrow> string \<Rightarrow> connection \<Rightarrow> int \<times> connection" where
  "sendValue_text n t c =
     (if cn_conn_state c = CONN_INPROGRESS \<or> cn_conn_state c = CONN_UNKNOW then (-1, c)
      else sendMsg (''V '' @ n @ '' '' @ quoted t) c)"

definition sendValueRaw :: "string \<Rightarrow> string \<Rightarrow> connection \<Rightarrow> int \<times> connection" where
  "sendValueRaw n t c =
     (if cn_conn_state c = CONN_INPROGRESS then (-1, c) else sendMsg (''V '' @ n @ '' '' @ t) c)"

definition value_send :: "rts2_value \<Rightarrow> connection \<Rightarrow> connection" where
  "value_send v c = (case v_data v of
       VString s \<Rightarrow> snd (sendValue_text (v_name v) s c)
     | _ \<Rightarrow> snd (sendValueRaw (v_name v) (getValue v) c))"

definition sendMetaInfo :: "rts2_value \<Rightarrow> connection \<Rightarrow> int \<times> connection" where
  "sendMetaInfo v c =
     (let (r, c1) = sendTypeMetaInfo v c in if r < 0 then (r, c1) else (0, value_send v c1))"

definition sendDelete :: "rts2_value \<Rightarrow> connection \<Rightarrow> connection" where
  "sendDelete v c = snd (sendMsg (''Z '' @ quoted (v_name v)) c)"

lemma value_send_wire:
  assumes "cn_sock c" "cn_write_ok c" "cn_conn_state c = CONN_AUTH_OK"
  shows "value_send v c = c\<lparr>cn_out := cn_out c @ [''V '' @ v_name v @ '' '' @ wire_text v]\<rparr>"
  using assms by (cases "v_data v")
    (simp_all add: value_send_def wire_text_def sendValue_text_def sendValueRaw_def sendMsg_def)

definition sendCommandEnd :: "int \<Rightarrow> string \<Rightarrow> connection \<Rightarrow> connection" where
  "sendCommandEnd num t c =
     (snd (sendMsg ((if num = 0 then ''+0'' else if num > 0 then CHR ''+'' # show_int num else show_int num)
        @ '' '' @ t) c))\<lparr>cn_commandInProgress := False\<rparr>"

section \<open>Values of the peer\<close>

definition RTS2_BASE_TYPE :: rts2_status where [status_bits]: "RTS2_BASE_TYPE = 0x0000000f"
definition RTS2_EXT_TYPE :: rts2_status where [status_bits]: "RTS2_EXT_TYPE = 0x00000070"

text \<open>\<open>newValue\<close>; None for the classes that are not modelled and for an unknown type.\<close>

definition newValue :: "rts2_status \<Rightarrow> string \<Rightarrow> string \<Rightarrow> rts2_value option" where
  "newValue t n d =
     (let w = (t AND RTS2_VALUE_FITS \<noteq> 0); base = t AND RTS2_BASE_TYPE in
      if base = RTS2_VALUE_STRING then Some (new_ValueString n d w t)
      else if base = RTS2_VALUE_INTEGER then Some (new_ValueInteger n d w t)
      else if base = RTS2_VALUE_BOOL then Some (new_ValueBool n d w t)
      else if base = RTS2_VALUE_SELECTION then Some (new_ValueSelection n d w t)
      else if base = RTS2_VALUE_LONGINT then Some (new_ValueLong n d w t)
      else None)"

text \<open>The value \<open>metaInfo\<close> creates, with the array classes.\<close>

definition metaInfo_value :: "rts2_status \<Rightarrow> string \<Rightarrow> string \<Rightarrow> rts2_value option" where
  "metaInfo_value t n d =
     (let w = (t AND RTS2_VALUE_FITS \<noteq> 0); base = t AND RTS2_BASE_TYPE in
      if t AND RTS2_EXT_TYPE = 0 then newValue t n d
      else if t AND RTS2_EXT_TYPE = RTS2_VALUE_ARRAY then
        (if base = RTS2_VALUE_STRING then Some (new_StringArray n d w t)
         else if base = RTS2_VALUE_INTEGER then Some (new_IntegerArray n d w t)
         else if base = RTS2_VALUE_BOOL then Some (new_BoolArray n d w t)
         else None)
      else None)"

text \<open>The position of the first value with the name (\<open>ValueVector::getValueIterator\<close>).\<close>

fun value_pos :: "string \<Rightarrow> rts2_value list \<Rightarrow> nat option" where
  "value_pos n [] = None"
| "value_pos n (v # vs) = (if isValue n v then Some 0 else map_option Suc (value_pos n vs))"

definition find_value :: "string \<Rightarrow> rts2_value list \<Rightarrow> rts2_value option" where
  "find_value n vs = map_option ((!) vs) (value_pos n vs)"

definition removeValue :: "string \<Rightarrow> rts2_value list \<Rightarrow> rts2_value list" where
  "removeValue n vs = (case value_pos n vs of None \<Rightarrow> vs | Some k \<Rightarrow> take k vs @ drop (Suc k) vs)"

definition conn_getValue :: "string \<Rightarrow> connection \<Rightarrow> rts2_value option" where
  "conn_getValue n c = find_value n (cn_values c)"

text \<open>None: the class is not modelled (for an array of an unknown class the program exits).\<close>

definition metaInfo :: "rts2_status \<Rightarrow> string \<Rightarrow> string \<Rightarrow> connection \<Rightarrow> (int \<times> connection) option" where
  "metaInfo t n d c =
     (let vs = cn_values c; new = metaInfo_value t n d in
      case value_pos n vs of
        Some k \<Rightarrow>
          if getValueType (vs ! k) = t AND RTS2_VALUE_MASK
          then Some (-1, c\<lparr>cn_values := vs[k := (setFlags t (vs ! k))\<lparr>v_description := d\<rparr>]\<rparr>)
          else map_option (\<lambda>v. (-1, c\<lparr>cn_values := take k vs @ v # drop (Suc k) vs\<rparr>)) new
      | None \<Rightarrow> map_option (\<lambda>v. (-1, c\<lparr>cn_values := vs @ [v]\<rparr>)) new)"

definition update_value :: "string \<Rightarrow> (rts2_value \<Rightarrow> rts2_value) \<Rightarrow> connection \<Rightarrow> connection" where
  "update_value n f c = (case value_pos n (cn_values c) of
       None \<Rightarrow> c | Some k \<Rightarrow> c\<lparr>cn_values := (cn_values c)[k := f (cn_values c ! k)]\<rparr>)"

definition sel_update :: "string \<Rightarrow> (string list \<Rightarrow> string list) \<Rightarrow> connection \<Rightarrow> int \<times> connection" where
  "sel_update n f c = (case conn_getValue n c of
       None \<Rightarrow> (-2, c)
     | Some v \<Rightarrow> if getValueType v \<noteq> RTS2_VALUE_SELECTION then (-2, c)
                 else (-1, update_value n (\<lambda>v. case v_data v of
                        VSelection i sel \<Rightarrow> v\<lparr>v_data := VSelection i (f sel)\<rparr> | _ \<Rightarrow> v) c))"

definition selMetaClear :: "string \<Rightarrow> connection \<Rightarrow> int \<times> connection" where
  "selMetaClear n = sel_update n (\<lambda>sel. [])"

definition selMetaInfo :: "string \<Rightarrow> string \<Rightarrow> connection \<Rightarrow> int \<times> connection" where
  "selMetaInfo n s = sel_update n (\<lambda>sel. sel @ [s])"

definition commandValue :: "string \<Rightarrow> string \<Rightarrow> connection \<Rightarrow> int \<times> connection" where
  "commandValue n b c = (case conn_getValue n c of
       None \<Rightarrow> (-2, c)
     | Some v \<Rightarrow> (fst (setValue_conn b v), update_value n (\<lambda>v. snd (setValue_conn b v)) c))"

definition getValueInteger_conn :: "string \<Rightarrow> connection \<Rightarrow> int" where
  "getValueInteger_conn n c = (case conn_getValue n c of None \<Rightarrow> -1 | Some v \<Rightarrow> getValueInteger v)"

definition getValueSelection :: "string \<Rightarrow> int \<Rightarrow> connection \<Rightarrow> string" where
  "getValueSelection n val_num c = (case conn_getValue n c of
       None \<Rightarrow> ''UNK''
     | Some v \<Rightarrow> if getValueType v \<noteq> RTS2_VALUE_SELECTION then ''UNK''
                 else (case v_data v of VSelection i sel \<Rightarrow> getSelName sel val_num | _ \<Rightarrow> ''UNK''))"

section \<open>Status messages\<close>

text \<open>An optional quoted text may follow; it is only logged.\<close>

definition end_or_text :: "string \<Rightarrow> bool" where
  "end_or_text b \<longleftrightarrow> fst (paramEnd b) \<or>
     (case paramNextString [] (snd (paramEnd b)) of (Some t, r) \<Rightarrow> fst (paramEnd r) | (None, r) \<Rightarrow> False)"

definition status :: "string \<Rightarrow> connection \<Rightarrow> int \<times> connection" where
  "status b c = (case paramNextLongLong b of
       (Some v, r) \<Rightarrow> if end_or_text r then (-1, setState (word_of_int v) c) else (-2, c)
     | (None, r) \<Rightarrow> (-2, c))"

definition bopStatus :: "string \<Rightarrow> connection \<Rightarrow> int \<times> connection" where
  "bopStatus b c = (case paramNextLongLong b of
       (Some m, r) \<Rightarrow> (case paramNextLongLong r of
           (Some bop, r') \<Rightarrow> if fst (paramEnd r') then (-1, setState (word_of_int m) (setBopState (word_of_int bop) c))
                            else (-2, c)
         | (None, r') \<Rightarrow> (-2, c))
     | (None, r) \<Rightarrow> (-2, c))"

definition message :: "string \<Rightarrow> connection \<Rightarrow> int \<times> connection" where
  "message b c = (case paramNextTimeval b of
       (Some tv, r) \<Rightarrow> (case paramNextString [] r of
           (Some n, r') \<Rightarrow> (case paramNextInteger r' of
               (Some t, r'') \<Rightarrow> (-1, cn_event (MessageReceived tv n t (paramNextWholeString r'')) c)
             | (None, r'') \<Rightarrow> (-2, c))
         | (None, r') \<Rightarrow> (-2, c))
     | (None, r) \<Rightarrow> (-2, c))"

definition technical :: "string \<Rightarrow> connection \<Rightarrow> int \<times> connection" where
  "technical b c = (case paramNextString [] b of
       (Some m, r) \<Rightarrow>
         if \<not> fst (paramEnd r) then (-2, c)
         else if m = ''ready'' then (-1, snd (sendMsg ''T OK'' c))
         else if m = ''OK'' then (-1, c)
         else (-2, c)
     | (None, r) \<Rightarrow> (-2, c))"

section \<open>processLine\<close>

text \<open>
  The virtual calls are parameters: \<open>set_value\<close> is \<open>master->setValue (this)\<close> and \<open>cmd\<close> is
  \<open>command ()\<close>, with the word and the parameters of the line. Lines of the data channels and
  of progress, which carry binary data or doubles, are not modelled (None).
\<close>

definition isCommandReturn :: "string \<Rightarrow> bool" where
  "isCommandReturn w \<longleftrightarrow> w \<noteq> [] \<and> (hd w = CHR ''+'' \<or> hd w = CHR ''-'')"

definition line_end :: "string \<Rightarrow> int \<times> connection \<Rightarrow> connection" where
  "line_end line rc =
     (if fst rc = DEVDEM_OK then sendCommandEnd DEVDEM_OK ''OK'' (snd rc)
      else if fst rc = DEVDEM_E_PARAMSNUM then
        sendCommandEnd DEVDEM_E_PARAMSNUM (''invalid parameters/invalid number of parameters - '' @ line) (snd rc)
      else if fst rc = DEVDEM_E_PARAMSVAL then
        sendCommandEnd DEVDEM_E_PARAMSVAL (''invalid parameter values for command '' @ line) (snd rc)
      else snd rc)"

definition processLine ::
  "(string \<Rightarrow> connection \<Rightarrow> int \<times> connection) \<Rightarrow> (string \<Rightarrow> string \<Rightarrow> connection \<Rightarrow> int \<times> connection)
    \<Rightarrow> string \<Rightarrow> connection \<Rightarrow> connection option"
where
  "processLine set_value cmd line c =
     (let (w, b) = split_command line in
      map_option (line_end line)
       (if w = ''S'' then Some (status b c)
        else if w = ''B'' then Some (bopStatus b c)
        else if w = ''M'' then Some (message b c)
        else if w = ''T'' then Some (technical b c)
        else if w = ''E'' then
          (case paramNextInteger b of
             (None, r) \<Rightarrow> Some (-2, c)
           | (Some t, r) \<Rightarrow> (case paramNextString [] r of
               (None, r1) \<Rightarrow> Some (-2, c)
             | (Some n, r1) \<Rightarrow> (case paramNextString [] r1 of
                 (None, r2) \<Rightarrow> Some (-2, c)
               | (Some d, r2) \<Rightarrow> if fst (paramEnd r2) then metaInfo (word_of_int t) n d c else Some (-2, c))))
        else if w = ''Z'' then
          (case paramNextString [] b of
             (None, r) \<Rightarrow> Some (-2, c)
           | (Some n, r) \<Rightarrow>
               if \<not> fst (paramEnd r) \<or> conn_getValue n c = None then Some (-2, c)
               else Some (-1, c\<lparr>cn_values := removeValue n (cn_values c)\<rparr>))
        else if w = ''V'' then
          (case paramNextString [] b of
             (None, r) \<Rightarrow> Some (-1, c)
           | (Some n, r) \<Rightarrow> Some (-1, snd (commandValue n r c)))
        else if w = ''F'' then
          (case paramNextString [] b of
             (None, r) \<Rightarrow> Some (-2, c)
           | (Some n, r) \<Rightarrow>
               (let (e, r1) = paramEnd r in
                if e then Some (selMetaClear n c)
                else (case paramNextString [] r1 of
                    (None, r2) \<Rightarrow> Some (-2, c)
                  | (Some s, r2) \<Rightarrow> if fst (paramEnd r2) then Some (selMetaInfo n s c) else Some (-2, c))))
        else if w = ''X'' then Some (set_value b c)
        else if w \<in> {''R'', ''C'', ''D'', ''H'', ''I'', ''J'', ''K'', ''fits_data''} then None
        else if isCommandReturn w then Some (commandReturn (atoi w) c)
        else Some (cmd w b (c\<lparr>cn_commandInProgress := True\<rparr>))))"

section \<open>A value and its description reach the peer\<close>

text \<open>The type bits of the class of the data.\<close>

fun class_type :: "value_data \<Rightarrow> rts2_status" where
  "class_type (VString _) = RTS2_VALUE_STRING"
| "class_type (VInteger _) = RTS2_VALUE_INTEGER"
| "class_type (VBool _) = RTS2_VALUE_BOOL"
| "class_type (VSelection _ _) = RTS2_VALUE_SELECTION"
| "class_type (VLong _) = RTS2_VALUE_LONGINT"
| "class_type (VStringArray _) = RTS2_VALUE_ARRAY OR RTS2_VALUE_STRING"
| "class_type (VIntegerArray _) = RTS2_VALUE_ARRAY OR RTS2_VALUE_INTEGER"
| "class_type (VBoolArray _) = RTS2_VALUE_ARRAY OR RTS2_VALUE_BOOL"

definition typed :: "rts2_value \<Rightarrow> bool" where
  "typed v \<longleftrightarrow> getValueType v = class_type (v_data v)"

definition empty_data :: "value_data \<Rightarrow> value_data \<Rightarrow> bool" where
  "empty_data d e \<longleftrightarrow> (case d of
       VString _ \<Rightarrow> \<exists>s. e = VString s | VInteger _ \<Rightarrow> \<exists>i. e = VInteger i | VBool _ \<Rightarrow> \<exists>i. e = VBool i
     | VSelection _ _ \<Rightarrow> \<exists>i. e = VSelection i [] | VLong _ \<Rightarrow> \<exists>i. e = VLong i
     | VStringArray _ \<Rightarrow> \<exists>x. e = VStringArray x | VIntegerArray _ \<Rightarrow> \<exists>x. e = VIntegerArray x
     | VBoolArray _ \<Rightarrow> \<exists>x. e = VBoolArray x)"

lemma sub_mask: "t AND RTS2_VALUE_MASK = k \<Longrightarrow> m AND NOT RTS2_VALUE_MASK = 0 \<Longrightarrow> t AND m = k AND m"
  using and_sub_eq [of t RTS2_VALUE_MASK k m] by (metis and.left_idem and.commute and.assoc)

lemma new_data:
  "v_data (new_ValueString n d w t) = VString ''''"
  "\<exists>i. v_data (new_ValueInteger n d w t) = VInteger i"
  "v_data (new_ValueBool n d w t) = VBool 2"
  "\<exists>i. v_data (new_ValueSelection n d w t) = VSelection i []"
  "v_data (new_ValueLong n d w t) = VLong 0"
  "v_data (new_StringArray n d w t) = VStringArray []"
  "v_data (new_IntegerArray n d w t) = VIntegerArray []"
  "v_data (new_BoolArray n d w t) = VBoolArray []"
  by (simp_all add: new_ValueString_def new_ValueInteger_def new_ValueBool_def new_ValueSelection_def new_ValueLong_def
      new_StringArray_def new_IntegerArray_def new_BoolArray_def new_Value_def add_type_def setValueFlags_def
      setWriteToFits_def Let_def)

lemma new_name:
  "v_name (new_ValueString n d w t) = n" "v_name (new_ValueInteger n d w t) = n"
  "v_name (new_ValueBool n d w t) = n" "v_name (new_ValueSelection n d w t) = n"
  "v_name (new_ValueLong n d w t) = n" "v_name (new_StringArray n d w t) = n"
  "v_name (new_IntegerArray n d w t) = n" "v_name (new_BoolArray n d w t) = n"
  by (simp_all add: new_ValueString_def new_ValueInteger_def new_ValueBool_def new_ValueSelection_def new_ValueLong_def
      new_StringArray_def new_IntegerArray_def new_BoolArray_def new_Value_def add_type_def setValueFlags_def
      setWriteToFits_def changed_def set_type_def Let_def)

lemma or_type: "x AND RTS2_VALUE_MASK = 0 \<Longrightarrow> (x OR k) AND RTS2_VALUE_MASK = k AND RTS2_VALUE_MASK"
  by (simp add: bit.conj_disj_distrib2)

lemma flags_type: "v_rts2Type (new_Value n d w f e) AND RTS2_VALUE_MASK = 0"
proof -
  have "(RTS2_TYPE_MASK OR RTS2_VWHEN_MASK OR RTS2_VWHEN_RECORD_CHANGE OR RTS2_VALUE_DEVPREFIX OR RTS2_VALUE_DEBUG
      OR RTS2_FITS_HEADERS OR RTS2_VALUE_WRITABLE OR RTS2_VALUE_NOTNULL OR RTS2_VALUE_ERRORMASK OR RTS2_VALUE_AUTOSAVE)
      AND f AND RTS2_VALUE_MASK = 0"
    by (subst and.assoc [symmetric], rule and_mask_zero) (simp add: status_bits)
  then show ?thesis
    by (simp add: new_Value_def setValueFlags_def setWriteToFits_def Let_def bit.conj_disj_distrib2 and.assoc)
      (simp add: status_bits)
qed

lemma changed_type [simp]: "getValueType (changed v) = getValueType v" "typed (changed v) = typed v"
proof -
  show "getValueType (changed v) = getValueType v"
    by (simp add: getValueType_def changed_def bit.conj_disj_distrib2) (simp add: status_bits)
  then show "typed (changed v) = typed v" by (simp add: typed_def)
qed

lemma typed_new:
  "typed (new_ValueString n d w t)" "typed (new_ValueInteger n d w t)" "typed (new_ValueBool n d w t)"
  "typed (new_ValueSelection n d w t)" "typed (new_ValueLong n d w t)" "typed (new_StringArray n d w t)"
  "typed (new_IntegerArray n d w t)" "typed (new_BoolArray n d w t)"
proof -
  have set: "((NOT RTS2_VALUE_MASK AND x) OR k) AND RTS2_VALUE_MASK = k AND RTS2_VALUE_MASK" for x k
    by (rule or_type, rule and_mask_zero) (simp add: status_bits)
  show "typed (new_ValueString n d w t)" "typed (new_ValueInteger n d w t)" "typed (new_ValueLong n d w t)"
    "typed (new_StringArray n d w t)" "typed (new_IntegerArray n d w t)"
    using new_data flags_type
    by (simp_all add: typed_def getValueType_def new_ValueString_def new_ValueInteger_def new_ValueLong_def
        new_StringArray_def new_IntegerArray_def add_type_def or_type)
      (simp_all add: status_bits new_Value_def setValueFlags_def setWriteToFits_def Let_def)
  show "typed (new_ValueSelection n d w t)"
    by (simp add: typed_def getValueType_def new_ValueSelection_def set_type_def set) (simp add: status_bits)
  have "v_rts2Type (changed v) AND RTS2_VALUE_MASK = v_rts2Type v AND RTS2_VALUE_MASK" for v
    using changed_type(1) by (simp add: getValueType_def)
  then show "typed (new_ValueBool n d w t)"
    by (simp add: typed_def getValueType_def new_ValueBool_def set_type_def set) (simp add: status_bits)
  have i: "v_rts2Type (new_IntegerArray n d w t) AND RTS2_VALUE_MASK = RTS2_VALUE_ARRAY OR RTS2_VALUE_INTEGER"
    by (simp add: new_IntegerArray_def add_type_def or_type flags_type) (simp add: status_bits)
  have "(v_rts2Type (new_IntegerArray n d w t) AND NOT RTS2_VALUE_INTEGER OR RTS2_VALUE_BOOL) AND RTS2_VALUE_MASK
      = ((v_rts2Type (new_IntegerArray n d w t) AND RTS2_VALUE_MASK) AND NOT RTS2_VALUE_INTEGER) OR (RTS2_VALUE_BOOL AND RTS2_VALUE_MASK)"
    by (rule bit_word_eqI) (auto simp: bit_simps)
  then show "typed (new_BoolArray n d w t)"
    by (simp add: typed_def getValueType_def new_BoolArray_def i Let_def) (simp add: status_bits)
qed

lemma metaInfo_value_class:
  assumes "t AND RTS2_VALUE_MASK = class_type d"
  shows "\<exists>u. metaInfo_value t n desc = Some u \<and> v_name u = n \<and> empty_data d (v_data u) \<and> typed u"
proof -
  have b: "t AND RTS2_BASE_TYPE = class_type d AND RTS2_BASE_TYPE" and x: "t AND RTS2_EXT_TYPE = class_type d AND RTS2_EXT_TYPE"
    using sub_mask [OF assms] by (simp_all add: status_bits)
  show ?thesis
    by (cases d) (use new_data new_name typed_new in
      \<open>simp_all add: metaInfo_value_def newValue_def b x empty_data_def Let_def, simp_all add: status_bits\<close>)
qed

text \<open>Names, descriptions and texts that the line protocol can carry.\<close>

definition wire_name :: "string \<Rightarrow> bool" where
  "wire_name n \<longleftrightarrow> n \<noteq> [] \<and> (\<forall>c \<in> set n. \<not> isspace c \<and> c \<noteq> CHR ''\"'' \<and> in_line c)"

definition wire_desc :: "string \<Rightarrow> bool" where
  "wire_desc d \<longleftrightarrow> (\<forall>c \<in> set d. c \<noteq> CHR ''\"'' \<and> in_line c)"

fun sel_names :: "value_data \<Rightarrow> string list" where
  "sel_names (VSelection i sel) = sel"
| "sel_names _ = []"

definition wire_value :: "rts2_value \<Rightarrow> bool" where
  "wire_value v \<longleftrightarrow> typed v \<and> wire_name (v_name v) \<and> wire_desc (v_description v) \<and> wire_ok (v_data v) (v_data v)
     \<and> (\<forall>c \<in> set (wire_text v). in_line c) \<and> (\<forall>x \<in> set (sel_names (v_data v)). wire_desc x)"

definition receive_line ::
  "(string \<Rightarrow> connection \<Rightarrow> int \<times> connection) \<Rightarrow> (string \<Rightarrow> string \<Rightarrow> connection \<Rightarrow> int \<times> connection)
    \<Rightarrow> string \<Rightarrow> connection option \<Rightarrow> connection option"
where
  "receive_line sv cmd l s = Option.bind s (processLine sv cmd l)"

lemma letters [simp]: "\<not> isspace CHR ''E''" "\<not> isspace CHR ''F''" "\<not> isspace CHR ''V''" "in_line CHR ''E''"
  "in_line CHR ''F''" "in_line CHR ''V''" "in_line CHR '' ''" "in_line CHR ''\"''"
  by code_simp+

lemma split_letter: "\<not> isspace x \<Longrightarrow> split_command (x # CHR '' '' # r) = ([x], r)"
  by (simp add: split_command_def)

lemma paramNextString_name:
  "wire_name n \<Longrightarrow> paramNextString [] (n @ CHR '' '' # r) = (Some n, r)"
  using paramNextString_word [of n "[]" "CHR '' '' # r"] by (auto simp: wire_name_def)

lemma paramNextString_quoted_name:
  "wire_desc d \<Longrightarrow> paramNextString ds (quoted d @ r) = (Some d, r)"
  using paramNextString_quoted [of d ds r] by (auto simp: quoted_def wire_desc_def)

lemma paramEnd_blank [simp]: "paramEnd ('' '') = (True, [])"
  by (simp add: paramEnd_def)

lemma wire_name_desc: "wire_name n \<Longrightarrow> wire_desc n"
  by (simp add: wire_name_def wire_desc_def)

lemma value_pos_new:
  "value_pos n vs = None \<Longrightarrow> isValue n u \<Longrightarrow> value_pos n (vs @ [u]) = Some (length vs)"
  by (induction vs) (auto split: if_splits)

lemma line_end_quiet [simp]: "line_end l (-1, c) = c"
  by (simp add: line_end_def return_codes)

definition E_line :: "rts2_value \<Rightarrow> string" where
  "E_line v = ''E '' @ show_int (sint (v_rts2Type v)) @ '' '' @ quoted (v_name v) @ '' '' @ quoted (v_description v) @ '' ''"

lemma processLine_E:
  assumes "wire_name (v_name v)" "wire_desc (v_description v)" "value_pos (v_name v) (cn_values c) = None"
    and "metaInfo_value (v_rts2Type v) (v_name v) (v_description v) = Some u"
  shows "processLine sv cmd (E_line v) c = Some (c\<lparr>cn_values := cn_values c @ [u]\<rparr>)"
proof -
  let ?r = "CHR '' '' # quoted (v_description v) @ '' ''"
  have t: "paramNextInteger (show_int (sint (v_rts2Type v)) @ CHR '' '' # quoted (v_name v) @ ?r)
      = (Some (sint (v_rts2Type v)), quoted (v_name v) @ ?r)"
    using sint_ge [of "v_rts2Type v"] sint_lt [of "v_rts2Type v"]
      paramNextInteger_token [of "sint (v_rts2Type v)" "CHR '' '' # quoted (v_name v) @ ?r"] by simp
  have n: "paramNextString [] (quoted (v_name v) @ ?r) = (Some (v_name v), ?r)"
    by (rule paramNextString_quoted_name [OF wire_name_desc [OF assms(1)]])
  have d: "paramNextString [] ?r = (Some (v_description v), '' '')"
    by (simp only: paramNextString_blank isspace_blank(1) paramNextString_quoted_name [OF assms(2)])
  have s: "split_command (E_line v) = (''E'', show_int (sint (v_rts2Type v)) @ CHR '' '' # quoted (v_name v) @ ?r)"
    unfolding E_line_def by (simp add: split_letter)
  show ?thesis
    using assms(3,4) by (simp add: processLine_def s t n d metaInfo_def)
qed

lemma update_last:
  assumes "value_pos n vs = None" "isValue n u"
  shows "update_value n f (c\<lparr>cn_values := vs @ [u]\<rparr>) = c\<lparr>cn_values := vs @ [f u]\<rparr>"
    "conn_getValue n (c\<lparr>cn_values := vs @ [u]\<rparr>) = Some u"
  using value_pos_new [OF assms] by (simp_all add: update_value_def conn_getValue_def find_value_def)

definition V_line :: "rts2_value \<Rightarrow> string" where
  "V_line v = ''V '' @ v_name v @ '' '' @ wire_text v"

lemma processLine_V:
  assumes "wire_name (v_name v)" "value_pos (v_name v) vs = None" "isValue (v_name v) u"
  shows "processLine sv cmd (V_line v) (c\<lparr>cn_values := vs @ [u]\<rparr>)
    = Some (c\<lparr>cn_values := vs @ [snd (setValue_conn (wire_text v) u)]\<rparr>)"
proof -
  have s: "split_command (V_line v) = (''V'', v_name v @ CHR '' '' # wire_text v)"
    unfolding V_line_def by (simp add: split_letter)
  show ?thesis
    using update_last [OF assms(2,3)] by (simp add: processLine_def s paramNextString_name assms(1) commandValue_def)
qed

definition F_line :: "string \<Rightarrow> string" where
  "F_line n = ''F '' @ quoted n"

definition F_name_line :: "string \<Rightarrow> string \<Rightarrow> string" where
  "F_name_line n x = ''F '' @ quoted n @ '' '' @ quoted x"

lemma processLine_F:
  assumes "wire_name n" "value_pos n vs = None" "isValue n u" "typed u" "v_data u = VSelection i sel"
  shows "processLine sv cmd (F_line n) (c\<lparr>cn_values := vs @ [u]\<rparr>)
      = Some (c\<lparr>cn_values := vs @ [u\<lparr>v_data := VSelection i []\<rparr>]\<rparr>)"
    and "wire_desc x \<Longrightarrow> processLine sv cmd (F_name_line n x) (c\<lparr>cn_values := vs @ [u]\<rparr>)
      = Some (c\<lparr>cn_values := vs @ [u\<lparr>v_data := VSelection i (sel @ [x])\<rparr>]\<rparr>)"
proof -
  have q: "paramNextString [] (quoted n) = (Some n, [])"
    using paramNextString_quoted_name [OF wire_name_desc [OF assms(1)], of "[]" "[]"] by simp
  have s: "split_command (F_line n) = (''F'', quoted n)"
    unfolding F_line_def by (simp add: split_letter)
  have t: "getValueType u = RTS2_VALUE_SELECTION" using assms(4,5) by (simp add: typed_def)
  show "processLine sv cmd (F_line n) (c\<lparr>cn_values := vs @ [u]\<rparr>)
      = Some (c\<lparr>cn_values := vs @ [u\<lparr>v_data := VSelection i []\<rparr>]\<rparr>)"
    using update_last [OF assms(2,3)] assms(5) t
    by (simp add: processLine_def s q paramEnd_Nil selMetaClear_def sel_update_def)
  assume x: "wire_desc x"
  have s: "split_command (F_name_line n x) = (''F'', quoted n @ CHR '' '' # quoted x)"
    unfolding F_name_line_def by (simp add: split_letter)
  have q: "paramNextString [] (quoted n @ CHR '' '' # quoted x) = (Some n, CHR '' '' # quoted x)"
    by (rule paramNextString_quoted_name [OF wire_name_desc [OF assms(1)]])
  have e: "paramEnd (CHR '' '' # quoted x) = (False, quoted x)" by (simp add: paramEnd_def quoted_def)
  have y: "paramNextString [] (quoted x) = (Some x, [])"
    using paramNextString_quoted_name [OF x, of "[]" "[]"] by simp
  show "processLine sv cmd (F_name_line n x) (c\<lparr>cn_values := vs @ [u]\<rparr>)
      = Some (c\<lparr>cn_values := vs @ [u\<lparr>v_data := VSelection i (sel @ [x])\<rparr>]\<rparr>)"
    using update_last [OF assms(2,3)] assms(5) t
    by (simp add: processLine_def s q e y paramEnd_Nil selMetaInfo_def sel_update_def)
qed

lemma process_loop_wire_rest:
  assumes "\<forall>l \<in> set ls. wire_line l"
  shows "process_loop line no_binary (concat (map (\<lambda>l. l @ [LF]) ls) @ r) s = process_loop line no_binary r (fold line ls s)"
  using assms
proof (induction ls arbitrary: s)
  case (Cons l ls)
  then have w: "wire_line l" by simp
  have e: "concat (map (\<lambda>l. l @ [LF]) (l # ls)) @ r = l @ LF # (concat (map (\<lambda>l. l @ [LF]) ls) @ r)" by simp
  show ?case unfolding e process_loop_line_text [OF w] using Cons by simp
qed simp

lemma in_line_show_int: "c \<in> set (show_int i) \<Longrightarrow> in_line c"
proof -
  assume "c \<in> set (show_int i)"
  then have "c = CHR ''-'' \<or> isdigit c" using show_nat_digits by (auto simp: show_int_def split: if_splits)
  then show "in_line c" by (auto simp: in_line_def isdigit_def)
qed

lemma wire_lines:
  assumes "wire_value v" "x \<in> set (sel_names (v_data v))"
  shows "wire_line (E_line v)" "wire_line (V_line v)" "wire_line (F_line (v_name v))" "wire_line (F_name_line (v_name v) x)"
  using assms in_line_show_int
  by (auto simp: wire_value_def wire_line_def E_line_def V_line_def F_line_def F_name_line_def quoted_def
      wire_name_def wire_desc_def)

lemma wire_lines_EV:
  assumes "wire_value v"
  shows "wire_line (E_line v)" "wire_line (V_line v)" "wire_line (F_line (v_name v))"
  using assms in_line_show_int
  by (auto simp: wire_value_def wire_line_def E_line_def V_line_def F_line_def quoted_def wire_name_def wire_desc_def)

text \<open>The bytes of the messages a connection wrote: \<open>sendMsg\<close> ends each with a line feed.\<close>

definition wire_bytes :: "string list \<Rightarrow> string" where
  "wire_bytes ms = concat (map (\<lambda>m. m @ [LF]) ms)"

text \<open>\<open>sendMetaInfo\<close> on an idle connection: the lines of description, choices and value.\<close>

definition meta_lines :: "rts2_value \<Rightarrow> string list" where
  "meta_lines v = E_line v # (case v_data v of
     VSelection i sel \<Rightarrow> F_line (v_name v) # map (F_name_line (v_name v)) sel | _ \<Rightarrow> [])"

lemma sendMetaInfo_bytes:
  assumes "cn_sock s" "cn_write_ok s" "cn_conn_state s = CONN_AUTH_OK" "cn_out s = []"
  shows "wire_bytes (cn_out (snd (sendMetaInfo v s)))
    = concat (map (\<lambda>l. l @ [LF]) (meta_lines v))
      @ (case v_data v of VSelection i sel \<Rightarrow> [LF] | _ \<Rightarrow> []) @ V_line v @ [LF]"
  using assms
  by (cases "v_data v")
    (simp_all add: sendMetaInfo_def sendTypeMetaInfo_def sendMsg_def value_send_wire wire_bytes_def meta_lines_def
      E_line_def V_line_def F_line_def F_name_line_def Let_def o_def)

lemma fold_F_names:
  assumes "wire_name n" "value_pos n vs = None" "\<forall>x \<in> set xs. wire_desc x"
  shows "isValue n u \<Longrightarrow> typed u \<Longrightarrow> v_data u = VSelection i sel \<Longrightarrow>
    fold (receive_line sv cmd) (map (F_name_line n) xs) (Some (c\<lparr>cn_values := vs @ [u]\<rparr>))
    = Some (c\<lparr>cn_values := vs @ [u\<lparr>v_data := VSelection i (sel @ xs)\<rparr>]\<rparr>)"
  using assms(3)
proof (induction xs arbitrary: u sel)
  case (Cons x xs)
  let ?u = "u\<lparr>v_data := VSelection i (sel @ [x])\<rparr>"
  have "isValue n ?u" "typed ?u" using Cons.prems by (simp_all add: isValue_def typed_def getValueType_def)
  then show ?case
    using Cons.prems Cons.IH [of ?u "sel @ [x]"] processLine_F(2) [OF assms(1,2)]
    by (simp add: receive_line_def)
qed simp

text \<open>The value a peer holds when it has read the lines with the description.\<close>

lemma receive_meta_lines:
  assumes v: "wire_value v" and pos: "value_pos (v_name v) (cn_values c) = None"
  shows "\<exists>u. fold (receive_line sv cmd) (meta_lines v) (Some c) = Some (c\<lparr>cn_values := cn_values c @ [u]\<rparr>)
    \<and> isValue (v_name v) u \<and> wire_ok (v_data u) (v_data v)"
proof -
  have n: "wire_name (v_name v)" and d: "wire_desc (v_description v)" and t: "typed v" and w: "wire_ok (v_data v) (v_data v)"
    using v by (simp_all add: wire_value_def)
  obtain u where u: "metaInfo_value (v_rts2Type v) (v_name v) (v_description v) = Some u" "v_name u = v_name v"
      "empty_data (v_data v) (v_data u)" "typed u"
    using metaInfo_value_class [of "v_rts2Type v" "v_data v" "v_name v" "v_description v"] t
    by (auto simp: typed_def getValueType_def)
  have iv: "isValue (v_name v) u" by (simp add: isValue_def u(2))
  have E: "receive_line sv cmd (E_line v) (Some c) = Some (c\<lparr>cn_values := cn_values c @ [u]\<rparr>)"
    using processLine_E [OF n d pos u(1)] by (simp add: receive_line_def)
  show ?thesis
  proof (cases "v_data v")
    case (VSelection i sel)
    then obtain j where j: "v_data u = VSelection j []" using u(3) by (auto simp: empty_data_def)
    let ?u = "u\<lparr>v_data := VSelection j []\<rparr>"
    have "fold (receive_line sv cmd) (map (F_name_line (v_name v)) sel) (Some (c\<lparr>cn_values := cn_values c @ [?u]\<rparr>))
        = Some (c\<lparr>cn_values := cn_values c @ [?u\<lparr>v_data := VSelection j ([] @ sel)\<rparr>]\<rparr>)"
      using n pos v VSelection iv u(4) j
      by (intro fold_F_names) (simp_all add: wire_value_def isValue_def typed_def getValueType_def)
    then show ?thesis
      using VSelection E processLine_F(1) [OF n pos iv u(4) j] w
      by (intro exI [of _ "u\<lparr>v_data := VSelection j sel\<rparr>"])
        (simp add: meta_lines_def receive_line_def isValue_def u(2))
  qed (use E iv u(3) w in \<open>auto simp: meta_lines_def empty_data_def\<close>)
qed



end
