(* ===== verification/Rts2_Block.thy ===== *)
theory Rts2_Block
  imports Rts2_Protocol
begin

text \<open>
  \<open>rts2core::Block\<close> (\<open>lib/rts2/block.cpp\<close>, \<open>include/block.h\<close>): the lists of connections to
  clients, devices and central servers, the addresses and users the central server announced,
  the state of the central server this program follows, and the questions asked of all
  connections. Virtual functions are parameters. Connections are compared by \<open>cn_id\<close>.
\<close>

section \<open>State\<close>

text \<open>The name of an address sits in an array of \<open>DEVICE_NAME_SIZE\<close> characters.\<close>

record network_address =
  na_host_num :: int
  na_centrald_num :: int
  na_centrald_id :: int
  na_name :: string
  na_host :: string
  na_port :: int
  na_type :: int

record conn_user =
  cu_centralId :: int
  cu_login :: string
  cu_name :: string

record block =
  bl_connections :: "connection list"
  bl_connections_added :: "connection list"
  bl_centraldConns :: "connection list"
  bl_centraldConns_added :: "connection list"
  bl_blockAddress :: "network_address list"
  bl_blockUsers :: "conn_user list"
  bl_masterState :: rts2_status
  bl_stateMasterConn :: "nat option"
  bl_pollsize :: nat
  bl_fds_size :: nat
  bl_npolls :: nat

definition POLLS_SIZE :: nat where "POLLS_SIZE = 200"

definition new_Block :: block where
  "new_Block = \<lparr>bl_connections = [], bl_connections_added = [], bl_centraldConns = [], bl_centraldConns_added = [],
     bl_blockAddress = [], bl_blockUsers = [], bl_masterState = SERVERD_HARD_OFF, bl_stateMasterConn = None,
     bl_pollsize = POLLS_SIZE, bl_fds_size = POLLS_SIZE, bl_npolls = 0\<rparr>"

text \<open>All connections, as most loops visit them: the connections, then the central servers.\<close>

definition map_conns :: "(connection \<Rightarrow> connection) \<Rightarrow> 'a block_scheme \<Rightarrow> 'a block_scheme" where
  "map_conns f b = b\<lparr>bl_connections := map f (bl_connections b), bl_centraldConns := map f (bl_centraldConns b)\<rparr>"

definition all_conns :: "'a block_scheme \<Rightarrow> connection list" where
  "all_conns b = bl_connections b @ bl_centraldConns b"

section \<open>Connections\<close>

definition commandQueEmpty :: "'a block_scheme \<Rightarrow> bool" where
  "commandQueEmpty b \<longleftrightarrow> list_all queEmpty (all_conns b)"

definition addConnection :: "connection \<Rightarrow> 'a block_scheme \<Rightarrow> 'a block_scheme" where
  "addConnection c b = b\<lparr>bl_connections_added := bl_connections_added b @ [c]\<rparr>"

definition removeConnection :: "nat \<Rightarrow> 'a block_scheme \<Rightarrow> 'a block_scheme" where
  "removeConnection i b = b\<lparr>bl_connections := filter (\<lambda>c. cn_id c \<noteq> i) (bl_connections b),
     bl_connections_added := filter (\<lambda>c. cn_id c \<noteq> i) (bl_connections_added b)\<rparr>"

definition addCentraldConnection :: "connection \<Rightarrow> bool \<Rightarrow> 'a block_scheme \<Rightarrow> 'a block_scheme" where
  "addCentraldConnection c added b =
     (if added then b\<lparr>bl_centraldConns := bl_centraldConns b @ [c]\<rparr>
      else b\<lparr>bl_centraldConns_added := bl_centraldConns_added b @ [c]\<rparr>)"

definition findName :: "string \<Rightarrow> 'a block_scheme \<Rightarrow> connection option" where
  "findName n b = find (\<lambda>c. cn_name c = n) (bl_connections b)"

definition findCentralId :: "int \<Rightarrow> 'a block_scheme \<Rightarrow> connection option" where
  "findCentralId i b = find (\<lambda>c. cn_centrald_id c = i) (bl_connections b)"

definition getOpenConnection :: "string \<Rightarrow> 'a block_scheme \<Rightarrow> connection option" where
  "getOpenConnection n b = find (\<lambda>c. cn_name c = n) (bl_connections b)"

definition getOpenConnection_type :: "int \<Rightarrow> 'a block_scheme \<Rightarrow> connection option" where
  "getOpenConnection_type t b = find (\<lambda>c. cn_other_type c = t) (bl_connections b)"

definition sendAll :: "string \<Rightarrow> 'a block_scheme \<Rightarrow> 'a block_scheme" where
  "sendAll m = map_conns (\<lambda>c. snd (sendMsg m c))"

definition sendAllExcept :: "string \<Rightarrow> nat \<Rightarrow> 'a block_scheme \<Rightarrow> 'a block_scheme" where
  "sendAllExcept m except = map_conns (\<lambda>c. if cn_id c \<noteq> except then snd (sendMsg m c) else c)"

definition bop_text :: "rts2_status \<Rightarrow> rts2_status \<Rightarrow> string" where
  "bop_text s bop = ''B '' @ show_nat (unat s) @ '' '' @ show_nat (unat bop)"

definition sendBopMessage :: "rts2_status \<Rightarrow> rts2_status \<Rightarrow> 'a block_scheme \<Rightarrow> 'a block_scheme" where
  "sendBopMessage s bop = sendAll (bop_text s bop)"

definition sendBopMessage_conn :: "rts2_status \<Rightarrow> rts2_status \<Rightarrow> connection \<Rightarrow> connection" where
  "sendBopMessage_conn s bop c = snd (sendMsg (bop_text s bop) c)"

text \<open>The part of \<open>idle\<close> on connections: each one's \<open>idle\<close>, then the new ones join the lists.\<close>

definition block_idle_conns :: "int \<Rightarrow> 'a block_scheme \<Rightarrow> 'a block_scheme" where
  "block_idle_conns now b =
     (let b1 = map_conns (conn_idle now) b
      in b1\<lparr>bl_connections := bl_connections b1 @ bl_connections_added b1, bl_connections_added := [],
            bl_centraldConns := bl_centraldConns b1 @ bl_centraldConns_added b1, bl_centraldConns_added := []\<rparr>)"

text \<open>A connection goes only in the state \<open>CONN_DELETE\<close>; the others forget it first.\<close>

definition block_deleteConnection :: "connection \<Rightarrow> 'a block_scheme \<Rightarrow> int \<times> 'a block_scheme" where
  "block_deleteConnection c b =
     (if isConnState c CONN_DELETE
      then (0, map_conns (\<lambda>d. if cn_id d \<noteq> cn_id c then conn_deleteConnection (cn_id c) d else d) b)
      else (-1, b))"

text \<open>
  \<open>pollSuccess\<close> for the connection \<open>i\<close>: \<open>failed\<close> says that \<open>receive\<close> or \<open>writable\<close> returned
  -1, \<open>removed\<close> is the virtual \<open>connectionRemoved\<close>.
\<close>

definition poll_connection ::
  "(connection \<Rightarrow> 'a block_scheme \<Rightarrow> 'a block_scheme) \<Rightarrow> bool \<Rightarrow> nat \<Rightarrow> 'a block_scheme \<Rightarrow> 'a block_scheme"
where
  "poll_connection removed failed i b =
     (case find (\<lambda>c. cn_id c = i) (all_conns b) of
        None \<Rightarrow> b
      | Some c \<Rightarrow>
          if failed then
            (let (ret, b1) = block_deleteConnection c b in
             if ret = 0
             then removed c (b1\<lparr>bl_connections := filter (\<lambda>d. cn_id d \<noteq> i) (bl_connections b1),
                               bl_centraldConns := filter (\<lambda>d. cn_id d \<noteq> i) (bl_centraldConns b1)\<rparr>)
             else b1)
          else b)"

definition block_masterStateChanged :: "'a block_scheme \<Rightarrow> 'a block_scheme" where
  "block_masterStateChanged = map_conns masterStateChanged"

section \<open>The state of the central server\<close>

definition getMasterState :: "'a block_scheme \<Rightarrow> rts2_status" where
  "getMasterState b = bl_masterState b AND (SERVERD_STATUS_MASK OR SERVERD_ONOFF_MASK)"

definition getMasterStateFull :: "'a block_scheme \<Rightarrow> rts2_status" where
  "getMasterStateFull b = bl_masterState b"

definition centralServerInState :: "rts2_status \<Rightarrow> 'a block_scheme \<Rightarrow> bool" where
  "centralServerInState s b \<longleftrightarrow> list_ex (\<lambda>c. getState c AND s \<noteq> 0) (bl_centraldConns b)"

text \<open>\<open>change\<close> is the virtual \<open>changeMasterState\<close> (old and new state), \<open>bop\<close> \<open>bopStateChanged\<close>.\<close>

definition setMasterState ::
  "(rts2_status \<Rightarrow> rts2_status \<Rightarrow> 'a block_scheme \<Rightarrow> 'a block_scheme) \<Rightarrow> ('a block_scheme \<Rightarrow> 'a block_scheme)
    \<Rightarrow> nat \<Rightarrow> rts2_status \<Rightarrow> 'a block_scheme \<Rightarrow> 'a block_scheme"
where
  "setMasterState change bop conn new b =
     (let old = bl_masterState b;
          other = (bl_stateMasterConn b \<noteq> None \<and> bl_stateMasterConn b \<noteq> Some conn) in
      if other \<and> new AND SERVERD_ONOFF_MASK \<noteq> SERVERD_HARD_OFF \<and> new AND WEATHER_MASK \<noteq> BAD_WEATHER
         \<and> new AND SERVERD_ONOFF_MASK \<noteq> SERVERD_STANDBY then b
      else if other \<and> old AND SERVERD_ONOFF_MASK = SERVERD_HARD_OFF \<and> new AND SERVERD_ONOFF_MASK = SERVERD_STANDBY then b
      else
        let b1 = b\<lparr>bl_masterState := new\<rparr>;
            b2 = (if old AND NOT BOP_MASK \<noteq> new AND NOT BOP_MASK then change old new b1 else b1)
        in if old AND BOP_MASK \<noteq> new AND BOP_MASK then bop b2 else b2)"

definition centrald_up :: "connection \<Rightarrow> bool" where
  "centrald_up c \<longleftrightarrow> isConnState c CONN_CONNECTED \<or> isConnState c CONN_AUTH_OK"

definition block_isGoodWeather :: "'a block_scheme \<Rightarrow> bool" where
  "block_isGoodWeather b \<longleftrightarrow> bl_centraldConns b \<noteq> []
     \<and> list_all (\<lambda>c. centrald_up c \<and> isGoodWeather c) (bl_centraldConns b)"

definition block_canMove :: "'a block_scheme \<Rightarrow> bool" where
  "block_canMove b \<longleftrightarrow> bl_centraldConns b \<noteq> [] \<and> list_all (\<lambda>c. centrald_up c \<and> canMove c) (bl_centraldConns b)"

definition allCentraldRunning :: "'a block_scheme \<Rightarrow> bool" where
  "allCentraldRunning b \<longleftrightarrow> bl_centraldConns b \<noteq> [] \<and> list_all centrald_up (bl_centraldConns b)"

definition someCentraldRunning :: "'a block_scheme \<Rightarrow> bool" where
  "someCentraldRunning b \<longleftrightarrow> bl_centraldConns b = [] \<or> list_ex centrald_up (bl_centraldConns b)"

section \<open>Addresses and users\<close>

definition new_NetworkAddress :: "int \<Rightarrow> int \<Rightarrow> int \<Rightarrow> string \<Rightarrow> string \<Rightarrow> int \<Rightarrow> int \<Rightarrow> network_address" where
  "new_NetworkAddress host_num num cid n host port t =
     \<lparr>na_host_num = host_num, na_centrald_num = num, na_centrald_id = cid, na_name = take (DEVICE_NAME_SIZE - 1) n,
      na_host = host, na_port = port, na_type = t\<rparr>"

definition isAddress :: "int \<Rightarrow> string \<Rightarrow> network_address \<Rightarrow> bool" where
  "isAddress num n a \<longleftrightarrow> na_centrald_num a = num \<and> n = na_name a"

definition na_update :: "int \<Rightarrow> string \<Rightarrow> string \<Rightarrow> int \<Rightarrow> int \<Rightarrow> network_address \<Rightarrow> int \<times> network_address" where
  "na_update num n host port t a =
     (if \<not> isAddress num n a then (-1, a) else (0, a\<lparr>na_host := host, na_port := port, na_type := t\<rparr>))"

definition findAddress :: "string \<Rightarrow> 'a block_scheme \<Rightarrow> network_address option" where
  "findAddress n b = find (\<lambda>a. n = na_name a) (bl_blockAddress b)"

definition findAddress_num :: "int \<Rightarrow> string \<Rightarrow> 'a block_scheme \<Rightarrow> network_address option" where
  "findAddress_num num n b = find (isAddress num n) (bl_blockAddress b)"

text \<open>
  A (re)announced address: a waiting connection of that name is told (\<open>updated\<close>), or a new
  one is made when the virtual \<open>willConnect\<close> wants it and \<open>createClientConnection\<close> gives one.
\<close>

definition addAddress_obj ::
  "(network_address \<Rightarrow> connection \<Rightarrow> connection) \<Rightarrow> (network_address \<Rightarrow> 'a block_scheme \<Rightarrow> bool)
    \<Rightarrow> (network_address \<Rightarrow> connection option) \<Rightarrow> network_address \<Rightarrow> 'a block_scheme \<Rightarrow> 'a block_scheme"
where
  "addAddress_obj updated willConnect create a b =
     (case getOpenConnection (na_name a) b of
        Some c \<Rightarrow> b\<lparr>bl_connections := map (\<lambda>d. if cn_id d = cn_id c then updated a d else d) (bl_connections b)\<rparr>
      | None \<Rightarrow> if willConnect a b
               then (case create a of Some c \<Rightarrow> addConnection c b | None \<Rightarrow> b) else b)"

text \<open>The first address of the number and name is brought up to date, else one is added.\<close>

fun update_first :: "int \<Rightarrow> string \<Rightarrow> (network_address \<Rightarrow> network_address) \<Rightarrow> network_address list \<Rightarrow> network_address list" where
  "update_first num n f [] = []"
| "update_first num n f (a # as) = (if isAddress num n a then f a # as else a # update_first num n f as)"

definition addAddress ::
  "(network_address \<Rightarrow> connection \<Rightarrow> connection) \<Rightarrow> (network_address \<Rightarrow> 'a block_scheme \<Rightarrow> bool)
    \<Rightarrow> (network_address \<Rightarrow> connection option)
    \<Rightarrow> int \<Rightarrow> int \<Rightarrow> int \<Rightarrow> string \<Rightarrow> string \<Rightarrow> int \<Rightarrow> int \<Rightarrow> 'a block_scheme \<Rightarrow> 'a block_scheme"
where
  "addAddress updated willConnect create host_num num cid n host port t b =
     (case findAddress_num num n b of
        Some a \<Rightarrow>
          (let a1 = snd (na_update num n host port t a) in
           addAddress_obj updated willConnect create a1
             (b\<lparr>bl_blockAddress := update_first num n (\<lambda>x. snd (na_update num n host port t x)) (bl_blockAddress b)\<rparr>))
      | None \<Rightarrow>
          (let a = new_NetworkAddress host_num num cid n host port t in
           addAddress_obj updated willConnect create a (b\<lparr>bl_blockAddress := bl_blockAddress b @ [a]\<rparr>)))"

fun remove_first :: "('b \<Rightarrow> bool) \<Rightarrow> 'b list \<Rightarrow> 'b list" where
  "remove_first P [] = []"
| "remove_first P (x # xs) = (if P x then xs else x # remove_first P xs)"

definition deleteAddress :: "int \<Rightarrow> string \<Rightarrow> 'a block_scheme \<Rightarrow> 'a block_scheme" where
  "deleteAddress num n b = b\<lparr>bl_blockAddress := remove_first (isAddress num n) (bl_blockAddress b)\<rparr>"

definition cu_update :: "int \<Rightarrow> string \<Rightarrow> string \<Rightarrow> conn_user \<Rightarrow> int \<times> conn_user" where
  "cu_update cid login n u =
     (if cid \<noteq> cu_centralId u then (-1, u) else (0, u\<lparr>cu_login := login, cu_name := n\<rparr>))"

fun update_user :: "int \<Rightarrow> string \<Rightarrow> string \<Rightarrow> conn_user list \<Rightarrow> conn_user list" where
  "update_user cid login n [] = [\<lparr>cu_centralId = cid, cu_login = login, cu_name = n\<rparr>]"
| "update_user cid login n (u # us) =
     (let (ret, u1) = cu_update cid login n u in if ret = 0 then u1 # us else u # update_user cid login n us)"

definition addClient :: "int \<Rightarrow> string \<Rightarrow> string \<Rightarrow> 'a block_scheme \<Rightarrow> 'a block_scheme" where
  "addClient cid login n b = b\<lparr>bl_blockUsers := update_user cid login n (bl_blockUsers b)\<rparr>"

definition deleteClient :: "int \<Rightarrow> 'a block_scheme \<Rightarrow> 'a block_scheme" where
  "deleteClient cid b = b\<lparr>bl_blockUsers := remove_first (\<lambda>u. cu_centralId u = cid) (bl_blockUsers b)\<rparr>"

section \<open>Commands for many connections\<close>

definition clearAll :: "'a block_scheme \<Rightarrow> 'a block_scheme" where
  "clearAll = map_conns (queClear False)"

text \<open>\<open>getConnection\<close>: an open connection of the name, or a new one to its address.\<close>

definition getConnection ::
  "(network_address \<Rightarrow> connection option) \<Rightarrow> string \<Rightarrow> 'a block_scheme \<Rightarrow> nat option \<times> 'a block_scheme"
where
  "getConnection create n b =
     (case getOpenConnection n b of
        Some c \<Rightarrow> (Some (cn_id c), b)
      | None \<Rightarrow> (case findAddress n b of
            None \<Rightarrow> (None, b)
          | Some a \<Rightarrow> (case create a of
                None \<Rightarrow> (None, b)
              | Some c \<Rightarrow> (Some (cn_id c), addConnection c b))))"

definition on_conn :: "nat \<Rightarrow> (connection \<Rightarrow> connection) \<Rightarrow> 'a block_scheme \<Rightarrow> 'a block_scheme" where
  "on_conn i f b =
     (let g = (\<lambda>c. if cn_id c = i then f c else c)
      in b\<lparr>bl_connections := map g (bl_connections b), bl_connections_added := map g (bl_connections_added b),
           bl_centraldConns := map g (bl_centraldConns b), bl_centraldConns_added := map g (bl_centraldConns_added b)\<rparr>)"

definition queAll :: "(network_address \<Rightarrow> connection option) \<Rightarrow> command \<Rightarrow> 'a block_scheme \<Rightarrow> 'a block_scheme" where
  "queAll create cmd b =
     fold (\<lambda>a b. case getConnection create (na_name a) b of
             (Some i, b1) \<Rightarrow> on_conn i (\<lambda>c. snd (queCommand (copy_Command cmd) c)) b1
           | (None, b1) \<Rightarrow> b1) (bl_blockAddress b) b"

definition queAllCentralds :: "string \<Rightarrow> 'a block_scheme \<Rightarrow> 'a block_scheme" where
  "queAllCentralds t b = b\<lparr>bl_centraldConns := map (\<lambda>c. snd (queCommand (new_Command t) c)) (bl_centraldConns b)\<rparr>"

definition setMessageMask :: "int \<Rightarrow> 'a block_scheme \<Rightarrow> 'a block_scheme" where
  "setMessageMask m b = queAllCentralds (''message_mask '' @ show_int m) b"

definition INT_MAX :: int where "INT_MAX = 2 ^ 31 - 1"

text \<open>The first connection with the lowest value that is not negative and below \<open>INT_MAX\<close>.\<close>

definition min_step :: "string \<Rightarrow> connection \<Rightarrow> int \<times> connection option \<Rightarrow> int \<times> connection option" where
  "min_step n c acc =
     (case conn_getValue n c of
        None \<Rightarrow> acc
      | Some v \<Rightarrow> if getValueInteger v \<ge> 0 \<and> getValueInteger v < fst acc then (getValueInteger v, Some c) else acc)"

definition getMinConn :: "string \<Rightarrow> 'a block_scheme \<Rightarrow> connection option" where
  "getMinConn n b = snd (fold (min_step n) (bl_connections b) (INT_MAX, None))"

definition block_commandOriginatorPending :: "nat \<Rightarrow> nat option \<Rightarrow> 'a block_scheme \<Rightarrow> bool" where
  "block_commandOriginatorPending obj exclude b \<longleftrightarrow>
     list_ex (\<lambda>c. Some (cn_id c) \<noteq> exclude \<and> commandOriginatorPending obj c) (all_conns b)"

section \<open>The array of poll descriptors\<close>

text \<open>The number of a write outside the array is None; \<open>pollsize\<close> keeps its first value.\<close>

definition addPollFD :: "'a block_scheme \<Rightarrow> 'a block_scheme option" where
  "addPollFD b =
     (let b1 = (if bl_npolls b = bl_pollsize b then b\<lparr>bl_fds_size := bl_npolls b + POLLS_SIZE\<rparr> else b)
      in if bl_npolls b1 < bl_fds_size b1 then Some (b1\<lparr>bl_npolls := bl_npolls b1 + 1\<rparr>) else None)"

section \<open>A removed connection leaves no reference behind\<close>

text \<open>What a command or a connection still points to.\<close>

definition cmd_refers :: "nat \<Rightarrow> command \<Rightarrow> bool" where
  "cmd_refers i c \<longleftrightarrow> cmd_originator c = Some i \<or> cmd_class c = StatusInfoCommand (Some i)"

definition conn_refers :: "nat \<Rightarrow> connection \<Rightarrow> bool" where
  "conn_refers i c \<longleftrightarrow> (\<exists>x \<in> set (cn_commandQue c) \<union> set_option (cn_runningCommand c). cmd_refers i x)"

lemma cmd_deleteConnection_forgets [simp]: "\<not> cmd_refers i (cmd_deleteConnection i c)"
  by (auto simp: cmd_refers_def cmd_deleteConnection_def Let_def)

lemma conn_deleteConnection_forgets [simp]: "\<not> conn_refers i (conn_deleteConnection i c)"
  by (auto simp: conn_refers_def conn_deleteConnection_def)

lemma conn_deleteConnection_id [simp]: "cn_id (conn_deleteConnection i c) = cn_id c"
  by (simp add: conn_deleteConnection_def)

lemma find_id: "find (\<lambda>c. cn_id c = i) cs = Some c \<Longrightarrow> cn_id c = i"
  by (induction cs) (auto split: if_splits)

text \<open>when a connection in the state \<open>CONN_DELETE\<close> fails, it leaves the lists, and no command
  of a remaining connection refers to it as its originator or its control connection.\<close>

theorem removed_connection_forgotten:
  assumes "find (\<lambda>c. cn_id c = i) (all_conns b) = Some c" "cn_conn_state c = CONN_DELETE"
  shows "list_all (\<lambda>d. cn_id d \<noteq> i \<and> \<not> conn_refers i d) (all_conns (poll_connection (\<lambda>c b. b) True i b))"
  using assms find_id [OF assms(1)]
  by (auto simp: list_all_iff poll_connection_def block_deleteConnection_def isConnState_def all_conns_def map_conns_def split: if_splits)

theorem removed_connection_forgotten_witness:
  "list_all (\<lambda>d. cn_id d \<noteq> 1 \<and> \<not> conn_refers 1 d) (all_conns (poll_connection (\<lambda>c b. b) True 1 (new_Block\<lparr>bl_connections :=
      [(new_Connection 1 0)\<lparr>cn_conn_state := CONN_DELETE\<rparr>,
       (new_Connection 2 0)\<lparr>cn_commandQue := [(new_Command ''info'')\<lparr>cmd_originator := Some 1\<rparr>]\<rparr>]\<rparr>)))"
  by (rule removed_connection_forgotten [of _ _ "(new_Connection 1 0)\<lparr>cn_conn_state := CONN_DELETE\<rparr>"])
    (simp_all add: all_conns_def new_Block_def new_Connection_def)

section \<open>State changes from a server that is not the master\<close>

text \<open>The base class passes both kinds of change on to all connections.\<close>

definition base_setMasterState :: "nat \<Rightarrow> rts2_status \<Rightarrow> 'a block_scheme \<Rightarrow> 'a block_scheme" where
  "base_setMasterState = setMasterState (\<lambda>old new. block_masterStateChanged) block_masterStateChanged"

lemma masterStateChanged_keeps [simp]:
  "bl_masterState (block_masterStateChanged b) = bl_masterState b"
  by (simp add: block_masterStateChanged_def map_conns_def)

text \<open>while a state master is set, a state from another server is taken over exactly when it is
  off or standby or brings bad weather, and never moves a switched off system to standby. A
  standby state is taken over with the weather it carries, good weather included.\<close>

theorem foreign_master_state:
  assumes "bl_stateMasterConn b = Some m" "conn \<noteq> m"
  shows "bl_masterState (base_setMasterState conn new b) =
    (if new AND SERVERD_ONOFF_MASK \<in> {SERVERD_ON, SERVERD_SOFT_OFF} \<and> new AND WEATHER_MASK = GOOD_WEATHER
     then bl_masterState b
     else if bl_masterState b AND SERVERD_ONOFF_MASK = SERVERD_HARD_OFF \<and> new AND SERVERD_ONOFF_MASK = SERVERD_STANDBY
     then bl_masterState b
     else new)"
proof -
  have "(new AND SERVERD_ONOFF_MASK \<noteq> SERVERD_HARD_OFF \<and> new AND SERVERD_ONOFF_MASK \<noteq> SERVERD_STANDBY)
      = (new AND SERVERD_ONOFF_MASK \<in> {SERVERD_ON, SERVERD_SOFT_OFF})"
    by (cases new rule: onoff_cases) (simp_all add: status_bits)
  moreover have "(new AND WEATHER_MASK \<noteq> BAD_WEATHER) = (new AND WEATHER_MASK = GOOD_WEATHER)"
    using weather_cases [of new] by (auto simp: status_bits)
  ultimately show ?thesis
    using assms by (auto simp: base_setMasterState_def setMasterState_def Let_def)
qed

theorem foreign_master_state_witness:
  "bl_masterState (base_setMasterState 2 (SERVERD_STANDBY OR GOOD_WEATHER)
      (new_Block\<lparr>bl_stateMasterConn := Some 1, bl_masterState := SERVERD_STANDBY OR BAD_WEATHER\<rparr>))
    = SERVERD_STANDBY OR GOOD_WEATHER"
  by (subst foreign_master_state [of _ 1]) (simp_all add: status_bits)

section \<open>The array of poll descriptors overflows\<close>

definition add_fds :: "nat \<Rightarrow> 'a block_scheme \<Rightarrow> 'a block_scheme option" where
  "add_fds k b = ((\<lambda>x. Option.bind x addPollFD) ^^ k) (Some b)"

lemma add_fds_Suc: "add_fds (Suc k) b = Option.bind (add_fds k b) addPollFD"
  by (simp add: add_fds_def)

lemma new_Block_fds [simp]:
  "bl_pollsize new_Block = 200" "bl_fds_size new_Block = 200" "bl_npolls new_Block = 0"
  by (simp_all add: new_Block_def POLLS_SIZE_def)

lemma add_fds_few:
  "k \<le> 200 \<Longrightarrow> add_fds k new_Block = Some (new_Block\<lparr>bl_npolls := k\<rparr>)"
proof (induction k)
  case 0
  then show ?case by (simp add: add_fds_def)
qed (simp add: add_fds_Suc addPollFD_def)

lemma add_fds_more:
  "k < 200 \<Longrightarrow> add_fds (201 + k) new_Block = Some (new_Block\<lparr>bl_fds_size := 400, bl_npolls := 201 + k\<rparr>)"
proof (induction k)
  case 0
  have "add_fds (Suc 200) new_Block = Some (new_Block\<lparr>bl_fds_size := 400, bl_npolls := 201\<rparr>)"
    unfolding add_fds_Suc add_fds_few [OF order.refl] by (simp add: addPollFD_def POLLS_SIZE_def)
  then show ?case by simp
next
  case (Suc k)
  then show ?case by (simp only: add_Suc_right add_fds_Suc) (simp add: addPollFD_def)
qed

lemma add_fds_None: "add_fds k b = None \<Longrightarrow> add_fds (k + j) b = None"
  by (induction j) (simp_all add: add_fds_Suc)

text \<open>C33: up to 400 descriptors fit into the array of poll descriptors, which is enlarged once; the
  next one is written behind its end, because the size it is compared with is never updated.\<close>

theorem poll_descriptors_overflow: "add_fds k new_Block = None \<longleftrightarrow> 400 < k"
proof (cases "k \<le> 400")
  case True
  then have "add_fds k new_Block \<noteq> None"
    using add_fds_few [of k] add_fds_more [of "k - 201"] by (cases "k \<le> 200") simp_all
  with True show ?thesis by simp
next
  case False
  have "add_fds 400 new_Block = Some (new_Block\<lparr>bl_fds_size := 400, bl_npolls := 400\<rparr>)"
    using add_fds_more [of 199] by simp
  then have "add_fds (Suc 400) new_Block = None"
    unfolding add_fds_Suc by (simp add: addPollFD_def)
  then have "add_fds (401 + (k - 401)) new_Block = None" by (intro add_fds_None) simp
  with False show ?thesis by simp
qed

section \<open>The least busy device\<close>

definition conn_load :: "string \<Rightarrow> connection \<Rightarrow> int option" where
  "conn_load n c = (case conn_getValue n c of
     None \<Rightarrow> None
   | Some v \<Rightarrow> if 0 \<le> getValueInteger v \<and> getValueInteger v < INT_MAX then Some (getValueInteger v) else None)"

lemma min_step_load:
  "m \<le> INT_MAX \<Longrightarrow> min_step n c (m, r) =
    (case conn_load n c of None \<Rightarrow> (m, r) | Some k \<Rightarrow> if k < m then (k, Some c) else (m, r))"
  by (auto simp: min_step_def conn_load_def split: option.splits)

text \<open>What the loop knows: the least load seen, and the first connection that has it.\<close>

lemma min_step_inv:
  assumes "m \<le> INT_MAX"
  shows "\<exists>m' r'. fold (min_step n) cs (m, r) = (m', r') \<and> m' \<le> m
    \<and> (\<forall>c \<in> set cs. \<forall>k. conn_load n c = Some k \<longrightarrow> m' \<le> k)
    \<and> (r' = r \<and> m' = m \<or> (\<exists>c \<in> set cs. r' = Some c \<and> conn_load n c = Some m'))"
  using assms
proof (induction cs arbitrary: m r)
  case (Cons c cs)
  obtain m1 r1 where 1: "min_step n c (m, r) = (m1, r1)" "m1 \<le> m" "\<forall>k. conn_load n c = Some k \<longrightarrow> m1 \<le> k"
      "r1 = r \<and> m1 = m \<or> r1 = Some c \<and> conn_load n c = Some m1"
    using Cons.prems that [of "fst (min_step n c (m, r))" "snd (min_step n c (m, r))"]
    by (cases "conn_load n c") (simp_all add: min_step_load split: if_splits)
  obtain m' r' where 2: "fold (min_step n) cs (m1, r1) = (m', r')" "m' \<le> m1"
      "\<forall>c \<in> set cs. \<forall>k. conn_load n c = Some k \<longrightarrow> m' \<le> k"
      "r' = r1 \<and> m' = m1 \<or> (\<exists>c \<in> set cs. r' = Some c \<and> conn_load n c = Some m')"
    using Cons.IH [of m1 r1] 1(2) Cons.prems by auto
  have "\<forall>d \<in> set (c # cs). \<forall>k. conn_load n d = Some k \<longrightarrow> m' \<le> k" using 1(3) 2(2,3) by fastforce
  moreover have "r' = r \<and> m' = m \<or> (\<exists>d \<in> set (c # cs). r' = Some d \<and> conn_load n d = Some m')"
    using 1(4) 2(4) by auto
  ultimately show ?case using 1(1,2) 2(1,2) by auto
qed simp

text \<open>\<open>getMinConn\<close> finds a connection whose value is the least of all values that are
  neither negative nor \<open>INT_MAX\<close>, and finds none only when no connection has such a value.\<close>

theorem getMinConn_least:
  "case getMinConn n b of
     None \<Rightarrow> list_all (\<lambda>c. conn_load n c = None) (bl_connections b)
   | Some c \<Rightarrow> c \<in> set (bl_connections b) \<and>
       (\<exists>m. conn_load n c = Some m \<and>
         list_all (\<lambda>d. case conn_load n d of None \<Rightarrow> True | Some k \<Rightarrow> m \<le> k) (bl_connections b))"
proof -
  obtain m r where f: "fold (min_step n) (bl_connections b) (INT_MAX, None) = (m, r)" "m \<le> INT_MAX"
      and least: "\<forall>c \<in> set (bl_connections b). \<forall>k. conn_load n c = Some k \<longrightarrow> m \<le> k"
      and who: "r = None \<and> m = INT_MAX \<or> (\<exists>c \<in> set (bl_connections b). r = Some c \<and> conn_load n c = Some m)"
    using min_step_inv [OF order.refl, of n "bl_connections b" None] by auto
  have bound: "conn_load n c = Some k \<Longrightarrow> k < INT_MAX" for c k
    by (auto simp: conn_load_def split: option.splits if_splits)
  from who show ?thesis
  proof
    assume "r = None \<and> m = INT_MAX"
    moreover from this have "\<forall>c \<in> set (bl_connections b). conn_load n c = None"
      using least bound by (metis not_le option.exhaust)
    ultimately show ?thesis using f(1) by (simp add: getMinConn_def list_all_iff)
  next
    assume "\<exists>c \<in> set (bl_connections b). r = Some c \<and> conn_load n c = Some m"
    then show ?thesis using f(1) least by (auto simp: getMinConn_def list_all_iff split: option.splits)
  qed
qed

section \<open>The address book\<close>

definition address_key :: "network_address \<Rightarrow> int \<times> string" where
  "address_key a = (na_centrald_num a, na_name a)"

lemma isAddress_key: "isAddress num n a \<longleftrightarrow> address_key a = (num, n)"
  by (auto simp: isAddress_def address_key_def)

definition book :: "'a block_scheme \<Rightarrow> (int \<times> string) list" where
  "book b = map address_key (bl_blockAddress b)"

lemma addAddress_obj_book [simp]: "bl_blockAddress (addAddress_obj u w cr a b) = bl_blockAddress b"
  by (auto simp: addAddress_obj_def addConnection_def split: option.splits)

lemma update_first_keys:
  "(\<And>a. address_key (f a) = address_key a) \<Longrightarrow> map address_key (update_first num n f as) = map address_key as"
  by (induction as) simp_all

lemma na_update_key [simp]: "address_key (snd (na_update num n h p t a)) = address_key a"
  by (simp add: na_update_def address_key_def)

lemma find_key: "find (isAddress num n) as = None \<longleftrightarrow> (num, n) \<notin> address_key ` set as"
  by (induction as) (auto simp: isAddress_key)

lemma addAddress_book:
  assumes "length n < DEVICE_NAME_SIZE"
  shows "book (addAddress u w cr hn num cid n h p t b) = (if (num, n) \<in> set (book b) then book b else book b @ [(num, n)])"
proof (cases "findAddress_num num n b")
  case None
  then have "(num, n) \<notin> set (book b)" using find_key [of num n "bl_blockAddress b"] by (simp add: findAddress_num_def book_def)
  with None assms show ?thesis by (simp add: addAddress_def book_def new_NetworkAddress_def address_key_def Let_def)
next
  case (Some a)
  then have "(num, n) \<in> set (book b)"
    using find_key [of num n "bl_blockAddress b"] by (force simp: findAddress_num_def book_def)
  with Some show ?thesis
    by (simp add: addAddress_def book_def Let_def update_first_keys)
qed

lemma remove_first_keys:
  "map address_key (remove_first (isAddress num n) as) = remove1 (num, n) (map address_key as)"
  by (induction as) (simp_all add: isAddress_key)

lemma deleteAddress_book: "book (deleteAddress num n b) = remove1 (num, n) (book b)"
  by (simp add: book_def deleteAddress_def remove_first_keys)

text \<open>A history of announcements and deletions of devices.\<close>

datatype address_op = Announce int int int string string int int | Withdraw int string

fun address_step :: "address_op \<Rightarrow> 'a block_scheme \<Rightarrow> 'a block_scheme" where
  "address_step (Announce hn num cid n h p t) b = addAddress (\<lambda>a c. c) (\<lambda>a b. False) (\<lambda>a. None) hn num cid n h p t b"
| "address_step (Withdraw num n) b = deleteAddress num n b"

fun op_name :: "address_op \<Rightarrow> string" where
  "op_name (Announce hn num cid n h p t) = n"
| "op_name (Withdraw num n) = n"

lemma address_step_distinct:
  "length (op_name op) < DEVICE_NAME_SIZE \<Longrightarrow> distinct (book b) \<Longrightarrow> distinct (book (address_step op b))"
  by (cases op) (simp_all add: addAddress_book deleteAddress_book)

text \<open>As long as the names fit into their arrays, the address book holds at most one entry for
  a number and a name, whatever is announced and deleted; after a deletion there is none.\<close>

theorem address_book_unique:
  assumes "\<forall>op \<in> set ops. length (op_name op) < DEVICE_NAME_SIZE"
  shows "distinct (book (fold address_step ops new_Block))
    \<and> (num, n) \<notin> set (book (address_step (Withdraw num n) (fold address_step ops new_Block)))"
proof -
  have "distinct (book (fold address_step ops b))" if "distinct (book b)" for b :: block
    using assms that by (induction ops arbitrary: b) (simp_all add: address_step_distinct)
  then have "distinct (book (fold address_step ops new_Block))" by (simp add: book_def new_Block_def)
  then show ?thesis by (simp add: deleteAddress_book)
qed

theorem address_book_unique_witness:
  "distinct (book (fold address_step [Announce 0 0 5 ''C0'' ''cam'' 4000 3, Announce 0 0 6 ''C0'' ''cam2'' 4001 3] new_Block))
    \<and> (0, ''C0'') \<notin> set (book (address_step (Withdraw 0 ''C0'')
        (fold address_step [Announce 0 0 5 ''C0'' ''cam'' 4000 3, Announce 0 0 6 ''C0'' ''cam2'' 4001 3] new_Block)))"
  by (rule address_book_unique) (simp add: DEVICE_NAME_SIZE_def)

end
