(* ===== verification/Rts2_Daemon.thy ===== *)
theory Rts2_Daemon
  imports Rts2_Block
begin

text \<open>
  \<open>rts2core::Daemon\<close> (\<open>lib/rts2/daemon.cpp\<close>, \<open>include/daemon.h\<close>): the state word of a
  daemon and its messages, the values it owns, the queue of changes that wait for a state, and
  the command that sets a value.

  A daemon is a block with more fields. A \<open>CondValue\<close> is known by \<open>cv_id\<close>, which stands for
  its address. Times are microseconds, None is NaN. The virtual functions \<open>setValue\<close> (the hook
  of the device, which may change the whole daemon) and \<open>stateChanged\<close> are parameters. A value
  operation that does not come back (see \<open>doOpValue\<close>) sets \<open>d_crashed\<close>. Mode files, the value
  file and logging are left out.
\<close>

section \<open>State\<close>

record cond_value =
  cv_id :: nat
  cv_value :: rts2_value
  cv_cond :: rts2_status

record value_que =
  vq_old :: nat
  vq_op :: char
  vq_new :: rts2_value

record daemon = block +
  d_state :: rts2_status
  d_state_start :: "int option"
  d_state_expected_end :: "int option"
  d_values :: "cond_value list"
  d_queValues :: "value_que list"
  d_constValues :: "rts2_value list"
  d_nextid :: nat
  d_autosaves :: nat
  d_crashed :: bool

section \<open>Values of the daemon\<close>

definition addValue :: "rts2_value \<Rightarrow> rts2_status \<Rightarrow> 'a daemon_scheme \<Rightarrow> 'a daemon_scheme" where
  "addValue v cond d =
     d\<lparr>d_values := d_values d @ [\<lparr>cv_id = d_nextid d, cv_value = v, cv_cond = cond\<rparr>], d_nextid := d_nextid d + 1\<rparr>"

definition getCondValue :: "string \<Rightarrow> 'a daemon_scheme \<Rightarrow> cond_value option" where
  "getCondValue n d = find (\<lambda>cv. isValue n (cv_value cv)) (d_values d)"

definition getOwnValue :: "string \<Rightarrow> 'a daemon_scheme \<Rightarrow> rts2_value option" where
  "getOwnValue n d = map_option cv_value (getCondValue n d)"

definition cond_of :: "nat \<Rightarrow> 'a daemon_scheme \<Rightarrow> cond_value option" where
  "cond_of i d = find (\<lambda>cv. cv_id cv = i) (d_values d)"

definition set_own :: "nat \<Rightarrow> rts2_value \<Rightarrow> 'a daemon_scheme \<Rightarrow> 'a daemon_scheme" where
  "set_own i v d = d\<lparr>d_values := map (\<lambda>cv. if cv_id cv = i then cv\<lparr>cv_value := v\<rparr> else cv) (d_values d)\<rparr>"

definition deleteValue :: "string \<Rightarrow> 'a daemon_scheme \<Rightarrow> int \<times> 'a daemon_scheme" where
  "deleteValue n d =
     (if list_ex (\<lambda>cv. isValue n (cv_value cv)) (d_values d)
      then (0, d\<lparr>d_values := remove_first (\<lambda>cv. isValue n (cv_value cv)) (d_values d)\<rparr>)
      else (-1, d))"

text \<open>A copy of the old value to take the new one; \<open>withVal\<close> copies what it holds.\<close>

definition duplicateValue :: "rts2_value \<Rightarrow> bool \<Rightarrow> rts2_value option" where
  "duplicateValue old withVal =
     (case metaInfo_value (v_rts2Type old) (v_name old) (v_description old) of
        None \<Rightarrow> None
      | Some dup \<Rightarrow>
          (let dup1 = (case (v_data dup, v_data old) of
                 (VSelection i s, VSelection j sel) \<Rightarrow> dup\<lparr>v_data := VSelection i sel\<rparr> | _ \<Rightarrow> dup)
           in Some (if withVal then setFromValue old dup1 else dup1)))"

subsection \<open>Sending\<close>

definition sendValueAll :: "nat \<Rightarrow> 'a daemon_scheme \<Rightarrow> 'a daemon_scheme" where
  "sendValueAll i d =
     (case cond_of i d of
        None \<Rightarrow> d
      | Some cv \<Rightarrow>
          if needSend (cv_value cv)
          then set_own i (resetNeedSend (cv_value cv))
                 (map_conns (\<lambda>c. if cn_send_all c then value_send (cv_value cv) c else c) d)
          else d)"

definition sendValueDeleteAll :: "rts2_value \<Rightarrow> 'a daemon_scheme \<Rightarrow> 'a daemon_scheme" where
  "sendValueDeleteAll v = map_conns (sendDelete v)"

text \<open>The temporary values go one after the other, each with its message.\<close>

definition deleteTemporaryValues :: "'a daemon_scheme \<Rightarrow> 'a daemon_scheme" where
  "deleteTemporaryValues d =
     (fold (\<lambda>cv. sendValueDeleteAll (cv_value cv)) (filter (\<lambda>cv. isTemporary (cv_value cv)) (d_values d)) d)
       \<lparr>d_values := filter (\<lambda>cv. \<not> isTemporary (cv_value cv)) (d_values d)\<rparr>"

text \<open>\<open>running\<close> is the virtual \<open>isRunning\<close>; the two time values of every daemon are left out.\<close>

definition sendInfo :: "(connection \<Rightarrow> bool) \<Rightarrow> bool \<Rightarrow> 'a daemon_scheme \<Rightarrow> connection \<Rightarrow> int \<times> connection" where
  "sendInfo running force d c =
     (if \<not> running c then (-1, c)
      else (0, fold (\<lambda>cv c. if needSend (cv_value cv) \<or> force then value_send (cv_value cv) c else c) (d_values d) c))"

definition sendBaseInfo :: "'a daemon_scheme \<Rightarrow> connection \<Rightarrow> connection" where
  "sendBaseInfo d c = fold value_send (d_constValues d) c"

text \<open>\<open>infoAll\<close>; \<open>refresh\<close> is the virtual \<open>info ()\<close>, with its code.\<close>

definition infoAll ::
  "('a daemon_scheme \<Rightarrow> int \<times> 'a daemon_scheme) \<Rightarrow> (connection \<Rightarrow> bool) \<Rightarrow> 'a daemon_scheme \<Rightarrow> int \<times> 'a daemon_scheme"
where
  "infoAll refresh running d =
     (let (ret, d1) = refresh d in
      if ret \<noteq> 0 then (-1, d1)
      else (0, (map_conns (\<lambda>c. snd (sendInfo running False d1 c)) d1)
             \<lparr>d_values := map (\<lambda>cv. cv\<lparr>cv_value := resetNeedSend (cv_value cv)\<rparr>) (d_values d1)\<rparr>))"

definition constInfoAll :: "'a daemon_scheme \<Rightarrow> 'a daemon_scheme" where
  "constInfoAll d = map_conns (sendBaseInfo d) d"

text \<open>The first message that fails ends \<open>sendMetaInfo\<close>.\<close>

fun send_meta_list :: "rts2_value list \<Rightarrow> connection \<Rightarrow> int \<times> connection" where
  "send_meta_list [] c = (0, c)"
| "send_meta_list (v # vs) c =
     (let (ret, c1) = sendMetaInfo v c in if ret < 0 then (-1, c1) else send_meta_list vs c1)"

definition daemon_sendMetaInfo :: "'a daemon_scheme \<Rightarrow> connection \<Rightarrow> int \<times> connection" where
  "daemon_sendMetaInfo d c = send_meta_list (d_constValues d @ map cv_value (d_values d)) c"

section \<open>State messages\<close>

text \<open>\<open>operator<<\<close> of a time with \<open>std::fixed\<close> and six digits.\<close>

definition pad6 :: "nat \<Rightarrow> string" where
  "pad6 n = replicate (6 - length (show_nat n)) CHR ''0'' @ show_nat n"

definition fixed6 :: "int option \<Rightarrow> string" where
  "fixed6 t = (case t of
       None \<Rightarrow> ''nan''
     | Some x \<Rightarrow> (if x < 0 then ''-'' else '''') @ show_nat (nat \<bar>x\<bar> div 1000000) @ ''.'' @ pad6 (nat \<bar>x\<bar> mod 1000000))"

definition status_text :: "rts2_status \<Rightarrow> 'a daemon_scheme \<Rightarrow> string" where
  "status_text s d =
     (if d_state_start d \<noteq> None \<or> d_state_expected_end d \<noteq> None
      then ''R '' @ show_nat (unat s) @ '' '' @ fixed6 (d_state_start d) @ '' '' @ fixed6 (d_state_expected_end d)
      else ''S '' @ show_nat (unat s))"

definition sendStatusMessageConn :: "rts2_status \<Rightarrow> 'a daemon_scheme \<Rightarrow> connection \<Rightarrow> connection" where
  "sendStatusMessageConn s d c = snd (sendMsg (status_text s d) c)"

definition sendStatusMessage :: "rts2_status \<Rightarrow> string option \<Rightarrow> nat option \<Rightarrow> 'a daemon_scheme \<Rightarrow> 'a daemon_scheme" where
  "sendStatusMessage s msg commanded d =
     (let t = status_text s d @ (case msg of None \<Rightarrow> '''' | Some m \<Rightarrow> '' '' @ quoted m) in
      case commanded of
        Some i \<Rightarrow> sendAllExcept t i (on_conn i (sendStatusMessageConn (s OR DEVICE_SC_CURR) d) d)
      | None \<Rightarrow> sendAll t d)"

definition sendProgressAll :: "int option \<Rightarrow> int option \<Rightarrow> nat option \<Rightarrow> 'a daemon_scheme \<Rightarrow> 'a daemon_scheme" where
  "sendProgressAll start end_t except =
     map_conns (\<lambda>c. if Some (cn_id c) = except then c else snd (sendMsg (''P '' @ fixed6 start @ '' '' @ fixed6 end_t) c))"

section \<open>The state word\<close>

text \<open>
  \<open>changed\<close> is the virtual \<open>stateChanged\<close>: new state, old state, description, the connection
  whose command changed the state.
\<close>

type_synonym 'd state_hook = "rts2_status \<Rightarrow> rts2_status \<Rightarrow> string option \<Rightarrow> nat option \<Rightarrow> 'd \<Rightarrow> 'd"

definition daemon_stateChanged :: "'a daemon_scheme state_hook" where
  "daemon_stateChanged new old desc conn d = d\<lparr>d_state := new\<rparr>"

definition daemon_setState ::
  "'a daemon_scheme state_hook \<Rightarrow> rts2_status \<Rightarrow> string option \<Rightarrow> nat option \<Rightarrow> 'a daemon_scheme \<Rightarrow> 'a daemon_scheme"
where
  "daemon_setState hook new desc conn d = (if d_state d = new then d else hook new (d_state d) desc conn d)"

definition maskState ::
  "'a daemon_scheme state_hook \<Rightarrow> rts2_status \<Rightarrow> rts2_status \<Rightarrow> string option \<Rightarrow> int option \<Rightarrow> int option
    \<Rightarrow> nat option \<Rightarrow> 'a daemon_scheme \<Rightarrow> 'a daemon_scheme"
where
  "maskState hook smask new desc start end_t conn d =
     (let s = masked (d_state d) (DEVICE_ERROR_MASK OR smask) new;
          d1 = daemon_setState hook s desc conn (d\<lparr>d_state_start := start, d_state_expected_end := end_t\<rparr>)
      in if start \<noteq> None \<or> end_t \<noteq> None then sendProgressAll start end_t conn d1 else d1)"

definition daemon_setWeatherState ::
  "'a daemon_scheme state_hook \<Rightarrow> bool \<Rightarrow> string \<Rightarrow> 'a daemon_scheme \<Rightarrow> 'a daemon_scheme" where
  "daemon_setWeatherState hook good msg d =
     maskState hook WEATHER_MASK (if good then GOOD_WEATHER else BAD_WEATHER) (Some msg) None None None d"

definition setStopState :: "'a daemon_scheme state_hook \<Rightarrow> bool \<Rightarrow> string \<Rightarrow> 'a daemon_scheme \<Rightarrow> 'a daemon_scheme" where
  "setStopState hook stop msg d =
     maskState hook STOP_MASK (if stop then STOP_EVERYTHING else CAN_MOVE) (Some msg) None None None d"

definition getWeatherState :: "'a daemon_scheme \<Rightarrow> bool" where
  "getWeatherState d \<longleftrightarrow> d_state d AND WEATHER_MASK = GOOD_WEATHER"

definition getStopState :: "'a daemon_scheme \<Rightarrow> bool" where
  "getStopState d \<longleftrightarrow> d_state d AND STOP_MASK = STOP_EVERYTHING"

section \<open>Setting a value\<close>

text \<open>The virtual \<open>setValue\<close>: old and new value; the base class accepts writable values.\<close>

type_synonym 'd value_hook = "rts2_value \<Rightarrow> rts2_value \<Rightarrow> 'd \<Rightarrow> int \<times> 'd"

definition daemon_setValue :: "'a daemon_scheme value_hook" where
  "daemon_setValue old new d = (if isWritable old then 0 else -2, d)"

definition valueChanged :: "rts2_value \<Rightarrow> 'a daemon_scheme \<Rightarrow> 'a daemon_scheme" where
  "valueChanged v d = (if isAutosave v then d\<lparr>d_autosaves := d_autosaves d + 1\<rparr> else d)"

text \<open>
  \<open>doSetValue\<close>; the flag \<open>loadedFromQue\<close> of a \<open>CondValue\<close> is never set in the program and is
  left out.
\<close>

definition doSetValue ::
  "'a daemon_scheme value_hook \<Rightarrow> nat \<Rightarrow> char \<Rightarrow> rts2_value \<Rightarrow> 'a daemon_scheme \<Rightarrow> int \<times> 'a daemon_scheme"
where
  "doSetValue hook i op new d =
     (case cond_of i d of
        None \<Rightarrow> (-2, d\<lparr>d_crashed := True\<rparr>)
      | Some cv \<Rightarrow>
          (case doOpValue op new (cv_value cv) of
             None \<Rightarrow> (-2, d\<lparr>d_crashed := True\<rparr>)
           | Some (ret, new1) \<Rightarrow>
               if ret \<noteq> 0 then (-2, d)
               else
                 let (ret1, d1) = hook (cv_value cv) new1 d in
                 if ret1 < 0 then (ret1, d1)
                 else
                   (case cond_of i d1 of
                      None \<Rightarrow> (-2, d1\<lparr>d_crashed := True\<rparr>)
                    | Some cv1 \<Rightarrow>
                        let d2 = (if ret1 = 0 \<and> \<not> isEqual (cv_value cv1) new1
                                  then let v = setFromValue new1 (cv_value cv1) in valueChanged v (set_own i v d1)
                                  else d1)
                        in (0, sendValueAll i d2))))"

definition que_contains :: "nat \<Rightarrow> 'a daemon_scheme \<Rightarrow> bool" where
  "que_contains i d \<longleftrightarrow> list_ex (\<lambda>q. vq_old q = i) (d_queValues d)"

definition queValueChange :: "cond_value \<Rightarrow> rts2_status \<Rightarrow> bool" where
  "queValueChange cv s \<longleftrightarrow> cv_cond cv AND s \<noteq> 0"

definition setCondValue ::
  "'a daemon_scheme value_hook \<Rightarrow> nat \<Rightarrow> char \<Rightarrow> rts2_value \<Rightarrow> 'a daemon_scheme \<Rightarrow> int \<times> 'a daemon_scheme"
where
  "setCondValue hook i op new d =
     (case cond_of i d of
        None \<Rightarrow> (-2, d\<lparr>d_crashed := True\<rparr>)
      | Some cv \<Rightarrow>
          if (op \<noteq> CHR ''='' \<or> \<not> isEqual (cv_value cv) new \<or> que_contains i d) \<and> queValueChange cv (d_state d)
          then (-1, d\<lparr>d_queValues := d_queValues d @ [\<lparr>vq_old = i, vq_op = op, vq_new = new\<rparr>]\<rparr>)
          else if op = CHR ''='' \<and> isEqual (cv_value cv) new then (0, d)
          else doSetValue hook i op new d)"

definition changeValue_int :: "'a daemon_scheme value_hook \<Rightarrow> nat \<Rightarrow> int \<Rightarrow> 'a daemon_scheme \<Rightarrow> 'a daemon_scheme" where
  "changeValue_int hook i n d =
     (case cond_of i d of
        None \<Rightarrow> d
      | Some cv \<Rightarrow> (case duplicateValue (cv_value cv) False of
            None \<Rightarrow> d
          | Some nv \<Rightarrow> snd (setCondValue hook i (CHR ''='') (snd (setValueInteger n nv)) d)))"

definition changeValue_bool :: "'a daemon_scheme value_hook \<Rightarrow> nat \<Rightarrow> bool \<Rightarrow> 'a daemon_scheme \<Rightarrow> 'a daemon_scheme" where
  "changeValue_bool hook i b d =
     (case cond_of i d of
        None \<Rightarrow> d
      | Some cv \<Rightarrow> (case duplicateValue (cv_value cv) False of
            None \<Rightarrow> d
          | Some nv \<Rightarrow> snd (setCondValue hook i (CHR ''='') (setValueBool b nv) d)))"

subsection \<open>The command X\<close>

text \<open>
  The name may carry an index: \<open>name[index]\<close>, or \<open>name_index\<close> when there is no value of the
  whole name and one of the part before the last underscore. The result is the value and the
  text of the index; None is the missing bracket.
\<close>

definition split_last :: "char \<Rightarrow> string \<Rightarrow> (string \<times> string) option" where
  "split_last x s =
     (if x \<in> set s
      then Some (rev (drop 1 (dropWhile (\<lambda>c. c \<noteq> x) (rev s))), rev (takeWhile (\<lambda>c. c \<noteq> x) (rev s)))
      else None)"

definition index_name :: "string \<Rightarrow> 'a daemon_scheme \<Rightarrow> (cond_value option \<times> string option) option" where
  "index_name n d =
     (if CHR ''['' \<in> set n then
        (let base = takeWhile (\<lambda>c. c \<noteq> CHR ''['') n; idx = drop 1 (dropWhile (\<lambda>c. c \<noteq> CHR ''['') n) in
         if last n \<noteq> CHR '']'' then None
         else Some (getCondValue base d, Some (butlast idx)))
      else
        (case getCondValue n d of
           Some cv \<Rightarrow> Some (Some cv, None)
         | None \<Rightarrow> (case split_last (CHR ''_'') n of
               None \<Rightarrow> Some (None, None)
             | Some (base, idx) \<Rightarrow> (case getCondValue base d of
                   None \<Rightarrow> Some (None, None)
                 | Some cv \<Rightarrow> Some (Some cv, Some idx)))))"

definition end_on :: "nat \<Rightarrow> int \<Rightarrow> string \<Rightarrow> 'a daemon_scheme \<Rightarrow> 'a daemon_scheme" where
  "end_on conn code t d = on_conn conn (sendCommandEnd code t) d"

text \<open>The new value is filled from the rest of the line: code and value, None is a write outside an array.\<close>

definition fill_value :: "string option \<Rightarrow> string \<Rightarrow> rts2_value \<Rightarrow> rts2_value \<Rightarrow> (int \<times> rts2_value) option + string" where
  "fill_value idx b old new =
     (case idx of
        None \<Rightarrow> Inl (Some (setValue_conn b new))
      | Some t \<Rightarrow> (let (is, rest) = parseRange t (int (array_size old)) in
                   if rest \<noteq> [] then Inr rest else Inl (setValues is b new)))"

definition setValue_cmd ::
  "'a daemon_scheme value_hook \<Rightarrow> nat \<Rightarrow> string \<Rightarrow> 'a daemon_scheme \<Rightarrow> int \<times> 'a daemon_scheme"
where
  "setValue_cmd hook conn b d =
     (case paramNextString [] b of
        (None, r) \<Rightarrow> (-2, d)
      | (Some n, r) \<Rightarrow>
      (case paramNextString [] r of
        (None, r1) \<Rightarrow> (-2, d)
      | (Some ops, r1) \<Rightarrow>
      (case index_name n d of
        None \<Rightarrow> (-1, end_on conn DEVDEM_E_SYSTEM ''missing ] for end of array index'' d)
      | Some (None, idx) \<Rightarrow> (-2, d)
      | Some (Some cv, idx) \<Rightarrow>
          let old = cv_value cv; arr = v_rts2Type old AND RTS2_VALUE_ARRAY \<noteq> 0; op = (case ops of [] \<Rightarrow> NUL | c # cs \<Rightarrow> c) in
          if \<not> isWritable old then (-1, end_on conn DEVDEM_E_SYSTEM ''cannot set read-only value'' d)
          else if idx \<noteq> None \<and> \<not> arr then (-1, end_on conn DEVDEM_E_SYSTEM ''trying to index non-array value'' d)
          else (case duplicateValue old arr of
              None \<Rightarrow> (-2, d)
            | Some new \<Rightarrow>
                (case fill_value idx r1 old new of
                   Inr rest \<Rightarrow> (-1, end_on conn DEVDEM_E_PARAMSVAL rest d)
                 | Inl None \<Rightarrow> (-2, d\<lparr>d_crashed := True\<rparr>)
                 | Inl (Some (ret, new1)) \<Rightarrow>
                     if ret \<noteq> 0 then (ret, d)
                     else
                       let (ret1, d1) = setCondValue hook (cv_id cv) op new1 d in
                       (ret1, if ret1 = -1
                              then end_on conn DEVDEM_I_QUED (''value '' @ v_name old @ '' change was queued'') d1
                              else d1))))))"

section \<open>The values keep their identity\<close>

lemma find_map_same:
  assumes "\<And>x. P (f x) = P x"
  shows "find P (map f xs) = map_option f (find P xs)"
  using assms by (induction xs) auto

lemma cond_of_set_own [simp]:
  "cond_of j (set_own i v d) = map_option (\<lambda>cv. if cv_id cv = i then cv\<lparr>cv_value := v\<rparr> else cv) (cond_of j d)"
  unfolding cond_of_def set_own_def by (simp add: find_map_same)

lemma cond_of_id: "cond_of i d = Some cv \<Longrightarrow> cv_id cv = i"
  unfolding cond_of_def by (auto simp: find_Some_iff)

lemma cond_of_valueChanged [simp]: "cond_of i (valueChanged v d) = cond_of i d"
  by (simp add: valueChanged_def cond_of_def)

lemma cond_of_map_conns [simp]: "cond_of i (map_conns f d) = cond_of i d"
  by (simp add: map_conns_def cond_of_def)

lemma set_own_que [simp]: "d_queValues (set_own i v d) = d_queValues d"
  by (simp add: set_own_def)

lemma set_own_state [simp]: "d_state (set_own i v d) = d_state d"
  by (simp add: set_own_def)

lemma valueChanged_que [simp]: "d_queValues (valueChanged v d) = d_queValues d" "d_state (valueChanged v d) = d_state d"
  by (simp_all add: valueChanged_def)

lemma map_conns_daemon [simp]:
  "d_queValues (map_conns f d) = d_queValues d" "d_state (map_conns f d) = d_state d"
  "d_values (map_conns f d) = d_values d"
  by (simp_all add: map_conns_def)

lemma sendValueAll_que [simp]: "d_queValues (sendValueAll i d) = d_queValues d" "d_state (sendValueAll i d) = d_state d"
  by (simp_all add: sendValueAll_def split: option.splits)

lemma resetNeedSend_data [simp]: "v_data (resetNeedSend v) = v_data v" "v_name (resetNeedSend v) = v_name v"
  by (simp_all add: resetNeedSend_def)

lemma needSend_reset [simp]: "\<not> needSend (resetNeedSend v)"
  by (simp add: needSend_def resetNeedSend_def and.assoc bit.conj_cancel_left)

lemma getValue_reset [simp]: "getValue (resetNeedSend v) = getValue v"
  by (simp add: getValue_def)

lemma isEqual_reset [simp]: "isEqual (resetNeedSend v) w = isEqual v w"
  by (simp add: isEqual_def split: value_data.split)

section \<open>The contract of a stored value\<close>

text \<open>
  What \<open>doSetValue\<close> relies on: copying a fitting value makes the two equal and marks the copy
  for sending unless they were equal before; marking it as sent does not change what it holds.
\<close>

locale stored_value =
  fixes copy :: "'v \<Rightarrow> 'v \<Rightarrow> 'v" and same fits :: "'v \<Rightarrow> 'v \<Rightarrow> bool"
    and pending :: "'v \<Rightarrow> bool" and sent :: "'v \<Rightarrow> 'v"
  assumes copy_same: "fits v n \<Longrightarrow> same (copy n v) n"
    and copy_pending: "fits v n \<Longrightarrow> \<not> same v n \<Longrightarrow> pending (copy n v)"
    and sent_clear: "\<not> pending (sent v)"
    and sent_same: "same (sent v) n = same v n"
begin

lemma publish_same:
  assumes "fits v n"
  shows "same (let w = (if same v n then v else copy n v) in if pending w then sent w else w) n"
  using assms by (auto simp: Let_def sent_same copy_same)

lemma publish_clear: "\<not> pending (if pending w then sent w else w)"
  using sent_clear by simp

lemma publish_announced:
  assumes "fits v n" "\<not> same v n"
  shows "pending (copy n v) \<and> same (sent (copy n v)) n"
  using assms by (simp add: copy_same copy_pending sent_same)

end

interpretation val: stored_value setFromValue isEqual "\<lambda>v n. copy_ok (v_data v) (v_data n)" needSend resetNeedSend
  by unfold_locales (simp_all add: setFromValue_equal setFromValue_marks)

section \<open>A changed value is stored and announced, or queued\<close>

definition announce :: "rts2_value \<Rightarrow> connection \<Rightarrow> connection" where
  "announce v c = (if cn_send_all c then value_send v c else c)"

lemma sendValueAll_pending:
  assumes "cond_of i d = Some cv" "needSend (cv_value cv)"
  shows "sendValueAll i d = set_own i (resetNeedSend (cv_value cv)) (map_conns (announce (cv_value cv)) d)"
  using assms by (simp add: sendValueAll_def announce_def [abs_def])

lemma doSetValue_stores:
  assumes cv: "cond_of i d = Some cv" and w: "isWritable (cv_value cv)"
    and op: "doOpValue op new (cv_value cv) = Some (0, new1)"
    and ok: "copy_ok (v_data (cv_value cv)) (v_data new1)" and ne: "\<not> isEqual (cv_value cv) new1"
  shows "doSetValue daemon_setValue i op new d =
    (0, let v = setFromValue new1 (cv_value cv)
        in set_own i (resetNeedSend v) (map_conns (announce v) (valueChanged v (set_own i v d))))"
proof -
  let ?v = "setFromValue new1 (cv_value cv)"
  have "needSend ?v" using val.publish_announced [OF ok ne] by simp
  moreover have "cond_of i (valueChanged ?v (set_own i ?v d)) = Some (cv\<lparr>cv_value := ?v\<rparr>)"
    using cv cond_of_id [OF cv] by simp
  ultimately show ?thesis
    using assms sendValueAll_pending [of i "valueChanged ?v (set_own i ?v d)" "cv\<lparr>cv_value := ?v\<rparr>"]
    by (simp add: doSetValue_def daemon_setValue_def Let_def)
qed

text \<open>What a set changes of the daemon, as observed: the value itself, the other values, the queue.\<close>

lemma doSetValue_effect:
  assumes cv: "cond_of i d = Some cv" and w: "isWritable (cv_value cv)"
    and op: "doOpValue op new (cv_value cv) = Some (0, new1)"
    and ok: "copy_ok (v_data (cv_value cv)) (v_data new1)" and ne: "\<not> isEqual (cv_value cv) new1"
    and r: "doSetValue daemon_setValue i op new d = (ret, d1)"
  shows "ret = 0" "\<exists>cv1. cond_of i d1 = Some cv1 \<and> isEqual (cv_value cv1) new1 \<and> \<not> needSend (cv_value cv1)"
    "j \<noteq> i \<Longrightarrow> cond_of j d1 = cond_of j d" "d_queValues d1 = d_queValues d" "d_state d1 = d_state d"
    "bl_connections d1 = map (announce (setFromValue new1 (cv_value cv))) (bl_connections d)"
    "bl_centraldConns d1 = map (announce (setFromValue new1 (cv_value cv))) (bl_centraldConns d)"
proof -
  let ?v = "setFromValue new1 (cv_value cv)"
  have d1: "ret = 0" "d1 = set_own i (resetNeedSend ?v) (map_conns (announce ?v) (valueChanged ?v (set_own i ?v d)))"
    using r doSetValue_stores [OF cv w op ok ne] by (simp_all add: Let_def)
  show "ret = 0" by (rule d1)
  show "\<exists>cv1. cond_of i d1 = Some cv1 \<and> isEqual (cv_value cv1) new1 \<and> \<not> needSend (cv_value cv1)"
    using cv cond_of_id [OF cv] val.copy_same [OF ok] by (simp add: d1)
  show "cond_of j d1 = cond_of j d" if "j \<noteq> i"
    using that cond_of_id [of j d] by (cases "cond_of j d") (auto simp: d1)
  show "d_queValues d1 = d_queValues d" "d_state d1 = d_state d" by (simp_all add: d1)
  show "bl_connections d1 = map (announce ?v) (bl_connections d)"
    "bl_centraldConns d1 = map (announce ?v) (bl_centraldConns d)"
    by (simp_all add: d1 set_own_def map_conns_def valueChanged_def)
qed

lemma set_stored:
  assumes "cond_of i d = Some cv" "op \<noteq> CHR ''='' \<or> \<not> isEqual (cv_value cv) new"
  shows "setCondValue h i op new d = (if cv_cond cv AND d_state d \<noteq> 0
      then (-1, d\<lparr>d_queValues := d_queValues d @ [\<lparr>vq_old = i, vq_op = op, vq_new = new\<rparr>]\<rparr>)
      else doSetValue h i op new d)"
proof -
  have "(op \<noteq> CHR ''='' \<or> \<not> isEqual (cv_value cv) new \<or> que_contains i d) = True"
    "(op = CHR ''='' \<and> isEqual (cv_value cv) new) = False"
    using assms(2) by blast+
  then show ?thesis
    using assms(1) by (simp only: setCondValue_def queValueChange_def option.case simp_thms if_False)
qed


definition example_daemon :: "rts2_status \<Rightarrow> daemon" where
  "example_daemon s = block.extend (new_Block\<lparr>bl_connections := [new_Connection 1 0]\<rparr>)
     \<lparr>d_state = s, d_state_start = None, d_state_expected_end = None, d_values = [], d_queValues = [], d_constValues = [],
      d_nextid = 0, d_autosaves = 0, d_crashed = False\<rparr>"

definition example_value :: "int \<Rightarrow> rts2_value" where
  "example_value n = (new_ValueInteger ''que'' ''size of the queue'' True 0)\<lparr>v_rts2Type := RTS2_VALUE_WRITABLE OR RTS2_VALUE_INTEGER, v_data := VInteger n\<rparr>"


end
