(* ===== verification/Rts2_Device.thy ===== *)
theory Rts2_Device
  imports Rts2_Daemon
begin

text \<open>
  \<open>rts2core::Device\<close> and its two kinds of connections (\<open>lib/rts2/device.cpp\<close>,
  \<open>include/device.h\<close>): the queue of value changes and the block-of-operation state, weather
  messages, the end of scripts, and the authorization of clients by the central server.

  A device is a daemon with more fields. Virtual functions are the parameters \<open>vset\<close> (setValue),
  \<open>maskq\<close> (maskQueValueBopState), \<open>refresh\<close> (info) and \<open>refresh_base\<close> (baseInfo). The members of
  \<open>bl_connections\<close> are the connections \<open>DevConnection\<close>, those of \<open>bl_centraldConns\<close> the connections
  \<open>DevConnectionMaster\<close>. Using an object that is gone sets \<open>d_crashed\<close>. Command line options,
  the mode file and opening sockets are left out.
\<close>

section \<open>State\<close>

text \<open>\<open>dv_statusCommand\<close> is the pending \<open>CommandDeviceStatusInfo\<close> with its owner connection.\<close>

record device = daemon +
  dv_name :: string
  dv_type :: int
  dv_fullBop :: rts2_status
  dv_statusCommand :: "nat option option"
  dv_doAuth :: bool
  dv_last_weathermsg :: "string option"

section \<open>The block-of-operation state and the queue of changes\<close>

definition endDeviceStatusCommand :: "'a device_scheme \<Rightarrow> 'a device_scheme" where
  "endDeviceStatusCommand d =
     (case dv_statusCommand d of
        Some (Some conn) \<Rightarrow> (end_on conn DEVDEM_OK ''device status updated'' d)\<lparr>dv_statusCommand := None\<rparr>
      | _ \<Rightarrow> d)"

definition queDeviceStatusCommand :: "nat \<Rightarrow> 'a device_scheme \<Rightarrow> 'a device_scheme" where
  "queDeviceStatusCommand conn d =
     (case bl_centraldConns d of
        [] \<Rightarrow> d\<lparr>d_crashed := True\<rparr>
      | c # cs \<Rightarrow> (d\<lparr>bl_centraldConns := snd (queCommand (new_Command ''status_info'') c) # cs\<rparr>)
                  \<lparr>dv_statusCommand := Some (Some conn)\<rparr>)"

text \<open>The command forgets its owner when that connection goes.\<close>

definition statusCommand_deleteConnection :: "nat \<Rightarrow> 'a device_scheme \<Rightarrow> 'a device_scheme" where
  "statusCommand_deleteConnection conn d =
     (if dv_statusCommand d = Some (Some conn) then d\<lparr>dv_statusCommand := Some None\<rparr> else d)"

definition maskQueValueBopState :: "rts2_status \<Rightarrow> rts2_status \<Rightarrow> rts2_status" where
  "maskQueValueBopState new_state cond = new_state"

definition que_cond :: "value_que \<Rightarrow> 'a device_scheme \<Rightarrow> rts2_status" where
  "que_cond q d = (case cond_of (vq_old q) d of Some cv \<Rightarrow> cv_cond cv | None \<Rightarrow> 0)"

definition setFullBopState :: "(rts2_status \<Rightarrow> rts2_status \<Rightarrow> rts2_status) \<Rightarrow> rts2_status \<Rightarrow> 'a device_scheme \<Rightarrow> 'a device_scheme" where
  "setFullBopState maskq new_state d =
     (let s = fold (\<lambda>q s. maskq s (que_cond q d)) (d_queValues d) new_state;
          d1 = sendBopMessage (d_state d) s d;
          d2 = (if dv_statusCommand d1 \<noteq> None then endDeviceStatusCommand d1 else d1)
      in d2\<lparr>dv_fullBop := s\<rparr>)"

text \<open>
  \<open>checkQueChanges\<close>: \<open>kept\<close> are the entries the loop went past. An entry whose value is gone,
  and a change of the queue during \<open>doSetValue\<close> (the iterator is no longer valid), end in
  \<open>d_crashed\<close>.
\<close>

fun check_que ::
  "'a device_scheme value_hook \<Rightarrow> rts2_status \<Rightarrow> value_que list \<Rightarrow> bool \<Rightarrow> value_que list \<Rightarrow> 'a device_scheme
    \<Rightarrow> bool \<times> 'a device_scheme"
where
  "check_que vset fakeState kept chg [] d = (chg, d)"
| "check_que vset fakeState kept chg (q # qs) d =
     (case cond_of (vq_old q) d of
        None \<Rightarrow> (chg, d\<lparr>d_crashed := True\<rparr>)
      | Some cv \<Rightarrow>
          if queValueChange cv fakeState then check_que vset fakeState (kept @ [q]) chg qs d
          else
            (let d1 = snd (doSetValue vset (vq_old q) (vq_op q) (vq_new q) d) in
             if d_queValues d1 \<noteq> kept @ q # qs then (chg, d1\<lparr>d_crashed := True\<rparr>)
             else check_que vset fakeState kept True qs (d1\<lparr>d_queValues := kept @ qs\<rparr>)))"

definition checkQueChanges ::
  "'a device_scheme value_hook \<Rightarrow> (rts2_status \<Rightarrow> rts2_status \<Rightarrow> rts2_status) \<Rightarrow> rts2_status \<Rightarrow> 'a device_scheme \<Rightarrow> 'a device_scheme"
where
  "checkQueChanges vset maskq fakeState d =
     (let (chg, d1) = check_que vset fakeState [] False (d_queValues d) d
      in if chg then setFullBopState maskq fakeState d1 else d1)"

definition device_stateChanged ::
  "'a device_scheme value_hook \<Rightarrow> (rts2_status \<Rightarrow> rts2_status \<Rightarrow> rts2_status) \<Rightarrow> 'a device_scheme state_hook"
where
  "device_stateChanged vset maskq new old desc conn d =
     (let d1 = checkQueChanges vset maskq new (daemon_stateChanged new old desc conn d)
      in sendStatusMessage (d_state d1) desc conn d1)"

definition sendFullStateInfo :: "'a device_scheme \<Rightarrow> connection \<Rightarrow> connection" where
  "sendFullStateInfo d = sendBopMessage_conn (d_state d) (dv_fullBop d)"

definition device_statusInfo :: "nat \<Rightarrow> 'a device_scheme \<Rightarrow> int \<times> 'a device_scheme" where
  "device_statusInfo conn d = (0, on_conn conn (sendStatusMessageConn (d_state d) d) d)"

section \<open>Ends of scripts, errors, weather\<close>

text \<open>\<open>scriptEnds\<close> for a device without modes.\<close>

definition scriptEnds :: "'a device_scheme \<Rightarrow> int \<times> 'a device_scheme" where
  "scriptEnds d = (0, deleteTemporaryValues d)"

definition killAll ::
  "'a device_scheme state_hook \<Rightarrow> ('a device_scheme \<Rightarrow> int \<times> 'a device_scheme) \<Rightarrow> bool \<Rightarrow> 'a device_scheme \<Rightarrow> int \<times> 'a device_scheme"
where
  "killAll chg script_end callScriptEnd d =
     (let d1 = d\<lparr>d_queValues := []\<rparr>;
          (ret, d2) = (if callScriptEnd then script_end d1 else (0, d1))
      in (ret, maskState chg (DEVICE_ERROR_KILL OR DEVICE_ERROR_HW OR DEVICE_NOT_READY) DEVICE_ERROR_KILL
                 (Some ''reseting all errors'') None None None d2))"

definition sendMasters :: "string \<Rightarrow> 'a device_scheme \<Rightarrow> 'a device_scheme" where
  "sendMasters msg d = d\<lparr>bl_centraldConns := map (\<lambda>c. snd (queCommand (new_Command msg) c)) (bl_centraldConns d)\<rparr>"

definition weather_update :: "string \<Rightarrow> string \<Rightarrow> string" where
  "weather_update n msg = ''weather_update '' @ quoted n @ '' '' @ quoted msg"

definition device_setWeatherState ::
  "'a device_scheme state_hook \<Rightarrow> bool \<Rightarrow> string \<Rightarrow> 'a device_scheme \<Rightarrow> 'a device_scheme"
where
  "device_setWeatherState chg good_weather msg d =
     (let d1 = daemon_setWeatherState chg good_weather msg d in
      if \<not> good_weather \<and> d_state d1 AND BAD_WEATHER \<noteq> 0 \<and> dv_last_weathermsg d1 \<noteq> Some msg
      then sendMasters (weather_update (dv_name d1) msg) (d1\<lparr>dv_last_weathermsg := Some msg\<rparr>)
      else d1)"

definition blockExposure :: "'a device_scheme state_hook \<Rightarrow> 'a device_scheme \<Rightarrow> 'a device_scheme" where
  "blockExposure chg = maskState chg BOP_EXPOSURE BOP_EXPOSURE (Some ''exposure not possible'') None None None"

definition clearExposure :: "'a device_scheme state_hook \<Rightarrow> 'a device_scheme \<Rightarrow> 'a device_scheme" where
  "clearExposure chg = maskState chg BOP_EXPOSURE 0 (Some ''exposure possible'') None None None"

definition blockReadout :: "'a device_scheme state_hook \<Rightarrow> 'a device_scheme \<Rightarrow> 'a device_scheme" where
  "blockReadout chg = maskState chg BOP_READOUT BOP_READOUT (Some ''readout not possible'') None None None"

definition clearReadout :: "'a device_scheme state_hook \<Rightarrow> 'a device_scheme \<Rightarrow> 'a device_scheme" where
  "clearReadout chg = maskState chg BOP_READOUT 0 (Some ''readout possible'') None None None"

definition blockTelMove :: "'a device_scheme state_hook \<Rightarrow> 'a device_scheme \<Rightarrow> 'a device_scheme" where
  "blockTelMove chg = maskState chg BOP_TEL_MOVE BOP_TEL_MOVE (Some ''telescope move not possible'') None None None"

definition clearTelMove :: "'a device_scheme state_hook \<Rightarrow> 'a device_scheme \<Rightarrow> 'a device_scheme" where
  "clearTelMove chg = maskState chg BOP_TEL_MOVE 0 (Some ''telescope move possible'') None None None"

section \<open>Commands of an authorized connection\<close>

definition find_conn :: "nat \<Rightarrow> 'a block_scheme \<Rightarrow> connection option" where
  "find_conn i d = find (\<lambda>c. cn_id c = i) (all_conns d)"

definition device_isRunning :: "'a device_scheme \<Rightarrow> connection \<Rightarrow> bool" where
  "device_isRunning d c \<longleftrightarrow> isConnState c CONN_AUTH_OK \<or> \<not> dv_doAuth d"

type_synonym 'd refresh = "'d \<Rightarrow> int \<times> 'd"

definition info_conn :: "'a device_scheme refresh \<Rightarrow> nat \<Rightarrow> 'a device_scheme \<Rightarrow> int \<times> 'a device_scheme" where
  "info_conn refresh conn d =
     (let (ret, d1) = refresh d in
      if ret \<noteq> 0 then (-1, end_on conn DEVDEM_E_HW ''device not ready'' d1)
      else
        let run = (case find_conn conn d1 of Some c \<Rightarrow> device_isRunning d1 c | None \<Rightarrow> False);
            d2 = on_conn conn (\<lambda>c. snd (sendInfo (device_isRunning d1) False d1 c)) d1
        in if run then (0, d2) else (-1, end_on conn DEVDEM_E_SYSTEM ''cannot send info'' d2))"

definition baseInfo_conn :: "'a device_scheme refresh \<Rightarrow> nat \<Rightarrow> 'a device_scheme \<Rightarrow> int \<times> 'a device_scheme" where
  "baseInfo_conn refresh_base conn d =
     (let (ret, d1) = refresh_base d in
      if ret \<noteq> 0 then (-1, end_on conn DEVDEM_E_HW ''device not ready'' d1)
      else (0, on_conn conn (sendBaseInfo d1) d1))"

text \<open>The virtual functions of a device, as its connections call them.\<close>

record 'd device_hooks =
  dh_chg :: "'d state_hook"
  dh_refresh :: "'d refresh"
  dh_refresh_base :: "'d refresh"
  dh_more :: "nat \<Rightarrow> string \<Rightarrow> string \<Rightarrow> 'd \<Rightarrow> int \<times> 'd"

text \<open>
  \<open>commandAuthorized\<close>: connection, command word, rest of the line. \<open>value_create\<close>,
  \<open>value_add\<close> and \<open>autosave\<close> go to \<open>dh_more\<close>, with the commands of the device itself.
\<close>

definition device_commandAuthorized ::
  "'a device_scheme device_hooks \<Rightarrow> nat \<Rightarrow> string \<Rightarrow> string \<Rightarrow> 'a device_scheme \<Rightarrow> int \<times> 'a device_scheme"
where
  "device_commandAuthorized h conn w b d =
     (if w = ''info'' then info_conn (dh_refresh h) conn d
      else if w = ''base_info'' then baseInfo_conn (dh_refresh_base h) conn d
      else if w = ''killall'' then killAll (dh_chg h) scriptEnds True d
      else if w = ''killall_wse'' then killAll (dh_chg h) scriptEnds False d
      else if w = ''exit'' then
        (-1, (let d1 = on_conn conn (setConnState CONN_DELETE) d
              in map_conns (\<lambda>c. if cn_id c \<noteq> conn then conn_deleteConnection conn c else c) d1))
      else if w = ''script_ends'' then scriptEnds d
      else if w = ''this_device'' then
        (case paramNextString [] b of
           (None, r) \<Rightarrow> (-2, d)
         | (Some n, r) \<Rightarrow> (case paramNextInteger r of
              (None, r1) \<Rightarrow> (-2, d)
            | (Some t, r1) \<Rightarrow>
                if \<not> fst (paramEnd r1) then (-2, d)
                else (-1, on_conn conn (\<lambda>c. (setName (-1) n c)\<lparr>cn_other_type := t, cn_commandInProgress := False\<rparr>) d)))
      else if w = ''device_status'' then (-1, queDeviceStatusCommand conn d)
      else if w = ''value_delete'' then
        (case paramNextString [] b of
           (None, r) \<Rightarrow> (-2, d)
         | (Some n, r) \<Rightarrow>
             if \<not> fst (paramEnd r) then (-2, d)
             else (case getOwnValue n d of
                 None \<Rightarrow> (-1, d)
               | Some v \<Rightarrow> deleteValue n (sendValueDeleteAll v d)))
      else dh_more h conn w b d)"

section \<open>Authorization\<close>

definition this_device_text :: "'a device_scheme \<Rightarrow> string" where
  "this_device_text d = ''this_device '' @ dv_name d @ '' '' @ show_int (dv_type d)"

text \<open>\<open>DevConnection::setConnState\<close>.\<close>

definition dev_setConnState :: "'a device_scheme device_hooks \<Rightarrow> nat \<Rightarrow> conn_state \<Rightarrow> 'a device_scheme \<Rightarrow> 'a device_scheme" where
  "dev_setConnState h conn new d =
     (let d1 = on_conn conn (setConnState new) d;
          peer = (case find_conn conn d of Some c \<Rightarrow> cn_type c = DEVICE_DEVICE | None \<Rightarrow> False)
      in if peer \<and> new = CONN_AUTH_OK
         then
           let d2 = on_conn conn (\<lambda>c. snd (daemon_sendMetaInfo d1 (snd (sendMsg (this_device_text d1) c)))) d1;
               d3 = snd (info_conn (dh_refresh h) conn (snd (baseInfo_conn (dh_refresh_base h) conn d2)))
           in on_conn conn (sendFullStateInfo d3) d3
         else d1)"

definition resendProgress :: "'a daemon_scheme \<Rightarrow> connection \<Rightarrow> connection" where
  "resendProgress d c =
     (if d_state_start d \<noteq> None \<or> d_state_expected_end d \<noteq> None
      then snd (sendMsg (''P '' @ fixed6 (d_state_start d) @ '' '' @ fixed6 (d_state_expected_end d)) c) else c)"

definition authorizationOK :: "'a device_scheme device_hooks \<Rightarrow> nat \<Rightarrow> 'a device_scheme \<Rightarrow> 'a device_scheme" where
  "authorizationOK h conn d =
     (let d1 = snd (dh_refresh_base h (dev_setConnState h conn CONN_AUTH_OK d));
          d2 = snd (dh_refresh h (on_conn conn (sendBaseInfo d1) d1))
      in on_conn conn (\<lambda>c. sendCommandEnd DEVDEM_OK ''OK authorized''
           (resendProgress d2 (sendFullStateInfo d2 (snd (sendInfo (device_isRunning d2) True d2 c))))) d2)"

definition authorizationFailed :: "'a device_scheme device_hooks \<Rightarrow> nat \<Rightarrow> 'a device_scheme \<Rightarrow> 'a device_scheme" where
  "authorizationFailed h conn d =
     end_on conn DEVDEM_E_SYSTEM ''authorization failed''
       (dev_setConnState h conn CONN_DELETE (on_conn conn (\<lambda>c. c\<lparr>cn_centrald_id := -1\<rparr>) d))"

definition new_CommandAuthorize :: "int \<Rightarrow> int \<Rightarrow> command" where
  "new_CommandAuthorize i k = new_Command (''authorize '' @ show_int i @ '' '' @ show_int k)"

definition new_CommandSendKey :: "int \<Rightarrow> int \<Rightarrow> int \<Rightarrow> command" where
  "new_CommandSendKey i num k = new_Command (''auth '' @ show_int i @ '' '' @ show_int num @ '' '' @ show_int k)"

definition new_CommandKey :: "string \<Rightarrow> command" where
  "new_CommandKey n = new_Command (''key '' @ n)"

text \<open>\<open>Device::authorize\<close>: the first central server of the number is asked.\<close>

definition device_authorize :: "int \<Rightarrow> connection \<Rightarrow> 'a device_scheme \<Rightarrow> int \<times> 'a device_scheme" where
  "device_authorize num c d =
     (case find (\<lambda>m. cn_centrald_num m = num) (bl_centraldConns d) of
        None \<Rightarrow> (-1, d)
      | Some m \<Rightarrow> (0, on_conn (cn_id m) (queSend (new_CommandAuthorize (cn_centrald_id c) (cn_key c))) d))"

definition dev_auth :: "'a device_scheme device_hooks \<Rightarrow> nat \<Rightarrow> string \<Rightarrow> 'a device_scheme \<Rightarrow> int \<times> 'a device_scheme" where
  "dev_auth h conn b d =
     (case paramNextInteger b of
        (None, r) \<Rightarrow> (-2, d)
      | (Some i, r) \<Rightarrow>
      (case paramNextInteger r of
        (None, r1) \<Rightarrow> (-2, d)
      | (Some num, r1) \<Rightarrow>
      (case paramNextInteger r1 of
        (None, r2) \<Rightarrow> (-2, d)
      | (Some k, r2) \<Rightarrow>
          if \<not> fst (paramEnd r2) then (-2, d)
          else
            let d1 = on_conn conn (\<lambda>c. setKey k (c\<lparr>cn_centrald_id := i\<rparr>)) d;
                (ret, d2) = (case find_conn conn d1 of None \<Rightarrow> (-1, d1) | Some c \<Rightarrow> device_authorize num c d1)
            in if ret \<noteq> 0
               then (-1, dev_setConnState h conn CONN_AUTH_FAILED
                           (end_on conn DEVDEM_E_SYSTEM ''cannot authorize; try again later'' d2))
               else (-1, on_conn conn (\<lambda>c. c\<lparr>cn_commandInProgress := False\<rparr>) (dev_setConnState h conn CONN_AUTH_PENDING d2)))))"

text \<open>\<open>DevConnection::command\<close>; \<open>base\<close> is \<open>Connection::command\<close>.\<close>

definition dev_command ::
  "'a device_scheme device_hooks \<Rightarrow> (nat \<Rightarrow> string \<Rightarrow> string \<Rightarrow> 'a device_scheme \<Rightarrow> int \<times> 'a device_scheme)
    \<Rightarrow> nat \<Rightarrow> string \<Rightarrow> string \<Rightarrow> 'a device_scheme \<Rightarrow> int \<times> 'a device_scheme"
where
  "dev_command h base conn w b d =
     (let allowed = (\<not> dv_doAuth d \<or> (case find_conn conn d of
            Some c \<Rightarrow> (cn_centrald_id c \<noteq> -1 \<and> isConnState c CONN_AUTH_OK) \<or> cn_type c = DEVICE_DEVICE
          | None \<Rightarrow> False));
          (ret, d1) = (if allowed then device_commandAuthorized h conn w b d else (-5, d))
      in if allowed \<and> ret = DEVDEM_E_HW then (-1, end_on conn DEVDEM_E_HW ''device error'' d1)
         else if allowed \<and> ret \<noteq> -5 then (ret, d1)
         else if w = ''auth'' then dev_auth h conn b d1
         else base conn w b d1)"

text \<open>The key for another device has come; the connection to it sends it.\<close>

definition dev_setDeviceKey :: "nat \<Rightarrow> int \<Rightarrow> int \<Rightarrow> 'a device_scheme \<Rightarrow> 'a device_scheme" where
  "dev_setDeviceKey conn centraldId k d =
     on_conn conn (\<lambda>c. let c1 = setKey k c in
       if cn_type c1 = DEVICE_DEVICE \<and> isConnState c1 CONN_AUTH_PENDING
       then (queSend (new_CommandSendKey centraldId (cn_centrald_num c1) k) c1)\<lparr>cn_commandInProgress := False\<rparr>
       else c1) d"

text \<open>\<open>DevConnection::connConnected\<close>, for a connection with the host number \<open>host_num\<close> of its address.\<close>

definition dev_connConnected :: "'a device_scheme device_hooks \<Rightarrow> int \<Rightarrow> nat \<Rightarrow> 'a device_scheme \<Rightarrow> 'a device_scheme" where
  "dev_connConnected h host_num conn d =
     (case (find_conn conn d, find (\<lambda>m. cn_centrald_num m = host_num) (bl_centraldConns d)) of
        (Some c, Some m) \<Rightarrow>
          dev_setConnState h conn CONN_AUTH_PENDING
            (on_conn (cn_id m) (\<lambda>m. snd (queCommand (new_CommandKey (cn_name c)) m)) d)
      | _ \<Rightarrow> d)"

definition done_on :: "nat \<Rightarrow> 'a device_scheme \<Rightarrow> 'a device_scheme" where
  "done_on m d = on_conn m (\<lambda>c. c\<lparr>cn_commandInProgress := False\<rparr>) d"

text \<open>\<open>DevConnectionMaster::command\<close>: the replies of the central server.\<close>

definition master_auth ::
  "'a device_scheme device_hooks \<Rightarrow> nat \<Rightarrow> string \<Rightarrow> string \<Rightarrow> 'a device_scheme \<Rightarrow> (int \<times> 'a device_scheme) option"
where
  "master_auth h m t b d =
     (if t = ''authorization_ok'' \<or> t = ''authorization_failed'' then
        (case paramNextInteger b of
           (None, r) \<Rightarrow> Some (-1, d)
         | (Some i, r) \<Rightarrow>
             if \<not> fst (paramEnd r) then Some (-1, d)
             else
               let d1 = (case findCentralId i d of
                     None \<Rightarrow> d
                   | Some c \<Rightarrow> if t = ''authorization_ok'' then authorizationOK h (cn_id c) d
                                else authorizationFailed h (cn_id c) d)
               in Some (-1, done_on m d1))
      else if t = ''registered_as'' then
        (case paramNextInteger b of
           (None, r) \<Rightarrow> Some (-2, d)
         | (Some i, r) \<Rightarrow>
             if \<not> fst (paramEnd r) then Some (-2, d)
             else
               let d1 = on_conn m (\<lambda>c. c\<lparr>cn_centrald_id := i\<rparr>) d
               in Some (-1, done_on m (on_conn m (\<lambda>c. snd (daemon_sendMetaInfo d1 c)) d1)))
      else None)"

definition master_command ::
  "'a device_scheme device_hooks \<Rightarrow> (nat \<Rightarrow> string \<Rightarrow> string \<Rightarrow> 'a device_scheme \<Rightarrow> int \<times> 'a device_scheme)
    \<Rightarrow> nat \<Rightarrow> string \<Rightarrow> string \<Rightarrow> 'a device_scheme \<Rightarrow> int \<times> 'a device_scheme"
where
  "master_command h base m w b d =
     (if w = ''A'' then
        (case paramNextString [] b of
           (None, r) \<Rightarrow> (-1, d)
         | (Some t, r) \<Rightarrow> (case master_auth h m t r d of Some x \<Rightarrow> x | None \<Rightarrow> base m w r d))
      else if w = ''authorization_key'' then
        (case paramNextString [] b of
           (None, r) \<Rightarrow> (-2, d)
         | (Some n, r) \<Rightarrow> (case paramNextInteger r of
              (None, r1) \<Rightarrow> (-2, d)
            | (Some k, r1) \<Rightarrow>
                if \<not> fst (paramEnd r1) then (-2, d)
                else
                  let mid = (case find_conn m d of Some c \<Rightarrow> cn_centrald_id c | None \<Rightarrow> -1);
                      d1 = (case getOpenConnection n d of Some c \<Rightarrow> dev_setDeviceKey (cn_id c) mid k d | None \<Rightarrow> d)
                  in (-1, done_on m d1)))
      else if w = ''open'' \<or> w = ''close'' then device_commandAuthorized h m w b d
      else base m w b d)"

section \<open>The connection to a central server\<close>

text \<open>\<open>connectionError\<close> keeps the connection as broken and tries again after a minute (\<open>nextTime\<close>).\<close>

definition master_connectionError :: "int \<Rightarrow> connection \<times> int \<Rightarrow> connection \<times> int" where
  "master_connectionError now cn =
     (case cn of (c, nextTime) \<Rightarrow>
        let c1 = c\<lparr>cn_sock := False\<rparr> in
        if \<not> isConnState c1 CONN_BROKEN then (setConnState CONN_BROKEN c1, now + 60) else (c1, nextTime))"

text \<open>\<open>idle\<close>; \<open>init\<close> opens the socket and registers, or fails.\<close>

definition master_idle :: "(connection \<times> int \<Rightarrow> connection \<times> int) \<Rightarrow> int \<Rightarrow> connection \<times> int \<Rightarrow> connection \<times> int" where
  "master_idle init now cn =
     (case cn of (c, nextTime) \<Rightarrow>
        if isConnState c CONN_BROKEN then
          (let c1 = c\<lparr>cn_connectionTimeout := 0\<rparr>;
               (c2, t) = (if now > nextTime then init (c1, now + 60) else (c1, nextTime))
           in (conn_idle now c2, t))
        else (conn_idle now (c\<lparr>cn_lastData := now, cn_connectionTimeout := 300\<rparr>), nextTime))"

definition master_setState ::
  "(nat \<Rightarrow> rts2_status \<Rightarrow> 'a device_scheme \<Rightarrow> 'a device_scheme) \<Rightarrow> nat \<Rightarrow> rts2_status \<Rightarrow> 'a device_scheme \<Rightarrow> 'a device_scheme"
where
  "master_setState set_master m v d = set_master m v (on_conn m (setState v) d)"

definition master_setBopState ::
  "(rts2_status \<Rightarrow> rts2_status \<Rightarrow> rts2_status) \<Rightarrow> nat \<Rightarrow> rts2_status \<Rightarrow> 'a device_scheme \<Rightarrow> 'a device_scheme"
where
  "master_setBopState maskq m v d = setFullBopState maskq v (on_conn m (setBopState v) d)"

definition master_setConnState :: "nat \<Rightarrow> conn_state \<Rightarrow> 'a device_scheme \<Rightarrow> 'a device_scheme" where
  "master_setConnState m s d =
     (let d1 = on_conn m (setConnState s) d
      in case find_conn m d1 of
           Some c \<Rightarrow> if isConnState c CONN_AUTH_OK then snd (device_statusInfo m d1) else d1
         | None \<Rightarrow> d1)"

section \<open>A state change frees the queued changes it no longer blocks\<close>

definition conds :: "'a daemon_scheme \<Rightarrow> (nat \<times> rts2_status) list" where
  "conds d = map (\<lambda>cv. (cv_id cv, cv_cond cv)) (d_values d)"

text \<open>A hook that neither touches the queue nor which values there are.\<close>

definition quiet :: "'a daemon_scheme value_hook \<Rightarrow> bool" where
  "quiet h \<longleftrightarrow> (\<forall>old new d. d_queValues (snd (h old new d)) = d_queValues d \<and> conds (snd (h old new d)) = conds d
     \<and> d_state (snd (h old new d)) = d_state d)"

lemma quiet_base [simp]: "quiet daemon_setValue"
  by (simp add: quiet_def daemon_setValue_def)

lemma cond_of_conds: "map_option cv_cond (cond_of i d) = map_of (conds d) i"
proof -
  have "map_option cv_cond (find (\<lambda>cv. cv_id cv = i) vs) = map_of (map (\<lambda>cv. (cv_id cv, cv_cond cv)) vs) i" for vs
    by (induction vs) auto
  then show ?thesis by (simp add: cond_of_def conds_def)
qed

lemma cond_of_None: "cond_of i d = None \<longleftrightarrow> i \<notin> fst ` set (conds d)"
  using cond_of_conds [of i d] by (metis map_of_eq_None_iff option.map_disc_iff)

lemma cond_of_cond: "cond_of i d = Some cv \<Longrightarrow> map_of (conds d) i = Some (cv_cond cv)"
  using cond_of_conds [of i d] by simp

lemma conds_same [simp]:
  "conds (set_own i v d) = conds d" "conds (valueChanged v d) = conds d" "conds (map_conns f d) = conds d"
  "conds (d\<lparr>d_crashed := b\<rparr>) = conds d" "conds (d\<lparr>d_queValues := q\<rparr>) = conds d" "conds (sendValueAll i d) = conds d"
proof -
  show own: "conds (set_own i v d) = conds d" for i v and d :: "'a daemon_scheme" by (simp add: conds_def set_own_def)
  show conns: "conds (map_conns f d) = conds d" for f and d :: "'a daemon_scheme" by (simp add: conds_def)
  show "conds (sendValueAll i d) = conds d" by (simp add: sendValueAll_def own conns split: option.split)
qed (simp_all add: conds_def valueChanged_def)

lemma doSetValue_quiet:
  assumes "quiet h"
  shows "d_queValues (snd (doSetValue h i op new d)) = d_queValues d" "conds (snd (doSetValue h i op new d)) = conds d"
    "d_state (snd (doSetValue h i op new d)) = d_state d"
  using assms by (auto simp: doSetValue_def quiet_def Let_def split: option.splits prod.splits) (metis snd_conv)+

text \<open>The queue entries the state still blocks; an entry without its value counts as blocked.\<close>

definition blocked_in :: "rts2_status \<Rightarrow> (nat \<times> rts2_status) list \<Rightarrow> value_que \<Rightarrow> bool" where
  "blocked_in s cs q \<longleftrightarrow> (case map_of cs (vq_old q) of Some c \<Rightarrow> c AND s \<noteq> 0 | None \<Rightarrow> True)"

lemma check_que_filters:
  assumes h: "quiet h"
  shows "\<forall>q \<in> set qs. vq_old q \<in> fst ` set (conds d) \<Longrightarrow> d_queValues d = kept @ qs \<Longrightarrow>
    check_que h s kept ch qs d = (ch1, d1) \<Longrightarrow>
    ch1 = (ch \<or> (\<exists>q \<in> set qs. \<not> blocked_in s (conds d) q))
      \<and> d_queValues d1 = kept @ filter (blocked_in s (conds d)) qs \<and> conds d1 = conds d \<and> d_state d1 = d_state d"
proof (induction qs arbitrary: kept ch d)
  case Nil
  then show ?case by simp
next
  case (Cons q qs)
  obtain cv where cv: "cond_of (vq_old q) d = Some cv"
    using Cons.prems(1) cond_of_None [of "vq_old q" d] by auto
  have b: "blocked_in s (conds d) q = queValueChange cv s"
    using cond_of_cond [OF cv] by (simp add: blocked_in_def queValueChange_def)
  show ?case
  proof (cases "queValueChange cv s")
    case True
    then have "check_que h s (kept @ [q]) ch qs d = (ch1, d1)" using Cons.prems(3) cv by simp
    with Cons.IH [of d "kept @ [q]" ch] Cons.prems b True show ?thesis by simp
  next
    case False
    let ?d = "(snd (doSetValue h (vq_old q) (vq_op q) (vq_new q) d))\<lparr>d_queValues := kept @ qs\<rparr>"
    have "check_que h s kept True qs ?d = (ch1, d1)"
      using Cons.prems(2,3) cv False doSetValue_quiet(1) [OF h] by (simp add: Let_def)
    with Cons.IH [of ?d kept True] Cons.prems(1) b False doSetValue_quiet [OF h] show ?thesis by simp
  qed
qed

lemma map_conns_device [simp]:
  "dv_fullBop (map_conns f d) = dv_fullBop d" "dv_statusCommand (map_conns f d) = dv_statusCommand d"
  by (simp_all add: map_conns_def)

lemma on_conn_daemon [simp]:
  "d_queValues (on_conn i f d) = d_queValues d" "d_state (on_conn i f d) = d_state d" "d_values (on_conn i f d) = d_values d"
  by (simp_all add: on_conn_def Let_def)

lemma on_conn_device [simp]: "dv_fullBop (on_conn i f d) = dv_fullBop d"
  by (simp add: on_conn_def Let_def)

lemma conds_on_conn [simp]: "conds (on_conn i f d) = conds d"
  by (simp add: conds_def)

lemma sendStatusMessage_same [simp]:
  "d_queValues (sendStatusMessage s m c d) = d_queValues d" "d_state (sendStatusMessage s m c d) = d_state d"
  "conds (sendStatusMessage s m c d) = conds d" "d_values (sendStatusMessage s m c d) = d_values d"
  by (simp_all add: sendStatusMessage_def sendAll_def sendAllExcept_def Let_def conds_def split: option.split)

lemma sendStatusMessage_bop [simp]: "dv_fullBop (sendStatusMessage s m c d) = dv_fullBop d"
  by (simp add: sendStatusMessage_def sendAll_def sendAllExcept_def Let_def split: option.split)

lemma endDeviceStatusCommand_same [simp]:
  "d_queValues (endDeviceStatusCommand d) = d_queValues d" "d_state (endDeviceStatusCommand d) = d_state d"
  "conds (endDeviceStatusCommand d) = conds d" "d_values (endDeviceStatusCommand d) = d_values d"
  by (simp_all add: endDeviceStatusCommand_def end_on_def conds_def split: option.split)

lemma setFullBopState_same [simp]:
  "d_queValues (setFullBopState maskq s d) = d_queValues d" "d_state (setFullBopState maskq s d) = d_state d"
  "conds (setFullBopState maskq s d) = conds d" "d_values (setFullBopState maskq s d) = d_values d"
  by (simp_all add: setFullBopState_def sendBopMessage_def sendAll_def Let_def conds_def)

lemma fold_maskq [simp]: "fold (\<lambda>q s. maskQueValueBopState s (f q)) qs s = s"
  by (induction qs) (simp_all add: maskQueValueBopState_def)

lemma setFullBopState_base [simp]: "dv_fullBop (setFullBopState maskQueValueBopState s d) = s"
  by (simp add: setFullBopState_def Let_def)

text \<open>A change of the device's state keeps in the queue exactly the changes whose condition the
  new state still meets, in their order, whatever the quiet hook of the device does; the
  block-of-operation state clients are told is overwritten with the state word of the device
  itself whenever a change was freed.\<close>

theorem state_change_flushes_queue:
  assumes "quiet h" "\<forall>q \<in> set (d_queValues d). vq_old q \<in> fst ` set (conds d)"
  shows "d_queValues (device_stateChanged h maskQueValueBopState new old desc conn d)
      = filter (blocked_in new (conds d)) (d_queValues d)
    \<and> ((\<exists>q \<in> set (d_queValues d). \<not> blocked_in new (conds d) q) \<longrightarrow>
      dv_fullBop (device_stateChanged h maskQueValueBopState new old desc conn d) = new)"
proof -
  obtain ch d1 where r: "check_que h new [] False (d_queValues d) (d\<lparr>d_state := new\<rparr>) = (ch, d1)" by force
  have c: "conds (d\<lparr>d_state := new\<rparr>) = conds d" by (simp add: conds_def)
  have f: "ch = (\<exists>q \<in> set (d_queValues d). \<not> blocked_in new (conds d) q)"
    "d_queValues d1 = filter (blocked_in new (conds d)) (d_queValues d)"
    using check_que_filters [OF assms(1) _ _ r, unfolded c] assms(2) by auto
  show ?thesis
    using r f by (simp add: device_stateChanged_def checkQueChanges_def daemon_stateChanged_def Let_def)
qed

definition example_device :: "rts2_status \<Rightarrow> device" where
  "example_device s = daemon.extend (addValue (example_value 3) DEVICE_ERROR_HW (example_daemon s))
     \<lparr>dv_name = ''C0'', dv_type = 3, dv_fullBop = BOP_EXPOSURE, dv_statusCommand = None, dv_doAuth = True,
      dv_last_weathermsg = None\<rparr>"

lemma example_device_fields [simp]:
  "d_values (example_device s) = [\<lparr>cv_id = 0, cv_value = example_value 3, cv_cond = DEVICE_ERROR_HW\<rparr>]"
  "d_queValues (example_device s) = []" "d_state (example_device s) = s"
  "conds (example_device s) = [(0, DEVICE_ERROR_HW)]"
  "conds ((example_device s)\<lparr>d_queValues := q\<rparr>) = [(0, DEVICE_ERROR_HW)]"
  by (simp_all add: example_device_def conds_def addValue_def example_daemon_def block.defs daemon.defs)

theorem state_change_flushes_queue_witness:
  "d_queValues (device_stateChanged daemon_setValue maskQueValueBopState DEVICE_IDLE DEVICE_ERROR_HW None None
     ((example_device DEVICE_ERROR_HW)\<lparr>d_queValues := [\<lparr>vq_old = 0, vq_op = CHR ''='', vq_new = example_value 4\<rparr>]\<rparr>)) = []
   \<and> dv_fullBop (device_stateChanged daemon_setValue maskQueValueBopState DEVICE_IDLE DEVICE_ERROR_HW None None
     ((example_device DEVICE_ERROR_HW)\<lparr>d_queValues := [\<lparr>vq_old = 0, vq_op = CHR ''='', vq_new = example_value 4\<rparr>]\<rparr>)) = DEVICE_IDLE"
  using state_change_flushes_queue [of daemon_setValue "(example_device DEVICE_ERROR_HW)\<lparr>d_queValues :=
      [\<lparr>vq_old = 0, vq_op = CHR ''='', vq_new = example_value 4\<rparr>]\<rparr>" DEVICE_IDLE DEVICE_ERROR_HW None None]
  by (simp add: blocked_in_def status_bits)

text \<open>A change that was queued because of the state is carried out by the first change to a state
  its condition does not meet: the value then holds what the operation gave, and the queue is
  empty again.\<close>

theorem queued_change_takes_effect:
  assumes "cond_of i d = Some cv" "isWritable (cv_value cv)"
    and "doOpValue op new (cv_value cv) = Some (0, new1)" "copy_ok (v_data (cv_value cv)) (v_data new1)"
    and "\<not> isEqual (cv_value cv) new1" "op \<noteq> CHR ''='' \<or> \<not> isEqual (cv_value cv) new"
    and "cv_cond cv AND d_state d \<noteq> 0" "cv_cond cv AND s = 0" "d_queValues d = []"
  shows "let d1 = snd (setCondValue daemon_setValue i op new d);
             d2 = device_stateChanged daemon_setValue maskQueValueBopState s (d_state d1) desc conn d1
         in d_values d1 = d_values d \<and> d_queValues d2 = []
            \<and> (\<exists>cv2. cond_of i d2 = Some cv2 \<and> isEqual (cv_value cv2) new1)"
proof -
  let ?q = "\<lparr>vq_old = i, vq_op = op, vq_new = new\<rparr>"
  let ?d1 = "d\<lparr>d_queValues := [?q]\<rparr>"
  have d1: "snd (setCondValue daemon_setValue i op new d) = ?d1"
    using set_stored [OF assms(1,6)] assms(7,9) by simp
  let ?e = "?d1\<lparr>d_state := s\<rparr>"
  have cv: "cond_of i ?e = Some cv" using assms(1) by (simp add: cond_of_def)
  obtain r e1 where r: "doSetValue daemon_setValue i op new ?e = (r, e1)" by force
  note eff = doSetValue_effect [OF cv assms(2-5) r]
  have loop: "check_que daemon_setValue s [] False [?q] ?e = (True, e1\<lparr>d_queValues := []\<rparr>)"
    using cv assms(8) r eff(4) by (simp add: queValueChange_def)
  have "cond_of i (e1\<lparr>d_queValues := []\<rparr>) = cond_of i e1" by (simp add: cond_of_def)
  with eff(2) loop show ?thesis
    by (auto simp: d1 device_stateChanged_def checkQueChanges_def daemon_stateChanged_def cond_of_def Let_def)
qed

theorem queued_change_takes_effect_witness:
  "let d1 = snd (setCondValue daemon_setValue 0 CHR ''='' (example_value 4) (example_device DEVICE_ERROR_HW));
       d2 = device_stateChanged daemon_setValue maskQueValueBopState DEVICE_IDLE (d_state d1) None None d1
   in d_values d1 = d_values (example_device DEVICE_ERROR_HW) \<and> d_queValues d2 = []
      \<and> (\<exists>cv2. cond_of 0 d2 = Some cv2 \<and> isEqual (cv_value cv2) (example_value 4))"
proof (rule queued_change_takes_effect)
  show "cond_of 0 (example_device DEVICE_ERROR_HW) = Some \<lparr>cv_id = 0, cv_value = example_value 3, cv_cond = DEVICE_ERROR_HW\<rparr>"
    by (simp add: cond_of_def)
qed (simp_all add: example_value_def isWritable_def doOpValue_def base_doOpValue_def integer_doOpValue_def
    setValueInteger_def getValueInteger_def isEqual_def status_bits)

section \<open>A value deleted while a change of it waits\<close>

text \<open>Deleting a value whose change is queued leaves the queue entry behind, and the next change of
  the state uses the value that is gone.\<close>

theorem deleted_value_stays_queued:
  "let d1 = snd (setCondValue daemon_setValue 0 CHR ''='' (example_value 4) (example_device DEVICE_ERROR_HW));
       d2 = snd (device_commandAuthorized h 2 ''value_delete'' ''que'' d1);
       d3 = device_stateChanged daemon_setValue maskQueValueBopState DEVICE_IDLE (d_state d2) None None d2
   in d_values d2 = [] \<and> length (d_queValues d2) = 1 \<and> \<not> d_crashed d2 \<and> d_crashed d3"
proof -
  let ?q = "\<lparr>vq_old = 0, vq_op = CHR ''='', vq_new = example_value 4\<rparr>"
  let ?d = "(example_device DEVICE_ERROR_HW)\<lparr>d_queValues := [?q]\<rparr>"
  have ne: "\<not> isEqual (example_value 3) (example_value 4)"
    by (simp add: example_value_def isEqual_def getValueInteger_def)
  have d1: "snd (setCondValue daemon_setValue 0 CHR ''='' (example_value 4) (example_device DEVICE_ERROR_HW)) = ?d"
    by (subst set_stored [of _ _ "\<lparr>cv_id = 0, cv_value = example_value 3, cv_cond = DEVICE_ERROR_HW\<rparr>"])
      (simp_all add: cond_of_def ne, simp add: status_bits)
  have p: "paramNextString [] ''que'' = (Some ''que'', [])" "paramEnd [] = (True, [])" by code_simp+
  have n: "isValue ''que'' (example_value 3)" by (simp add: isValue_def example_value_def new_name strcaseeq_def)
  have c: "\<not> d_crashed (example_device s)" for s
    by (simp add: example_device_def addValue_def example_daemon_def block.defs daemon.defs)
  let ?e = "(sendValueDeleteAll (example_value 3) ?d)\<lparr>d_values := []\<rparr>"
  have d2: "snd (device_commandAuthorized h 2 ''value_delete'' ''que'' ?d) = ?e"
    by (simp add: device_commandAuthorized_def p getOwnValue_def getCondValue_def n deleteValue_def sendValueDeleteAll_def)
  have "check_que daemon_setValue DEVICE_IDLE [] False [?q] (?e\<lparr>d_state := DEVICE_IDLE\<rparr>)
      = (False, ?e\<lparr>d_state := DEVICE_IDLE, d_crashed := True\<rparr>)"
    by (simp add: cond_of_def)
  then have d3: "d_crashed (device_stateChanged daemon_setValue maskQueValueBopState DEVICE_IDLE x None None ?e)" for x
    by (simp add: device_stateChanged_def checkQueChanges_def daemon_stateChanged_def Let_def sendValueDeleteAll_def
        sendStatusMessage_def sendAll_def map_conns_def)
  show ?thesis
    using d3 by (simp add: d1 d2 Let_def sendValueDeleteAll_def map_conns_def c)
qed

end
