(* ===== verification/Rts2_Centrald.thy ===== *)
theory Rts2_Centrald
  imports Rts2_Device
begin

text \<open>
  The central server (\<open>src/centrald/centrald.cpp\<close>, \<open>src/centrald/centrald.h\<close>): the state of
  the observatory, weather and stop votes of the devices, the sequence that opens and closes
  the roof, and the collection of device states for \<open>status_info\<close>.

  A \<open>Centrald\<close> is a daemon with more fields; its published values are fields, and
  \<open>cd_announced\<close> lists the calls of \<open>sendValueAll\<close> by value name. Times are seconds, None is NaN;
  \<open>now\<close> is the time of a call. \<open>cd_timers\<close> holds the due times of \<open>EVENT_CLOSE_TIMEOUT\<close>.
  \<open>cd_commands\<close> lists the open and close commands given to devices, each with the state of the
  server at that moment. What \<open>ConnCentrald\<close> adds to a connection is \<open>cd_ext\<close>, by \<open>cn_id\<close>.
  Parameters: \<open>blocks\<close> is \<open>Configuration::blockDevice\<close>, \<open>event\<close> is \<open>next_event\<close>, \<open>night\<close> is
  \<open>getNight\<close>. Log files, positions of sun and moon and the configuration file are left out.
\<close>

section \<open>State\<close>

record central_conn =
  cc_authorized :: int
  cc_login :: string
  cc_hostname :: string
  cc_port :: int
  cc_statusCommandRunning :: int
  cc_messageMask :: int

record centrald = daemon +
  cd_ext :: "nat \<Rightarrow> central_conn"
  cd_connNum :: int
  cd_next_event_type :: rts2_status
  cd_next_event_time :: int
  cd_morning_off :: bool
  cd_morning_standby :: bool
  cd_openClose :: int
  cd_openCloseTimeout :: "int option"
  cd_openCloseLast :: string
  cd_failedClose :: "string list"
  cd_requiredDevices :: "string list"
  cd_badWeatherDevices :: "string list"
  cd_openSequence :: "string list"
  cd_badWeatherReason :: string
  cd_badWeatherDevice :: string
  cd_nextStateChange :: int
  cd_nextState :: rts2_status
  cd_night :: "int \<times> int"
  cd_dark :: "int \<times> int"
  cd_switchedStandby :: "int list"
  cd_lastOn :: "int option"
  cd_timers :: "int list"
  cd_announced :: "string list"
  cd_commands :: "(string \<times> string \<times> rts2_status) list"

definition announce_value :: "string \<Rightarrow> 'a centrald_scheme \<Rightarrow> 'a centrald_scheme" where
  "announce_value n d = d\<lparr>cd_announced := cd_announced d @ [n]\<rparr>"

text \<open>\<open>addTimer\<close>: the map of timers has one entry per time.\<close>

definition addTimer :: "int \<Rightarrow> 'a centrald_scheme \<Rightarrow> 'a centrald_scheme" where
  "addTimer t d = (if t \<in> set (cd_timers d) then d else d\<lparr>cd_timers := cd_timers d @ [t]\<rparr>)"

section \<open>Opening and closing the roof\<close>

definition updateOpenClose :: "bool \<Rightarrow> 'a centrald_scheme \<Rightarrow> 'a centrald_scheme" where
  "updateOpenClose clear d =
     (let d1 = (if clear then d\<lparr>cd_openClose := 0, cd_openCloseLast := [], cd_openCloseTimeout := None\<rparr> else d)
      in announce_value ''open_close_timeout'' (announce_value ''open_close_last'' (announce_value ''open_close'' d1)))"

text \<open>A command to a device of the sequence, with its entry in \<open>cd_commands\<close>.\<close>

definition roof_command :: "string \<Rightarrow> connection \<Rightarrow> 'a centrald_scheme \<Rightarrow> 'a centrald_scheme" where
  "roof_command cmd c d =
     (on_conn (cn_id c) (\<lambda>c. snd (queCommand (new_Command cmd) c)) d)
       \<lparr>cd_commands := cd_commands d @ [(cn_name c, cmd, d_state d)]\<rparr>"

definition roof_timeout :: "int \<Rightarrow> string \<Rightarrow> 'a centrald_scheme \<Rightarrow> 'a centrald_scheme" where
  "roof_timeout now n d = updateOpenClose False (d\<lparr>cd_openCloseTimeout := Some (now + 180), cd_openCloseLast := n\<rparr>)"

fun doOpen_from :: "int \<Rightarrow> string list \<Rightarrow> 'a centrald_scheme \<Rightarrow> int \<times> 'a centrald_scheme" where
  "doOpen_from now [] d = (-1, updateOpenClose True d)"
| "doOpen_from now (n # ns) d =
     (case getOpenConnection n d of
        None \<Rightarrow> (-1, updateOpenClose False (d\<lparr>cd_openClose := 0\<rparr>))
      | Some c \<Rightarrow>
          if Rts2_Connection.getState c AND DEVICE_BLOCK_OPEN \<noteq> 0 then
            (0, (let d1 = roof_command ''open'' c d
                 in if n \<noteq> cd_openCloseLast d then roof_timeout now (cn_name c) d1 else d1))
          else doOpen_from now ns d)"

definition doOpen :: "int \<Rightarrow> 'a centrald_scheme \<Rightarrow> int \<times> 'a centrald_scheme" where
  "doOpen now d = doOpen_from now (cd_openSequence d) d"

text \<open>\<open>doClose\<close> goes through the sequence from its end: the argument is what is left, reversed.\<close>

fun doClose_from :: "int \<Rightarrow> string list \<Rightarrow> 'a centrald_scheme \<Rightarrow> int \<times> 'a centrald_scheme" where
  "doClose_from now [] d = (-1, announce_value ''close_failed'' ((updateOpenClose True d)\<lparr>cd_failedClose := []\<rparr>))"
| "doClose_from now (n # ns) d =
     (case getOpenConnection n d of
        None \<Rightarrow> doClose_from now ns d
      | Some c \<Rightarrow>
          if n \<notin> set (cd_failedClose d) \<and> Rts2_Connection.getState c AND DEVICE_BLOCK_CLOSE \<noteq> 0 then
            (0, (let d1 = roof_command ''close'' c d
                 in if n \<noteq> cd_openCloseLast d then addTimer (now + 180) (roof_timeout now (cn_name c) d1) else d1))
          else doClose_from now ns d)"

definition doClose :: "int \<Rightarrow> 'a centrald_scheme \<Rightarrow> int \<times> 'a centrald_scheme" where
  "doClose now d = (if cd_openSequence d = [] then (0, d) else doClose_from now (rev (cd_openSequence d)) d)"

definition startOpen :: "int \<Rightarrow> 'a centrald_scheme \<Rightarrow> int \<times> 'a centrald_scheme" where
  "startOpen now d = doOpen now (d\<lparr>cd_openClose := 1\<rparr>)"

definition startClose :: "int \<Rightarrow> 'a centrald_scheme \<Rightarrow> int \<times> 'a centrald_scheme" where
  "startClose now d = doClose now (d\<lparr>cd_openClose := 2\<rparr>)"

definition openCloseChanged :: "int \<Rightarrow> 'a centrald_scheme \<Rightarrow> 'a centrald_scheme" where
  "openCloseChanged now d =
     (if cd_openClose d = 1 then snd (doOpen now d) else if cd_openClose d = 2 then snd (doClose now d) else d)"

text \<open>\<open>postEvent\<close> of \<open>EVENT_CLOSE_TIMEOUT\<close>; a timer that is due is taken off the map first.\<close>

definition close_timeout :: "int \<Rightarrow> 'a centrald_scheme \<Rightarrow> 'a centrald_scheme" where
  "close_timeout now d =
     (if cd_openClose d = 2
      then snd (doClose now (announce_value ''close_failed'' (d\<lparr>cd_failedClose := cd_failedClose d @ [cd_openCloseLast d]\<rparr>)))
      else d)"

definition run_timer :: "int \<Rightarrow> 'a centrald_scheme \<Rightarrow> 'a centrald_scheme" where
  "run_timer now d =
     (case find (\<lambda>t. t < now) (cd_timers d) of
        None \<Rightarrow> d
      | Some t \<Rightarrow> close_timeout now (d\<lparr>cd_timers := remove1 t (cd_timers d)\<rparr>))"

section \<open>The state of the server\<close>

text \<open>The system may be opened when it is on, in good weather, from dusk to dawn.\<close>

definition may_open :: "rts2_status \<Rightarrow> bool" where
  "may_open s \<longleftrightarrow> s AND WEATHER_MASK = GOOD_WEATHER \<and> s AND SERVERD_ONOFF_MASK = SERVERD_ON
     \<and> (s AND SERVERD_STATUS_MASK = SERVERD_DUSK \<or> s AND SERVERD_STATUS_MASK = SERVERD_NIGHT
        \<or> s AND SERVERD_STATUS_MASK = SERVERD_DAWN)"

definition centrald_stateChanged :: "int \<Rightarrow> 'a centrald_scheme state_hook" where
  "centrald_stateChanged now new old desc conn d =
     (let d1 = daemon_stateChanged new old desc conn d;
          d2 = (if d_state d1 AND NOT BOP_MASK \<noteq> old AND NOT BOP_MASK
                then sendStatusMessage (d_state d1) desc None d1 else d1)
      in snd (if may_open new then startOpen now d2 else startClose now d2))"

definition centrald_maskState :: "int \<Rightarrow> rts2_status \<Rightarrow> rts2_status \<Rightarrow> string option \<Rightarrow> 'a centrald_scheme \<Rightarrow> 'a centrald_scheme" where
  "centrald_maskState now smask new desc d = maskState (centrald_stateChanged now) smask new desc None None None d"

definition maskCentralState :: "int \<Rightarrow> rts2_status \<Rightarrow> rts2_status \<Rightarrow> string option \<Rightarrow> 'a centrald_scheme \<Rightarrow> 'a centrald_scheme" where
  "maskCentralState now smask new desc d =
     (let st = d_state d AND SERVERD_STATUS_MASK;
          d1 = (if d_state d AND SERVERD_STANDBY = 0 \<and> (st = SERVERD_DUSK \<or> st = SERVERD_NIGHT \<or> st = SERVERD_DAWN)
                then announce_value ''switched_standby'' (d\<lparr>cd_switchedStandby := cd_switchedStandby d @ [now]\<rparr>) else d);
          d2 = centrald_maskState now smask new desc d1
      in if smask AND SERVERD_STATUS_MASK \<noteq> 0
         then announce_value ''last_night_on''
                (d2\<lparr>cd_lastOn := (if new AND SERVERD_STATUS_MASK = SERVERD_NIGHT \<and> new AND SERVERD_STANDBY = 0
                                then Some now else None)\<rparr>)
         else d2)"

definition changeState :: "int \<Rightarrow> rts2_status \<Rightarrow> string \<Rightarrow> 'a centrald_scheme \<Rightarrow> int \<times> 'a centrald_scheme" where
  "changeState now new_state user d =
     (0, maskCentralState now (SERVERD_ONOFF_MASK OR SERVERD_STATUS_MASK) new_state (Some user) d)"

definition current_period :: "'a centrald_scheme \<Rightarrow> rts2_status" where
  "current_period d = (cd_next_event_type d + 5) mod 6"

definition changeStateOn :: "int \<Rightarrow> string \<Rightarrow> 'a centrald_scheme \<Rightarrow> int \<times> 'a centrald_scheme" where
  "changeStateOn now user d = changeState now (current_period d) user d"

definition changeStateStandby :: "int \<Rightarrow> string \<Rightarrow> 'a centrald_scheme \<Rightarrow> int \<times> 'a centrald_scheme" where
  "changeStateStandby now user d = changeState now (SERVERD_STANDBY OR current_period d) user d"

definition changeStateHardOff :: "int \<Rightarrow> string \<Rightarrow> 'a centrald_scheme \<Rightarrow> int \<times> 'a centrald_scheme" where
  "changeStateHardOff now user d = changeState now (SERVERD_HARD_OFF OR current_period d) user d"

definition changeStateSoftOff :: "int \<Rightarrow> string \<Rightarrow> 'a centrald_scheme \<Rightarrow> int \<times> 'a centrald_scheme" where
  "changeStateSoftOff now user d = changeState now (SERVERD_SOFT_OFF OR current_period d) user d"

text \<open>\<open>changeStateDay\<close>, \<open>changeStateEvening\<close>, \<open>changeStateDusk\<close>, \<open>changeStateNight\<close>, \<open>changeStateDawn\<close>, \<open>changeStateMorning\<close>.\<close>

definition changeStatePeriod :: "int \<Rightarrow> rts2_status \<Rightarrow> 'a centrald_scheme \<Rightarrow> int \<times> 'a centrald_scheme" where
  "changeStatePeriod now period d = (0, maskCentralState now SERVERD_STATUS_MASK period (Some ''by client'') d)"

section \<open>Weather and stop votes\<close>

text \<open>
  One turn of the loop over the connections. \<open>good\<close> is what the connection reports; the first
  bad report of the device that triggered the check is kept as the reason.
\<close>

definition failed_step :: "(connection \<Rightarrow> bool) \<Rightarrow> connection \<Rightarrow> string list \<Rightarrow> string list" where
  "failed_step good c failed =
     (if cn_name c \<in> set failed
      then (if good c \<and> isConnState c CONN_CONNECTED then remove1 (cn_name c) failed else failed)
      else if \<not> good c then failed @ [cn_name c] else failed)"

definition failed_devices :: "(connection \<Rightarrow> bool) \<Rightarrow> string list \<Rightarrow> connection list \<Rightarrow> string list" where
  "failed_devices good required cs = fold (failed_step good) cs required"

definition weather_reason :: "string \<Rightarrow> string option \<Rightarrow> connection \<Rightarrow> string \<times> string \<Rightarrow> string \<times> string" where
  "weather_reason device msg c r =
     (if cn_name c = device \<and> \<not> isGoodWeather c \<and> fst r = []
      then (case msg of Some m \<Rightarrow> m | None \<Rightarrow> ''NULL'', device) else r)"

definition centrald_setWeatherState :: "int \<Rightarrow> bool \<Rightarrow> string \<Rightarrow> 'a centrald_scheme \<Rightarrow> 'a centrald_scheme" where
  "centrald_setWeatherState now = daemon_setWeatherState (centrald_stateChanged now)"

definition weatherChanged :: "int \<Rightarrow> string \<Rightarrow> string option \<Rightarrow> 'a centrald_scheme \<Rightarrow> 'a centrald_scheme" where
  "weatherChanged now device msg d =
     (let failed = failed_devices isGoodWeather (cd_requiredDevices d) (bl_connections d);
          r = fold (weather_reason device msg) (bl_connections d) (cd_badWeatherReason d, cd_badWeatherDevice d);
          d1 = announce_value ''bad_weather_devices''
                 (d\<lparr>cd_badWeatherReason := fst r, cd_badWeatherDevice := snd r, cd_badWeatherDevices := failed\<rparr>);
          d2 = centrald_setWeatherState now (failed = []) ''weather state update from weatherChanged'' d1;
          d3 = (if failed = [] then d2\<lparr>cd_badWeatherReason := [], cd_badWeatherDevice := []\<rparr> else d2)
      in announce_value ''bad_weather_device'' (announce_value ''bad_weather_reason'' d3))"

definition weatherUpdate :: "string \<Rightarrow> 'a centrald_scheme \<Rightarrow> int \<times> 'a centrald_scheme" where
  "weatherUpdate b d =
     (case paramNextString [] b of
        (None, r) \<Rightarrow> (-2, d)
      | (Some dev, r) \<Rightarrow> (case paramNextString [] r of
           (None, r1) \<Rightarrow> (-2, d)
         | (Some upd, r1) \<Rightarrow>
             if \<not> fst (paramEnd r1) then (-2, d)
             else (0, if dev = cd_badWeatherDevice d
                      then announce_value ''bad_weather_reason'' (d\<lparr>cd_badWeatherReason := upd\<rparr>) else d)))"

definition stopChanged :: "int \<Rightarrow> 'a centrald_scheme \<Rightarrow> 'a centrald_scheme" where
  "stopChanged now d =
     setStopState (centrald_stateChanged now) (failed_devices canMove (cd_requiredDevices d) (bl_connections d) \<noteq> [])
       ''stop state update from stopChanged'' d"

definition centrald_deviceReady :: "int \<Rightarrow> string \<Rightarrow> 'a centrald_scheme \<Rightarrow> 'a centrald_scheme" where
  "centrald_deviceReady now n d = stopChanged now (weatherChanged now n (Some ''device ready'') d)"

section \<open>Block of operations\<close>

text \<open>A device is told the blocks of those devices that can block it.\<close>

definition getStateForConnection :: "(string \<Rightarrow> string \<Rightarrow> bool) \<Rightarrow> connection \<Rightarrow> 'a centrald_scheme \<Rightarrow> rts2_status" where
  "getStateForConnection blocks c d =
     (if cn_type c \<noteq> DEVICE_SERVER then d_state d
      else fold (\<lambda>t s. if blocks (cn_name c) (cn_name t) then s OR getBopState t else s) (bl_connections d)
             (d_state d AND (NOT BOP_MASK AND NOT DEVICE_ERROR_MASK)))"

text \<open>The loop sends to one connection at a time; what others report does not change by that.\<close>

definition bopMaskChanged :: "int \<Rightarrow> (string \<Rightarrow> string \<Rightarrow> bool) \<Rightarrow> 'a centrald_scheme \<Rightarrow> 'a centrald_scheme" where
  "bopMaskChanged now blocks d =
     (let d1 = centrald_maskState now BOP_MASK 0 (Some ''changed BOP state'') d;
          d2 = d1\<lparr>bl_connections := map (\<lambda>c. if cn_type c = DEVICE_SERVER
                   then sendBopMessage_conn (d_state d1) (getStateForConnection blocks c d1) c else c) (bl_connections d1)\<rparr>
      in sendStatusMessage (d_state d2) None None d2)"

section \<open>Collecting the states of the devices\<close>

definition upd_ext :: "nat \<Rightarrow> (central_conn \<Rightarrow> central_conn) \<Rightarrow> 'a centrald_scheme \<Rightarrow> 'a centrald_scheme" where
  "upd_ext i f d = d\<lparr>cd_ext := (cd_ext d)(i := f (cd_ext d i))\<rparr>"

definition status_targets :: "(string \<Rightarrow> string \<Rightarrow> bool) \<Rightarrow> connection \<Rightarrow> connection list \<Rightarrow> connection list" where
  "status_targets blocks c cs =
     filter (\<lambda>t. cn_id t \<noteq> cn_id c \<and> cn_type t \<noteq> CLIENT_SERVER
               \<and> (cn_type c = DEVICE_SERVER \<longrightarrow> blocks (cn_name c) (cn_name t))) cs"

definition centrald_statusInfo :: "(string \<Rightarrow> string \<Rightarrow> bool) \<Rightarrow> connection \<Rightarrow> 'a centrald_scheme \<Rightarrow> int \<times> 'a centrald_scheme" where
  "centrald_statusInfo blocks c d =
     (let ts = status_targets blocks c (bl_connections d);
          d1 = fold (\<lambda>t d. on_conn (cn_id t) (\<lambda>t. snd (queCommand ((new_CommandStatusInfo (cn_id c))\<lparr>cmd_originator := Some (cn_id c)\<rparr>) t)) d) ts d
      in if ts = [] then (0, d1)
         else (-1, upd_ext (cn_id c) (\<lambda>x. x\<lparr>cc_statusCommandRunning := cc_statusCommandRunning x + 1\<rparr>) d1))"

text \<open>\<open>ConnCentrald::updateStatusWait\<close> of the connection \<open>i\<close>; \<open>from\<close> is its argument.\<close>

definition centrald_updateStatusWait :: "(string \<Rightarrow> string \<Rightarrow> bool) \<Rightarrow> nat option \<Rightarrow> nat \<Rightarrow> 'a centrald_scheme \<Rightarrow> 'a centrald_scheme" where
  "centrald_updateStatusWait blocks from i d =
     (if (from = None \<and> cc_statusCommandRunning (cd_ext d i) = 0) \<or> block_commandOriginatorPending i from d then d
      else upd_ext i (\<lambda>x. x\<lparr>cc_statusCommandRunning := cc_statusCommandRunning x - 1\<rparr>)
             (on_conn i (\<lambda>c. sendCommandEnd DEVDEM_OK ''OK''
                (sendBopMessage_conn (d_state d) (getStateForConnection blocks c d) c)) d))"

section \<open>Events of the connections\<close>

text \<open>\<open>ConnCentrald::setState\<close>; the base class calls \<open>deviceReady\<close> first.\<close>

definition centrald_connState ::
  "int \<Rightarrow> (string \<Rightarrow> string \<Rightarrow> bool) \<Rightarrow> connection \<Rightarrow> rts2_status \<Rightarrow> string option \<Rightarrow> 'a centrald_scheme \<Rightarrow> 'a centrald_scheme"
where
  "centrald_connState now blocks c v msg d =
     (let ss = ss_setValue v (cn_serverState c); n = cn_name c;
          d1 = on_conn (cn_id c) (setState v) d;
          d2 = (if maskValueChanged DEVICE_NOT_READY ss \<and> v AND DEVICE_NOT_READY = 0 then centrald_deviceReady now n d1 else d1);
          d3 = (if maskValueChanged WEATHER_MASK ss then weatherChanged now n msg d2 else d2);
          d4 = (if maskValueChanged STOP_MASK ss then stopChanged now d3 else d3);
          d5 = (if maskValueChanged BOP_MASK ss then bopMaskChanged now blocks d4 else d4)
      in if maskValueChanged DEVICE_BLOCK_OPEN ss \<or> maskValueChanged DEVICE_BLOCK_CLOSE ss
         then openCloseChanged now d5 else d5)"

definition removed_text :: "connection \<Rightarrow> string option" where
  "removed_text c =
     (case cn_type c of
        CLIENT_SERVER \<Rightarrow> Some (''delete_client '' @ show_int (cn_centrald_id c))
      | DEVICE_SERVER \<Rightarrow> Some (''delete_device '' @ show_int (cn_centrald_id c) @ '' '' @ cn_name c)
      | _ \<Rightarrow> None)"

definition connectionRemoved :: "int \<Rightarrow> (string \<Rightarrow> string \<Rightarrow> bool) \<Rightarrow> connection \<Rightarrow> 'a centrald_scheme \<Rightarrow> 'a centrald_scheme" where
  "connectionRemoved now blocks c d =
     (let d1 = bopMaskChanged now blocks (stopChanged now (weatherChanged now (cn_name c) (Some ''connection removed'') d))
      in fold (\<lambda>i d. let d2 = centrald_updateStatusWait blocks None i d in
                case removed_text c of Some t \<Rightarrow> on_conn i (\<lambda>c. snd (sendMsg t c)) d2 | None \<Rightarrow> d2)
           (map cn_id (bl_connections d1)) d1)"

section \<open>The clock\<close>

definition set_event :: "rts2_status \<times> rts2_status \<times> int \<Rightarrow> 'a centrald_scheme \<Rightarrow> 'a centrald_scheme" where
  "set_event e d = d\<lparr>cd_next_event_type := fst (snd e), cd_next_event_time := snd (snd e)\<rparr>"

text \<open>\<open>idle\<close> without the part of the base class; \<open>night\<close> and \<open>dark\<close> are the two calls of \<open>getNight\<close>.\<close>

definition centrald_idle ::
  "(int \<Rightarrow> rts2_status \<times> rts2_status \<times> int) \<Rightarrow> (int \<Rightarrow> int \<times> int) \<Rightarrow> (int \<Rightarrow> int \<times> int) \<Rightarrow> int
    \<Rightarrow> 'a centrald_scheme \<Rightarrow> 'a centrald_scheme"
where
  "centrald_idle event night dark now d =
     (if now < cd_next_event_time d then d
      else
        let e = event now; call_state = fst e; d0 = set_event e d in
        if d_state d0 = call_state then d0
        else
          let d1 = d0\<lparr>cd_nextStateChange := snd (snd e), cd_nextState := fst (snd e)\<rparr>;
              d2 = (if fst (snd e) = SERVERD_DUSK
                    then announce_value ''switched_standby'' (d1\<lparr>cd_switchedStandby := []\<rparr>) else d1);
              onoff = d_state d2 AND SERVERD_ONOFF_MASK;
              d3 = (if d_state d2 AND SERVERD_STATUS_MASK = SERVERD_MORNING \<and> call_state AND SERVERD_STATUS_MASK = SERVERD_DAY
                    then
                      if cd_morning_off d2 then
                        maskCentralState now SERVERD_ONOFF_MASK SERVERD_HARD_OFF (Some ''switched off on day by idle routine'') d2
                      else if cd_morning_standby d2 \<and> \<not> (onoff = SERVERD_HARD_OFF \<or> onoff = SERVERD_SOFT_OFF) then
                        maskCentralState now SERVERD_ONOFF_MASK SERVERD_STANDBY (Some ''switched to standby on day by idle routine'') d2
                      else d2
                    else d2);
              d4 = maskCentralState now SERVERD_STATUS_MASK call_state (Some ''by idle routine'') d3;
              d5 = d4\<lparr>cd_night := night now, cd_dark := dark now\<rparr>
          in snd (infoAll (\<lambda>d. (0, d)) (\<lambda>c. isConnState c CONN_CONNECTED) d5))"

text \<open>\<open>initValues\<close>; \<open>reboot_on\<close> comes from the configuration.\<close>

definition centrald_initValues :: "(int \<Rightarrow> rts2_status \<times> rts2_status \<times> int) \<Rightarrow> bool \<Rightarrow> int \<Rightarrow> 'a centrald_scheme \<Rightarrow> 'a centrald_scheme" where
  "centrald_initValues event reboot_on now d =
     (let e = event now; d0 = set_event e d;
          d1 = maskCentralState now SERVERD_ONOFF_MASK (if reboot_on then 0 else SERVERD_HARD_OFF)
                 (Some ''switched on centrald reboot'') d0
      in d1\<lparr>cd_nextStateChange := snd (snd e), cd_nextState := fst (snd e), cd_next_event_time := 0\<rparr>)"

text \<open>\<open>setValue\<close> of the two horizons, in thousandths of a degree.\<close>

definition centrald_setHorizon :: "bool \<Rightarrow> int \<Rightarrow> int \<Rightarrow> int \<Rightarrow> int" where
  "centrald_setHorizon day nightHorizon dayHorizon new =
     (if day then (if new < nightHorizon then -2 else 0) else (if new > dayHorizon then -2 else 0))"

end
