(* ===== verification/Rts2_CentralConn.thy ===== *)
theory Rts2_CentralConn
  imports Rts2_Centrald
begin

text \<open>
  The commands of a connection to the central server (\<open>ConnCentrald\<close> in
  \<open>src/centrald/centrald.cpp\<close>): login of clients, registration and authorization of devices,
  changes of the state; and the commands every connection knows (\<open>Connection::command\<close> in
  \<open>lib/rts2/connection.cpp\<close>). A command gets its word and the rest of the line. A malformed
  \<open>register\<close> leaves the type and port of the connection as they were.
\<close>

section \<open>Reading the parameters\<close>

text \<open>None is a missing or malformed parameter.\<close>

definition take_int :: "string \<Rightarrow> (int \<Rightarrow> string \<Rightarrow> 'r option) \<Rightarrow> 'r option" where
  "take_int b k = (case paramNextInteger b of (None, r) \<Rightarrow> None | (Some i, r) \<Rightarrow> k i r)"

definition take_str :: "string \<Rightarrow> (string \<Rightarrow> string \<Rightarrow> 'r option) \<Rightarrow> 'r option" where
  "take_str b k = (case paramNextString [] b of (None, r) \<Rightarrow> None | (Some s, r) \<Rightarrow> k s r)"

definition take_end :: "string \<Rightarrow> 'r \<Rightarrow> 'r option" where
  "take_end b x = (if fst (paramEnd b) then Some x else None)"

text \<open>The codes \<open>DEVDEM_E_PARAMSNUM\<close> and 0 with the state, or what the parameters gave.\<close>

definition or_params :: "'d \<Rightarrow> (int \<times> 'd) option \<Rightarrow> int \<times> 'd" where
  "or_params d r = (case r of None \<Rightarrow> (-2, d) | Some x \<Rightarrow> x)"

section \<open>\<open>Connection::command\<close>\<close>

text \<open>
  \<open>add\<close> is \<open>master->addAddress\<close>, \<open>info\<close> is \<open>master->statusInfo\<close>, \<open>progress\<close> handles the times
  of a progress message.
\<close>

definition conn_command ::
  "(int \<Rightarrow> int \<Rightarrow> int \<Rightarrow> string \<Rightarrow> string \<Rightarrow> int \<Rightarrow> int \<Rightarrow> 'a block_scheme \<Rightarrow> 'a block_scheme)
    \<Rightarrow> (nat \<Rightarrow> 'a block_scheme \<Rightarrow> int \<times> 'a block_scheme) \<Rightarrow> (nat \<Rightarrow> string \<Rightarrow> 'a block_scheme \<Rightarrow> int \<times> 'a block_scheme)
    \<Rightarrow> nat \<Rightarrow> string \<Rightarrow> string \<Rightarrow> 'a block_scheme \<Rightarrow> int \<times> 'a block_scheme"
where
  "conn_command add info progress conn w b d =
     (let host_num = (case find_conn conn d of Some c \<Rightarrow> cn_centrald_num c | None \<Rightarrow> -1);
          idle = on_conn conn (\<lambda>c. c\<lparr>cn_commandInProgress := False\<rparr>) in
      if w = ''device'' then
        or_params d (take_int b (\<lambda>num b. take_int b (\<lambda>cid b. take_str b (\<lambda>n b. take_str b (\<lambda>host b. take_int b (\<lambda>port b.
          take_int b (\<lambda>t b. take_end b (-1, idle (add host_num num cid n host port t d)))))))))
      else if w = ''delete_device'' then
        or_params d (take_int b (\<lambda>num b. take_str b (\<lambda>n b. take_end b (-1, deleteAddress num n d))))
      else if w = ''client'' then
        or_params d (take_int b (\<lambda>cid b. take_str b (\<lambda>login b. take_str b (\<lambda>n b. take_end b (-1, idle (addClient cid login n d))))))
      else if w = ''delete_client'' then
        or_params d (take_int b (\<lambda>cid b. take_end b (-1, deleteClient cid d)))
      else if w = ''status_info'' then
        or_params d (take_end b (info conn d))
      else if w = ''P'' then progress conn b d
      else if w = ''V'' then (-1, d)
      else (-4, on_conn conn (sendCommandEnd DEVDEM_E_COMMAND (''unknow command '' @ w)) d))"

section \<open>What the server tells about a connection\<close>

definition connected_text :: "connection \<Rightarrow> central_conn \<Rightarrow> string option" where
  "connected_text c x =
     (case cn_type c of
        CLIENT_SERVER \<Rightarrow> Some (''client '' @ show_int (cn_centrald_id c) @ '' '' @ cc_login x @ '' '' @ cn_name c)
      | DEVICE_SERVER \<Rightarrow> Some (''device '' @ show_int (cn_centrald_num c) @ '' '' @ show_int (cn_centrald_id c) @ '' '' @ cn_name c
          @ '' '' @ cc_hostname x @ '' '' @ show_int (cc_port x) @ '' '' @ show_int (cn_other_type c))
      | _ \<Rightarrow> None)"

definition send_opt :: "string option \<Rightarrow> connection \<Rightarrow> connection" where
  "send_opt t c = (case t of None \<Rightarrow> c | Some m \<Rightarrow> snd (sendMsg m c))"

definition connAdded :: "nat \<Rightarrow> 'a centrald_scheme \<Rightarrow> 'a centrald_scheme" where
  "connAdded i d =
     (case find (\<lambda>c. cn_id c = i) (bl_connections d) of
        None \<Rightarrow> d
      | Some a \<Rightarrow> d\<lparr>bl_connections := map (send_opt (connected_text a (cd_ext d i))) (bl_connections d)\<rparr>)"

definition central_sendInfo :: "nat \<Rightarrow> 'a centrald_scheme \<Rightarrow> 'a centrald_scheme" where
  "central_sendInfo i d =
     on_conn i (\<lambda>c. snd (sendInfo (\<lambda>c. isConnState c CONN_CONNECTED) False d
       (fold (\<lambda>a. send_opt (connected_text a (cd_ext d (cn_id a)))) (bl_connections d) c))) d"

definition sendStatusInfo :: "nat \<Rightarrow> 'a centrald_scheme \<Rightarrow> 'a centrald_scheme" where
  "sendStatusInfo i d = on_conn i (\<lambda>c. snd (sendMsg (''S '' @ show_nat (unat (d_state d))) c)) d"

definition sendAValue :: "string \<Rightarrow> int \<Rightarrow> nat \<Rightarrow> 'a centrald_scheme \<Rightarrow> 'a centrald_scheme" where
  "sendAValue n v i d = on_conn i (\<lambda>c. snd (sendMsg (''A '' @ n @ '' '' @ show_int v) c)) d"

definition central_getConnection :: "int \<Rightarrow> 'a centrald_scheme \<Rightarrow> connection option" where
  "central_getConnection num d = find (\<lambda>c. cn_centrald_id c = num) (bl_connections d)"

section \<open>The commands\<close>

text \<open>\<open>rnd\<close> is the value of \<open>random ()\<close>; a key stays once it is given.\<close>

definition sendDeviceKey :: "int \<Rightarrow> nat \<Rightarrow> string \<Rightarrow> 'a centrald_scheme \<Rightarrow> int \<times> 'a centrald_scheme" where
  "sendDeviceKey rnd i b d =
     or_params d (take_str b (\<lambda>n b. take_end b
       (case findName n d of
          None \<Rightarrow> (-1, end_on i DEVDEM_E_SYSTEM ''cannot find device with name'' d)
        | Some dev \<Rightarrow> (0, on_conn i (\<lambda>c. let c1 = setKey (if rnd = 0 then 1 else rnd) c
             in snd (sendMsg (''authorization_key '' @ n @ '' '' @ show_int (cn_key c1)) c1)) d))))"

definition info_command :: "nat \<Rightarrow> string \<Rightarrow> 'a centrald_scheme \<Rightarrow> int \<times> 'a centrald_scheme" where
  "info_command i b d = or_params d (take_end b (0, central_sendInfo i d))"

text \<open>A device asks whether the client may use it with the key the client showed.\<close>

definition authorize_command :: "nat \<Rightarrow> string \<Rightarrow> 'a centrald_scheme \<Rightarrow> int \<times> 'a centrald_scheme" where
  "authorize_command i b d =
     or_params d (take_int b (\<lambda>client b. take_int b (\<lambda>k b. take_end b
       (if client < 0 then (-2, d)
        else (case central_getConnection client d of
            None \<Rightarrow> (-1, end_on i DEVDEM_E_SYSTEM ''client vanished during auth sequence'' d)
          | Some c \<Rightarrow>
              if cn_key c = 0 then
                (-1, end_on i DEVDEM_E_SYSTEM (''client didn'' @ CHR 0x27 # ''t ask for authorization'') (sendAValue ''authorization_failed'' client i d))
              else if cn_key c \<noteq> k then
                (-1, end_on i DEVDEM_E_SYSTEM ''invalid authorization key'' (sendAValue ''authorization_failed'' client i d))
              else (0, central_sendInfo i (sendAValue ''authorization_ok'' client i d)))))))"

text \<open>The commands that change the state, for devices and clients alike.\<close>

definition state_command :: "int \<Rightarrow> string \<Rightarrow> string \<Rightarrow> 'a centrald_scheme \<Rightarrow> (int \<times> 'a centrald_scheme) option" where
  "state_command now w user d =
     (if w = ''on'' then Some (changeStateOn now user d)
      else if w = ''standby'' then Some (changeStateStandby now user d)
      else if w = ''off'' then Some (changeStateHardOff now user d)
      else if w = ''soft_off'' then Some (changeStateSoftOff now user d)
      else None)"

definition period_command :: "int \<Rightarrow> string \<Rightarrow> 'a centrald_scheme \<Rightarrow> (int \<times> 'a centrald_scheme) option" where
  "period_command now w d =
     (if w = ''day'' then Some (changeStatePeriod now SERVERD_DAY d)
      else if w = ''evening'' then Some (changeStatePeriod now SERVERD_EVENING d)
      else if w = ''dusk'' then Some (changeStatePeriod now SERVERD_DUSK d)
      else if w = ''night'' then Some (changeStatePeriod now SERVERD_NIGHT d)
      else if w = ''dawn'' then Some (changeStatePeriod now SERVERD_DAWN d)
      else if w = ''morning'' then Some (changeStatePeriod now SERVERD_MORNING d)
      else None)"

definition roof_result :: "int \<times> 'd \<Rightarrow> int \<times> 'd" where
  "roof_result r = (if fst r \<noteq> 0 then DEVDEM_E_PARAMSVAL else DEVDEM_OK, snd r)"

definition roof_request :: "int \<Rightarrow> string \<Rightarrow> string \<Rightarrow> 'a centrald_scheme \<Rightarrow> (int \<times> 'a centrald_scheme) option" where
  "roof_request now w b d =
     (if w = ''open'' then Some (or_params d (take_end b (roof_result (startOpen now d))))
      else if w = ''close'' then Some (or_params d (take_end b (roof_result (startClose now d))))
      else None)"

type_synonym 'd base_command = "nat \<Rightarrow> string \<Rightarrow> string \<Rightarrow> 'd \<Rightarrow> int \<times> 'd"

definition commandDevice :: "int \<Rightarrow> int \<Rightarrow> 'a centrald_scheme base_command \<Rightarrow> 'a centrald_scheme base_command" where
  "commandDevice now rnd base i w b d =
     (if w = ''authorize'' then authorize_command i b d
      else if w = ''key'' then sendDeviceKey rnd i b d
      else if w = ''info'' then info_command i b d
      else case state_command now w (case find_conn i d of Some c \<Rightarrow> cn_name c | None \<Rightarrow> '''') d of
          Some r \<Rightarrow> r
        | None \<Rightarrow> if w = ''weather_update'' then weatherUpdate b d else base i w b d)"

definition password_command :: "nat \<Rightarrow> string \<Rightarrow> 'a centrald_scheme \<Rightarrow> int \<times> 'a centrald_scheme" where
  "password_command i b d =
     or_params d (take_str b (\<lambda>pw b. take_end b
       (if cc_login (cd_ext d i) = pw then
          (0, sendStatusInfo i (on_conn i (\<lambda>c. snd (sendMsg (''logged_as '' @ show_int (cn_centrald_id c)) c))
               (upd_ext i (\<lambda>x. x\<lparr>cc_authorized := 1\<rparr>) d)))
        else (-1, end_on i DEVDEM_E_SYSTEM ''invalid login or password'' d))))"

definition commandClient :: "int \<Rightarrow> int \<Rightarrow> 'a centrald_scheme base_command \<Rightarrow> 'a centrald_scheme base_command" where
  "commandClient now rnd base i w b d =
     (if w = ''password'' then password_command i b d
      else if cc_authorized (cd_ext d i) = 0 then base i w b d
      else if w = ''info'' then info_command i b d
      else if w = ''key'' then sendDeviceKey rnd i b d
      else case state_command now w (cc_login (cd_ext d i)) d of
          Some r \<Rightarrow> r
        | None \<Rightarrow> (case period_command now w d of
              Some r \<Rightarrow> r
            | None \<Rightarrow> (case roof_request now w b d of Some r \<Rightarrow> r | None \<Rightarrow> base i w b d)))"

definition login_command :: "nat \<Rightarrow> string \<Rightarrow> 'a centrald_scheme \<Rightarrow> int \<times> 'a centrald_scheme" where
  "login_command i b d =
     or_params d (take_str b (\<lambda>login b. take_str b (\<lambda>n b. take_end b
       (0, connAdded i (on_conn i (\<lambda>c. (setName (cn_centrald_id c) n c)\<lparr>cn_type := CLIENT_SERVER\<rparr>)
              (upd_ext i (\<lambda>x. x\<lparr>cc_login := login\<rparr>) d))))))"

definition register_command :: "nat \<Rightarrow> string \<Rightarrow> 'a centrald_scheme \<Rightarrow> int \<times> 'a centrald_scheme" where
  "register_command i b d =
     or_params d (take_int b (\<lambda>num b. take_str b (\<lambda>n b. take_int b (\<lambda>t b. take_str b (\<lambda>host b. take_int b (\<lambda>port b. take_end b
       (let d0 = upd_ext i (\<lambda>x. x\<lparr>cc_port := port\<rparr>) (on_conn i (\<lambda>c. c\<lparr>cn_other_type := t\<rparr>) d) in
        case findName n d of
          Some c \<Rightarrow> (-1, end_on i DEVDEM_E_SYSTEM
                      (''name '' @ n @ '' already registered with id '' @ show_int (cn_centrald_id c)) d0)
        | None \<Rightarrow>
            let d1 = upd_ext i (\<lambda>x. x\<lparr>cc_hostname := host\<rparr>)
                       (on_conn i (\<lambda>c. (setName num n c)\<lparr>cn_type := DEVICE_SERVER\<rparr>) d0);
                cid = (case find_conn i d of Some c \<Rightarrow> cn_centrald_id c | None \<Rightarrow> -1)
            in (0, central_sendInfo i (connAdded i (sendAValue ''registered_as'' cid i (sendStatusInfo i d1)))))))))))"

definition central_command :: "int \<Rightarrow> int \<Rightarrow> 'a centrald_scheme base_command \<Rightarrow> 'a centrald_scheme base_command" where
  "central_command now rnd base i w b d =
     (let t = (case find_conn i d of Some c \<Rightarrow> cn_type c | None \<Rightarrow> NOT_DEFINED_SERVER) in
      if w = ''login'' then
        if t = NOT_DEFINED_SERVER then login_command i b d
        else (-1, end_on i DEVDEM_E_COMMAND ''cannot switch server type to CLIENT_SERVER'' d)
      else if w = ''register'' then
        if t = NOT_DEFINED_SERVER then register_command i b d
        else (-1, end_on i DEVDEM_E_COMMAND ''cannot switch server type to DEVICE_SERVER'' d)
      else if w = ''message_mask'' then
        or_params d (take_int b (\<lambda>m b. take_end b (0, upd_ext i (\<lambda>x. x\<lparr>cc_messageMask := m\<rparr>) d)))
      else if t = DEVICE_SERVER then commandDevice now rnd base i w b d
      else if t = CLIENT_SERVER then commandClient now rnd base i w b d
      else base i w b d)"

text \<open>The base commands of this server: nobody connects to it by address.\<close>

definition central_base :: "(string \<Rightarrow> string \<Rightarrow> bool) \<Rightarrow> 'a centrald_scheme base_command" where
  "central_base blocks = conn_command (addAddress (\<lambda>a c. c) (\<lambda>a b. False) (\<lambda>a. None))
     (\<lambda>i d. case find_conn i d of Some c \<Rightarrow> centrald_statusInfo blocks c d | None \<Rightarrow> (0, d))
     (\<lambda>i b d. (-1, d))"

text \<open>\<open>createConnection\<close>; the constructor leaves \<open>authorized\<close> as the memory is (\<open>junk\<close>).\<close>

definition central_createConnection :: "int \<Rightarrow> int \<Rightarrow> nat \<Rightarrow> 'a centrald_scheme \<Rightarrow> connection \<times> 'a centrald_scheme" where
  "central_createConnection junk now i d =
     (let num = cd_connNum d + 1 in
      ((new_Connection i now)\<lparr>cn_centrald_id := num\<rparr>,
       (d\<lparr>cd_connNum := num, cd_ext := (cd_ext d)(i := \<lparr>cc_authorized = junk, cc_login = '''', cc_hostname = '''', cc_port = 0,
           cc_statusCommandRunning = 0, cc_messageMask = 0\<rparr>)\<rparr>)))"

end
