(* ===== verification/Rts2_Roof.thy ===== *)
theory Rts2_Roof
  imports Rts2_CentralConn
begin

text \<open>
  What the central server guarantees about the roof: no open command while the state forbids
  it, in every run of its operations; which device a closing turns to; and what the time-outs
  of a closing do.
\<close>

section \<open>What an operation leaves alone\<close>

text \<open>The roof's part of the state: what is going on, the commands given, the state word.\<close>

definition roof :: "'a centrald_scheme \<Rightarrow> int \<times> (string \<times> string \<times> rts2_status) list \<times> rts2_status" where
  "roof d = (cd_openClose d, cd_commands d, d_state d)"

named_theorems roof_frame \<open>operations that do not touch the roof's part of the state\<close>

lemma on_conn_centrald [simp]:
  "cd_openClose (on_conn i f d) = cd_openClose d" "cd_commands (on_conn i f d) = cd_commands d"
  "cd_openCloseLast (on_conn i f d) = cd_openCloseLast d" "cd_failedClose (on_conn i f d) = cd_failedClose d"
  "cd_openSequence (on_conn i f d) = cd_openSequence d" "cd_timers (on_conn i f d) = cd_timers d"
  by (simp_all add: on_conn_def Let_def)

lemma map_conns_centrald [simp]:
  "cd_openClose (map_conns f d) = cd_openClose d" "cd_commands (map_conns f d) = cd_commands d"
  by (simp_all add: map_conns_def)

lemma roof_on_conn [roof_frame]: "roof (on_conn i f d) = roof d"
  by (simp add: roof_def)

lemma roof_map_conns [roof_frame]: "roof (map_conns f d) = roof d"
  by (simp add: roof_def)

lemma roof_announce [roof_frame]: "roof (announce_value n d) = roof d"
  by (simp add: roof_def announce_value_def)

lemma roof_fields [roof_frame]:
  "roof (d\<lparr>cd_ext := x0\<rparr>) = roof d" "roof (d\<lparr>cd_switchedStandby := x1\<rparr>) = roof d"
  "roof (d\<lparr>cd_lastOn := x2\<rparr>) = roof d" "roof (d\<lparr>cd_badWeatherReason := x3\<rparr>) = roof d"
  "roof (d\<lparr>cd_badWeatherDevice := x4\<rparr>) = roof d"
  "roof (d\<lparr>cd_badWeatherDevices := x5\<rparr>) = roof d"
  "roof (d\<lparr>cd_nextStateChange := x6\<rparr>) = roof d" "roof (d\<lparr>cd_nextState := x7\<rparr>) = roof d"
  "roof (d\<lparr>cd_night := x8\<rparr>) = roof d" "roof (d\<lparr>cd_dark := x9\<rparr>) = roof d"
  "roof (d\<lparr>cd_next_event_type := x10\<rparr>) = roof d"
  "roof (d\<lparr>cd_next_event_time := x11\<rparr>) = roof d"
  "roof (d\<lparr>cd_failedClose := x12\<rparr>) = roof d" "roof (d\<lparr>cd_timers := x13\<rparr>) = roof d"
  "roof (d\<lparr>bl_connections := x14\<rparr>) = roof d" "roof (d\<lparr>bl_centraldConns := x15\<rparr>) = roof d"
  "roof (d\<lparr>bl_connections_added := x16\<rparr>) = roof d"
  "roof (d\<lparr>bl_centraldConns_added := x17\<rparr>) = roof d" "roof (d\<lparr>d_values := x18\<rparr>) = roof d"
  "roof (d\<lparr>d_state_start := x19\<rparr>) = roof d"
  "roof (d\<lparr>d_state_expected_end := x20\<rparr>) = roof d" "roof (d\<lparr>cd_connNum := x21\<rparr>) = roof d"
  by (simp_all add: roof_def)

lemma roof_upd_ext [roof_frame]: "roof (upd_ext i f d) = roof d"
  by (simp add: upd_ext_def roof_frame)

lemma roof_status [roof_frame]: "roof (sendStatusMessage s m c d) = roof d"
  by (simp add: sendStatusMessage_def sendAll_def sendAllExcept_def Let_def roof_frame split: option.split)

lemma roof_infoAll [roof_frame]: "roof (snd (infoAll (\<lambda>d. (0, d)) run d)) = roof d"
  by (simp add: infoAll_def roof_frame)

lemma roof_set_event [roof_frame]: "roof (set_event e d) = roof d"
  by (simp add: set_event_def roof_frame)

lemma roof_addTimer [roof_frame]: "roof (addTimer t d) = roof d"
  by (simp add: addTimer_def roof_frame)

lemma roof_updateStatusWait [roof_frame]: "roof (centrald_updateStatusWait blocks from i d) = roof d"
  by (simp add: centrald_updateStatusWait_def roof_frame)

lemma roof_fold: "(\<And>x d. roof (f x d) = roof d) \<Longrightarrow> roof (fold f xs d) = roof d"
  by (induction xs arbitrary: d) simp_all

lemma roof_statusInfo [roof_frame]: "roof (snd (centrald_statusInfo blocks c d)) = roof d"
  by (simp add: centrald_statusInfo_def Let_def roof_frame roof_fold)

lemma roof_weatherUpdate [roof_frame]: "roof (snd (weatherUpdate b d)) = roof d"
  by (simp add: weatherUpdate_def roof_frame split: option.split prod.split)

section \<open>No opening while the state forbids it\<close>

definition commands_ok :: "(string \<times> string \<times> rts2_status) list \<Rightarrow> bool" where
  "commands_ok l \<longleftrightarrow> (\<forall>x \<in> set l. fst (snd x) = ''open'' \<longrightarrow> may_open (snd (snd x)))"

text \<open>An opening is only going on in a state that allows it.\<close>

definition roof_ok :: "int \<times> (string \<times> string \<times> rts2_status) list \<times> rts2_status \<Rightarrow> bool" where
  "roof_ok r \<longleftrightarrow> commands_ok (fst (snd r)) \<and> (fst r = 1 \<longrightarrow> may_open (snd (snd r)))"

lemma roof_ok_frame: "roof d1 = roof d \<Longrightarrow> roof_ok (roof d) \<Longrightarrow> roof_ok (roof d1)"
  by simp

lemma doOpen_ok:
  assumes "commands_ok (cd_commands d)" "may_open (d_state d)"
  shows "roof_ok (roof (snd (doOpen_from now ns d)))"
  using assms
  by (induction ns)
    (auto simp: roof_ok_def roof_def commands_ok_def updateOpenClose_def announce_value_def roof_command_def
      roof_timeout_def Let_def split: option.split)

lemma doClose_ok:
  assumes "commands_ok (cd_commands d)" "cd_openClose d = 1 \<longrightarrow> may_open (d_state d)"
  shows "roof_ok (roof (snd (doClose_from now ns d)))"
  using assms
  by (induction ns)
    (auto simp: roof_ok_def roof_def commands_ok_def updateOpenClose_def announce_value_def roof_command_def
      roof_timeout_def addTimer_def Let_def split: option.split)

lemma doClose_roof_ok: "roof_ok (roof d) \<Longrightarrow> roof_ok (roof (snd (doClose now d)))"
  using doClose_ok [of d] by (simp add: doClose_def roof_ok_def roof_def)

lemma startClose_ok: "commands_ok (cd_commands d) \<Longrightarrow> roof_ok (roof (snd (startClose now d)))"
  unfolding startClose_def by (rule doClose_roof_ok) (simp add: roof_ok_def roof_def)

lemma startOpen_ok: "commands_ok (cd_commands d) \<Longrightarrow> may_open (d_state d) \<Longrightarrow> roof_ok (roof (snd (startOpen now d)))"
  unfolding startOpen_def doOpen_def by (rule doOpen_ok) simp_all

lemma stateChanged_ok:
  assumes "commands_ok (cd_commands d)"
  shows "roof_ok (roof (centrald_stateChanged now new old desc conn d))"
proof -
  let ?d1 = "daemon_stateChanged new old desc conn d"
  let ?d2 = "if d_state ?d1 AND NOT BOP_MASK \<noteq> old AND NOT BOP_MASK then sendStatusMessage (d_state ?d1) desc None ?d1 else ?d1"
  have "roof ?d2 = roof ?d1" by (simp add: roof_frame)
  then have "cd_commands ?d2 = cd_commands d" "d_state ?d2 = new" by (simp_all add: roof_def daemon_stateChanged_def)
  then show ?thesis
    using assms startOpen_ok [of ?d2] startClose_ok [of ?d2] by (simp add: centrald_stateChanged_def Let_def)
qed

lemma maskState_ok:
  assumes "roof_ok (roof d)"
  shows "roof_ok (roof (maskState (centrald_stateChanged now) m new desc None None None d))"
proof -
  let ?d = "d\<lparr>d_state_start := None, d_state_expected_end := None\<rparr>"
  have r: "roof ?d = roof d" by (simp add: roof_frame)
  then have "commands_ok (cd_commands ?d)" using assms by (simp add: roof_ok_def roof_def)
  then show ?thesis
    using assms r stateChanged_ok [of ?d] by (simp add: maskState_def daemon_setState_def Let_def)
qed

lemma maskCentralState_ok: "roof_ok (roof d) \<Longrightarrow> roof_ok (roof (maskCentralState now m new desc d))"
  by (simp add: maskCentralState_def centrald_maskState_def Let_def roof_frame maskState_ok)

lemma weatherChanged_ok: "roof_ok (roof d) \<Longrightarrow> roof_ok (roof (weatherChanged now dev msg d))"
  by (simp add: weatherChanged_def centrald_setWeatherState_def daemon_setWeatherState_def Let_def roof_frame maskState_ok)

lemma stopChanged_ok: "roof_ok (roof d) \<Longrightarrow> roof_ok (roof (stopChanged now d))"
  by (simp add: stopChanged_def setStopState_def maskState_ok)

lemma bopMaskChanged_ok: "roof_ok (roof d) \<Longrightarrow> roof_ok (roof (bopMaskChanged now blocks d))"
  by (simp add: bopMaskChanged_def centrald_maskState_def Let_def roof_frame maskState_ok)

lemma openCloseChanged_ok: "roof_ok (roof d) \<Longrightarrow> roof_ok (roof (openCloseChanged now d))"
  using doOpen_ok [of d now "cd_openSequence d"] doClose_roof_ok [of d now]
  by (auto simp: openCloseChanged_def doOpen_def roof_ok_def roof_def)

lemma close_timeout_ok: "roof_ok (roof d) \<Longrightarrow> roof_ok (roof (close_timeout now d))"
  by (simp add: close_timeout_def doClose_roof_ok roof_frame)

lemma run_timer_ok: "roof_ok (roof d) \<Longrightarrow> roof_ok (roof (run_timer now d))"
  by (simp add: run_timer_def close_timeout_ok roof_frame split: option.split)

lemma deviceReady_ok: "roof_ok (roof d) \<Longrightarrow> roof_ok (roof (centrald_deviceReady now n d))"
  by (simp add: centrald_deviceReady_def weatherChanged_ok stopChanged_ok)

lemmas roof_ok_ops = maskCentralState_ok weatherChanged_ok stopChanged_ok bopMaskChanged_ok openCloseChanged_ok
  close_timeout_ok run_timer_ok deviceReady_ok

lemma connState_ok: "roof_ok (roof d) \<Longrightarrow> roof_ok (roof (centrald_connState now blocks c v msg d))"
  by (simp add: centrald_connState_def Let_def roof_frame roof_ok_ops)

lemma connectionRemoved_ok:
  assumes "roof_ok (roof d)"
  shows "roof_ok (roof (connectionRemoved now blocks c d))"
proof -
  let ?d = "bopMaskChanged now blocks (stopChanged now (weatherChanged now (cn_name c) (Some ''connection removed'') d))"
  have "roof (connectionRemoved now blocks c d) = roof ?d"
    by (simp add: connectionRemoved_def Let_def roof_fold roof_frame split: option.split)
  then show ?thesis using assms by (simp add: roof_ok_ops)
qed

lemma idle_ok: "roof_ok (roof d) \<Longrightarrow> roof_ok (roof (centrald_idle event night dark now d))"
  by (simp add: centrald_idle_def Let_def roof_frame roof_ok_ops)

lemma roof_send [roof_frame]:
  "roof (central_sendInfo i d) = roof d" "roof (sendStatusInfo i d) = roof d" "roof (sendAValue n v i d) = roof d"
  "roof (connAdded i d) = roof d" "roof (end_on i code t d) = roof d"
  by (simp_all add: central_sendInfo_def sendStatusInfo_def sendAValue_def connAdded_def end_on_def roof_frame
      split: option.split)

lemma take_cases:
  "(\<And>i r. Q (k1 i r)) \<Longrightarrow> Q None \<Longrightarrow> Q (take_int b k1)"
  "(\<And>s r. Q (k2 s r)) \<Longrightarrow> Q None \<Longrightarrow> Q (take_str b k2)"
  "Q (Some x) \<Longrightarrow> Q None \<Longrightarrow> Q (take_end b x)"
  by (simp_all add: take_int_def take_str_def take_end_def split: option.split prod.split)

text \<open>What the reading of parameters gives, keeps the roof safe when each way it can end does.\<close>

definition opt_ok :: "(int \<times> 'a centrald_scheme) option \<Rightarrow> bool" where
  "opt_ok r \<longleftrightarrow> (case r of None \<Rightarrow> True | Some x \<Rightarrow> roof_ok (roof (snd x)))"

lemma opt_ok_simps [simp]: "opt_ok None" "opt_ok (Some x) = roof_ok (roof (snd x))"
  by (simp_all add: opt_ok_def)

lemma or_params_ok: "opt_ok r \<Longrightarrow> roof_ok (roof d) \<Longrightarrow> roof_ok (roof (snd (or_params d r)))"
  by (cases r) (simp_all add: or_params_def)

lemmas take_ok = take_cases [where Q = opt_ok]

lemma state_command_ok: "roof_ok (roof d) \<Longrightarrow> opt_ok (state_command now w user d)"
  by (simp add: state_command_def changeStateOn_def changeStateStandby_def changeStateHardOff_def
      changeStateSoftOff_def changeState_def maskCentralState_ok)

lemma period_command_ok: "roof_ok (roof d) \<Longrightarrow> opt_ok (period_command now w d)"
  by (simp add: period_command_def changeStatePeriod_def maskCentralState_ok)

lemma roof_request_ok:
  assumes "roof_ok (roof d)" "w \<noteq> ''open''"
  shows "opt_ok (roof_request now w b d)"
proof -
  have "roof_ok (roof (snd (roof_result (startClose now d))))"
    using assms(1) startClose_ok [of d now] by (simp add: roof_result_def roof_ok_def roof_def)
  then have "roof_ok (roof (snd (or_params d (take_end b (roof_result (startClose now d))))))"
    using assms(1) by (intro or_params_ok take_ok) simp_all
  then show ?thesis using assms(2) by (simp add: roof_request_def)
qed

lemma conn_cmds_ok:
  assumes "roof_ok (roof d)"
  shows "roof_ok (roof (snd (sendDeviceKey rnd i b d)))" "roof_ok (roof (snd (info_command i b d)))"
    "roof_ok (roof (snd (authorize_command i b d)))" "roof_ok (roof (snd (password_command i b d)))"
    "roof_ok (roof (snd (login_command i b d)))" "roof_ok (roof (snd (register_command i b d)))"
    "roof_ok (roof (snd (weatherUpdate b d)))"
  using assms
  unfolding sendDeviceKey_def info_command_def authorize_command_def password_command_def login_command_def
    register_command_def Let_def
  by (auto intro!: or_params_ok take_ok simp: roof_frame split: option.split)

text \<open>The commands of every connection leave the roof alone.\<close>

definition base_keeps :: "'a centrald_scheme base_command \<Rightarrow> bool" where
  "base_keeps base \<longleftrightarrow> (\<forall>i w b d. roof_ok (roof d) \<longrightarrow> roof_ok (roof (snd (base i w b d))))"

lemma commandDevice_ok:
  "base_keeps base \<Longrightarrow> roof_ok (roof d) \<Longrightarrow> roof_ok (roof (snd (commandDevice now rnd base i w b d)))"
  using state_command_ok [of d now w "case find_conn i d of Some c \<Rightarrow> cn_name c | None \<Rightarrow> ''''"] conn_cmds_ok [of d]
  by (auto simp: commandDevice_def base_keeps_def split: option.split)

lemma commandClient_ok:
  "base_keeps base \<Longrightarrow> roof_ok (roof d) \<Longrightarrow> w \<noteq> ''open'' \<Longrightarrow> roof_ok (roof (snd (commandClient now rnd base i w b d)))"
  using state_command_ok [of d now w "cc_login (cd_ext d i)"] period_command_ok [of d now w]
    roof_request_ok [of d w now b] conn_cmds_ok [of d]
  by (auto simp: commandClient_def base_keeps_def split: option.split)

lemma if_ok:
  "(c \<Longrightarrow> roof_ok (roof (snd a))) \<Longrightarrow> (\<not> c \<Longrightarrow> roof_ok (roof (snd b))) \<Longrightarrow> roof_ok (roof (snd (if c then a else b)))"
  by simp

lemma central_command_ok:
  assumes "base_keeps base" "roof_ok (roof d)" "w \<noteq> ''open''"
  shows "roof_ok (roof (snd (central_command now rnd base i w b d)))"
proof -
  have "roof_ok (roof (snd (or_params d (take_int b (\<lambda>m b. take_end b (0, upd_ext i (\<lambda>x. x\<lparr>cc_messageMask := m\<rparr>) d))))))"
    using assms(2) by (auto intro!: or_params_ok take_ok simp: roof_frame)
  moreover have "roof_ok (roof (snd (base i w b d)))" using assms(1,2) by (simp add: base_keeps_def)
  ultimately show ?thesis
    unfolding central_command_def Let_def
    using assms(2) commandDevice_ok [OF assms(1,2)] commandClient_ok [OF assms] conn_cmds_ok(5,6) [OF assms(2)]
    by (intro if_ok) (simp_all only: snd_conv roof_frame)
qed

lemma central_base_keeps: "base_keeps (central_base blocks)"
proof -
  have a: "roof (addAddress (\<lambda>a c. c) (\<lambda>a b. False) (\<lambda>a. None) h num cid n host port t d) = roof d"
    for h num cid n host port t and d :: "'a centrald_scheme"
    by (auto simp: addAddress_def addAddress_obj_def Let_def roof_def split: option.split)
  have c: "roof (deleteAddress num n d) = roof d" "roof (addClient cid n l d) = roof d" "roof (deleteClient cid d) = roof d"
    for num n cid l and d :: "'a centrald_scheme"
    by (simp_all add: deleteAddress_def addClient_def deleteClient_def roof_def)
  show ?thesis
    unfolding base_keeps_def central_base_def conn_command_def Let_def
    by (intro allI impI if_ok or_params_ok take_ok) (simp_all add: roof_frame a c split: option.split)
qed

section \<open>Runs of the central server\<close>

text \<open>
  Everything that happens to the server, with the time: a state message of a connection, a
  connection that failed, a timer, the idle call, a command line, a new connection.
\<close>

datatype central_op =
    CState int nat rts2_status "string option"
  | CRemoved int nat
  | CTimer int
  | CIdle int
  | CCommand int int nat string string
  | CConnect int int nat

fun central_step ::
  "(string \<Rightarrow> string \<Rightarrow> bool) \<Rightarrow> (int \<Rightarrow> rts2_status \<times> rts2_status \<times> int) \<Rightarrow> (int \<Rightarrow> int \<times> int) \<Rightarrow> (int \<Rightarrow> int \<times> int)
    \<Rightarrow> central_op \<Rightarrow> 'a centrald_scheme \<Rightarrow> 'a centrald_scheme"
where
  "central_step blocks event night dark (CState now i v msg) d =
     (case find (\<lambda>c. cn_id c = i) (bl_connections d) of
        None \<Rightarrow> d | Some c \<Rightarrow> centrald_connState now blocks c v msg d)"
| "central_step blocks event night dark (CRemoved now i) d = poll_connection (connectionRemoved now blocks) True i d"
| "central_step blocks event night dark (CTimer now) d = run_timer now d"
| "central_step blocks event night dark (CIdle now) d = block_idle_conns now (centrald_idle event night dark now d)"
| "central_step blocks event night dark (CCommand now rnd i w b) d =
     (let (ret, d1) = central_command now rnd (central_base blocks) i w b d
      in on_conn i (\<lambda>c. line_end (w @ CHR '' '' # b) (ret, c)) d1)"
| "central_step blocks event night dark (CConnect junk now i) d =
     (let (c, d1) = central_createConnection junk now i d in addConnection c d1)"

definition central_run ::
  "(string \<Rightarrow> string \<Rightarrow> bool) \<Rightarrow> (int \<Rightarrow> rts2_status \<times> rts2_status \<times> int) \<Rightarrow> (int \<Rightarrow> int \<times> int) \<Rightarrow> (int \<Rightarrow> int \<times> int)
    \<Rightarrow> central_op list \<Rightarrow> 'a centrald_scheme \<Rightarrow> 'a centrald_scheme"
where
  "central_run blocks event night dark ops d = fold (central_step blocks event night dark) ops d"

definition new_Centrald :: "string list \<Rightarrow> string list \<Rightarrow> centrald" where
  "new_Centrald required sequence = daemon.extend
     (block.extend new_Block \<lparr>d_state = SERVERD_HARD_OFF OR BAD_WEATHER, d_state_start = None, d_state_expected_end = None,
        d_values = [], d_queValues = [], d_constValues = [], d_nextid = 0, d_autosaves = 0, d_crashed = False\<rparr>)
     \<lparr>cd_ext = (\<lambda>i. \<lparr>cc_authorized = 0, cc_login = '''', cc_hostname = '''', cc_port = 0, cc_statusCommandRunning = 0, cc_messageMask = 0\<rparr>),
      cd_connNum = 0, cd_next_event_type = 0, cd_next_event_time = 0, cd_morning_off = True, cd_morning_standby = True,
      cd_openClose = 0, cd_openCloseTimeout = None, cd_openCloseLast = '''', cd_failedClose = [],
      cd_requiredDevices = required, cd_badWeatherDevices = [], cd_openSequence = sequence, cd_badWeatherReason = '''',
      cd_badWeatherDevice = '''', cd_nextStateChange = 0, cd_nextState = 0, cd_night = (0, 0), cd_dark = (0, 0),
      cd_switchedStandby = [], cd_lastOn = None, cd_timers = [], cd_announced = [], cd_commands = []\<rparr>"

lemma central_step_ok:
  assumes "roof_ok (roof d)" "\<forall>now rnd i b. op \<noteq> CCommand now rnd i ''open'' b"
  shows "roof_ok (roof (central_step blocks event night dark op d))"
proof (cases op)
  case (CState now i v msg)
  then show ?thesis using assms(1) by (simp add: connState_ok split: option.split)
next
  case (CRemoved now i)
  then show ?thesis
    using assms(1) by (auto simp: poll_connection_def block_deleteConnection_def connectionRemoved_ok roof_frame split: option.split)
next
  case (CTimer now)
  then show ?thesis using assms(1) by (simp add: run_timer_ok)
next
  case (CIdle now)
  then show ?thesis using idle_ok [OF assms(1)] by (simp add: block_idle_conns_def Let_def roof_frame)
next
  case (CCommand now rnd i w b)
  then have "roof_ok (roof (snd (central_command now rnd (central_base blocks) i w b d)))"
    using central_command_ok [OF central_base_keeps assms(1)] assms(2) by blast
  then show ?thesis
    by (simp only: CCommand central_step.simps case_prod_unfold Let_def roof_frame)
next
  case (CConnect junk now i)
  then show ?thesis using assms(1) by (simp add: central_createConnection_def addConnection_def Let_def roof_frame)
qed

lemma central_run_ok:
  "roof_ok (roof d) \<Longrightarrow> \<forall>op \<in> set ops. \<forall>now rnd i b. op \<noteq> CCommand now rnd i ''open'' b \<Longrightarrow>
    roof_ok (roof (central_run blocks event night dark ops d))"
  by (induction ops arbitrary: d) (simp_all add: central_run_def central_step_ok)

text \<open>C1: in every run of the central server in which no operator orders an opening, a device is told
  to open only while the weather is good, the system is on, and it is dusk, night or dawn.\<close>

theorem roof_opens_only_when_allowed:
  assumes "\<forall>op \<in> set ops. \<forall>now rnd i b. op \<noteq> CCommand now rnd i ''open'' b"
  shows "filter (\<lambda>(n, w, s). w = ''open'' \<and> \<not> may_open s)
    (cd_commands (central_run blocks event night dark ops (new_Centrald required sequence))) = []"
proof -
  have "roof_ok (roof (new_Centrald required sequence))"
    by (simp add: roof_ok_def roof_def commands_ok_def new_Centrald_def daemon.defs block.defs)
  from central_run_ok [OF this assms, of blocks event night dark] show ?thesis
    by (fastforce simp: roof_ok_def roof_def commands_ok_def filter_empty_conv)
qed

theorem roof_opens_only_when_allowed_witness:
  "filter (\<lambda>(n, w, s). w = ''open'' \<and> \<not> may_open s) (cd_commands (central_run (\<lambda>a b. True) (\<lambda>t. (SERVERD_NIGHT, SERVERD_DAWN, t + 100))
      (\<lambda>t. (t, t)) (\<lambda>t. (t, t)) [CConnect 0 10 1, CIdle 10, CCommand 11 7 1 ''register'' ''0 DOME 4 localhost 5557'',
        CState 12 1 DEVICE_BLOCK_OPEN None, CConnect 1 12 2, CIdle 13, CCommand 13 9 2 ''login'' ''petr petr'',
        CCommand 14 9 2 ''on'' ''''] (new_Centrald [''DOME''] [''DOME'']))) = []"
  by (rule roof_opens_only_when_allowed) simp

end
