(* ===== verification/Rts2_Closing.thy ===== *)
theory Rts2_Closing
  imports Rts2_Roof
begin

text \<open>
  How the central server closes the roof: which device it turns to, that unanswered commands
  end by their timers, and what happens when an opening is interrupted.
\<close>

section \<open>Which device is closed next\<close>

definition closable :: "'a centrald_scheme \<Rightarrow> string \<Rightarrow> bool" where
  "closable d n \<longleftrightarrow> (case getOpenConnection n d of
       None \<Rightarrow> False
     | Some c \<Rightarrow> n \<notin> set (cd_failedClose d) \<and> Rts2_Connection.getState c AND DEVICE_BLOCK_CLOSE \<noteq> 0)"

definition next_closed :: "'a centrald_scheme \<Rightarrow> string option" where
  "next_closed d = find (closable d) (rev (cd_openSequence d))"

text \<open>The device the closing commands get, and the rest of the state.\<close>

definition close_one :: "int \<Rightarrow> string \<Rightarrow> 'a centrald_scheme \<Rightarrow> 'a centrald_scheme" where
  "close_one now n d =
     (case getOpenConnection n d of
        None \<Rightarrow> d
      | Some c \<Rightarrow>
          (let d1 = roof_command ''close'' c d
           in if n \<noteq> cd_openCloseLast d then addTimer (now + 180) (roof_timeout now n d1) else d1))"

definition close_end :: "'a centrald_scheme \<Rightarrow> 'a centrald_scheme" where
  "close_end d = announce_value ''close_failed'' ((updateOpenClose True d)\<lparr>cd_failedClose := []\<rparr>)"

lemma getOpenConnection_name: "getOpenConnection n d = Some c \<Longrightarrow> cn_name c = n"
  by (auto simp: getOpenConnection_def find_Some_iff)

lemma doClose_from_find:
  "doClose_from now ns d = (case find (closable d) ns of None \<Rightarrow> (-1, close_end d) | Some n \<Rightarrow> (0, close_one now n d))"
proof (induction ns)
  case Nil
  then show ?case by (simp add: close_end_def)
next
  case (Cons n ns)
  show ?case
  proof (cases "closable d n")
    case True
    then obtain c where c: "getOpenConnection n d = Some c" by (auto simp: closable_def split: option.splits)
    with True show ?thesis
      using getOpenConnection_name [OF c] by (simp add: closable_def close_one_def c Let_def)
  next
    case False
    then show ?thesis using Cons by (auto simp: closable_def split: option.splits)
  qed
qed

lemma doClose_find:
  "cd_openSequence d \<noteq> [] \<Longrightarrow>
    doClose now d = (case next_closed d of None \<Rightarrow> (-1, close_end d) | Some n \<Rightarrow> (0, close_one now n d))"
  by (simp add: doClose_def doClose_from_find next_closed_def)

lemma close_end_fields [simp]:
  "cd_openClose (close_end d) = 0" "cd_failedClose (close_end d) = []" "cd_commands (close_end d) = cd_commands d"
  "cd_openCloseLast (close_end d) = []" "cd_openSequence (close_end d) = cd_openSequence d"
  by (simp_all add: close_end_def updateOpenClose_def announce_value_def)

lemma close_one_fields [simp]:
  "cd_openClose (close_one now n d) = cd_openClose d" "cd_failedClose (close_one now n d) = cd_failedClose d"
  "cd_openSequence (close_one now n d) = cd_openSequence d"
  by (simp_all add: close_one_def roof_command_def addTimer_def roof_timeout_def updateOpenClose_def announce_value_def
      Let_def split: option.split)

lemma close_one_present:
  assumes "closable d n"
  shows "cd_commands (close_one now n d) = cd_commands d @ [(n, ''close'', d_state d)]" "cd_openCloseLast (close_one now n d) = n"
    "n \<noteq> cd_openCloseLast d \<Longrightarrow> now + 180 \<in> set (cd_timers (close_one now n d))"
    "n = cd_openCloseLast d \<Longrightarrow> cd_timers (close_one now n d) = cd_timers d"
proof -
  obtain c where c: "getOpenConnection n d = Some c" using assms by (auto simp: closable_def split: option.splits)
  show "cd_commands (close_one now n d) = cd_commands d @ [(n, ''close'', d_state d)]" "cd_openCloseLast (close_one now n d) = n"
    "n \<noteq> cd_openCloseLast d \<Longrightarrow> now + 180 \<in> set (cd_timers (close_one now n d))"
    "n = cd_openCloseLast d \<Longrightarrow> cd_timers (close_one now n d) = cd_timers d"
    using getOpenConnection_name [OF c] c
    by (auto simp: close_one_def roof_command_def addTimer_def roof_timeout_def updateOpenClose_def announce_value_def Let_def)
qed

lemma closing_takes:
  assumes "cd_openSequence d \<noteq> []"
  shows "case find (closable d) (rev (cd_openSequence d)) of
      None \<Rightarrow> fst (startClose now d) = -1 \<and> cd_openClose (snd (startClose now d)) = 0
              \<and> cd_failedClose (snd (startClose now d)) = [] \<and> cd_commands (snd (startClose now d)) = cd_commands d
    | Some n \<Rightarrow> fst (startClose now d) = 0 \<and> cd_openClose (snd (startClose now d)) = 2
              \<and> cd_openCloseLast (snd (startClose now d)) = n
              \<and> cd_commands (snd (startClose now d)) = cd_commands d @ [(n, ''close'', d_state d)]"
proof -
  let ?d = "d\<lparr>cd_openClose := 2\<rparr>"
  have cl: "closable ?d = closable d" by (rule ext) (simp add: closable_def getOpenConnection_def split: option.split)
  have s: "startClose now d = (case next_closed ?d of None \<Rightarrow> (-1, close_end ?d) | Some n \<Rightarrow> (0, close_one now n ?d))"
    using assms by (simp add: startClose_def doClose_find)
  show ?thesis
  proof (cases "find (closable d) (rev (cd_openSequence d))")
    case None
    then show ?thesis using s by (simp add: next_closed_def cl)
  next
    case (Some n)
    then have "closable ?d n" by (auto simp: cl find_Some_iff)
    then show ?thesis using s Some close_one_present(1,2) [of ?d n now] by (simp add: next_closed_def cl)
  qed
qed

text \<open>C2: a closing turns to the last device of the opening sequence that is there, blocks the closing
  and has not failed to close, and to it alone; when there is none the closing is over and the
  list of failed devices is emptied.\<close>

theorem closing_takes_last_open_device:
  assumes "cd_openSequence d \<noteq> []"
  shows "case find (closable d) (rev (cd_openSequence d)) of
      None \<Rightarrow> fst (startClose now d) = -1 \<and> cd_openClose (snd (startClose now d)) = 0
              \<and> cd_failedClose (snd (startClose now d)) = [] \<and> cd_commands (snd (startClose now d)) = cd_commands d
    | Some n \<Rightarrow> fst (startClose now d) = 0 \<and> cd_openClose (snd (startClose now d)) = 2
              \<and> cd_openCloseLast (snd (startClose now d)) = n
              \<and> cd_commands (snd (startClose now d)) = cd_commands d @ [(n, ''close'', d_state d)]"
  by (rule closing_takes [OF assms])

text \<open>Closing a roof that is already closed is answered as a command with a bad parameter.\<close>

theorem closed_roof_refuses_close:
  assumes "cd_openSequence d \<noteq> []" "\<forall>n \<in> set (cd_openSequence d). \<not> closable d n"
  shows "\<exists>d1. roof_request now ''close'' '''' d = Some (DEVDEM_E_PARAMSVAL, d1)"
proof -
  have "find (closable d) (rev (cd_openSequence d)) = None"
    using assms(2) by (simp add: find_None_iff)
  then have "fst (startClose now d) = -1"
    using closing_takes [OF assms(1)] by simp
  moreover have "fst (paramEnd '''') = True" by (simp add: paramEnd_def)
  ultimately show ?thesis by (simp add: roof_request_def or_params_def take_end_def roof_result_def)
qed

definition dome_conn :: "nat \<Rightarrow> string \<Rightarrow> rts2_status \<Rightarrow> connection" where
  "dome_conn i n s = (new_Connection i 0)\<lparr>cn_name := n, cn_type := DEVICE_SERVER, cn_serverState := ss_setValue s new_ServerState\<rparr>"

definition example_roof :: "rts2_status \<Rightarrow> rts2_status \<Rightarrow> centrald" where
  "example_roof a b = (new_Centrald [] [''A'', ''B''])\<lparr>bl_connections := [dome_conn 1 ''A'' a, dome_conn 2 ''B'' b]\<rparr>"

lemma example_roof_fields [simp]:
  "cd_openSequence (example_roof a b) = [''A'', ''B'']" "cd_failedClose (example_roof a b) = []"
  "cd_commands (example_roof a b) = []" "cd_openCloseLast (example_roof a b) = []"
  "bl_connections (example_roof a b) = [dome_conn 1 ''A'' a, dome_conn 2 ''B'' b]"
  "d_state (example_roof a b) = SERVERD_HARD_OFF OR BAD_WEATHER" "cd_timers (example_roof a b) = []"
  by (simp_all add: example_roof_def new_Centrald_def daemon.defs block.defs)

lemma closable_example:
  "closable (example_roof a b) n = (n = ''A'' \<and> a AND DEVICE_BLOCK_CLOSE \<noteq> 0 \<or> n = ''B'' \<and> b AND DEVICE_BLOCK_CLOSE \<noteq> 0)"
  by (auto simp: closable_def getOpenConnection_def dome_conn_def Rts2_Connection.getState_def)

theorem closing_takes_last_open_device_witness:
  "cd_commands (snd (startClose 0 (example_roof DEVICE_BLOCK_CLOSE DEVICE_BLOCK_CLOSE)))
    = [(''B'', ''close'', SERVERD_HARD_OFF OR BAD_WEATHER)]"
  using closing_takes_last_open_device [of "example_roof DEVICE_BLOCK_CLOSE DEVICE_BLOCK_CLOSE" 0]
  by (simp add: closable_example) (simp add: status_bits)

theorem closed_roof_refuses_close_witness:
  "\<exists>d1. roof_request 0 ''close'' '''' (example_roof 0 0) = Some (DEVDEM_E_PARAMSVAL, d1)"
  by (rule closed_roof_refuses_close) (simp_all add: closable_example)

section \<open>A closing that is not answered\<close>

lemma sendMsg_view [simp]:
  "cn_name (snd (sendMsg m c)) = cn_name c" "cn_serverState (snd (sendMsg m c)) = cn_serverState c"
  "cn_id (snd (sendMsg m c)) = cn_id c"
  by (simp_all add: sendMsg_def connectionError_def cn_event_def Let_def)

lemma command_send_view [simp]:
  "cn_name (command_send cmd c) = cn_name c" "cn_serverState (command_send cmd c) = cn_serverState c"
  "cn_id (command_send cmd c) = cn_id c"
  by (simp_all add: command_send_def)

lemma queCommand_view [simp]:
  "cn_name (snd (queCommand cmd c)) = cn_name c" "cn_serverState (snd (queCommand cmd c)) = cn_serverState c"
  "cn_id (snd (queCommand cmd c)) = cn_id c"
proof -
  have "cn_name (sendCommand c) = cn_name c \<and> cn_serverState (sendCommand c) = cn_serverState c \<and> cn_id (sendCommand c) = cn_id c" for c
    by (simp add: sendCommand_def Let_def split: option.split)
  then show "cn_name (snd (queCommand cmd c)) = cn_name c" "cn_serverState (snd (queCommand cmd c)) = cn_serverState c"
    "cn_id (snd (queCommand cmd c)) = cn_id c"
    by (simp_all add: queCommand_def Let_def)
qed

lemma setState_view [simp]:
  "cn_name (setState v c) = cn_name c" "cn_id (setState v c) = cn_id c" "Rts2_Connection.getState (setState v c) = v"
  by (simp_all add: setState_def cn_event_def Let_def Rts2_Connection.getState_def)

lemma closable_on_conn:
  assumes "\<And>c. cn_name (f c) = cn_name c \<and> cn_serverState (f c) = cn_serverState c"
  shows "closable (on_conn i f d) n = closable d n"
proof -
  let ?g = "\<lambda>c. if cn_id c = i then f c else c"
  have "getOpenConnection n (on_conn i f d) = map_option ?g (getOpenConnection n d)"
    using assms by (simp add: getOpenConnection_def on_conn_def Let_def find_map_same)
  moreover have "Rts2_Connection.getState (?g c) = Rts2_Connection.getState c" for c
    using assms by (simp add: Rts2_Connection.getState_def)
  ultimately show ?thesis by (cases "getOpenConnection n d") (simp_all add: closable_def)
qed

lemma closable_cong:
  "bl_connections d1 = bl_connections d \<Longrightarrow> cd_failedClose d1 = cd_failedClose d \<Longrightarrow> closable d1 n = closable d n"
  by (simp add: closable_def getOpenConnection_def split: option.split)

lemma closable_close_one: "closable (close_one now m d) n = closable d n"
proof (cases "getOpenConnection m d")
  case (Some c)
  let ?e = "on_conn (cn_id c) (\<lambda>c. snd (queCommand (new_Command ''close'') c)) d"
  have "bl_connections (close_one now m d) = bl_connections ?e \<and> cd_failedClose (close_one now m d) = cd_failedClose ?e"
    by (simp add: close_one_def Some roof_command_def addTimer_def roof_timeout_def updateOpenClose_def
        announce_value_def Let_def)
  then show ?thesis using closable_cong [of "close_one now m d" ?e] closable_on_conn [of _ "cn_id c" d n] by simp
qed (simp add: close_one_def)

text \<open>
  While a closing goes on, the device named last is one that can be closed, a timer runs, and no
  more than \<open>k\<close> devices are left to try.
\<close>

definition closing_inv :: "int \<Rightarrow> nat \<Rightarrow> 'a centrald_scheme \<Rightarrow> bool" where
  "closing_inv t k d \<longleftrightarrow> cd_openClose d = 0
     \<or> (cd_openClose d = 2 \<and> cd_openSequence d \<noteq> [] \<and> cd_openCloseLast d \<in> set (cd_openSequence d)
        \<and> closable d (cd_openCloseLast d) \<and> (\<exists>u \<in> set (cd_timers d). u \<le> t + 180)
        \<and> card {n \<in> set (cd_openSequence d). closable d n} \<le> k)"

lemma closing_inv_0: "closing_inv t 0 d \<Longrightarrow> cd_openClose d = 0"
  by (auto simp: closing_inv_def)

lemma next_closed_Some:
  "next_closed d = Some n \<Longrightarrow> closable d n \<and> n \<in> set (cd_openSequence d)"
  by (auto simp: next_closed_def find_Some_iff) (metis length_rev nth_mem set_rev)

lemma doClose_inv:
  assumes "cd_openClose d = 2" "cd_openSequence d \<noteq> []" "\<not> closable d (cd_openCloseLast d) \<or> cd_openCloseLast d \<notin> set (cd_openSequence d)"
    and "card {n \<in> set (cd_openSequence d). closable d n} \<le> k"
  shows "closing_inv now k (snd (doClose now d))"
proof (cases "next_closed d")
  case None
  then show ?thesis using assms(2) by (simp add: doClose_find closing_inv_def)
next
  case (Some n)
  note n = next_closed_Some [OF Some]
  then have "n \<noteq> cd_openCloseLast d" using assms(3) by auto
  then have "now + 180 \<in> set (cd_timers (close_one now n d))" using close_one_present(3) [of d n now] n by simp
  then have "\<exists>u \<in> set (cd_timers (close_one now n d)). u \<le> now + 180" by blast
  then show ?thesis
    using Some assms n close_one_present(2) [of d n now] by (simp add: doClose_find closing_inv_def closable_close_one)
qed

lemma run_timer_inv:
  assumes inv: "closing_inv t (Suc k) d" and t: "t + 180 < now"
  shows "closing_inv now k (run_timer now d)"
proof (cases "find (\<lambda>u. u < now) (cd_timers d)")
  case None
  then have "\<not> (\<exists>u \<in> set (cd_timers d). u \<le> t + 180)" using t by (auto simp: find_None_iff)
  then show ?thesis using inv None by (simp add: run_timer_def closing_inv_def)
next
  case (Some u)
  show ?thesis
  proof (cases "cd_openClose d = 0")
    case True
    then show ?thesis using Some by (simp add: run_timer_def close_timeout_def closing_inv_def)
  next
    case False
    let ?e = "announce_value ''close_failed'' (d\<lparr>cd_timers := remove1 u (cd_timers d),
      cd_failedClose := cd_failedClose d @ [cd_openCloseLast d]\<rparr>)"
    have d: "cd_openClose d = 2" "cd_openSequence d \<noteq> []" "cd_openCloseLast d \<in> set (cd_openSequence d)"
      "closable d (cd_openCloseLast d)" "card {n \<in> set (cd_openSequence d). closable d n} \<le> Suc k"
      using inv False by (simp_all add: closing_inv_def)
    have e: "closable ?e n = (closable d n \<and> n \<noteq> cd_openCloseLast d)" for n
      by (auto simp: closable_def getOpenConnection_def announce_value_def split: option.split)
    have "{n \<in> set (cd_openSequence d). closable ?e n} = {n \<in> set (cd_openSequence d). closable d n} - {cd_openCloseLast d}"
      by (auto simp: e)
    then have "card {n \<in> set (cd_openSequence d). closable ?e n} \<le> k"
      using d(3-5) by simp
    then have "closing_inv now k (snd (doClose now ?e))"
      using d e by (intro doClose_inv) (simp_all add: announce_value_def)
    then show ?thesis using Some d(1) by (simp add: run_timer_def close_timeout_def)
  qed
qed

text \<open>Timers that run out one after the other, more than three minutes apart.\<close>

fun spaced :: "int \<Rightarrow> int list \<Rightarrow> bool" where
  "spaced t [] = True"
| "spaced t (u # us) = (t + 180 < u \<and> spaced u us)"

lemma timers_end:
  "closing_inv t (length ts) d \<Longrightarrow> spaced t ts \<Longrightarrow> cd_openClose (fold run_timer ts d) = 0"
  by (induction ts arbitrary: t d) (auto simp: closing_inv_0 dest: run_timer_inv)



section \<open>A closing that interrupts an opening\<close>

text \<open>When the device that is being opened is the first one to close, the close command is given
  without a timer and without a new time-out, so that a device that does not answer holds up
  the closing of all others.\<close>

theorem interrupted_opening_has_no_timer:
  assumes "find (closable d) (rev (cd_openSequence d)) = Some n" "cd_openCloseLast d = n"
  shows "cd_timers (snd (startClose now d)) = cd_timers d
    \<and> cd_commands (snd (startClose now d)) = cd_commands d @ [(n, ''close'', d_state d)]
    \<and> cd_openClose (snd (startClose now d)) = 2"
proof -
  let ?d = "d\<lparr>cd_openClose := 2\<rparr>"
  have cl: "closable ?d = closable d" by (rule ext) (simp add: closable_def getOpenConnection_def split: option.split)
  have n: "closable ?d n" using assms(1) by (auto simp: cl find_Some_iff)
  have s: "cd_openSequence d \<noteq> []" using assms(1) by auto
  then have "startClose now d = (0, close_one now n ?d)"
    using assms(1) by (simp add: startClose_def doClose_find next_closed_def cl)
  then show ?thesis using close_one_present [OF n, of now] assms(2) by simp
qed

theorem interrupted_opening_has_no_timer_witness:
  "cd_timers (snd (startClose 0 ((example_roof DEVICE_BLOCK_CLOSE DEVICE_BLOCK_CLOSE)\<lparr>cd_openCloseLast := ''B''\<rparr>))) = []"
proof -
  let ?d = "(example_roof DEVICE_BLOCK_CLOSE DEVICE_BLOCK_CLOSE)\<lparr>cd_openCloseLast := ''B''\<rparr>"
  have "closable ?d n = closable (example_roof DEVICE_BLOCK_CLOSE DEVICE_BLOCK_CLOSE) n" for n
    by (rule closable_cong) simp_all
  then have "find (closable ?d) (rev (cd_openSequence ?d)) = Some ''B''"
    by (simp add: closable_example status_bits)
  from interrupted_opening_has_no_timer [OF this] show ?thesis by simp
qed

section \<open>Timers of devices that have closed\<close>

lemma close_one_timer:
  assumes "closable d n" "n \<noteq> cd_openCloseLast d"
  shows "cd_openCloseTimeout (close_one now n d) = Some (now + 180)"
    "cd_timers (close_one now n d) = (if now + 180 \<in> set (cd_timers d) then cd_timers d else cd_timers d @ [now + 180])"
proof -
  obtain c where "getOpenConnection n d = Some c" using assms by (auto simp: closable_def split: option.splits)
  then show "cd_openCloseTimeout (close_one now n d) = Some (now + 180)"
    "cd_timers (close_one now n d) = (if now + 180 \<in> set (cd_timers d) then cd_timers d else cd_timers d @ [now + 180])"
    using assms(2)
    by (auto simp: close_one_def roof_command_def addTimer_def roof_timeout_def updateOpenClose_def announce_value_def Let_def)
qed

text \<open>the timer of a device that has closed in time stays, and runs out on the device that is closed
  next: here the second device is given up, and the closing with it, ninety-nine seconds before
  the published time-out, although nothing has closed it.\<close>

theorem stale_timer_ends_closing:
  "let d1 = snd (startClose 0 (example_roof DEVICE_BLOCK_CLOSE DEVICE_BLOCK_CLOSE));
       d2 = openCloseChanged 100 (on_conn 2 (setState 0) d1);
       d3 = run_timer 181 d2
   in cd_openClose d2 = 2 \<and> cd_openCloseTimeout d2 = Some 280 \<and> closable d2 ''A'' \<and> cd_openClose d3 = 0"
proof -
  let ?B = DEVICE_BLOCK_CLOSE
  let ?d0 = "(example_roof ?B ?B)\<lparr>cd_openClose := 2\<rparr>"
  let ?d1 = "close_one 0 ''B'' ?d0"
  let ?q = "\<lambda>c. snd (queCommand (new_Command ''close'') c)"
  let ?e1 = "on_conn 2 (setState 0) ?d1"
  let ?d2 = "close_one 100 ''A'' ?e1"
  have b: "?B \<noteq> 0" by (simp_all add: status_bits)
  have c0: "closable ?d0 n = (n = ''A'' \<or> n = ''B'')" for n
    using closable_cong [of ?d0 "example_roof ?B ?B" n] by (auto simp: closable_example b)
  have n0: "next_closed ?d0 = Some ''B''" by (simp add: next_closed_def c0)
  have s: "snd (startClose 0 (example_roof ?B ?B)) = ?d1"
    by (simp add: startClose_def doClose_find n0)
  have t1: "cd_timers ?d1 = [180]" "cd_openCloseLast ?d1 = ''B''"
    using close_one_timer [of ?d0 "''B''" 0] close_one_present(2) [of ?d0 "''B''" 0] by (simp_all add: c0)
  have cs: "bl_connections ?e1 = [dome_conn 1 ''A'' ?B, setState 0 (?q (dome_conn 2 ''B'' ?B))]"
    by (simp add: close_one_def getOpenConnection_def dome_conn_def roof_command_def addTimer_def roof_timeout_def
        updateOpenClose_def announce_value_def Let_def on_conn_def new_Connection_def)
  have f: "cd_failedClose ?e1 = []" by simp
  have c1: "closable ?e1 n = (n = ''A'')" for n
    unfolding closable_def getOpenConnection_def cs f
    by (auto simp: dome_conn_def Rts2_Connection.getState_def [of "_\<lparr>cn_serverState := _\<rparr>"] b)
  have n1: "next_closed ?e1 = Some ''A''" by (simp add: next_closed_def c1)
  have o: "openCloseChanged 100 ?e1 = ?d2"
    by (simp add: openCloseChanged_def doClose_find n1)
  have t2: "cd_timers ?d2 = [180, 280]" "cd_openCloseTimeout ?d2 = Some 280" "cd_openCloseLast ?d2 = ''A''"
    using close_one_timer [of ?e1 "''A''" 100] close_one_present(2) [of ?e1 "''A''" 100] t1 by (simp_all add: c1)
  let ?e2 = "announce_value ''close_failed'' (?d2\<lparr>cd_timers := [280], cd_failedClose := [''A'']\<rparr>)"
  have "closable ?e2 n = (closable ?d2 n \<and> n \<noteq> ''A'')" for n
    by (auto simp: closable_def getOpenConnection_def announce_value_def split: option.split)
  then have "next_closed ?e2 = None" by (simp add: next_closed_def find_None_iff closable_close_one c1)
  then have "run_timer 181 ?d2 = close_end ?e2"
    using t2 by (simp add: run_timer_def close_timeout_def doClose_find announce_value_def)
  then show ?thesis
    using t2 by (simp add: s o closable_close_one c1)
qed

end
