(* ===== verification/Rts2_Votes.thy ===== *)
theory Rts2_Votes
  imports Rts2_Closing
begin

text \<open>
  How the central server forms its state: the votes of the devices on weather and stop, the
  blocks of operation a device is told, and the changes of state by command and by the clock.
\<close>

section \<open>The state word after an operation\<close>

lemma state_doOpen [simp]: "d_state (snd (doOpen_from now ns d)) = d_state d"
  by (induction ns)
    (auto simp: updateOpenClose_def announce_value_def roof_command_def roof_timeout_def Let_def split: option.split)

lemma state_doClose [simp]: "d_state (snd (doClose_from now ns d)) = d_state d"
  by (induction ns)
    (auto simp: updateOpenClose_def announce_value_def roof_command_def roof_timeout_def addTimer_def Let_def split: option.split)

lemma state_start [simp]:
  "d_state (snd (startOpen now d)) = d_state d" "d_state (snd (startClose now d)) = d_state d"
  by (simp_all add: startOpen_def doOpen_def startClose_def doClose_def)

lemma state_stateChanged [simp]: "d_state (centrald_stateChanged now new old desc conn d) = new"
  by (simp add: centrald_stateChanged_def daemon_stateChanged_def Let_def)

lemma state_maskState [simp]:
  "d_state (maskState (centrald_stateChanged now) m new desc None None conn d) = masked (d_state d) (DEVICE_ERROR_MASK OR m) new"
  by (simp add: maskState_def daemon_setState_def Let_def)

lemma state_announce [simp]: "d_state (announce_value n d) = d_state d"
  by (simp add: announce_value_def)

lemma state_maskCentralState [simp]:
  "d_state (maskCentralState now m new desc d) = masked (d_state d) (DEVICE_ERROR_MASK OR m) new"
  by (simp add: maskCentralState_def centrald_maskState_def Let_def)

section \<open>Votes\<close>

definition vote_ok :: "(connection \<Rightarrow> bool) \<Rightarrow> connection \<Rightarrow> bool" where
  "vote_ok good c \<longleftrightarrow> good c \<and> isConnState c CONN_CONNECTED"

lemma failed_devices_set:
  assumes "distinct failed" "distinct (map cn_name cs)"
  shows "set (failed_devices good failed cs) =
    {r \<in> set failed. \<not> (\<exists>c \<in> set cs. cn_name c = r \<and> vote_ok good c)}
    \<union> {cn_name c |c. c \<in> set cs \<and> cn_name c \<notin> set failed \<and> \<not> good c}"
  using assms
proof (induction cs arbitrary: failed)
  case Nil
  then show ?case by (simp add: failed_devices_def)
next
  case (Cons c cs)
  let ?f = "failed_step good c failed"
  have f: "distinct ?f" "set ?f = (if cn_name c \<in> set failed then (if vote_ok good c then set failed - {cn_name c} else set failed)
      else if good c then set failed else insert (cn_name c) (set failed))"
    using Cons.prems(1) by (auto simp: failed_step_def vote_ok_def)
  have "cn_name c \<notin> cn_name ` set cs" using Cons.prems(2) by simp
  then have n: "d \<in> set cs \<Longrightarrow> cn_name d \<noteq> cn_name c" for d
    by (metis imageI)
  have o: "d \<in> set cs \<Longrightarrow> cn_name d \<noteq> cn_name c \<and> (cn_name d \<in> set ?f \<longleftrightarrow> cn_name d \<in> set failed)" for d
    unfolding f(2) using n [of d] by simp
  have "set (failed_devices good failed (c # cs)) = set (failed_devices good ?f cs)"
    by (simp add: failed_devices_def)
  moreover have "r \<in> set (failed_devices good ?f cs) \<longleftrightarrow>
      r \<in> set failed \<and> \<not> (\<exists>d \<in> set (c # cs). cn_name d = r \<and> vote_ok good d)
      \<or> (\<exists>d \<in> set (c # cs). r = cn_name d \<and> cn_name d \<notin> set failed \<and> \<not> good d)" for r
  proof -
    have ih: "r \<in> set (failed_devices good ?f cs) \<longleftrightarrow> r \<in> set ?f \<and> \<not> (\<exists>d \<in> set cs. cn_name d = r \<and> vote_ok good d)
        \<or> (\<exists>d \<in> set cs. r = cn_name d \<and> cn_name d \<notin> set ?f \<and> \<not> good d)"
      using Cons.IH [OF f(1)] Cons.prems(2) by auto
    show ?thesis
    proof (cases "r = cn_name c")
      case True
      then have "\<not> (\<exists>d \<in> set cs. cn_name d = r)" using o by blast
      then show ?thesis unfolding ih f(2) using True by (auto simp: vote_ok_def)
    next
      case False
      then have "r \<in> set ?f \<longleftrightarrow> r \<in> set failed" unfolding f(2) by simp
      moreover have "(\<exists>d \<in> set cs. r = cn_name d \<and> cn_name d \<notin> set ?f \<and> \<not> good d)
          \<longleftrightarrow> (\<exists>d \<in> set cs. r = cn_name d \<and> cn_name d \<notin> set failed \<and> \<not> good d)"
        using o by blast
      ultimately show ?thesis unfolding ih using False by simp
    qed
  qed
  ultimately show ?case by blast
qed

lemma failed_devices_empty:
  assumes "distinct failed" "distinct (map cn_name cs)"
  shows "failed_devices good failed cs = [] \<longleftrightarrow>
    (\<forall>r \<in> set failed. \<exists>c \<in> set cs. cn_name c = r \<and> vote_ok good c)
    \<and> (\<forall>c \<in> set cs. cn_name c \<notin> set failed \<longrightarrow> good c)"
proof -
  have "failed_devices good failed cs = [] \<longleftrightarrow> set (failed_devices good failed cs) = {}" by simp
  then show ?thesis unfolding failed_devices_set [OF assms] by blast
qed

lemma weather_after:
  "d_state (weatherChanged now dev msg d) AND WEATHER_MASK =
    (if failed_devices isGoodWeather (cd_requiredDevices d) (bl_connections d) = [] then GOOD_WEATHER else BAD_WEATHER)"
proof -
  have "masked s (DEVICE_ERROR_MASK OR WEATHER_MASK) w AND WEATHER_MASK = w AND WEATHER_MASK" for s w
    unfolding masked_def by (rule bit_word_eqI) (auto simp: bit_simps)
  then show ?thesis
    by (simp add: weatherChanged_def centrald_setWeatherState_def daemon_setWeatherState_def Let_def)
      (simp add: status_bits)
qed



text \<open>Names need not be unique: one client that logs in under the name of a required device that is
  not there makes the weather good.\<close>

theorem client_stands_in_for_device:
  assumes "cd_requiredDevices d = [n]" "bl_connections d = [(new_Connection i t)\<lparr>cn_name := n, cn_type := CLIENT_SERVER\<rparr>]"
  shows "d_state (weatherChanged now dev msg d) AND WEATHER_MASK = GOOD_WEATHER"
proof -
  have "isGoodWeather ((new_Connection i t)\<lparr>cn_name := n, cn_type := CLIENT_SERVER\<rparr>)"
    by (simp add: isGoodWeather_def Rts2_Connection.getState_def new_Connection_def new_ServerState_def st_isGoodWeather_def status_bits)
  then show ?thesis
    using assms by (simp add: weather_after failed_devices_def failed_step_def isConnState_def new_Connection_def)
qed

theorem client_stands_in_for_device_witness:
  "d_state (weatherChanged 0 ''A'' None ((new_Centrald [''RAIN''] [])\<lparr>bl_connections :=
     [(new_Connection 1 0)\<lparr>cn_name := ''RAIN'', cn_type := CLIENT_SERVER\<rparr>]\<rparr>)) AND WEATHER_MASK = GOOD_WEATHER"
  by (rule client_stands_in_for_device) (simp_all add: new_Centrald_def daemon.defs)

section \<open>The blocks a device is told\<close>

lemma fold_or_bit:
  "bit (fold (\<lambda>t s. if P t then s OR g t else s) ts (s :: 32 word)) n \<longleftrightarrow> bit s n \<or> (\<exists>t \<in> set ts. P t \<and> bit (g t) n)"
  by (induction ts arbitrary: s) (auto simp: bit_simps)

text \<open>Of the blocks of operation a device is told exactly those that a device reports which the
  configuration lets block it, and none of the errors of the server.\<close>

theorem device_sees_its_blocks:
  assumes "cn_type c = DEVICE_SERVER" "bit BOP_MASK n"
  shows "bit (getStateForConnection blocks c d) n \<longleftrightarrow>
      (\<exists>t \<in> set (bl_connections d). blocks (cn_name c) (cn_name t) \<and> bit (Rts2_Connection.getState t) n)"
  using assms by (auto simp: getStateForConnection_def fold_or_bit getBopState_def st_bopState_def bit_simps)

theorem device_sees_its_blocks_witness:
  "bit (getStateForConnection (\<lambda>a b. b = ''A'') (dome_conn 2 ''B'' 0) (example_roof BOP_EXPOSURE BOP_READOUT)) 24
   \<and> \<not> bit (getStateForConnection (\<lambda>a b. b = ''A'') (dome_conn 2 ''B'' 0) (example_roof BOP_EXPOSURE BOP_READOUT)) 25"
proof -
  have m: "bit BOP_MASK 24" "bit BOP_MASK 25" "bit BOP_EXPOSURE 24" "\<not> bit BOP_EXPOSURE 25" by code_simp+
  have s: "Rts2_Connection.getState (dome_conn i n v) = v" "cn_name (dome_conn i n v) = n" "cn_type (dome_conn i n v) = DEVICE_SERVER" for i n v
    by (simp_all add: dome_conn_def Rts2_Connection.getState_def)
  show ?thesis
    using device_sees_its_blocks [of "dome_conn 2 ''B'' 0" 24 "\<lambda>a b. b = ''A''" "example_roof BOP_EXPOSURE BOP_READOUT"]
      device_sees_its_blocks [of "dome_conn 2 ''B'' 0" 25 "\<lambda>a b. b = ''A''" "example_roof BOP_EXPOSURE BOP_READOUT"] m
    by (simp add: s)
qed

section \<open>Changes of the state\<close>

lemma current_period_small: "current_period d AND NOT SERVERD_STATUS_MASK = 0"
proof -
  have "(x mod 6 :: rts2_status) \<in> {0, 1, 2, 3, 4, 5}" for x
  proof -
    have "unat (x mod 6) < 6" by (simp add: unat_mod)
    then have "unat (x mod 6) \<in> {0, 1, 2, 3, 4, 5}" by auto
    then show ?thesis by (auto simp: word_unat_eq_iff)
  qed
  then have "current_period d \<in> {0, 1, 2, 3, 4, 5}" by (simp add: current_period_def)
  then show ?thesis by (auto simp: status_bits)
qed

lemma inside_bits:
  assumes "(a :: rts2_status) AND NOT m = 0" "bit a n"
  shows "bit m n"
proof -
  have "(a AND m) OR (a AND NOT m) = a" by (rule bit_word_eqI) (auto simp: bit_simps)
  then have "a AND m = a" using assms(1) by simp
  then show ?thesis using assms(2) by (metis bit_and_iff)
qed

lemma apart_bits:
  assumes "(a :: rts2_status) AND b = 0" "bit a n"
  shows "\<not> bit b n"
  using assms by (metis bit_and_iff bit_0_eq bot_apply bot_bool_def)

lemma masked_group:
  assumes "new AND NOT m = 0"
  shows "masked s (e OR m) new AND m = new" "k AND (e OR m) = 0 \<Longrightarrow> masked s (e OR m) new AND k = s AND k"
proof -
  note b = inside_bits [OF assms]
  show "masked s (e OR m) new AND m = new"
    unfolding masked_def by (rule bit_word_eqI) (use b in \<open>auto simp: bit_simps\<close>)
  show "masked s (e OR m) new AND k = s AND k" if "k AND (e OR m) = 0"
  proof -
    have k: "bit k n \<Longrightarrow> \<not> bit e n \<and> \<not> bit m n" for n
      using apart_bits [OF that, of n] by (simp add: bit_or_iff)
    show ?thesis
      unfolding masked_def by (rule bit_word_eqI) (use b k in \<open>auto simp: bit_simps\<close>)
  qed
qed

text \<open>The commands \<open>on\<close>, \<open>standby\<close>, \<open>soft_off\<close> and \<open>off\<close> set the on/off group to the value they name and the period
  to the one before the next event, and leave the weather, the stop flag and the blocks of
  operation as they are.\<close>

theorem state_commands_set_groups:
  assumes "(w, v) \<in> {(''on'', SERVERD_ON), (''standby'', SERVERD_STANDBY), (''soft_off'', SERVERD_SOFT_OFF), (''off'', SERVERD_HARD_OFF)}"
  shows "\<exists>d1. state_command now w user d = Some (0, d1)
    \<and> d_state d1 AND SERVERD_ONOFF_MASK = v \<and> d_state d1 AND SERVERD_STATUS_MASK = current_period d
    \<and> (\<forall>g \<in> {WEATHER_MASK, STOP_MASK, BOP_MASK}. d_state d1 AND g = d_state d AND g)"
proof -
  let ?m = "SERVERD_ONOFF_MASK OR SERVERD_STATUS_MASK" and ?p = "current_period d"
  have v: "v AND NOT SERVERD_ONOFF_MASK = 0" using assms by (auto simp: status_bits)
  have p: "?p AND NOT SERVERD_STATUS_MASK = 0" by (rule current_period_small)
  note b = inside_bits [OF v] inside_bits [OF p]
  have new: "(v OR ?p) AND NOT ?m = 0"
    by (rule bit_word_eqI) (use b in \<open>auto simp: bit_simps\<close>)
  have dis: "SERVERD_ONOFF_MASK AND SERVERD_STATUS_MASK = 0" by (simp add: status_bits)
  note nb = apart_bits [OF dis]
  let ?d1 = "maskCentralState now ?m (v OR ?p) (Some user) d"
  have s: "d_state ?d1 AND ?m = v OR ?p" using masked_group(1) [OF new] by simp
  have "d_state ?d1 AND SERVERD_ONOFF_MASK = v" "d_state ?d1 AND SERVERD_STATUS_MASK = ?p"
  proof -
    have "x AND SERVERD_ONOFF_MASK = (x AND ?m) AND SERVERD_ONOFF_MASK"
      "x AND SERVERD_STATUS_MASK = (x AND ?m) AND SERVERD_STATUS_MASK" for x
      by (rule bit_word_eqI, auto simp: bit_simps)+
    then have "d_state ?d1 AND SERVERD_ONOFF_MASK = (d_state ?d1 AND ?m) AND SERVERD_ONOFF_MASK"
      "d_state ?d1 AND SERVERD_STATUS_MASK = (d_state ?d1 AND ?m) AND SERVERD_STATUS_MASK" .
    moreover have "(v OR ?p) AND SERVERD_ONOFF_MASK = v" "(v OR ?p) AND SERVERD_STATUS_MASK = ?p"
      by (rule bit_word_eqI, use b nb in \<open>auto simp: bit_simps\<close>)+
    ultimately show "d_state ?d1 AND SERVERD_ONOFF_MASK = v" "d_state ?d1 AND SERVERD_STATUS_MASK = ?p"
      unfolding s by simp_all
  qed
  moreover have "d_state ?d1 AND g = d_state d AND g" if "g \<in> {WEATHER_MASK, STOP_MASK, BOP_MASK}" for g
  proof -
    have "g AND (DEVICE_ERROR_MASK OR ?m) = 0" using that by (auto simp: status_bits)
    then show ?thesis using masked_group(2) [OF new] by simp
  qed
  moreover have "state_command now w user d = Some (0, ?d1)"
    using assms by (auto simp: state_command_def changeStateOn_def changeStateStandby_def changeStateSoftOff_def
        changeStateHardOff_def changeState_def SERVERD_ON_def)
  ultimately show ?thesis by blast
qed

theorem state_commands_set_groups_witness:
  "\<exists>d1. state_command 0 ''standby'' ''petr'' (example_roof 0 0) = Some (0, d1) \<and> d_state d1 AND SERVERD_ONOFF_MASK = SERVERD_STANDBY
    \<and> d_state d1 AND WEATHER_MASK = BAD_WEATHER"
proof -
  have "(SERVERD_HARD_OFF OR BAD_WEATHER) AND WEATHER_MASK = BAD_WEATHER" by (simp add: status_bits)
  then show ?thesis
    using state_commands_set_groups [of "''standby''" SERVERD_STANDBY 0 "''petr''" "example_roof 0 0"] by auto
qed

text \<open>Where the sun does not rise, dawn is followed by dusk, and the command \<open>on\<close> takes the evening for
  the current period.\<close>

theorem polar_dawn_taken_for_evening:
  "current_period (set_event (SERVERD_DAWN, SERVERD_DUSK, t) d) = SERVERD_EVENING"
  by (simp add: current_period_def set_event_def status_bits)

end
