(* ===== verification/Rts2_Access.thy ===== *)
theory Rts2_Access
  imports Rts2_Votes
begin

text \<open>
  Who may do what at the central server: devices ask whether a client showed the key it was
  given, and clients change the state after they have given the password.
\<close>

section \<open>Keys\<close>

lemma two_ints:
  assumes "int32 i" "int32 k"
  shows "take_int (show_int i @ CHR '' '' # show_int k) (\<lambda>client b. take_int b (\<lambda>key b. take_end b (f client key))) = Some (f i k)"
proof -
  have "paramNextInteger (show_int i @ CHR '' '' # show_int k) = (Some i, show_int k)"
    using assms(1) paramNextInteger_token [of i "CHR '' '' # show_int k"] by (simp add: int32_def)
  moreover have "paramNextInteger (show_int k) = (Some k, [])"
    using assms(2) paramNextInteger_token [of k "[]"] by (simp add: int32_def)
  moreover have "paramEnd [] = (True, [])" by (simp add: paramEnd_def)
  ultimately show ?thesis by (simp add: take_int_def take_end_def)
qed



section \<open>A client before its password\<close>

definition opt_same :: "int \<times> (string \<times> string \<times> rts2_status) list \<times> rts2_status \<Rightarrow> (int \<times> 'a centrald_scheme) option \<Rightarrow> bool" where
  "opt_same R r \<longleftrightarrow> (case r of None \<Rightarrow> True | Some x \<Rightarrow> roof (snd x) = R)"

lemma opt_same_simps [simp]: "opt_same R None" "opt_same R (Some x) = (roof (snd x) = R)"
  by (simp_all add: opt_same_def)

lemma or_params_same: "opt_same R r \<Longrightarrow> roof d = R \<Longrightarrow> roof (snd (or_params d r)) = R"
  by (cases r) (simp_all add: or_params_def)

lemma if_same: "(c \<Longrightarrow> roof (snd a) = R) \<Longrightarrow> (\<not> c \<Longrightarrow> roof (snd b) = R) \<Longrightarrow> roof (snd (if c then a else b)) = R"
  by simp

lemmas take_same = take_cases [where Q = "opt_same R" for R]

lemma base_roof: "roof (snd (central_base blocks i w b d)) = roof d"
proof -
  have a: "roof (addAddress (\<lambda>a c. c) (\<lambda>a b. False) (\<lambda>a. None) h num cid n host port t d) = roof d"
    for h num cid n host port t and d :: "'a centrald_scheme"
    by (auto simp: addAddress_def addAddress_obj_def Let_def roof_def split: option.split)
  have c: "roof (deleteAddress num n d) = roof d" "roof (addClient cid n l d) = roof d" "roof (deleteClient cid d) = roof d"
    for num n cid l and d :: "'a centrald_scheme"
    by (simp_all add: deleteAddress_def addClient_def deleteClient_def roof_def)
  show ?thesis
    unfolding central_base_def conn_command_def Let_def
    by (intro if_same or_params_same take_same) (simp_all add: roof_frame a c split: option.split)
qed

text \<open>As long as a client has not given its password, no command line of it but the password itself
  touches the state, the opening and closing, or the commands given to devices.\<close>

theorem client_needs_password:
  assumes "find_conn i d = Some c" "cn_type c = CLIENT_SERVER" "cc_authorized (cd_ext d i) = 0" "w \<noteq> ''password''"
  shows "let d1 = snd (central_command now rnd (central_base blocks) i w b d)
    in d_state d1 = d_state d \<and> cd_openClose d1 = cd_openClose d \<and> cd_commands d1 = cd_commands d"
proof -
  have t: "(case find_conn i d of Some c \<Rightarrow> cn_type c | None \<Rightarrow> NOT_DEFINED_SERVER) = CLIENT_SERVER"
    using assms(1,2) by simp
  have m: "roof (snd (or_params d (take_int b (\<lambda>m b. take_end b (0, upd_ext i (\<lambda>x. x\<lparr>cc_messageMask := m\<rparr>) d))))) = roof d"
    by (intro or_params_same take_same) (simp_all add: roof_frame)
  have c: "commandClient now rnd (central_base blocks) i w b d = central_base blocks i w b d"
    using assms(3,4) by (simp add: commandClient_def)
  have "roof (snd (central_command now rnd (central_base blocks) i w b d)) = roof d"
    unfolding central_command_def t Let_def c
    by (intro if_same m base_roof) (simp_all add: roof_frame)
  then show ?thesis by (simp add: roof_def Let_def)
qed

theorem client_needs_password_witness:
  "d_state (snd (central_command 0 1 (central_base (\<lambda>a b. True)) 2 ''on'' '''' ((example_roof 0 0)\<lparr>bl_connections :=
     [(new_Connection 2 0)\<lparr>cn_type := CLIENT_SERVER\<rparr>]\<rparr>))) = SERVERD_HARD_OFF OR BAD_WEATHER"
proof -
  let ?d = "(example_roof 0 0)\<lparr>bl_connections := [(new_Connection 2 0)\<lparr>cn_type := CLIENT_SERVER\<rparr>]\<rparr>"
  have "find_conn 2 ?d = Some ((new_Connection 2 0)\<lparr>cn_type := CLIENT_SERVER\<rparr>)"
    by (simp add: find_conn_def all_conns_def new_Connection_def)
  moreover have "cc_authorized (cd_ext ?d 2) = 0" by (simp add: example_roof_def new_Centrald_def daemon.defs)
  ultimately show ?thesis
    using client_needs_password [of 2 ?d _ "''on''" 0 1 "\<lambda>a b. True" "''''"] by (simp add: Let_def)
qed

text \<open>A new connection takes whatever is in the memory for the mark that the password was given: if that
  is not zero, the client changes the state after its login, without a password.\<close>

theorem login_without_password:
  assumes "junk \<noteq> 0"
  shows "let d1 = snd (central_createConnection junk t i d); d2 = snd (login_command i b d1)
    in commandClient now rnd base i ''on'' r d2 = changeStateOn now (cc_login (cd_ext d2 i)) d2"
proof -
  let ?d1 = "snd (central_createConnection junk t i d)"
  have one: "cc_authorized (cd_ext ?d1 i) = junk" by (simp add: central_createConnection_def Let_def)
  have ext: "cd_ext (connAdded j e) = cd_ext e" "cd_ext (on_conn j f e) = cd_ext e" for j f and e :: "'a centrald_scheme"
    by (simp_all add: connAdded_def on_conn_def Let_def split: option.split)
  let ?P = "\<lambda>r. case r of None \<Rightarrow> True | Some (x :: int \<times> 'a centrald_scheme) \<Rightarrow> cc_authorized (cd_ext (snd x) i) = junk"
  have "?P (take_str b (\<lambda>login b. take_str b (\<lambda>n b. take_end b
       (0, connAdded i (on_conn i (\<lambda>c. (setName (cn_centrald_id c) n c)\<lparr>cn_type := CLIENT_SERVER\<rparr>)
              (upd_ext i (\<lambda>x. x\<lparr>cc_login := login\<rparr>) ?d1))))))"
    by (intro take_cases [where Q = ?P]) (simp_all add: ext upd_ext_def one)
  then have "cc_authorized (cd_ext (snd (login_command i b ?d1)) i) = junk"
    using one by (auto simp: login_command_def or_params_def split: option.splits)
  then show ?thesis
    using assms by (simp add: commandClient_def state_command_def Let_def)
qed

theorem login_without_password_witness:
  "let d1 = snd (central_createConnection 1 0 5 (example_roof 0 0)); d2 = snd (login_command 5 ''petr petr'' d1)
   in commandClient 0 1 (central_base (\<lambda>a b. True)) 5 ''on'' '''' d2 = changeStateOn 0 (cc_login (cd_ext d2 5)) d2"
  by (rule login_without_password) simp

end
