(* ===== verification/Rts2_Dome.thy ===== *)
theory Rts2_Dome
  imports Rts2_Access
begin

text \<open>
  \<open>rts2dome::Dome\<close> (\<open>lib/rts2/dome.cpp\<close>, \<open>include/dome.h\<close>): the state machine that opens and
  closes a dome, and what it does when the weather or the state of the central server changes.

  The driver of a particular dome is the parameter \<open>dr\<close>, its pure virtual functions. A driver
  sees the whole dome and keeps its own state in the extension of the record; each call gives
  the code and the new extension. \<open>dm_calls\<close> records the calls that move the dome, each with the
  weather the dome saw. Times are microseconds; \<open>next_open\<close> and \<open>ignore_time\<close> are fields, and
  \<open>dm_announced\<close> the values sent to the connections. Logging and options are left out.
\<close>

named_theorems dome_defs \<open>the operations of the dome\<close>

section \<open>State\<close>

datatype dome_move = StartOpen | StartClose | StopMove

record dome = device +
  dm_ignoreTimeout :: int
  dm_nextGoodWeather :: int
  dm_nextGood_error :: rts2_status
  dm_weatherOpensDome :: bool
  dm_domeAutoClose :: "bool option"
  dm_closeFailReported :: bool
  dm_contact :: int
  dm_settle :: int
  dm_closeRepeat :: int
  dm_retries :: "int list"
  dm_timeout :: int
  dm_announced :: "string list"
  dm_calls :: "(dome_move \<times> bool) list"

type_synonym 'a driver_call = "'a dome_scheme \<Rightarrow> int \<times> 'a"

record 'a driver =
  dr_startOpen :: "'a driver_call"
  dr_isOpened :: "'a driver_call"
  dr_endOpen :: "'a driver_call"
  dr_startClose :: "'a driver_call"
  dr_isClosed :: "'a driver_call"
  dr_endClose :: "'a driver_call"
  dr_stop :: "'a driver_call"
  dr_info :: "'a driver_call"

definition USEC_SEC :: int where "USEC_SEC = 1000000"

definition DEF_WEATHER_TIMEOUT :: int where "DEF_WEATHER_TIMEOUT = 10"
definition DEF_CENTRALD_CONTACT_TIMEOUT :: int where "DEF_CENTRALD_CONTACT_TIMEOUT = 10"
definition DEF_INITIAL_SETTLE_TIME :: int where "DEF_INITIAL_SETTLE_TIME = 12"

definition drive :: "'a driver_call \<Rightarrow> 'a dome_scheme \<Rightarrow> int \<times> 'a dome_scheme" where
  [dome_defs]: "drive f d = (case f d of (ret, m) \<Rightarrow> (ret, dome.more_update (\<lambda>_. m) d))"

definition setTimeout :: "int \<Rightarrow> 'a dome_scheme \<Rightarrow> 'a dome_scheme" where
  [dome_defs]: "setTimeout t d = d\<lparr>dm_timeout := t\<rparr>"

text \<open>The virtual \<open>stateChanged\<close> of a device that accepts writable values.\<close>

definition dome_chg :: "'a dome_scheme state_hook" where
  "dome_chg = device_stateChanged daemon_setValue maskQueValueBopState"

definition dome_mask :: "rts2_status \<Rightarrow> rts2_status \<Rightarrow> string \<Rightarrow> 'a dome_scheme \<Rightarrow> 'a dome_scheme" where
  "dome_mask m s desc d = maskState dome_chg m s (Some desc) None None None d"

definition dome_infoAll :: "'a driver \<Rightarrow> 'a dome_scheme \<Rightarrow> 'a dome_scheme" where
  "dome_infoAll dr d = snd (infoAll (drive (dr_info dr)) (device_isRunning d) d)"

text \<open>\<open>valueGood\<close>, \<open>valueError\<close> of \<open>next_open\<close>.\<close>

definition nextGood_mask :: "rts2_status \<Rightarrow> 'a dome_scheme \<Rightarrow> 'a dome_scheme" where
  [dome_defs]: "nextGood_mask err d =
     (if dm_nextGood_error d \<noteq> err
      then d\<lparr>dm_nextGood_error := err, dm_announced := dm_announced d @ [''next_open'']\<rparr> else d)"

section \<open>The weather as the dome sees it\<close>

definition getIgnoreMeteo :: "int \<Rightarrow> 'a dome_scheme \<Rightarrow> bool" where
  "getIgnoreMeteo now d \<longleftrightarrow> dm_ignoreTimeout d > now"

definition dome_isGoodWeather :: "int \<Rightarrow> 'a dome_scheme \<Rightarrow> bool" where
  "dome_isGoodWeather now d \<longleftrightarrow>
     getIgnoreMeteo now d \<or> (block_isGoodWeather d \<and> \<not> dm_nextGoodWeather d > now)"

definition setIgnoreTimeout :: "int \<Rightarrow> int \<Rightarrow> 'a dome_scheme \<Rightarrow> 'a dome_scheme" where
  "setIgnoreTimeout now t d = d\<lparr>dm_ignoreTimeout := now + t * USEC_SEC\<rparr>"

text \<open>\<open>next_open\<close> is compared and set in whole seconds.\<close>

definition setWeatherTimeout :: "int \<Rightarrow> int \<Rightarrow> string \<Rightarrow> 'a dome_scheme \<Rightarrow> 'a dome_scheme" where
  "setWeatherTimeout now wait_time msg d =
     (let next = now div USEC_SEC + wait_time in
      if next > dm_nextGoodWeather d div USEC_SEC then
        (let d1 = device_setWeatherState dome_chg False msg (nextGood_mask RTS2_VALUE_ERROR d)
         in d1\<lparr>dm_nextGoodWeather := next * USEC_SEC, dm_announced := dm_announced d1 @ [''next_open'']\<rparr>)
      else d)"

section \<open>Opening, closing, stopping\<close>

definition call_move :: "dome_move \<Rightarrow> int \<Rightarrow> 'a driver_call \<Rightarrow> 'a dome_scheme \<Rightarrow> int \<times> 'a dome_scheme" where
  [dome_defs]: "call_move m now f d = drive f (d\<lparr>dm_calls := dm_calls d @ [(m, dome_isGoodWeather now d)]\<rparr>)"

abbreviation opened_mask :: rts2_status where
  "opened_mask \<equiv> DOME_DOME_MASK OR BOP_EXPOSURE OR DEVICE_BLOCK_OPEN OR DEVICE_BLOCK_CLOSE"

abbreviation closed_mask :: rts2_status where
  "closed_mask \<equiv> DOME_DOME_MASK OR DEVICE_BLOCK_OPEN OR DEVICE_BLOCK_CLOSE"

definition domeOpenStart :: "'a driver \<Rightarrow> int \<Rightarrow> 'a dome_scheme \<Rightarrow> int \<times> 'a dome_scheme" where
  "domeOpenStart dr now d =
     (let (op, d1) = drive (dr_isOpened dr) (d\<lparr>dm_retries := []\<rparr>) in
      if op = -2 then (0, dome_mask opened_mask (DOME_OPENED OR DEVICE_BLOCK_CLOSE) ''dome opened'' d1)
      else if \<not> dome_isGoodWeather now d1 then (-1, d1)
      else
        let (ret, d2) = call_move StartOpen now (dr_startOpen dr) d1 in
        if ret \<noteq> 0 then (-1, d2)
        else (0, dome_mask opened_mask (DOME_OPENING OR BOP_EXPOSURE OR DEVICE_BLOCK_OPEN OR DEVICE_BLOCK_CLOSE)
                   ''opening dome'' (d2\<lparr>dm_closeFailReported := False\<rparr>)))"

text \<open>The timer is kept under its time; the map has one entry for each.\<close>

definition domeCloseStart :: "'a driver \<Rightarrow> int \<Rightarrow> 'a dome_scheme \<Rightarrow> int \<times> 'a dome_scheme" where
  "domeCloseStart dr now d =
     (let (cl, d1) = drive (dr_isClosed dr) (d\<lparr>dm_retries := []\<rparr>) in
      if cl = -2 then (0, dome_mask closed_mask (DOME_CLOSED OR DEVICE_BLOCK_OPEN) ''dome closed'' d1)
      else
        let (ret, d2) = call_move StartClose now (dr_startClose dr) d1 in
        if ret < 0 then (-1, d2\<lparr>dm_closeFailReported := True\<rparr>)
        else if ret > 0 then
          (0, let d3 = dome_mask (DOME_DOME_MASK OR BOP_EXPOSURE) DOME_WAIT_CLOSING
                        ''waiting for devices to move into a position safe for dome to close'' d2
              in d3\<lparr>dm_retries := [now + dm_closeRepeat d3]\<rparr>)
        else (0, dome_mask opened_mask (DOME_CLOSING OR DEVICE_BLOCK_OPEN OR DEVICE_BLOCK_CLOSE)
                   ''starting to close dome'' (d2\<lparr>dm_closeFailReported := False\<rparr>)))"

definition domeStop :: "'a driver \<Rightarrow> int \<Rightarrow> 'a dome_scheme \<Rightarrow> int \<times> 'a dome_scheme" where
  "domeStop dr now d =
     (let (ret, d1) = call_move StopMove now (dr_stop dr) (d\<lparr>dm_retries := []\<rparr>) in
      if ret < 0 then (-1, d1)
      else (0, dome_mask DOME_STOPPED_MASK DOME_STOPPED ''dome movement stopped'' d1))"

definition dome_part :: "'a dome_scheme \<Rightarrow> rts2_status" where
  "dome_part d = d_state d AND DOME_DOME_MASK"

text \<open>The end of \<open>checkOpening\<close>: a cupola that moves keeps its own pace.\<close>

definition cup_waits :: "'a dome_scheme \<Rightarrow> 'a dome_scheme" where
  "cup_waits d = (if d_state d AND DOME_CUP_MASK_MOVE = DOME_CUP_NOT_MOVE then setTimeout (10 * USEC_SEC) d else d)"

definition checkOpening :: "'a driver \<Rightarrow> 'a dome_scheme \<Rightarrow> 'a dome_scheme" where
  "checkOpening dr d =
     (if dome_part d = DOME_OPENING then
        (let (ret, d1) = drive (dr_isOpened dr) d in
         if ret \<ge> 0 then setTimeout ret d1
         else if ret = -1 then
           cup_waits (dome_mask opened_mask (DOME_OPENED OR DEVICE_BLOCK_CLOSE) ''dome opening interrupted''
             (dome_infoAll dr (snd (drive (dr_endOpen dr) (setTimeout (2 * USEC_SEC) d1)))))
         else if ret = -2 then
           (let (ret2, d2) = drive (dr_endOpen dr) (setTimeout (2 * USEC_SEC) d1) in
            cup_waits (dome_mask opened_mask (DOME_OPENED OR DEVICE_BLOCK_CLOSE)
              (if ret2 \<noteq> 0 then ''dome did not open properly'' else ''dome opened'') (dome_infoAll dr d2)))
         else cup_waits d1)
      else if dome_part d = DOME_CLOSING then
        (let (ret, d1) = drive (dr_isClosed dr) d in
         if ret \<ge> 0 then setTimeout ret d1
         else if ret = -1 then
           cup_waits (dome_mask closed_mask (DOME_CLOSED OR DEVICE_BLOCK_OPEN) ''closing finished with error''
             (dome_infoAll dr (snd (drive (dr_endClose dr) (setTimeout (10 * USEC_SEC) d1)))))
         else if ret = -2 then
           (let (ret2, d2) = drive (dr_endClose dr) (setTimeout (5 * USEC_SEC) d1) in
            cup_waits (dome_mask closed_mask (DOME_CLOSED OR DEVICE_BLOCK_OPEN)
              (if ret2 \<noteq> 0 then ''dome did not close propely'' else ''dome closed'') (dome_infoAll dr d2)))
         else cup_waits d1)
      else cup_waits d)"

section \<open>The state of the central server\<close>

definition auto_close :: "'a dome_scheme \<Rightarrow> bool" where
  "auto_close d \<longleftrightarrow> dm_domeAutoClose d = None \<or> dm_domeAutoClose d = Some True"

definition setMasterStandby :: "'a dome_scheme \<Rightarrow> 'a dome_scheme" where
  "setMasterStandby d =
     (if getMasterState d AND SERVERD_ONOFF_MASK = 0 \<and> getMasterState d AND SERVERD_STATUS_MASK \<noteq> SERVERD_UNKNOW
      then sendMasters ''standby'' d else d)"

definition setMasterOn :: "'a dome_scheme \<Rightarrow> 'a dome_scheme" where
  "setMasterOn d =
     (if getMasterState d AND SERVERD_ONOFF_MASK = SERVERD_STANDBY then sendMasters ''on'' d else d)"

definition closeDomeWeather :: "'a driver \<Rightarrow> int \<Rightarrow> 'a dome_scheme \<Rightarrow> int \<times> 'a dome_scheme" where
  "closeDomeWeather dr now d =
     (if \<not> getIgnoreMeteo now d then
        (let (ret, d1) = (if auto_close d then domeCloseStart dr now (snd (drive (dr_isClosed dr) d)) else (0, d))
         in (ret, setMasterStandby d1))
      else (0, d))"

definition observing :: "'a driver \<Rightarrow> int \<Rightarrow> 'a dome_scheme \<Rightarrow> int \<times> 'a dome_scheme" where
  "observing dr now d = (if auto_close d then domeOpenStart dr now d else (0, d))"

definition standby :: "'a driver \<Rightarrow> int \<Rightarrow> 'a dome_scheme \<Rightarrow> int \<times> 'a dome_scheme" where
  "standby dr now d =
     (let d1 = d\<lparr>dm_ignoreTimeout := now - USEC_SEC\<rparr> in if auto_close d1 then domeCloseStart dr now d1 else (0, d1))"

definition off :: "'a driver \<Rightarrow> int \<Rightarrow> 'a dome_scheme \<Rightarrow> int \<times> 'a dome_scheme" where
  "off dr now d =
     (let d1 = d\<lparr>dm_ignoreTimeout := now - USEC_SEC\<rparr> in if auto_close d1 then domeCloseStart dr now d1 else (0, d1))"

definition dome_changeMasterState ::
  "'a driver \<Rightarrow> int \<Rightarrow> rts2_status \<Rightarrow> rts2_status \<Rightarrow> 'a dome_scheme \<Rightarrow> 'a dome_scheme"
where
  "dome_changeMasterState dr now old new d =
     (let period = new AND SERVERD_STATUS_MASK in
      block_masterStateChanged
       (if old AND WEATHER_MASK = GOOD_WEATHER \<and> new AND WEATHER_MASK = BAD_WEATHER \<and> getIgnoreMeteo now d then d
        else if new AND SERVERD_ONOFF_MASK = SERVERD_STANDBY then
          snd (if period = SERVERD_EVENING \<or> period = SERVERD_DUSK \<or> period = SERVERD_NIGHT \<or> period = SERVERD_DAWN
               then standby dr now d else off dr now d)
        else if new AND SERVERD_ONOFF_MASK \<noteq> 0 then snd (off dr now d)
        else
          snd (if period = SERVERD_DUSK \<or> period = SERVERD_NIGHT \<or> period = SERVERD_DAWN then observing dr now d
               else if period = SERVERD_EVENING \<or> period = SERVERD_MORNING then standby dr now d
               else off dr now d)))"

section \<open>The idle loop and the commands\<close>

text \<open>A retry timer that is due is taken off and closes again.\<close>

definition dome_timer :: "'a driver \<Rightarrow> int \<Rightarrow> 'a dome_scheme \<Rightarrow> 'a dome_scheme" where
  "dome_timer dr now d =
     (case find (\<lambda>t. t < now) (dm_retries d) of
        None \<Rightarrow> d
      | Some t \<Rightarrow> snd (domeCloseStart dr now (d\<lparr>dm_retries := remove1 t (dm_retries d)\<rparr>)))"

definition device_idle :: "int \<Rightarrow> 'a dome_scheme \<Rightarrow> 'a dome_scheme" where
  "device_idle now d = block_idle_conns now d"

definition dome_idle :: "'a driver \<Rightarrow> int \<Rightarrow> 'a dome_scheme \<Rightarrow> 'a dome_scheme" where
  "dome_idle dr now d =
     (if now < dm_settle d then device_idle (now div USEC_SEC) d
      else
        let d1 = checkOpening dr d;
            d2 = (if dome_isGoodWeather now d1
                  then (if dm_weatherOpensDome d1 \<and> getMasterState d1 AND SERVERD_ONOFF_MASK = SERVERD_STANDBY
                        then setMasterOn d1 else d1)
                  else let (ret, e) = closeDomeWeather dr now d1 in if ret = -1 then setTimeout (10 * USEC_SEC) e else e);
            allCen = allCentraldRunning d2;
            d3 = (if allCen then d2\<lparr>dm_contact := now\<rparr> else d2);
            d4 = (if (allCen \<or> dm_contact d3 + DEF_CENTRALD_CONTACT_TIMEOUT * USEC_SEC > now) \<and> dm_nextGoodWeather d3 < now
                  then device_setWeatherState dome_chg True ''can open dome'' (nextGood_mask 0 d3)
                  else device_setWeatherState dome_chg False
                    (if allCen then ''waiting for next_open'' else ''some centrald are not connected'') d3)
        in device_idle (now div USEC_SEC) d4)"

text \<open>
  \<open>commandAuthorized\<close>; \<open>secs\<close> reads the number of \<open>close_for\<close> in microseconds (None for text
  that is no number), \<open>device_cmd\<close> are the commands of every device.
\<close>

definition ok_or_params :: "int \<times> 'd \<Rightarrow> int \<times> 'd" where
  "ok_or_params r = (if fst r = 0 then 0 else -2, snd r)"

definition dome_commandAuthorized ::
  "(string \<Rightarrow> int option) \<Rightarrow> (nat \<Rightarrow> string \<Rightarrow> string \<Rightarrow> 'a dome_scheme \<Rightarrow> int \<times> 'a dome_scheme) \<Rightarrow> 'a driver \<Rightarrow> int
    \<Rightarrow> nat \<Rightarrow> string \<Rightarrow> string \<Rightarrow> 'a dome_scheme \<Rightarrow> int \<times> 'a dome_scheme"
where
  "dome_commandAuthorized secs device_cmd dr now conn w b d =
     (if w = ''open'' then ok_or_params (domeOpenStart dr now d)
      else if w = ''close'' then ok_or_params (domeCloseStart dr now d)
      else if w = ''stop'' then ok_or_params (domeStop dr now d)
      else if w = ''close_for'' then
        (case paramNextString [] b of
           (None, r) \<Rightarrow> (-2, d)
         | (Some t, r) \<Rightarrow>
             (case secs t of
                None \<Rightarrow> (-2, d)
              | Some n \<Rightarrow>
                  if \<not> fst (paramEnd r) \<or> n < 0 then (-2, d)
                  else ok_or_params (domeCloseStart dr now (nextGood_mask RTS2_VALUE_ERROR (d\<lparr>dm_nextGoodWeather := now + n\<rparr>)))))
      else if w = ''reset_next'' then (0, nextGood_mask 0 (d\<lparr>dm_nextGoodWeather := now - USEC_SEC\<rparr>))
      else device_cmd conn w b d)"

section \<open>Runs\<close>

text \<open>The virtual functions of a dome, as the connections call them.\<close>

definition dome_hooks :: "'a driver \<Rightarrow> ('a dome_scheme) device_hooks" where
  "dome_hooks dr = \<lparr>dh_chg = dome_chg, dh_refresh = drive (dr_info dr), dh_refresh_base = (\<lambda>d. (0, d)),
     dh_more = (\<lambda>conn w b d. (-5, d))\<rparr>"

datatype dome_op =
    DomeIdle int
  | DomeTimer int
  | DomeCommand int nat string string
  | DomeMaster int rts2_status rts2_status
  | DomeIgnore int int
  | DomeWeather int int string

fun dome_step :: "(string \<Rightarrow> int option) \<Rightarrow> 'a driver \<Rightarrow> dome_op \<Rightarrow> 'a dome_scheme \<Rightarrow> 'a dome_scheme" where
  "dome_step secs dr (DomeIdle now) d = dome_idle dr now d"
| "dome_step secs dr (DomeTimer now) d = dome_timer dr now d"
| "dome_step secs dr (DomeCommand now conn w b) d =
     snd (dome_commandAuthorized secs (device_commandAuthorized (dome_hooks dr)) dr now conn w b d)"
| "dome_step secs dr (DomeMaster now old new) d = dome_changeMasterState dr now old new d"
| "dome_step secs dr (DomeIgnore now t) d = setIgnoreTimeout now t d"
| "dome_step secs dr (DomeWeather now t msg) d = setWeatherTimeout now t msg d"

definition dome_run :: "(string \<Rightarrow> int option) \<Rightarrow> 'a driver \<Rightarrow> dome_op list \<Rightarrow> 'a dome_scheme \<Rightarrow> 'a dome_scheme" where
  "dome_run secs dr ops d = fold (dome_step secs dr) ops d"

end
