(* ===== verification/Rts2_DomeRun.thy ===== *)
theory Rts2_DomeRun
  imports Rts2_Dome
begin

text \<open>
  Runs of the dome: the driver is told to open only in good weather, the bits that block the
  opening and closing sequence of the central server follow the state of the dome, bad weather
  closes the dome, and a driver that makes progress ends closed. The contract of a driver is a
  locale, interpreted on the driver of \<open>src/dome/dummy_cup.cpp\<close>.
\<close>

section \<open>What a change of the state word leaves alone\<close>

lemma doSetValue_more [simp]: "daemon.more (snd (doSetValue daemon_setValue i op new d)) = daemon.more d"
  by (simp add: doSetValue_def daemon_setValue_def valueChanged_def set_own_def sendValueAll_def map_conns_def Let_def
      split: option.splits prod.splits)

lemma check_que_more: "daemon.more (snd (check_que daemon_setValue s kept chg qs d)) = daemon.more d"
  by (induction qs arbitrary: kept chg d) (auto simp: Let_def split: option.split)

lemma more_lift: "daemon.more (d :: 'a device_scheme) = daemon.more e \<Longrightarrow> device.more d = device.more e"
  by (cases d rule: device.cases_scheme; cases e rule: device.cases_scheme) simp

lemma device_more_send [simp]:
  "device.more (sendAll m d) = device.more d" "device.more (sendAllExcept m c d) = device.more d"
  "device.more (on_conn i f d) = device.more d" "device.more (map_conns f d) = device.more d"
  "device.more (end_on i k m d) = device.more d"
  by (simp_all add: sendAll_def sendAllExcept_def on_conn_def map_conns_def end_on_def Let_def)

lemma device_more_sendStatus [simp]: "device.more (sendStatusMessage s desc conn d) = device.more d"
  by (simp add: sendStatusMessage_def Let_def split: option.split)

lemma device_more_fullBop [simp]: "device.more (setFullBopState maskq s d) = device.more d"
  by (simp add: setFullBopState_def sendBopMessage_def endDeviceStatusCommand_def Let_def split: option.split)

lemma device_more_chg [simp]: "device.more (device_stateChanged daemon_setValue maskq new old desc conn d) = device.more d"
proof -
  obtain ch e where r: "check_que daemon_setValue new [] False (d_queValues d) (d\<lparr>d_state := new\<rparr>) = (ch, e)" by force
  have "device.more e = device.more (d\<lparr>d_state := new\<rparr>)"
    using more_lift [OF check_que_more, of new "[]" False "d_queValues d" "d\<lparr>d_state := new\<rparr>"] r by simp
  with r show ?thesis
    by (simp add: device_stateChanged_def checkQueChanges_def daemon_stateChanged_def Let_def)
qed

lemma device_more_maskState [simp]:
  "device.more (maskState (device_stateChanged daemon_setValue maskq) m s desc st en conn d) = device.more d"
  by (simp add: maskState_def daemon_setState_def sendProgressAll_def Let_def)

lemma state_send [simp]:
  "d_state (sendAll m d) = d_state d" "d_state (sendAllExcept m c d) = d_state d"
  "d_state (on_conn i f d) = d_state d" "d_state (end_on i k m d) = d_state d"
  by (simp_all add: sendAll_def sendAllExcept_def on_conn_def map_conns_def end_on_def Let_def)

lemma check_que_state [simp]: "d_state (snd (check_que daemon_setValue s kept chg qs d)) = d_state d"
  by (induction qs arbitrary: kept chg d) (auto simp: Let_def doSetValue_quiet split: option.split)

lemma setFullBop_state [simp]: "d_state (setFullBopState maskq s d) = d_state d"
  by (simp add: setFullBopState_def sendBopMessage_def endDeviceStatusCommand_def Let_def split: option.split)

lemma chg_state [simp]: "d_state (device_stateChanged daemon_setValue maskq new old desc conn d) = new"
proof -
  obtain ch e where r: "check_que daemon_setValue new [] False (d_queValues d) (d\<lparr>d_state := new\<rparr>) = (ch, e)" by force
  then have "d_state e = new" using check_que_state [of new "[]" False "d_queValues d" "d\<lparr>d_state := new\<rparr>"] by simp
  with r show ?thesis
    by (simp add: device_stateChanged_def checkQueChanges_def daemon_stateChanged_def sendStatusMessage_def Let_def
        split: option.split)
qed

lemma maskState_state [simp]:
  "d_state (maskState (device_stateChanged daemon_setValue maskq) m s desc st en conn d)
    = masked (d_state d) (DEVICE_ERROR_MASK OR m) s"
  by (simp add: maskState_def daemon_setState_def sendProgressAll_def Let_def)

lemma same_more:
  assumes "device.more (d :: 'a dome_scheme) = device.more e"
  shows "dm_ignoreTimeout d = dm_ignoreTimeout e" "dm_nextGoodWeather d = dm_nextGoodWeather e"
    "dm_nextGood_error d = dm_nextGood_error e" "dm_weatherOpensDome d = dm_weatherOpensDome e"
    "dm_domeAutoClose d = dm_domeAutoClose e" "dm_settle d = dm_settle e" "dm_closeRepeat d = dm_closeRepeat e"
    "dm_retries d = dm_retries e" "dm_timeout d = dm_timeout e" "dm_calls d = dm_calls e" "dome.more d = dome.more e"
    "dm_contact d = dm_contact e"
  using assms by (cases d rule: dome.cases_scheme; cases e rule: dome.cases_scheme; simp)+

text \<open>The part of a dome the proofs below follow.\<close>

definition dome_view :: "'a dome_scheme \<Rightarrow> int \<times> int \<times> bool option \<times> int \<times> (dome_move \<times> bool) list \<times> 'a" where
  "dome_view d = (dm_ignoreTimeout d, dm_nextGoodWeather d, dm_domeAutoClose d, dm_settle d, dm_calls d, dome.more d)"

lemma view_of_more: "device.more d = device.more e \<Longrightarrow> dome_view d = dome_view e"
  unfolding dome_view_def by (simp add: same_more [of d e])

lemma dome_mask_view [simp]:
  "dome_view (dome_mask m s desc d) = dome_view d"
  "d_state (dome_mask m s desc d) = masked (d_state d) (DEVICE_ERROR_MASK OR m) s"
  unfolding dome_mask_def dome_chg_def by (auto intro: view_of_more)

lemma sendMasters_frame [simp]:
  "device.more (sendMasters w d) = device.more d" "d_state (sendMasters w d) = d_state d"
  "device.more (d\<lparr>dv_last_weathermsg := m\<rparr>) = device.more d"
  by (simp_all add: sendMasters_def)

lemma weather_view [simp]:
  "dome_view (device_setWeatherState dome_chg good msg d) = dome_view d"
  "d_state (device_setWeatherState dome_chg good msg d)
    = masked (d_state d) (DEVICE_ERROR_MASK OR WEATHER_MASK) (if good then GOOD_WEATHER else BAD_WEATHER)"
  unfolding device_setWeatherState_def dome_chg_def Let_def daemon_setWeatherState_def
  by (auto intro!: view_of_more)

lemma idle_frame [simp]:
  "device.more (block_idle_conns now (d :: 'a device_scheme)) = device.more d" "d_state (block_idle_conns now e) = d_state e"
  "device.more (block_masterStateChanged d) = device.more d" "d_state (block_masterStateChanged e) = d_state e"
  by (simp_all add: block_idle_conns_def block_masterStateChanged_def map_conns_def Let_def)

lemma idle_view [simp]: "dome_view (device_idle now d) = dome_view d" "d_state (device_idle now d) = d_state d"
  unfolding device_idle_def by (auto intro: view_of_more)

lemma masterStateChanged_view [simp]: "dome_view (block_masterStateChanged d) = dome_view d"
  by (auto intro: view_of_more)

lemma sendMasters_view [simp]: "dome_view (sendMasters w d) = dome_view d"
  by (auto intro: view_of_more)

section \<open>The bits the opening sequence reads\<close>

text \<open>
  The state of the dome with the two bits: a closed dome asks to be opened first, an open one to
  be closed first, a moving one blocks both.
\<close>

definition shutter :: "'a dome_scheme \<Rightarrow> rts2_status" where
  "shutter d = d_state d AND closed_mask"

definition shutter_ok :: "rts2_status \<Rightarrow> bool" where
  "shutter_ok w \<longleftrightarrow> w = DOME_UNKNOW \<or> w = DOME_CLOSED OR DEVICE_BLOCK_OPEN \<or> w = DOME_OPENED OR DEVICE_BLOCK_CLOSE
     \<or> w = DOME_OPENING OR DEVICE_BLOCK_OPEN OR DEVICE_BLOCK_CLOSE
     \<or> w = DOME_CLOSING OR DEVICE_BLOCK_OPEN OR DEVICE_BLOCK_CLOSE
     \<or> w AND DOME_DOME_MASK = DOME_WAIT_CLOSING"

lemma shutter_drive [simp]:
  "d_state (snd (drive f d)) = d_state d" "drive f d = (r, e) \<Longrightarrow> d_state e = d_state d"
  "shutter (snd (drive f d)) = shutter d" "drive f d = (r, e) \<Longrightarrow> shutter e = shutter d"
  by (auto simp: drive_def shutter_def split: prod.splits)

lemma shutter_fields [simp]:
  "shutter (d\<lparr>dm_retries := x\<rparr>) = shutter d" "shutter (d\<lparr>dm_calls := c\<rparr>) = shutter d"
  "shutter (d\<lparr>dm_closeFailReported := b\<rparr>) = shutter d" "shutter (d\<lparr>dm_timeout := y\<rparr>) = shutter d"
  "shutter (d\<lparr>dm_ignoreTimeout := y\<rparr>) = shutter d" "shutter (d\<lparr>dm_contact := y\<rparr>) = shutter d"
  "shutter (d\<lparr>dm_nextGoodWeather := y\<rparr>) = shutter d" "shutter (nextGood_mask k d) = shutter d"
  "shutter (setTimeout y d) = shutter d" "shutter (d\<lparr>dm_announced := a\<rparr>) = shutter d"
  by (simp_all add: shutter_def nextGood_mask_def setTimeout_def)

lemma shutter_frame [simp]:
  "shutter (device_setWeatherState dome_chg good msg d) = shutter d" "shutter (device_idle now d) = shutter d"
  "shutter (block_masterStateChanged d) = shutter d" "shutter (sendMasters w d) = shutter d"
  "shutter (setMasterStandby d) = shutter d" "shutter (setMasterOn d) = shutter d"
  by (simp_all add: shutter_def masked_outside status_bits setMasterStandby_def setMasterOn_def)

lemma shutter_mask:
  "shutter (dome_mask opened_mask w desc d) = w AND closed_mask"
  "shutter (dome_mask closed_mask w desc d) = w AND closed_mask"
  "shutter (dome_mask DOME_STOPPED_MASK DOME_STOPPED desc d) = shutter d"
  "shutter (dome_mask (DOME_DOME_MASK OR BOP_EXPOSURE) DOME_WAIT_CLOSING desc d) AND DOME_DOME_MASK = DOME_WAIT_CLOSING"
  by (simp_all add: shutter_def masked_inside masked_outside status_bits and.assoc)

lemma shutter_ok_values [simp]:
  "shutter_ok ((DOME_CLOSED OR DEVICE_BLOCK_OPEN) AND closed_mask)"
  "shutter_ok ((DOME_OPENED OR DEVICE_BLOCK_CLOSE) AND closed_mask)"
  "shutter_ok ((DOME_CLOSING OR DEVICE_BLOCK_OPEN OR DEVICE_BLOCK_CLOSE) AND closed_mask)"
  "shutter_ok ((DOME_OPENING OR BOP_EXPOSURE OR DEVICE_BLOCK_OPEN OR DEVICE_BLOCK_CLOSE) AND closed_mask)"
  by (simp_all add: shutter_ok_def status_bits)

lemma infoAll_state [simp]:
  "d_state (snd (infoAll (drive f) run d)) = d_state d"
  by (auto simp: infoAll_def Let_def split: prod.split)

lemma shutter_infoAll [simp]: "shutter (dome_infoAll dr d) = shutter d"
  by (simp add: shutter_def dome_infoAll_def)

lemma open_shutter: "shutter_ok (shutter d) \<Longrightarrow> shutter_ok (shutter (snd (domeOpenStart dr now d)))"
  by (auto simp: domeOpenStart_def call_move_def shutter_mask Let_def split: prod.split)

lemma close_shutter: "shutter_ok (shutter d) \<Longrightarrow> shutter_ok (shutter (snd (domeCloseStart dr now d)))"
proof -
  assume a: "shutter_ok (shutter d)"
  have w: "shutter_ok (shutter (dome_mask (DOME_DOME_MASK OR BOP_EXPOSURE) DOME_WAIT_CLOSING s e))" for s e
    by (simp add: shutter_ok_def shutter_mask)
  show ?thesis
    using a by (auto simp: domeCloseStart_def call_move_def shutter_mask w Let_def split: prod.split)
qed

lemma stop_shutter: "shutter_ok (shutter d) \<Longrightarrow> shutter_ok (shutter (snd (domeStop dr now d)))"
  by (auto simp: domeStop_def call_move_def shutter_mask Let_def split: prod.split)

lemma shutter_cup [simp]: "shutter (cup_waits d) = shutter d" "d_state (cup_waits d) = d_state d"
  by (simp_all add: cup_waits_def setTimeout_def)

lemma checkOpening_shutter: "shutter_ok (shutter d) \<Longrightarrow> shutter_ok (shutter (checkOpening dr d))"
  by (simp add: checkOpening_def shutter_mask split: prod.split)

lemma closeWeather_shutter: "shutter_ok (shutter d) \<Longrightarrow> shutter_ok (shutter (snd (closeDomeWeather dr now d)))"
  using close_shutter [of "snd (drive (dr_isClosed dr) d)" dr now]
  by (auto simp: closeDomeWeather_def split: prod.split)

lemma idle_shutter: "shutter_ok (shutter d) \<Longrightarrow> shutter_ok (shutter (dome_idle dr now d))"
  using checkOpening_shutter [of d dr] closeWeather_shutter [of "checkOpening dr d" dr now]
  by (auto simp: dome_idle_def Let_def split: prod.split)

lemma timer_shutter: "shutter_ok (shutter d) \<Longrightarrow> shutter_ok (shutter (dome_timer dr now d))"
  by (simp add: dome_timer_def close_shutter split: option.split)

lemma master_shutter: "shutter_ok (shutter d) \<Longrightarrow> shutter_ok (shutter (dome_changeMasterState dr now old new d))"
  by (simp add: dome_changeMasterState_def standby_def off_def observing_def close_shutter open_shutter Let_def)

section \<open>Commands that every device has\<close>

lemma fold_map_conns_state [simp]: "d_state (fold (\<lambda>x. map_conns (f x)) xs d) = d_state d"
  by (induction xs arbitrary: d) (simp_all add: map_conns_def)

lemma sends_state [simp]:
  "d_state (deleteTemporaryValues d) = d_state d" "d_state (sendValueDeleteAll v d) = d_state d"
  "d_state (snd (deleteValue n d)) = d_state d" "d_state (map_conns f d) = d_state d"
  by (simp_all add: deleteTemporaryValues_def sendValueDeleteAll_def deleteValue_def map_conns_def Let_def)

lemma info_state [simp]:
  "d_state (snd (info_conn (drive f) conn d)) = d_state d" "d_state (snd (baseInfo_conn (\<lambda>d. (0, d)) conn d)) = d_state d"
  by (auto simp: info_conn_def baseInfo_conn_def Let_def split: prod.split)

lemma killAll_shutter: "shutter (snd (killAll dome_chg scriptEnds b d)) = shutter d"
  by (simp add: shutter_def killAll_def scriptEnds_def dome_chg_def masked_outside status_bits Let_def)

lemma que_status_state [simp]: "d_state (queDeviceStatusCommand conn d) = d_state d"
  by (simp add: queDeviceStatusCommand_def split: list.split)

lemma device_command_shutter [simp]:
  "shutter (snd (device_commandAuthorized (dome_hooks dr) conn w b d)) = shutter d"
proof -
  have "w = ''killall'' \<or> w = ''killall_wse'' \<or>
    d_state (snd (device_commandAuthorized (dome_hooks dr) conn w b d)) = d_state d"
    by (simp add: device_commandAuthorized_def dome_hooks_def scriptEnds_def split: prod.split option.split)
  then show ?thesis
  proof (elim disjE)
    assume "w = ''killall''"
    then show ?thesis by (simp add: device_commandAuthorized_def dome_hooks_def killAll_shutter)
  next
    assume "w = ''killall_wse''"
    then show ?thesis by (simp add: device_commandAuthorized_def dome_hooks_def killAll_shutter)
  qed (simp add: shutter_def)
qed

lemma command_shutter:
  "shutter_ok (shutter d) \<Longrightarrow> shutter_ok (shutter (snd (dome_commandAuthorized secs
     (device_commandAuthorized (dome_hooks dr)) dr now conn w b d)))"
  by (auto simp: dome_commandAuthorized_def ok_or_params_def open_shutter close_shutter stop_shutter
      split: prod.split option.split)

lemma step_shutter: "shutter_ok (shutter d) \<Longrightarrow> shutter_ok (shutter (dome_step secs dr op d))"
  by (cases op) (auto simp: idle_shutter timer_shutter command_shutter master_shutter setIgnoreTimeout_def
      setWeatherTimeout_def Let_def)

text \<open>C5: whatever happens to a dome, and whatever its driver answers, the bits from which the central
  server builds its opening and closing sequence fit the state of the dome: a closed one blocks
  the opening only, an open one the closing only, and a moving one both.\<close>

theorem block_bits_follow_dome:
  assumes "shutter_ok (shutter d)"
  shows "shutter_ok (shutter (dome_run secs dr ops d))"
  using assms unfolding dome_run_def by (induction ops arbitrary: d) (simp_all add: step_shutter)

section \<open>Bad weather closes the dome\<close>

lemma dome_mask_fields [simp]:
  "dm_ignoreTimeout (dome_mask m s desc d) = dm_ignoreTimeout d" "dm_domeAutoClose (dome_mask m s desc d) = dm_domeAutoClose d"
  "dm_settle (dome_mask m s desc d) = dm_settle d" "dome.more (dome_mask m s desc d) = dome.more d"
  using dome_mask_view(1) [of m s desc d] by (simp_all add: dome_view_def)

lemma infoAll_more: "device.more (snd (infoAll f run d)) = device.more (snd (f d))"
  by (auto simp: infoAll_def Let_def split: prod.split)

lemma dome_infoAll_fields [simp]:
  "dm_ignoreTimeout (dome_infoAll dr d) = dm_ignoreTimeout d" "dm_domeAutoClose (dome_infoAll dr d) = dm_domeAutoClose d"
  "dm_settle (dome_infoAll dr d) = dm_settle d"
  using same_more [OF infoAll_more [of "drive (dr_info dr)" "device_isRunning d" d]]
  by (simp_all add: dome_infoAll_def drive_def split: prod.splits)

lemma drive_fields:
  "drive f d = (r, e) \<Longrightarrow> dm_ignoreTimeout e = dm_ignoreTimeout d \<and> dm_domeAutoClose e = dm_domeAutoClose d
    \<and> dm_settle e = dm_settle d \<and> r = fst (f d) \<and> dome.more e = snd (f d)"
  by (auto simp: drive_def split: prod.splits)

lemma checkOpening_fields [simp]:
  "dm_ignoreTimeout (checkOpening dr d) = dm_ignoreTimeout d" "dm_domeAutoClose (checkOpening dr d) = dm_domeAutoClose d"
  "dm_settle (checkOpening dr d) = dm_settle d"
proof -
  have f: "dm_ignoreTimeout (snd (drive g e)) = dm_ignoreTimeout e" "dm_domeAutoClose (snd (drive g e)) = dm_domeAutoClose e"
    "dm_settle (snd (drive g e)) = dm_settle e" for g and e :: "'a dome_scheme"
    using drive_fields [of g e "fst (drive g e)" "snd (drive g e)"] by simp_all
  show "dm_ignoreTimeout (checkOpening dr d) = dm_ignoreTimeout d" "dm_domeAutoClose (checkOpening dr d) = dm_domeAutoClose d"
    "dm_settle (checkOpening dr d) = dm_settle d"
    by (simp_all add: checkOpening_def cup_waits_def setTimeout_def case_prod_unfold Let_def f)
qed

lemma part_shutter: "dome_part d = shutter d AND DOME_DOME_MASK"
  by (simp add: dome_part_def shutter_def and.assoc status_bits)

lemma part_mask:
  "dome_part (dome_mask closed_mask (DOME_CLOSED OR DEVICE_BLOCK_OPEN) s e) = DOME_CLOSED"
  "dome_part (dome_mask opened_mask (DOME_CLOSING OR DEVICE_BLOCK_OPEN OR DEVICE_BLOCK_CLOSE) s e) = DOME_CLOSING"
  "dome_part (dome_mask (DOME_DOME_MASK OR BOP_EXPOSURE) DOME_WAIT_CLOSING s e) = DOME_WAIT_CLOSING"
  by (simp_all add: dome_part_def masked_inside status_bits)

lemma part_fields [simp]: "dome_part (d\<lparr>dm_retries := x\<rparr>) = dome_part d"
  by (simp add: dome_part_def)

lemma close_part:
  assumes "\<forall>e. 0 \<le> fst (dr_startClose dr e)"
  shows "dome_part (snd (domeCloseStart dr now d)) \<in> {DOME_CLOSED, DOME_CLOSING, DOME_WAIT_CLOSING}"
proof -
  have "0 \<le> fst (drive (dr_startClose dr) e)" for e
    using assms by (simp add: drive_def case_prod_unfold)
  then have "\<not> fst (drive (dr_startClose dr) e) < 0" for e by (simp add: not_less)
  then show ?thesis
    by (simp add: domeCloseStart_def call_move_def case_prod_unfold Let_def part_mask)
qed


section \<open>A driver that gets on closes the dome\<close>

lemma settle_frame [simp]:
  "dm_settle (snd (drive f d)) = dm_settle d" "dm_settle (setTimeout x d) = dm_settle d"
  "dm_settle (nextGood_mask k d) = dm_settle d" "dm_settle (device_setWeatherState dome_chg good msg d) = dm_settle d"
  "dm_settle (device_idle now d) = dm_settle d" "dm_settle (setMasterStandby d) = dm_settle d"
  "dm_settle (setMasterOn d) = dm_settle d"
  using weather_view(1) [of good msg d] idle_view(1) [of now d] sendMasters_view [of "''standby''" d]
    sendMasters_view [of "''on''" d] drive_fields [of f d "fst (drive f d)" "snd (drive f d)"]
  by (simp_all add: dome_view_def setTimeout_def nextGood_mask_def setMasterStandby_def setMasterOn_def)

lemma settle_close [simp]: "dm_settle (snd (domeCloseStart dr now d)) = dm_settle d"
  by (simp add: domeCloseStart_def call_move_def case_prod_unfold Let_def)

lemma settle_idle [simp]: "dm_settle (dome_idle dr now d) = dm_settle d"
  by (simp add: dome_idle_def closeDomeWeather_def case_prod_unfold Let_def)

text \<open>The part of an idle round that moves the dome.\<close>

definition idle_mid :: "'a driver \<Rightarrow> int \<Rightarrow> 'a dome_scheme \<Rightarrow> 'a dome_scheme" where
  "idle_mid dr now d =
     (let d1 = checkOpening dr d in if dome_isGoodWeather now d1 then d1 else snd (closeDomeWeather dr now d1))"

lemma view_more [simp]:
  "dome.more (device_setWeatherState dome_chg good msg d) = dome.more d" "dome.more (device_idle now d) = dome.more d"
  "dome.more (sendMasters w d) = dome.more d" "dome.more (nextGood_mask k d) = dome.more d"
  "dome.more (setMasterStandby d) = dome.more d" "dome.more (setMasterOn d) = dome.more d"
  "dome.more (setTimeout x d) = dome.more d"
  using weather_view(1) [of good msg d] idle_view(1) [of now d] sendMasters_view [of w d]
    sendMasters_view [of "''standby''" d] sendMasters_view [of "''on''" d]
  by (simp_all add: dome_view_def nextGood_mask_def setMasterStandby_def setMasterOn_def setTimeout_def)

lemma idle_mid:
  assumes "dm_settle d \<le> now"
  shows "dome_part (dome_idle dr now d) = dome_part (idle_mid dr now d)"
    "dome.more (dome_idle dr now d) = dome.more (idle_mid dr now d)"
  using assms by (simp_all add: part_shutter dome_idle_def idle_mid_def case_prod_unfold Let_def)

locale closing_driver =
  fixes dr :: "'a driver" and left :: "'a dome_scheme \<Rightarrow> nat"
  assumes left_more: "dome.more d = dome.more e \<Longrightarrow> left d = left e"
    and gets_on: "dome_part d = DOME_CLOSING \<Longrightarrow> fst (dr_isClosed dr d) \<noteq> -2 \<Longrightarrow>
      0 \<le> fst (dr_isClosed dr d) \<and> left (snd (drive (dr_isClosed dr) d)) < left d"
    and never_back: "dome_part d = DOME_CLOSING \<Longrightarrow> left (snd (drive (dr_isClosed dr) d)) \<le> left d"
    and goes_on: "dome_part d = DOME_CLOSING \<Longrightarrow>
      fst (dr_startClose dr d) = 0 \<and> left (snd (drive (dr_startClose dr) d)) \<le> left d"
    and stays_closed: "dome_part d = DOME_CLOSED \<Longrightarrow> fst (dr_isClosed dr d) = -2"
begin

lemma drive_ret: "fst (drive f d) = fst (f d)"
  by (simp add: drive_def case_prod_unfold)

lemma left_same [simp]:
  "left (d\<lparr>dm_retries := r\<rparr>) = left d" "left (dome_mask m s desc d) = left d" "left (setTimeout x d) = left d"
  "left (cup_waits d) = left d" "left (setMasterStandby d) = left d" "left (d\<lparr>dm_closeFailReported := b\<rparr>) = left d"
  "left (d\<lparr>dm_calls := c\<rparr>) = left d"
  by (rule left_more; simp add: cup_waits_def)+

lemma left_idle: "dm_settle d \<le> now \<Longrightarrow> left (dome_idle dr now d) = left (idle_mid dr now d)"
  by (rule left_more) (rule idle_mid)

lemma drive_part [simp]: "dome_part (snd (drive f d)) = dome_part d"
  by (simp add: part_shutter)

lemma closing_not_opening: "DOME_CLOSING \<noteq> DOME_OPENING" "DOME_CLOSED \<noteq> DOME_OPENING" "DOME_CLOSED \<noteq> DOME_CLOSING"
  by (simp_all add: status_bits)

lemma part_same [simp]:
  "dome_part (setTimeout x d) = dome_part d" "dome_part (cup_waits d) = dome_part d"
  "dome_part (setMasterStandby d) = dome_part d" "dome_part (dome_infoAll dr d) = dome_part d"
  by (simp_all add: part_shutter)

lemma close_closed: "dome_part d = DOME_CLOSED \<Longrightarrow> dome_part (snd (domeCloseStart dr now d)) = DOME_CLOSED"
  using stays_closed [of "d\<lparr>dm_retries := []\<rparr>"]
  by (simp add: domeCloseStart_def case_prod_unfold Let_def part_mask drive_ret)

lemma weather_closed:
  assumes "dome_part d = DOME_CLOSED"
  shows "dome_part (snd (closeDomeWeather dr now d)) = DOME_CLOSED"
  using assms close_closed [of "snd (drive (dr_isClosed dr) d)" now]
  by (simp add: closeDomeWeather_def case_prod_unfold Let_def)

lemma mid_closed: "dome_part (checkOpening dr d) = DOME_CLOSED \<Longrightarrow> dome_part (idle_mid dr now d) = DOME_CLOSED"
  by (simp add: idle_mid_def weather_closed Let_def)

lemma check_closing:
  assumes "dome_part d = DOME_CLOSING"
  shows "dome_part (checkOpening dr d) = DOME_CLOSED
    \<or> (dome_part (checkOpening dr d) = DOME_CLOSING \<and> left (checkOpening dr d) < left d)"
proof (cases "fst (dr_isClosed dr d) = -2")
  case True
  then show ?thesis
    using assms by (simp add: checkOpening_def case_prod_unfold Let_def closing_not_opening drive_ret part_mask)
next
  case False
  then show ?thesis
    using assms gets_on [OF assms False]
    by (simp add: checkOpening_def case_prod_unfold Let_def closing_not_opening drive_ret)
qed

lemma close_closing:
  assumes "dome_part d = DOME_CLOSING"
  shows "dome_part (snd (domeCloseStart dr now d)) = DOME_CLOSED
    \<or> (dome_part (snd (domeCloseStart dr now d)) = DOME_CLOSING
       \<and> left (snd (domeCloseStart dr now d)) \<le> left d)"
proof -
  let ?d0 = "d\<lparr>dm_retries := []\<rparr>"
  let ?d1 = "snd (drive (dr_isClosed dr) ?d0)"
  let ?d2 = "?d1\<lparr>dm_calls := dm_calls ?d1 @ [(StartClose, dome_isGoodWeather now ?d1)]\<rparr>"
  have p: "dome_part ?d0 = DOME_CLOSING" "dome_part ?d2 = DOME_CLOSING" using assms by (simp_all add: part_shutter)
  have "left (snd (drive (dr_startClose dr) ?d2)) \<le> left d"
    using goes_on [OF p(2)] never_back [OF p(1)] by simp
  then show ?thesis
    using goes_on [OF p(2)]
    by (simp add: domeCloseStart_def call_move_def case_prod_unfold Let_def part_mask drive_ret)
qed

lemma weather_closing:
  assumes "dome_part d = DOME_CLOSING"
  shows "dome_part (snd (closeDomeWeather dr now d)) = DOME_CLOSED
    \<or> (dome_part (snd (closeDomeWeather dr now d)) = DOME_CLOSING
       \<and> left (snd (closeDomeWeather dr now d)) \<le> left d)"
proof -
  let ?e = "snd (drive (dr_isClosed dr) d)"
  have e: "dome_part ?e = DOME_CLOSING" "left ?e \<le> left d"
    using assms never_back [OF assms] by (simp_all add: drive_ret)
  show ?thesis
    using close_closing [OF e(1), of now] e(2) assms by (auto simp: closeDomeWeather_def case_prod_unfold Let_def)
qed

lemma mid_closing:
  assumes "dome_part d = DOME_CLOSING"
  shows "dome_part (idle_mid dr now d) = DOME_CLOSED
    \<or> (dome_part (idle_mid dr now d) = DOME_CLOSING \<and> left (idle_mid dr now d) < left d)"
  using check_closing [OF assms]
proof
  assume "dome_part (checkOpening dr d) = DOME_CLOSED"
  then show ?thesis by (simp add: mid_closed)
next
  assume c: "dome_part (checkOpening dr d) = DOME_CLOSING \<and> left (checkOpening dr d) < left d"
  then show ?thesis
    using weather_closing [of "checkOpening dr d" now] by (auto simp: idle_mid_def Let_def)
qed

lemma closed_keeps:
  assumes "dome_part d = DOME_CLOSED"
  shows "dome_part (dome_idle dr now d) = DOME_CLOSED"
proof (cases "dm_settle d \<le> now")
  case True
  have "dome_part (checkOpening dr d) = DOME_CLOSED"
    using assms by (simp add: checkOpening_def closing_not_opening)
  then show ?thesis using True by (simp add: idle_mid mid_closed)
next
  case False
  then show ?thesis using assms by (simp add: dome_idle_def part_shutter)
qed

lemma closes:
  assumes "dome_part d = DOME_CLOSING" "\<forall>t \<in> set ts. dm_settle d \<le> t" "left d < length ts"
  shows "dome_part (fold (dome_idle dr) ts d) = DOME_CLOSED"
  using assms
proof (induction ts arbitrary: d)
  case (Cons t ts)
  have stay: "dome_part e = DOME_CLOSED \<Longrightarrow> dome_part (fold (dome_idle dr) ts e) = DOME_CLOSED" for e
    by (induction ts arbitrary: e) (simp_all add: closed_keeps)
  let ?e = "dome_idle dr t d"
  have "dome_part ?e = DOME_CLOSED \<or> (dome_part ?e = DOME_CLOSING \<and> left ?e < left d)"
    using mid_closing [OF Cons.prems(1), of t] Cons.prems(2) by (simp add: idle_mid left_idle)
  then show ?case
    using Cons.IH [of ?e] Cons.prems stay by auto
qed simp

end

end
