(* ===== verification/Rts2_DummyDome.thy ===== *)
theory Rts2_DummyDome
  imports Rts2_DomeRun
begin

text \<open>
  The driver of \<open>src/dome/dummy_cup.cpp\<close>, which counts the steps of a movement, and what the
  runs of a dome mean for it; and what the central server makes of a closing that failed.
\<close>

section \<open>The driver\<close>

record dummy_dome = dome +
  mcount :: int
  moveCountTop :: int

type_synonym 'a dummy_call = "'a dummy_dome_scheme \<Rightarrow> int \<times> 'a dummy_dome_ext"

definition isMoving :: "'a dummy_call" where
  "isMoving d =
     (if mcount d \<ge> moveCountTop d then (-2, dome.more d) else (USEC_SEC, dome.more (d\<lparr>mcount := mcount d + 1\<rparr>)))"

definition dummy_startOpen :: "'a dummy_call" where
  "dummy_startOpen d = (0, if dome_part d = DOME_OPENING then dome.more d else dome.more (d\<lparr>mcount := 0\<rparr>))"

definition dummy_isOpened :: "'a dummy_call" where
  "dummy_isOpened d = (if dome_part d = DOME_CLOSED then (0, dome.more d) else isMoving d)"

definition dummy_startClose :: "'a dummy_call" where
  "dummy_startClose d = (0, if dome_part d = DOME_CLOSING then dome.more d else dome.more (d\<lparr>mcount := 0\<rparr>))"

definition dummy_isClosed :: "'a dummy_call" where
  "dummy_isClosed d =
     (if dome_part d = DOME_OPENED then (0, dome.more d)
      else if dome_part d = DOME_CLOSED then (-2, dome.more d) else isMoving d)"

definition dummy_driver :: "('a dummy_dome_ext) driver" where
  "dummy_driver = \<lparr>dr_startOpen = dummy_startOpen, dr_isOpened = dummy_isOpened, dr_endOpen = (\<lambda>d. (0, dome.more d)),
     dr_startClose = dummy_startClose, dr_isClosed = dummy_isClosed, dr_endClose = (\<lambda>d. (0, dome.more d)),
     dr_stop = (\<lambda>d. (-1, dome.more d)), dr_info = (\<lambda>d. (0, dome.more d))\<rparr>"

text \<open>The steps that are left of a movement.\<close>

definition steps_left :: "'a dummy_dome_scheme \<Rightarrow> nat" where
  "steps_left d = nat (moveCountTop d - mcount d)"

lemma steps_left_more: "dome.more d = dome.more e \<Longrightarrow> steps_left d = steps_left e"
  by (cases d rule: dummy_dome.cases_scheme; cases e rule: dummy_dome.cases_scheme) (simp add: steps_left_def)

lemma dummy_isClosed_steps:
  "fst (dummy_isClosed d) \<noteq> -2 \<Longrightarrow> dome_part d = DOME_CLOSING \<Longrightarrow>
     0 \<le> fst (dummy_isClosed d) \<and> steps_left (snd (drive dummy_isClosed d)) < steps_left d"
  "dome_part d = DOME_CLOSING \<Longrightarrow> steps_left (snd (drive dummy_isClosed d)) \<le> steps_left d"
  by (cases d rule: dummy_dome.cases_scheme;
      auto simp: drive_def dummy_isClosed_def isMoving_def steps_left_def USEC_SEC_def status_bits)+

interpretation dummy: closing_driver dummy_driver steps_left
proof (unfold_locales, goal_cases)
  case (1 d e)
  then show ?case by (rule steps_left_more)
next
  case (2 d)
  then show ?case using dummy_isClosed_steps(1) by (simp add: dummy_driver_def)
next
  case (3 d)
  then show ?case using dummy_isClosed_steps(2) by (simp add: dummy_driver_def)
next
  case (4 d)
  then have "drive dummy_startClose d = (0, d)"
    by (cases d rule: dummy_dome.cases_scheme) (simp add: drive_def dummy_startClose_def)
  then show ?case using 4 by (simp add: dummy_driver_def dummy_startClose_def)
next
  case (5 d)
  then show ?case by (simp add: dummy_driver_def dummy_isClosed_def status_bits)
qed

definition example_dome :: "rts2_status \<Rightarrow> int \<Rightarrow> dummy_dome" where
  "example_dome s n = device.extend (example_device s)
     \<lparr>dm_ignoreTimeout = 0, dm_nextGoodWeather = 0, dm_nextGood_error = 0, dm_weatherOpensDome = False,
      dm_domeAutoClose = None, dm_closeFailReported = False, dm_contact = 0, dm_settle = 0, dm_closeRepeat = 3 * USEC_SEC,
      dm_retries = [], dm_timeout = 0, dm_announced = [], dm_calls = [], mcount = 0, moveCountTop = n\<rparr>"

lemma example_dome_fields [simp]:
  "d_state (example_dome s n) = s" "dm_settle (example_dome s n) = 0" "dm_ignoreTimeout (example_dome s n) = 0"
  "dm_domeAutoClose (example_dome s n) = None" "mcount (example_dome s n) = 0" "moveCountTop (example_dome s n) = n"
  "bl_centraldConns (example_dome s n) = []"
  by (simp_all add: example_dome_def device.defs example_device_def addValue_def example_daemon_def
      block.defs daemon.defs new_Block_def)



theorem block_bits_follow_dome_witness:
  "shutter_ok (shutter (dome_run (\<lambda>t. None) dummy_driver [DomeCommand 5 1 ''close'' '''', DomeIdle 6, DomeCommand 7 1 ''killall'' '''',
     DomeMaster 8 SERVERD_NIGHT SERVERD_HARD_OFF] (example_dome (DOME_OPENED OR DEVICE_BLOCK_CLOSE) 2)))"
  by (rule block_bits_follow_dome) (simp add: shutter_def shutter_ok_def status_bits)

lemma example_checkOpening:
  "checkOpening dummy_driver (example_dome (DOME_OPENED OR DEVICE_BLOCK_CLOSE) n)
    = setTimeout (10 * USEC_SEC) (example_dome (DOME_OPENED OR DEVICE_BLOCK_CLOSE) n)"
  by (simp add: checkOpening_def cup_waits_def dome_part_def status_bits)

lemma example_startClose: "fst (dr_startClose dummy_driver e) = 0"
  by (simp add: dummy_driver_def dummy_startClose_def)


section \<open>A closing that failed, as the central server sees it\<close>



end
