(* ===== verification/Rts2_Filterd.thy ===== *)
theory Rts2_Filterd
  imports Rts2_DummyDome
begin

text \<open>
  The filter wheel (\<open>lib/rts2/filterd.cpp\<close>, \<open>include/filterd.h\<close>) and the mirror
  (\<open>lib/rts2/mirror.cpp\<close>): devices that move between named positions when a selection is set.

  The selections are values of the daemon, known by their ids. The virtual \<open>setFilterNum\<close> and
  \<open>getFilterNum\<close> of a driver are parameters, which keep their state in the extension of the
  record. Setting the selection changes the state of the device, which frees queued changes,
  which may set the selection again: \<open>k\<close> bounds this nesting.
\<close>

section \<open>State\<close>

record filterd = device +
  fw_filter :: nat
  fw_default :: "nat option"
  fw_daytime :: "nat option"

text \<open>The integer of an own value, and \<open>setValueInteger\<close> on it.\<close>

definition own_int :: "nat \<Rightarrow> 'a daemon_scheme \<Rightarrow> int" where
  "own_int i d = (case cond_of i d of Some cv \<Rightarrow> getValueInteger (cv_value cv) | None \<Rightarrow> -1)"

definition set_own_int :: "nat \<Rightarrow> int \<Rightarrow> 'a daemon_scheme \<Rightarrow> 'a daemon_scheme" where
  "set_own_int i n d = (case cond_of i d of Some cv \<Rightarrow> set_own i (snd (setValueInteger n (cv_value cv))) d | None \<Rightarrow> d)"

definition add_sel :: "nat \<Rightarrow> string \<Rightarrow> 'a daemon_scheme \<Rightarrow> 'a daemon_scheme" where
  "add_sel i n d = (case cond_of i d of
       Some cv \<Rightarrow> (case v_data (cv_value cv) of
           VSelection k sel \<Rightarrow> set_own i ((cv_value cv)\<lparr>v_data := VSelection k (sel @ [n])\<rparr>) d
         | _ \<Rightarrow> d)
     | None \<Rightarrow> d)"

section \<open>Names of the filters\<close>

definition filter_sep :: "char \<Rightarrow> bool" where
  "filter_sep c \<longleftrightarrow> c = CHR '':'' \<or> c = CHR ''\"'' \<or> c = CHR 0x27"

function filter_names :: "string \<Rightarrow> string list" where
  "filter_names tf =
     (case dropWhile filter_sep tf of
        [] \<Rightarrow> []
      | c # cs \<Rightarrow> takeWhile (\<lambda>x. \<not> filter_sep x) (c # cs) # filter_names (drop 1 (dropWhile (\<lambda>x. \<not> filter_sep x) (c # cs))))"
  by pat_completeness auto
termination
proof (relation "measure length", goal_cases)
  case (2 tf c cs)
  then have "length (c # cs) \<le> length tf" using length_dropWhile_le [of filter_sep tf] by simp
  moreover have "length (drop 1 (dropWhile (\<lambda>x. \<not> filter_sep x) (c # cs))) \<le> length (c # cs) - 1"
    using length_dropWhile_le [of "\<lambda>x. \<not> filter_sep x" "c # cs"] by simp
  ultimately show ?case by simp
qed simp

declare filter_names.simps [simp del]

definition setFilters :: "string \<Rightarrow> 'a filterd_scheme \<Rightarrow> int \<times> 'a filterd_scheme" where
  "setFilters filters d =
     (let d1 = fold (add_sel (fw_filter d)) (filter_names filters) d in
      (case cond_of (fw_filter d) d1 of
         Some cv \<Rightarrow> (case v_data (cv_value cv) of VSelection k sel \<Rightarrow> if sel = [] then -1 else 0 | _ \<Rightarrow> -1)
       | None \<Rightarrow> -1, d1))"

section \<open>Moving\<close>

text \<open>\<open>setFilterNum\<close> of the base class, which a driver calls when it has moved.\<close>

definition base_setFilterNum :: "int \<Rightarrow> 'a filterd_scheme \<Rightarrow> int \<times> 'a filterd_scheme" where
  "base_setFilterNum n d = (0, sendValueAll (fw_filter d) (set_own_int (fw_filter d) n d))"

definition base_getFilterNum :: "'a filterd_scheme \<Rightarrow> int" where
  "base_getFilterNum d = own_int (fw_filter d) d"

record 'd filter_driver =
  fd_set :: "int \<Rightarrow> 'd \<Rightarrow> int \<times> 'd"
  fd_get :: "'d \<Rightarrow> int"
  fd_home :: "'d \<Rightarrow> int \<times> 'd"

definition base_filter_driver :: "('a filterd_scheme) filter_driver" where
  "base_filter_driver = \<lparr>fd_set = base_setFilterNum, fd_get = base_getFilterNum, fd_home = (\<lambda>d. (-1, d))\<rparr>"

lemma base_filter_driver [simp]:
  "fd_set base_filter_driver = base_setFilterNum" "fd_get base_filter_driver = base_getFilterNum"
  by (simp_all add: base_filter_driver_def)

definition filter_info :: "('a filterd_scheme) filter_driver \<Rightarrow> 'a filterd_scheme \<Rightarrow> int \<times> 'a filterd_scheme" where
  "filter_info dr d = (0, set_own_int (fw_filter d) (fd_get dr d) d)"

definition setFilterNumMask ::
  "'a filterd_scheme state_hook \<Rightarrow> ('a filterd_scheme) filter_driver \<Rightarrow> int \<Rightarrow> 'a filterd_scheme \<Rightarrow> int \<times> 'a filterd_scheme"
where
  "setFilterNumMask chg dr n d =
     (let d1 = maskState chg (FILTERD_MASK OR BOP_EXPOSURE) (FILTERD_MOVE OR BOP_EXPOSURE)
                 (Some ''filter move started'') None None None d;
          (ret, d2) = fd_set dr n d1;
          d3 = snd (infoAll (filter_info dr) (device_isRunning d2) d2)
      in if ret = -1 then
           (ret, maskState chg (DEVICE_ERROR_MASK OR FILTERD_MASK OR BOP_EXPOSURE) (DEVICE_ERROR_HW OR FILTERD_IDLE)
                   (Some ''filter movement failed'') None None None d3)
         else (ret, maskState chg (FILTERD_MASK OR BOP_EXPOSURE) FILTERD_IDLE None None None None d3))"

text \<open>The virtual \<open>setValue\<close>; the selection is recognised by its name, which is unique.\<close>

fun filter_setValue :: "nat \<Rightarrow> ('a filterd_scheme) filter_driver \<Rightarrow> 'a filterd_scheme value_hook" where
  "filter_setValue 0 dr old new d = (-2, d\<lparr>d_crashed := True\<rparr>)"
| "filter_setValue (Suc k) dr old new d =
     (if map_option cv_value (cond_of (fw_filter d) d) = Some old then
        (let (r, d1) = setFilterNumMask (device_stateChanged (filter_setValue k dr) maskQueValueBopState) dr
                         (getValueInteger new) d
         in (if r = 0 then 0 else -2, d1))
      else daemon_setValue old new d)"

definition filter_chg :: "nat \<Rightarrow> ('a filterd_scheme) filter_driver \<Rightarrow> 'a filterd_scheme state_hook" where
  "filter_chg k dr = device_stateChanged (filter_setValue k dr) maskQueValueBopState"

definition setFilterNum_conn ::
  "nat \<Rightarrow> ('a filterd_scheme) filter_driver \<Rightarrow> nat \<Rightarrow> int \<Rightarrow> 'a filterd_scheme \<Rightarrow> int \<times> 'a filterd_scheme"
where
  "setFilterNum_conn k dr conn n d =
     (let (ret, d1) = setFilterNumMask (filter_chg k dr) dr n d in
      (ret, if ret = -1 then end_on conn DEVDEM_E_HW ''filter set failed'' d1 else d1))"

definition filter_scriptEnds :: "nat \<Rightarrow> ('a filterd_scheme) filter_driver \<Rightarrow> 'a filterd_scheme \<Rightarrow> int \<times> 'a filterd_scheme" where
  "filter_scriptEnds k dr d =
     scriptEnds (case fw_default d of None \<Rightarrow> d | Some i \<Rightarrow> snd (setFilterNumMask (filter_chg k dr) dr (own_int i d) d))"

definition filter_changeMasterState ::
  "nat \<Rightarrow> ('a filterd_scheme) filter_driver \<Rightarrow> rts2_status \<Rightarrow> rts2_status \<Rightarrow> 'a filterd_scheme \<Rightarrow> 'a filterd_scheme"
where
  "filter_changeMasterState k dr old new d =
     block_masterStateChanged
       (case fw_daytime d of
          Some i \<Rightarrow> if new AND SERVERD_STATUS_MASK = SERVERD_DAY
                    then snd (setFilterNumMask (filter_chg k dr) dr (own_int i d) d) else d
        | None \<Rightarrow> d)"

definition filter_commandAuthorized ::
  "(nat \<Rightarrow> string \<Rightarrow> string \<Rightarrow> 'a filterd_scheme \<Rightarrow> int \<times> 'a filterd_scheme) \<Rightarrow> nat \<Rightarrow> ('a filterd_scheme) filter_driver
    \<Rightarrow> nat \<Rightarrow> string \<Rightarrow> string \<Rightarrow> 'a filterd_scheme \<Rightarrow> int \<times> 'a filterd_scheme"
where
  "filter_commandAuthorized device_cmd k dr conn w b d =
     (if w = ''filter'' then
        (case paramNextInteger b of
           (None, r) \<Rightarrow> (-2, d)
         | (Some n, r) \<Rightarrow> if \<not> fst (paramEnd r) then (-2, d) else setFilterNum_conn k dr conn n d)
      else if w = ''home'' then
        (if \<not> fst (paramEnd b) then (-2, d)
         else let (r, d1) = fd_home dr d in (if r = 0 then 0 else DEVDEM_E_HW, d1))
      else if w = ''help'' then
        (0, on_conn conn (\<lambda>c. fold (\<lambda>m c. snd (sendMsg m c)) [''info - information about camera'',
              ''exit - exit from connection'', ''help - print, what you are reading just now''] c) d)
      else device_cmd conn w b d)"

section \<open>The mirror\<close>

record mirror = device +
  mi_mirrPos :: nat
  mi_timeout :: int

definition setTimeoutMin :: "int \<Rightarrow> 'a mirror_scheme \<Rightarrow> 'a mirror_scheme" where
  "setTimeoutMin t d = (if t < mi_timeout d then d\<lparr>mi_timeout := t\<rparr> else d)"

text \<open>\<open>movePosition\<close> and \<open>isMoving\<close> belong to the driver.\<close>

record 'd mirror_driver =
  md_movePosition :: "int \<Rightarrow> 'd \<Rightarrow> int \<times> 'd"
  md_isMoving :: "'d \<Rightarrow> int \<times> 'd"

fun mirror_setValue :: "nat \<Rightarrow> ('a mirror_scheme) mirror_driver \<Rightarrow> 'a mirror_scheme value_hook" where
  "mirror_setValue 0 dr old new d = (-2, d\<lparr>d_crashed := True\<rparr>)"
| "mirror_setValue (Suc k) dr old new d =
     (if map_option cv_value (cond_of (mi_mirrPos d) d) = Some old then
        (let (ret, d1) = md_movePosition dr (getValueInteger new) d in
         if ret \<noteq> 0 then (-2, d1)
         else (0, maskState (device_stateChanged (mirror_setValue k dr) maskQueValueBopState) MIRROR_MASK MIRROR_MOVE
                    (Some ''moving to new position'') None None None d1))
      else daemon_setValue old new d)"

definition mirror_idle :: "nat \<Rightarrow> ('a mirror_scheme) mirror_driver \<Rightarrow> int \<Rightarrow> 'a mirror_scheme \<Rightarrow> 'a mirror_scheme" where
  "mirror_idle k dr now d =
     (let chg = device_stateChanged (mirror_setValue k dr) maskQueValueBopState;
          d1 = block_idle_conns now d in
      if d_state d1 AND MIRROR_MASK = MIRROR_MOVE then
        (let (ret, d2) = md_isMoving dr d1 in
         if ret \<ge> 0 then setTimeoutMin ret d2
         else if ret = -1 then
           setTimeoutMin 100000 (maskState chg (DEVICE_ERROR_MASK OR MIRROR_MASK) (DEVICE_ERROR_HW OR MIRROR_NOTMOVE)
             (Some ''move finished with error'') None None None d2)
         else setTimeoutMin 100000 (maskState chg MIRROR_MASK MIRROR_NOTMOVE
             (Some ''move finished without error'') None None None d2))
      else setTimeoutMin 100000 d1)"

section \<open>Names given on the command line\<close>

definition plain_name :: "string \<Rightarrow> bool" where
  "plain_name n \<longleftrightarrow> n \<noteq> [] \<and> list_all (\<lambda>c. \<not> filter_sep c) n"

definition colons :: "string list \<Rightarrow> string" where
  "colons ns = concat (map (\<lambda>n. n @ '':'') ns)"

lemma filter_names_Nil [simp]: "filter_names [] = []"
  by (simp add: filter_names.simps)

lemma filter_names_cons:
  assumes "plain_name n"
  shows "filter_names (n @ CHR '':'' # r) = n # filter_names r"
proof -
  obtain c cs where n: "n = c # cs" using assms by (cases n) (auto simp: plain_name_def)
  have f: "\<not> filter_sep c" "\<forall>x \<in> set cs. \<not> filter_sep x" using assms by (auto simp: plain_name_def n list_all_iff)
  have s: "filter_sep CHR '':''" by (simp add: filter_sep_def)
  show ?thesis
    by (subst filter_names.simps) (use f s in \<open>simp add: n takeWhile_append dropWhile_append\<close>)
qed

text \<open>the names given to \<open>-F\<close>, each followed by a colon, are the choices the wheel gets, in their
  order, as long as they are not empty and hold neither colons nor quotes.\<close>

theorem filter_names_roundtrip:
  assumes "list_all plain_name ns"
  shows "filter_names (colons ns) = ns"
  using assms by (induction ns) (simp_all add: colons_def filter_names_cons)

theorem filter_names_roundtrip_witness: "filter_names ''B:V:Halpha narrow:'' = [''B'', ''V'', ''Halpha narrow'']"
  using filter_names_roundtrip [of "[''B'', ''V'', ''Halpha narrow'']"]
  by (simp add: plain_name_def filter_sep_def colons_def)

section \<open>A number without a filter\<close>

lemma chg_no_queue:
  assumes "d_queValues d = []"
  shows "d_values (device_stateChanged h mq new old desc conn d) = d_values d"
    "d_queValues (device_stateChanged h mq new old desc conn d) = []"
  using assms by (simp_all add: device_stateChanged_def checkQueChanges_def daemon_stateChanged_def sendStatusMessage_def
      sendAll_def sendAllExcept_def map_conns_def Let_def split: option.split)

lemma maskState_no_queue:
  assumes "d_queValues d = []"
  shows "d_values (maskState (device_stateChanged h mq) m s desc None None conn d) = d_values d"
    "d_queValues (maskState (device_stateChanged h mq) m s desc None None conn d) = []"
  using assms chg_no_queue [of "d\<lparr>d_state_start := None, d_state_expected_end := None\<rparr>" h mq]
  by (simp_all add: maskState_def daemon_setState_def Let_def)

text \<open>The data of an own value; flags and announcements do not change it.\<close>

definition data_at :: "nat \<Rightarrow> 'a daemon_scheme \<Rightarrow> value_data option" where
  "data_at i d = map_option (\<lambda>cv. v_data (cv_value cv)) (cond_of i d)"

lemma data_at_values: "d_values d = d_values e \<Longrightarrow> data_at i d = data_at i e"
  by (simp add: data_at_def cond_of_def)

lemma own_int_data: "own_int i d = (case data_at i d of
    Some (VInteger n) \<Rightarrow> n | Some (VBool n) \<Rightarrow> n | Some (VSelection n s) \<Rightarrow> n | Some (VLong n) \<Rightarrow> to_int32 n | _ \<Rightarrow> -1)"
  by (simp add: own_int_def data_at_def getValueInteger_def split: option.split value_data.split)

lemma map_conns_values [simp]: "d_values (map_conns f d) = d_values d" "d_queValues (map_conns f d) = d_queValues d"
  by (simp_all add: map_conns_def)

lemma cond_of_map:
  assumes "\<And>cv. cv_id (f cv) = cv_id cv"
  shows "cond_of i (d\<lparr>d_values := map f (d_values d)\<rparr>) = map_option f (cond_of i d)"
proof -
  have "find (\<lambda>cv. cv_id cv = i) (map f vs) = map_option f (find (\<lambda>cv. cv_id cv = i) vs)" for vs
    by (induction vs) (simp_all add: assms)
  then show ?thesis by (simp add: cond_of_def)
qed

lemma data_at_map:
  assumes "\<And>cv. cv_id (f cv) = cv_id cv" "\<And>cv. v_data (cv_value (f cv)) = v_data (cv_value cv)"
  shows "data_at i (d\<lparr>d_values := map f (d_values d)\<rparr>) = data_at i d"
  unfolding data_at_def by (simp add: cond_of_map assms option.map_comp comp_def)

lemma data_at_set_own: "cond_of i d = Some cv \<Longrightarrow> data_at i (set_own i v d) = Some (v_data v)"
  by (simp add: data_at_def cond_of_id)

lemma data_at_infoAll:
  "data_at i (snd (infoAll (\<lambda>d. (0, f d)) run d)) = data_at i (f d)"
proof -
  let ?e = "map_conns (\<lambda>c. snd (sendInfo run False (f d) c)) (f d)"
  have "data_at i (?e\<lparr>d_values := map (\<lambda>cv. cv\<lparr>cv_value := resetNeedSend (cv_value cv)\<rparr>) (d_values ?e)\<rparr>) = data_at i ?e"
    by (rule data_at_map) (simp_all add: resetNeedSend_def)
  moreover have "data_at i ?e = data_at i (f d)" by (rule data_at_values) simp
  ultimately show ?thesis by (simp add: infoAll_def)
qed

lemma data_at_sendValueAll: "data_at i (sendValueAll i d) = data_at i d"
  by (cases "cond_of i d") (auto simp: sendValueAll_def data_at_def resetNeedSend_def dest: cond_of_id)

lemma queue_frames [simp]:
  "d_queValues (sendValueAll i d) = d_queValues d" "d_queValues (set_own_int i n d) = d_queValues d"
  "d_queValues (snd (infoAll (\<lambda>d. (0, f d)) run d)) = d_queValues (f d)"
  by (simp_all add: sendValueAll_def set_own_int_def set_own_def infoAll_def Let_def split: option.split)

text \<open>Setting a selection to a number it has no choice for leaves it as it is.\<close>

lemma set_own_int_out:
  assumes "data_at i d = Some (VSelection j sel)" "n < 0 \<or> length sel \<le> nat n \<or> n = j"
  shows "data_at i (set_own_int i n d) = Some (VSelection j sel)"
  using assms by (auto simp: set_own_int_def data_at_def setValueInteger_def)

lemma filter_more: "device.more (d :: 'a filterd_scheme) = device.more e \<Longrightarrow> fw_filter d = fw_filter e"
  by (cases d rule: filterd.cases_scheme; cases e rule: filterd.cases_scheme) simp

lemma chg_no_queue_more:
  assumes "d_queValues d = []"
  shows "device.more (device_stateChanged h mq new old desc conn d) = device.more d"
  using assms by (simp add: device_stateChanged_def checkQueChanges_def daemon_stateChanged_def)

lemma mask_fw_filter:
  assumes "d_queValues d = []"
  shows "fw_filter (maskState (device_stateChanged h mq) m s desc None None conn d) = fw_filter d"
  by (rule filter_more)
    (simp add: assms maskState_def daemon_setState_def Let_def chg_no_queue_more)

lemma fw_filter_frames [simp]:
  "fw_filter (sendValueAll i d) = fw_filter d" "fw_filter (set_own_int i n d) = fw_filter d"
  by (simp_all add: sendValueAll_def set_own_int_def set_own_def map_conns_def split: option.split)

text \<open>A wheel whose driver relies on the base class acknowledges every number: a number that no
  filter has is answered with success, and the filter stays the one it was.\<close>

theorem missing_filter_acknowledged:
  assumes "data_at (fw_filter d) d = Some (VSelection j sel)" "n < 0 \<or> length sel \<le> nat n" "d_queValues d = []"
  shows "fst (setFilterNum_conn k base_filter_driver conn n d) = 0
    \<and> own_int (fw_filter d) (snd (setFilterNum_conn k base_filter_driver conn n d)) = j"
proof -
  let ?i = "fw_filter d" and ?chg = "filter_chg k base_filter_driver"
  let ?d1 = "maskState ?chg (FILTERD_MASK OR BOP_EXPOSURE) (FILTERD_MOVE OR BOP_EXPOSURE) (Some ''filter move started'') None None None d"
  let ?d2 = "sendValueAll ?i (set_own_int ?i n ?d1)"
  let ?f = "\<lambda>d. set_own_int (fw_filter d) (base_getFilterNum d) d"
  let ?d3 = "snd (infoAll (filter_info base_filter_driver) (device_isRunning ?d2) ?d2)"
  have mk: "d_values (maskState ?chg m s desc None None None e) = d_values e"
    "d_queValues (maskState ?chg m s desc None None None e) = []"
    "fw_filter (maskState ?chg m s desc None None None e) = fw_filter e"
    if "d_queValues e = []" for m s desc and e :: "'a filterd_scheme"
    using that unfolding filter_chg_def by (simp_all add: maskState_no_queue mask_fw_filter)
  have info: "filter_info base_filter_driver = (\<lambda>d. (0, ?f d))"
    by (rule ext) (simp add: filter_info_def)
  have "data_at ?i ?d1 = Some (VSelection j sel)"
    using assms(1) data_at_values [OF mk(1) [OF assms(3)]] by simp
  then have d2: "data_at ?i ?d2 = Some (VSelection j sel)"
    using set_own_int_out [of ?i ?d1 j sel n] assms(2) by (auto simp: data_at_sendValueAll)
  then have "base_getFilterNum ?d2 = j" by (simp add: base_getFilterNum_def own_int_data mk assms(3))
  then have "data_at ?i (?f ?d2) = Some (VSelection j sel)"
    using set_own_int_out [OF d2, of j] by (simp add: mk assms(3))
  then have d3: "data_at ?i ?d3 = Some (VSelection j sel)" "d_queValues ?d3 = []"
    unfolding info by (simp_all add: data_at_infoAll mk assms(3))
  have r: "setFilterNum_conn k base_filter_driver conn n d
    = (0, maskState ?chg (FILTERD_MASK OR BOP_EXPOSURE) FILTERD_IDLE None None None None ?d3)"
    by (simp add: setFilterNum_conn_def setFilterNumMask_def base_setFilterNum_def mk assms(3) Let_def)
  show ?thesis
    using data_at_values [OF mk(1) [OF d3(2)]] d3(1) by (simp add: r own_int_data)
qed

definition example_wheel :: filterd where
  "example_wheel = device.extend ((example_device 0)\<lparr>d_values := [\<lparr>cv_id = 0, cv_value = \<lparr>v_name = ''filter'',
      v_description = ''used filter'', v_rts2Type = RTS2_VALUE_SELECTION OR RTS2_VALUE_WRITABLE,
      v_data = VSelection 1 [''B'', ''V'']\<rparr>, cv_cond = 0\<rparr>]\<rparr>)
     \<lparr>fw_filter = 0, fw_default = None, fw_daytime = None\<rparr>"

theorem missing_filter_acknowledged_witness:
  "fst (setFilterNum_conn 1 base_filter_driver 0 7 example_wheel) = 0
   \<and> own_int 0 (snd (setFilterNum_conn 1 base_filter_driver 0 7 example_wheel)) = 1"
  using missing_filter_acknowledged [of example_wheel 1 "[''B'', ''V'']" 7 1 0]
  by (simp add: example_wheel_def device.defs data_at_def cond_of_def)

end
