(* ===== verification/Rts2_Camd.thy ===== *)
theory Rts2_Camd
  imports Rts2_Filterd "HOL-Library.Signed_Division"
begin

text \<open>
  The camera (\<open>rts2camd::Camera\<close>, \<open>lib/rts2/camd.cpp\<close>, \<open>include/camd.h\<close>): the queue of
  exposures, the waiting for block-of-operation states and queued values, exposing and reading
  out, and the sub-frame of the chip.

  The driver of a particular camera is the parameter \<open>dr\<close>; it keeps its state in the extension
  of the record. The transfer of pixels (\<open>startImageData\<close>, \<open>sendFirstLine\<close>) and the setting of
  values with a meaning for the camera (\<open>vset\<close>) are parameters, too. \<open>cam_starts\<close> records the
  calls of \<open>startExposure\<close>, each with the state in which it was made. A change of the state may
  start an exposure, which changes the state: \<open>k\<close> bounds this nesting. Times are microseconds.
\<close>

section \<open>State\<close>

datatype image_transfer = TCPIP | SHARED | FITS

type_synonym rectangle = "int \<times> int \<times> int \<times> int"

record camera = device +
  cam_qued :: int
  cam_waitNotBop :: bool
  cam_waitEmptyQue :: bool
  cam_sendOk :: bool
  cam_exposureConn :: "nat option"
  cam_lastCareBlock :: bool
  cam_expType :: "int option"
  cam_focuserMoving :: "bool option"
  cam_filterMoving :: "bool list"
  cam_frameTransfer :: bool
  cam_exposure :: int
  cam_exposureEnd :: int
  cam_exposureNumber :: int
  cam_scriptNumber :: int
  cam_needReload :: bool
  cam_statisticOnly :: bool
  cam_transfer :: image_transfer
  cam_shiftLines :: "int list option"
  cam_realTime :: int
  cam_imageData :: int
  cam_chip :: rectangle
  cam_used :: rectangle
  cam_timeout :: int
  cam_announced :: "string list"
  cam_starts :: "(rts2_status \<times> bool list) list"

type_synonym 'a cam_call = "'a camera_scheme \<Rightarrow> int \<times> 'a"

record 'a cam_driver =
  cd_startExposure :: "'a cam_call"
  cd_isExposing :: "int \<Rightarrow> 'a cam_call"
  cd_stopExposure :: "'a camera_scheme \<Rightarrow> int \<times> 'a camera_scheme"
  cd_doReadout :: "'a cam_call"
  cd_startImageData :: "'a cam_call"
  cd_readoutStart :: "'a cam_call"
  cd_readoutTime :: "'a camera_scheme \<Rightarrow> int"
  cd_beforeNight :: "'a cam_call"
  cd_afterNight :: "'a cam_call"
  cd_info :: "'a cam_call"

definition cam_drive :: "'a cam_call \<Rightarrow> 'a camera_scheme \<Rightarrow> int \<times> 'a camera_scheme" where
  "cam_drive f d = (case f d of (ret, m) \<Rightarrow> (ret, camera.more_update (\<lambda>_. m) d))"

definition cam_send :: "string \<Rightarrow> 'a camera_scheme \<Rightarrow> 'a camera_scheme" where
  "cam_send n d = d\<lparr>cam_announced := cam_announced d @ [n]\<rparr>"

definition cam_set_qued :: "int \<Rightarrow> 'a camera_scheme \<Rightarrow> 'a camera_scheme" where
  "cam_set_qued n d = cam_send ''que_exp_num'' (d\<lparr>cam_qued := n\<rparr>)"

definition cam_setTimeout :: "int \<Rightarrow> 'a camera_scheme \<Rightarrow> 'a camera_scheme" where
  "cam_setTimeout t d = d\<lparr>cam_timeout := t\<rparr>"

definition cam_infoAll :: "'a cam_driver \<Rightarrow> 'a camera_scheme \<Rightarrow> 'a camera_scheme" where
  "cam_infoAll dr d = snd (infoAll (cam_drive (cd_info dr)) (device_isRunning d) d)"

definition getStateChip :: "'a camera_scheme \<Rightarrow> rts2_status" where
  "getStateChip d = d_state d AND CAM_MASK_CHIP"

definition cam_isIdle :: "'a camera_scheme \<Rightarrow> bool" where
  "cam_isIdle d \<longleftrightarrow> getStateChip d AND (CAM_MASK_EXPOSE OR CAM_MASK_READING) = CAM_NOEXPOSURE OR CAM_NOTREADING"

definition filterMoving :: "'a camera_scheme \<Rightarrow> bool" where
  "filterMoving d = list_ex (\<lambda>m. m) (cam_filterMoving d)"

definition incExposureNumber :: "'a camera_scheme \<Rightarrow> 'a camera_scheme" where
  "incExposureNumber d =
     cam_send ''script_exp_num'' (cam_send ''exposure_num''
       (d\<lparr>cam_exposureNumber := to_int64 (cam_exposureNumber d + 1), cam_scriptNumber := to_int64 (cam_scriptNumber d + 1)\<rparr>))"

text \<open>Where the code writes to a connection through a pointer, None is the null pointer.\<close>

definition end_on_opt :: "nat option \<Rightarrow> int \<Rightarrow> string \<Rightarrow> 'a camera_scheme \<Rightarrow> 'a camera_scheme" where
  "end_on_opt conn code msg d = (case conn of Some i \<Rightarrow> end_on i code msg d | None \<Rightarrow> d\<lparr>d_crashed := True\<rparr>)"

definition cam_mask ::
  "'a camera_scheme state_hook \<Rightarrow> rts2_status \<Rightarrow> rts2_status \<Rightarrow> string \<Rightarrow> 'a camera_scheme \<Rightarrow> 'a camera_scheme"
where
  "cam_mask chg m s desc d = maskState chg m s (Some desc) None None (cam_exposureConn d) d"

definition cam_mask_time ::
  "'a camera_scheme state_hook \<Rightarrow> rts2_status \<Rightarrow> rts2_status \<Rightarrow> string \<Rightarrow> int \<Rightarrow> int \<Rightarrow> 'a camera_scheme \<Rightarrow> 'a camera_scheme"
where
  "cam_mask_time chg m s desc st en d = maskState chg m s (Some desc) (Some st) (Some en) (cam_exposureConn d) d"

section \<open>The window of the chip\<close>

text \<open>\<open>box\<close>; -1 stands for the value of the whole chip.\<close>

definition cam_box :: "int \<Rightarrow> int \<Rightarrow> int \<Rightarrow> int \<Rightarrow> 'a camera_scheme \<Rightarrow> int \<times> 'a camera_scheme" where
  "cam_box x y w h d =
     (case cam_chip d of (cx, cy, cw, ch) \<Rightarrow>
       (let x1 = (if x = -1 then cx else x); y1 = (if y = -1 then cy else y);
            w1 = (if w = -1 then cw else w); h1 = (if h = -1 then ch else h)
        in if to_int32 (to_int32 (x1 - cx) + w1) > cw \<or> to_int32 (to_int32 (y1 - cy) + h1) > ch then (-1, d)
           else (0, cam_send ''WINDOW'' (d\<lparr>cam_used := (x1, y1, w1, h1)\<rparr>))))"

definition center_side :: "int \<Rightarrow> int \<Rightarrow> int \<times> int" where
  "center_side sz n = (if n > 0 \<and> sz \<ge> n then (sz sdiv 2 - n sdiv 2, n) else (sz sdiv 4, sz sdiv 2))"

definition cam_center :: "int \<Rightarrow> int \<Rightarrow> 'a camera_scheme \<Rightarrow> int \<times> 'a camera_scheme" where
  "cam_center in_w in_h d =
     (case cam_chip d of (cx, cy, cw, ch) \<Rightarrow>
       (let (x, w) = center_side cw in_w; (y, h) = center_side ch in_h in cam_box x y w h d))"

definition camBox :: "nat \<Rightarrow> int \<Rightarrow> int \<Rightarrow> int \<Rightarrow> int \<Rightarrow> 'a camera_scheme \<Rightarrow> int \<times> 'a camera_scheme" where
  "camBox conn x y w h d =
     (let (ret, d1) = cam_box x y w h d in
      if ret = 0 then (ret, d1) else (ret, end_on conn DEVDEM_E_PARAMSVAL ''invalid box size'' d1))"

definition camCenter :: "nat \<Rightarrow> int \<Rightarrow> int \<Rightarrow> 'a camera_scheme \<Rightarrow> int \<times> 'a camera_scheme" where
  "camCenter conn in_h in_w d =
     (let (ret, d1) = cam_center in_h in_w d in
      (ret, if ret \<noteq> 0 then end_on conn DEVDEM_E_PARAMSVAL ''cannot set box size'' d1 else d1))"

section \<open>Starting an exposure\<close>

text \<open>\<open>camStartExposureWithoutCheck\<close>; the header of the image is left out.\<close>

definition cam_exposure_started ::
  "'a camera_scheme state_hook \<Rightarrow> 'a cam_driver \<Rightarrow> int \<Rightarrow> int \<Rightarrow> 'a camera_scheme \<Rightarrow> 'a camera_scheme"
where
  "cam_exposure_started chg dr now ret d =
     (let d1 = cam_infoAll dr (d\<lparr>cam_exposureEnd := now + cam_exposure d\<rparr>);
          d2 = cam_mask_time chg (CAM_MASK_EXPOSE OR BOP_TEL_MOVE OR BOP_WILL_EXPOSE OR CAM_MASK_HAS_IMAGE)
                 ((if ret = 0 then CAM_EXPOSING else CAM_EXPOSING OR CAM_EXPOSING_NOIM) OR BOP_TEL_MOVE)
                 ''exposure started'' now (cam_exposureEnd d1) d1;
          (t, d3) = cam_drive (cd_isExposing dr now) d2;
          d4 = (if t \<ge> 0 then cam_setTimeout t d3 else d3)
      in if cam_sendOk d4
         then (case cam_exposureConn d4 of
             Some c \<Rightarrow> end_on c DEVDEM_OK ''executing exposure from queue'' (d4\<lparr>cam_sendOk := False\<rparr>)
           | None \<Rightarrow> d4)
         else d4)"

definition camStartExposureWithoutCheck ::
  "'a camera_scheme state_hook \<Rightarrow> 'a cam_driver \<Rightarrow> int \<Rightarrow> 'a camera_scheme \<Rightarrow> int \<times> 'a camera_scheme"
where
  "camStartExposureWithoutCheck chg dr now d =
     (let d1 = (incExposureNumber d)\<lparr>cam_needReload := False\<rparr>;
          d2 = cam_mask chg BOP_TEL_MOVE BOP_TEL_MOVE ''exposure is about to start'' d1;
          (ret, d3) = cam_drive (cd_startExposure dr)
            (d2\<lparr>cam_starts := cam_starts d2 @ [(d_state d2, cam_filterMoving d2)]\<rparr>)
      in if \<not> (ret = 0 \<or> ret = 1) then (ret, cam_mask chg BOP_TEL_MOVE 0 ''exposure did not start'' d3)
         else (0, cam_exposure_started chg dr now ret d3))"

definition bop_trigger :: "'a camera_scheme \<Rightarrow> bool" where
  "bop_trigger d \<longleftrightarrow> dv_fullBop d AND BOP_TRIG_EXPOSE \<noteq> 0 \<or> getMasterStateFull d AND BOP_TRIG_EXPOSE \<noteq> 0"

definition bop_exposure :: "'a camera_scheme \<Rightarrow> bool" where
  "bop_exposure d \<longleftrightarrow> dv_fullBop d AND BOP_EXPOSURE \<noteq> 0 \<or> getMasterStateFull d AND BOP_EXPOSURE \<noteq> 0"

definition cam_blocked :: "'a camera_scheme \<Rightarrow> bool" where
  "cam_blocked d \<longleftrightarrow> bop_exposure d \<or> bop_trigger d \<or> filterMoving d \<or> cam_focuserMoving d = Some True"

definition camStartExposure ::
  "'a camera_scheme state_hook \<Rightarrow> 'a cam_driver \<Rightarrow> int \<Rightarrow> bool \<Rightarrow> 'a camera_scheme \<Rightarrow> int \<times> 'a camera_scheme"
where
  "camStartExposure chg dr now careBlock d =
     (let light = (case cam_expType d of None \<Rightarrow> True | Some t \<Rightarrow> t = 0);
          will = cam_mask chg BOP_WILL_EXPOSE BOP_WILL_EXPOSE ''device plan to exposure soon'' in
      if careBlock \<and> light \<and> cam_blocked d then
        (let d1 = cam_set_qued (to_int32 (cam_qued d + 1)) d;
             d2 = (if cam_waitNotBop d1 then d1 else cam_send ''wait_for_notbop'' (d1\<lparr>cam_waitNotBop := True\<rparr>))
         in (0, if \<not> bop_exposure d2 \<and> bop_trigger d2 then will d2 else d2))
      else camStartExposureWithoutCheck chg dr now (if \<not> light \<and> bop_trigger d then will d else d))"

definition camExpose ::
  "'a camera_scheme state_hook \<Rightarrow> 'a cam_driver \<Rightarrow> int \<Rightarrow> nat option \<Rightarrow> rts2_status \<Rightarrow> bool \<Rightarrow> bool
    \<Rightarrow> 'a camera_scheme \<Rightarrow> int \<times> 'a camera_scheme"
where
  "camExpose chg dr now conn chipState fromQue careBlock d =
     (if chipState AND CAM_EXPOSING \<noteq> 0 \<or> chipState AND CAM_EXPOSING_NOIM \<noteq> 0
         \<or> (chipState AND CAM_READING \<noteq> 0 \<and> \<not> cam_frameTransfer d) \<or> (d_queValues d \<noteq> [] \<and> \<not> fromQue)
      then
        (if \<not> fromQue \<and> d_queValues d = [] then (0, cam_set_qued (to_int32 (cam_qued d + 1)) d)
         else (-1, cam_send ''wait_for_que'' (d\<lparr>cam_waitEmptyQue := True\<rparr>)))
      else
        let d1 = (if cam_qued d > 0 then cam_set_qued (cam_qued d - 1) d else d);
            (ret, d2) = camStartExposure chg dr now careBlock (d1\<lparr>cam_exposureConn := conn\<rparr>)
        in (ret, if ret \<noteq> 0 then end_on_opt conn DEVDEM_E_HW ''cannot exposure on chip'' d2 else d2))"

section \<open>Changes of the state\<close>

definition cam_maskQue :: "rts2_status \<Rightarrow> rts2_status \<Rightarrow> rts2_status" where
  "cam_maskQue new_state cond =
     (let s = (if cond AND CAM_EXPOSING \<noteq> 0 then new_state OR BOP_EXPOSURE else new_state)
      in if cond AND CAM_READING \<noteq> 0 then s OR BOP_READOUT else s)"

definition cam_setFullBopState ::
  "'a camera_scheme state_hook \<Rightarrow> 'a cam_driver \<Rightarrow> int \<Rightarrow> rts2_status \<Rightarrow> 'a camera_scheme \<Rightarrow> 'a camera_scheme"
where
  "cam_setFullBopState chg dr now new_state d =
     (let d1 = setFullBopState cam_maskQue new_state d in
      if new_state AND BOP_EXPOSURE = 0 \<and> cam_qued d1 > 0 \<and> cam_waitNotBop d1 then
        (if new_state AND BOP_TRIG_EXPOSE \<noteq> 0 \<and> d_state d1 AND BOP_WILL_EXPOSE = 0 then
           cam_mask chg BOP_WILL_EXPOSE BOP_WILL_EXPOSE ''device plan to exposure soon'' d1
         else if getStateChip d1 AND CAM_EXPOSING \<noteq> 0 \<or> (\<not> cam_frameTransfer d1 \<and> getStateChip d1 AND CAM_READING \<noteq> 0) then d1
         else snd (camStartExposureWithoutCheck chg dr now (d1\<lparr>cam_waitNotBop := False, cam_qued := cam_qued d1 - 1\<rparr>)))
      else d1)"

definition cam_checkQueChanges ::
  "'a camera_scheme value_hook \<Rightarrow> 'a camera_scheme state_hook \<Rightarrow> 'a cam_driver \<Rightarrow> int \<Rightarrow> rts2_status \<Rightarrow> 'a camera_scheme \<Rightarrow> 'a camera_scheme"
where
  "cam_checkQueChanges vset chg dr now fakeState d =
     (if cam_qued d > 0 \<and> fakeState AND (CAM_EXPOSING OR CAM_READING) \<noteq> 0 then d
      else
        let fs = fakeState OR (dv_fullBop d AND BOP_TRIG_EXPOSE);
            (changed, d1) = check_que vset fs [] False (d_queValues d) d;
            d2 = (if changed then cam_setFullBopState chg dr now fs d1 else d1)
        in if d_queValues d2 = [] \<and> cam_waitEmptyQue d2 then
             (let d3 = (cam_send ''wait_for_que'' (d2\<lparr>cam_waitEmptyQue := False\<rparr>))\<lparr>cam_sendOk := True\<rparr> in
              if cam_exposureConn d3 \<noteq> None
              then sendMasters ''status_info''
                     (cam_send ''wait_for_notbop'' ((cam_set_qued (to_int32 (cam_qued d3 + 1)) d3)\<lparr>cam_waitNotBop := True\<rparr>))
              else d3)
           else d2)"

text \<open>The virtual \<open>stateChanged\<close>, nested at most \<open>k\<close> times.\<close>

fun cam_stateChanged :: "'a camera_scheme value_hook \<Rightarrow> 'a cam_driver \<Rightarrow> int \<Rightarrow> nat \<Rightarrow> 'a camera_scheme state_hook" where
  "cam_stateChanged vset dr now 0 new old desc conn d = d\<lparr>d_state := new, d_crashed := True\<rparr>"
| "cam_stateChanged vset dr now (Suc k) new old desc conn d =
     (let d1 = cam_checkQueChanges vset (cam_stateChanged vset dr now k) dr now new (daemon_stateChanged new old desc conn d)
      in sendStatusMessage (d_state d1) desc conn d1)"

section \<open>Ending an exposure\<close>

text \<open>\<open>stopExposure\<close> of the base class, to which a driver adds its own.\<close>

definition cam_stopExposure :: "'a camera_scheme \<Rightarrow> int \<times> 'a camera_scheme" where
  "cam_stopExposure d = (0, cam_set_qued 0 d)"

definition cam_imageStart :: "'a cam_driver \<Rightarrow> 'a camera_scheme \<Rightarrow> 'a camera_scheme" where
  "cam_imageStart dr d =
     (if cam_statisticOnly d then d\<lparr>cam_imageData := -1\<rparr>
      else if cam_realTime d < 0 \<and> cam_transfer d \<noteq> FITS
      then let (channel, d1) = cam_drive (cd_startImageData dr) d in d1\<lparr>cam_imageData := channel\<rparr>
      else d)"

definition camReadout ::
  "'a camera_scheme value_hook \<Rightarrow> 'a camera_scheme state_hook \<Rightarrow> 'a cam_driver \<Rightarrow> int \<Rightarrow> nat \<Rightarrow> 'a camera_scheme \<Rightarrow> int \<times> 'a camera_scheme"
where
  "camReadout vset chg dr now conn d =
     (let d1 =
        (if cam_qued d > 0 \<and> cam_exposureConn d \<noteq> None \<and> cam_frameTransfer d then
           let e1 = cam_checkQueChanges vset chg dr now (getStateChip d AND NOT (CAM_EXPOSING OR CAM_EXPOSING_NOIM)) d;
               e2 = cam_mask chg (CAM_MASK_READING OR CAM_MASK_FT) (CAM_READING OR CAM_FT) ''starting frame transfer'' e1;
               e3 = cam_imageStart dr e2
           in if d_queValues e3 = []
              then snd (camExpose chg dr now (cam_exposureConn e3) (getStateChip e3 AND NOT CAM_MASK_EXPOSE) True (cam_lastCareBlock e3) e3)
              else e3
         else
           cam_imageStart dr
             (cam_mask_time chg (CAM_MASK_EXPOSE OR CAM_MASK_READING OR BOP_TEL_MOVE) (CAM_NOEXPOSURE OR CAM_READING)
                ''readout started'' now (now + cd_readoutTime dr d) d))
      in if cam_realTime d1 \<ge> 0 then (0, d1\<lparr>cam_realTime := to_int32 (cam_realTime d1 + 1)\<rparr>)
         else if cam_imageData d1 \<noteq> -1 \<or> cam_transfer d1 = FITS \<or> cam_statisticOnly d1 then cam_drive (cd_readoutStart dr) d1
         else (-1, end_on conn DEVDEM_E_HW ''cannot read chip''
                 (cam_mask chg (DEVICE_ERROR_MASK OR CAM_MASK_SHIFTING OR CAM_MASK_READING) (DEVICE_ERROR_HW OR CAM_NOTREADING)
                    ''readout failed'' d1)))"

definition cam_interrupted :: rts2_status where
  "cam_interrupted = CAM_MASK_EXPOSE OR CAM_MASK_SHIFTING OR CAM_MASK_READING OR CAM_MASK_FT OR BOP_TEL_MOVE OR BOP_WILL_EXPOSE"

definition endExposure ::
  "'a camera_scheme value_hook \<Rightarrow> 'a camera_scheme state_hook \<Rightarrow> 'a cam_driver \<Rightarrow> int \<Rightarrow> int \<Rightarrow> 'a camera_scheme \<Rightarrow> int \<times> 'a camera_scheme"
where
  "endExposure vset chg dr now ret d =
     (case cam_exposureConn d of
        Some c \<Rightarrow> camReadout vset chg dr now c d
      | None \<Rightarrow>
          (let busy = (getStateChip d AND (CAM_EXPOSING OR CAM_EXPOSING_NOIM OR CAM_SHIFT) \<noteq> 0) in
           if busy \<and> ret = -5 then (0, d)
           else (0, cam_mask chg cam_interrupted (CAM_NOEXPOSURE OR CAM_NOTREADING OR CAM_NOFT) ''chip exposure interrupted''
                      (cam_set_qued 0 (if busy \<and> ret \<noteq> -4 then snd (cd_stopExposure dr d) else d)))))"

definition exposure_finished :: "'a camera_scheme state_hook \<Rightarrow> 'a camera_scheme \<Rightarrow> 'a camera_scheme" where
  "exposure_finished chg =
     cam_mask chg (CAM_MASK_EXPOSE OR CAM_MASK_FT OR BOP_TEL_MOVE) (CAM_NOEXPOSURE OR CAM_NOFT) ''exposure finished''"

definition expose_from_que :: "'a camera_scheme state_hook \<Rightarrow> 'a cam_driver \<Rightarrow> int \<Rightarrow> 'a camera_scheme \<Rightarrow> 'a camera_scheme" where
  "expose_from_que chg dr now d =
     (if cam_qued d > 0
      then snd (camExpose chg dr now (cam_exposureConn d) (getStateChip d AND NOT CAM_MASK_EXPOSE) True (cam_lastCareBlock d) d)
      else d)"

definition checkExposures ::
  "'a camera_scheme value_hook \<Rightarrow> 'a camera_scheme state_hook \<Rightarrow> 'a cam_driver \<Rightarrow> int \<Rightarrow> 'a camera_scheme \<Rightarrow> 'a camera_scheme"
where
  "checkExposures vset chg dr now d =
     (if getStateChip d AND (CAM_EXPOSING OR CAM_EXPOSING_NOIM) = 0 then d
      else
        let (ret, d1) = cam_drive (cd_isExposing dr now) d;
            ended = (\<lambda>e. snd (endExposure vset chg dr now ret e))
        in if ret \<ge> 0 then cam_setTimeout ret d1
           else if ret = -5 then exposure_finished chg (ended d1)
           else if ret = -4 then expose_from_que chg dr now (exposure_finished chg (ended (d1\<lparr>cam_exposureConn := None\<rparr>)))
           else if ret = -3 then ended (d1\<lparr>cam_exposureConn := None\<rparr>)
           else if ret = -2 then
             (let d2 = ended d1 in
              if cam_exposureNumber d2 = cam_exposureNumber d1 then exposure_finished chg d2
              else cam_mask chg CAM_MASK_FT CAM_NOFT ''ft exposure chip finished'' d2)
           else if ret = -1 then
             expose_from_que chg dr now (snd (cd_stopExposure dr
               (cam_mask chg (DEVICE_ERROR_MASK OR CAM_MASK_EXPOSE OR CAM_MASK_SHIFTING OR CAM_MASK_READING OR BOP_TEL_MOVE)
                  (DEVICE_ERROR_HW OR CAM_NOEXPOSURE OR CAM_NOTREADING) ''exposure finished with error'' d1)))
           else d1)"

section \<open>Reading out\<close>

text \<open>\<open>endReadout\<close>; the measured speed of the readout is left out.\<close>

definition endReadout :: "'a camera_scheme state_hook \<Rightarrow> 'a cam_driver \<Rightarrow> int \<Rightarrow> 'a camera_scheme \<Rightarrow> int \<times> 'a camera_scheme" where
  "endReadout chg dr now d =
     (let d1 = (if cam_transfer d = SHARED \<and> cam_exposureConn d \<noteq> None \<and> cam_imageData d \<ge> 0 then d\<lparr>cam_imageData := -1\<rparr> else d) in
      (0, if cam_qued d1 > 0 \<and> cam_exposureConn d1 \<noteq> None
          then snd (camExpose chg dr now (cam_exposureConn d1) (getStateChip d1 AND CAM_MASK_EXPOSE) True (cam_lastCareBlock d1) d1)
          else d1))"

definition checkReadouts :: "'a camera_scheme state_hook \<Rightarrow> 'a cam_driver \<Rightarrow> int \<Rightarrow> 'a camera_scheme \<Rightarrow> 'a camera_scheme" where
  "checkReadouts chg dr now d =
     (if getStateChip d AND CAM_MASK_READING \<noteq> CAM_READING then d
      else
        let (ret, d1) = cam_drive (cd_doReadout dr) d in
        if ret \<ge> 0 then cam_setTimeout ret d1
        else
          let d2 = cam_setTimeout USEC_SEC (snd (endReadout chg dr now d1)) in
          if ret = -2
          then cam_mask chg (CAM_MASK_SHIFTING OR CAM_MASK_READING OR CAM_MASK_HAS_IMAGE) (CAM_NOTREADING OR CAM_HAS_IMAGE)
                 ''readout ended'' d2
          else cam_mask chg (DEVICE_ERROR_MASK OR CAM_MASK_SHIFTING OR CAM_MASK_READING) (DEVICE_ERROR_HW OR CAM_NOTREADING)
                 ''readout ended with error'' d2)"

section \<open>The ends of filter and focuser moves\<close>

definition checkQueuedExposures :: "'a camera_scheme state_hook \<Rightarrow> 'a cam_driver \<Rightarrow> int \<Rightarrow> 'a camera_scheme \<Rightarrow> 'a camera_scheme" where
  "checkQueuedExposures chg dr now d =
     cam_infoAll dr
       (if cam_qued d > 0
        then snd (camExpose chg dr now (cam_exposureConn d) (getStateChip d) False (cam_lastCareBlock d) (d\<lparr>cam_qued := cam_qued d - 1\<rparr>))
        else d)"

definition filter_move_end :: "'a camera_scheme state_hook \<Rightarrow> 'a cam_driver \<Rightarrow> int \<Rightarrow> nat \<Rightarrow> 'a camera_scheme \<Rightarrow> 'a camera_scheme" where
  "filter_move_end chg dr now i d =
     (let d1 = d\<lparr>cam_filterMoving := (cam_filterMoving d)[i := False]\<rparr> in
      if filterMoving d1 then d1 else checkQueuedExposures chg dr now d1)"

definition focuser_move_end :: "'a camera_scheme state_hook \<Rightarrow> 'a cam_driver \<Rightarrow> int \<Rightarrow> 'a camera_scheme \<Rightarrow> 'a camera_scheme" where
  "focuser_move_end chg dr now d =
     (if cam_focuserMoving d = Some True then checkQueuedExposures chg dr now (d\<lparr>cam_focuserMoving := Some False\<rparr>) else d)"

section \<open>Kills and ends of scripts\<close>

text \<open>\<open>scriptEnds\<close>; the binning and the data type are left out.\<close>

definition cam_scriptEnds :: "'a camera_scheme state_hook \<Rightarrow> 'a camera_scheme \<Rightarrow> int \<times> 'a camera_scheme" where
  "cam_scriptEnds chg d =
     (let d1 = cam_send ''script_exp_num'' ((cam_set_qued 0 d)\<lparr>cam_scriptNumber := 0\<rparr>);
          d2 = cam_send ''calculate_stat'' (d1\<lparr>cam_statisticOnly := False\<rparr>);
          d3 = cam_send ''WINDOW'' (snd (cam_box (-1) (-1) (-1) (-1) d2));
          d4 = (if d_state d3 AND DEVICE_STATUS_MASK \<noteq> DEVICE_IDLE then d3\<lparr>cam_needReload := True\<rparr> else d3)
      in scriptEnds (maskState chg DEVICE_ERROR_KILL 0 (Some ''cleared PRIORITY CHANGED state'') None None None d4))"

definition cam_abandon_image :: "'a camera_scheme \<Rightarrow> 'a camera_scheme" where
  "cam_abandon_image d =
     (if cam_exposureConn d \<noteq> None \<and> cam_imageData d \<ge> 0
      then d\<lparr>cam_imageData := -1, cam_transfer := TCPIP\<rparr> else d)"

definition cam_killAll ::
  "'a camera_scheme state_hook \<Rightarrow> 'a cam_driver \<Rightarrow> bool \<Rightarrow> 'a camera_scheme \<Rightarrow> int \<times> 'a camera_scheme"
where
  "cam_killAll chg dr callScriptEnds d =
     (let d1 = d\<lparr>cam_waitNotBop := False, cam_waitEmptyQue := False, cam_filterMoving := map (\<lambda>m. False) (cam_filterMoving d)\<rparr>;
          d2 = snd (cd_stopExposure dr (cam_abandon_image d1));
          d3 = cam_send ''wait_for_que'' (cam_send ''wait_for_notbop'' d2)
      in killAll chg (cam_scriptEnds chg) callScriptEnds
           (cam_mask chg (cam_interrupted OR DEVICE_ERROR_KILL)
              (CAM_NOEXPOSURE OR CAM_NOTREADING OR CAM_NOFT OR DEVICE_ERROR_KILL) ''exposure interrupted'' d3))"

text \<open>\<open>deleteConnection\<close>; the shared memory of the connection is left out.\<close>

definition cam_deleteConnection :: "connection \<Rightarrow> 'a camera_scheme \<Rightarrow> int \<times> 'a camera_scheme" where
  "cam_deleteConnection c d =
     block_deleteConnection c
       (statusCommand_deleteConnection (cn_id c)
         (if cam_exposureConn d = Some (cn_id c) then d\<lparr>cam_exposureConn := None\<rparr> else d))"

section \<open>Commands and the idle loop\<close>

definition shiftStoreStart :: "'a camera_scheme state_hook \<Rightarrow> nat \<Rightarrow> 'a camera_scheme \<Rightarrow> 'a camera_scheme" where
  "shiftStoreStart chg conn d =
     maskState chg (DEVICE_ERROR_MASK OR CAM_MASK_EXPOSE OR CAM_MASK_SHIFTING) (CAM_EXPOSING OR CAM_SHIFT)
       (Some ''starting shift-store'') None None (Some conn) (cam_send ''shiftstore'' (d\<lparr>cam_shiftLines := Some []\<rparr>))"

definition shift_line :: "int \<Rightarrow> 'a camera_scheme \<Rightarrow> 'a camera_scheme" where
  "shift_line n d = cam_send ''shiftstore'' (d\<lparr>cam_shiftLines := map_option (\<lambda>ls. ls @ [n]) (cam_shiftLines d)\<rparr>)"

definition shiftStoreShift :: "'a camera_scheme state_hook \<Rightarrow> nat \<Rightarrow> int \<Rightarrow> 'a camera_scheme \<Rightarrow> 'a camera_scheme" where
  "shiftStoreShift chg conn n d =
     maskState chg (DEVICE_ERROR_MASK OR CAM_MASK_EXPOSE) CAM_EXPOSING (Some ''shifting shift-store'') None None (Some conn) (shift_line n d)"

definition shiftStoreEnd :: "'a camera_scheme state_hook \<Rightarrow> nat \<Rightarrow> int \<Rightarrow> 'a camera_scheme \<Rightarrow> 'a camera_scheme" where
  "shiftStoreEnd chg conn n d =
     maskState chg (DEVICE_ERROR_MASK OR CAM_MASK_EXPOSE OR CAM_MASK_READING) CAM_READING (Some ''end shift-store'') None None (Some conn)
       ((shift_line n d)\<lparr>cam_exposureConn := Some conn\<rparr>)"

text \<open>
  The floating point parameters of \<open>shiftstore\<close> and \<open>fits_statistics\<close> are only read: \<open>flt\<close> says
  which words are such numbers.
\<close>

fun next_floats :: "(string \<Rightarrow> bool) \<Rightarrow> nat \<Rightarrow> string \<Rightarrow> string option" where
  "next_floats flt 0 b = Some b"
| "next_floats flt (Suc n) b =
     (case paramNextString '',''  b of
        (None, r) \<Rightarrow> None
      | (Some w, r) \<Rightarrow> if flt w then next_floats flt n r else None)"

definition float_end :: "(string \<Rightarrow> bool) \<Rightarrow> nat \<Rightarrow> string \<Rightarrow> bool" where
  "float_end flt n b = (case next_floats flt n b of None \<Rightarrow> False | Some r \<Rightarrow> fst (paramEnd r))"

definition shiftstore_cmd :: "(string \<Rightarrow> bool) \<Rightarrow> 'a camera_scheme state_hook \<Rightarrow> nat \<Rightarrow> string \<Rightarrow> 'a camera_scheme \<Rightarrow> int \<times> 'a camera_scheme" where
  "shiftstore_cmd flt chg conn b d =
     (if cam_shiftLines d = None then (-2, d)
      else case paramNextString [] b of
          (None, r) \<Rightarrow> (-2, d)
        | (Some kind, r) \<Rightarrow>
            if kind = ''start'' then (if float_end flt 1 r then (0, shiftStoreStart chg conn d) else (-2, d))
            else if kind = ''shift'' \<or> kind = ''end'' then
              (case paramNextInteger r of
                 (None, r1) \<Rightarrow> (-2, d)
               | (Some n, r1) \<Rightarrow>
                   if \<not> float_end flt 1 r1 then (-2, d)
                   else (0, if kind = ''shift'' then shiftStoreShift chg conn n d else shiftStoreEnd chg conn n d))
            else (-2, d))"

definition stopexpo_cmd :: "'a camera_scheme state_hook \<Rightarrow> 'a cam_driver \<Rightarrow> 'a camera_scheme \<Rightarrow> int \<times> 'a camera_scheme" where
  "stopexpo_cmd chg dr d =
     (let (ret, d1) = cd_stopExposure dr d in
      if ret \<noteq> 0
      then (DEVDEM_E_HW, cam_mask chg (cam_interrupted OR DEVICE_ERROR_KILL OR DEVICE_ERROR_HW)
             (CAM_NOEXPOSURE OR CAM_NOTREADING OR CAM_NOFT OR DEVICE_ERROR_KILL OR DEVICE_ERROR_HW)
             ''chip exposure interrupted with error'' d1)
      else (0, cam_mask chg (cam_interrupted OR DEVICE_ERROR_KILL)
             (CAM_NOEXPOSURE OR CAM_NOTREADING OR CAM_NOFT OR DEVICE_ERROR_KILL) ''chip exposure interrupted'' d1))"

definition next_box :: "string \<Rightarrow> (int \<times> int \<times> int \<times> int) option" where
  "next_box b =
     (case paramNextInteger b of (Some x, r1) \<Rightarrow>
        (case paramNextInteger r1 of (Some y, r2) \<Rightarrow>
           (case paramNextInteger r2 of (Some w, r3) \<Rightarrow>
              (case paramNextInteger r3 of (Some h, r4) \<Rightarrow> if fst (paramEnd r4) then Some (x, y, w, h) else None
               | _ \<Rightarrow> None) | _ \<Rightarrow> None) | _ \<Rightarrow> None) | _ \<Rightarrow> None)"

definition center_cmd :: "nat \<Rightarrow> string \<Rightarrow> 'a camera_scheme \<Rightarrow> int \<times> 'a camera_scheme" where
  "center_cmd conn b d =
     (if fst (paramEnd b) then camCenter conn (-1) (-1) d
      else case paramNextInteger b of
          (None, r) \<Rightarrow> (-2, d)
        | (Some w, r) \<Rightarrow> (case paramNextInteger r of
              (None, r1) \<Rightarrow> (-2, d)
            | (Some h, r1) \<Rightarrow> if fst (paramEnd r1) then camCenter conn w h d else (-2, d)))"

definition cam_help :: "string list" where
  "cam_help = [''info - information about camera'', ''expose - start exposition'', ''stopexpo <chip> - stop exposition on given chip'',
     ''stopread <chip> - stop reading given chip'', ''exit - exit from connection'', ''help - print, what you are reading just now'']"

text \<open>
  \<open>commandAuthorized\<close>. \<open>killall\<close> and \<open>script_ends\<close> are commands of every device, which
  call the virtual functions of the camera; \<open>device_cmd\<close> are the others.
\<close>

definition cam_commandAuthorized ::
  "(string \<Rightarrow> bool) \<Rightarrow> (nat \<Rightarrow> string \<Rightarrow> string \<Rightarrow> 'a camera_scheme \<Rightarrow> int \<times> 'a camera_scheme) \<Rightarrow> 'a camera_scheme state_hook
    \<Rightarrow> 'a cam_driver \<Rightarrow> int \<Rightarrow> nat \<Rightarrow> string \<Rightarrow> string \<Rightarrow> 'a camera_scheme \<Rightarrow> int \<times> 'a camera_scheme"
where
  "cam_commandAuthorized flt device_cmd chg dr now conn w b d =
     (if w = ''help'' then (0, fold (\<lambda>m. on_conn conn (\<lambda>c. snd (sendMsg m c))) cam_help d)
      else if w = ''expose'' then
        (if \<not> fst (paramEnd b) then (-2, d)
         else camExpose chg dr now (Some conn) (getStateChip d) False True (d\<lparr>cam_lastCareBlock := True\<rparr>))
      else if w = ''expose_no_checks'' then
        (if \<not> fst (paramEnd b) then (-2, d)
         else camExpose chg dr now (Some conn) (getStateChip d) False False (d\<lparr>cam_lastCareBlock := False\<rparr>))
      else if w = ''shiftstore'' then shiftstore_cmd flt chg conn b d
      else if w = ''stopexpo'' then (if \<not> fst (paramEnd b) then (-2, d) else stopexpo_cmd chg dr d)
      else if w = ''box'' then
        (case next_box b of None \<Rightarrow> (-2, d) | Some (x, y, wd, ht) \<Rightarrow> camBox conn x y wd ht d)
      else if w = ''full'' then camBox conn (-1) (-1) (-1) (-1) d
      else if w = ''center'' then center_cmd conn b d
      else if w = ''clear_center'' then
        (if \<not> fst (paramEnd b) then (-2, d) else (0, cam_send ''center_avg_stat'' (cam_send ''center_stat'' d)))
      else if w = ''fits_statistics'' then
        (if float_end flt 5 b
         then (0, fold cam_send [''average'', ''min'', ''max'', ''sum'', ''image_mode''] d) else (-2, d))
      else if w = ''killall'' then cam_killAll chg dr True d
      else if w = ''killall_wse'' then cam_killAll chg dr False d
      else if w = ''script_ends'' then cam_scriptEnds chg d
      else device_cmd conn w b d)"

definition cam_changeMasterState :: "'a cam_driver \<Rightarrow> rts2_status \<Rightarrow> rts2_status \<Rightarrow> 'a camera_scheme \<Rightarrow> 'a camera_scheme" where
  "cam_changeMasterState dr old new d =
     (let period = new AND SERVERD_STATUS_MASK; power = new AND SERVERD_ONOFF_MASK in
      block_masterStateChanged (snd (cam_drive
        (if (period = SERVERD_EVENING \<or> period = SERVERD_DUSK \<or> period = SERVERD_NIGHT \<or> period = SERVERD_DAWN \<or> period = SERVERD_MORNING)
            \<and> (power = SERVERD_ON \<or> power = SERVERD_STANDBY)
         then cd_beforeNight dr else cd_afterNight dr) d)))"

definition cam_idle ::
  "'a camera_scheme value_hook \<Rightarrow> 'a camera_scheme state_hook \<Rightarrow> 'a cam_driver \<Rightarrow> int \<Rightarrow> 'a camera_scheme \<Rightarrow> 'a camera_scheme"
where
  "cam_idle vset chg dr now d =
     block_idle_conns (now div USEC_SEC) (checkReadouts chg dr now (checkExposures vset chg dr now d))"

section \<open>Runs\<close>

datatype cam_op =
    CamIdle int
  | CamCommand int nat string string
  | CamBop int rts2_status
  | CamFilterEnd int nat
  | CamFocuserEnd int
  | CamMaster rts2_status rts2_status
  | CamGone connection

text \<open>The virtual functions of a camera, as the commands of every device call them.\<close>

definition cam_hooks :: "'a camera_scheme value_hook \<Rightarrow> 'a cam_driver \<Rightarrow> int \<Rightarrow> nat \<Rightarrow> ('a camera_scheme) device_hooks" where
  "cam_hooks vset dr now k = \<lparr>dh_chg = cam_stateChanged vset dr now k, dh_refresh = cam_drive (cd_info dr),
     dh_refresh_base = (\<lambda>d. (0, d)), dh_more = (\<lambda>conn w b d. (-5, d))\<rparr>"

fun cam_step ::
  "(string \<Rightarrow> bool) \<Rightarrow> 'a camera_scheme value_hook \<Rightarrow> 'a cam_driver \<Rightarrow> nat \<Rightarrow> cam_op \<Rightarrow> 'a camera_scheme \<Rightarrow> 'a camera_scheme"
where
  "cam_step flt vset dr k (CamIdle now) d = cam_idle vset (cam_stateChanged vset dr now k) dr now d"
| "cam_step flt vset dr k (CamCommand now conn w b) d =
     snd (cam_commandAuthorized flt (device_commandAuthorized (cam_hooks vset dr now k)) (cam_stateChanged vset dr now k) dr now conn w b d)"
| "cam_step flt vset dr k (CamBop now s) d = cam_setFullBopState (cam_stateChanged vset dr now k) dr now s d"
| "cam_step flt vset dr k (CamFilterEnd now i) d = filter_move_end (cam_stateChanged vset dr now k) dr now i d"
| "cam_step flt vset dr k (CamFocuserEnd now) d = focuser_move_end (cam_stateChanged vset dr now k) dr now d"
| "cam_step flt vset dr k (CamMaster old new) d = cam_changeMasterState dr old new d"
| "cam_step flt vset dr k (CamGone c) d = snd (cam_deleteConnection c d)"

end
