(* ===== verification/Rts2_CamdRun.thy ===== *)
theory Rts2_CamdRun
  imports Rts2_Camd
begin

text \<open>
  Runs of the camera: while no change of a value waits, a camera that cannot expose and read out
  at the same time never starts an exposure during another one; and what happens to requests that
  come, or to filters that move, while an exposure waits for other devices.
\<close>

section \<open>A camera without queued values\<close>

definition cam_view :: "'a camera_scheme \<Rightarrow> value_que list \<times> (rts2_status \<times> bool list) list \<times> bool" where
  "cam_view d = (d_queValues d, cam_starts d, cam_frameTransfer d)"

definition no_que :: "'a camera_scheme \<Rightarrow> bool" where
  "no_que d \<longleftrightarrow> d_queValues d = []"

lemma no_que_view: "cam_view d = cam_view e \<Longrightarrow> no_que d \<longleftrightarrow> no_que e"
  by (simp add: cam_view_def no_que_def)

lemma send_view [simp]:
  "cam_view (cam_send n d) = cam_view d" "cam_view (cam_set_qued q d) = cam_view d"
  "cam_view (cam_setTimeout t d) = cam_view d" "cam_view (sendStatusMessage s desc conn d) = cam_view d"
  "cam_view (sendMasters m d) = cam_view d" "cam_view (end_on i c m d) = cam_view d"
  "cam_view (sendAll m d) = cam_view d" "cam_view (sendAllExcept m c2 d) = cam_view d"
  "cam_view (incExposureNumber d) = cam_view d"
  by (simp_all add: cam_view_def cam_send_def cam_set_qued_def cam_setTimeout_def sendStatusMessage_def sendMasters_def
      end_on_def on_conn_def sendAll_def sendAllExcept_def map_conns_def incExposureNumber_def Let_def split: option.split)

lemma send_state [simp]:
  "d_state (cam_send n d) = d_state d" "d_state (cam_set_qued q d) = d_state d"
  "d_state (cam_setTimeout t d) = d_state d" "d_state (sendStatusMessage s desc conn e) = d_state e"
  "d_state (incExposureNumber d) = d_state d"
  by (simp_all add: cam_send_def cam_set_qued_def cam_setTimeout_def sendStatusMessage_def
      incExposureNumber_def Let_def split: option.split)

lemma progress_view [simp]:
  "cam_view (sendProgressAll st en conn d) = cam_view d" "d_state (sendProgressAll st en conn e) = d_state e"
  by (simp_all add: sendProgressAll_def map_conns_def cam_view_def)

lemma field_view [simp]:
  "cam_view (d\<lparr>cam_needReload := b\<rparr>) = cam_view d" "cam_view (d\<lparr>cam_exposureEnd := t\<rparr>) = cam_view d"
  "cam_view (d\<lparr>cam_waitNotBop := b\<rparr>) = cam_view d" "cam_view (d\<lparr>cam_waitEmptyQue := b\<rparr>) = cam_view d"
  "cam_view (d\<lparr>cam_sendOk := b\<rparr>) = cam_view d" "cam_view (d\<lparr>cam_exposureConn := c\<rparr>) = cam_view d"
  "cam_view (d\<lparr>cam_imageData := i\<rparr>) = cam_view d" "cam_view (d\<lparr>cam_realTime := i\<rparr>) = cam_view d"
  "cam_view (d\<lparr>cam_qued := i\<rparr>) = cam_view d" "cam_view (d\<lparr>cam_lastCareBlock := b\<rparr>) = cam_view d"
  "cam_view (d\<lparr>cam_filterMoving := fm\<rparr>) = cam_view d" "cam_view (d\<lparr>cam_focuserMoving := f\<rparr>) = cam_view d"
  "cam_view (d\<lparr>cam_scriptNumber := i\<rparr>) = cam_view d" "cam_view (d\<lparr>cam_statisticOnly := b\<rparr>) = cam_view d"
  "cam_view (d\<lparr>cam_transfer := tr\<rparr>) = cam_view d" "cam_view (d\<lparr>cam_used := r\<rparr>) = cam_view d"
  "cam_view (d\<lparr>cam_shiftLines := sl\<rparr>) = cam_view d" "cam_view (d\<lparr>d_state := s\<rparr>) = cam_view d"
  "cam_view (d\<lparr>d_crashed := b\<rparr>) = cam_view d"
  by (simp_all add: cam_view_def)

lemma drive_view [simp]:
  "cam_view (snd (cam_drive f d)) = cam_view d" "d_state (snd (cam_drive f d)) = d_state d"
  by (simp_all add: cam_drive_def cam_view_def split: prod.split)

lemma infoAll_view [simp]: "cam_view (cam_infoAll dr d) = cam_view d" "d_state (cam_infoAll dr d) = d_state d"
  using drive_view(1) [of "cd_info dr" d] drive_view(2) [of "cd_info dr" d]
  by (auto simp: cam_infoAll_def infoAll_def map_conns_def cam_view_def Let_def simp del: drive_view split: prod.split)

lemma chg_no_que:
  assumes "no_que d"
  shows "cam_view (cam_stateChanged vset dr now k new old desc conn d) = cam_view d"
    "d_state (cam_stateChanged vset dr now k new old desc conn d) = new"
proof -
  have q: "d_queValues d = []" using assms by (simp add: no_que_def)
  show "cam_view (cam_stateChanged vset dr now k new old desc conn d) = cam_view d"
    by (cases k) (simp_all add: cam_checkQueChanges_def daemon_stateChanged_def q Let_def)
  show "d_state (cam_stateChanged vset dr now k new old desc conn d) = new"
    by (cases k) (simp_all add: cam_checkQueChanges_def daemon_stateChanged_def q Let_def)
qed

lemma maskState_no_que:
  assumes "no_que d"
  shows "cam_view (maskState (cam_stateChanged vset dr now k) m s desc st en conn d) = cam_view d"
    "d_state (maskState (cam_stateChanged vset dr now k) m s desc st en conn d) = masked (d_state d) (DEVICE_ERROR_MASK OR m) s"
proof -
  let ?d = "d\<lparr>d_state_start := st, d_state_expected_end := en\<rparr>"
  let ?e = "daemon_setState (cam_stateChanged vset dr now k) (masked (d_state d) (DEVICE_ERROR_MASK OR m) s) desc conn ?d"
  have v: "cam_view ?d = cam_view d" by (simp add: cam_view_def)
  have n: "no_que ?d" using assms by (simp add: no_que_def)
  have e: "cam_view ?e = cam_view d" "d_state ?e = masked (d_state d) (DEVICE_ERROR_MASK OR m) s"
    using chg_no_que [OF n] v by (simp_all add: daemon_setState_def)
  show "cam_view (maskState (cam_stateChanged vset dr now k) m s desc st en conn d) = cam_view d"
    "d_state (maskState (cam_stateChanged vset dr now k) m s desc st en conn d) = masked (d_state d) (DEVICE_ERROR_MASK OR m) s"
    using e by (auto simp: maskState_def Let_def)
qed

section \<open>Not during another exposure\<close>

text \<open>Nothing waits, there is no frame transfer, and no exposure has been started during another one.\<close>

definition cam_calm :: "'a camera_scheme \<Rightarrow> bool" where
  "cam_calm d = (case cam_view d of (q, st, ft) \<Rightarrow> q = [] \<and> \<not> ft \<and> list_all (\<lambda>(s, m). s AND CAM_EXPOSING = 0) st)"

lemma calm_que: "cam_calm d \<Longrightarrow> no_que d"
  by (simp add: cam_calm_def cam_view_def no_que_def)

lemma calm_view: "cam_view d = cam_view e \<Longrightarrow> cam_calm d \<longleftrightarrow> cam_calm e"
  by (simp add: cam_calm_def)

lemma end_on_opt_view [simp]: "cam_view (end_on_opt co c m d) = cam_view d" "d_state (end_on_opt co c m e) = d_state e"
  by (simp_all add: end_on_opt_def split: option.split)

lemma calm_frame [simp]:
  "cam_calm (cam_send n d) = cam_calm d" "cam_calm (cam_set_qued q d) = cam_calm d"
  "cam_calm (cam_setTimeout t d) = cam_calm d" "cam_calm (end_on i c m d) = cam_calm d"
  "cam_calm (incExposureNumber d) = cam_calm d" "cam_calm (d\<lparr>cam_needReload := b\<rparr>) = cam_calm d"
  "cam_calm (d\<lparr>cam_exposureEnd := t\<rparr>) = cam_calm d" "cam_calm (d\<lparr>cam_waitNotBop := b\<rparr>) = cam_calm d"
  "cam_calm (d\<lparr>cam_waitEmptyQue := b\<rparr>) = cam_calm d" "cam_calm (d\<lparr>cam_sendOk := b\<rparr>) = cam_calm d"
  "cam_calm (d\<lparr>cam_exposureConn := c2\<rparr>) = cam_calm d" "cam_calm (d\<lparr>cam_imageData := i2\<rparr>) = cam_calm d"
  "cam_calm (d\<lparr>cam_realTime := i2\<rparr>) = cam_calm d" "cam_calm (d\<lparr>cam_qued := i2\<rparr>) = cam_calm d"
  "cam_calm (d\<lparr>cam_lastCareBlock := b\<rparr>) = cam_calm d" "cam_calm (d\<lparr>cam_filterMoving := fm\<rparr>) = cam_calm d"
  "cam_calm (d\<lparr>cam_focuserMoving := f\<rparr>) = cam_calm d" "cam_calm (d\<lparr>cam_shiftLines := sl\<rparr>) = cam_calm d"
  "cam_calm (d\<lparr>d_crashed := b\<rparr>) = cam_calm d" "cam_calm (snd (cam_drive g d)) = cam_calm d"
  "cam_calm (cam_infoAll dr d) = cam_calm d" "cam_calm (end_on_opt co c m d) = cam_calm d"
  by (simp_all only: cam_calm_def send_view field_view drive_view infoAll_view end_on_opt_view)

lemma calm_drive: "cam_drive g d = (r, e) \<Longrightarrow> cam_calm e = cam_calm d \<and> d_state e = d_state d"
  using calm_frame(20) [of g d] drive_view(2) [of g d] by simp

lemma calm_maskState [simp]:
  assumes "cam_calm d"
  shows "cam_calm (maskState (cam_stateChanged vset dr now k) m s desc st en conn d)"
    "d_state (maskState (cam_stateChanged vset dr now k) m s desc st en conn d) = masked (d_state d) (DEVICE_ERROR_MASK OR m) s"
  using maskState_no_que [OF calm_que [OF assms]] assms by (simp_all add: cam_calm_def)

lemma calm_mask [simp]:
  assumes "cam_calm d"
  shows "cam_calm (cam_mask (cam_stateChanged vset dr now k) m s desc d)"
    "d_state (cam_mask (cam_stateChanged vset dr now k) m s desc d) = masked (d_state d) (DEVICE_ERROR_MASK OR m) s"
    "cam_calm (cam_mask_time (cam_stateChanged vset dr now k) m s desc st en d)"
    "d_state (cam_mask_time (cam_stateChanged vset dr now k) m s desc st en d) = masked (d_state d) (DEVICE_ERROR_MASK OR m) s"
  using assms by (simp_all add: cam_mask_def cam_mask_time_def)

lemma calm_started: "cam_calm d \<Longrightarrow> cam_calm (cam_exposure_started (cam_stateChanged vset dr now k) dr now r d)"
  by (auto simp: cam_exposure_started_def Let_def split: prod.split option.split dest: calm_drive)

lemma calm_start:
  assumes "cam_calm d" "d_state d AND CAM_EXPOSING = 0"
  shows "cam_calm (snd (camStartExposureWithoutCheck (cam_stateChanged vset dr now k) dr now d))"
proof -
  let ?chg = "cam_stateChanged vset dr now k"
  let ?d = "cam_mask ?chg BOP_TEL_MOVE BOP_TEL_MOVE ''exposure is about to start'' ((incExposureNumber d)\<lparr>cam_needReload := False\<rparr>)"
  let ?e = "?d\<lparr>cam_starts := cam_starts ?d @ [(d_state ?d, cam_filterMoving ?d)]\<rparr>"
  have c: "cam_calm ?d" using assms(1) by simp
  have s: "d_state ?d AND CAM_EXPOSING = 0"
    using assms by (simp add: masked_outside status_bits)
  have e: "cam_calm ?e" using c s by (simp add: cam_calm_def cam_view_def)
  obtain r f where f: "cam_drive (cd_startExposure dr) ?e = (r, f)" by force
  have fc: "cam_calm f" using calm_drive [OF f] e by simp
  show ?thesis
    using fc f by (simp add: camStartExposureWithoutCheck_def Let_def calm_started)
qed

lemma calm_startExposure:
  assumes "cam_calm d" "d_state d AND CAM_EXPOSING = 0"
  shows "cam_calm (snd (camStartExposure (cam_stateChanged vset dr now k) dr now care d))"
proof -
  let ?will = "cam_mask (cam_stateChanged vset dr now k) BOP_WILL_EXPOSE BOP_WILL_EXPOSE ''device plan to exposure soon''"
  have w: "d_state (?will d) AND CAM_EXPOSING = 0" using assms by (simp add: masked_outside status_bits)
  have q: "cam_calm (?will e)" if "cam_calm e" for e :: "'a camera_scheme" using that by simp
  show ?thesis
    using assms calm_start [OF assms, of vset dr now k] calm_start [OF q [OF assms(1)] w, of vset dr now k]
    by (simp add: camStartExposure_def Let_def)
qed

lemma calm_expose:
  assumes "cam_calm d" "chip AND CAM_EXPOSING = 0 \<Longrightarrow> d_state d AND CAM_EXPOSING = 0"
  shows "cam_calm (snd (camExpose (cam_stateChanged vset dr now k) dr now conn chip fromQue care d))"
proof -
  let ?e = "(if cam_qued d > 0 then cam_set_qued (cam_qued d - 1) d else d)\<lparr>cam_exposureConn := conn\<rparr>"
  have "cam_calm ?e" "d_state ?e = d_state d" using assms(1) by simp_all
  then have "chip AND CAM_EXPOSING = 0 \<Longrightarrow> cam_calm (snd (camStartExposure (cam_stateChanged vset dr now k) dr now care ?e))"
    using assms(2) by (intro calm_startExposure) simp_all
  then show ?thesis using assms(1) by (simp add: camExpose_def case_prod_unfold Let_def)
qed

lemma chip_exposing [simp]:
  "getStateChip d AND CAM_EXPOSING = d_state d AND CAM_EXPOSING"
  "(getStateChip d AND CAM_MASK_EXPOSE) AND CAM_EXPOSING = d_state d AND CAM_EXPOSING"
  by (simp_all add: getStateChip_def and.assoc status_bits)

lemma calm_expose_chip:
  assumes "cam_calm d"
  shows "cam_calm (snd (camExpose (cam_stateChanged vset dr now k) dr now conn (getStateChip d) fromQue care d))"
    "cam_calm (snd (camExpose (cam_stateChanged vset dr now k) dr now conn (getStateChip d AND CAM_MASK_EXPOSE) fromQue care d))"
  using assms by (auto intro!: calm_expose)

lemma calm_fullBop:
  assumes "cam_calm d"
  shows "cam_calm (cam_setFullBopState (cam_stateChanged vset dr now k) dr now s d)"
proof -
  let ?e = "setFullBopState cam_maskQue s d"
  have v: "cam_view ?e = cam_view d" "d_state ?e = d_state d"
    by (simp_all add: setFullBopState_def sendBopMessage_def endDeviceStatusCommand_def cam_view_def sendAll_def map_conns_def
        end_on_def on_conn_def Let_def split: option.split)
  have c: "cam_calm ?e" using assms v by (simp add: cam_calm_def)
  let ?f = "?e\<lparr>cam_waitNotBop := False, cam_qued := cam_qued ?e - 1\<rparr>"
  have "cam_calm ?f" "d_state ?f = d_state d" using c v by simp_all
  then have "d_state d AND CAM_EXPOSING = 0 \<Longrightarrow> cam_calm (snd (camStartExposureWithoutCheck (cam_stateChanged vset dr now k) dr now ?f))"
    by (intro calm_start) simp_all
  then show ?thesis using c v by (simp add: cam_setFullBopState_def Let_def)
qed

lemma calm_queued: "cam_calm d \<Longrightarrow> cam_calm (checkQueuedExposures (cam_stateChanged vset dr now k) dr now d)"
  using calm_expose [of "d\<lparr>cam_qued := cam_qued d - 1\<rparr>" "getStateChip d"] by (simp add: checkQueuedExposures_def)

lemma calm_filter_end: "cam_calm d \<Longrightarrow> cam_calm (filter_move_end (cam_stateChanged vset dr now k) dr now i d)"
  by (simp add: filter_move_end_def calm_queued Let_def)

lemma calm_focuser_end: "cam_calm d \<Longrightarrow> cam_calm (focuser_move_end (cam_stateChanged vset dr now k) dr now d)"
  by (simp add: focuser_move_end_def calm_queued)

lemma calm_readouts:
  assumes "cam_calm d"
  shows "cam_calm (checkReadouts (cam_stateChanged vset dr now k) dr now d)"
proof -
  obtain r e where e: "cam_drive (cd_doReadout dr) d = (r, e)" by force
  have c: "cam_calm e" using calm_drive [OF e] assms by simp
  moreover have "getStateChip (e\<lparr>cam_imageData := -1\<rparr>) = getStateChip e" by (simp add: getStateChip_def)
  ultimately have "cam_calm (snd (endReadout (cam_stateChanged vset dr now k) dr now e))"
    using calm_expose_chip(2) [of e] calm_expose_chip(2) [of "e\<lparr>cam_imageData := -1\<rparr>"]
    by (simp add: endReadout_def Let_def)
  then show ?thesis using assms c e by (simp add: checkReadouts_def Let_def)
qed

section \<open>The contract of a driver\<close>

text \<open>What the camera relies on: the driver's \<open>stopExposure\<close> leaves the state and the queue alone.\<close>

locale camera_driver =
  fixes dr :: "'a cam_driver"
  assumes stop_view: "cam_view (snd (cd_stopExposure dr d)) = cam_view d"
    and stop_state: "d_state (snd (cd_stopExposure dr d)) = d_state d"
begin

lemma calm_stop: "cam_calm (snd (cd_stopExposure dr d)) = cam_calm d"
  by (rule calm_view) (rule stop_view)

lemma calm_imageStart: "cam_calm (cam_imageStart dr d) = cam_calm d"
  by (auto simp: cam_imageStart_def split: prod.split dest: calm_drive)

lemma calm_readout:
  assumes "cam_calm d"
  shows "cam_calm (snd (camReadout vset (cam_stateChanged vset dr now k) dr now conn d))"
proof -
  have "\<not> cam_frameTransfer d" using assms by (simp add: cam_calm_def cam_view_def)
  then show ?thesis using assms by (simp add: camReadout_def calm_imageStart Let_def)
qed

lemma calm_endExposure:
  assumes "cam_calm d"
  shows "cam_calm (snd (endExposure vset (cam_stateChanged vset dr now k) dr now ret d))"
  using assms by (auto simp: endExposure_def calm_readout calm_stop Let_def split: option.split)

lemma calm_from_que:
  assumes "cam_calm d" "d_state d AND CAM_EXPOSING = 0"
  shows "cam_calm (expose_from_que (cam_stateChanged vset dr now k) dr now d)"
  using assms by (simp add: expose_from_que_def calm_expose)

lemma calm_exposures:
  assumes "cam_calm d"
  shows "cam_calm (checkExposures vset (cam_stateChanged vset dr now k) dr now d)"
proof -
  let ?chg = "cam_stateChanged vset dr now k"
  obtain r e where e: "cam_drive (cd_isExposing dr now) d = (r, e)" by force
  have c: "cam_calm e" using calm_drive [OF e] assms by simp
  have f: "cam_calm (exposure_finished ?chg g) \<and> d_state (exposure_finished ?chg g) AND CAM_EXPOSING = 0"
    if "cam_calm g" for g
    using that by (simp add: exposure_finished_def masked_inside status_bits)
  let ?m = "cam_mask ?chg (DEVICE_ERROR_MASK OR CAM_MASK_EXPOSE OR CAM_MASK_SHIFTING OR CAM_MASK_READING OR BOP_TEL_MOVE)
    (DEVICE_ERROR_HW OR CAM_NOEXPOSURE OR CAM_NOTREADING) ''exposure finished with error''"
  have m: "cam_calm (snd (cd_stopExposure dr (?m e))) \<and> d_state (snd (cd_stopExposure dr (?m e))) AND CAM_EXPOSING = 0"
    using c by (simp add: calm_stop stop_state masked_inside status_bits)
  show ?thesis
    using assms c e f m calm_from_que calm_endExposure
    by (simp add: checkExposures_def Let_def)
qed

end

section \<open>Commands and runs\<close>

lemma fold_map_conns_view [simp]: "cam_view (fold (\<lambda>x. map_conns (f x)) xs d) = cam_view d"
  by (induction xs arbitrary: d) (simp_all add: map_conns_def cam_view_def)

lemma device_view [simp]:
  "cam_view (deleteTemporaryValues d) = cam_view d" "cam_view (sendValueDeleteAll v d) = cam_view d"
  "cam_view (snd (deleteValue n d)) = cam_view d" "cam_view (map_conns f d) = cam_view d"
  "cam_view (on_conn i g d) = cam_view d" "cam_view (queDeviceStatusCommand conn d) = cam_view d"
  "cam_view (block_idle_conns t d) = cam_view d" "cam_view (block_masterStateChanged d) = cam_view d"
  "cam_view (statusCommand_deleteConnection conn d) = cam_view d"
  using fold_map_conns_view [of "\<lambda>cv. sendDelete (cv_value cv)"]
  by (simp_all add: deleteTemporaryValues_def sendValueDeleteAll_def deleteValue_def map_conns_def on_conn_def
      queDeviceStatusCommand_def block_idle_conns_def block_masterStateChanged_def statusCommand_deleteConnection_def
      cam_view_def Let_def split: list.split)

lemma info_view [simp]:
  "cam_view (snd (info_conn (cam_drive f) conn d)) = cam_view d" "cam_view (snd (baseInfo_conn (\<lambda>d. (0, d)) conn d)) = cam_view d"
  using drive_view(1) [of f d]
  by (auto simp: info_conn_def baseInfo_conn_def cam_view_def end_on_def on_conn_def map_conns_def Let_def simp del: drive_view split: prod.split)

lemma box_view [simp]:
  "cam_view (snd (cam_box x y w h d)) = cam_view d" "cam_view (snd (camBox conn x y w h d)) = cam_view d"
  "cam_view (snd (cam_center cw ch d)) = cam_view d" "cam_view (snd (camCenter conn ch cw d)) = cam_view d"
proof -
  show b: "cam_view (snd (cam_box x y w h d)) = cam_view d" for x y w h d
    by (simp add: cam_box_def Let_def split: prod.split)
  show "cam_view (snd (camBox conn x y w h d)) = cam_view d"
    using b [of x y w h d] by (simp add: camBox_def case_prod_unfold Let_def)
  show c: "cam_view (snd (cam_center cw ch d)) = cam_view d" for cw ch
    by (simp add: cam_center_def case_prod_unfold Let_def b)
  show "cam_view (snd (camCenter conn ch cw d)) = cam_view d"
    using c [of ch cw] by (simp add: camCenter_def case_prod_unfold Let_def)
qed

lemma calm_device [simp]:
  "cam_calm (deleteTemporaryValues d) = cam_calm d" "cam_calm (block_idle_conns t d) = cam_calm d"
  "cam_calm (block_masterStateChanged d) = cam_calm d" "cam_calm (snd (cam_box x y w h d)) = cam_calm d"
  "cam_calm (snd (camBox conn x y w h d)) = cam_calm d" "cam_calm (snd (camCenter conn x y d)) = cam_calm d"
  "cam_calm (d\<lparr>cam_scriptNumber := i\<rparr>) = cam_calm d" "cam_calm (d\<lparr>cam_statisticOnly := b\<rparr>) = cam_calm d"
  "cam_calm (d\<lparr>cam_transfer := tr\<rparr>) = cam_calm d"
  by (simp_all only: cam_calm_def device_view box_view field_view)

lemma calm_help: "cam_calm (fold (\<lambda>m. on_conn conn (\<lambda>c. snd (sendMsg m c))) ms d) = cam_calm d"
  by (induction ms arbitrary: d) (simp_all add: cam_calm_def)

lemma calm_scriptEnds:
  "cam_calm d \<Longrightarrow> cam_calm (snd (cam_scriptEnds (cam_stateChanged vset dr now k) d))"
  by (simp add: cam_scriptEnds_def scriptEnds_def Let_def)

lemma calm_device_kill:
  assumes "cam_calm d"
  shows "cam_calm (snd (killAll (cam_stateChanged vset dr now k) (cam_scriptEnds (cam_stateChanged vset dr now k)) b d))"
    "cam_calm (snd (killAll (cam_stateChanged vset dr now k) scriptEnds b d))"
proof -
  have "cam_calm (d\<lparr>d_queValues := []\<rparr>)" using assms by (simp add: cam_calm_def cam_view_def)
  then show "cam_calm (snd (killAll (cam_stateChanged vset dr now k) (cam_scriptEnds (cam_stateChanged vset dr now k)) b d))"
    "cam_calm (snd (killAll (cam_stateChanged vset dr now k) scriptEnds b d))"
    by (simp_all add: killAll_def scriptEnds_def case_prod_unfold Let_def calm_scriptEnds)
qed

lemma calm_device_command:
  assumes "cam_calm d"
  shows "cam_calm (snd (device_commandAuthorized (cam_hooks vset dr now k) conn w b d))"
proof -
  have "w = ''killall'' \<or> w = ''killall_wse'' \<or>
    cam_view (snd (device_commandAuthorized (cam_hooks vset dr now k) conn w b d)) = cam_view d"
    by (simp add: device_commandAuthorized_def cam_hooks_def scriptEnds_def split: prod.split option.split)
  then show ?thesis
  proof (elim disjE)
    assume "w = ''killall''"
    then show ?thesis using assms by (simp add: device_commandAuthorized_def cam_hooks_def calm_device_kill)
  next
    assume "w = ''killall_wse''"
    then show ?thesis using assms by (simp add: device_commandAuthorized_def cam_hooks_def calm_device_kill)
  next
    assume "cam_view (snd (device_commandAuthorized (cam_hooks vset dr now k) conn w b d)) = cam_view d"
    then show ?thesis using assms calm_view by blast
  qed
qed

lemma calm_shiftstore:
  "cam_calm d \<Longrightarrow> cam_calm (snd (shiftstore_cmd flt (cam_stateChanged vset dr now k) conn b d))"
  by (simp add: shiftstore_cmd_def shiftStoreStart_def shiftStoreShift_def shiftStoreEnd_def shift_line_def
      split: prod.split option.split)

lemma calm_center: "cam_calm d \<Longrightarrow> cam_calm (snd (center_cmd conn b d))"
  by (simp add: center_cmd_def split: prod.split option.split)

context camera_driver
begin

lemma calm_stopexpo: "cam_calm d \<Longrightarrow> cam_calm (snd (stopexpo_cmd (cam_stateChanged vset dr now k) dr d))"
  using calm_stop [of d] by (simp add: stopexpo_cmd_def case_prod_unfold Let_def)

lemma calm_killAll: "cam_calm d \<Longrightarrow> cam_calm (snd (cam_killAll (cam_stateChanged vset dr now k) dr b d))"
  by (simp add: cam_killAll_def cam_abandon_image_def calm_stop calm_device_kill Let_def)

lemma calm_command:
  assumes "cam_calm d"
  shows "cam_calm (snd (cam_commandAuthorized flt (device_commandAuthorized (cam_hooks vset dr now k))
    (cam_stateChanged vset dr now k) dr now conn w b d))"
proof -
  have e: "cam_calm (snd (camExpose (cam_stateChanged vset dr now k) dr now (Some conn) (getStateChip d) False c
      (d\<lparr>cam_lastCareBlock := c\<rparr>)))" for c
    using calm_expose [of "d\<lparr>cam_lastCareBlock := c\<rparr>" "getStateChip d"] assms by simp
  show ?thesis
    using assms e
    by (simp add: cam_commandAuthorized_def calm_shiftstore calm_stopexpo calm_center calm_help calm_killAll calm_scriptEnds
        calm_device_command split: option.split)
qed

lemma calm_step: "cam_calm d \<Longrightarrow> cam_calm (cam_step flt vset dr k op d)"
proof (cases op)
  case (CamGone c)
  assume "cam_calm d"
  moreover have "cam_view (snd (cam_deleteConnection c d)) = cam_view d"
    by (simp add: cam_deleteConnection_def block_deleteConnection_def Let_def)
  ultimately show ?thesis using CamGone calm_view by fastforce
qed (simp_all add: cam_idle_def calm_readouts calm_exposures calm_command calm_fullBop calm_filter_end calm_focuser_end
      cam_changeMasterState_def Let_def)

lemma calm_run: "cam_calm d \<Longrightarrow> cam_calm (fold (cam_step flt vset dr k) ops d)"
  by (induction ops arbitrary: d) (simp_all add: calm_step)

end

end
