(* ===== verification/Rts2_DummyCamd.thy ===== *)
theory Rts2_DummyCamd
  imports Rts2_CamdRun
begin

text \<open>
  The camera of \<open>src/camd/dummy.cpp\<close> as a driver, and what the runs of a camera mean for it. Its
  readout sends the pixels and is a parameter. What becomes of requests that wait is shown here,
  too: released requests, requests that come while one waits, and cycles without an image.
\<close>

section \<open>The driver\<close>

record dummy_camera = camera +
  dc_callReadout :: bool

type_synonym 'a dummy_camera_call = "'a dummy_camera_scheme \<Rightarrow> int \<times> 'a dummy_camera_ext"

definition cam_isExposing :: "int \<Rightarrow> 'a camera_scheme \<Rightarrow> int" where
  "cam_isExposing now d = (if now \<ge> cam_exposureEnd d then -2 else cam_exposureEnd d - now)"

definition dummy_startExposure :: "'a dummy_camera_call" where
  "dummy_startExposure d = (if dc_callReadout d then 0 else 1, camera.more d)"

definition dummy_isExposing :: "int \<Rightarrow> 'a dummy_camera_call" where
  "dummy_isExposing now d =
     (let ret = cam_isExposing now d in
      (if ret = -2 then (if dc_callReadout d then -2 else -4) else ret, camera.more d))"

definition dummy_camera_driver :: "'a dummy_camera_call \<Rightarrow> ('a dummy_camera_ext) cam_driver" where
  "dummy_camera_driver readout = \<lparr>cd_startExposure = dummy_startExposure, cd_isExposing = dummy_isExposing,
     cd_stopExposure = cam_stopExposure, cd_doReadout = readout, cd_startImageData = (\<lambda>d. (0, camera.more d)),
     cd_readoutStart = (\<lambda>d. (0, camera.more d)), cd_readoutTime = (\<lambda>d. 0), cd_beforeNight = (\<lambda>d. (0, camera.more d)),
     cd_afterNight = (\<lambda>d. (0, camera.more d)), cd_info = (\<lambda>d. (0, camera.more d))\<rparr>"

interpretation dummy_cam: camera_driver "dummy_camera_driver readout"
  by unfold_locales (simp_all add: dummy_camera_driver_def cam_stopExposure_def)

definition example_camera :: "rts2_status \<Rightarrow> int \<Rightarrow> bool \<Rightarrow> dummy_camera" where
  "example_camera s qued wait = device.extend (example_device s)
     \<lparr>cam_qued = qued, cam_waitNotBop = wait, cam_waitEmptyQue = False, cam_sendOk = False, cam_exposureConn = Some 1,
      cam_lastCareBlock = True, cam_expType = None, cam_focuserMoving = Some False, cam_filterMoving = [False],
      cam_frameTransfer = False, cam_exposure = 1000000, cam_exposureEnd = 0, cam_exposureNumber = 0, cam_scriptNumber = 0,
      cam_needReload = False, cam_statisticOnly = False, cam_transfer = TCPIP, cam_shiftLines = None, cam_realTime = -1,
      cam_imageData = 0, cam_chip = (0, 0, 1024, 1024), cam_used = (0, 0, 1024, 1024), cam_timeout = 0,
      cam_announced = [], cam_starts = [], dc_callReadout = True\<rparr>"

lemma example_camera_fields [simp]:
  "d_state (example_camera s q w) = s" "d_queValues (example_camera s q w) = []" "cam_starts (example_camera s q w) = []"
  "cam_frameTransfer (example_camera s q w) = False" "cam_qued (example_camera s q w) = q"
  "cam_waitNotBop (example_camera s q w) = w" "cam_waitEmptyQue (example_camera s q w) = False"
  "cam_exposureConn (example_camera s q w) = Some 1" "cam_lastCareBlock (example_camera s q w) = True"
  "cam_expType (example_camera s q w) = None" "cam_filterMoving (example_camera s q w) = [False]"
  "cam_chip (example_camera s q w) = (0, 0, 1024, 1024)" "cam_focuserMoving (example_camera s q w) = Some False"
  "cam_exposureEnd (example_camera s q w) = 0" "dc_callReadout (example_camera s q w) = True"
  "bl_masterState (example_camera s q w) = SERVERD_HARD_OFF"
  by (simp_all add: example_camera_def device.defs example_device_def addValue_def example_daemon_def block.defs daemon.defs new_Block_def)

section \<open>Never during another exposure\<close>

text \<open>C22: as long as no change of a value waits, a camera that does not read out one image while it
  exposes the next never starts an exposure while one is running, whatever commands, ends of
  filter and focuser moves and changes of the block state come, and whatever its driver answers.\<close>

theorem no_exposure_during_exposure:
  assumes "d_queValues d = []" "\<not> cam_frameTransfer d" "cam_starts d = []"
    and "\<forall>e. cam_view (snd (cd_stopExposure dr e)) = cam_view e \<and> d_state (snd (cd_stopExposure dr e)) = d_state e"
  shows "list_all (\<lambda>(s, m). s AND CAM_EXPOSING = 0) (cam_starts (fold (cam_step flt vset dr k) ops d))"
proof -
  have "camera_driver dr" using assms(4) by unfold_locales simp_all
  then have "cam_calm (fold (cam_step flt vset dr k) ops d)"
    by (rule camera_driver.calm_run) (use assms(1-3) in \<open>simp add: cam_calm_def cam_view_def\<close>)
  then show ?thesis by (simp add: cam_calm_def cam_view_def)
qed

theorem no_exposure_during_exposure_witness:
  "list_all (\<lambda>(s, m). s AND CAM_EXPOSING = 0)
     (cam_starts (fold (cam_step (\<lambda>w. True) daemon_setValue (dummy_camera_driver (\<lambda>d. (-2, camera.more d))) 2)
       [CamCommand 5 1 ''expose'' '''', CamCommand 6 1 ''expose'' '''', CamIdle 9, CamBop 10 0] (example_camera 0 0 False)))"
  by (rule no_exposure_during_exposure)
    (simp_all add: dummy_cam.stop_view dummy_cam.stop_state)

section \<open>What a start leaves alone\<close>

definition cam_all ::
  "'a camera_scheme \<Rightarrow> value_que list \<times> (rts2_status \<times> bool list) list \<times> int \<times> bool \<times> bool \<times> bool list \<times> nat option"
where
  "cam_all d = (d_queValues d, cam_starts d, cam_qued d, cam_waitNotBop d, cam_waitEmptyQue d, cam_filterMoving d, cam_exposureConn d)"

definition cam_quiet :: "'a camera_scheme \<Rightarrow> bool" where
  "cam_quiet d \<longleftrightarrow> d_queValues d = [] \<and> \<not> cam_waitEmptyQue d"

lemma quiet_all: "cam_all d = cam_all e \<Longrightarrow> cam_quiet d = cam_quiet e"
  by (simp add: cam_all_def cam_quiet_def)

lemma all_frame [simp]:
  "cam_all (cam_send n d) = cam_all d" "cam_all (cam_setTimeout t d) = cam_all d"
  "cam_all (sendStatusMessage s desc conn d) = cam_all d" "cam_all (end_on i c m d) = cam_all d"
  "cam_all (incExposureNumber d) = cam_all d" "cam_all (sendProgressAll st en conn d) = cam_all d"
  "cam_all (d\<lparr>cam_needReload := b\<rparr>) = cam_all d" "cam_all (d\<lparr>cam_exposureEnd := t\<rparr>) = cam_all d"
  "cam_all (d\<lparr>cam_sendOk := b\<rparr>) = cam_all d" "cam_all (d\<lparr>cam_lastCareBlock := b\<rparr>) = cam_all d"
  "cam_all (d\<lparr>d_state := s\<rparr>) = cam_all d" "cam_all (d\<lparr>d_crashed := b\<rparr>) = cam_all d"
  "cam_all (snd (cam_drive g d)) = cam_all d" "cam_all (setFullBopState maskq s d) = cam_all d"
  "cam_all (d\<lparr>d_state_start := st, d_state_expected_end := en\<rparr>) = cam_all d"
  "cam_all (d\<lparr>cam_imageData := im\<rparr>) = cam_all d"
  by (simp_all add: cam_all_def cam_send_def cam_setTimeout_def sendStatusMessage_def end_on_def on_conn_def sendAll_def
      sendAllExcept_def map_conns_def incExposureNumber_def sendProgressAll_def cam_drive_def setFullBopState_def
      sendBopMessage_def endDeviceStatusCommand_def Let_def split: option.split prod.split)

lemma all_infoAll [simp]: "cam_all (cam_infoAll dr d) = cam_all d"
  using all_frame(13) [of "cd_info dr" d]
  by (auto simp: cam_infoAll_def infoAll_def map_conns_def cam_all_def Let_def simp del: all_frame split: prod.split)

lemma quiet_frame [simp]:
  "cam_quiet (cam_infoAll dr d) = cam_quiet d" "cam_quiet (d\<lparr>cam_exposureEnd := t\<rparr>) = cam_quiet d"
  "cam_quiet (d\<lparr>d_state_start := st, d_state_expected_end := en\<rparr>) = cam_quiet d"
  "cam_quiet (incExposureNumber d) = cam_quiet d" "cam_quiet (d\<lparr>cam_needReload := b\<rparr>) = cam_quiet d"
  "cam_quiet (snd (cam_drive g d)) = cam_quiet d" "cam_quiet (cam_send n d) = cam_quiet d"
  by (rule quiet_all, simp)+

lemma chg_all:
  assumes "cam_quiet d"
  shows "cam_all (cam_stateChanged vset dr now k new old desc conn d) = cam_all d"
proof -
  have q: "d_queValues d = []" "\<not> cam_waitEmptyQue d" using assms by (simp_all add: cam_quiet_def)
  show ?thesis by (cases k) (simp_all add: cam_checkQueChanges_def daemon_stateChanged_def q Let_def)
qed

lemma maskState_all:
  "cam_quiet d \<Longrightarrow> cam_all (maskState (cam_stateChanged vset dr now k) m s desc st en conn d) = cam_all d"
  by (simp add: maskState_def daemon_setState_def chg_all Let_def)

lemma mask_all:
  assumes "cam_quiet d"
  shows "cam_all (cam_mask (cam_stateChanged vset dr now k) m s desc d) = cam_all d"
    "cam_all (cam_mask_time (cam_stateChanged vset dr now k) m s desc st en d) = cam_all d"
    "d_state (cam_mask (cam_stateChanged vset dr now k) m s desc d) = masked (d_state d) (DEVICE_ERROR_MASK OR m) s"
  using assms maskState_no_que(2) [of d] by (simp_all add: cam_mask_def cam_mask_time_def maskState_all cam_quiet_def no_que_def)

lemma started_all:
  assumes "cam_quiet d"
  shows "cam_all (cam_exposure_started (cam_stateChanged vset dr now k) dr now r d) = cam_all d"
  using assms by (simp add: cam_exposure_started_def mask_all case_prod_unfold Let_def split: option.split)

lemma start_records:
  assumes "cam_quiet d"
  shows "cam_all (snd (camStartExposureWithoutCheck (cam_stateChanged vset dr now k) dr now d))
      = cam_all (d\<lparr>cam_starts := cam_starts d @ [(masked (d_state d) (DEVICE_ERROR_MASK OR BOP_TEL_MOVE) BOP_TEL_MOVE, cam_filterMoving d)]\<rparr>)"
proof -
  let ?chg = "cam_stateChanged vset dr now k"
  let ?d = "cam_mask ?chg BOP_TEL_MOVE BOP_TEL_MOVE ''exposure is about to start'' ((incExposureNumber d)\<lparr>cam_needReload := False\<rparr>)"
  let ?e = "?d\<lparr>cam_starts := cam_starts ?d @ [(d_state ?d, cam_filterMoving ?d)]\<rparr>"
  have m: "cam_all ?d = cam_all d" "d_state ?d = masked (d_state d) (DEVICE_ERROR_MASK OR BOP_TEL_MOVE) BOP_TEL_MOVE"
    using assms by (simp_all add: mask_all)
  then have e: "cam_quiet ?e"
    "cam_all ?e = cam_all (d\<lparr>cam_starts := cam_starts d @ [(masked (d_state d) (DEVICE_ERROR_MASK OR BOP_TEL_MOVE) BOP_TEL_MOVE, cam_filterMoving d)]\<rparr>)"
    using assms by (auto simp: cam_all_def cam_quiet_def)
  obtain r f where f: "cam_drive (cd_startExposure dr) ?e = (r, f)" by force
  then have "cam_all f = cam_all ?e" using all_frame(13) [of "cd_startExposure dr" ?e] by simp
  moreover from this have "cam_quiet f" using e(1) quiet_all by blast
  ultimately show ?thesis
    using f e(2) by (simp add: camStartExposureWithoutCheck_def Let_def started_all mask_all)
qed

lemma all_end_on_opt [simp]: "cam_all (end_on_opt co c m d) = cam_all d"
  by (simp add: end_on_opt_def split: option.split)

lemma all_fields:
  assumes "cam_all d = cam_all e"
  shows "cam_starts d = cam_starts e" "cam_qued d = cam_qued e" "cam_waitNotBop d = cam_waitNotBop e"
  using assms by (simp_all add: cam_all_def)

lemma chip_bits:
  assumes "getStateChip d AND CAM_WORKING = 0"
  shows "getStateChip d AND CAM_EXPOSING = 0" "getStateChip d AND CAM_EXPOSING_NOIM = 0" "getStateChip d AND CAM_READING = 0"
proof -
  have "getStateChip d AND b = 0" if "CAM_WORKING AND b = b" for b
  proof -
    have "getStateChip d AND b = (getStateChip d AND CAM_WORKING) AND b" by (simp add: and.assoc that)
    then show ?thesis by (simp add: assms)
  qed
  then show "getStateChip d AND CAM_EXPOSING = 0" "getStateChip d AND CAM_EXPOSING_NOIM = 0" "getStateChip d AND CAM_READING = 0"
    by (simp_all add: status_bits)
qed

section \<open>A request that waits\<close>

lemma blocked_start:
  assumes "cam_quiet d" "cam_expType d = None \<or> cam_expType d = Some 0" "cam_blocked d"
  shows "fst (camStartExposure (cam_stateChanged vset dr now k) dr now True d) = 0"
    "cam_all (snd (camStartExposure (cam_stateChanged vset dr now k) dr now True d))
      = cam_all (d\<lparr>cam_qued := to_int32 (cam_qued d + 1), cam_waitNotBop := True\<rparr>)"
proof -
  define f where "f = cam_set_qued (to_int32 (cam_qued d + 1)) d"
  define g where "g = (if cam_waitNotBop f then f else cam_send ''wait_for_notbop'' (f\<lparr>cam_waitNotBop := True\<rparr>))"
  have a: "cam_all g = cam_all (d\<lparr>cam_qued := to_int32 (cam_qued d + 1), cam_waitNotBop := True\<rparr>)"
    by (simp add: g_def f_def cam_all_def cam_set_qued_def cam_send_def)
  then have "cam_quiet g" using assms(1) by (simp add: cam_all_def cam_quiet_def)
  then have m: "cam_all (cam_mask (cam_stateChanged vset dr now k) BOP_WILL_EXPOSE BOP_WILL_EXPOSE t g) = cam_all g" for t
    by (rule mask_all(1))
  have l: "case cam_expType d of None \<Rightarrow> True | Some t \<Rightarrow> t = 0" using assms(2) by (auto split: option.split)
  have "camStartExposure (cam_stateChanged vset dr now k) dr now True d
      = (0, if \<not> bop_exposure g \<and> bop_trigger g
            then cam_mask (cam_stateChanged vset dr now k) BOP_WILL_EXPOSE BOP_WILL_EXPOSE ''device plan to exposure soon'' g else g)"
    unfolding camStartExposure_def Let_def f_def [symmetric] g_def [symmetric] by (simp only: l assms(3) simp_thms if_True)
  then show "fst (camStartExposure (cam_stateChanged vset dr now k) dr now True d) = 0"
    "cam_all (snd (camStartExposure (cam_stateChanged vset dr now k) dr now True d))
      = cam_all (d\<lparr>cam_qued := to_int32 (cam_qued d + 1), cam_waitNotBop := True\<rparr>)"
    using a m by simp_all
qed

text \<open>C24: an expose command to an idle camera that the block state, a filter or the focuser holds up is
  acknowledged and starts nothing; the queue then holds what it held before, but at least one
  exposure: a second request that comes while one waits is acknowledged and lost.\<close>

theorem blocked_exposure_waits:
  assumes "d_queValues d = []" "\<not> cam_waitEmptyQue d" "getStateChip d AND CAM_WORKING = 0"
    and "cam_expType d = None \<or> cam_expType d = Some 0" "cam_blocked d" "0 \<le> cam_qued d" "cam_qued d < 2 ^ 31 - 1"
  shows "let (ret, e) = camExpose (cam_stateChanged vset dr now k) dr now (Some conn) (getStateChip d) False True d
         in ret = 0 \<and> cam_starts e = cam_starts d \<and> cam_waitNotBop e \<and> cam_qued e = max 1 (cam_qued d)"
proof -
  define e where "e = (if cam_qued d > 0 then cam_set_qued (cam_qued d - 1) d else d)\<lparr>cam_exposureConn := Some conn\<rparr>"
  have b: "cam_blocked e" "cam_expType e = cam_expType d" "cam_quiet e" "cam_starts e = cam_starts d"
    "to_int32 (cam_qued e + 1) = max 1 (cam_qued d)"
    using assms by (simp_all add: e_def cam_blocked_def bop_trigger_def bop_exposure_def filterMoving_def cam_set_qued_def
        cam_send_def getMasterStateFull_def cam_quiet_def to_int32_id max_def)
  note s = blocked_start [OF b(3) _ b(1), unfolded b(2), OF assms(4), of vset dr now k]
  have "camExpose (cam_stateChanged vset dr now k) dr now (Some conn) (getStateChip d) False True d
      = camStartExposure (cam_stateChanged vset dr now k) dr now True e"
    using chip_bits [OF assms(3)] assms(1) s(1) by (simp add: camExpose_def e_def case_prod_unfold Let_def prod_eq_iff)
  then show ?thesis using s all_fields [OF s(2)] b by (simp add: case_prod_unfold)
qed

theorem blocked_exposure_waits_witness:
  "let d = (example_camera 0 1 True)\<lparr>dv_fullBop := BOP_EXPOSURE\<rparr>;
     (ret, e) = camExpose (cam_stateChanged daemon_setValue (dummy_camera_driver (\<lambda>d. (-2, camera.more d))) 5 2)
       (dummy_camera_driver (\<lambda>d. (-2, camera.more d))) 5 (Some 2) (getStateChip d) False True d
   in ret = 0 \<and> cam_starts e = cam_starts d \<and> cam_waitNotBop e \<and> cam_qued e = max 1 (cam_qued d)"
  unfolding Let_def [of "(example_camera 0 1 True)\<lparr>dv_fullBop := BOP_EXPOSURE\<rparr>"]
  by (rule blocked_exposure_waits) (simp_all add: getStateChip_def cam_blocked_def bop_exposure_def status_bits)

section \<open>The end of the block\<close>

text \<open>When no device blocks exposures any more, the camera that waits for this and is idle starts
  one exposure of its queue; it does so while a filter still moves, which only the command looks
  at: the recorded start has the filters as they were.\<close>

theorem released_exposure_starts:
  assumes "d_queValues d = []" "\<not> cam_waitEmptyQue d" "getStateChip d AND CAM_WORKING = 0"
    and "cam_waitNotBop d" "0 < cam_qued d" "s AND BOP_EXPOSURE = 0" "s AND BOP_TRIG_EXPOSE = 0"
  shows "let e = cam_setFullBopState (cam_stateChanged vset dr now k) dr now s d
         in cam_starts e = cam_starts d @ [(masked (d_state d) (DEVICE_ERROR_MASK OR BOP_TEL_MOVE) BOP_TEL_MOVE, cam_filterMoving d)]
            \<and> cam_qued e = cam_qued d - 1 \<and> \<not> cam_waitNotBop e"
proof -
  let ?b = "setFullBopState cam_maskQue s d"
  let ?c = "?b\<lparr>cam_waitNotBop := False, cam_qued := cam_qued ?b - 1\<rparr>"
  have b: "cam_all ?b = cam_all d" "d_state ?b = d_state d" by simp_all
  have c: "cam_quiet ?c" "cam_starts ?c = cam_starts d" "cam_filterMoving ?c = cam_filterMoving d" "d_state ?c = d_state d"
    "cam_qued ?c = cam_qued d - 1"
    using b assms(1,2) by (simp_all add: cam_all_def cam_quiet_def)
  have chip: "getStateChip ?b = getStateChip d" using b by (simp add: getStateChip_def)
  have "cam_setFullBopState (cam_stateChanged vset dr now k) dr now s d
      = snd (camStartExposureWithoutCheck (cam_stateChanged vset dr now k) dr now ?c)"
    using b assms(4-7) chip chip_bits [OF assms(3)] by (simp add: cam_setFullBopState_def cam_all_def Let_def)
  moreover note start_records [OF c(1), of vset dr now k]
  ultimately show ?thesis using c by (simp add: cam_all_def Let_def)
qed

theorem released_exposure_starts_witness:
  "let d = (example_camera 0 1 True)\<lparr>cam_filterMoving := [True]\<rparr>;
     e = cam_setFullBopState (cam_stateChanged daemon_setValue (dummy_camera_driver (\<lambda>d. (-2, camera.more d))) 5 2)
       (dummy_camera_driver (\<lambda>d. (-2, camera.more d))) 5 0 d
   in cam_starts e = [(masked 0 (DEVICE_ERROR_MASK OR BOP_TEL_MOVE) BOP_TEL_MOVE, [True])] \<and> cam_qued e = 0 \<and> \<not> cam_waitNotBop e"
  using released_exposure_starts [of "(example_camera 0 1 True)\<lparr>cam_filterMoving := [True]\<rparr>" 0 daemon_setValue
      "dummy_camera_driver (\<lambda>d. (-2, camera.more d))" 5 2]
  by (simp add: getStateChip_def)

section \<open>Requests that are lost\<close>

lemma quiet_update [simp]:
  "cam_quiet (d\<lparr>cam_exposureConn := c\<rparr>) = cam_quiet d" "cam_quiet (d\<lparr>cam_qued := n\<rparr>) = cam_quiet d"
  "cam_quiet (cam_set_qued n d) = cam_quiet d" "cam_quiet (d\<lparr>cam_filterMoving := fm\<rparr>) = cam_quiet d"
  by (simp_all add: cam_quiet_def cam_set_qued_def cam_send_def)

lemma quiet_mask: "cam_quiet d \<Longrightarrow> cam_quiet (cam_mask (cam_stateChanged vset dr now k) m s desc d)"
  using quiet_all [OF mask_all(1)] by blast

text \<open>When a cycle without an image ends (\<open>isExposing\<close> gives -4), the requests in the queue are
  gone and nothing is started, although the code then looks for queued exposures to start.\<close>

theorem noimage_cycle_drops_queue:
  assumes "d_queValues d = []" "\<not> cam_waitEmptyQue d" "getStateChip d AND CAM_EXPOSING \<noteq> 0" "fst (cd_isExposing dr now d) = -4"
  shows "cam_qued (checkExposures vset (cam_stateChanged vset dr now k) dr now d) = 0
    \<and> cam_starts (checkExposures vset (cam_stateChanged vset dr now k) dr now d) = cam_starts d"
proof -
  let ?chg = "cam_stateChanged vset dr now k"
  obtain e where e: "cam_drive (cd_isExposing dr now) d = (-4, e)"
    using assms(4) by (cases "cd_isExposing dr now d") (simp add: cam_drive_def)
  have ea: "cam_all e = cam_all d" "d_state e = d_state d"
    using all_frame(13) [of "cd_isExposing dr now" d] drive_view(2) [of "cd_isExposing dr now" d] e by simp_all
  have q: "cam_quiet e" using quiet_all [OF ea(1)] assms(1,2) by (simp add: cam_quiet_def)
  let ?f = "cam_set_qued 0 (e\<lparr>cam_exposureConn := None\<rparr>)"
  have qf: "cam_quiet ?f" using q by simp
  define g where "g = cam_mask ?chg cam_interrupted (CAM_NOEXPOSURE OR CAM_NOTREADING OR CAM_NOFT) ''chip exposure interrupted'' ?f"
  have g: "cam_quiet g" "cam_all g = cam_all ?f" using qf by (simp_all add: g_def quiet_mask mask_all)
  have en: "endExposure vset ?chg dr now (-4) (e\<lparr>cam_exposureConn := None\<rparr>) = (0, g)"
    by (simp add: endExposure_def g_def Let_def)
  have f: "cam_all (exposure_finished ?chg g) = cam_all ?f"
    using g by (simp add: exposure_finished_def mask_all)
  then have z: "cam_qued (exposure_finished ?chg g) = 0" "cam_starts (exposure_finished ?chg g) = cam_starts d"
    using ea(1) by (simp_all add: cam_all_def cam_set_qued_def cam_send_def)
  have b: "getStateChip d AND (CAM_EXPOSING OR CAM_EXPOSING_NOIM) \<noteq> 0"
  proof
    assume "getStateChip d AND (CAM_EXPOSING OR CAM_EXPOSING_NOIM) = 0"
    then have "(getStateChip d AND (CAM_EXPOSING OR CAM_EXPOSING_NOIM)) AND CAM_EXPOSING = 0" by simp
    then show False using assms(3) by (simp add: and.assoc status_bits)
  qed
  have "checkExposures vset ?chg dr now d = exposure_finished ?chg g"
    using b e en z by (simp add: checkExposures_def expose_from_que_def Let_def)
  then show ?thesis using z by simp
qed

theorem noimage_cycle_drops_queue_witness:
  "let d = (example_camera CAM_EXPOSING 3 False)\<lparr>dc_callReadout := False\<rparr>; dr = dummy_camera_driver (\<lambda>d. (-2, camera.more d));
       e = checkExposures daemon_setValue (cam_stateChanged daemon_setValue dr 5 2) dr 5 d
   in cam_qued e = 0 \<and> cam_starts e = cam_starts d"
  unfolding Let_def
  by (rule noimage_cycle_drops_queue)
    (simp_all add: getStateChip_def status_bits dummy_camera_driver_def dummy_isExposing_def cam_isExposing_def)

text \<open>The end of the last movement of a filter counts twice: of two or more exposures that wait it
  starts one and forgets another.\<close>

theorem filter_end_loses_exposure:
  assumes "d_queValues d = []" "\<not> cam_waitEmptyQue d" "getStateChip d AND CAM_WORKING = 0" "1 < cam_qued d"
    and "\<not> cam_blocked (d\<lparr>cam_filterMoving := (cam_filterMoving d)[i := False]\<rparr>)"
  shows "let e = filter_move_end (cam_stateChanged vset dr now k) dr now i d
         in length (cam_starts e) = length (cam_starts d) + 1 \<and> cam_qued e = cam_qued d - 2"
proof -
  let ?chg = "cam_stateChanged vset dr now k"
  define f where "f = d\<lparr>cam_filterMoving := (cam_filterMoving d)[i := False]\<rparr>"
  define g where "g = (cam_set_qued (cam_qued d - 2) (f\<lparr>cam_qued := cam_qued f - 1\<rparr>))\<lparr>cam_exposureConn := cam_exposureConn f\<rparr>"
  have n: "\<not> filterMoving f" "\<not> bop_trigger f" using assms(5) by (simp_all add: cam_blocked_def f_def)
  have gb: "\<not> cam_blocked g" "\<not> bop_trigger g" "cam_quiet g" "cam_starts g = cam_starts d" "cam_qued g = cam_qued d - 2"
    using assms(1,2,5) by (simp_all add: g_def f_def cam_blocked_def bop_trigger_def bop_exposure_def filterMoving_def
        cam_set_qued_def cam_send_def getMasterStateFull_def cam_quiet_def)
  have s: "camStartExposure ?chg dr now care g = camStartExposureWithoutCheck ?chg dr now g" for care
    using gb by (simp add: camStartExposure_def Let_def)
  have chip: "getStateChip f = getStateChip d" by (simp add: f_def getStateChip_def)
  have x: "camExpose ?chg dr now (cam_exposureConn f) (getStateChip f) False c (f\<lparr>cam_qued := cam_qued f - 1\<rparr>)
      = (let (ret, h) = camStartExposureWithoutCheck ?chg dr now g
         in (ret, if ret \<noteq> 0 then end_on_opt (cam_exposureConn f) DEVDEM_E_HW ''cannot exposure on chip'' h else h))" for c
    using chip_bits [OF assms(3)] assms(1,4) chip s unfolding camExpose_def Let_def
    by (simp add: g_def f_def)
  have "cam_all (filter_move_end ?chg dr now i d) = cam_all (snd (camStartExposureWithoutCheck ?chg dr now g))"
    using n(1) assms(4) x unfolding filter_move_end_def Let_def f_def [symmetric]
    by (simp add: checkQueuedExposures_def f_def case_prod_unfold Let_def)
  then show ?thesis using start_records [OF gb(3), of vset dr now k] gb by (simp add: cam_all_def Let_def)
qed

theorem filter_end_loses_exposure_witness:
  "let d = (example_camera 0 2 True)\<lparr>dv_fullBop := 0, cam_filterMoving := [True]\<rparr>; dr = dummy_camera_driver (\<lambda>d. (-2, camera.more d));
       e = filter_move_end (cam_stateChanged daemon_setValue dr 5 2) dr 5 0 d
   in length (cam_starts e) = 1 \<and> cam_qued e = 0"
  using filter_end_loses_exposure [of "(example_camera 0 2 True)\<lparr>dv_fullBop := 0, cam_filterMoving := [True]\<rparr>" 0 daemon_setValue
      "dummy_camera_driver (\<lambda>d. (-2, camera.more d))" 5 2]
  by (simp add: getStateChip_def cam_blocked_def bop_exposure_def bop_trigger_def filterMoving_def getMasterStateFull_def status_bits)

section \<open>The window\<close>

text \<open>Away from the limits of an int, \<open>box\<close> tests only the far edges of a window: one that begins
  left of or below the chip, or has a negative size, is accepted.\<close>

theorem box_tests_far_edges:
  assumes "cam_chip d = (cx, cy, cw, ch)" "x \<noteq> -1" "y \<noteq> -1" "w \<noteq> -1" "h \<noteq> -1"
    and "max \<bar>cx\<bar> (max \<bar>cy\<bar> (max \<bar>x\<bar> (max \<bar>y\<bar> (max \<bar>w\<bar> \<bar>h\<bar>)))) < 2 ^ 29"
  shows "fst (cam_box x y w h d) = 0 \<longleftrightarrow> x + w \<le> cx + cw \<and> y + h \<le> cy + ch"
proof -
  have "to_int32 (to_int32 (a - b) + c) = a - b + c" if "\<bar>a\<bar> < 2 ^ 29" "\<bar>b\<bar> < 2 ^ 29" "\<bar>c\<bar> < 2 ^ 29" for a b c :: int
    using that by (simp add: to_int32_id)
  then have "to_int32 (to_int32 (x - cx) + w) = x - cx + w" "to_int32 (to_int32 (y - cy) + h) = y - cy + h"
    using assms(6) by auto
  then show ?thesis using assms(1-5) by (auto simp: cam_box_def Let_def)
qed

theorem box_tests_far_edges_witness: "fst (cam_box (-500) 10 200 (-7) (example_camera 0 0 False)) = 0"
  using box_tests_far_edges [of "example_camera 0 0 False" 0 0 1024 1024 "-500" 10 200 "-7"] by simp

end
