(* ===== verification/Rts2_Teld.thy ===== *)
theory Rts2_Teld
  imports Rts2_DummyCamd
begin

text \<open>
  The telescope (\<open>rts2teld::Telescope\<close>, \<open>lib/rts2tel/teld.cpp\<close>, \<open>include/teld.h\<close>): moves, corrections and
  offsets that wait for the cameras, parking, tracking, blocking, and the commands.

  A position on the sky is of a type \<open>'p\<close> that can be added and subtracted; None is a position that
  is not a number. The driver of the mount and the astronomy that the code takes from libnova (or
  computes with doubles) are the parameter \<open>dr\<close>; the driver keeps its state in the extension of the
  record. The commands sent to cupolas, the interval of idle refreshes and \<open>applyCorrectionsFixed\<close> of fixed mounts (the base class refuses it) are left out. \<open>tl_starts\<close> records the calls of \<open>startResync\<close>: the target, whether it is above the hard
  horizon, whether the move was told to ignore the horizon, and the value of \<open>block_move\<close>. Times are microseconds.
\<close>

section \<open>State\<close>

record 'p telescope = device +
  tl_ori :: "'p option"
  tl_ori_changed :: bool
  tl_offs :: 'p
  tl_corr :: 'p
  tl_woffs :: 'p
  tl_woffs_changed :: bool
  tl_wcorr :: 'p
  tl_wcorr_changed :: bool
  tl_total_offsets :: 'p
  tl_obj :: "'p option"
  tl_tar :: "'p option"
  tl_target :: "'p option"
  tl_altaz :: "'p option"
  tl_mpec :: string
  tl_mpec_changed :: bool
  tl_tle1 :: string
  tl_tle2 :: string
  tl_tle_changed :: bool
  tl_tle_freeze :: bool
  tl_moveNum :: int
  tl_corrImgId :: int
  tl_corrObsId :: int
  tl_wCorrImgId :: int
  tl_wCorrObsId :: int
  tl_blockMove :: bool
  tl_parkingBlockMove :: bool
  tl_blockOnStandby :: bool
  tl_standbyPark :: int
  tl_tracking :: "int option"
  tl_defaultTracking :: int
  tl_trackingTimer :: bool
  tl_trackingNum :: int
  tl_nextCupSync :: int
  tl_ignoreHorizon :: bool
  tl_model :: bool
  tl_parkFlipping :: bool
  tl_failedMoves :: int
  tl_moveConn :: "nat option"
  tl_infoCount :: int
  tl_infoMax :: int
  tl_timeout :: int
  tl_announced :: "string list"
  tl_starts :: "('p \<times> bool \<times> bool \<times> bool) list"

type_synonym ('p, 'a) tel_call = "('p, 'a) telescope_scheme \<Rightarrow> int \<times> 'a"

record ('p, 'a) tel_driver =
  td_startResync :: "('p, 'a) tel_call"
  td_isMoving :: "('p, 'a) tel_call"
  td_stopMove :: "('p, 'a) tel_call"
  td_startPark :: "('p, 'a) tel_call"
  td_isParking :: "('p, 'a) tel_call"
  td_endPark :: "('p, 'a) tel_call"
  td_isOffseting :: "('p, 'a) tel_call"
  td_setTo :: "'p option \<Rightarrow> ('p, 'a) tel_call"
  td_setToPark :: "('p, 'a) tel_call"
  td_info :: "('p, 'a) tel_call"
  td_orbit :: "int \<Rightarrow> string \<Rightarrow> 'p"
  td_satellite :: "int \<Rightarrow> string \<Rightarrow> string \<Rightarrow> 'p"
  td_offsets :: "('p, 'a) telescope_scheme \<Rightarrow> 'p \<Rightarrow> 'p"
  td_corrections :: "int \<Rightarrow> 'p \<Rightarrow> 'p"
  td_above_horizon :: "int \<Rightarrow> 'p \<Rightarrow> bool"
  td_applyCorr :: "('p, 'a) telescope_scheme \<Rightarrow> 'p \<Rightarrow> 'p"
  td_dec_allowed :: "'p \<Rightarrow> bool"
  td_from_altaz :: "int \<Rightarrow> 'p \<Rightarrow> 'p"

definition tel_drive :: "('p, 'a) tel_call \<Rightarrow> ('p, 'a) telescope_scheme \<Rightarrow> int \<times> ('p, 'a) telescope_scheme" where
  "tel_drive f d = (case f d of (ret, m) \<Rightarrow> (ret, telescope.more_update (\<lambda>_. m) d))"

definition tel_chg :: "('p, 'a) telescope_scheme state_hook" where
  "tel_chg = device_stateChanged daemon_setValue maskQueValueBopState"

definition tel_mask :: "rts2_status \<Rightarrow> rts2_status \<Rightarrow> string option \<Rightarrow> ('p, 'a) telescope_scheme \<Rightarrow> ('p, 'a) telescope_scheme" where
  "tel_mask m s desc d = maskState tel_chg m s desc None None None d"

definition tel_send :: "string \<Rightarrow> ('p, 'a) telescope_scheme \<Rightarrow> ('p, 'a) telescope_scheme" where
  "tel_send n d = d\<lparr>tl_announced := tl_announced d @ [n]\<rparr>"

definition tel_infoAll :: "('p, 'a) tel_driver \<Rightarrow> ('p, 'a) telescope_scheme \<Rightarrow> ('p, 'a) telescope_scheme" where
  "tel_infoAll dr d = snd (infoAll (tel_drive (td_info dr)) (device_isRunning d) d)"

definition tel_part :: "('p, 'a) telescope_scheme \<Rightarrow> rts2_status" where
  "tel_part d = d_state d AND TEL_MASK_MOVING"

definition tel_end :: "nat option \<Rightarrow> string \<Rightarrow> ('p, 'a) telescope_scheme \<Rightarrow> ('p, 'a) telescope_scheme" where
  "tel_end conn msg d = (case conn of Some i \<Rightarrow> end_on i DEVDEM_E_HW msg d | None \<Rightarrow> d)"

definition failedMove :: "('p, 'a) telescope_scheme \<Rightarrow> ('p, 'a) telescope_scheme" where
  "failedMove d = d\<lparr>tl_failedMoves := tl_failedMoves d + 1\<rparr>"

definition setOri :: "'p option \<Rightarrow> ('p, 'a) telescope_scheme \<Rightarrow> ('p, 'a) telescope_scheme" where
  "setOri p d = d\<lparr>tl_ori := p, tl_ori_changed := tl_ori_changed d \<or> p \<noteq> tl_ori d\<rparr>"

definition resetMpecTLE :: "('p, 'a) telescope_scheme \<Rightarrow> ('p, 'a) telescope_scheme" where
  "resetMpecTLE d = d\<lparr>tl_mpec := '''', tl_mpec_changed := tl_mpec_changed d \<or> tl_mpec d \<noteq> '''',
     tl_tle1 := '''', tl_tle2 := '''', tl_tle_changed := tl_tle_changed d \<or> tl_tle1 d \<noteq> '''' \<or> tl_tle2 d \<noteq> ''''\<rparr>"

text \<open>\<open>incMoveNum\<close>; the differential tracking and guiding it resets are left out.\<close>

definition incMoveNum :: "('p::zero, 'a) telescope_scheme \<Rightarrow> ('p, 'a) telescope_scheme" where
  "incMoveNum d =
     d\<lparr>tl_tle_freeze := False, tl_offs := 0, tl_woffs := 0, tl_woffs_changed := False, tl_corr := 0, tl_wcorr := 0,
       tl_wcorr_changed := False, tl_moveNum := to_int32 (tl_moveNum d + 1), tl_corrImgId := 0, tl_corrObsId := 0,
       tl_wCorrImgId := 0, tl_wCorrObsId := 0, tl_trackingNum := 0\<rparr>"

section \<open>Tracking\<close>

definition startCupolaSync :: "int \<Rightarrow> ('p, 'a) telescope_scheme \<Rightarrow> ('p, 'a) telescope_scheme" where
  "startCupolaSync now d = (if tl_nextCupSync d > now then d else d\<lparr>tl_nextCupSync := now + 2 * USEC_SEC\<rparr>)"

definition runTracking :: "int \<Rightarrow> ('p, 'a) telescope_scheme \<Rightarrow> ('p, 'a) telescope_scheme" where
  "runTracking now d = (startCupolaSync now d)\<lparr>tl_trackingNum := tl_trackingNum d + 1\<rparr>"

definition setTracking ::
  "('p, 'a) tel_driver \<Rightarrow> int \<Rightarrow> int \<Rightarrow> bool \<Rightarrow> bool \<Rightarrow> string option \<Rightarrow> ('p, 'a) telescope_scheme \<Rightarrow> ('p, 'a) telescope_scheme"
where
  "setTracking dr now track timer send stopMsg d =
     (case tl_tracking d of
        None \<Rightarrow> d
      | Some old \<Rightarrow>
          let d1 = d\<lparr>tl_tracking := Some track, tl_trackingTimer := False\<rparr>;
              d2 = (if track = 1 \<or> track = 2 \<or> track = 3 then
                      (let e = tel_mask TEL_MASK_TRACK TEL_TRACKING (Some ''tracking started'') (d1\<lparr>tl_ignoreHorizon := False\<rparr>)
                       in if timer then (runTracking now e)\<lparr>tl_trackingTimer := True\<rparr> else e)
                    else
                      (let e = snd (tel_drive (td_stopMove dr) d1)
                       in case stopMsg of None \<Rightarrow> e | Some m \<Rightarrow> tel_mask TEL_MASK_TRACK TEL_NOTRACK (Some m) e))
          in if send then tel_send ''TRACKING'' d2 else d2)"

definition startTracking :: "('p, 'a) tel_driver \<Rightarrow> int \<Rightarrow> bool \<Rightarrow> ('p, 'a) telescope_scheme \<Rightarrow> ('p, 'a) telescope_scheme" where
  "startTracking dr now check d =
     (case tl_tracking d of
        None \<Rightarrow> d
      | Some t \<Rightarrow> setTracking dr now (if check \<and> t = 0 then tl_defaultTracking d else t) True True (Some ''tracking stopped'') d)"

definition stopTracking :: "('p, 'a) tel_driver \<Rightarrow> int \<Rightarrow> string option \<Rightarrow> ('p, 'a) telescope_scheme \<Rightarrow> ('p, 'a) telescope_scheme" where
  "stopTracking dr now msg d = setTracking dr now 0 False True msg d"

definition tracking_timer :: "int \<Rightarrow> ('p, 'a) telescope_scheme \<Rightarrow> ('p, 'a) telescope_scheme" where
  "tracking_timer now d =
     (if tl_trackingTimer d
      then (if d_state d AND TEL_MASK_TRACK = TEL_TRACKING then runTracking now d else d\<lparr>tl_trackingTimer := False\<rparr>)
      else d)"

section \<open>Starting a move\<close>

text \<open>The object the move goes to, \<open>startResyncMove\<close> up to the applied corrections.\<close>

definition move_object :: "('p, 'a) tel_driver \<Rightarrow> int \<Rightarrow> ('p, 'a) telescope_scheme \<Rightarrow> ('p, 'a) telescope_scheme" where
  "move_object dr now d =
     (let d1 = (if tl_mpec d \<noteq> '''' then setOri (Some (td_orbit dr now (tl_mpec d))) d else d)
      in if \<not> tl_tle_freeze d1 \<and> tl_tle1 d1 \<noteq> '''' \<and> tl_tle2 d1 \<noteq> ''''
         then setOri (Some (td_satellite dr now (tl_tle1 d1) (tl_tle2 d1))) d1 else d1)"

definition count_move :: "('p::zero, 'a) telescope_scheme \<Rightarrow> ('p, 'a) telescope_scheme" where
  "count_move d =
     (if (if tl_mpec d \<noteq> '''' then tl_mpec_changed d else if tl_tle1 d \<noteq> '''' then tl_tle_changed d else tl_ori_changed d)
      then incMoveNum d else d)"

definition take_waiting :: "('p::{plus,minus}, 'a) telescope_scheme \<Rightarrow> ('p, 'a) telescope_scheme" where
  "take_waiting d =
     (let d1 = (if tl_wcorr_changed d
                then d\<lparr>tl_corr := tl_corr d + tl_wcorr d, tl_corrImgId := tl_wCorrImgId d, tl_corrObsId := tl_wCorrObsId d\<rparr> else d);
          d2 = (if tl_woffs_changed d1 then d1\<lparr>tl_offs := tl_woffs d1\<rparr> else d1)
      in tel_send ''total_offsets'' (d2\<lparr>tl_total_offsets := tl_offs d2 - tl_corr d2\<rparr>))"

definition cannot_move :: "('p, 'a) tel_driver \<Rightarrow> int \<Rightarrow> nat option \<Rightarrow> string \<Rightarrow> ('p, 'a) telescope_scheme \<Rightarrow> int \<times> ('p, 'a) telescope_scheme" where
  "cannot_move dr now conn msg d =
     (let d1 = (setOri None (d\<lparr>tl_parkFlipping := False\<rparr>))\<lparr>tl_obj := None, tl_tar := None, tl_altaz := None\<rparr>;
          d2 = stopTracking dr now None (snd (tel_drive (td_stopMove dr) d1))
      in (-1, tel_end conn msg
            (tel_mask (TEL_MASK_CORRECTING OR TEL_MASK_MOVING OR BOP_EXPOSURE OR TEL_MASK_TRACK)
               (TEL_NOT_CORRECTING OR TEL_OBSERVING OR TEL_NOTRACK) (Some ''cannot perform move'') d2)))"

definition announce_move :: "int \<Rightarrow> ('p, 'a) telescope_scheme \<Rightarrow> ('p, 'a) telescope_scheme" where
  "announce_move correction d =
     (if correction \<noteq> 0 then
        tel_mask (TEL_MASK_CORRECTING OR TEL_MASK_MOVING OR TEL_MASK_NEED_STOP OR BOP_EXPOSURE)
          (TEL_CORRECTING OR TEL_MOVING OR BOP_EXPOSURE) (Some ''correction move started'') d
      else
        tel_mask (TEL_MASK_MOVING OR TEL_MASK_CORRECTING OR TEL_MASK_NEED_STOP OR TEL_MASK_TRACK OR BOP_EXPOSURE)
          (TEL_MOVING OR BOP_EXPOSURE) (Some ''move started'')
          (if d_state d AND TEL_MASK_CORRECTING \<noteq> 0
           then tel_mask (TEL_MASK_MOVING OR TEL_MASK_CORRECTING) 0 (Some ''correcting interrupted by move'') d else d))"

definition move_started :: "int \<Rightarrow> nat option \<Rightarrow> ('p::zero, 'a) telescope_scheme \<Rightarrow> ('p, 'a) telescope_scheme" where
  "move_started now conn d =
     (let d1 = startCupolaSync now (d\<lparr>tl_nextCupSync := 0\<rparr>) in
      d1\<lparr>tl_ori_changed := False, tl_mpec_changed := False, tl_tle_changed := False, tl_woffs_changed := False,
         tl_wcorr := (if tl_wcorr_changed d1 then 0 else tl_wcorr d1), tl_wcorr_changed := False, tl_moveConn := conn\<rparr>)"

text \<open>The move to the target \<open>pos\<close>, once block, parking and a running move have been dealt with.\<close>

definition perform_move ::
  "('p::zero, 'a) tel_driver \<Rightarrow> int \<Rightarrow> nat option \<Rightarrow> int \<Rightarrow> bool \<Rightarrow> 'p \<Rightarrow> ('p, 'a) telescope_scheme \<Rightarrow> int \<times> ('p, 'a) telescope_scheme"
where
  "perform_move dr now conn correction good pos d =
     (if \<not> (tl_ignoreHorizon d \<or> good) then cannot_move dr now conn ''unaccesible target'' d
      else if \<not> td_dec_allowed dr pos then cannot_move dr now conn ''declination limit violated'' d
      else
        let d1 = announce_move correction d;
            (ret, d2) = tel_drive (td_startResync dr) (d1\<lparr>tl_starts := tl_starts d1 @ [(pos, good, tl_ignoreHorizon d1, tl_blockMove d1)]\<rparr>)
        in if ret \<noteq> 0 then
             (-1, tel_end conn ''cannot move to location''
                (tel_mask (TEL_MASK_CORRECTING OR TEL_MASK_MOVING OR BOP_EXPOSURE OR TEL_MASK_TRACK)
                   (TEL_NOT_CORRECTING OR TEL_OBSERVING) (Some ''movement failed'')
                   (stopTracking dr now None (d2\<lparr>tl_parkFlipping := False\<rparr>))))
           else (0, move_started now conn (tel_infoAll dr d2)))"

definition startResyncMove ::
  "('p::{plus,minus,zero}, 'a) tel_driver \<Rightarrow> int \<Rightarrow> nat option \<Rightarrow> int \<Rightarrow> bool \<Rightarrow> ('p, 'a) telescope_scheme
    \<Rightarrow> int \<times> ('p, 'a) telescope_scheme"
where
  "startResyncMove dr now conn correction ignoreHorizon d =
     (let d1 = move_object dr now (d\<lparr>tl_ignoreHorizon := ignoreHorizon\<rparr>) in
      case tl_ori d1 of
        None \<Rightarrow> (-1, tel_end conn ''null RA or DEC'' d1)
      | Some ori \<Rightarrow>
          let d2 = take_waiting (count_move d1);
              obj = td_offsets dr d2 ori;
              tar = td_corrections dr now obj;
              pos = td_applyCorr dr d2 tar;
              d3 = (tel_send ''OBJ'' (d2\<lparr>tl_obj := Some obj\<rparr>))\<lparr>tl_tar := Some tar, tl_target := Some pos, tl_infoCount := 0\<rparr>
          in if tl_blockMove d3 then (-1, tel_end conn ''telescope move blocked'' d3)
             else if tl_parkingBlockMove d3 \<and> tel_part d3 = TEL_PARKING then (-1, tel_end conn ''telescope move blocked'' d3)
             else if tel_part d3 = TEL_MOVING \<or> d_state d3 AND TEL_MASK_CORRECTING = TEL_CORRECTING then
               (let (ret, d4) = tel_drive (td_stopMove dr) d3 in
                if ret \<noteq> 0 then (-1, tel_end conn ''stopMove failed'' d4)
                else perform_move dr now conn correction (td_above_horizon dr now obj) pos d4)
             else perform_move dr now conn correction (td_above_horizon dr now obj) pos d3)"

section \<open>Ends of moves\<close>

definition tel_endMove :: "('p, 'a) tel_driver \<Rightarrow> int \<Rightarrow> ('p, 'a) telescope_scheme \<Rightarrow> int \<times> ('p, 'a) telescope_scheme" where
  "tel_endMove dr now d = (0, startTracking dr now False d)"

definition corrections_wait :: "('p, 'a) telescope_scheme \<Rightarrow> bool" where
  "corrections_wait d \<longleftrightarrow> tl_woffs_changed d \<or> tl_wcorr_changed d"

definition resync_waiting ::
  "('p::{plus,minus,zero}, 'a) tel_driver \<Rightarrow> int \<Rightarrow> ('p, 'a) telescope_scheme \<Rightarrow> ('p, 'a) telescope_scheme"
where
  "resync_waiting dr now d =
     snd (startResyncMove dr now None ((if tl_woffs_changed d then 1 else 0) + (if tl_wcorr_changed d then 2 else 0)) False d)"

definition send_move_info :: "('p, 'a) telescope_scheme \<Rightarrow> ('p, 'a) telescope_scheme" where
  "send_move_info d =
     (case tl_moveConn d of None \<Rightarrow> d | Some i \<Rightarrow> on_conn i (\<lambda>c. snd (sendInfo (device_isRunning d) False d c)) d)"

definition check_moving ::
  "('p::{plus,minus,zero}, 'a) tel_driver \<Rightarrow> int \<Rightarrow> ('p, 'a) telescope_scheme \<Rightarrow> ('p, 'a) telescope_scheme"
where
  "check_moving dr now d =
     (let (ret, d1) = tel_drive (td_isMoving dr) d;
          failed = tel_mask (DEVICE_ERROR_MASK OR TEL_MASK_CORRECTING OR TEL_MASK_MOVING OR BOP_EXPOSURE)
                     (DEVICE_ERROR_HW OR TEL_NOT_CORRECTING OR TEL_OBSERVING) (Some ''move finished with error'')
      in if ret \<ge> 0 then
           (let d2 = d1\<lparr>tl_timeout := ret\<rparr> in
            if tl_infoCount d2 = tl_infoMax d2
            then (send_move_info (snd (tel_drive (td_info dr) d2)))\<lparr>tl_infoCount := 0\<rparr>
            else d2\<lparr>tl_infoCount := tl_infoCount d2 + 1\<rparr>)
         else if ret = -1 then (failed (send_move_info (failedMove d1)))\<lparr>tl_moveConn := None\<rparr>
         else if ret = -2 then
           (let (r, d2) = tel_endMove dr now (tel_infoAll dr d1);
                d3 = (if r \<noteq> 0 then failed (failedMove d2)
                      else if corrections_wait d2 then resync_waiting dr now d2
                      else tel_mask (TEL_MASK_CORRECTING OR TEL_MASK_MOVING OR BOP_EXPOSURE) (TEL_NOT_CORRECTING OR TEL_OBSERVING)
                             (Some ''move finished without error'') d2)
            in (send_move_info d3)\<lparr>tl_moveConn := None\<rparr>)
         else d1)"

definition check_parking :: "('p, 'a) tel_driver \<Rightarrow> ('p, 'a) telescope_scheme \<Rightarrow> ('p, 'a) telescope_scheme" where
  "check_parking dr d =
     (let (ret, d1) = tel_drive (td_isParking dr) d;
          failed = tel_mask (DEVICE_ERROR_MASK OR TEL_MASK_MOVING OR BOP_EXPOSURE) (DEVICE_ERROR_HW OR TEL_PARKED)
                     (Some ''park command finished with error'')
      in if ret \<ge> 0 then d1\<lparr>tl_timeout := ret\<rparr>
         else if ret = -1 then failed (tel_infoAll dr ((failedMove d1)\<lparr>tl_parkFlipping := False\<rparr>))
         else if ret = -2 then
           (let (r, d2) = tel_drive (td_endPark dr) (tel_infoAll dr (d1\<lparr>tl_parkFlipping := False\<rparr>)) in
            send_move_info
              (if r \<noteq> 0 then failed (failedMove d2)
               else tel_mask (TEL_MASK_MOVING OR BOP_EXPOSURE) TEL_PARKED (Some ''park command finished without error'') d2))
         else d1)"

definition checkMoves :: "('p::{plus,minus,zero}, 'a) tel_driver \<Rightarrow> int \<Rightarrow> ('p, 'a) telescope_scheme \<Rightarrow> ('p, 'a) telescope_scheme" where
  "checkMoves dr now d =
     (let d1 = (if tel_part d = TEL_MOVING then check_moving dr now d
                else if tel_part d = TEL_PARKING then check_parking dr d else d)
      in if d_state d1 AND TEL_MASK_OFFSETING = TEL_OFFSETING then
           (let (ret, d2) = tel_drive (td_isOffseting dr) d1 in
            if ret < 0 then tel_mask TEL_MASK_OFFSETING TEL_NO_OFFSETING (Some ''offseting finished'') d2 else d2)
         else d1)"

definition tel_setFullBopState ::
  "('p::{plus,minus,zero}, 'a) tel_driver \<Rightarrow> int \<Rightarrow> rts2_status \<Rightarrow> ('p, 'a) telescope_scheme \<Rightarrow> ('p, 'a) telescope_scheme"
where
  "tel_setFullBopState dr now s d =
     (let d1 = setFullBopState maskQueValueBopState s d in
      if corrections_wait d1 \<and> s AND BOP_TEL_MOVE = 0 then resync_waiting dr now d1 else d1)"

section \<open>Parking and the state of the central server\<close>

definition tel_startPark ::
  "('p::zero, 'a) tel_driver \<Rightarrow> int \<Rightarrow> nat option \<Rightarrow> ('p, 'a) telescope_scheme \<Rightarrow> int \<times> ('p, 'a) telescope_scheme"
where
  "tel_startPark dr now conn d =
     (if tel_part d = TEL_PARKING then (0, d)
      else if tl_blockMove d then (-1, tel_end conn ''telescope move blocked'' d)
      else
        let d1 = tel_mask (TEL_MASK_TRACK OR TEL_MASK_OFFSETING OR TEL_MASK_UNSTABLE) (TEL_NOTRACK OR TEL_NO_OFFSETING OR TEL_STABLE)
                   (Some ''stop tracking while telescope is being parked'') (resetMpecTLE d);
            (ret, d2) = (if tel_part d1 = TEL_MOVING then tel_drive (td_stopMove dr) d1 else (0, d1))
        in if ret \<noteq> 0 then (-1, tel_end conn ''stopMove error'' d2)
           else
             let d3 = stopTracking dr now (Some ''parking telescope'') (d2\<lparr>tl_parkFlipping := True\<rparr>);
                 (r, d4) = tel_drive (td_startPark dr) d3
             in if r < 0 then (-1, tel_end conn ''cannot park'' (d4\<lparr>tl_parkFlipping := False\<rparr>))
                else
                  let d5 = (if r = 0 then d4\<lparr>tl_tar := None, tl_target := None, tl_ori := None, tl_ori_changed := False, tl_altaz := None\<rparr>
                            else d4)
                  in (0, tel_mask (TEL_MASK_MOVING OR TEL_MASK_TRACK OR TEL_MASK_NEED_STOP) TEL_PARKING (Some ''parking started'')
                           (incMoveNum d5)))"

definition tel_changeMasterState ::
  "('p::zero, 'a) tel_driver \<Rightarrow> int \<Rightarrow> rts2_status \<Rightarrow> rts2_status \<Rightarrow> ('p, 'a) telescope_scheme \<Rightarrow> ('p, 'a) telescope_scheme"
where
  "tel_changeMasterState dr now old new d =
     (let period = new AND SERVERD_STATUS_MASK; stopped = (new AND STOP_MASK = STOP_EVERYTHING);
          d1 = (if d_state d AND STOP_MASK \<noteq> STOP_EVERYTHING \<and> stopped then
                  snd (tel_drive (td_stopMove dr) (stopTracking dr now (Some ''tracking blocked'') (tel_send ''block_move'' (d\<lparr>tl_blockMove := True\<rparr>))))
                else if old AND STOP_MASK = STOP_EVERYTHING \<and> \<not> stopped then tel_send ''block_move'' (d\<lparr>tl_blockMove := False\<rparr>)
                else d);
          d2 = (if (period = SERVERD_DAY \<or> new AND SERVERD_ONOFF_MASK \<noteq> 0) \<and> tl_standbyPark d1 \<noteq> 0
                   \<and> (tl_standbyPark d1 = 2 \<or> \<not> (period = SERVERD_NIGHT \<or> period = SERVERD_DUSK \<or> period = SERVERD_DAWN))
                   \<and> tel_part d1 \<noteq> TEL_PARKED \<and> tel_part d1 \<noteq> TEL_PARKING
                then snd (tel_startPark dr now None d1) else d1);
          d3 = (if tl_blockOnStandby d2 then
                  (if new AND SERVERD_ONOFF_MASK \<noteq> 0 then d2\<lparr>tl_blockMove := True\<rparr>
                   else if old AND SERVERD_ONOFF_MASK \<noteq> 0 then d2\<lparr>tl_blockMove := False\<rparr> else d2)
                else d2)
      in block_masterStateChanged d3)"

section \<open>Values\<close>

text \<open>The values whose changes have a meaning for the telescope, of those with whole numbers and positions.\<close>

datatype 'p tel_value =
    TRACKING int
  | OFFS 'p
  | CORR 'p
  | WOFFS 'p
  | ORI "'p option"
  | TEL_ALTAZ "'p option"
  | OFFS_ALTAZ
  | MPEC string
  | TLE_FREEZE bool
  | BLOCK_MOVE bool

text \<open>
  \<open>setValue\<close>: the guard of \<open>tracking\<close> reads the new value as a boolean, which only 1 is. \<open>mpec_ok\<close> says
  which texts are the elements of an orbit.
\<close>

definition tel_setValue ::
  "(string \<Rightarrow> bool) \<Rightarrow> ('p, 'a) tel_driver \<Rightarrow> int \<Rightarrow> 'p tel_value \<Rightarrow> ('p, 'a) telescope_scheme \<Rightarrow> int \<times> ('p, 'a) telescope_scheme"
where
  "tel_setValue mpec_ok dr now v d =
     (case v of
        TRACKING n \<Rightarrow>
          if n = 1 \<and> (tl_blockMove d \<or> tel_part d = TEL_PARKING \<or> tel_part d = TEL_PARKED) then (-2, d)
          else (0, setTracking dr now n True False (Some ''tracking stopped'') d)
      | MPEC s \<Rightarrow> (if mpec_ok s then 0 else -2, d)
      | TLE_FREEZE b \<Rightarrow> (if tl_tle1 d = '''' \<or> tl_tle2 d = '''' then -2 else 0, d)
      | OFFS_ALTAZ \<Rightarrow> (0, tel_mask TEL_MASK_OFFSETING TEL_OFFSETING (Some ''offseting telescope'') d)
      | _ \<Rightarrow> (0, d))"

definition tel_storeValue :: "'p tel_value \<Rightarrow> ('p, 'a) telescope_scheme \<Rightarrow> ('p, 'a) telescope_scheme" where
  "tel_storeValue v d =
     (case v of
        TRACKING n \<Rightarrow> d\<lparr>tl_tracking := map_option (\<lambda>_. n) (tl_tracking d)\<rparr>
      | OFFS p \<Rightarrow> d\<lparr>tl_offs := p\<rparr>
      | CORR p \<Rightarrow> d\<lparr>tl_corr := p\<rparr>
      | WOFFS p \<Rightarrow> d\<lparr>tl_woffs := p, tl_woffs_changed := tl_woffs_changed d \<or> p \<noteq> tl_woffs d\<rparr>
      | ORI p \<Rightarrow> setOri p d
      | TEL_ALTAZ p \<Rightarrow> d\<lparr>tl_altaz := p\<rparr>
      | OFFS_ALTAZ \<Rightarrow> d
      | MPEC s \<Rightarrow> d\<lparr>tl_mpec := s, tl_mpec_changed := tl_mpec_changed d \<or> s \<noteq> tl_mpec d\<rparr>
      | TLE_FREEZE b \<Rightarrow> d\<lparr>tl_tle_freeze := b\<rparr>
      | BLOCK_MOVE b \<Rightarrow> d\<lparr>tl_blockMove := b\<rparr>)"

definition moveAltAz ::
  "('p::{plus,minus,zero}, 'a) tel_driver \<Rightarrow> int \<Rightarrow> bool \<Rightarrow> ('p, 'a) telescope_scheme \<Rightarrow> int \<times> ('p, 'a) telescope_scheme"
where
  "moveAltAz dr now ignore d =
     (case tl_altaz d of
        None \<Rightarrow> (-1, d)
      | Some h \<Rightarrow> startResyncMove dr now None 0 ignore (setOri (Some (td_from_altaz dr now h)) d))"

definition tel_valueChanged ::
  "('p::{plus,minus,zero}, 'a) tel_driver \<Rightarrow> int \<Rightarrow> 'p tel_value \<Rightarrow> ('p, 'a) telescope_scheme \<Rightarrow> ('p, 'a) telescope_scheme"
where
  "tel_valueChanged dr now v d =
     (case v of
        WOFFS p \<Rightarrow> tel_mask BOP_EXPOSURE BOP_EXPOSURE (Some ''blocking exposure for offsets'') d
      | ORI p \<Rightarrow> snd (startResyncMove dr now None 0 False (d\<lparr>tl_mpec := '''', tl_altaz := None\<rparr>))
      | MPEC s \<Rightarrow> snd (startResyncMove dr now None 0 False d)
      | OFFS p \<Rightarrow> snd (startResyncMove dr now None 0 False d)
      | CORR p \<Rightarrow> snd (startResyncMove dr now None 0 False d)
      | TEL_ALTAZ p \<Rightarrow> snd (moveAltAz dr now False d)
      | _ \<Rightarrow> d)"

text \<open>A value that is set: the new value is stored between the two calls when the first one allows it.\<close>

definition tel_change ::
  "(string \<Rightarrow> bool) \<Rightarrow> ('p::{plus,minus,zero}, 'a) tel_driver \<Rightarrow> int \<Rightarrow> 'p tel_value \<Rightarrow> ('p, 'a) telescope_scheme \<Rightarrow> int \<times> ('p, 'a) telescope_scheme"
where
  "tel_change mpec_ok dr now v d =
     (let (ret, d1) = tel_setValue mpec_ok dr now v d in
      if ret \<noteq> 0 then (ret, d1) else (0, tel_valueChanged dr now v (tel_storeValue v d1)))"

definition tel_scriptEnds :: "('p::zero, 'a) telescope_scheme \<Rightarrow> int \<times> ('p, 'a) telescope_scheme" where
  "tel_scriptEnds d =
     scriptEnds (d\<lparr>tl_woffs := 0, tl_woffs_changed := tl_woffs_changed d \<or> tl_woffs d \<noteq> 0, tl_tle_freeze := False\<rparr>)"

section \<open>Commands\<close>

text \<open>
  The numbers of the commands are floating point: \<open>rd w b\<close> is the position the parameters \<open>b\<close> of the
  command \<open>w\<close> stand for (None: wrong parameters), \<open>rd_err\<close> reads the correction and its error.
\<close>

definition tel_move ::
  "('p::{plus,minus,zero}, 'a) tel_driver \<Rightarrow> int \<Rightarrow> nat \<Rightarrow> 'p \<Rightarrow> ('p, 'a) telescope_scheme \<Rightarrow> int \<times> ('p, 'a) telescope_scheme"
where
  "tel_move dr now conn p d =
     (let d1 = startTracking dr now True (resetMpecTLE ((setOri (Some p) d)\<lparr>tl_altaz := None\<rparr>));
          (ret, d2) = startResyncMove dr now (Some conn) 0 False d1
      in (ret, if ret \<noteq> 0 then stopTracking dr now (Some ''stop tracking, move cannot be perfomed'') d2 else d2))"

definition move_mpec_cmd ::
  "(string \<Rightarrow> bool) \<Rightarrow> ('p::{plus,minus,zero}, 'a) tel_driver \<Rightarrow> int \<Rightarrow> nat \<Rightarrow> string \<Rightarrow> ('p, 'a) telescope_scheme \<Rightarrow> int \<times> ('p, 'a) telescope_scheme"
where
  "move_mpec_cmd mpec_ok dr now conn b d =
     (case paramNextString [] b of
        (None, r) \<Rightarrow> (-2, d)
      | (Some s, r) \<Rightarrow>
          if \<not> fst (paramEnd r) then (-2, d)
          else
            let d1 = tel_storeValue (MPEC s) (d\<lparr>tl_model := True, tl_altaz := None\<rparr>) in
            if \<not> mpec_ok s then (-3, d1)
            else
              let d2 = startTracking dr now True
                    (d1\<lparr>tl_tle_changed := tl_tle_changed d1 \<or> tl_tle1 d1 \<noteq> '''' \<or> tl_tle2 d1 \<noteq> '''', tl_tle1 := '''', tl_tle2 := ''''\<rparr>);
                  (ret, d3) = startResyncMove dr now (Some conn) 0 False d2
              in (ret, if ret \<noteq> 0 then stopTracking dr now (Some ''stop tracking, move cannot be perfomed'') d3 else d3))"

definition move_tle_cmd ::
  "(string \<Rightarrow> string \<Rightarrow> bool) \<Rightarrow> ('p::{plus,minus,zero}, 'a) tel_driver \<Rightarrow> int \<Rightarrow> nat \<Rightarrow> string \<Rightarrow> ('p, 'a) telescope_scheme \<Rightarrow> int \<times> ('p, 'a) telescope_scheme"
where
  "move_tle_cmd tle_ok dr now conn b d =
     (case paramNextString [] b of
        (None, r) \<Rightarrow> (-2, d)
      | (Some l1, r) \<Rightarrow> (case paramNextString [] r of
            (None, r1) \<Rightarrow> (-2, d)
          | (Some l2, r1) \<Rightarrow>
              if \<not> fst (paramEnd r1) then (-2, d)
              else if \<not> tle_ok l1 l2 then (-3, d)
              else
                let d1 = d\<lparr>tl_tle_freeze := False, tl_mpec := '''', tl_mpec_changed := tl_mpec_changed d \<or> tl_mpec d \<noteq> '''',
                           tl_tle_changed := tl_tle_changed d \<or> tl_tle1 d \<noteq> l1 \<or> tl_tle2 d \<noteq> l2, tl_tle1 := l1, tl_tle2 := l2\<rparr>
                in startResyncMove dr now (Some conn) 0 False (startTracking dr now True d1)))"

definition correct_cmd ::
  "(string \<Rightarrow> ('p \<times> int) option) \<Rightarrow> int \<Rightarrow> int \<Rightarrow> nat \<Rightarrow> string \<Rightarrow> ('p, 'a) telescope_scheme \<Rightarrow> int \<times> ('p, 'a) telescope_scheme"
where
  "correct_cmd rd_err ignore small conn b d =
     (case paramNextInteger b of (Some mark, r1) \<Rightarrow>
      (case paramNextInteger r1 of (Some cimg, r2) \<Rightarrow>
      (case paramNextInteger r2 of (Some cobs, r3) \<Rightarrow>
      (case paramNextInteger r3 of (Some img, r4) \<Rightarrow>
      (case paramNextInteger r4 of (Some obs, r5) \<Rightarrow>
      (case rd_err r5 of None \<Rightarrow> (-2, d)
       | Some (p, err) \<Rightarrow>
           if mark = tl_moveNum d \<and> cimg = tl_corrImgId d \<and> cobs = tl_corrObsId d \<and> (obs > tl_wCorrObsId d \<or> img > tl_wCorrImgId d) then
             (if err < ignore then (-1, end_on conn DEVDEM_E_IGNORE ''ignoring correction as it is too small'' d)
              else
                let d1 = d\<lparr>tl_wcorr := p, tl_wcorr_changed := tl_wcorr_changed d \<or> p \<noteq> tl_wcorr d, tl_wCorrImgId := img, tl_wCorrObsId := obs\<rparr> in
                if err < small then (-1, end_on conn DEVDEM_E_IGNORE ''ignoring correction debugging phase'' d1)
                else (0, tel_mask BOP_EXPOSURE BOP_EXPOSURE (Some ''blocking exposure for correction'') d1))
           else (-1, end_on conn DEVDEM_E_IGNORE ''ignoring correction'' d))
       | _ \<Rightarrow> (-2, d)) | _ \<Rightarrow> (-2, d)) | _ \<Rightarrow> (-2, d)) | _ \<Rightarrow> (-2, d)) | _ \<Rightarrow> (-2, d))"

text \<open>
  \<open>commandAuthorized\<close> without \<open>peek\<close>, \<open>save_model\<close>, \<open>load_model\<close>, \<open>reset\<close>, \<open>getdut1\<close> and \<open>weather\<close>, which do
  not touch what is modelled. The moves to a position differ in how they read it; \<open>script_ends\<close> calls
  the virtual function of the telescope; \<open>device_cmd\<close> are the commands of every device.
\<close>

definition tel_commandAuthorized ::
  "(string \<Rightarrow> string \<Rightarrow> 'p option) \<Rightarrow> (string \<Rightarrow> ('p \<times> int) option) \<Rightarrow> int \<Rightarrow> int \<Rightarrow> (string \<Rightarrow> bool) \<Rightarrow> (string \<Rightarrow> string \<Rightarrow> bool)
    \<Rightarrow> (nat \<Rightarrow> string \<Rightarrow> string \<Rightarrow> ('p, 'a) telescope_scheme \<Rightarrow> int \<times> ('p, 'a) telescope_scheme)
    \<Rightarrow> ('p::{plus,minus,zero}, 'a) tel_driver \<Rightarrow> int \<Rightarrow> nat \<Rightarrow> string \<Rightarrow> string \<Rightarrow> ('p, 'a) telescope_scheme
    \<Rightarrow> int \<times> ('p, 'a) telescope_scheme"
where
  "tel_commandAuthorized rd rd_err ignore small mpec_ok tle_ok device_cmd dr now conn w b d =
     (let at = (\<lambda>f. case rd w b of None \<Rightarrow> (-2, d) | Some p \<Rightarrow> f p);
          plain = (\<lambda>r. if fst (paramEnd b) then r else (-2, d)) in
      if w = ''move'' \<or> w = ''move_pm'' \<or> w = ''move_epoch'' \<or> w = ''move_epoch_pm'' then
        at (\<lambda>p. tel_move dr now conn p (d\<lparr>tl_model := True\<rparr>))
      else if w = ''hadec'' then at (\<lambda>p. tel_move dr now conn p d)
      else if w = ''move_not_model'' then at (\<lambda>p. tel_move dr now conn p (d\<lparr>tl_model := False\<rparr>))
      else if w = ''move_mpec'' then move_mpec_cmd mpec_ok dr now conn b d
      else if w = ''altaz'' \<or> w = ''nc_altaz'' then
        at (\<lambda>p. let (r, e) = moveAltAz dr now (w = ''nc_altaz'')
                       (stopTracking dr now (Some ''stop tracking while in AltAz'') (resetMpecTLE (d\<lparr>tl_altaz := Some p\<rparr>)))
                in (if r = 0 then 0 else -3, e))
      else if w = ''resync'' then at (\<lambda>p. startResyncMove dr now (Some conn) 0 False (resetMpecTLE (setOri (Some p) d)))
      else if w = ''setto'' then
        at (\<lambda>p. let (r, e) = tel_drive (td_setTo dr (Some p)) (d\<lparr>tl_model := True\<rparr>)
                in (r, tel_send ''TEL'' (if r \<noteq> 0 then end_on conn DEVDEM_E_HW ''cannot set to'' e else e)))
      else if w = ''settopark'' then
        plain (let (r, e) = tel_drive (td_setToPark dr) d
               in (r, tel_send ''TEL'' (if r \<noteq> 0 then end_on conn DEVDEM_E_HW ''cannot set to park'' e else e)))
      else if w = ''synccorr'' then
        plain (let (r, e) = tel_drive (td_setTo dr (tl_tar d)) d;
                   e1 = tel_send ''TEL'' (if r \<noteq> 0 then end_on conn DEVDEM_E_HW ''cannot set to'' e else e)
               in (r, if r = 0 then e1\<lparr>tl_corr := 0, tl_wcorr_changed := tl_wcorr_changed e1 \<or> tl_wcorr e1 \<noteq> 0, tl_wcorr := 0\<rparr>
                      else e1))
      else if w = ''correct'' then correct_cmd rd_err ignore small conn b d
      else if w = ''move_tle'' then move_tle_cmd tle_ok dr now conn b d
      else if w = ''park'' then plain (tel_startPark dr now (Some conn) (d\<lparr>tl_model := True\<rparr>))
      else if w = ''stop'' then
        plain (let (r, e) = tel_drive (td_stopMove dr) (stopTracking dr now (Some ''tracking stopped'') d)
               in if r \<noteq> 0 then (-1, end_on conn DEVDEM_E_HW ''stopMove failed'' e) else (0, e))
      else if w = ''change'' then
        at (\<lambda>p. startResyncMove dr now (Some conn) 1 False
                  (d\<lparr>tl_offs := tl_offs d + p, tl_woffs_changed := tl_woffs_changed d \<or> tl_woffs d + p \<noteq> tl_woffs d,
                     tl_woffs := tl_woffs d + p\<rparr>))
      else if w = ''worm_stop'' then plain (0, stopTracking dr now (Some ''tracking stopped by worm_stop command'') d)
      else if w = ''worm_start'' then
        plain (if tl_blockMove d \<or> tel_part d = TEL_PARKING \<or> tel_part d = TEL_PARKED
               then (-1, end_on conn DEVDEM_E_HW ''cannot start worm'' d)
               else (0, startTracking dr now True d))
      else if w = ''script_ends'' then tel_scriptEnds d
      else device_cmd conn w b d)"

definition tel_idle :: "('p::{plus,minus,zero}, 'a) tel_driver \<Rightarrow> int \<Rightarrow> ('p, 'a) telescope_scheme \<Rightarrow> ('p, 'a) telescope_scheme" where
  "tel_idle dr now d = block_idle_conns (now div USEC_SEC) (checkMoves dr now d)"

section \<open>Runs\<close>

definition tel_hooks :: "('p, 'a) tel_driver \<Rightarrow> (('p, 'a) telescope_scheme) device_hooks" where
  "tel_hooks dr = \<lparr>dh_chg = tel_chg, dh_refresh = tel_drive (td_info dr), dh_refresh_base = (\<lambda>d. (0, d)),
     dh_more = (\<lambda>conn w b d. (-5, d))\<rparr>"

datatype 'p tel_op =
    TelIdle int
  | TelTimer int
  | TelCommand int nat string string
  | TelChange int "'p tel_value"
  | TelBop int rts2_status
  | TelMaster int rts2_status rts2_status

text \<open>What the numbers in commands and values mean.\<close>

record 'p tel_reader =
  tr_pos :: "string \<Rightarrow> string \<Rightarrow> 'p option"
  tr_err :: "string \<Rightarrow> ('p \<times> int) option"
  tr_ignore :: int
  tr_small :: int
  tr_mpec :: "string \<Rightarrow> bool"
  tr_tle :: "string \<Rightarrow> string \<Rightarrow> bool"

fun tel_step ::
  "'p tel_reader \<Rightarrow> ('p::{plus,minus,zero}, 'a) tel_driver \<Rightarrow> 'p tel_op \<Rightarrow> ('p, 'a) telescope_scheme \<Rightarrow> ('p, 'a) telescope_scheme"
where
  "tel_step tr dr (TelIdle now) d = tel_idle dr now d"
| "tel_step tr dr (TelTimer now) d = tracking_timer now d"
| "tel_step tr dr (TelCommand now conn w b) d =
     snd (tel_commandAuthorized (tr_pos tr) (tr_err tr) (tr_ignore tr) (tr_small tr) (tr_mpec tr) (tr_tle tr)
            (device_commandAuthorized (tel_hooks dr)) dr now conn w b d)"
| "tel_step tr dr (TelChange now v) d = snd (tel_change (tr_mpec tr) dr now v d)"
| "tel_step tr dr (TelBop now s) d = tel_setFullBopState dr now s d"
| "tel_step tr dr (TelMaster now old new) d = tel_changeMasterState dr now old new d"

end
