(* ===== verification/Rts2_TeldRun.thy ===== *)
theory Rts2_TeldRun
  imports Rts2_Teld
begin

text \<open>
  Runs of a telescope: while it slews, exposures are blocked; the mount is told to move only to
  targets above the hard horizon and only while moves are not blocked. And what becomes of
  corrections, tracking and the block itself when the code's guards do not fit.
\<close>

section \<open>What a change of the state leaves alone\<close>

lemma tel_same_more:
  assumes "device.more (d :: ('p, 'a) telescope_scheme) = device.more e"
  shows "tl_ori d = tl_ori e" "tl_ori_changed d = tl_ori_changed e" "tl_offs d = tl_offs e" "tl_corr d = tl_corr e"
    "tl_woffs d = tl_woffs e" "tl_woffs_changed d = tl_woffs_changed e" "tl_wcorr d = tl_wcorr e"
    "tl_wcorr_changed d = tl_wcorr_changed e" "tl_mpec d = tl_mpec e" "tl_tle1 d = tl_tle1 e" "tl_tle2 d = tl_tle2 e"
    "tl_blockMove d = tl_blockMove e" "tl_parkingBlockMove d = tl_parkingBlockMove e" "tl_tracking d = tl_tracking e"
    "tl_ignoreHorizon d = tl_ignoreHorizon e" "tl_starts d = tl_starts e" "tl_standbyPark d = tl_standbyPark e"
    "tl_blockOnStandby d = tl_blockOnStandby e" "tl_moveConn d = tl_moveConn e" "tl_tle_changed d = tl_tle_changed e"
    "tl_mpec_changed d = tl_mpec_changed e" "telescope.more d = telescope.more e"
  using assms by (cases d rule: telescope.cases_scheme; cases e rule: telescope.cases_scheme; simp)+

lemma tel_mask_frame [simp]:
  "device.more (tel_mask m s desc d) = device.more d"
  "d_state (tel_mask m s desc d) = masked (d_state d) (DEVICE_ERROR_MASK OR m) s"
  by (simp_all add: tel_mask_def tel_chg_def)

lemmas tel_mask_fields [simp] = tel_same_more [OF tel_mask_frame(1)]

lemma tel_drive_frame [simp]:
  "d_state (snd (tel_drive f d)) = d_state d" "tl_starts (snd (tel_drive f d)) = tl_starts d"
  "tl_blockMove (snd (tel_drive f d)) = tl_blockMove d" "tl_ignoreHorizon (snd (tel_drive f d)) = tl_ignoreHorizon d"
  "tl_corr (snd (tel_drive f d)) = tl_corr d" "tl_wcorr (snd (tel_drive f d)) = tl_wcorr d"
  "tl_wcorr_changed (snd (tel_drive f d)) = tl_wcorr_changed d" "tl_tracking (snd (tel_drive f d)) = tl_tracking d"
  by (simp_all add: tel_drive_def split: prod.split)

section \<open>The key of a telescope\<close>

text \<open>The bits for movements and exposures, and the calls of \<open>startResync\<close>.\<close>

abbreviation slew_bits :: rts2_status where "slew_bits \<equiv> TEL_MASK_MOVING OR BOP_EXPOSURE"

definition tel_key :: "('p, 'a) telescope_scheme \<Rightarrow> rts2_status \<times> ('p \<times> bool \<times> bool \<times> bool) list" where
  "tel_key d = (d_state d AND slew_bits, tl_starts d)"

definition key_ok :: "rts2_status \<times> ('p \<times> bool \<times> bool \<times> bool) list \<Rightarrow> bool" where
  "key_ok k \<longleftrightarrow> (fst k AND TEL_MASK_MOVING \<noteq> TEL_MOVING \<or> fst k AND BOP_EXPOSURE \<noteq> 0)
     \<and> list_all (\<lambda>(p, above, ignore, block). (above \<or> ignore) \<and> \<not> block) (snd k)"

definition tel_ok :: "('p, 'a) telescope_scheme \<Rightarrow> bool" where
  "tel_ok d \<longleftrightarrow> key_ok (tel_key d)"

lemma key_frame [simp]:
  "tel_key (snd (tel_drive f d)) = tel_key d" "tel_key (tel_send n d) = tel_key d"
  "tel_key (end_on i c m d) = tel_key d" "tel_key (tel_end co m d) = tel_key d"
  "tel_key (failedMove d) = tel_key d" "tel_key (setOri p d) = tel_key d" "tel_key (resetMpecTLE d) = tel_key d"
  "tel_key (startCupolaSync t d) = tel_key d" "tel_key (runTracking t d) = tel_key d"
  "tel_key (move_object dr t d) = tel_key d"
  by (simp_all add: tel_key_def tel_send_def end_on_def on_conn_def map_conns_def tel_end_def failedMove_def setOri_def
      resetMpecTLE_def startCupolaSync_def runTracking_def move_object_def Let_def split: option.split)

lemma key_drive: "tel_drive f d = (r, e) \<Longrightarrow> tel_key e = tel_key d"
  using key_frame(1) [of f d] by simp

lemma key_move [simp]:
  fixes d :: "('p::{plus,minus,zero}, 'a) telescope_scheme"
  shows "tel_key (incMoveNum d) = tel_key d" "tel_key (count_move d) = tel_key d" "tel_key (take_waiting d) = tel_key d"
    "tel_key (move_started t conn d) = tel_key d"
  by (simp_all add: tel_key_def incMoveNum_def count_move_def take_waiting_def move_started_def startCupolaSync_def
      tel_send_def Let_def)

lemma key_mask_outside:
  "slew_bits AND (DEVICE_ERROR_MASK OR m) = 0 \<Longrightarrow> slew_bits AND s = 0 \<Longrightarrow> tel_key (tel_mask m s desc d) = tel_key d"
  by (simp add: tel_key_def masked_outside)

lemma key_mask_inside:
  "slew_bits AND NOT (DEVICE_ERROR_MASK OR m) = 0 \<Longrightarrow> tel_key (tel_mask m s desc d) = (s AND slew_bits, tl_starts d)"
  by (simp add: tel_key_def masked_inside)

lemma key_infoAll [simp]: "tel_key (tel_infoAll dr d) = tel_key d"
  using key_frame(1) [of "td_info dr" d]
  by (auto simp: tel_infoAll_def infoAll_def map_conns_def tel_key_def Let_def simp del: key_frame tel_drive_frame split: prod.split)

lemma key_fields [simp]:
  "tel_key (d\<lparr>tl_parkFlipping := b\<rparr>) = tel_key d" "tel_key (d\<lparr>tl_blockMove := b\<rparr>) = tel_key d"
  "tel_key (d\<lparr>tl_ignoreHorizon := b\<rparr>) = tel_key d" "tel_key (d\<lparr>tl_moveConn := co\<rparr>) = tel_key d"
  "tel_key (d\<lparr>tl_timeout := i\<rparr>) = tel_key d" "tel_key (d\<lparr>tl_infoCount := i\<rparr>) = tel_key d"
  "tel_key (d\<lparr>tl_altaz := p\<rparr>) = tel_key d" "tel_key (d\<lparr>tl_obj := p\<rparr>) = tel_key d"
  "tel_key (d\<lparr>tl_tar := p\<rparr>) = tel_key d" "tel_key (d\<lparr>tl_target := p\<rparr>) = tel_key d"
  "tel_key (d\<lparr>tl_model := b\<rparr>) = tel_key d" "tel_key (d\<lparr>tl_trackingTimer := b\<rparr>) = tel_key d"
  "tel_key (d\<lparr>tl_tracking := tr\<rparr>) = tel_key d" "tel_key (d\<lparr>tl_mpec := s\<rparr>) = tel_key d"
  "tel_key (d\<lparr>tl_ori := p\<rparr>) = tel_key d" "tel_key (d\<lparr>tl_ori_changed := b\<rparr>) = tel_key d"
  "tel_key (d\<lparr>tl_tle1 := s\<rparr>) = tel_key d" "tel_key (d\<lparr>tl_tle2 := s\<rparr>) = tel_key d"
  "tel_key (d\<lparr>tl_tle_changed := b\<rparr>) = tel_key d" "tel_key (d\<lparr>tl_tle_freeze := b\<rparr>) = tel_key d"
  "tel_key (d\<lparr>tl_mpec_changed := b\<rparr>) = tel_key d" "tel_key (d\<lparr>tl_wcorr := q\<rparr>) = tel_key d"
  "tel_key (d\<lparr>tl_wcorr_changed := b\<rparr>) = tel_key d" "tel_key (d\<lparr>tl_corr := q\<rparr>) = tel_key d"
  "tel_key (d\<lparr>tl_offs := q\<rparr>) = tel_key d" "tel_key (d\<lparr>tl_woffs := q\<rparr>) = tel_key d"
  "tel_key (d\<lparr>tl_woffs_changed := b\<rparr>) = tel_key d" "tel_key (d\<lparr>tl_wCorrImgId := i\<rparr>) = tel_key d"
  "tel_key (d\<lparr>tl_wCorrObsId := i\<rparr>) = tel_key d"
  by (simp_all add: tel_key_def)

lemma key_tracking [simp]:
  "tel_key (setTracking dr t n timer send msg d) = tel_key d" "tel_key (startTracking dr t c d) = tel_key d"
  "tel_key (stopTracking dr t msg d) = tel_key d" "tel_key (tracking_timer t d) = tel_key d"
proof -
  have m: "tel_key (tel_mask TEL_MASK_TRACK s desc e) = tel_key e" if "s = TEL_TRACKING \<or> s = TEL_NOTRACK" for s desc e
    by (rule key_mask_outside) (use that in \<open>auto simp: status_bits\<close>)
  show a: "tel_key (setTracking dr t n timer send msg d) = tel_key d" for n timer send msg
    by (simp add: setTracking_def Let_def m split: option.split)
  then show "tel_key (startTracking dr t c d) = tel_key d" "tel_key (stopTracking dr t msg d) = tel_key d"
    by (simp_all add: startTracking_def stopTracking_def split: option.split)
  show "tel_key (tracking_timer t d) = tel_key d" by (simp add: tracking_timer_def)
qed

section \<open>Slews block exposures, moves obey the block and the horizon\<close>

lemma ok_key: "tel_key d = tel_key e \<Longrightarrow> tel_ok d = tel_ok e"
  by (simp add: tel_ok_def)

lemma ok_starts: "tel_ok d \<Longrightarrow> list_all (\<lambda>(p, above, ignore, block). (above \<or> ignore) \<and> \<not> block) (tl_starts d)"
  by (simp add: tel_ok_def key_ok_def tel_key_def)

lemma key_ok_still:
  "list_all (\<lambda>(p, above, ignore, block). (above \<or> ignore) \<and> \<not> block) ss \<Longrightarrow> s AND TEL_MASK_MOVING \<noteq> TEL_MOVING
    \<Longrightarrow> key_ok (s AND slew_bits, ss)"
  by (simp add: key_ok_def and.assoc status_bits)

text \<open>A mask that ends a movement, and one that starts it.\<close>

lemma ok_mask_rest:
  assumes "tel_ok d" "slew_bits AND NOT (DEVICE_ERROR_MASK OR m) = 0" "s AND TEL_MASK_MOVING \<noteq> TEL_MOVING"
  shows "tel_ok (tel_mask m s desc d)"
  using assms by (simp add: tel_ok_def key_mask_inside key_ok_still ok_starts [unfolded tel_ok_def])

lemma ok_mask_stop:
  assumes "tel_ok d" "TEL_MASK_MOVING AND NOT (DEVICE_ERROR_MASK OR m) = 0" "s AND TEL_MASK_MOVING \<noteq> TEL_MOVING"
  shows "tel_ok (tel_mask m s desc d)"
proof -
  have "masked (d_state d) (DEVICE_ERROR_MASK OR m) s AND TEL_MASK_MOVING = s AND TEL_MASK_MOVING"
    using assms(2) by (rule masked_inside)
  moreover have "(x AND slew_bits) AND TEL_MASK_MOVING = x AND TEL_MASK_MOVING" for x
    by (simp add: and.assoc status_bits)
  ultimately show ?thesis using assms(1,3) by (simp add: tel_ok_def key_ok_def tel_key_def)
qed

lemma ok_mask_bop: "tel_ok d \<Longrightarrow> tel_ok (tel_mask BOP_EXPOSURE BOP_EXPOSURE desc d)"
proof -
  assume a: "tel_ok d"
  have "masked (d_state d) (DEVICE_ERROR_MASK OR BOP_EXPOSURE) BOP_EXPOSURE AND BOP_EXPOSURE = BOP_EXPOSURE AND BOP_EXPOSURE"
    by (rule masked_inside) (simp add: status_bits)
  moreover have "(x AND slew_bits) AND BOP_EXPOSURE = x AND BOP_EXPOSURE" for x
    by (simp add: and.assoc status_bits)
  ultimately show ?thesis using a by (simp add: tel_ok_def key_ok_def tel_key_def status_bits)
qed

lemma ok_mask_outside:
  "tel_ok d \<Longrightarrow> slew_bits AND (DEVICE_ERROR_MASK OR m) = 0 \<Longrightarrow> slew_bits AND s = 0 \<Longrightarrow> tel_ok (tel_mask m s desc d)"
  by (simp add: tel_ok_def key_mask_outside)

lemma ok_cannot_move: "tel_ok d \<Longrightarrow> tel_ok (snd (cannot_move dr t conn msg d))"
proof -
  assume a: "tel_ok d"
  let ?e = "stopTracking dr t None (snd (tel_drive (td_stopMove dr)
    ((setOri None (d\<lparr>tl_parkFlipping := False\<rparr>))\<lparr>tl_obj := None, tl_tar := None, tl_altaz := None\<rparr>)))"
  have "tel_ok ?e" using a by (simp add: tel_ok_def)
  then have "tel_ok (tel_mask (TEL_MASK_CORRECTING OR TEL_MASK_MOVING OR BOP_EXPOSURE OR TEL_MASK_TRACK)
      (TEL_NOT_CORRECTING OR TEL_OBSERVING OR TEL_NOTRACK) desc ?e)" for desc
    by (rule ok_mask_rest) (simp_all add: status_bits)
  then show ?thesis by (simp add: cannot_move_def Let_def tel_ok_def)
qed

lemma ok_announce: "tel_ok d \<Longrightarrow> tel_ok (announce_move c d)"
  using ok_starts [of d] by (simp add: announce_move_def tel_ok_def key_mask_inside key_ok_def status_bits)

lemma announce_fields [simp]:
  "tl_blockMove (announce_move c d) = tl_blockMove d" "tl_ignoreHorizon (announce_move c d) = tl_ignoreHorizon d"
  "tl_starts (announce_move c d) = tl_starts d"
  by (simp_all add: announce_move_def)

lemma ok_perform:
  fixes d :: "('p::{plus,minus,zero}, 'a) telescope_scheme"
  assumes "tel_ok d" "\<not> tl_blockMove d"
  shows "tel_ok (snd (perform_move dr t conn c good pos d))"
proof -
  let ?a = "announce_move c d"
  let ?b = "?a\<lparr>tl_starts := tl_starts ?a @ [(pos, good, tl_ignoreHorizon ?a, tl_blockMove ?a)]\<rparr>"
  have b: "tel_ok ?b" if "tl_ignoreHorizon d \<or> good"
    using ok_announce [OF assms(1), of c] that assms(2) by (auto simp: tel_ok_def key_ok_def tel_key_def)
  have f: "tel_ok (tel_mask (TEL_MASK_CORRECTING OR TEL_MASK_MOVING OR BOP_EXPOSURE OR TEL_MASK_TRACK)
      (TEL_NOT_CORRECTING OR TEL_OBSERVING) desc (stopTracking dr t None (e\<lparr>tl_parkFlipping := False\<rparr>)))"
    if "tel_ok e" for desc and e :: "('p, 'a) telescope_scheme"
    by (rule ok_mask_rest) (use that in \<open>simp_all add: tel_ok_def status_bits\<close>)
  have r: "tel_ok (snd (tel_drive (td_startResync dr) ?b))" if "tl_ignoreHorizon d \<or> good"
    using b that by (simp add: tel_ok_def)
  show ?thesis
    using ok_cannot_move [OF assms(1)] r f [of "snd (tel_drive (td_startResync dr) ?b)"]
    by (auto simp: perform_move_def case_prod_unfold Let_def tel_ok_def)
qed

lemma ok_resync:
  fixes d :: "('p::{plus,minus,zero}, 'a) telescope_scheme"
  assumes "tel_ok d"
  shows "tel_ok (snd (startResyncMove dr t conn c ignore d))"
proof -
  let ?d1 = "move_object dr t (d\<lparr>tl_ignoreHorizon := ignore\<rparr>)"
  have d1: "tel_key ?d1 = tel_key d" by simp
  show ?thesis
  proof (cases "tl_ori ?d1")
    case None
    then show ?thesis using assms d1 by (simp add: startResyncMove_def Let_def tel_ok_def)
  next
    case (Some ori)
    let ?d2 = "take_waiting (count_move ?d1)"
    let ?pos = "td_applyCorr dr ?d2 (td_corrections dr t (td_offsets dr ?d2 ori))"
    let ?d3 = "(tel_send ''OBJ'' (?d2\<lparr>tl_obj := Some (td_offsets dr ?d2 ori)\<rparr>))
      \<lparr>tl_tar := Some (td_corrections dr t (td_offsets dr ?d2 ori)), tl_target := Some ?pos, tl_infoCount := 0\<rparr>"
    have d3: "tel_key ?d3 = tel_key d" by simp
    obtain r d4 where d4: "tel_drive (td_stopMove dr) ?d3 = (r, d4)" by force
    have k4: "tel_key d4 = tel_key d" "tl_blockMove d4 = tl_blockMove ?d3"
      using key_frame(1) [of "td_stopMove dr" ?d3] tel_drive_frame(3) [of "td_stopMove dr" ?d3] d4 d3 by simp_all
    have "tel_ok (snd (perform_move dr t conn c g ?pos ?d3))" if "\<not> tl_blockMove ?d3" for g
      by (rule ok_perform) (use that assms d3 in \<open>simp_all add: tel_ok_def\<close>)
    moreover have "tel_ok (snd (perform_move dr t conn c g ?pos d4))" if "\<not> tl_blockMove ?d3" for g
      by (rule ok_perform) (use that assms k4 in \<open>simp_all add: tel_ok_def\<close>)
    moreover have "tel_ok ?d3" "tel_ok d4" using assms d3 k4 by (simp_all add: tel_ok_def)
    ultimately show ?thesis
      using Some d4 unfolding startResyncMove_def Let_def
      by (simp add: tel_ok_def)
  qed
qed

lemma ok_resync_waiting: "tel_ok d \<Longrightarrow> tel_ok (resync_waiting dr t d)"
  by (simp add: resync_waiting_def ok_resync)

lemma sendInfo_key [simp]: "tel_key (send_move_info d) = tel_key d"
  by (simp add: send_move_info_def tel_key_def on_conn_def map_conns_def Let_def split: option.split)

lemma ok_check_moving:
  fixes d :: "('p::{plus,minus,zero}, 'a) telescope_scheme"
  assumes "tel_ok d"
  shows "tel_ok (check_moving dr t d)"
proof -
  obtain r e where e: "tel_drive (td_isMoving dr) d = (r, e)" by force
  have k: "tel_key e = tel_key d" using key_frame(1) [of "td_isMoving dr" d] e by simp
  have f: "tel_ok (tel_mask (DEVICE_ERROR_MASK OR TEL_MASK_CORRECTING OR TEL_MASK_MOVING OR BOP_EXPOSURE)
      (DEVICE_ERROR_HW OR TEL_NOT_CORRECTING OR TEL_OBSERVING) desc g)" if "tel_key g = tel_key d" for desc g
    by (rule ok_mask_rest) (use that assms in \<open>simp_all add: tel_ok_def status_bits\<close>)
  have s: "tel_ok (tel_mask (TEL_MASK_CORRECTING OR TEL_MASK_MOVING OR BOP_EXPOSURE) (TEL_NOT_CORRECTING OR TEL_OBSERVING) desc g)"
    if "tel_key g = tel_key d" for desc g
    by (rule ok_mask_rest) (use that assms in \<open>simp_all add: tel_ok_def status_bits\<close>)
  let ?m = "startTracking dr t False (tel_infoAll dr e)"
  have m: "tel_ok (resync_waiting dr t ?m)" by (rule ok_resync_waiting) (use k assms in \<open>simp add: tel_ok_def\<close>)
  have i: "tel_key (snd (tel_drive (td_info dr) (e\<lparr>tl_timeout := r\<rparr>))) = tel_key d" using k by simp
  show ?thesis
    using assms k e f [of "send_move_info (failedMove e)"] s [of ?m] m i
    by (simp add: check_moving_def tel_endMove_def Let_def tel_ok_def)
qed

lemma ok_check_parking:
  assumes "tel_ok d"
  shows "tel_ok (check_parking dr d)"
proof -
  obtain r e where e: "tel_drive (td_isParking dr) d = (r, e)" by force
  have k: "tel_key e = tel_key d" using key_frame(1) [of "td_isParking dr" d] e by simp
  have f: "tel_ok (tel_mask (DEVICE_ERROR_MASK OR TEL_MASK_MOVING OR BOP_EXPOSURE) (DEVICE_ERROR_HW OR TEL_PARKED) desc g)"
    if "tel_key g = tel_key d" for desc g
    by (rule ok_mask_rest) (use that assms in \<open>simp_all add: tel_ok_def status_bits\<close>)
  have s: "tel_ok (tel_mask (TEL_MASK_MOVING OR BOP_EXPOSURE) TEL_PARKED desc g)" if "tel_key g = tel_key d" for desc g
    by (rule ok_mask_rest) (use that assms in \<open>simp_all add: tel_ok_def status_bits\<close>)
  let ?g = "snd (tel_drive (td_endPark dr) (tel_infoAll dr (e\<lparr>tl_parkFlipping := False\<rparr>)))"
  have g: "tel_key ?g = tel_key d" using k by simp
  show ?thesis
    using assms k e g f [of "tel_infoAll dr ((failedMove e)\<lparr>tl_parkFlipping := False\<rparr>)"] f [of "failedMove ?g"] s [of ?g]
    by (simp add: check_parking_def case_prod_unfold Let_def tel_ok_def)
qed

lemma ok_checkMoves:
  fixes d :: "('p::{plus,minus,zero}, 'a) telescope_scheme"
  assumes "tel_ok d"
  shows "tel_ok (checkMoves dr t d)"
proof -
  let ?e = "if tel_part d = TEL_MOVING then check_moving dr t d
    else if tel_part d = TEL_PARKING then check_parking dr d else d"
  have e: "tel_ok ?e" using ok_check_moving [OF assms, of dr t] ok_check_parking [OF assms, of dr] assms by simp
  have "tel_ok (tel_mask TEL_MASK_OFFSETING TEL_NO_OFFSETING desc (snd (tel_drive (td_isOffseting dr) ?e)))" for desc
    by (rule ok_mask_outside) (use e in \<open>simp_all add: tel_ok_def status_bits\<close>)
  then show ?thesis using e unfolding checkMoves_def Let_def case_prod_unfold by (simp add: tel_ok_def)
qed

lemma ok_fullBop: "tel_ok d \<Longrightarrow> tel_ok (tel_setFullBopState dr t s d)"
proof -
  assume a: "tel_ok d"
  have "tel_key (setFullBopState maskQueValueBopState s d) = tel_key d"
    by (simp add: setFullBopState_def sendBopMessage_def endDeviceStatusCommand_def tel_key_def sendAll_def map_conns_def
        end_on_def on_conn_def Let_def split: option.split)
  then have "tel_ok (setFullBopState maskQueValueBopState s d)" using a by (simp add: tel_ok_def)
  then show ?thesis by (simp add: tel_setFullBopState_def ok_resync_waiting Let_def)
qed

lemma ok_startPark:
  fixes d :: "('p::{plus,minus,zero}, 'a) telescope_scheme"
  assumes "tel_ok d"
  shows "tel_ok (snd (tel_startPark dr t conn d))"
proof -
  let ?d1 = "tel_mask (TEL_MASK_TRACK OR TEL_MASK_OFFSETING OR TEL_MASK_UNSTABLE) (TEL_NOTRACK OR TEL_NO_OFFSETING OR TEL_STABLE)
    (Some ''stop tracking while telescope is being parked'') (resetMpecTLE d)"
  have d1: "tel_key ?d1 = tel_key d"
    by (subst key_mask_outside) (simp_all add: status_bits)
  obtain r d2 where d2: "(if tel_part ?d1 = TEL_MOVING then tel_drive (td_stopMove dr) ?d1 else (0, ?d1)) = (r, d2)" by force
  have k2: "tel_key d2 = tel_key d"
    using d2 d1 by (auto split: if_splits dest: key_drive)
  let ?d3 = "stopTracking dr t (Some ''parking telescope'') (d2\<lparr>tl_parkFlipping := True\<rparr>)"
  have p: "tel_ok (tel_mask (TEL_MASK_MOVING OR TEL_MASK_TRACK OR TEL_MASK_NEED_STOP) TEL_PARKING desc e)"
    if "tel_key e = tel_key d" for desc and e :: "('p, 'a) telescope_scheme"
    by (rule ok_mask_stop) (use that assms in \<open>simp_all add: tel_ok_def status_bits\<close>)
  have k4: "tel_key (snd (tel_drive (td_startPark dr) ?d3)) = tel_key d" using k2 by simp
  show ?thesis
    using assms k2 k4 p unfolding tel_startPark_def Let_def d2
    by (simp add: case_prod_unfold tel_ok_def)
qed

lemma ok_master:
  fixes d :: "('p::{plus,minus,zero}, 'a) telescope_scheme"
  assumes "tel_ok d"
  shows "tel_ok (tel_changeMasterState dr t old new d)"
proof -
  have m: "tel_key (block_masterStateChanged e) = tel_key e" for e :: "('p, 'a) telescope_scheme"
    by (simp add: tel_key_def block_masterStateChanged_def map_conns_def Let_def)
  let ?s = "snd (tel_drive (td_stopMove dr) (stopTracking dr t (Some ''tracking blocked'') (tel_send ''block_move'' (d\<lparr>tl_blockMove := True\<rparr>))))"
  let ?u = "tel_send ''block_move'' (d\<lparr>tl_blockMove := False\<rparr>)"
  have "tel_ok ?s" "tel_ok ?u" using assms by (simp_all add: tel_ok_def)
  then show ?thesis
    using assms ok_startPark [of ?s dr t None] ok_startPark [of ?u dr t None] ok_startPark [of d dr t None]
    by (simp add: tel_changeMasterState_def Let_def m tel_ok_def)
qed

lemma ok_moveAltAz: "tel_ok d \<Longrightarrow> tel_ok (snd (moveAltAz dr t ign d))"
proof -
  assume a: "tel_ok d"
  have "tel_ok (setOri p d)" for p using a by (simp add: tel_ok_def)
  then show ?thesis using a by (simp add: moveAltAz_def ok_resync split: option.split)
qed

lemma ok_change:
  fixes d :: "('p::{plus,minus,zero}, 'a) telescope_scheme"
  assumes "tel_ok d"
  shows "tel_ok (snd (tel_change mo dr t v d))"
proof -
  have o: "tel_ok (tel_mask TEL_MASK_OFFSETING TEL_OFFSETING desc d)" for desc
    by (rule ok_mask_outside) (use assms in \<open>simp_all add: status_bits\<close>)
  have s: "tel_ok (snd (tel_setValue mo dr t v d))"
    using assms o by (simp add: tel_setValue_def tel_ok_def split: tel_value.split)
  have st: "tel_key (tel_storeValue v e) = tel_key e" for e :: "('p, 'a) telescope_scheme"
    by (cases v) (simp_all add: tel_storeValue_def setOri_def tel_key_def)
  have c: "tel_ok (tel_valueChanged dr t v e)" if "tel_ok e" for e :: "('p, 'a) telescope_scheme"
  proof -
    have "tel_ok (e\<lparr>tl_mpec := [], tl_altaz := None\<rparr>)" using that by (simp add: tel_ok_def)
    then show ?thesis using that
      by (simp add: tel_valueChanged_def ok_resync ok_moveAltAz ok_mask_bop split: tel_value.split)
  qed
  have "tel_ok (tel_storeValue v (snd (tel_setValue mo dr t v d)))" using s st by (simp add: tel_ok_def)
  then show ?thesis using c s by (simp add: tel_change_def case_prod_unfold Let_def)
qed

lemma key_device [simp]:
  "tel_key (deleteTemporaryValues d) = tel_key d" "tel_key (sendValueDeleteAll v d) = tel_key d"
  "tel_key (snd (deleteValue n d)) = tel_key d" "tel_key (map_conns f d) = tel_key d"
  "tel_key (on_conn i g d) = tel_key d" "tel_key (queDeviceStatusCommand conn d) = tel_key d"
  "tel_key (block_idle_conns t d) = tel_key d"
proof -
  have f: "tel_key (fold (\<lambda>x. map_conns (h x)) xs d) = tel_key d" for xs and h :: "cond_value \<Rightarrow> connection \<Rightarrow> connection"
    by (induction xs arbitrary: d) (simp_all add: map_conns_def tel_key_def)
  show "tel_key (deleteTemporaryValues d) = tel_key d"
    using f [of "\<lambda>cv. sendDelete (cv_value cv)" "filter (\<lambda>cv. isTemporary (cv_value cv)) (d_values d)"]
    by (simp add: deleteTemporaryValues_def sendValueDeleteAll_def tel_key_def)
qed (simp_all add: sendValueDeleteAll_def deleteValue_def map_conns_def on_conn_def queDeviceStatusCommand_def
      block_idle_conns_def tel_key_def Let_def split: list.split)

lemma key_info [simp]:
  "tel_key (snd (info_conn (tel_drive f) conn d)) = tel_key d" "tel_key (snd (baseInfo_conn (\<lambda>d. (0, d)) conn d)) = tel_key d"
  using key_frame(1) [of f d]
  by (auto simp: info_conn_def baseInfo_conn_def tel_key_def end_on_def on_conn_def map_conns_def Let_def
      simp del: key_frame tel_drive_frame split: prod.split)

lemma ok_device_kill: "tel_ok d \<Longrightarrow> tel_ok (snd (killAll tel_chg scriptEnds b d))"
proof -
  assume "tel_ok d"
  moreover have "tel_key (d\<lparr>d_queValues := []\<rparr>) = tel_key d" by (simp add: tel_key_def)
  ultimately have "tel_ok (snd (if b then scriptEnds (d\<lparr>d_queValues := []\<rparr>) else (0, d\<lparr>d_queValues := []\<rparr>)))"
    by (simp add: scriptEnds_def tel_ok_def)
  then have "tel_ok (tel_mask (DEVICE_ERROR_KILL OR DEVICE_ERROR_HW OR DEVICE_NOT_READY) DEVICE_ERROR_KILL (Some ''reseting all errors'')
      (snd (if b then scriptEnds (d\<lparr>d_queValues := []\<rparr>) else (0, d\<lparr>d_queValues := []\<rparr>))))"
    by (rule ok_mask_outside) (simp_all add: status_bits)
  then show ?thesis by (simp add: killAll_def case_prod_unfold Let_def tel_mask_def)
qed

lemma ok_device_command:
  assumes "tel_ok d"
  shows "tel_ok (snd (device_commandAuthorized (tel_hooks dr) conn w b d))"
proof -
  have "w = ''killall'' \<or> w = ''killall_wse'' \<or> tel_key (snd (device_commandAuthorized (tel_hooks dr) conn w b d)) = tel_key d"
    by (simp add: device_commandAuthorized_def tel_hooks_def scriptEnds_def split: prod.split option.split)
  then show ?thesis
  proof (elim disjE)
    assume "w = ''killall''"
    then show ?thesis using assms by (simp add: device_commandAuthorized_def tel_hooks_def ok_device_kill)
  next
    assume "w = ''killall_wse''"
    then show ?thesis using assms by (simp add: device_commandAuthorized_def tel_hooks_def ok_device_kill)
  next
    assume "tel_key (snd (device_commandAuthorized (tel_hooks dr) conn w b d)) = tel_key d"
    then show ?thesis using assms by (simp add: tel_ok_def)
  qed
qed

section \<open>Commands and runs\<close>

lemma ok_move: "tel_ok d \<Longrightarrow> tel_ok (snd (tel_move dr t conn p d))"
proof -
  assume "tel_ok d"
  then have "tel_ok (startTracking dr t True (resetMpecTLE ((setOri (Some p) d)\<lparr>tl_altaz := None\<rparr>)))"
    by (simp add: tel_ok_def)
  from ok_resync [OF this, of dr t "Some conn" 0 False] show ?thesis
    by (simp add: tel_move_def case_prod_unfold Let_def tel_ok_def)
qed

lemma ok_mpec_cmd: "tel_ok d \<Longrightarrow> tel_ok (snd (move_mpec_cmd mo dr t conn b d))"
proof -
  assume a: "tel_ok d"
  define e where "e s = tel_storeValue (MPEC s) (d\<lparr>tl_model := True, tl_altaz := None\<rparr>)" for s
  have "tel_ok (e s)" for s
    using a by (simp add: e_def tel_ok_def tel_storeValue_def)
  moreover from this have "tel_ok (startTracking dr t True
      ((e s)\<lparr>tl_tle_changed := tl_tle_changed (e s) \<or> tl_tle1 (e s) \<noteq> [] \<or> tl_tle2 (e s) \<noteq> [], tl_tle1 := [], tl_tle2 := []\<rparr>))" for s
    by (simp add: tel_ok_def)
  then have "tel_ok (snd (startResyncMove dr t (Some conn) 0 False (startTracking dr t True
      ((e s)\<lparr>tl_tle_changed := tl_tle_changed (e s) \<or> tl_tle1 (e s) \<noteq> [] \<or> tl_tle2 (e s) \<noteq> [], tl_tle1 := [], tl_tle2 := []\<rparr>))))" for s
    by (rule ok_resync)
  ultimately show ?thesis
    using a unfolding move_mpec_cmd_def Let_def e_def [symmetric]
    by (simp add: case_prod_unfold tel_ok_def split: prod.split option.split)
qed

lemma ok_tle_cmd: "tel_ok d \<Longrightarrow> tel_ok (snd (move_tle_cmd ok dr t conn b d))"
proof -
  assume a: "tel_ok d"
  then have "tel_ok (startTracking dr t True (d\<lparr>tl_tle_freeze := False, tl_mpec := [], tl_mpec_changed := tl_mpec_changed d \<or> tl_mpec d \<noteq> [],
      tl_tle_changed := tl_tle_changed d \<or> tl_tle1 d \<noteq> l1 \<or> tl_tle2 d \<noteq> l2, tl_tle1 := l1, tl_tle2 := l2\<rparr>))" for l1 l2
    by (simp add: tel_ok_def)
  then show ?thesis using a by (simp add: move_tle_cmd_def ok_resync Let_def split: prod.split option.split)
qed

lemma ok_correct_cmd: "tel_ok d \<Longrightarrow> tel_ok (snd (correct_cmd re ign sm conn b d))"
proof -
  assume a: "tel_ok d"
  have "tel_ok (d\<lparr>tl_wcorr := p, tl_wcorr_changed := c, tl_wCorrImgId := i, tl_wCorrObsId := j\<rparr>)" for p c i j
    using a by (simp add: tel_ok_def)
  note b = this and ok_mask_bop [OF this]
  then show ?thesis
    using a by (simp add: correct_cmd_def tel_ok_def Let_def split: prod.split option.split)
qed

lemma ok_if: "tel_ok (snd x) \<Longrightarrow> tel_ok (snd y) \<Longrightarrow> tel_ok (snd (if c then x else y))"
  by simp

lemma ok_at: "tel_ok (snd x) \<Longrightarrow> (\<And>p. tel_ok (snd (f p))) \<Longrightarrow> tel_ok (snd (case v of None \<Rightarrow> x | Some p \<Rightarrow> f p))"
  by (simp split: option.split)

lemma ok_command:
  fixes d :: "('p::{plus,minus,zero}, 'a) telescope_scheme"
  assumes "tel_ok d"
  shows "tel_ok (snd (tel_commandAuthorized rd re ign sm mo tle (device_commandAuthorized (tel_hooks dr)) dr t conn w b d))"
proof -
  have x: "tel_ok (d\<lparr>tl_model := x\<rparr>)" for x using assms by (simp add: tel_ok_def)
  note m = ok_move [OF x] ok_move [OF assms]
  have r: "tel_ok (snd (startResyncMove dr t (Some conn) 0 False (resetMpecTLE (setOri (Some p) d))))"
    "tel_ok (snd (startResyncMove dr t (Some conn) 1 False (d\<lparr>tl_offs := o1, tl_woffs_changed := x, tl_woffs := o2\<rparr>)))" for p o1 x o2
    by (rule ok_resync, use assms in \<open>simp add: tel_ok_def\<close>)+
  have a: "tel_ok (snd (moveAltAz dr t x (stopTracking dr t msg (resetMpecTLE (d\<lparr>tl_altaz := Some p\<rparr>)))))" for x msg p
    by (rule ok_moveAltAz) (use assms in \<open>simp add: tel_ok_def\<close>)
  note p = ok_startPark [OF x]
  have s: "tel_ok (snd (tel_scriptEnds d))" using assms by (simp add: tel_scriptEnds_def scriptEnds_def tel_ok_def)
  have f: "tel_ok (snd (x, if r \<noteq> 0 then end_on conn c msg e else e))" "tel_ok (snd (x, tel_send n (if r \<noteq> 0 then end_on conn c msg e else e)))"
    if "tel_ok e" for x n r c msg and e :: "('p, 'a) telescope_scheme"
    using that by (simp_all add: tel_ok_def)
  have g: "tel_ok (snd (tel_drive h d))" "tel_ok (snd (tel_drive h (d\<lparr>tl_model := x\<rparr>)))" for h x
    using assms by (simp_all add: tel_ok_def)
  show ?thesis
    unfolding tel_commandAuthorized_def Let_def case_prod_unfold
    by (intro ok_if ok_at) (use assms m r a p s f g ok_device_command [OF assms] ok_mpec_cmd [OF assms] ok_tle_cmd [OF assms]
        ok_correct_cmd [OF assms] in \<open>simp_all add: tel_ok_def\<close>)
qed

lemma ok_idle: "tel_ok d \<Longrightarrow> tel_ok (tel_idle dr t d)"
  using ok_checkMoves [of d dr t] by (simp add: tel_idle_def tel_ok_def)

lemma ok_timer: "tel_ok d \<Longrightarrow> tel_ok (tracking_timer t d)"
  by (simp add: tel_ok_def)

lemma ok_step: "tel_ok d \<Longrightarrow> tel_ok (tel_step tr dr op d)"
  by (cases op) (simp_all add: ok_command ok_change ok_fullBop ok_master ok_idle ok_timer)

section \<open>A slew and its guards\<close>

text \<open>C6: in every run of a telescope, whatever its mount answers, exposures are blocked while it slews, and
  the mount is told to move only while moves are not blocked and, unless the move was told to
  ignore the horizon, to a target above it.\<close>

theorem slew_blocks_exposures:
  assumes "tel_part d \<noteq> TEL_MOVING" "tl_starts d = []"
  shows "let e = fold (tel_step tr dr) ops d
         in (tel_part e = TEL_MOVING \<longrightarrow> d_state e AND BOP_EXPOSURE \<noteq> 0)
            \<and> list_all (\<lambda>(p, above, ignore, block). (above \<or> ignore) \<and> \<not> block) (tl_starts e)"
proof -
  have bits: "(x AND slew_bits) AND TEL_MASK_MOVING = x AND TEL_MASK_MOVING" "(x AND slew_bits) AND BOP_EXPOSURE = x AND BOP_EXPOSURE"
    for x by (simp_all add: and.assoc status_bits)
  have "tel_ok d" using assms bits by (simp add: tel_ok_def key_ok_def tel_key_def tel_part_def)
  then have "tel_ok (fold (tel_step tr dr) ops d)"
    by (induction ops arbitrary: d) (simp_all add: ok_step)
  then show ?thesis using bits by (auto simp: tel_ok_def key_ok_def tel_key_def tel_part_def Let_def)
qed

end
