(* ===== verification/Rts2_DummyTel.thy ===== *)
theory Rts2_DummyTel
  imports Rts2_TeldRun
begin

text \<open>
  The telescope of \<open>src/teld/dummy.cpp\<close> (with \<open>move_fast\<close>) as a driver, an instance of positions, and
  what becomes of corrections, tracking and the block of moves when the guards of the code do not fit.
\<close>

section \<open>Positions and the driver\<close>

text \<open>Right ascension and declination as whole numbers of a small unit.\<close>

datatype radec = RaDec int int

instantiation radec :: "{plus,minus,zero}"
begin

definition zero_radec :: radec where
  "0 = RaDec 0 0"

fun plus_radec :: "radec \<Rightarrow> radec \<Rightarrow> radec" where
  "RaDec a b + RaDec c d = RaDec (a + c) (b + d)"

fun minus_radec :: "radec \<Rightarrow> radec \<Rightarrow> radec" where
  "RaDec a b - RaDec c d = RaDec (a - c) (b - d)"

instance ..

end

record dummy_telescope = "radec telescope" +
  dt_pos :: "radec option"

type_synonym 'a dummy_tel_call = "'a dummy_telescope_scheme \<Rightarrow> int \<times> 'a dummy_telescope_ext"

definition dummy_tel_arrive :: "'a dummy_tel_call" where
  "dummy_tel_arrive d = (-2, telescope.more (d\<lparr>dt_pos := tl_target d\<rparr>))"

definition dummy_tel_park :: "'a dummy_tel_call" where
  "dummy_tel_park d = (0, telescope.more (d\<lparr>dt_pos := Some (RaDec 2 2)\<rparr>))"

text \<open>
  The astronomy is simple here: no corrections, a target is above the horizon when its declination
  is not negative. \<open>setTo\<close> and \<open>setToPark\<close> are those of the base class, which refuse. Left out are the
  second \<open>startTracking\<close> of the dummy's \<open>endMove\<close> and its \<open>runTracking\<close>, which only counts.
\<close>

definition dummy_startResync :: "'a dummy_tel_call" where
  "dummy_startResync d =
     (if (case tl_target d of Some (RaDec a b) \<Rightarrow> b < 0 | None \<Rightarrow> False) \<and> \<not> tl_ignoreHorizon d then -1 else 0, telescope.more d)"

definition dummy_tel_driver :: "(radec, 'a dummy_telescope_ext) tel_driver" where
  "dummy_tel_driver = \<lparr>td_startResync = dummy_startResync, td_isMoving = dummy_tel_arrive,
     td_stopMove = (\<lambda>d. (0, telescope.more d)), td_startPark = dummy_tel_park, td_isParking = dummy_tel_arrive,
     td_endPark = (\<lambda>d. (0, telescope.more d)), td_isOffseting = dummy_tel_arrive,
     td_setTo = (\<lambda>p d. (-1, telescope.more d)), td_setToPark = (\<lambda>d. (-1, telescope.more d)),
     td_info = (\<lambda>d. (0, telescope.more d)), td_orbit = (\<lambda>t s. 0), td_satellite = (\<lambda>t a b. 0), td_offsets = (\<lambda>d p. p + tl_offs d),
     td_corrections = (\<lambda>t p. p), td_above_horizon = (\<lambda>t p. case p of RaDec a b \<Rightarrow> 0 \<le> b), td_applyCorr = (\<lambda>d p. p - tl_corr d),
     td_dec_allowed = (\<lambda>p. True), td_from_altaz = (\<lambda>t p. p)\<rparr>"

definition example_telescope :: "rts2_status \<Rightarrow> bool \<Rightarrow> dummy_telescope" where
  "example_telescope s block = device.extend (example_device s)
     \<lparr>tl_ori = Some (RaDec 10 20), tl_ori_changed = False, tl_offs = 0, tl_corr = 0, tl_woffs = 0, tl_woffs_changed = False,
      tl_wcorr = RaDec 1 2, tl_wcorr_changed = True, tl_total_offsets = 0, tl_obj = None, tl_tar = None, tl_target = None,
      tl_altaz = None, tl_mpec = '''', tl_mpec_changed = False, tl_tle1 = '''', tl_tle2 = '''', tl_tle_changed = False,
      tl_tle_freeze = False, tl_moveNum = 3, tl_corrImgId = 0, tl_corrObsId = 0, tl_wCorrImgId = 0, tl_wCorrObsId = 0,
      tl_blockMove = block, tl_parkingBlockMove = False, tl_blockOnStandby = True, tl_standbyPark = 0, tl_tracking = Some 0,
      tl_defaultTracking = 1, tl_trackingTimer = False, tl_trackingNum = 0, tl_nextCupSync = 0, tl_ignoreHorizon = False,
      tl_model = True, tl_parkFlipping = False, tl_failedMoves = 0, tl_moveConn = None, tl_infoCount = 0, tl_infoMax = 100,
      tl_timeout = 0, tl_announced = [], tl_starts = [], dt_pos = None\<rparr>"

lemma example_telescope_fields [simp]:
  "d_state (example_telescope s b) = s" "tl_starts (example_telescope s b) = []" "tl_blockMove (example_telescope s b) = b"
  "tl_ori (example_telescope s b) = Some (RaDec 10 20)" "\<not> tl_ori_changed (example_telescope s b)"
  "tl_mpec (example_telescope s b) = ''''" "tl_tle1 (example_telescope s b) = ''''" "tl_wcorr_changed (example_telescope s b)"
  "tl_wcorr (example_telescope s b) = RaDec 1 2" "tl_corr (example_telescope s b) = 0" "tl_tracking (example_telescope s b) = Some 0"
  "tl_standbyPark (example_telescope s b) = 0" "tl_blockOnStandby (example_telescope s b)"
  by (simp_all add: example_telescope_def device.defs example_device_def addValue_def example_daemon_def block.defs daemon.defs)

definition example_reader :: "radec tel_reader" where
  "example_reader = \<lparr>tr_pos = (\<lambda>w b. case paramNextInteger b of
       (Some r, b1) \<Rightarrow> (case paramNextInteger b1 of (Some e, b2) \<Rightarrow> Some (RaDec r e) | _ \<Rightarrow> None) | _ \<Rightarrow> None),
     tr_err = (\<lambda>b. None), tr_ignore = 0, tr_small = 0, tr_mpec = (\<lambda>s. False), tr_tle = (\<lambda>a b. False)\<rparr>"

theorem slew_blocks_exposures_witness:
  "let e = fold (tel_step example_reader dummy_tel_driver)
         [TelCommand 5 1 ''move'' ''30 40'', TelIdle 6, TelBop 7 0, TelCommand 8 1 ''park'' ''''] (example_telescope TEL_OBSERVING False)
   in (if tel_part e = TEL_MOVING then d_state e AND BOP_EXPOSURE \<noteq> 0 else True)
      \<and> list_all (\<lambda>(p, above, ignore, block). (above \<or> ignore) \<and> \<not> block) (tl_starts e)"
  using slew_blocks_exposures [of "example_telescope TEL_OBSERVING False" example_reader dummy_tel_driver
      "[TelCommand 5 1 ''move'' ''30 40'', TelIdle 6, TelBop 7 0, TelCommand 8 1 ''park'' '''']"]
  unfolding Let_def by (simp add: tel_part_def status_bits)

section \<open>A correction that waits for a blocked telescope\<close>

definition stuck :: "('p, 'a) telescope_scheme \<Rightarrow> bool" where
  "stuck d \<longleftrightarrow> tel_part d = TEL_MOVING \<and> d_state d AND TEL_MASK_OFFSETING \<noteq> TEL_OFFSETING \<and> tl_blockMove d \<and> tl_wcorr_changed d
     \<and> tl_ori d \<noteq> None \<and> \<not> tl_ori_changed d \<and> tl_mpec d = '''' \<and> tl_tle1 d = ''''"

text \<open>What the waiting move looks at.\<close>

definition wait_view ::
  "('p, 'a) telescope_scheme \<Rightarrow> rts2_status \<times> rts2_status \<times> bool \<times> bool \<times> 'p option \<times> bool \<times> string \<times> string \<times> 'p \<times> 'p"
where
  "wait_view d = (tel_part d, d_state d AND TEL_MASK_OFFSETING, tl_blockMove d, tl_wcorr_changed d, tl_ori d, tl_ori_changed d,
     tl_mpec d, tl_tle1 d, tl_corr d, tl_wcorr d)"

lemma stuck_view: "wait_view d = wait_view e \<Longrightarrow> stuck d = stuck e \<and> tl_corr d = tl_corr e \<and> tl_wcorr d = tl_wcorr e"
  by (simp add: wait_view_def stuck_def)

lemma wait_frame [simp]:
  "wait_view (snd (tel_drive f d)) = wait_view d" "wait_view (tel_send n d) = wait_view d"
  "wait_view (d\<lparr>tl_tracking := tr, tl_trackingTimer := b\<rparr>) = wait_view d" "wait_view (d\<lparr>tl_ignoreHorizon := b\<rparr>) = wait_view d"
  "wait_view ((runTracking t d)\<lparr>tl_trackingTimer := b\<rparr>) = wait_view d" "wait_view (d\<lparr>tl_moveConn := co\<rparr>) = wait_view d"
  by (simp_all add: wait_view_def tel_part_def tel_drive_def tel_send_def runTracking_def startCupolaSync_def split: prod.split)

lemma wait_track [simp]: "wait_view (tel_mask TEL_MASK_TRACK TEL_TRACKING desc d) = wait_view d"
  "wait_view (tel_mask TEL_MASK_TRACK TEL_NOTRACK desc d) = wait_view d"
  by (simp_all add: wait_view_def tel_part_def masked_outside status_bits)

lemma wait_startTracking [simp]: "wait_view (startTracking dr t c d) = wait_view d"
  by (simp add: startTracking_def setTracking_def Let_def split: option.split)

lemma wait_infoAll [simp]: "wait_view (tel_infoAll dr d) = wait_view d"
  using wait_frame(1) [of "td_info dr" d]
  by (auto simp: tel_infoAll_def infoAll_def map_conns_def wait_view_def tel_part_def Let_def
      simp del: wait_frame tel_drive_frame split: prod.split)

lemma wait_info [simp]: "wait_view (send_move_info d) = wait_view d"
  by (simp add: send_move_info_def wait_view_def tel_part_def on_conn_def map_conns_def Let_def split: option.split)

lemma resync_stuck:
  fixes d :: "('p::{plus,minus,zero}, 'a) telescope_scheme"
  assumes "stuck d"
  shows "stuck (resync_waiting dr t d)" "tl_corr (resync_waiting dr t d) = tl_corr d + tl_wcorr d"
    "tl_wcorr (resync_waiting dr t d) = tl_wcorr d"
proof -
  obtain ori where o: "tl_ori d = Some ori" using assms by (auto simp: stuck_def)
  let ?e = "d\<lparr>tl_ignoreHorizon := False\<rparr>"
  have c: "count_move (move_object dr t ?e) = ?e" using assms by (simp add: stuck_def move_object_def count_move_def)
  have m: "move_object dr t ?e = ?e" using assms by (simp add: stuck_def move_object_def)
  have "stuck (resync_waiting dr t d) \<and> tl_corr (resync_waiting dr t d) = tl_corr d + tl_wcorr d
    \<and> tl_wcorr (resync_waiting dr t d) = tl_wcorr d"
    using assms o c m unfolding resync_waiting_def startResyncMove_def
    by (simp add: stuck_def take_waiting_def tel_send_def tel_end_def tel_part_def Let_def)
  then show "stuck (resync_waiting dr t d)" "tl_corr (resync_waiting dr t d) = tl_corr d + tl_wcorr d"
    "tl_wcorr (resync_waiting dr t d) = tl_wcorr d" by simp_all
qed

lemma checkMoves_stuck:
  fixes d :: "('p::{plus,minus,zero}, 'a) telescope_scheme"
  assumes "stuck d" "fst (td_isMoving dr d) = -2"
  shows "stuck (checkMoves dr t d) \<and> tl_corr (checkMoves dr t d) = tl_corr d + tl_wcorr d \<and> tl_wcorr (checkMoves dr t d) = tl_wcorr d"
proof -
  obtain e where e: "tel_drive (td_isMoving dr) d = (-2, e)"
    using assms(2) by (cases "td_isMoving dr d") (simp add: tel_drive_def)
  let ?f = "startTracking dr t False (tel_infoAll dr e)"
  have "wait_view ?f = wait_view d" using wait_frame(1) [of "td_isMoving dr" d] e by simp
  then have f: "stuck ?f" "tl_corr ?f = tl_corr d" "tl_wcorr ?f = tl_wcorr d" "corrections_wait ?f"
    using stuck_view [of ?f d] assms(1) by (simp_all add: corrections_wait_def stuck_def)
  let ?g = "(send_move_info (resync_waiting dr t ?f))\<lparr>tl_moveConn := None\<rparr>"
  have g: "stuck ?g" "tl_corr ?g = tl_corr d + tl_wcorr d" "tl_wcorr ?g = tl_wcorr d"
    using stuck_view [of ?g "resync_waiting dr t ?f"] resync_stuck [OF f(1), of dr t] f by simp_all
  have "check_moving dr t d = ?g"
    using e f(4) by (simp add: check_moving_def tel_endMove_def Let_def)
  then have "checkMoves dr t d = ?g" using assms(1) g(1) by (simp add: checkMoves_def stuck_def Let_def)
  then show ?thesis using g by simp
qed

text \<open>A telescope that is blocked while it moves, with a correction that waits, never ends the move: it
  stays moving, which blocks the cameras, and each idle round adds the same correction once more.\<close>

theorem blocked_correction_repeats:
  fixes d :: "('p::{plus,minus,zero}, 'a) telescope_scheme"
  assumes "stuck d" "\<forall>e. fst (td_isMoving dr e) = -2"
  shows "let e = (checkMoves dr t ^^ n) d in tel_part e = TEL_MOVING \<and> tl_corr e = ((\<lambda>c. c + tl_wcorr d) ^^ n) (tl_corr d)"
proof -
  have "stuck ((checkMoves dr t ^^ n) d) \<and> tl_wcorr ((checkMoves dr t ^^ n) d) = tl_wcorr d
    \<and> tl_corr ((checkMoves dr t ^^ n) d) = ((\<lambda>c. c + tl_wcorr d) ^^ n) (tl_corr d)"
  proof (induction n)
    case (Suc n)
    then show ?case using checkMoves_stuck [of "(checkMoves dr t ^^ n) d" dr t] assms(2) by simp
  qed (use assms in simp)
  then show ?thesis by (simp add: stuck_def)
qed

theorem blocked_correction_repeats_witness:
  "let e = (checkMoves dummy_tel_driver 5 ^^ 3) (example_telescope (TEL_MOVING OR BOP_EXPOSURE) True)
   in tel_part e = TEL_MOVING \<and> tl_corr e = RaDec 3 6"
proof -
  have s: "stuck (example_telescope (TEL_MOVING OR BOP_EXPOSURE) True)" by (simp add: stuck_def tel_part_def status_bits)
  have m: "\<forall>e. fst (td_isMoving dummy_tel_driver e) = -2" by (simp add: dummy_tel_driver_def dummy_tel_arrive_def)
  have "((\<lambda>c. c + RaDec 1 2) ^^ 3) 0 = RaDec 3 6" by (simp add: numeral_3_eq_3 zero_radec_def)
  then show ?thesis using blocked_correction_repeats [OF s m, of 3 5] by simp
qed

section \<open>Tracking and the block of moves\<close>

text \<open>While moves are blocked, \<open>TRACKING\<close> cannot be set to tracking an object (1), but sidereal tracking
  (2) and tracking without derotators (3) start: the guard reads the number as a boolean.\<close>

theorem sidereal_tracking_unguarded:
  assumes "tl_blockMove d" "tl_tracking d = Some old" "n = 2 \<or> n = 3"
  shows "tel_change mpec_ok dr t (TRACKING 1) d = (-2, d)
    \<and> (let (ret, e) = tel_change mpec_ok dr t (TRACKING n) d in ret = 0 \<and> d_state e AND TEL_MASK_TRACK = TEL_TRACKING)"
proof -
  have "masked s (DEVICE_ERROR_MASK OR TEL_MASK_TRACK) TEL_TRACKING AND TEL_MASK_TRACK = TEL_TRACKING" for s
    by (subst masked_inside) (simp_all add: status_bits)
  then show ?thesis
    using assms by (auto simp: tel_change_def tel_setValue_def tel_valueChanged_def tel_storeValue_def setTracking_def
        runTracking_def startCupolaSync_def Let_def)
qed

theorem sidereal_tracking_unguarded_witness:
  "tel_change (\<lambda>s. True) dummy_tel_driver 5 (TRACKING 1) (example_telescope TEL_PARKED True) = (-2, example_telescope TEL_PARKED True)
   \<and> d_state (snd (tel_change (\<lambda>s. True) dummy_tel_driver 5 (TRACKING 2) (example_telescope TEL_PARKED True))) AND TEL_MASK_TRACK = TEL_TRACKING"
  using sidereal_tracking_unguarded [of "example_telescope TEL_PARKED True" 0 2 "\<lambda>s. True" dummy_tel_driver 5]
  by (simp add: case_prod_unfold Let_def)

text \<open>The order to stop everything does not block the telescope that has given it itself: the guard
  looks at the own state instead of the old state of the server.\<close>

theorem own_stop_ignored:
  assumes "d_state d AND STOP_MASK = STOP_EVERYTHING" "new AND STOP_MASK = STOP_EVERYTHING"
    and "tl_standbyPark d = 0" "\<not> tl_blockOnStandby d"
  shows "tel_changeMasterState dr t old new d = block_masterStateChanged d"
  using assms by (simp add: tel_changeMasterState_def Let_def)

theorem own_stop_ignored_witness:
  "tel_changeMasterState dummy_tel_driver 5 SERVERD_NIGHT (SERVERD_NIGHT OR STOP_EVERYTHING)
      ((example_telescope (TEL_MOVING OR BOP_EXPOSURE OR STOP_EVERYTHING) False)\<lparr>tl_blockOnStandby := False\<rparr>)
   = block_masterStateChanged ((example_telescope (TEL_MOVING OR BOP_EXPOSURE OR STOP_EVERYTHING) False)\<lparr>tl_blockOnStandby := False\<rparr>)"
  by (rule own_stop_ignored) (simp_all add: status_bits)

text \<open>A telescope that is blocked on standby is free to move again when the system leaves standby, also
  while the order to stop everything stands.\<close>

theorem standby_end_unblocks_stopped:
  assumes "tl_blockOnStandby d" "tl_standbyPark d = 0" "new AND STOP_MASK = STOP_EVERYTHING"
    and "old AND SERVERD_ONOFF_MASK \<noteq> 0" "new AND SERVERD_ONOFF_MASK = 0"
  shows "\<not> tl_blockMove (tel_changeMasterState dr t old new d)"
proof -
  have "tl_standbyPark (stopTracking dr t m e) = tl_standbyPark e" "tl_blockOnStandby (stopTracking dr t m e) = tl_blockOnStandby e"
    "tl_standbyPark (snd (tel_drive f e)) = tl_standbyPark e" "tl_blockOnStandby (snd (tel_drive f e)) = tl_blockOnStandby e"
    for m f and e :: "('a, 'b) telescope_scheme"
    by (simp_all add: stopTracking_def setTracking_def tel_send_def tel_drive_def Let_def split: option.split prod.split)
  then show ?thesis
    using assms by (simp add: tel_changeMasterState_def block_masterStateChanged_def map_conns_def tel_send_def Let_def)
qed

theorem standby_end_unblocks_stopped_witness:
  "\<not> tl_blockMove (tel_changeMasterState dummy_tel_driver 5 (SERVERD_NIGHT OR SERVERD_STANDBY OR STOP_EVERYTHING)
      (SERVERD_NIGHT OR STOP_EVERYTHING) (example_telescope TEL_OBSERVING True))"
  by (rule standby_end_unblocks_stopped) (simp_all add: status_bits)

end
