(* ===== verification/Rts2_ValueTypes.thy ===== *)
theory Rts2_ValueTypes
  imports Rts2_Values
begin

text \<open>
  Values are well typed: the type bits of a value name its class, and its numbers fit their C types.
  Constructors make such values, and whatever sets a value keeps them so.
\<close>

section \<open>Well typed values\<close>

fun value_class :: "value_data \<Rightarrow> rts2_status" where
  "value_class (VString s) = RTS2_VALUE_STRING"
| "value_class (VInteger i) = RTS2_VALUE_INTEGER"
| "value_class (VBool i) = RTS2_VALUE_BOOL"
| "value_class (VSelection i sel) = RTS2_VALUE_SELECTION"
| "value_class (VLong i) = RTS2_VALUE_LONGINT"
| "value_class (VStringArray ss) = RTS2_VALUE_ARRAY OR RTS2_VALUE_STRING"
| "value_class (VIntegerArray is) = RTS2_VALUE_ARRAY OR RTS2_VALUE_INTEGER"
| "value_class (VBoolArray is) = RTS2_VALUE_ARRAY OR RTS2_VALUE_BOOL"

fun data_range :: "value_data \<Rightarrow> bool" where
  "data_range (VInteger i) = int32_range i"
| "data_range (VBool i) = int32_range i"
| "data_range (VSelection i sel) = (int32_range i \<and> int (length sel) < 2 ^ 31)"
| "data_range (VLong i) = int64_range i"
| "data_range (VIntegerArray is) = list_all int32_range is"
| "data_range (VBoolArray is) = list_all int32_range is"
| "data_range _ = True"

definition typed :: "rts2_value \<Rightarrow> bool" where
  "typed v \<longleftrightarrow> getValueType v = value_class (v_data v) \<and> data_range (v_data v)"

fun choices :: "value_data \<Rightarrow> string list option" where
  "choices (VSelection i sel) = Some sel"
| "choices _ = None"

text \<open>\<open>w\<close> is \<open>v\<close> with another value of the same type.\<close>

definition same_type :: "rts2_value \<Rightarrow> rts2_value \<Rightarrow> bool" where
  "same_type v w \<longleftrightarrow> v_name w = v_name v \<and> v_description w = v_description v \<and> getValueType w = getValueType v
     \<and> value_class (v_data w) = value_class (v_data v) \<and> choices (v_data w) = choices (v_data v)
     \<and> (data_range (v_data v) \<longrightarrow> data_range (v_data w))"

lemma same_type_refl [simp]: "same_type v v"
  by (simp add: same_type_def)

lemma same_type_trans: "same_type u v \<Longrightarrow> same_type v w \<Longrightarrow> same_type u w"
  by (simp add: same_type_def)

lemma type_changed [simp]: "getValueType (changed v) = getValueType v" "getValueType (v\<lparr>v_data := d\<rparr>) = getValueType v"
  by (simp_all add: getValueType_def changed_def bit.conj_disj_distrib2 status_bits)

lemma changed_fields [simp]: "v_data (changed v) = v_data v" "v_name (changed v) = v_name v" "v_description (changed v) = v_description v"
  by (simp_all add: changed_def)

lemma same_type_changed [simp]: "same_type v (changed w) = same_type v w" "same_type (changed v) w = same_type v w"
  by (simp_all add: same_type_def)

lemma same_type_data:
  "v_data v = d0 \<Longrightarrow> same_type v (v\<lparr>v_data := d\<rparr>) \<longleftrightarrow> value_class d = value_class d0 \<and> choices d = choices d0 \<and> (data_range d0 \<longrightarrow> data_range d)"
  "v_data v = d0 \<Longrightarrow> same_type v ((changed v)\<lparr>v_data := d\<rparr>) \<longleftrightarrow> value_class d = value_class d0 \<and> choices d = choices d0 \<and> (data_range d0 \<longrightarrow> data_range d)"
  by (auto simp: same_type_def)

lemma int32_to_int32 [simp]: "int32_range (to_int32 i)"
  using to_int32_range [of i] by (simp add: int32_range_def)

lemma int32_atoi [simp]: "int32_range (atoi s)"
  by (simp add: atoi_def)

lemma int32_small [simp]: "int32_range 0" "int32_range 1" "int32_range 2" "int32_range (-1)" "int32_range INT_MIN"
  by (simp_all add: int32_range_def INT_MIN_def)

lemma int64_clamp [simp]: "int64_range (clamp64 i)"
  by (simp add: clamp64_def int64_range_def)

lemma int64_to_int64 [simp]: "int64_range (to_int64 i)"
  using signed_take_bit_int_greater_eq_minus_exp [of 63 i] signed_take_bit_int_less_exp [of 63 i]
  by (simp add: to_int64_def int64_range_def)

lemma int64_int32: "int32_range i \<Longrightarrow> int64_range i"
  by (simp add: int32_range_def int64_range_def)

lemma strtol_range [simp]: "int64_range (fst (strtol s))"
  by (auto simp: strtol_def Let_def int64_clamp split: prod.split) (simp add: int64_range_def)

lemma param_range:
  "paramNextInteger b = (Some i, r) \<Longrightarrow> int32_range i" "paramNextLong b = (Some j, r) \<Longrightarrow> int64_range j"
  by (auto simp: paramNextInteger_def paramNextLong_def Let_def case_prod_unfold split: option.splits if_splits)

section \<open>What sets a value\<close>

lemma setValueInteger_type: "choices (v_data v) \<noteq> None \<or> int32_range n \<Longrightarrow> same_type v (snd (setValueInteger n v))"
  by (cases "v_data v") (auto simp: setValueInteger_def setValueLong_def same_type_data int64_int32 int32_range_def)

lemma setValueLong_type: "int64_range n \<Longrightarrow> v_data v = VLong k \<Longrightarrow> same_type v (setValueLong n v)"
  by (simp add: setValueLong_def same_type_data)

lemma setValueBool_type: "same_type v (setValueBool b v)"
  using setValueInteger_type [of "changed v"] by (simp add: setValueBool_def Let_def setValueInteger_type)

lemma push_bools_range: "list_all int32_range acc \<Longrightarrow> list_all int32_range (snd (push_bools acc ws))"
  by (induction acc ws rule: push_bools.induct) (auto split: option.split)

lemma map_atoi_range [simp]: "list_all int32_range (map atoi ws)"
  by (induction ws) simp_all

lemma setValueCharArr_type: "same_type v (snd (setValueCharArr t v))"
proof (cases "v_data v")
  case (VBoolArray bs)
  then show ?thesis using push_bools_range [of bs "split_blank t"]
    by (auto simp: setValueCharArr_def same_type_data Let_def split: prod.split)
qed (auto simp: setValueCharArr_def same_type_data setValueInteger_type setValueLong_type setValueBool_type Let_def split: option.split)

lemma read_list_range: "list_all P acc \<Longrightarrow> (\<And>s x. conv s = Some x \<Longrightarrow> P x) \<Longrightarrow> list_all P (fst (snd (read_list ds conv acc b)))"
proof (induction ds conv acc b rule: read_list.induct)
  case (1 ds conv acc b)
  show ?case using 1(2,3) by (subst read_list.simps) (auto split: prod.splits bool.splits option.splits intro: 1(1))
qed

lemma token_range: "int_token s = Some i \<Longrightarrow> int32_range i" "bool_token s = Some j \<Longrightarrow> int32_range j"
  by (auto simp: int_token_def bool_token_def Let_def split: prod.splits if_splits)

lemma setValue_conn_type: "same_type v (snd (setValue_conn b v))"
proof (cases "v_data v")
  case (VIntegerArray ns)
  then show ?thesis using read_list_range [of int32_range "[]" int_token "'',''" "unquoteRest b"] token_range
    by (auto simp: setValue_conn_def same_type_data split: prod.split bool.split)
next
  case (VBoolArray ns)
  then show ?thesis using read_list_range [of int32_range "[]" bool_token "[]" "unquoteRest b"] token_range
    by (auto simp: setValue_conn_def same_type_data split: prod.split bool.split)
qed (auto simp: setValue_conn_def same_type_data setValueCharArr_type end_or_fail_def dest: param_range split: option.split prod.split bool.split)

lemma write_all_range: "write_all ks x xs = Some ys \<Longrightarrow> P x \<Longrightarrow> list_all P xs \<Longrightarrow> list_all P ys"
proof (induction ks x xs rule: write_all.induct)
  case (2 k ks x xs)
  have "list_all P (xs[nat k := x])" using 2(3,4) by (auto simp: list_all_iff dest!: set_update_subset_insert [THEN subsetD])
  then show ?case using 2 by (simp split: if_splits)
qed simp

lemma setValues_type: "setValues ks b v = Some (r, w) \<Longrightarrow> same_type v w"
proof (cases "v_data v")
  case (VIntegerArray ns)
  assume "setValues ks b v = Some (r, w)"
  then have "w = v \<or> (\<exists>n xs r. paramNextInteger b = (Some n, r) \<and> write_all ks n ns = Some xs \<and> w = changed (v\<lparr>v_data := VIntegerArray xs\<rparr>))"
    using VIntegerArray by (auto simp: setValues_def split: prod.splits option.splits if_splits)
  then show ?thesis using VIntegerArray write_all_range [of ks _ ns _ int32_range] param_range(1) by (auto simp: same_type_data)
next
  case (VBoolArray ns)
  assume "setValues ks b v = Some (r, w)"
  then have "w = v \<or> (\<exists>n xs. int32_range n \<and> write_all ks n ns = Some xs \<and> w = changed (v\<lparr>v_data := VBoolArray xs\<rparr>))"
    using VBoolArray by (auto simp: setValues_def split: prod.splits option.splits if_splits) (use int32_small in metis)+
  then show ?thesis using VBoolArray write_all_range [of ks _ ns _ int32_range] by (auto simp: same_type_data)
qed (auto simp: setValues_def same_type_data split: prod.splits option.splits if_splits)

lemma data_numbers: "data_range (v_data v) \<Longrightarrow> int32_range (getValueInteger v)" "data_range (v_data v) \<Longrightarrow> int64_range (getValueLong v)"
  by (cases "v_data v"; simp add: getValueInteger_def getValueLong_def int64_int32)+

lemma set_integer_pair: "setValueInteger n v = (r, w) \<Longrightarrow> choices (v_data v) \<noteq> None \<or> int32_range n \<Longrightarrow> same_type v w"
  using setValueInteger_type [of v n] by simp

lemma doOpValue_type: "data_range (v_data v) \<Longrightarrow> doOpValue c v old = Some (r, w) \<Longrightarrow> same_type v w"
  using data_numbers(1) [of v]
  by (cases "v_data v")
    (auto simp: doOpValue_def integer_doOpValue_def base_doOpValue_def setValueLong_type dest: set_integer_pair split: if_splits)

lemma setFromValue_type: "data_range (v_data new) \<Longrightarrow> same_type v (setFromValue new v)"
  using data_numbers [of new]
  by (cases "v_data v")
    (auto simp: setFromValue_def setValueCharArr_type setValueInteger_type setValueLong_type same_type_data split: value_data.split)

text \<open>
  What may happen to a value: a text, the parameters of a command, elements of an array, an operation
  with another value, which is applied to the new value before it is stored, a number, a boolean.
\<close>

datatype value_op = OpText string | OpConn string | OpElements "int list" string | OpValue char rts2_value | OpInteger int | OpBool bool

fun op_range :: "value_op \<Rightarrow> bool" where
  "op_range (OpValue c w) = data_range (v_data w)"
| "op_range (OpInteger n) = int32_range n"
| "op_range _ = True"

fun value_step :: "value_op \<Rightarrow> rts2_value \<Rightarrow> rts2_value" where
  "value_step (OpText t) v = snd (setValueCharArr t v)"
| "value_step (OpConn b) v = snd (setValue_conn b v)"
| "value_step (OpElements ks b) v = (case setValues ks b v of None \<Rightarrow> v | Some (r, w) \<Rightarrow> w)"
| "value_step (OpValue c new) v = (case doOpValue c new v of Some (r, w) \<Rightarrow> if r = 0 then setFromValue w v else v | None \<Rightarrow> v)"
| "value_step (OpInteger n) v = snd (setValueInteger n v)"
| "value_step (OpBool b) v = setValueBool b v"

lemma value_step_type: "op_range op \<Longrightarrow> same_type v (value_step op v)"
proof (cases op)
  case (OpValue c new)
  assume "op_range op"
  then have d: "data_range (v_data w)" if "doOpValue c new v = Some (r, w)" for r w
    using doOpValue_type [OF _ that] OpValue by (simp add: same_type_def)
  show ?thesis using OpValue d by (auto split: option.split intro: setFromValue_type)
next
  case (OpElements ks b)
  then show ?thesis using setValues_type by (auto split: option.split)
qed (simp_all add: setValueCharArr_type setValue_conn_type setValueInteger_type setValueBool_type)

lemma type_masks: "(-128 AND y) AND 127 = (0 :: 32 word)" "(x AND -3) AND 127 = (x AND 127) AND (-3 :: 32 word)"
  by (simp_all add: and.commute [of "-128"] and.assoc)

lemma new_values_typed:
  "typed (new_ValueString n t w f)" "typed (new_ValueInteger n t w f)" "typed (new_ValueBool n t w f)" "typed (new_ValueSelection n t w f)"
  "typed (new_ValueLong n t w f)" "typed (new_StringArray n t w f)" "typed (new_IntegerArray n t w f)" "typed (new_BoolArray n t w f)"
proof -
  have z: "v_rts2Type (new_Value n t w f d) AND RTS2_VALUE_MASK = 0" for d
    by (simp add: new_Value_def setValueFlags_def setWriteToFits_def Let_def bit.conj_disj_distrib2 bit.conj_disj_distrib ac_simps status_bits)
  have d: "v_data (new_Value n t w f d) = d" for d by (simp add: new_Value_def setValueFlags_def setWriteToFits_def Let_def)
  note defs = typed_def getValueType_def new_ValueString_def new_ValueInteger_def new_ValueBool_def new_ValueSelection_def new_ValueLong_def
    new_StringArray_def new_IntegerArray_def new_BoolArray_def add_type_def set_type_def changed_def Let_def
  show "typed (new_ValueString n t w f)" "typed (new_ValueInteger n t w f)" "typed (new_ValueBool n t w f)" "typed (new_ValueSelection n t w f)"
    "typed (new_ValueLong n t w f)" "typed (new_StringArray n t w f)" "typed (new_IntegerArray n t w f)" "typed (new_BoolArray n t w f)"
    using z d by (simp_all add: defs bit.conj_disj_distrib2 int64_range_def) (simp_all add: status_bits type_masks)
qed



end
