(* ===== verification/Rts2_ExecutorQueue.thy ===== *)
theory Rts2_ExecutorQueue
  imports Rts2_Dome
begin

text \<open>
  The queues of the observation plan (\<open>rts2plan::TargetQueue\<close>, \<open>ExecutorQueue\<close> of
  \<open>lib/rts2script/executorque.cpp\<close>) with the entries kept in the data base (\<open>rts2db::QueueEntry\<close>,
  \<open>lib/rts2db/queues.ec\<close>).

  Times and durations are microseconds, None is NaN. Targets are objects in a store from addresses
  to objects: \<open>createTarget\<close> allocates, \<open>delete\<close> removes, so that aliasing and dangling pointers are
  visible. The rows of the queue in the table \<open>queues_targets\<close> are a list. What the code asks about
  the sky and the scripts of a target (libnova, constraints, expected durations) and how it reads
  floating point numbers is the parameter \<open>w\<close>. The sums of durations west and east of the
  meridian are left out.
\<close>

section \<open>Entries and queues\<close>

type_synonym qtime = "int option"

record queue_entry =
  qe_qid :: int
  qe_queue :: int
  qe_tar :: int
  qe_plan :: int
  qe_start :: qtime
  qe_end :: qtime
  qe_rep_n :: int
  qe_rep_sep :: qtime
  qe_order :: int

record queued_target = queue_entry +
  qt_target :: nat
  qt_hard :: bool
  qt_reported :: bool

record target_obj =
  to_id :: int
  to_started :: bool

text \<open>
  \<open>eq_simul\<close> says that the queue is a \<open>SimulQueueTargets\<close>, which overrides \<open>removeEntry\<close> and
  \<open>updateVals\<close>. \<open>eq_shown\<close> is what the arrays of values show, \<open>eq_removed\<close> and \<open>eq_executed\<close> the logs
  of removed entries, \<open>eq_timers\<close> the timers that were asked for.
\<close>

record exec_queue =
  eq_list :: "queued_target list"
  eq_objs :: "nat \<rightharpoonup> target_obj"
  eq_next :: nat
  eq_seq :: int
  eq_db :: "queue_entry list"
  eq_id :: int
  eq_simul :: bool
  eq_type :: int
  eq_skip :: bool
  eq_test :: bool
  eq_remove :: bool
  eq_block :: bool
  eq_check :: bool
  eq_enabled :: bool
  eq_window :: qtime
  eq_current :: "nat option"
  eq_timerAdded :: qtime
  eq_timers :: "(int \<times> bool) list"
  eq_shown :: "queued_target list"
  eq_removed :: "(int \<times> int \<times> int) list"
  eq_executed :: "(int \<times> int) list"

definition QUEUE_FIFO :: int where "QUEUE_FIFO = 0"
definition QUEUE_CIRCULAR :: int where "QUEUE_CIRCULAR = 1"
definition QUEUE_HIGHEST :: int where "QUEUE_HIGHEST = 2"
definition QUEUE_WESTEAST :: int where "QUEUE_WESTEAST = 3"
definition QUEUE_WESTEAST_MERIDIAN :: int where "QUEUE_WESTEAST_MERIDIAN = 4"
definition QUEUE_OUT_OF_LIMITS :: int where "QUEUE_OUT_OF_LIMITS = 5"

lemmas queue_types = QUEUE_FIFO_def QUEUE_CIRCULAR_def QUEUE_HIGHEST_def QUEUE_WESTEAST_def QUEUE_WESTEAST_MERIDIAN_def
  QUEUE_OUT_OF_LIMITS_def

definition REMOVED_TIMES_EXPIRED :: int where "REMOVED_TIMES_EXPIRED = -1"
definition REMOVED_STARTED :: int where "REMOVED_STARTED = 1"
definition REMOVED_NEXT_NEEDED :: int where "REMOVED_NEXT_NEEDED = 2"

lemmas removed_reasons = REMOVED_TIMES_EXPIRED_def REMOVED_STARTED_def REMOVED_NEXT_NEEDED_def

text \<open>
  The world: which targets are in the data base, whether a target is above its horizon and keeps
  its constraints at a time, the length of its script (None: the script cannot be read), its hour
  angle (in microseconds of time), altitude and priority, the two orders of \<open>rts2db\<close>, how long it
  satisfies its constraints; and the numbers that parameters of commands stand for (None: wrong).
\<close>

datatype duration = NotANumber | Infinite | Usec int

record sky =
  sk_exists :: "int \<Rightarrow> bool"
  sk_above :: "int \<Rightarrow> qtime \<Rightarrow> bool"
  sk_constraints :: "int \<Rightarrow> qtime \<Rightarrow> bool"
  sk_length :: "int \<Rightarrow> bool \<Rightarrow> int option"
  sk_ha :: "int \<Rightarrow> qtime \<Rightarrow> int"
  sk_alt :: "int \<Rightarrow> qtime \<Rightarrow> int"
  sk_prio :: "int \<Rightarrow> int"
  sk_higher :: "qtime \<Rightarrow> int \<Rightarrow> int \<Rightarrow> bool"
  sk_western :: "qtime \<Rightarrow> int \<Rightarrow> int \<Rightarrow> bool"
  sk_sat :: "int \<Rightarrow> qtime \<Rightarrow> qtime \<Rightarrow> int \<Rightarrow> duration"
  sk_time :: "string \<Rightarrow> qtime option"
  sk_double :: "string \<Rightarrow> qtime option"

text \<open>What a call ends with: a value, an exception of the data base or of a script, or undefined behaviour.\<close>

datatype 'a outcome = Ret 'a | Threw | Undef

section \<open>Targets and rows\<close>

definition tobj :: "exec_queue \<Rightarrow> nat \<Rightarrow> target_obj" where
  "tobj q p = (case eq_objs q p of Some t \<Rightarrow> t | None \<Rightarrow> \<lparr>to_id = 0, to_started = False\<rparr>)"

definition tid :: "exec_queue \<Rightarrow> queued_target \<Rightarrow> int" where
  "tid q e = to_id (tobj q (qt_target e))"

definition started :: "exec_queue \<Rightarrow> queued_target \<Rightarrow> bool" where
  "started q e = to_started (tobj q (qt_target e))"

definition createTarget :: "sky \<Rightarrow> int \<Rightarrow> exec_queue \<Rightarrow> nat option \<times> exec_queue" where
  "createTarget w i q =
     (if sk_exists w i
      then (Some (eq_next q), q\<lparr>eq_objs := (eq_objs q)(eq_next q \<mapsto> \<lparr>to_id = i, to_started = False\<rparr>), eq_next := eq_next q + 1\<rparr>)
      else (None, q))"

definition delete_target :: "nat \<Rightarrow> exec_queue \<Rightarrow> exec_queue" where
  "delete_target p q = q\<lparr>eq_objs := (eq_objs q)(p := None)\<rparr>"

definition startObservation :: "nat \<Rightarrow> exec_queue \<Rightarrow> exec_queue" where
  "startObservation p q = q\<lparr>eq_objs := (eq_objs q)(p \<mapsto> (tobj q p)\<lparr>to_started := True\<rparr>)\<rparr>"

text \<open>A plan that is not positive is stored as NULL and read back as 0.\<close>

definition entry_row :: "'a queue_entry_scheme \<Rightarrow> queue_entry" where
  "entry_row e = (queue_entry.truncate e)\<lparr>qe_plan := (if qe_plan e > 0 then qe_plan e else 0)\<rparr>"

definition row_create :: "queued_target \<Rightarrow> exec_queue \<Rightarrow> exec_queue" where
  "row_create e q = (if qe_queue e < 0 then q else q\<lparr>eq_db := eq_db q @ [entry_row e]\<rparr>)"

definition row_update :: "queued_target \<Rightarrow> exec_queue \<Rightarrow> exec_queue" where
  "row_update e q =
     (if qe_queue e < 0 then q else q\<lparr>eq_db := map (\<lambda>r. if qe_qid r = qe_qid e then entry_row e else r) (eq_db q)\<rparr>)"

definition row_remove :: "queued_target \<Rightarrow> exec_queue \<Rightarrow> exec_queue" where
  "row_remove e q = (if qe_queue e < 0 then q else q\<lparr>eq_db := filter (\<lambda>r. qe_qid r \<noteq> qe_qid e) (eq_db q)\<rparr>)"

definition queueQids :: "exec_queue \<Rightarrow> int list" where
  "queueQids q = map qe_qid (sort_key qe_order (eq_db q))"

definition new_queued ::
  "nat \<Rightarrow> qtime \<Rightarrow> qtime \<Rightarrow> int \<Rightarrow> qtime \<Rightarrow> int \<Rightarrow> bool \<Rightarrow> exec_queue \<Rightarrow> queued_target \<times> exec_queue"
where
  "new_queued p ts te rep sep plan hard q =
     (let e = \<lparr>qe_qid = eq_seq q + 1, qe_queue = eq_id q, qe_tar = to_id (tobj q p), qe_plan = plan, qe_start = ts, qe_end = te,
               qe_rep_n = rep, qe_rep_sep = sep, qe_order = -1, qt_target = p, qt_hard = hard, qt_reported = False\<rparr>
      in (e, row_create e (q\<lparr>eq_seq := eq_seq q + 1\<rparr>)))"

text \<open>The copies that \<open>beforeChange\<close> and the simulation make of an entry, with a target of their own.\<close>

definition copy_queued :: "nat \<Rightarrow> queued_target \<Rightarrow> queued_target" where
  "copy_queued p e = e\<lparr>qt_target := p, qt_reported := False\<rparr>"

definition load_queued :: "sky \<Rightarrow> queue_entry \<Rightarrow> exec_queue \<Rightarrow> queued_target option \<times> exec_queue" where
  "load_queued w r q =
     (case createTarget w (qe_tar r) q of
        (None, q1) \<Rightarrow> (None, q1)
      | (Some p, q1) \<Rightarrow> (Some (queue_entry.extend r \<lparr>qt_target = p, qt_hard = False, qt_reported = False\<rparr>), q1))"

section \<open>Times\<close>

definition past :: "qtime \<Rightarrow> int \<Rightarrow> bool" where
  "past t now = (case t of None \<Rightarrow> False | Some s \<Rightarrow> s \<le> now)"

definition notExpired :: "int \<Rightarrow> queued_target \<Rightarrow> bool" where
  "notExpired now e \<longleftrightarrow> (qe_start e = None \<or> past (qe_start e) now) \<and> \<not> past (qe_end e) now"

definition timet :: "int \<Rightarrow> int" where
  "timet t = t - t mod USEC_SEC"

definition isAboveHorizon :: "sky \<Rightarrow> exec_queue \<Rightarrow> queued_target \<Rightarrow> qtime \<Rightarrow> bool \<times> qtime" where
  "isAboveHorizon w q e jd =
     (let jd1 = (case qe_start e of None \<Rightarrow> jd | Some s \<Rightarrow> map_option (\<lambda>j. if timet s > j then timet s else j) jd);
          i = tid q e
      in (sk_above w i jd1 \<and> (\<not> eq_test q \<or> sk_constraints w i jd1), jd1))"

definition frontTimeExpires :: "int \<Rightarrow> exec_queue \<Rightarrow> bool" where
  "frontTimeExpires now q = (case eq_list q of a # b # es \<Rightarrow> \<not> notExpired now b | _ \<Rightarrow> False)"

definition getMaximalDuration :: "sky \<Rightarrow> int \<Rightarrow> bool \<Rightarrow> qtime" where
  "getMaximalDuration w i run = sk_length w i run"

section \<open>Orders\<close>

text \<open>\<open>std::list::sort\<close> is stable; \<open>lt a b\<close> is the comparator.\<close>

fun stable_insert :: "('a \<Rightarrow> 'a \<Rightarrow> bool) \<Rightarrow> 'a \<Rightarrow> 'a list \<Rightarrow> 'a list" where
  "stable_insert lt x [] = [x]"
| "stable_insert lt x (y # ys) = (if lt y x then y # stable_insert lt x ys else x # y # ys)"

definition list_sort :: "('a \<Rightarrow> 'a \<Rightarrow> bool) \<Rightarrow> 'a list \<Rightarrow> 'a list" where
  "list_sort lt xs = foldr (stable_insert lt) xs []"

text \<open>The comparators of two targets, given by their ids.\<close>

definition meridian_less :: "sky \<Rightarrow> qtime \<Rightarrow> int \<Rightarrow> int \<Rightarrow> bool" where
  "meridian_less w jd a b =
     (if sk_ha w a jd < 0 \<and> sk_ha w b jd < 0 then sk_alt w a jd > sk_alt w b jd
      else if sk_prio w a = sk_prio w b then sk_western w jd a b
      else sk_prio w a > sk_prio w b)"

definition limits_less :: "sky \<Rightarrow> qtime \<Rightarrow> int \<Rightarrow> int \<Rightarrow> bool" where
  "limits_less w jd a b =
     (let till = map_option (\<lambda>j. j + 86400 * USEC_SEC) jd in
      case (sk_sat w a jd till 0, sk_sat w b jd till 0) of
        (NotANumber, NotANumber) \<Rightarrow> sk_western w jd a b
      | (Infinite, Infinite) \<Rightarrow> sk_western w jd a b
      | (NotANumber, _) \<Rightarrow> False
      | (_, Infinite) \<Rightarrow> False
      | (_, NotANumber) \<Rightarrow> True
      | (Infinite, _) \<Rightarrow> True
      | (Usec m, Usec n) \<Rightarrow> m < n)"

fun find_entry :: "nat \<Rightarrow> queued_target list \<Rightarrow> queued_target option" where
  "find_entry p [] = None"
| "find_entry p (e # es) = (if qt_target e = p then Some e else find_entry p es)"

text \<open>
  The choice of the next target: the prepared ones, given by their addresses, are visited in order;
  a visible one moves the time on to when it can be observed, and is taken when it is in the west at
  the end of its observation. Without any the first one is taken. None: a target without entry,
  which the code dereferences.
\<close>

definition ends_west :: "sky \<Rightarrow> int \<Rightarrow> qtime \<Rightarrow> bool" where
  "ends_west w i jd = (case getMaximalDuration w i False of None \<Rightarrow> False | Some l \<Rightarrow> sk_ha w i jd + l > 0)"

fun pick_west :: "sky \<Rightarrow> exec_queue \<Rightarrow> qtime \<Rightarrow> nat list \<Rightarrow> (nat option \<times> qtime) option" where
  "pick_west w q jd [] = Some (None, jd)"
| "pick_west w q jd (p # ps) =
     (case find_entry p (eq_list q) of
        None \<Rightarrow> None
      | Some e \<Rightarrow>
          (case isAboveHorizon w q e jd of
             (False, tjd) \<Rightarrow> pick_west w q jd ps
           | (True, tjd) \<Rightarrow> if ends_west w (to_id (tobj q p)) tjd then Some (Some p, tjd) else pick_west w q tjd ps))"

definition later :: "qtime \<Rightarrow> qtime \<Rightarrow> qtime" where
  "later jd l = (case jd of None \<Rightarrow> None | Some j \<Rightarrow> map_option (\<lambda>m. j + m) l)"

text \<open>The loop of \<open>sortWestEastMeridian\<close> and of \<open>sortOutOfLimits\<close>: each turn orders what is left and takes one; \<open>n\<close> is the number of targets left.\<close>

fun order_west ::
  "(qtime \<Rightarrow> int \<Rightarrow> int \<Rightarrow> bool) \<Rightarrow> sky \<Rightarrow> exec_queue \<Rightarrow> nat \<Rightarrow> qtime \<Rightarrow> nat list \<Rightarrow> nat list option"
where
  "order_west lt w q 0 jd ps = Some []"
| "order_west lt w q (Suc n) jd ps =
     (let qs = list_sort (\<lambda>a b. lt jd (to_id (tobj q a)) (to_id (tobj q b))) ps in
      case pick_west w q jd qs of
        None \<Rightarrow> None
      | Some (found, jd1) \<Rightarrow>
          (let p = (case found of Some p \<Rightarrow> p | None \<Rightarrow> hd qs) in
           map_option ((#) p)
             (order_west lt w q n (later jd1 (getMaximalDuration w (to_id (tobj q p)) False)) (remove1 p qs))))"

text \<open>\<open>orderByTargetList\<close>: \<open>n\<close> is the position of \<open>fi\<close>; the entry is copied there and the original erased.\<close>

fun entry_pos :: "nat \<Rightarrow> queued_target list \<Rightarrow> nat option" where
  "entry_pos p [] = None"
| "entry_pos p (e # es) = (if qt_target e = p then Some 0 else map_option Suc (entry_pos p es))"

definition place_entry :: "nat \<Rightarrow> nat \<Rightarrow> 'a list \<Rightarrow> nat \<times> 'a list" where
  "place_entry n k es =
     (if n \<le> k then (n + 1, take n es @ es ! k # drop n (take k es) @ drop (k + 1) es)
      else (n, take k es @ drop (k + 1) (take n es) @ es ! k # drop n es))"

definition order_one :: "nat \<Rightarrow> nat \<times> queued_target list \<Rightarrow> nat \<times> queued_target list" where
  "order_one p s = (case s of (n, es) \<Rightarrow> (case entry_pos p es of None \<Rightarrow> (n, es) | Some k \<Rightarrow> place_entry n k es))"

definition orderByTargetList :: "nat list \<Rightarrow> queued_target list \<Rightarrow> queued_target list" where
  "orderByTargetList ps es = snd (fold order_one ps (0, es))"

definition sort_west :: "(qtime \<Rightarrow> int \<Rightarrow> int \<Rightarrow> bool) \<Rightarrow> sky \<Rightarrow> qtime \<Rightarrow> exec_queue \<Rightarrow> exec_queue" where
  "sort_west lt w jd q =
     (case order_west lt w q (length (eq_list q)) jd (map qt_target (eq_list q)) of
        None \<Rightarrow> q
      | Some ps \<Rightarrow> q\<lparr>eq_list := orderByTargetList ps (eq_list q)\<rparr>)"

definition sortQueue :: "sky \<Rightarrow> int \<Rightarrow> exec_queue \<Rightarrow> exec_queue" where
  "sortQueue w now q =
     (let jd = Some (timet now); by = (\<lambda>lt. q\<lparr>eq_list := list_sort (\<lambda>a b. lt (tid q a) (tid q b)) (eq_list q)\<rparr>) in
      if eq_type q = QUEUE_HIGHEST then by (sk_higher w jd)
      else if eq_type q = QUEUE_WESTEAST then by (sk_western w jd)
      else if eq_type q = QUEUE_WESTEAST_MERIDIAN then sort_west (meridian_less w) w jd q
      else if eq_type q = QUEUE_OUT_OF_LIMITS then sort_west (limits_less w) w jd q
      else q)"

section \<open>Filtering\<close>

text \<open>\<open>removeEntry\<close> but for the list itself: the logs without their times, the target, the row.\<close>

definition removeEntry :: "int \<Rightarrow> queued_target \<Rightarrow> exec_queue \<Rightarrow> exec_queue" where
  "removeEntry reason e q =
     (if eq_simul q then delete_target (qt_target e) q
      else
        let q1 = (if reason < 0 then q\<lparr>eq_removed := eq_removed q @ [(tid q e, reason, qe_qid e)]\<rparr>
                  else q\<lparr>eq_executed := eq_executed q @ [(tid q e, qe_qid e)]\<rparr>);
            q2 = (if eq_current q1 \<noteq> Some (qt_target e) then delete_target (qt_target e) q1 else q1\<lparr>eq_current := None\<rparr>)
        in row_remove e q2)"

text \<open>First loop of \<open>filterExpired\<close>: \<open>before\<close> are the entries from the start of the list to the one looked at.\<close>

fun fifo_expired :: "int \<Rightarrow> queued_target list \<Rightarrow> queued_target list \<Rightarrow> exec_queue \<Rightarrow> queued_target list \<times> exec_queue" where
  "fifo_expired now before [] q = (before, q)"
| "fifo_expired now before (e # es) q =
     (if past (qe_start e) now \<or> past (qe_end e) now
      then fifo_expired now [e] es (fold (removeEntry REMOVED_NEXT_NEEDED) before q)
      else fifo_expired now (before @ [e]) es q)"

text \<open>Second loop: entries whose end is over, and observed ones when they are to be removed.\<close>

fun drop_expired :: "int \<Rightarrow> queued_target list \<Rightarrow> exec_queue \<Rightarrow> queued_target list \<times> exec_queue" where
  "drop_expired now [] q = ([], q)"
| "drop_expired now (e # es) q =
     (if past (qe_end e) now then drop_expired now es (removeEntry REMOVED_TIMES_EXPIRED e q)
      else if started q e \<and> eq_remove q then drop_expired now es (removeEntry REMOVED_STARTED e q)
      else (case drop_expired now es q of (ks, q1) \<Rightarrow> (e # ks, q1)))"

definition filterExpired :: "int \<Rightarrow> exec_queue \<Rightarrow> exec_queue" where
  "filterExpired now q =
     (let (es, q1) = (if eq_type q = QUEUE_FIFO then fifo_expired now [] (eq_list q) q else (eq_list q, q));
          (ks, q2) = drop_expired now es q1
      in q2\<lparr>eq_list := ks\<rparr>)"

text \<open>
  \<open>filterUnobservable\<close>: entries are skipped or removed until one can be observed. The result is
  what is left of the list, the skipped entries and the queue with the rows of the removed ones
  gone; their targets are not deleted.
\<close>

fun filterUnobservable ::
  "sky \<Rightarrow> int \<Rightarrow> qtime \<Rightarrow> bool \<Rightarrow> queued_target list \<Rightarrow> exec_queue \<Rightarrow> queued_target list \<times> queued_target list \<times> exec_queue"
where
  "filterUnobservable w now maxLength removeObserved [] q = ([], [], q)"
| "filterUnobservable w now maxLength removeObserved (e # es) q =
     (let jd = Some (timet now);
          shift = (eq_type q = QUEUE_CIRCULAR \<and> qe_start e \<noteq> None \<and> \<not> past (qe_start e) now);
          fits = (case (getMaximalDuration w (tid q e) (started q e), maxLength) of (Some l, Some m) \<Rightarrow> l < m | _ \<Rightarrow> False);
          good = (\<not> shift \<and> (maxLength = None \<or> \<not> eq_remove q \<and> \<not> removeObserved \<or> fits) \<and> fst (isAboveHorizon w q e jd))
      in if good then ((if maxLength = None then e\<lparr>qt_reported := False\<rparr> else e) # es, [], q)
         else if eq_skip q \<or> shift then
           (if eq_type q \<noteq> QUEUE_CIRCULAR \<and> \<not> (qe_start e = None \<and> qe_end e = None) \<and> started q e
            then filterUnobservable w now maxLength removeObserved es (row_remove e q)
            else (case filterUnobservable w now maxLength removeObserved es q of
                    (rest, skipped, q1) \<Rightarrow> (rest, e\<lparr>qt_reported := True\<rparr> # skipped, q1)))
         else filterUnobservable w now maxLength removeObserved es (row_remove e q))"

section \<open>Changes of the queue\<close>

fun number_entries :: "int \<Rightarrow> queued_target list \<Rightarrow> queued_target list" where
  "number_entries n [] = []"
| "number_entries n (e # es) = e\<lparr>qe_order := n\<rparr> # number_entries (n + 1) es"

definition updateVals :: "exec_queue \<Rightarrow> exec_queue" where
  "updateVals q =
     (if eq_simul q then q
      else let es = number_entries 0 (eq_list q) in fold row_update es (q\<lparr>eq_list := es, eq_shown := es\<rparr>))"

text \<open>
  \<open>filter\<close>: whether the first entry can be observed, the start of the first entry when there is one
  (None: the output is left alone), and the queue.
\<close>

definition filter_queue :: "sky \<Rightarrow> int \<Rightarrow> qtime \<Rightarrow> bool \<Rightarrow> exec_queue \<Rightarrow> bool \<times> qtime \<times> exec_queue" where
  "filter_queue w now maxLength removeObserved q =
     (let q1 = filterExpired now q in
      if eq_block q1 then (True, None, q1)
      else
        let (rest, skipped, q2) = filterUnobservable w now maxLength removeObserved (eq_list q1) q1 in
        case rest of
          [] \<Rightarrow> (False, None, updateVals (q2\<lparr>eq_list := skipped\<rparr>))
        | e # es \<Rightarrow>
            if qe_start e = None \<or> past (qe_start e) now
            then (True, qe_start e, updateVals (q2\<lparr>eq_list := e # skipped @ es\<rparr>))
            else (False, qe_start e, updateVals (q2\<lparr>eq_list := skipped @ e # es\<rparr>)))"

text \<open>The first entry is counted down and goes to the back with a target of its own; \<open>createTarget\<close> may throw.\<close>

definition count_down :: "int \<Rightarrow> queued_target \<Rightarrow> queued_target" where
  "count_down now e =
     e\<lparr>qe_rep_n := qe_rep_n e - 1,
       qe_start := (case qe_rep_sep e of None \<Rightarrow> qe_start e | Some s \<Rightarrow> Some (now + s))\<rparr>"

definition requeue_front :: "sky \<Rightarrow> queued_target \<Rightarrow> queued_target list \<Rightarrow> exec_queue \<Rightarrow> bool \<times> exec_queue" where
  "requeue_front w e es q =
     (case createTarget w (tid q e) (q\<lparr>eq_list := e # es\<rparr>) of
        (None, q1) \<Rightarrow> (False, q1)
      | (Some p, q1) \<Rightarrow> (True, delete_target (qt_target e) (q1\<lparr>eq_list := es @ [copy_queued p e]\<rparr>)))"

definition beforeChange :: "sky \<Rightarrow> int \<Rightarrow> exec_queue \<Rightarrow> unit outcome \<times> exec_queue" where
  "beforeChange w now q =
     (let q1 = sortQueue w now q;
          (ok, q2) = (case eq_list q1 of
              [] \<Rightarrow> (True, q1)
            | e # es \<Rightarrow>
                if eq_type q1 = QUEUE_CIRCULAR then requeue_front w (if qe_rep_n e > 0 then count_down now e else e) es q1
                else if QUEUE_FIFO \<le> eq_type q1 \<and> eq_type q1 \<le> QUEUE_OUT_OF_LIMITS \<and> qe_rep_n e > 1
                then requeue_front w (count_down now e) es q1
                else (True, q1))
      in if ok then (Ret (), snd (snd (filter_queue w now None True q2))) else (Threw, q2))"

section \<open>Operations of the executor queue\<close>

definition findIndex :: "int \<Rightarrow> 'a list \<Rightarrow> nat" where
  "findIndex i xs = (if i < 0 then nat (int (length xs) + i + 1) else min (nat i) (length xs))"

definition insert_at :: "nat \<Rightarrow> 'a \<Rightarrow> 'a list \<Rightarrow> 'a list" where
  "insert_at n x xs = take n xs @ x # drop n xs"

definition addFront :: "nat \<Rightarrow> qtime \<Rightarrow> qtime \<Rightarrow> exec_queue \<Rightarrow> int \<times> exec_queue" where
  "addFront p ts te q =
     (let (e, q1) = new_queued p ts te (-1) None (-1) False q in (qe_qid e, updateVals (q1\<lparr>eq_list := e # eq_list q1\<rparr>)))"

definition addTarget ::
  "nat \<Rightarrow> qtime \<Rightarrow> qtime \<Rightarrow> int \<Rightarrow> int \<Rightarrow> qtime \<Rightarrow> int \<Rightarrow> bool \<Rightarrow> exec_queue \<Rightarrow> int \<times> exec_queue"
where
  "addTarget p ts te index rep sep plan hard q =
     (let (e, q1) = new_queued p ts te rep sep plan hard q
      in (qe_qid e, updateVals (q1\<lparr>eq_list := insert_at (findIndex index (eq_list q1)) e (eq_list q1)\<rparr>)))"

definition removeIndex :: "int \<Rightarrow> exec_queue \<Rightarrow> int \<times> exec_queue" where
  "removeIndex i q =
     (let n = findIndex i (eq_list q) in
      if n = length (eq_list q) then (-1, q)
      else
        let e = eq_list q ! n;
            q1 = (if eq_current q \<noteq> Some (qt_target e) then delete_target (qt_target e) q else q\<lparr>eq_current := None\<rparr>)
        in (0, updateVals ((row_remove e q1)\<lparr>eq_list := take n (eq_list q) @ drop (n + 1) (eq_list q)\<rparr>)))"

text \<open>\<open>splice\<close> of one element: the element at \<open>n\<close> goes before the one at \<open>k\<close>.\<close>

definition splice_one :: "nat \<Rightarrow> nat \<Rightarrow> 'a list \<Rightarrow> 'a list" where
  "splice_one k n xs =
     (if k \<le> n then take k xs @ xs ! n # drop k (take n xs) @ drop (n + 1) xs
      else take n xs @ drop (n + 1) (take k xs) @ xs ! n # drop k xs)"

definition moveIndex :: "int \<Rightarrow> int \<Rightarrow> exec_queue \<Rightarrow> int \<times> exec_queue" where
  "moveIndex i j q =
     (let n = findIndex i (eq_list q) in
      if n = length (eq_list q) then (-1, q)
      else
        let k = findIndex (if j > i then j + 1 else j) (eq_list q)
        in (0, updateVals (q\<lparr>eq_list := splice_one k n (eq_list q)\<rparr>)))"

definition updateIndexTimes :: "int \<Rightarrow> qtime \<Rightarrow> qtime \<Rightarrow> exec_queue \<Rightarrow> int \<times> exec_queue" where
  "updateIndexTimes i ts te q =
     (let n = findIndex i (eq_list q) in
      if n = length (eq_list q) then (-1, q)
      else (0, updateVals (q\<lparr>eq_list := (eq_list q)[n := (eq_list q ! n)\<lparr>qe_start := ts, qe_end := te\<rparr>]\<rparr>)))"

datatype first_ordering = ORDER_NONE | ORDER_HA | ORDER_SETFIRST

fun longer :: "duration \<Rightarrow> duration \<Rightarrow> bool" where
  "longer (Usec a) (Usec b) = (a > b)"
| "longer Infinite (Usec b) = True"
| "longer _ _ = False"

text \<open>
  \<open>addFirst\<close>: the position of the first entry the target can go before, from the time \<open>now\<close> on.
  The new entry is built with the plan as number of repetitions and with \<open>hard\<close> as separation.
\<close>

fun first_pos :: "sky \<Rightarrow> exec_queue \<Rightarrow> int \<Rightarrow> first_ordering \<Rightarrow> int \<Rightarrow> qtime \<Rightarrow> queued_target list \<Rightarrow> nat option" where
  "first_pos w q i fo len now [] = None"
| "first_pos w q i fo len now (e # es) =
     (let jd = map_option timet now;
          till = map_option (\<lambda>t. t + len) (if qe_start e \<noteq> None then qe_start e else now);
          sat = sk_sat w i now till len;
          skip = (case fo of ORDER_HA \<Rightarrow> sk_ha w i jd < sk_ha w (tid q e) jd
                  | ORDER_SETFIRST \<Rightarrow> longer sat (sk_sat w (tid q e) now till len) | ORDER_NONE \<Rightarrow> False)
      in if \<not> skip \<and> sat \<noteq> Usec 0 then Some 0 else map_option Suc (first_pos w q i fo len till es))"

definition addFirst ::
  "sky \<Rightarrow> nat \<Rightarrow> first_ordering \<Rightarrow> qtime \<Rightarrow> qtime \<Rightarrow> qtime \<Rightarrow> int \<Rightarrow> qtime \<Rightarrow> int \<Rightarrow> bool \<Rightarrow> exec_queue \<Rightarrow> int outcome \<times> exec_queue"
where
  "addFirst w p fo n_start ts te rep sep plan hard q =
     (case sk_length w (to_id (tobj q p)) False of
        None \<Rightarrow> (Threw, q)
      | Some l \<Rightarrow>
          (let len = (if l \<le> 0 then 60 * USEC_SEC else l) in
           case first_pos w q (to_id (tobj q p)) fo len (if ts \<noteq> None then ts else n_start) (eq_list q) of
             Some n \<Rightarrow>
               (let (e, q1) = new_queued p ts te plan (Some (if hard then USEC_SEC else 0)) (-1) False q
                in (Ret 0, updateVals (q1\<lparr>eq_list := insert_at n e (eq_list q1)\<rparr>)))
           | None \<Rightarrow> (Ret 0, updateVals (snd (addTarget p ts te (-1) rep sep plan hard q)))))"

text \<open>The current target is not deleted: its entry gets the null pointer before the list is cleared.\<close>

definition clearNext :: "exec_queue \<Rightarrow> exec_queue" where
  "clearNext q =
     (if eq_simul q then (fold (\<lambda>e. delete_target (qt_target e)) (eq_list q) q)\<lparr>eq_list := []\<rparr>
      else
        updateVals ((fold (\<lambda>e r. row_remove e (if eq_current r = Some (qt_target e) then r else delete_target (qt_target e) r))
                      (eq_list q) q)\<lparr>eq_list := []\<rparr>))"

section \<open>Selection\<close>

text \<open>
  What \<open>selectNextObservation\<close> writes to its outputs: target, plan and id of the entry, and \<open>hard\<close>,
  which is None when the code leaves it alone.
\<close>

datatype selection = NoTarget | Selected int int int "bool option"

definition add_timers :: "int \<Rightarrow> qtime \<Rightarrow> queued_target \<Rightarrow> exec_queue \<Rightarrow> exec_queue" where
  "add_timers t t_start e q =
     (case t_start of
        Some s \<Rightarrow>
          if eq_timerAdded q \<noteq> Some s \<and> s > t
          then q\<lparr>eq_timerAdded := Some s,
                 eq_timers := eq_timers q @ [(s - (case eq_window q of None \<Rightarrow> t | Some v \<Rightarrow> t + v), True)]\<rparr>
          else (case qe_end e of
                  Some x \<Rightarrow> if eq_timerAdded q \<noteq> Some x \<and> x > t
                            then q\<lparr>eq_timerAdded := Some x, eq_timers := eq_timers q @ [(x - t, False)]\<rparr> else q
                | None \<Rightarrow> q)
      | None \<Rightarrow>
          (case qe_end e of
             Some x \<Rightarrow> if eq_timerAdded q \<noteq> Some x \<and> x > t
                       then q\<lparr>eq_timerAdded := Some x, eq_timers := eq_timers q @ [(x - t, False)]\<rparr> else q
           | None \<Rightarrow> q))"

text \<open>
  \<open>front ()\<close> of an empty queue is undefined behaviour; the queue may have become empty in the filter.
  A timer for the start of the first entry does not look at the entry.
\<close>

definition selectNextObservation ::
  "sky \<Rightarrow> int \<Rightarrow> qtime \<Rightarrow> qtime \<Rightarrow> bool \<Rightarrow> exec_queue \<Rightarrow> (selection \<times> qtime) outcome \<times> exec_queue"
where
  "selectNextObservation w now next_time next_length removeObserved q =
     (if \<not> eq_enabled q \<or> eq_list q = [] then (Ret (NoTarget, next_time), q)
      else
        let t = now + 60 * USEC_SEC; (ok, t_start, q1) = filter_queue w t next_length removeObserved q in
        case eq_list q1 of
          [] \<Rightarrow> (Undef, q1)
        | e # es \<Rightarrow>
            if ok \<and> notExpired t e then
              (case next_length of
                 None \<Rightarrow> (Ret (Selected (tid q1 e) (qe_plan e) (qe_qid e) None, next_time), q1)
               | Some len \<Rightarrow>
                   (case sk_length w (tid q1 e) (started q1 e) of
                      None \<Rightarrow> (Threw, q1)
                    | Some l \<Rightarrow>
                        if l < len \<or> \<not> eq_check q1 then
                          (if qe_start e = None
                           then (Ret (Selected (tid q1 e) (qe_plan e) (qe_qid e) (Some False), next_time), q1)
                           else (Ret (Selected (tid q1 e) (qe_plan e) (qe_qid e) (Some (qt_hard e)), next_time),
                                 q1\<lparr>eq_list := e\<lparr>qt_hard := False\<rparr> # es\<rparr>))
                        else (Ret (NoTarget, next_time), q1)))
            else
              (Ret (NoTarget,
                    (case t_start of
                       None \<Rightarrow> next_time
                     | Some s \<Rightarrow>
                         if (case next_time of None \<Rightarrow> True | Some n \<Rightarrow> n > s)
                         then Some (case eq_window q1 of None \<Rightarrow> s | Some v \<Rightarrow> s + v) else next_time)),
               add_timers t t_start e q1))"

section \<open>Queueing from a connection\<close>

definition paramNextWith :: "(string \<Rightarrow> 'a option) \<Rightarrow> string \<Rightarrow> 'a option \<times> string" where
  "paramNextWith f b = (case paramNextString '','' b of (None, r) \<Rightarrow> (None, r) | (Some s, r) \<Rightarrow> (f s, r))"

lemma paramNextString_rest_shorter: "\<not> fst (paramEnd b) \<Longrightarrow> length (snd (paramNextString ds b)) < length b"
proof -
  assume "\<not> fst (paramEnd b)"
  then obtain c cs where c: "dropWhile isspace b = c # cs" by (cases "dropWhile isspace b") (auto simp: paramEnd_def Let_def)
  have l: "length (c # cs) \<le> length b" using c length_dropWhile_le [of isspace b] by simp
  have "length (snd (paramNextString ds b)) < length (c # cs)"
    using length_dropWhile_le [of "\<lambda>x. x \<noteq> CHR ''\"''" cs] length_dropWhile_le [of "\<lambda>x. \<not> isspace x \<and> x \<notin> set ds" "c # cs"]
    by (auto simp: paramNextString_def c Let_def simp del: dropWhile.simps split: if_splits)
  then show ?thesis using l by linarith
qed

lemma paramNextString_le: "length (snd (paramNextString ds b)) \<le> length b"
proof (cases "fst (paramEnd b)")
  case True
  then have "dropWhile isspace b = []" by (simp add: paramEnd_def Let_def)
  then show ?thesis by (simp add: paramNextString_def del: dropWhile_eq_Nil_conv)
qed (use paramNextString_rest_shorter in \<open>simp add: less_imp_le\<close>)

lemma paramNextInteger_shorter: "\<not> fst (paramEnd b) \<Longrightarrow> length (snd (paramNextInteger b)) < length b"
  using paramNextString_rest_shorter [of b "'',''"]
  by (auto simp: paramNextInteger_def split: prod.splits option.splits)

lemma paramNextInteger_le: "length (snd (paramNextInteger b)) \<le> length b"
  using paramNextString_le [of "'',''" b] by (auto simp: paramNextInteger_def split: prod.splits option.splits)

lemma paramNextWith_le: "length (snd (paramNextWith f b)) \<le> length b"
  using paramNextString_le [of "'',''" b] by (auto simp: paramNextWith_def split: prod.splits option.splits)

text \<open>
  What the loop carries from one turn to the next: times, repetitions and separation keep their value
  when they are not read. The readers give the new value, or None for a parameter that is wrong.
\<close>

record queue_args =
  qa_start :: qtime
  qa_end :: qtime
  qa_rep :: int
  qa_sep :: qtime

definition read_times :: "sky \<Rightarrow> queue_args \<Rightarrow> string \<Rightarrow> bool \<times> queue_args \<times> string" where
  "read_times w a b =
     (case paramNextWith (sk_time w) b of
        (None, b1) \<Rightarrow> (False, a, b1)
      | (Some ts, b1) \<Rightarrow>
          (case paramNextWith (sk_time w) b1 of
             (None, b2) \<Rightarrow> (False, a\<lparr>qa_start := ts\<rparr>, b2)
           | (Some te, b2) \<Rightarrow> (True, a\<lparr>qa_start := ts, qa_end := te\<rparr>, b2)))"

definition read_reps :: "sky \<Rightarrow> queue_args \<Rightarrow> string \<Rightarrow> bool \<times> queue_args \<times> string" where
  "read_reps w a b =
     (case paramNextInteger b of
        (None, b1) \<Rightarrow> (False, a, b1)
      | (Some n, b1) \<Rightarrow>
          (case paramNextWith (sk_double w) b1 of
             (None, b2) \<Rightarrow> (False, a\<lparr>qa_rep := n\<rparr>, b2)
           | (Some s, b2) \<Rightarrow> (True, a\<lparr>qa_rep := n, qa_sep := s\<rparr>, b2)))"

lemma read_times_le: "length (snd (snd (read_times w a b))) \<le> length b"
  using paramNextWith_le [of "sk_time w" b] paramNextWith_le [of "sk_time w" "snd (paramNextWith (sk_time w) b)"]
  by (auto simp: read_times_def split: prod.splits option.splits)

lemma read_reps_le: "length (snd (snd (read_reps w a b))) \<le> length b"
  using paramNextInteger_le [of b] paramNextWith_le [of "sk_double w" "snd (paramNextInteger b)"]
  by (auto simp: read_reps_def split: prod.splits option.splits)

definition queue_target ::
  "sky \<Rightarrow> int \<Rightarrow> first_ordering option \<Rightarrow> qtime \<Rightarrow> queue_args \<Rightarrow> nat \<Rightarrow> exec_queue \<Rightarrow> int outcome \<times> exec_queue"
where
  "queue_target w index first n_start a p q =
     (case first of
        Some fo \<Rightarrow> addFirst w p fo n_start (qa_start a) (qa_end a) (qa_rep a) (qa_sep a) (-1) False q
      | None \<Rightarrow> (let (i, q1) = addTarget p (qa_start a) (qa_end a) index (qa_rep a) (qa_sep a) (-1) False q in (Ret i, q1)))"

text \<open>\<open>first\<close> is the order of \<open>tryFirstPossible\<close>; the number of failed entries is returned.\<close>

function queue_loop ::
  "sky \<Rightarrow> int \<Rightarrow> bool \<Rightarrow> first_ordering option \<Rightarrow> qtime \<Rightarrow> bool \<Rightarrow> string \<Rightarrow> queue_args \<Rightarrow> int \<Rightarrow> exec_queue \<Rightarrow> int outcome \<times> exec_queue"
where
  "queue_loop w index withTimes first n_start withNRep b a failed q =
     (if fst (paramEnd b) then (Ret failed, q)
      else
        case paramNextInteger b of
          (None, b1) \<Rightarrow> queue_loop w index withTimes first n_start withNRep b1 a (failed + 1) q
        | (Some i, b1) \<Rightarrow>
            (case (if withTimes then read_times w a b1 else (True, a, b1)) of
               (ok1, a1, b2) \<Rightarrow>
                 if \<not> ok1 then queue_loop w index withTimes first n_start withNRep b2 a1 (failed + 1) q
                 else
                   (case (if withNRep then read_reps w a1 b2 else (True, a1, b2)) of
                      (ok2, a2, b3) \<Rightarrow>
                        if \<not> ok2 then queue_loop w index withTimes first n_start withNRep b3 a2 (failed + 1) q
                        else
                          (case createTarget w i q of
                             (None, q1) \<Rightarrow> (Threw, q1)
                           | (Some p, q1) \<Rightarrow>
                               (case queue_target w index first n_start a2 p q1 of
                                  (Ret r, q2) \<Rightarrow> queue_loop w index withTimes first n_start withNRep b3 a2 failed q2
                                | (r, q2) \<Rightarrow> (r, q2))))))"
  by pat_completeness auto

lemma queue_loop_shorter:
  "(x, b') = paramNextInteger b \<Longrightarrow> \<not> fst (paramEnd b) \<Longrightarrow> length b' < length b"
  "(ok, a', b') = (if c then read_times w a b else (True, a, b)) \<Longrightarrow> length b' \<le> length b"
  "(ok, a', b') = (if c then read_reps w a b else (True, a, b)) \<Longrightarrow> length b' \<le> length b"
  using paramNextInteger_shorter [of b] read_times_le [of w a b] read_reps_le [of w a b]
  by (metis snd_conv, metis (mono_tags) le_refl snd_conv, metis (mono_tags) le_refl snd_conv)

termination queue_loop
  by (relation "measure (\<lambda>(w, index, withTimes, first, n_start, withNRep, b, a, failed, q). length b)")
    (auto dest!: queue_loop_shorter(1) queue_loop_shorter(2) queue_loop_shorter(3) simp del: split_paired_All if_split)

declare queue_loop.simps [simp del]

definition queueFromConn ::
  "sky \<Rightarrow> int \<Rightarrow> bool \<Rightarrow> bool \<Rightarrow> qtime \<Rightarrow> bool \<Rightarrow> string \<Rightarrow> exec_queue \<Rightarrow> int outcome \<times> exec_queue"
where
  "queueFromConn w index withTimes tryFirst n_start withNRep b q =
     (let a = \<lparr>qa_start = None, qa_end = None, qa_rep = -1, qa_sep = None\<rparr> in
      if tryFirst then
        (let (fo, b1) = paramNextInteger b in
         queue_loop w index withTimes
           (Some (case fo of Some n \<Rightarrow> if n = 1 then ORDER_HA else if n = 2 then ORDER_SETFIRST else ORDER_NONE | None \<Rightarrow> ORDER_NONE))
           n_start withNRep b1 a 0 q)
      else queue_loop w index withTimes None n_start withNRep b a 0 q)"

text \<open>
  \<open>queueFromConnQids\<close>: \<open>n\<close> is the position of the iterator, \<open>known\<close> the ids that stay. An existing entry
  gets the times and moves to the iterator; the target made for it is not used.
\<close>

definition read_qid :: "sky \<Rightarrow> string \<Rightarrow> (int \<times> int \<times> qtime \<times> qtime) option \<times> string" where
  "read_qid w b =
     (case paramNextInteger b of
        (None, b1) \<Rightarrow> (None, b1)
      | (Some i, b1) \<Rightarrow>
          (case paramNextInteger b1 of
             (None, b2) \<Rightarrow> (None, b2)
           | (Some t, b2) \<Rightarrow>
               (case paramNextWith (sk_time w) b2 of
                  (None, b3) \<Rightarrow> (None, b3)
                | (Some ts, b3) \<Rightarrow>
                    (case paramNextWith (sk_time w) b3 of
                       (None, b4) \<Rightarrow> (None, b4)
                     | (Some te, b4) \<Rightarrow> (Some (i, t, ts, te), b4)))))"

lemma read_qid_shorter: "(x, b') = read_qid w b \<Longrightarrow> \<not> fst (paramEnd b) \<Longrightarrow> length b' < length b"
proof -
  assume x: "(x, b') = read_qid w b" and n: "\<not> fst (paramEnd b)"
  let ?b1 = "snd (paramNextInteger b)"
  let ?b2 = "snd (paramNextInteger ?b1)"
  let ?b3 = "snd (paramNextWith (sk_time w) ?b2)"
  have "length (snd (read_qid w b)) \<le> length ?b1"
    using paramNextInteger_le [of ?b1] paramNextWith_le [of "sk_time w" ?b2] paramNextWith_le [of "sk_time w" ?b3]
    by (auto simp: read_qid_def split: prod.splits option.splits)
  then show ?thesis using paramNextInteger_shorter [OF n] x by (metis order.strict_trans1 snd_conv)
qed

fun qid_pos :: "int \<Rightarrow> queued_target list \<Rightarrow> nat option" where
  "qid_pos i [] = None"
| "qid_pos i (e # es) = (if qe_qid e = i then Some 0 else map_option Suc (qid_pos i es))"

function qids_loop ::
  "sky \<Rightarrow> string \<Rightarrow> nat \<Rightarrow> int list \<Rightarrow> int \<Rightarrow> exec_queue \<Rightarrow> (int \<times> int list) outcome \<times> exec_queue"
where
  "qids_loop w b n known failed q =
     (if fst (paramEnd b) then (Ret (failed, known), q)
      else
        case read_qid w b of
          (None, b1) \<Rightarrow> qids_loop w b1 n known (failed + 1) q
        | (Some (i, t, ts, te), b1) \<Rightarrow>
            (case createTarget w t q of
               (None, q1) \<Rightarrow> (Threw, q1)
             | (Some p, q1) \<Rightarrow>
                 if i = -1 then
                   (let (e, q2) = new_queued p ts te (-1) None (-1) False q1
                    in qids_loop w b1 (n + 1) (known @ [qe_qid e]) failed (q2\<lparr>eq_list := insert_at n e (eq_list q2)\<rparr>))
                 else
                   (case qid_pos i (eq_list q1) of
                      None \<Rightarrow> qids_loop w b1 n known (failed + 1) q1
                    | Some k \<Rightarrow>
                        (let (n1, es) = place_entry n k ((eq_list q1)[k := (eq_list q1 ! k)\<lparr>qe_start := ts, qe_end := te\<rparr>])
                         in qids_loop w b1 n1 (known @ [i]) failed (q1\<lparr>eq_list := es\<rparr>)))))"
  by pat_completeness auto

termination qids_loop
  by (relation "measure (\<lambda>(w, b, n, known, failed, q). length b)")
    (auto dest!: read_qid_shorter simp del: split_paired_All)

declare qids_loop.simps [simp del]

definition queueFromConnQids :: "sky \<Rightarrow> string \<Rightarrow> exec_queue \<Rightarrow> int outcome \<times> exec_queue" where
  "queueFromConnQids w b q =
     (case qids_loop w b 0 [] 0 q of
        (Ret (failed, known), q1) \<Rightarrow>
          (let gone = (\<lambda>e. qe_qid e > 0 \<and> qe_qid e \<notin> set known) in
           (Ret failed,
            (fold row_remove (filter gone (eq_list q1)) q1)\<lparr>eq_list := filter (\<lambda>e. \<not> gone e) (eq_list q1)\<rparr>))
      | (Threw, q1) \<Rightarrow> (Threw, q1)
      | (Undef, q1) \<Rightarrow> (Undef, q1))"

text \<open>Changes of the arrays of repetitions and separations; both compare with the separation.\<close>

fun set_rep_n :: "int list \<Rightarrow> queued_target list \<Rightarrow> queued_target list \<times> queued_target list" where
  "set_rep_n (v # vs) (e # es) =
     (let (us, rs) = set_rep_n vs es in
      if qe_rep_sep e = Some (v * USEC_SEC) then (us, e # rs) else (e\<lparr>qe_rep_n := v\<rparr> # us, e\<lparr>qe_rep_n := v\<rparr> # rs))"
| "set_rep_n _ es = ([], es)"

definition repN_changed :: "int list \<Rightarrow> exec_queue \<Rightarrow> exec_queue" where
  "repN_changed vs q = (let (us, es) = set_rep_n vs (eq_list q) in fold row_update us (q\<lparr>eq_list := es\<rparr>))"

fun set_rep_sep :: "qtime list \<Rightarrow> queued_target list \<Rightarrow> queued_target list \<times> queued_target list" where
  "set_rep_sep (v # vs) (e # es) =
     (let (us, rs) = set_rep_sep vs es in
      if qe_rep_sep e \<noteq> None \<and> qe_rep_sep e = v then (us, e # rs) else (e\<lparr>qe_rep_sep := v\<rparr> # us, e\<lparr>qe_rep_sep := v\<rparr> # rs))"
| "set_rep_sep _ es = ([], es)"

definition repSeparation_changed :: "qtime list \<Rightarrow> exec_queue \<Rightarrow> exec_queue" where
  "repSeparation_changed vs q = (let (us, es) = set_rep_sep vs (eq_list q) in fold row_update us (q\<lparr>eq_list := es\<rparr>))"

text \<open>\<open>TargetQueue::load\<close>; None when a target is not in the data base any more.\<close>

fun load_rows :: "sky \<Rightarrow> queue_entry list \<Rightarrow> exec_queue \<Rightarrow> unit outcome \<times> exec_queue" where
  "load_rows w [] q = (Ret (), updateVals q)"
| "load_rows w (r # rs) q =
     (case load_queued w r q of (None, q1) \<Rightarrow> (Threw, q1) | (Some e, q1) \<Rightarrow> load_rows w rs (q1\<lparr>eq_list := eq_list q1 @ [e]\<rparr>))"

definition load_queue :: "sky \<Rightarrow> exec_queue \<Rightarrow> unit outcome \<times> exec_queue" where
  "load_queue w q = load_rows w (sort_key qe_order (eq_db q)) q"

text \<open>The constructor, for a queue that is not in the data base yet: the values created with their defaults.\<close>

definition new_ExecutorQueue :: "int \<Rightarrow> exec_queue" where
  "new_ExecutorQueue i =
     \<lparr>eq_list = [], eq_objs = Map.empty, eq_next = 0, eq_seq = 0, eq_db = [], eq_id = i, eq_simul = False, eq_type = QUEUE_FIFO,
      eq_skip = True, eq_test = True, eq_remove = True, eq_block = False, eq_check = True, eq_enabled = True, eq_window = None,
      eq_current = None, eq_timerAdded = None, eq_timers = [], eq_shown = [], eq_removed = [], eq_executed = []\<rparr>"

text \<open>
  The copy of a queue that the simulation works on (\<open>SimulQueueTargets\<close>): each entry gets a target of
  its own, all else, the ids of the rows too, is copied.
\<close>

fun copy_entries :: "sky \<Rightarrow> queued_target list \<Rightarrow> exec_queue \<Rightarrow> queued_target list outcome \<times> exec_queue" where
  "copy_entries w [] q = (Ret [], q)"
| "copy_entries w (e # es) q =
     (case createTarget w (tid q e) q of
        (None, q1) \<Rightarrow> (Threw, q1)
      | (Some p, q1) \<Rightarrow>
          (case copy_entries w es q1 of
             (Ret cs, q2) \<Rightarrow> (Ret (copy_queued p e # cs), q2)
           | r \<Rightarrow> r))"

definition SimulQueueTargets :: "sky \<Rightarrow> exec_queue \<Rightarrow> unit outcome \<times> exec_queue" where
  "SimulQueueTargets w q =
     (case copy_entries w (eq_list q) q of
        (Ret cs, q1) \<Rightarrow> (Ret (), q1\<lparr>eq_list := cs, eq_simul := True\<rparr>)
      | (Threw, q1) \<Rightarrow> (Threw, q1)
      | (Undef, q1) \<Rightarrow> (Undef, q1))"

end
