(* ===== verification/Rts2_QueueStore.thy ===== *)
theory Rts2_QueueStore
  imports Rts2_ExecutorQueue "HOL-Library.Multiset"
begin

text \<open>
  The queue of the executor and its table: every operation keeps the rows of the table and the
  entries of the list in step, no operation leaves an entry with a deleted target, and what the
  table holds after an update is the queue: loading it again gives the queue back.
\<close>

section \<open>What the operations keep\<close>

text \<open>The key of an entry: its id, its queue, the target it points to.\<close>

definition entry_key :: "queued_target \<Rightarrow> int \<times> int \<times> nat" where
  "entry_key e = (qe_qid e, qe_queue e, qt_target e)"

definition keys :: "queued_target list \<Rightarrow> (int \<times> int \<times> nat) multiset" where
  "keys es = mset (map entry_key es)"

definition row_ids :: "queue_entry list \<Rightarrow> int multiset" where
  "row_ids rs = mset (map qe_qid rs)"

lemma keys_cong: "map entry_key es = map entry_key fs \<Longrightarrow> keys es = keys fs"
  by (simp add: keys_def del: mset_map)

lemma keys_perm: "mset es = mset fs \<Longrightarrow> keys es = keys fs"
  by (simp add: keys_def)

lemma keys_simps [simp]: "keys [] = {#}" "keys (e # es) = add_mset (entry_key e) (keys es)" "keys (es @ fs) = keys es + keys fs"
  by (simp_all add: keys_def)

text \<open>
  The invariant of a queue with a table: entries and rows have the same ids, no id occurs twice, all
  were drawn from the sequence; entries point to different targets, none of them deleted.
\<close>

definition store_ok :: "(int \<times> int \<times> nat) multiset \<Rightarrow> exec_queue \<Rightarrow> bool" where
  "store_ok ks q \<longleftrightarrow> \<not> eq_simul q \<and> 0 \<le> eq_id q \<and> 0 \<le> eq_seq q
     \<and> row_ids (eq_db q) = image_mset fst ks \<and> (\<forall>k\<in>#ks. 0 < fst k \<and> fst k \<le> eq_seq q \<and> fst (snd k) = eq_id q)
     \<and> (\<forall>i. count (image_mset fst ks) i \<le> 1) \<and> (\<forall>p. count (image_mset (snd \<circ> snd) ks) p \<le> 1)
     \<and> (\<forall>k\<in>#ks. snd (snd k) \<in> dom (eq_objs q)) \<and> (\<forall>p\<in>dom (eq_objs q). p < eq_next q)"

definition queue_ok :: "exec_queue \<Rightarrow> bool" where
  "queue_ok q \<longleftrightarrow> store_ok (keys (eq_list q)) q"

lemma store_list [simp]: "store_ok ks (q\<lparr>eq_list := es\<rparr>) = store_ok ks q" "store_ok ks (q\<lparr>eq_shown := es\<rparr>) = store_ok ks q"
  by (simp_all add: store_ok_def)

lemma queue_ok_list [simp]: "queue_ok (q\<lparr>eq_list := es\<rparr>) = store_ok (keys es) q"
  by (simp add: queue_ok_def)

section \<open>Reordering\<close>

lemma mset_stable_insert [simp]: "mset (stable_insert lt x ys) = add_mset x (mset ys)"
  by (induction ys) simp_all

lemma mset_list_sort [simp]: "mset (list_sort lt xs) = mset xs"
  by (induction xs) (simp_all add: list_sort_def)

lemma set_list_sort [simp]: "set (list_sort lt xs) = set xs"
  by (metis mset_list_sort set_mset_mset)

lemma mset_place [simp]: "n \<le> length es \<Longrightarrow> k < length es \<Longrightarrow> mset (snd (place_entry n k es)) = mset es"
proof -
  assume n: "n \<le> length es" and k: "k < length es"
  have split: "mset ys = mset (take i ys) + mset (drop i ys)" for i and ys :: "'a list"
    by (metis append_take_drop_id mset_append)
  have c: "drop k es = es ! k # drop (k + 1) es" using k by (simp add: Cons_nth_drop_Suc)
  show ?thesis
  proof (cases "n \<le> k")
    case True
    have "mset (take k es) = mset (take n es) + mset (drop n (take k es))"
      using split [of "take k es" n] True by (simp add: min_absorb1)
    then show ?thesis using split [of es k] c True by (simp add: place_entry_def ac_simps)
  next
    case False
    have "mset (take n es) = mset (take k (take n es)) + mset (drop k (take n es))" by (rule split)
    moreover have "drop k (take n es) = es ! k # drop (k + 1) (take n es)"
      using False n by (subst Cons_nth_drop_Suc [symmetric]) simp_all
    ultimately show ?thesis using split [of es n] False by (simp add: place_entry_def min_absorb1 ac_simps)
  qed
qed

lemma place_length: "n \<le> length es \<Longrightarrow> k < length es \<Longrightarrow> fst (place_entry n k es) \<le> length (snd (place_entry n k es))"
  using mset_place [of n es k] by (auto simp: place_entry_def dest: mset_eq_length split: if_splits)

lemma entry_pos_less: "entry_pos p es = Some k \<Longrightarrow> k < length es"
  by (induction es arbitrary: k) (auto split: if_splits)

lemma mset_order_one:
  assumes "fst s \<le> length (snd s)"
  shows "mset (snd (order_one p s)) = mset (snd s) \<and> fst (order_one p s) \<le> length (snd (order_one p s))"
proof (cases "entry_pos p (snd s)")
  case (Some k)
  then have "k < length (snd s)" by (rule entry_pos_less)
  then show ?thesis using assms Some place_length [of "fst s" "snd s" k] by (simp add: order_one_def split_beta)
qed (use assms in \<open>simp add: order_one_def split_beta\<close>)

lemma mset_order [simp]: "mset (orderByTargetList ps es) = mset es"
proof -
  have "fst s \<le> length (snd s) \<Longrightarrow> mset (snd (fold order_one ps s)) = mset (snd s)" for s
  proof (induction ps arbitrary: s)
    case (Cons p ps)
    then show ?case using mset_order_one [of s p] by simp
  qed simp
  then show ?thesis by (simp add: orderByTargetList_def)
qed

lemma keys_sortQueue [simp]: "keys (eq_list (sortQueue w now q)) = keys (eq_list q)"
  by (rule keys_perm) (simp add: sortQueue_def sort_west_def Let_def split: option.split)

lemma sortQueue_store [simp]: "store_ok ks (sortQueue w now q) = store_ok ks q"
  by (simp add: sortQueue_def sort_west_def Let_def split: option.split)

lemma mset_splice [simp]: "k \<le> length xs \<Longrightarrow> n < length xs \<Longrightarrow> mset (splice_one k n xs) = mset xs"
  using mset_place [of k xs n] by (simp add: splice_one_def place_entry_def split: if_splits)

lemma mset_insert_at [simp]: "mset (insert_at n x xs) = add_mset x (mset xs)"
  by (simp add: insert_at_def) (metis append_take_drop_id mset_append)

lemma findIndex_le: "findIndex i xs \<le> length xs"
  by (simp add: findIndex_def) linarith

section \<open>Rows\<close>

lemma row_ids_update [simp]: "row_ids (map (\<lambda>r. if qe_qid r = qe_qid e then entry_row e else r) rs) = row_ids rs"
  by (induction rs) (simp_all add: row_ids_def entry_row_def queue_entry.defs)

lemma store_row_update: "store_ok ks (row_update e q) = store_ok ks q"
  by (simp add: row_update_def store_ok_def)

lemma store_row_updates [simp]: "store_ok ks (fold row_update es q) = store_ok ks q"
  by (induction es arbitrary: q) (simp_all add: store_row_update)

lemma keys_number [simp]: "keys (number_entries n es) = keys es"
  by (induction n es rule: number_entries.induct) (simp_all add: entry_key_def)

lemma row_update_fields [simp]: "eq_list (fold row_update es q) = eq_list q" "eq_simul (fold row_update es q) = eq_simul q"
  by (induction es arbitrary: q) (simp_all add: row_update_def)

lemma updateVals_ok [simp]: "queue_ok (updateVals q) = queue_ok q"
  by (simp add: queue_ok_def updateVals_def Let_def)

lemma row_ids_remove: "row_ids (filter (\<lambda>r. qe_qid r \<noteq> i) rs) = filter_mset (\<lambda>j. j \<noteq> i) (row_ids rs)"
  by (induction rs) (simp_all add: row_ids_def)

lemma filter_mset_absent: "count M i = 0 \<Longrightarrow> filter_mset (\<lambda>j. j \<noteq> i) (add_mset i M) = M"
  by (auto simp: filter_mset_eq_conv count_eq_zero_iff)

text \<open>Removal of an entry from the list, its row and, mostly, its target.\<close>

lemma store_remove:
  assumes "store_ok (add_mset (entry_key e) ks) q"
  shows "store_ok ks (row_remove e q)"
    "store_ok ks (row_remove e (q\<lparr>eq_current := c\<rparr>))"
    "store_ok ks (row_remove e (delete_target (qt_target e) q))"
proof -
  have ids: "row_ids (eq_db q) = add_mset (qe_qid e) (image_mset fst ks)" and qe: "0 \<le> qe_queue e"
    using assms by (auto simp: store_ok_def entry_key_def)
  have cnt: "\<forall>i. count (image_mset fst (add_mset (entry_key e) ks)) i \<le> 1"
    "\<forall>p. count (image_mset (snd \<circ> snd) (add_mset (entry_key e) ks)) p \<le> 1"
    using assms unfolding store_ok_def by blast+
  then have one: "count (image_mset fst ks) (qe_qid e) = 0" "count (image_mset (snd \<circ> snd) ks) (qt_target e) = 0"
    using cnt(1) [rule_format, of "qe_qid e"] cnt(2) [rule_format, of "qt_target e"] by (simp_all add: entry_key_def)
  have le: "count (image_mset fst ks) i \<le> 1" "count (image_mset (snd \<circ> snd) ks) p \<le> 1" for i p
    using cnt(1) [rule_format, of i] cnt(2) [rule_format, of p] by (auto split: if_splits)
  have "row_ids (filter (\<lambda>r. qe_qid r \<noteq> qe_qid e) (eq_db q)) = image_mset fst ks"
    unfolding row_ids_remove ids by (rule filter_mset_absent [OF one(1)])
  then show *: "store_ok ks (row_remove e q)"
    using assms qe le by (simp add: store_ok_def row_remove_def)
  have "row_remove e (q\<lparr>eq_current := c\<rparr>) = (row_remove e q)\<lparr>eq_current := c\<rparr>" by (simp add: row_remove_def)
  then show "store_ok ks (row_remove e (q\<lparr>eq_current := c\<rparr>))" using * by (simp add: store_ok_def)
  have "snd (snd k) \<noteq> qt_target e" if "k \<in># ks" for k
    using one(2) that by (force simp: count_eq_zero_iff)
  then have "store_ok ks (delete_target (qt_target e) (row_remove e q))" using *
    by (auto simp: store_ok_def delete_target_def)
  moreover have "row_remove e (delete_target (qt_target e) q) = delete_target (qt_target e) (row_remove e q)"
    by (simp add: row_remove_def delete_target_def)
  ultimately show "store_ok ks (row_remove e (delete_target (qt_target e) q))" by simp
qed

section \<open>Filtering\<close>

lemma store_logs [simp]: "store_ok ks (q\<lparr>eq_removed := xs\<rparr>) = store_ok ks q" "store_ok ks (q\<lparr>eq_executed := ys\<rparr>) = store_ok ks q"
  "store_ok ks (q\<lparr>eq_timerAdded := t, eq_timers := ts\<rparr>) = store_ok ks q"
  by (simp_all add: store_ok_def)

lemma removeEntry_ok: "store_ok (add_mset (entry_key e) ks) q \<Longrightarrow> store_ok ks (removeEntry r e q)"
  by (auto simp: removeEntry_def Let_def store_ok_def [of "add_mset (entry_key e) ks" q] intro!: store_remove(2,3))

lemma removeEntries_ok: "store_ok (keys es + ks) q \<Longrightarrow> store_ok ks (fold (removeEntry r) es q)"
  by (induction es arbitrary: q) (simp_all add: removeEntry_ok)

lemma fifo_ok: "store_ok (keys before + keys es) q \<Longrightarrow> store_ok (keys (fst (fifo_expired now before es q))) (snd (fifo_expired now before es q))"
proof (induction now before es q rule: fifo_expired.induct)
  case (2 now before e es q)
  have "store_ok (keys [e] + keys es) (fold (removeEntry REMOVED_NEXT_NEEDED) before q)"
    using 2(3) removeEntries_ok [of before "keys [e] + keys es" q] by (simp add: ac_simps)
  then show ?case using 2 by (simp add: ac_simps)
qed simp

lemma drop_ok: "store_ok (keys es + ks) q \<Longrightarrow> store_ok (keys (fst (drop_expired now es q)) + ks) (snd (drop_expired now es q))"
proof (induction now es q arbitrary: ks rule: drop_expired.induct)
  case (2 now e es q)
  have "store_ok (keys es + ks) (removeEntry r e q)" for r using 2(4) removeEntry_ok [of e "keys es + ks" q r] by simp
  moreover have "store_ok (keys es + add_mset (entry_key e) ks) q" using 2(4) by simp
  ultimately show ?case using 2(1,2) [of ks] 2(3) [of "add_mset (entry_key e) ks"]
    by (simp add: split_beta)
qed simp

lemma unobservable_ok:
  "store_ok (keys es + ks) q \<Longrightarrow> filterUnobservable w now m r es q = (rest, skipped, q1) \<Longrightarrow> store_ok (keys rest + keys skipped + ks) q1"
proof (induction es arbitrary: q ks rest skipped q1)
  case (Cons e es)
  have remove: "store_ok (keys es + ks) (row_remove e q)" using Cons.prems(1) store_remove(1) [of e "keys es + ks" q] by simp
  have keep: "store_ok (keys es + add_mset (entry_key e) ks) q" using Cons.prems(1) by simp
  have key: "entry_key (e\<lparr>qt_reported := b\<rparr>) = entry_key e" for b by (simp add: entry_key_def)
  show ?case
    using Cons.prems Cons.IH [OF remove] Cons.IH [OF keep]
    by (auto simp: Let_def key add.assoc split: if_splits prod.splits)
qed simp

lemma filterExpired_ok: "queue_ok q \<Longrightarrow> queue_ok (filterExpired now q)"
proof -
  assume q: "queue_ok q"
  let ?f = "if eq_type q = QUEUE_FIFO then fifo_expired now [] (eq_list q) q else (eq_list q, q)"
  have "store_ok (keys (fst ?f)) (snd ?f)" using q fifo_ok [of "[]" "eq_list q" q now] by (simp add: queue_ok_def)
  then show ?thesis using drop_ok [of "fst ?f" "{#}" "snd ?f" now] by (simp add: queue_ok_def filterExpired_def split_beta Let_def)
qed

lemma filter_ok: "queue_ok q \<Longrightarrow> queue_ok (snd (snd (filter_queue w now m r q)))"
proof -
  assume q: "queue_ok q"
  let ?e = "filterExpired now q"
  obtain rest skipped q1 where u: "filterUnobservable w now m r (eq_list ?e) ?e = (rest, skipped, q1)"
    by (metis prod_cases3)
  have e: "queue_ok ?e" using q by (rule filterExpired_ok)
  then have "store_ok (keys rest + keys skipped) q1" using unobservable_ok [OF _ u, of "{#}"] by (simp add: queue_ok_def)
  then show ?thesis using u e
    by (auto simp: filter_queue_def Let_def queue_ok_def [of "q1\<lparr>eq_list := es\<rparr>" for es] ac_simps split: list.split)
qed

section \<open>New entries\<close>

lemma fresh_absent: "store_ok ks q \<Longrightarrow> count (image_mset fst ks) (eq_seq q + 1) = 0"
  by (force simp: store_ok_def count_eq_zero_iff)

text \<open>A target that was just created, that no entry points to.\<close>

definition unused :: "nat \<Rightarrow> (int \<times> int \<times> nat) multiset \<Rightarrow> exec_queue \<Rightarrow> bool" where
  "unused p ks q \<longleftrightarrow> p \<in> dom (eq_objs q) \<and> count (image_mset (snd \<circ> snd) ks) p = 0"

lemma create_ok:
  assumes "store_ok ks q" "createTarget w i q = (r, q1)"
  shows "store_ok ks q1" "eq_list q1 = eq_list q" "r = Some p \<Longrightarrow> unused p ks q1"
    "eq_seq q1 = eq_seq q" "eq_id q1 = eq_id q"
proof -
  have new: "eq_next q \<notin> dom (eq_objs q)" using assms(1) by (auto simp: store_ok_def)
  then have "snd (snd k) \<noteq> eq_next q" if "k \<in># ks" for k using assms(1) that by (auto simp: store_ok_def)
  then have "count (image_mset (snd \<circ> snd) ks) (eq_next q) = 0" by (force simp: count_eq_zero_iff)
  then show "r = Some p \<Longrightarrow> unused p ks q1" using assms(2) by (auto simp: createTarget_def unused_def split: if_splits)
  show "store_ok ks q1" using assms by (auto simp: createTarget_def store_ok_def intro!: less_SucI intro: domI split: if_splits)
  show "eq_list q1 = eq_list q" "eq_seq q1 = eq_seq q" "eq_id q1 = eq_id q" using assms by (auto simp: createTarget_def split: if_splits)
qed

lemma row_ids_snoc [simp]: "row_ids (rs @ [entry_row e]) = add_mset (qe_qid e) (row_ids rs)"
  by (simp add: row_ids_def entry_row_def queue_entry.defs)

lemma new_queued_ok:
  assumes "store_ok ks q" "unused p ks q" "new_queued p ts te rep sep plan hard q = (e, q1)"
  shows "store_ok (add_mset (entry_key e) ks) q1" "eq_list q1 = eq_list q" "qe_qid e = eq_seq q + 1"
proof -
  have "\<forall>i. count (image_mset fst ks) i \<le> 1" "\<forall>p. count (image_mset (snd \<circ> snd) ks) p \<le> 1"
    "count (image_mset fst ks) (eq_seq q + 1) = 0" "count (image_mset (snd \<circ> snd) ks) p = 0" "0 \<le> eq_id q"
    using assms fresh_absent unfolding store_ok_def unused_def by blast+
  moreover have q1: "q1 = row_create e (q\<lparr>eq_seq := eq_seq q + 1\<rparr>)" and "entry_key e = (eq_seq q + 1, eq_id q, p)"
    using assms(3) by (auto simp: new_queued_def entry_key_def Let_def)
  ultimately show "store_ok (add_mset (entry_key e) ks) q1" using assms(1,2)
    by (auto simp: store_ok_def unused_def row_create_def entry_key_def)
  show "eq_list q1 = eq_list q" "qe_qid e = eq_seq q + 1" using assms(3) by (auto simp: new_queued_def row_create_def Let_def)
qed

lemma insert_ok:
  assumes "queue_ok q" "unused p (keys (eq_list q)) q" "new_queued p ts te rep sep plan hard q = (e, q1)"
  shows "queue_ok (q1\<lparr>eq_list := insert_at n e (eq_list q1)\<rparr>)" "queue_ok (q1\<lparr>eq_list := e # eq_list q1\<rparr>)"
proof -
  have "keys (insert_at n e (eq_list q)) = add_mset (entry_key e) (keys (eq_list q))" by (simp add: keys_def)
  then show "queue_ok (q1\<lparr>eq_list := insert_at n e (eq_list q1)\<rparr>)" "queue_ok (q1\<lparr>eq_list := e # eq_list q1\<rparr>)"
    using new_queued_ok [OF _ assms(2,3)] assms(1) by (simp_all add: queue_ok_def)
qed

lemma addTarget_ok:
  "queue_ok q \<Longrightarrow> unused p (keys (eq_list q)) q \<Longrightarrow> queue_ok (snd (addTarget p ts te i rep sep plan hard q))"
  "queue_ok q \<Longrightarrow> unused p (keys (eq_list q)) q \<Longrightarrow> queue_ok (snd (addFront p ts te q))"
  using insert_ok by (simp_all add: addTarget_def addFront_def split_beta)

lemma addFirst_ok:
  "queue_ok q \<Longrightarrow> unused p (keys (eq_list q)) q \<Longrightarrow> queue_ok (snd (addFirst w p fo n ts te rep sep plan hard q))"
  using addTarget_ok(1) [of q p] insert_ok(1) [of q p]
  by (auto simp: addFirst_def Let_def split: option.split prod.split)

lemma queue_target_ok:
  "queue_ok q \<Longrightarrow> unused p (keys (eq_list q)) q \<Longrightarrow> queue_ok (snd (queue_target w i first n a p q))"
  using addTarget_ok(1) [of q p] addFirst_ok [of q p] by (auto simp: queue_target_def split_beta split: option.split)

section \<open>Operations\<close>

lemma removeIndex_ok: "queue_ok q \<Longrightarrow> queue_ok (snd (removeIndex i q))"
proof (cases "findIndex i (eq_list q) = length (eq_list q)")
  case False
  assume q: "queue_ok q"
  define n where "n = findIndex i (eq_list q)"
  have n: "n < length (eq_list q)" using False findIndex_le [of i "eq_list q"] by (simp add: n_def)
  then have "keys (eq_list q) = add_mset (entry_key (eq_list q ! n)) (keys (take n (eq_list q) @ drop (n + 1) (eq_list q)))"
    using id_take_nth_drop [OF n] by (metis Suc_eq_plus1 keys_simps(2,3) union_mset_add_mset_right)
  then have "store_ok (add_mset (entry_key (eq_list q ! n)) (keys (take n (eq_list q) @ drop (n + 1) (eq_list q)))) q"
    using q by (simp add: queue_ok_def)
  then show ?thesis using False store_remove(2,3) by (auto simp: removeIndex_def Let_def n_def)
qed (simp add: removeIndex_def Let_def)

lemma moveIndex_ok: "queue_ok q \<Longrightarrow> queue_ok (snd (moveIndex i j q))"
  using findIndex_le [of i "eq_list q"] findIndex_le [of "if j > i then j + 1 else j" "eq_list q"]
    keys_perm [OF mset_splice [of "findIndex (if j > i then j + 1 else j) (eq_list q)" "eq_list q" "findIndex i (eq_list q)"]]
  by (auto simp: moveIndex_def Let_def queue_ok_def [of q])

lemma keys_update: "entry_key e = entry_key (es ! n) \<Longrightarrow> keys (es[n := e]) = keys es"
  by (rule keys_cong) (metis list_update_id map_update)

lemma updateIndexTimes_ok: "queue_ok q \<Longrightarrow> queue_ok (snd (updateIndexTimes i ts te q))"
  by (auto simp: updateIndexTimes_def Let_def queue_ok_def [of q] keys_update entry_key_def)

lemma clearNext_ok: "queue_ok q \<Longrightarrow> queue_ok (clearNext q)"
proof -
  let ?f = "\<lambda>e r. row_remove e (if eq_current r = Some (qt_target e) then r else delete_target (qt_target e) r)"
  have "store_ok (keys es) r \<Longrightarrow> store_ok {#} (fold ?f es r)" for es r
    by (induction es arbitrary: r) (simp_all add: store_remove(1,3))
  then show "queue_ok q \<Longrightarrow> queue_ok (clearNext q)"
    by (simp add: clearNext_def queue_ok_def [of q] store_ok_def [of "keys (eq_list q)" q])
qed

lemma create_queue_ok: "queue_ok q \<Longrightarrow> createTarget w i q = (r, q1) \<Longrightarrow> queue_ok q1"
  "queue_ok q \<Longrightarrow> createTarget w i q = (Some p, q1) \<Longrightarrow> unused p (keys (eq_list q1)) q1"
  using create_ok [of "keys (eq_list q)" q w i r q1] create_ok [of "keys (eq_list q)" q w i "Some p" q1]
  by (simp_all add: queue_ok_def)

lemma queue_loop_ok: "queue_ok q \<Longrightarrow> queue_ok (snd (queue_loop w i wt first n reps b a failed q))"
proof (induction w i wt first n reps b a failed q rule: queue_loop.induct)
  case (1 w i wt first n reps b a failed q)
  have q: "queue_ok q" by (rule 1(5))
  show ?case
  proof (cases "fst (paramEnd b)")
    case True
    then show ?thesis using q by (subst queue_loop.simps) simp
  next
    case more: False
    obtain x b1 where x: "paramNextInteger b = (x, b1)" by fastforce
    show ?thesis
    proof (cases x)
      case None
      then show ?thesis using 1(1) [OF more x [symmetric] None] q more x by (subst queue_loop.simps) simp
    next
      case (Some t)
      obtain ok1 a1 b2 where r1: "(if wt then read_times w a b1 else (True, a, b1)) = (ok1, a1, b2)" by (metis prod_cases3)
      obtain ok2 a2 b3 where r2: "(if reps then read_reps w a1 b2 else (True, a1, b2)) = (ok2, a2, b3)" by (metis prod_cases3)
      obtain p q1 where c: "createTarget w t q = (p, q1)" by fastforce
      have c_ok: "queue_ok q1" using create_queue_ok(1) [OF q c] .
      have t_ok: "queue_ok (snd (queue_target w i first n a2 r q1))" if "p = Some r" for r
        using queue_target_ok [OF c_ok] create_queue_ok(2) [OF q] c that by simp
      show ?thesis
        using 1(2) [OF more x [symmetric] Some r1 [symmetric] refl] 1(3) [OF more x [symmetric] Some r1 [symmetric] refl _ r2 [symmetric] refl]
          1(4) [OF more x [symmetric] Some r1 [symmetric] refl _ r2 [symmetric] refl _ c [symmetric]] q c_ok t_ok more x Some r1 r2 c
        by (subst queue_loop.simps) (auto split: option.split prod.split outcome.split)
    qed
  qed
qed

lemma store_repoint:
  assumes "store_ok (add_mset (i, j, r) ks) q" "unused p (add_mset (i, j, r) ks) q"
  shows "store_ok (add_mset (i, j, p) ks) (delete_target r q)"
proof -
  have r: "count (image_mset (snd \<circ> snd) (add_mset (i, j, r) ks)) r \<le> 1" using assms(1) unfolding store_ok_def by blast
  have "snd (snd k) \<noteq> r" if "k \<in># ks" for k
    using r that by (force simp: count_eq_zero_iff)
  moreover have "p \<noteq> r" "count (image_mset (snd \<circ> snd) ks) p = 0" "p \<in> dom (eq_objs q)"
    using assms(2) by (auto simp: unused_def split: if_splits)
  moreover have "count (image_mset (snd \<circ> snd) ks) x \<le> 1" for x
  proof -
    have "count (image_mset (snd \<circ> snd) (add_mset (i, j, r) ks)) x \<le> 1" using assms(1) unfolding store_ok_def by blast
    then show ?thesis by (simp split: if_splits)
  qed
  ultimately show ?thesis using assms(1) by (auto simp: store_ok_def delete_target_def)
qed

lemma requeue_ok:
  assumes "store_ok (add_mset (entry_key e) (keys es)) q"
  shows "queue_ok (snd (requeue_front w e es q))"
proof (cases "createTarget w (tid q e) (q\<lparr>eq_list := e # es\<rparr>)")
  case (Pair r q1)
  have q: "store_ok (add_mset (entry_key e) (keys es)) (q\<lparr>eq_list := e # es\<rparr>)" using assms by simp
  note c = create_ok [OF q Pair]
  show ?thesis
  proof (cases r)
    case None
    then show ?thesis using Pair c(1,2) by (simp add: requeue_front_def queue_ok_def)
  next
    case (Some p)
    have "store_ok (add_mset (entry_key (copy_queued p e)) (keys es)) (delete_target (qt_target e) q1)"
      using store_repoint [of "qe_qid e" "qe_queue e" "qt_target e" "keys es" q1 p] c(1) c(3) [OF Some]
      by (simp add: entry_key_def copy_queued_def)
    moreover have "delete_target (qt_target e) (q1\<lparr>eq_list := fs\<rparr>) = (delete_target (qt_target e) q1)\<lparr>eq_list := fs\<rparr>" for fs
      by (simp add: delete_target_def)
    ultimately show ?thesis using Pair Some by (simp add: requeue_front_def)
  qed
qed

lemma sortQueue_ok [simp]: "queue_ok (sortQueue w now q) = queue_ok q"
  by (simp add: queue_ok_def)

lemma key_count_down [simp]: "entry_key (count_down now e) = entry_key e"
  by (simp add: entry_key_def count_down_def)

lemma beforeChange_ok: "queue_ok q \<Longrightarrow> queue_ok (snd (beforeChange w now q))"
proof -
  assume "queue_ok q"
  then have q: "queue_ok (sortQueue w now q)" by simp
  have "queue_ok (snd (requeue_front w e' es (sortQueue w now q)))"
    if "eq_list (sortQueue w now q) = e # es" "entry_key e' = entry_key e" for e e' es
    using requeue_ok [of e' es "sortQueue w now q" w] q that by (simp add: queue_ok_def)
  then show ?thesis using q filter_ok
    by (auto simp: beforeChange_def Let_def split_beta split: list.split)
qed

lemma queue_ok_frame: "eq_list r = eq_list q \<Longrightarrow> store_ok (keys (eq_list q)) r = store_ok (keys (eq_list q)) q \<Longrightarrow> queue_ok r = queue_ok q"
  by (simp add: queue_ok_def)

lemma add_timers_ok [simp]: "queue_ok (add_timers t ts e q) = queue_ok q"
  by (rule queue_ok_frame) (simp_all add: add_timers_def split: option.split)

lemma select_ok: "queue_ok q \<Longrightarrow> queue_ok (snd (selectNextObservation w now nt len r q))"
proof -
  assume "queue_ok q"
  then have f: "queue_ok (snd (snd (filter_queue w t len r q)))" for t by (rule filter_ok)
  have hard: "store_ok (add_mset (entry_key e) (keys es)) q1" if "queue_ok q1" "eq_list q1 = e # es" for q1 e es
    using that by (simp add: queue_ok_def)
  have key: "entry_key (e\<lparr>qt_hard := b\<rparr>) = entry_key e" for e b by (simp add: entry_key_def)
  show ?thesis using \<open>queue_ok q\<close> f [of "now + 60 * USEC_SEC"]
    by (auto simp: selectNextObservation_def Let_def split_beta hard key split: list.split option.split)
qed

lemma qid_pos_less: "qid_pos i es = Some k \<Longrightarrow> k < length es"
  by (induction es arbitrary: k) (auto split: if_splits)

lemma qids_loop_ok: "queue_ok q \<Longrightarrow> n \<le> length (eq_list q) \<Longrightarrow> queue_ok (snd (qids_loop w b n known failed q))"
proof (induction w b n known failed q rule: qids_loop.induct)
  case (1 w b n known failed q)
  show ?case
  proof (cases "fst (paramEnd b)")
    case True
    then show ?thesis using 1(5) by (subst qids_loop.simps) simp
  next
    case more: False
    obtain x b1 where x: "read_qid w b = (x, b1)" by fastforce
    show ?thesis
    proof (cases x)
      case None
      then show ?thesis using 1(1) [OF more x [symmetric] None] 1(5,6) more x by (subst qids_loop.simps) simp
    next
      case (Some a)
      obtain i t ts te where a: "a = (i, t, ts, te)" by (metis prod_cases4)
      obtain p q1 where c: "createTarget w t q = (p, q1)" by fastforce
      note ok = create_queue_ok(1) [OF 1(5) c]
      have len: "eq_list q1 = eq_list q" using c by (auto simp: createTarget_def split: if_splits)
      have new: "queue_ok (q2\<lparr>eq_list := insert_at n e (eq_list q2)\<rparr>) \<and> n + 1 \<le> length (insert_at n e (eq_list q2))"
        if "new_queued r ts te (-1) None (-1) False q1 = (e, q2)" "p = Some r" for r e q2
      proof -
        have u: "unused r (keys (eq_list q1)) q1" using create_queue_ok(2) [OF 1(5)] c that(2) by simp
        then have "eq_list q2 = eq_list q1" using new_queued_ok(2) [OF _ u that(1)] ok by (simp add: queue_ok_def)
        then show ?thesis using insert_ok(1) [OF ok u that(1)] 1(6) len by (simp add: insert_at_def)
      qed
      have old: "queue_ok (q1\<lparr>eq_list := es\<rparr>) \<and> n1 \<le> length es"
        if "qid_pos i (eq_list q1) = Some k"
          "place_entry n k ((eq_list q1)[k := (eq_list q1 ! k)\<lparr>qe_start := ts, qe_end := te\<rparr>]) = (n1, es)" for k n1 es
      proof -
        let ?xs = "(eq_list q1)[k := (eq_list q1 ! k)\<lparr>qe_start := ts, qe_end := te\<rparr>]"
        have "n \<le> length ?xs" "k < length ?xs" using qid_pos_less [OF that(1)] 1(6) len by simp_all
        then have "mset es = mset ?xs" "n1 \<le> length es" using mset_place [of n ?xs k] place_length [of n ?xs k] that(2) by simp_all
        moreover have "keys ?xs = keys (eq_list q1)" by (rule keys_update) (simp add: entry_key_def)
        ultimately show ?thesis using ok keys_perm [of es ?xs] by (simp add: queue_ok_def)
      qed
      show ?thesis
        using 1(2) [OF more x [symmetric] Some a [symmetric] refl refl c [symmetric]] 1(3) [OF more x [symmetric] Some a [symmetric] refl refl c [symmetric]]
          1(4) [OF more x [symmetric] Some a [symmetric] refl refl c [symmetric]] more x Some a c ok new old 1(6) len
        by (subst qids_loop.simps) (auto split: option.split prod.split)
    qed
  qed
qed

lemma row_removes_ok: "store_ok (keys gs + ks) q \<Longrightarrow> store_ok ks (fold row_remove gs q)"
  by (induction gs arbitrary: q) (simp_all add: store_remove(1))

lemma keys_partition: "keys (filter P es) + keys (filter (\<lambda>e. \<not> P e) es) = keys es"
  by (induction es) simp_all

lemma qids_ok: "queue_ok q \<Longrightarrow> queue_ok (snd (queueFromConnQids w b q))"
proof -
  assume q: "queue_ok q"
  obtain r q1 where l: "qids_loop w b 0 [] 0 q = (r, q1)" by fastforce
  have "queue_ok q1" using qids_loop_ok [OF q, of 0 w b "[]" 0] l by simp
  moreover from this have "store_ok (keys (filter (\<lambda>e. \<not> P e) (eq_list q1))) (fold row_remove (filter P (eq_list q1)) q1)" for P
    using row_removes_ok keys_partition [of P "eq_list q1"] by (simp add: queue_ok_def)
  from this [of "\<lambda>e. qe_qid e > 0 \<and> qe_qid e \<notin> set known" for known]
  have "store_ok (keys (filter (\<lambda>e. 0 < qe_qid e \<longrightarrow> qe_qid e \<in> set known) (eq_list q1)))
    (fold row_remove (filter (\<lambda>e. 0 < qe_qid e \<and> qe_qid e \<notin> set known) (eq_list q1)) q1)" for known by simp
  ultimately show ?thesis using l by (auto simp: queueFromConnQids_def Let_def split: outcome.split)
qed

lemma set_rep_ok [simp]: "keys (snd (set_rep_n vs es)) = keys es" "keys (snd (set_rep_sep ss es)) = keys es"
proof -
  show "keys (snd (set_rep_n vs es)) = keys es"
    by (induction vs es rule: set_rep_n.induct) (simp_all add: split_beta Let_def entry_key_def)
  show "keys (snd (set_rep_sep ss es)) = keys es"
    by (induction ss es rule: set_rep_sep.induct) (simp_all add: split_beta Let_def entry_key_def)
qed

lemma rep_changed_ok: "queue_ok q \<Longrightarrow> queue_ok (repN_changed vs q)" "queue_ok q \<Longrightarrow> queue_ok (repSeparation_changed ss q)"
  by (simp_all add: queue_ok_def repN_changed_def repSeparation_changed_def split_beta Let_def)

section \<open>Runs\<close>

text \<open>What happens to a queue: commands of the selector, the selection itself, observations that start, changes of settings.\<close>

datatype queue_op =
    QFront int qtime qtime
  | QAdd int qtime qtime int int qtime int bool
  | QRemove int
  | QMove int int
  | QTimes int qtime qtime
  | QClear
  | QConn int bool bool qtime bool string
  | QQids string
  | QBefore int
  | QFilter int qtime bool
  | QSort int
  | QSelect int qtime qtime bool
  | QStart nat
  | QRepN "int list"
  | QRepSep "qtime list"
  | QCurrent "nat option"
  | QSettings int bool bool bool bool bool bool qtime

definition with_target :: "sky \<Rightarrow> int \<Rightarrow> (nat \<Rightarrow> exec_queue \<Rightarrow> exec_queue) \<Rightarrow> exec_queue \<Rightarrow> exec_queue" where
  "with_target w i f q = (case createTarget w i q of (None, q1) \<Rightarrow> q1 | (Some p, q1) \<Rightarrow> f p q1)"

definition start_entry :: "nat \<Rightarrow> exec_queue \<Rightarrow> exec_queue" where
  "start_entry n q = (if n < length (eq_list q) then startObservation (qt_target (eq_list q ! n)) q else q)"

fun queue_step :: "sky \<Rightarrow> queue_op \<Rightarrow> exec_queue \<Rightarrow> exec_queue" where
  "queue_step w (QFront i ts te) q = with_target w i (\<lambda>p q1. snd (addFront p ts te q1)) q"
| "queue_step w (QAdd i ts te n rep sep plan hard) q = with_target w i (\<lambda>p q1. snd (addTarget p ts te n rep sep plan hard q1)) q"
| "queue_step w (QRemove i) q = snd (removeIndex i q)"
| "queue_step w (QMove i j) q = snd (moveIndex i j q)"
| "queue_step w (QTimes i ts te) q = snd (updateIndexTimes i ts te q)"
| "queue_step w QClear q = clearNext q"
| "queue_step w (QConn i wt first n reps b) q = snd (queueFromConn w i wt first n reps b q)"
| "queue_step w (QQids b) q = snd (queueFromConnQids w b q)"
| "queue_step w (QBefore now) q = snd (beforeChange w now q)"
| "queue_step w (QFilter now len r) q = snd (snd (filter_queue w now len r q))"
| "queue_step w (QSort now) q = updateVals (sortQueue w now q)"
| "queue_step w (QSelect now nt len r) q = snd (selectNextObservation w now nt len r q)"
| "queue_step w (QStart n) q = start_entry n q"
| "queue_step w (QRepN vs) q = repN_changed vs q"
| "queue_step w (QRepSep vs) q = repSeparation_changed vs q"
| "queue_step w (QCurrent c) q = q\<lparr>eq_current := c\<rparr>"
| "queue_step w (QSettings t sk te re bl ch en wi) q = q\<lparr>eq_type := t, eq_skip := sk, eq_test := te, eq_remove := re, eq_block := bl,
     eq_check := ch, eq_enabled := en, eq_window := wi\<rparr>"

lemma with_target_ok:
  assumes "queue_ok q" "\<And>p r. queue_ok r \<Longrightarrow> unused p (keys (eq_list r)) r \<Longrightarrow> queue_ok (f p r)"
  shows "queue_ok (with_target w i f q)"
  using create_queue_ok [OF assms(1), of w i] assms(2)
  by (cases "createTarget w i q") (auto simp: with_target_def split: option.split)

lemma start_ok: "queue_ok q \<Longrightarrow> queue_ok (start_entry n q)"
proof -
  assume q: "queue_ok q"
  have "qt_target (eq_list q ! n) \<in> dom (eq_objs q)" if "n < length (eq_list q)"
    using q nth_mem [OF that] by (auto simp: queue_ok_def store_ok_def keys_def entry_key_def)
  then show ?thesis using q by (auto simp: start_entry_def startObservation_def queue_ok_def store_ok_def)
qed

lemma step_ok: "queue_ok q \<Longrightarrow> queue_ok (queue_step w op q)"
proof (cases op)
  case (QConn i wt first n reps b)
  then show "queue_ok q \<Longrightarrow> ?thesis" by (auto simp: queueFromConn_def Let_def queue_loop_ok split: prod.split)
qed (simp_all add: with_target_ok addTarget_ok removeIndex_ok moveIndex_ok updateIndexTimes_ok clearNext_ok qids_ok beforeChange_ok
    filter_ok select_ok start_ok rep_changed_ok,
    simp_all add: queue_ok_def store_ok_def)

lemma queue_run_ok: "queue_ok q \<Longrightarrow> queue_ok (fold (queue_step w) ops q)"
  by (induction ops arbitrary: q) (simp_all add: step_ok)

text \<open>What the invariant says of the list and the table.\<close>

lemma distinct_count:
  assumes "\<And>i. count (mset xs) i \<le> 1"
  shows "distinct xs"
proof -
  have "count (mset xs) a = (if a \<in> set xs then 1 else 0)" for a
    using assms [of a] count_mset_0_iff [of xs a] by (auto simp: le_Suc_eq)
  then show ?thesis by (simp add: distinct_count_atmost_1)
qed

lemma queue_ok_distinct:
  assumes "queue_ok q"
  shows "distinct (map qe_qid (eq_list q))" "mset (map qe_qid (eq_db q)) = mset (map qe_qid (eq_list q))"
    "distinct (map qt_target (eq_list q))" "\<forall>e\<in>set (eq_list q). qt_target e \<in> dom (eq_objs q) \<and> qe_queue e = eq_id q \<and> 0 < qe_qid e"
proof -
  have a: "image_mset fst (keys (eq_list q)) = mset (map qe_qid (eq_list q))"
    "image_mset (snd \<circ> snd) (keys (eq_list q)) = mset (map qt_target (eq_list q))"
    by (simp_all add: keys_def entry_key_def o_def image_mset.compositionality)
  have "count (mset (map qe_qid (eq_list q))) i \<le> 1" "count (mset (map qt_target (eq_list q))) p \<le> 1" for i p
    using assms unfolding queue_ok_def store_ok_def a by blast+
  then show "distinct (map qe_qid (eq_list q))" "distinct (map qt_target (eq_list q))"
    by (simp_all add: distinct_count)
  show "mset (map qe_qid (eq_db q)) = mset (map qe_qid (eq_list q))"
    using assms unfolding queue_ok_def store_ok_def row_ids_def a by blast
  show "\<forall>e\<in>set (eq_list q). qt_target e \<in> dom (eq_objs q) \<and> qe_queue e = eq_id q \<and> 0 < qe_qid e"
    using assms by (auto simp: queue_ok_def store_ok_def keys_def entry_key_def)
qed

end
