(* ===== verification/Rts2_Selector.thy ===== *)
theory Rts2_Selector
  imports Rts2_QueueStore
begin

text \<open>
  The selector (\<open>SelectorDev\<close>, \<open>src/plan/selectordev.cpp\<close>): it keeps the queues, picks the next target
  from them or from the automatic selection, sends it to the executor and follows what the executor
  reports.

  Parameters are the sky of the queues, the automatic selection with its bonus (\<open>rts2plan::Selector\<close>,
  which works on the data base and floating point merits), the plans of the data base and the
  evening that the central server announces. Each queue draws its ids from a sequence of its own.
  Times are microseconds. The simulation, options, flats and the values of the night are left out.
\<close>

section \<open>State\<close>

record selector = device +
  sd_queues :: "exec_queue list"
  sd_names :: "string list"
  sd_next_id :: int
  sd_next_qid :: int
  sd_next_plan :: int
  sd_next_started :: bool
  sd_selectUntil :: qtime
  sd_queueSelectUntil :: qtime
  sd_nextTime :: int
  sd_interrupt :: bool
  sd_idle_select :: int
  sd_night_idle :: int
  sd_selEnabled :: bool
  sd_queueOnly :: bool
  sd_lastQueue :: nat
  sd_cur_target :: int
  sd_cur_qid :: int
  sd_cur_plan :: int
  sd_cur_start :: qtime
  sd_cur_end :: qtime
  sd_cur_queue :: nat
  sd_cur_obs :: int
  sd_ignoreDay :: bool
  sd_last_auto :: int

text \<open>
  \<open>se_auto\<close> is None when the automatic selection throws; \<open>se_junk\<close> is what the variable \<open>hard\<close> of
  \<open>selectNext\<close>, which is not initialized, happens to hold; a plan is its target, start, end and id.
\<close>

record sel_env =
  se_sky :: sky
  se_auto :: "rts2_status \<Rightarrow> qtime \<Rightarrow> bool \<Rightarrow> int option"
  se_bonus :: "int \<Rightarrow> int"
  se_junk :: bool
  se_plans :: "int \<Rightarrow> int \<Rightarrow> (int \<times> int \<times> int \<times> int) list"
  se_plan :: "int \<Rightarrow> (int \<times> int \<times> int \<times> int) option"
  se_evening :: "int option"
  se_dawn :: "int option"

type_synonym 'a sel_op = "'a selector_scheme \<Rightarrow> 'a selector_scheme"

section \<open>The next target\<close>

text \<open>
  The loop over the queues, the first of which has number \<open>n\<close>: what was picked (the number of the
  queue, target, plan, id, hard), the queues, and the value of \<open>queueSelectUntil\<close>.
\<close>

fun select_queues ::
  "sel_env \<Rightarrow> int \<Rightarrow> nat \<Rightarrow> exec_queue list \<Rightarrow> qtime \<Rightarrow> qtime \<Rightarrow> qtime \<Rightarrow> bool
    \<Rightarrow> (nat \<times> int \<times> int \<times> int \<times> bool option) option outcome \<times> exec_queue list \<times> qtime"
where
  "select_queues env now n [] nt len qsu rm = (Ret None, [], qsu)"
| "select_queues env now n (q # qs) nt len qsu rm =
     (let rest = (\<lambda>nt1 q1.
          (let rm1 = (rm \<and> nt1 = None);
               len1 = (case (nt1, len) of (Some t, Some l) \<Rightarrow> if t > now \<and> l > t - now then Some (t - now) else len | _ \<Rightarrow> len);
               (r, qs1, qsu1) = select_queues env now (n + 1) qs nt1 len1 nt1 rm1
           in (r, q1 # qs1, qsu1)))
      in case selectNextObservation (se_sky env) now nt len rm q of
           (Ret (NoTarget, nt1), q1) \<Rightarrow> rest nt1 q1
         | (Ret (Selected i plan qid hard, nt1), q1) \<Rightarrow>
             if i \<ge> 0 then (Ret (Some (n, i, plan, qid, hard)), q1 # qs, qsu) else rest nt1 q1
         | (Threw, q1) \<Rightarrow> (Threw, q1 # qs, qsu)
         | (Undef, q1) \<Rightarrow> (Undef, q1 # qs, qsu))"

definition may_observe :: "'a selector_scheme \<Rightarrow> bool" where
  "may_observe d \<longleftrightarrow> getMasterState d = SERVERD_NIGHT \<or> sd_ignoreDay d"

text \<open>The fall-back: the target of the automatic selection.\<close>

definition auto_target :: "int \<Rightarrow> 'a selector_scheme \<Rightarrow> int \<times> 'a selector_scheme" where
  "auto_target auto d =
     (if \<not> sd_queueOnly d \<or> getMasterState d \<noteq> SERVERD_NIGHT then
        (auto, (if auto \<noteq> sd_last_auto d then d\<lparr>sd_last_auto := auto, sd_interrupt := False\<rparr> else d)
                 \<lparr>sd_next_qid := -1, sd_next_plan := -1\<rparr>)
      else (-1, d))"

definition queue_picked :: "bool \<Rightarrow> nat \<times> int \<times> int \<times> int \<times> bool option \<Rightarrow> 'a selector_scheme \<Rightarrow> int \<times> 'a selector_scheme" where
  "queue_picked junk p d =
     (case p of (n, i, plan, qid, hard) \<Rightarrow>
        (i, d\<lparr>sd_lastQueue := n, sd_next_started := sd_next_started d \<and> sd_next_id d = i \<and> sd_next_qid d = qid,
              sd_next_qid := qid, sd_next_plan := plan, sd_interrupt := (case hard of Some h \<Rightarrow> h | None \<Rightarrow> junk)\<rparr>))"

definition selectNext :: "sel_env \<Rightarrow> int \<Rightarrow> 'a selector_scheme \<Rightarrow> int \<times> 'a selector_scheme" where
  "selectNext env now d =
     (let len = map_option (\<lambda>s. s - now) (sd_selectUntil d) in
      case se_auto env (getMasterState d) len (sd_ignoreDay d) of
        None \<Rightarrow> (-1, d)
      | Some auto \<Rightarrow>
          let bonus = (if auto \<ge> 0 then se_bonus env auto else -1); d1 = d\<lparr>sd_queueSelectUntil := None\<rparr> in
          if may_observe d \<and> sd_queues d \<noteq> [] \<and> (auto < 0 \<or> bonus < 1000 \<or> sd_queueOnly d) then
            (case select_queues env now 1 (sd_queues d) None len None True of
               (r, qs, qsu) \<Rightarrow>
                 let d2 = d1\<lparr>sd_queues := qs, sd_queueSelectUntil := qsu\<rparr> in
                 case r of
                   Ret (Some p) \<Rightarrow> queue_picked (se_junk env) p d2
                 | Ret None \<Rightarrow> auto_target auto (d2\<lparr>sd_lastQueue := 0\<rparr>)
                 | Threw \<Rightarrow> (-1, d2)
                 | Undef \<Rightarrow> (-1, d2\<lparr>d_crashed := True\<rparr>))
          else auto_target auto d1)"

section \<open>The executor\<close>

definition executor_conn :: "'a selector_scheme \<Rightarrow> connection option" where
  "executor_conn d = find (\<lambda>c. cn_other_type c = DEVICE_TYPE_EXECUTOR) (bl_connections d)"

definition CommandExec :: "string \<Rightarrow> int \<Rightarrow> command" where
  "CommandExec w i = new_Command (w @ CHR '' '' # show_int i)"

definition send_command :: "nat \<Rightarrow> command \<Rightarrow> 'a selector_scheme \<Rightarrow> 'a selector_scheme" where
  "send_command i c d = on_conn i (\<lambda>cn. snd (queCommand c cn)) d"

definition next_command :: "'a selector_scheme \<Rightarrow> command" where
  "next_command d =
     (if sd_next_plan d > 0 then CommandExec ''next_plan'' (sd_next_plan d) else CommandExec ''next'' (sd_next_id d))"

definition send_next :: "'a selector_scheme \<Rightarrow> 'a selector_scheme" where
  "send_next d =
     (case executor_conn d of
        None \<Rightarrow> d
      | Some c \<Rightarrow>
          if \<not> sd_selEnabled d then d
          else if sd_interrupt d then (send_command (cn_id c) (CommandExec ''now'' (sd_next_id d)) d)\<lparr>sd_interrupt := False\<rparr>
          else send_command (cn_id c) (next_command d) d)"

text \<open>The observation of \<open>tar\<close> has started: the queue the target came from is told.\<close>

definition observation_started :: "sel_env \<Rightarrow> int \<Rightarrow> int \<Rightarrow> int \<Rightarrow> 'a selector_scheme \<Rightarrow> 'a selector_scheme" where
  "observation_started env now tar obs d =
     (let d1 = d\<lparr>sd_interrupt := False\<rparr>; n = sd_lastQueue d - 1; q = sd_queues d ! n;
          lost = d1\<lparr>sd_cur_target := tar, sd_cur_obs := obs, sd_cur_qid := -1, sd_cur_plan := -1, sd_cur_start := None,
                    sd_cur_end := None, sd_cur_queue := 0\<rparr>
      in if sd_lastQueue d = 0 then lost
         else
           case eq_list q of
             [] \<Rightarrow> lost
           | e # es \<Rightarrow>
               if tid q e \<noteq> tar then lost
               else
                 (case beforeChange (se_sky env) now (startObservation (qt_target e) q) of
                    (r, q1) \<Rightarrow>
                      let d2 = d1\<lparr>sd_cur_qid := qe_qid e, sd_cur_plan := qe_plan e, sd_cur_start := qe_start e, sd_cur_end := qe_end e,
                                  sd_next_started := True, sd_queues := (sd_queues d)[n := q1]\<rparr>
                      in if r = Ret () then d2\<lparr>sd_cur_target := tar, sd_cur_obs := obs, sd_cur_queue := sd_lastQueue d\<rparr>
                         else d2\<lparr>d_crashed := True\<rparr>))"

definition next_selected :: "sel_env \<Rightarrow> int \<Rightarrow> 'a selector_scheme \<Rightarrow> int \<times> 'a selector_scheme" where
  "next_selected env now d =
     (let (nid, d1) = selectNext env now d; d2 = d1\<lparr>sd_next_id := nid, sd_nextTime := now\<rparr>
      in if nid > 0 then (0, send_next d2) else (-1, d2))"

definition updateNext :: "sel_env \<Rightarrow> int \<Rightarrow> (int \<times> int) option \<Rightarrow> 'a selector_scheme \<Rightarrow> int \<times> 'a selector_scheme" where
  "updateNext env now obs d =
     (case obs of
        None \<Rightarrow> next_selected env now d
      | Some (tar, o_id) \<Rightarrow>
          let d1 = observation_started env now tar o_id d
          in if d_crashed d1 \<and> \<not> d_crashed d then (-1, d1) else next_selected env now d1)"

text \<open>A new connection to an executor gets the target that is next.\<close>

definition executor_connected :: "sel_env \<Rightarrow> int \<Rightarrow> nat \<Rightarrow> 'a selector_scheme \<Rightarrow> 'a selector_scheme" where
  "executor_connected env now conn d =
     (let d1 = snd (updateNext env now None d) in
      if sd_selEnabled d1 \<and> (sd_next_plan d1 > 0 \<or> sd_next_id d1 > 0) then send_command conn (next_command d1) d1 else d1)"

section \<open>Messages of the executor\<close>

text \<open>\<open>Message::getMessageArg\<close>: the \<open>n\<close>-th word of a message, counted from one.\<close>

fun skip_words :: "nat \<Rightarrow> string \<Rightarrow> string option" where
  "skip_words 0 s = Some s"
| "skip_words (Suc n) s =
     (case dropWhile (\<lambda>c. c \<noteq> CHR '' '') s of [] \<Rightarrow> None | t \<Rightarrow> skip_words n (dropWhile (\<lambda>c. c = CHR '' '') t))"

definition getMessageArg :: "nat \<Rightarrow> string \<Rightarrow> string" where
  "getMessageArg n s =
     (case skip_words (n - 1) s of
        None \<Rightarrow> ''''
      | Some t \<Rightarrow> (case t of [] \<Rightarrow> [] | c # cs \<Rightarrow> c # takeWhile (\<lambda>x. x \<noteq> CHR '' '') cs))"

definition getMessageArgInt :: "nat \<Rightarrow> string \<Rightarrow> int" where
  "getMessageArgInt n s = to_int32 (fst (strtol (getMessageArg n s)))"

definition INFO_OBSERVATION_SLEW :: int where "INFO_OBSERVATION_SLEW = 0x500"
definition INFO_OBSERVATION_INTERRUPTED :: int where "INFO_OBSERVATION_INTERRUPTED = 0x800"
definition INFO_OBSERVATION_LOOP :: int where "INFO_OBSERVATION_LOOP = 0x900"

lemmas message_ids = INFO_OBSERVATION_SLEW_def INFO_OBSERVATION_INTERRUPTED_def INFO_OBSERVATION_LOOP_def

text \<open>\<open>createTarget\<close> outside of a handler: the exception ends the daemon.\<close>

definition new_on_queue :: "sel_env \<Rightarrow> nat \<Rightarrow> int \<Rightarrow> (nat \<Rightarrow> exec_queue \<Rightarrow> exec_queue) \<Rightarrow> 'a selector_scheme \<Rightarrow> 'a selector_scheme" where
  "new_on_queue env n i f d =
     (case createTarget (se_sky env) i (sd_queues d ! n) of
        (None, q1) \<Rightarrow> d\<lparr>d_crashed := True\<rparr>
      | (Some p, q1) \<Rightarrow> d\<lparr>sd_queues := (sd_queues d)[n := f p q1]\<rparr>)"

definition requeue_interrupted :: "sel_env \<Rightarrow> 'a selector_scheme \<Rightarrow> 'a selector_scheme" where
  "requeue_interrupted env d =
     (let n = sd_cur_queue d - 1; q = sd_queues d ! n in
      if \<not> (sd_cur_start d = None \<and> sd_cur_end d = None) \<and> (case eq_list q of e # _ \<Rightarrow> tid q e = sd_cur_target d | [] \<Rightarrow> False) then d
      else new_on_queue env n (sd_cur_target d) (\<lambda>p q1. snd (addFront p (sd_cur_start d) (sd_cur_end d) q1)) d)"

definition sel_message :: "sel_env \<Rightarrow> int \<Rightarrow> int \<Rightarrow> string \<Rightarrow> 'a selector_scheme \<Rightarrow> 'a selector_scheme" where
  "sel_message env now mid s d =
     (if mid = INFO_OBSERVATION_SLEW \<or> mid = INFO_OBSERVATION_LOOP then
        snd (updateNext env now (Some (getMessageArgInt 2 s, getMessageArgInt 1 s)) d)
      else if mid = INFO_OBSERVATION_INTERRUPTED \<and> sd_cur_queue d > 0 \<and> sd_cur_target d = getMessageArgInt 1 s
      then requeue_interrupted env d
      else d)"

section \<open>Commands\<close>

fun queue_number :: "string \<Rightarrow> string list \<Rightarrow> exec_queue list \<Rightarrow> nat" where
  "queue_number n (m # ms) (q # qs) = (if m = n then 0 else queue_number n ms qs + 1)"
| "queue_number n _ qs = 0"

definition findQueue :: "string \<Rightarrow> 'a selector_scheme \<Rightarrow> nat option" where
  "findQueue n d = (let k = queue_number n (sd_names d) (sd_queues d) in if k < length (sd_queues d) then Some k else None)"

text \<open>After a change of a queue by hand: at night the change counts like a started observation.\<close>

definition afterQueueChange :: "sel_env \<Rightarrow> int \<Rightarrow> nat \<Rightarrow> 'a selector_scheme \<Rightarrow> int \<times> 'a selector_scheme" where
  "afterQueueChange env now n d =
     (if may_observe d then
        (case beforeChange (se_sky env) now (sd_queues d ! n) of
           (Ret _, q1) \<Rightarrow> (0, snd (updateNext env now None (d\<lparr>sd_queues := (sd_queues d)[n := q1]\<rparr>)))
         | (_, q1) \<Rightarrow> (-2, d\<lparr>sd_queues := (sd_queues d)[n := q1]\<rparr>))
      else
        let t = (case se_evening env of Some e \<Rightarrow> timet e | None \<Rightarrow> timet now)
        in (0, d\<lparr>sd_queues := (sd_queues d)[n := updateVals (sortQueue (se_sky env) t (sd_queues d ! n))]\<rparr>))"

text \<open>An operation of a queue that returns a number, followed by \<open>afterQueueChange\<close> when it is 0.\<close>

definition change_queue ::
  "sel_env \<Rightarrow> int \<Rightarrow> nat \<Rightarrow> int outcome \<times> exec_queue \<Rightarrow> 'a selector_scheme \<Rightarrow> int \<times> 'a selector_scheme"
where
  "change_queue env now n r d =
     (let d1 = d\<lparr>sd_queues := (sd_queues d)[n := snd r]\<rparr> in
      case fst r of
        Ret c \<Rightarrow> if c = 0 then afterQueueChange env now n d1 else (-2, d1)
      | Threw \<Rightarrow> (-2, d1)
      | Undef \<Rightarrow> (-2, d1\<lparr>d_crashed := True\<rparr>))"

definition returned :: "int \<times> exec_queue \<Rightarrow> int outcome \<times> exec_queue" where
  "returned r = (Ret (fst r), snd r)"

text \<open>The id of the plan goes where the index is expected.\<close>

fun queue_plans :: "sel_env \<Rightarrow> (int \<times> int \<times> int \<times> int) list \<Rightarrow> exec_queue \<Rightarrow> exec_queue outcome" where
  "queue_plans env [] q = Ret q"
| "queue_plans env ((t, s, e, plan) # ps) q =
     (case createTarget (se_sky env) t q of
        (None, q1) \<Rightarrow> Threw
      | (Some p, q1) \<Rightarrow> queue_plans env ps (snd (addTarget p (Some s) (Some e) plan (-1) None (-1) False q1)))"

definition queuePlan :: "sel_env \<Rightarrow> int \<Rightarrow> int \<Rightarrow> nat \<Rightarrow> 'a selector_scheme \<Rightarrow> 'a selector_scheme" where
  "queuePlan env now t n d =
     (let q = (clearNext (sd_queues d ! n))\<lparr>eq_skip := True\<rparr> in
      case queue_plans env (se_plans env now (now + t)) q of
        Ret q1 \<Rightarrow> d\<lparr>sd_queues := (sd_queues d)[n := q1]\<rparr>
      | _ \<Rightarrow> d\<lparr>sd_queues := (sd_queues d)[n := q], d_crashed := True\<rparr>)"

text \<open>The id of the plan goes where the number of repetitions is expected.\<close>

definition queuePlanId :: "sel_env \<Rightarrow> int \<Rightarrow> nat \<Rightarrow> 'a selector_scheme \<Rightarrow> int \<times> 'a selector_scheme" where
  "queuePlanId env i n d =
     (case se_plan env i of
        None \<Rightarrow> (-2, d)
      | Some (t, s, e, plan) \<Rightarrow>
          (case createTarget (se_sky env) t (sd_queues d ! n) of
             (None, q1) \<Rightarrow> (-2, d)
           | (Some p, q1) \<Rightarrow>
               (0, d\<lparr>sd_queues := (sd_queues d)[n := snd (addTarget p (Some s) (Some e) (-1) plan None (-1) False q1)]\<rparr>)))"

definition queue_commands :: "string list" where
  "queue_commands = [''queue'', ''queue_at'', ''clear'', ''queue_plan'', ''queue_plan_id'', ''insert'', ''queue_nrep'', ''queue_at_nrep'']"

definition queue_from_conn :: "sel_env \<Rightarrow> int \<Rightarrow> string \<Rightarrow> int \<Rightarrow> string \<Rightarrow> nat \<Rightarrow> 'a selector_scheme \<Rightarrow> int \<times> 'a selector_scheme" where
  "queue_from_conn env now w i b n d =
     change_queue env now n
       (queueFromConn (se_sky env) i (w = ''queue_at'' \<or> w = ''queue_at_nrep'') False None (w = ''queue_nrep'' \<or> w = ''queue_at_nrep'')
          b (sd_queues d ! n)) d"

definition queue_cmd :: "sel_env \<Rightarrow> int \<Rightarrow> string \<Rightarrow> nat \<Rightarrow> string \<Rightarrow> 'a selector_scheme \<Rightarrow> int \<times> 'a selector_scheme" where
  "queue_cmd env now w n b d =
     (if w = ''clear'' then
        (if fst (paramEnd b) then (0, d\<lparr>sd_queues := (sd_queues d)[n := clearNext (sd_queues d ! n)]\<rparr>) else (-2, d))
      else if w = ''queue_plan'' then
        (case paramNextWith (sk_double (se_sky env)) b of
           (Some (Some t), r) \<Rightarrow>
             if fst (paramEnd r) then (0, snd (updateNext env now None (queuePlan env now t n d))) else (-2, d)
         | _ \<Rightarrow> (-2, d))
      else if w = ''queue_plan_id'' then
        (case paramNextInteger b of
           (None, r) \<Rightarrow> (-2, d)
         | (Some i, r) \<Rightarrow>
             if \<not> fst (paramEnd r) then (-2, d)
             else (let (ret, d1) = queuePlanId env i n d in if ret = 0 then (0, snd (updateNext env now None d1)) else (ret, d1)))
      else if w = ''insert'' then
        (case paramNextInteger b of (None, r) \<Rightarrow> (-2, d) | (Some i, r) \<Rightarrow> queue_from_conn env now w i r n d)
      else queue_from_conn env now w (-1) b n d)"

text \<open>\<open>now\<close> and \<open>now_once\<close>: after the filter the first entry is read, also when the queue is empty.\<close>

definition now_cmd :: "sel_env \<Rightarrow> int \<Rightarrow> bool \<Rightarrow> nat \<Rightarrow> int \<Rightarrow> 'a selector_scheme \<Rightarrow> int \<times> 'a selector_scheme" where
  "now_cmd env now once n i d =
     (let q = sd_queues d ! n in
      if once \<and> (\<exists>e\<in>set (eq_list q). tid q e = i) then (-2, d)
      else
        case createTarget (se_sky env) i q of
          (None, q1) \<Rightarrow> (-2, d\<lparr>d_crashed := True\<rparr>)
        | (Some p, q1) \<Rightarrow>
            (let q2 = snd (snd (filter_queue (se_sky env) now None True (snd (addFront p None None q1))));
                 d1 = d\<lparr>sd_queues := (sd_queues d)[n := q2]\<rparr>
             in case eq_list q2 of
                  [] \<Rightarrow> (0, d1\<lparr>d_crashed := True\<rparr>)
                | e # es \<Rightarrow>
                    if qt_target e = p
                    then (0, (if may_observe d1 then snd (updateNext env now None d1) else d1)\<lparr>sd_interrupt := True\<rparr>)
                    else (0, d1)))"

text \<open>
  \<open>commandAuthorized\<close> without \<open>simulate\<close> and \<open>simulate_night\<close>. \<open>named\<close> reads the name of a queue first;
  a plan until NaN is left out.
\<close>

definition sel_commandAuthorized ::
  "sel_env \<Rightarrow> (nat \<Rightarrow> string \<Rightarrow> string \<Rightarrow> 'a selector_scheme \<Rightarrow> int \<times> 'a selector_scheme)
    \<Rightarrow> int \<Rightarrow> nat \<Rightarrow> string \<Rightarrow> string \<Rightarrow> 'a selector_scheme \<Rightarrow> int \<times> 'a selector_scheme"
where
  "sel_commandAuthorized env device_cmd now conn w b d =
     (let bad = (-2, d);
          done = (\<lambda>r. (if fst r = 0 then 0 else -2, snd r));
          named = (\<lambda>f. case paramNextString [] b of (None, r) \<Rightarrow> bad | (Some s, r) \<Rightarrow> f s r);
          found = (\<lambda>s f. case findQueue s d of None \<Rightarrow> bad | Some n \<Rightarrow> f n (sd_queues d ! n));
          number = (\<lambda>r f. case paramNextInteger r of (None, r1) \<Rightarrow> bad | (Some i, r1) \<Rightarrow> f i r1);
          time = (\<lambda>r f. case paramNextWith (sk_time (se_sky env)) r of (None, r1) \<Rightarrow> bad | (Some t, r1) \<Rightarrow> f t r1);
          last = (\<lambda>r x. if fst (paramEnd r) then x else bad)
      in if w = ''next'' then last b (done (updateNext env now None d))
         else if w = ''observation'' then
           number b (\<lambda>t r. number r (\<lambda>obs r1. last r1 (done (updateNext env now (Some (t, obs)) d))))
         else if w \<in> set queue_commands then named (\<lambda>s r. found s (\<lambda>n q. queue_cmd env now w n r d))
         else if w = ''queue_qids'' then
           named (\<lambda>s r. found s (\<lambda>n q. change_queue env now n (queueFromConnQids (se_sky env) r q) d))
         else if w = ''remove'' then
           named (\<lambda>s r. number r (\<lambda>i r1. last r1 (found s (\<lambda>n q. change_queue env now n (returned (removeIndex i q)) d))))
         else if w = ''move'' then
           named (\<lambda>s r. number r (\<lambda>i r1. number r1 (\<lambda>j r2. last r2
             (found s (\<lambda>n q. change_queue env now n (returned (moveIndex i j q)) d)))))
         else if w = ''update_times'' then
           named (\<lambda>s r. number r (\<lambda>i r1. time r1 (\<lambda>ts r2. time r2 (\<lambda>te r3.
             found s (\<lambda>n q. change_queue env now n (returned (updateIndexTimes i ts te q)) d)))))
         else if w = ''now'' \<or> w = ''now_once'' then
           named (\<lambda>s r. number r (\<lambda>i r1. last r1 (found s (\<lambda>n q. now_cmd env now (w = ''now_once'') n i d))))
         else device_cmd conn w b d)"

section \<open>Events, values, the state of the central server\<close>

text \<open>A timer of a queue: when the next target changes, it interrupts the current one.\<close>

definition queue_timer :: "sel_env \<Rightarrow> int \<Rightarrow> 'a selector_scheme \<Rightarrow> 'a selector_scheme" where
  "queue_timer env now d =
     (let d1 = snd (updateNext env now None d)
      in if sd_next_id d \<noteq> sd_next_id d1 then d1\<lparr>sd_interrupt := True\<rparr> else d1)"

text \<open>Changes of \<open>selector_enabled\<close> and \<open>queue_only\<close>, of a queue's \<open>enabled\<close>, of its repetitions.\<close>

datatype sel_value = SelEnabled bool | QueueOnly bool | QueueEnabled nat bool | QueueRepN nat "int list" | QueueRepSep nat "qtime list"

definition sel_change :: "sel_env \<Rightarrow> int \<Rightarrow> sel_value \<Rightarrow> 'a selector_scheme \<Rightarrow> 'a selector_scheme" where
  "sel_change env now v d =
     (let upd = (\<lambda>n f. d\<lparr>sd_queues := (sd_queues d)[n := f (sd_queues d ! n)]\<rparr>); next = (\<lambda>d1. snd (updateNext env now None d1)) in
      case v of
        SelEnabled b \<Rightarrow> (let d1 = d\<lparr>sd_selEnabled := b\<rparr> in if b then next d1 else d1)
      | QueueOnly b \<Rightarrow> next (d\<lparr>sd_queueOnly := b\<rparr>)
      | QueueEnabled n b \<Rightarrow> if n < length (sd_queues d) then next (upd n (\<lambda>q. q\<lparr>eq_enabled := b\<rparr>)) else d
      | QueueRepN n vs \<Rightarrow> if n < length (sd_queues d) then upd n (repN_changed vs) else d
      | QueueRepSep n vs \<Rightarrow> if n < length (sd_queues d) then upd n (repSeparation_changed vs) else d)"

definition updateSelectLength :: "sel_env \<Rightarrow> int \<Rightarrow> 'a selector_scheme \<Rightarrow> 'a selector_scheme" where
  "updateSelectLength env now d =
     (if (case sd_selectUntil d of None \<Rightarrow> False | Some t \<Rightarrow> t > now) then d
      else d\<lparr>sd_selectUntil := Some (case se_dawn env of Some t \<Rightarrow> t | None \<Rightarrow> now + 86400 * USEC_SEC)\<rparr>)"

definition sel_changeMasterState :: "sel_env \<Rightarrow> int \<Rightarrow> rts2_status \<Rightarrow> rts2_status \<Rightarrow> 'a selector_scheme \<Rightarrow> 'a selector_scheme" where
  "sel_changeMasterState env now old new d =
     (let power = new AND SERVERD_ONOFF_MASK; period = new AND SERVERD_STATUS_MASK;
          go = (\<lambda>d1. block_masterStateChanged (snd (updateNext env now None (updateSelectLength env now d1))))
      in if power = SERVERD_SOFT_OFF \<or> power = SERVERD_HARD_OFF then block_masterStateChanged d
         else if period = SERVERD_DUSK \<or> period = SERVERD_DAWN then go (d\<lparr>sd_idle_select := 30\<rparr>)
         else if period = SERVERD_NIGHT then go (d\<lparr>sd_idle_select := sd_night_idle d\<rparr>)
         else block_masterStateChanged d)"

section \<open>Runs\<close>

datatype sel_event =
    SelCommand int nat string string
  | SelMessage int int string
  | SelTimer int
  | SelQueueTimer int
  | SelExecutor int nat
  | SelValue int sel_value
  | SelMaster int rts2_status rts2_status

fun sel_step ::
  "sel_env \<Rightarrow> (nat \<Rightarrow> string \<Rightarrow> string \<Rightarrow> 'a selector_scheme \<Rightarrow> int \<times> 'a selector_scheme) \<Rightarrow> sel_event \<Rightarrow> 'a selector_scheme \<Rightarrow> 'a selector_scheme"
where
  "sel_step env dc (SelCommand now conn w b) d = snd (sel_commandAuthorized env dc now conn w b d)"
| "sel_step env dc (SelMessage now mid s) d = sel_message env now mid s d"
| "sel_step env dc (SelTimer now) d = snd (updateNext env now None d)"
| "sel_step env dc (SelQueueTimer now) d = queue_timer env now d"
| "sel_step env dc (SelExecutor now conn) d = executor_connected env now conn d"
| "sel_step env dc (SelValue now v) d = sel_change env now v d"
| "sel_step env dc (SelMaster now old new) d = sel_changeMasterState env now old new d"

end
