(* ===== verification/Rts2_Executor.thy ===== *)
theory Rts2_Executor
  imports Rts2_Selector
begin

text \<open>
  The executor (\<open>src/plan/executor.cpp\<close>): it holds the current target and a queue with the next ones,
  switches between them when the scripts of the devices end, and follows commands, events of the
  devices and the state of the central server. With it the part of a target (\<open>rts2db::Target\<close>,
  \<open>lib/rts2db/target.ec\<close>) that keeps the record of its observation.

  Targets live in the store of the queue. A call ends with a value or with a fault: an exception,
  undefined behaviour (a null or dangling pointer), or no end within the allowed depth of nested
  events. The clients of the devices answer an event by posting events back before the call returns;
  what they post is a function of everything that was delivered to them so far. Positions, images,
  names and times of targets, \<open>write_headers\<close> and \<open>correction_info\<close> are left out.
\<close>

section \<open>Calls\<close>

datatype fault = Exception | NullPointer | DanglingPointer | StalePointer | Endless

type_synonym ('s, 'r) run = "'s \<Rightarrow> (fault + 'r) \<times> 's"

definition give :: "'r \<Rightarrow> ('s, 'r) run" where "give x s = (Inr x, s)"
definition fails :: "fault \<Rightarrow> ('s, 'r) run" where "fails e s = (Inl e, s)"
definition act :: "('s \<Rightarrow> 's) \<Rightarrow> ('s, unit) run" where "act f s = (Inr (), f s)"
definition look :: "('s \<Rightarrow> ('s, 'r) run) \<Rightarrow> ('s, 'r) run" where "look f s = f s s"

definition bindx :: "('s, 'a) run \<Rightarrow> ('a \<Rightarrow> ('s, 'b) run) \<Rightarrow> ('s, 'b) run" where
  "bindx m f s = (case m s of (Inl e, t) \<Rightarrow> (Inl e, t) | (Inr x, t) \<Rightarrow> f x t)"

definition andthen :: "('s, 'a) run \<Rightarrow> ('s, 'b) run \<Rightarrow> ('s, 'b) run" where
  "andthen m k = bindx m (\<lambda>_. k)"

primrec steps :: "('s, unit) run list \<Rightarrow> ('s, unit) run" where
  "steps [] = give ()"
| "steps (m # ms) = andthen m (steps ms)"

definition whenx :: "bool \<Rightarrow> ('s, unit) run \<Rightarrow> ('s, unit) run" where
  "whenx b m = (if b then m else give ())"

definition catching :: "('s, 'r) run \<Rightarrow> ('s, 'r) run \<Rightarrow> ('s, 'r) run" where
  "catching m h s = (case m s of (Inl Exception, t) \<Rightarrow> h t | r \<Rightarrow> r)"

section \<open>State\<close>

text \<open>
  What a target knows of its observation: the object \<open>Observation\<close> with its id and plan, the id that
  \<open>Rts2Target\<close> keeps for itself, and how the acquisition ended.
\<close>

record obs_info =
  ob_obs :: "(int \<times> int) option"
  ob_base :: int
  ob_acquired :: int

definition no_obs :: obs_info where
  "no_obs = \<lparr>ob_obs = None, ob_base = -1, ob_acquired = 0\<rparr>"

datatype exec_event =
    SetTarget "nat option"
  | SetTargetKill "nat option"
  | SetTargetNotClear "nat option"
  | SetTargetKillNotClear "nat option"
  | SlewToTarget int
  | SlewToTargetNow int
  | NewTarget
  | ChangeTarget
  | Observe
  | ScriptStarted
  | AcquireStart
  | AcquireWait
  | AcqusitionEnd int
  | LastReadout
  | ScriptEnded "nat option"
  | MoveOk
  | CorrectingOk
  | MoveFailed rts2_status
  | StopObservation
  | EnterWait
  | ClearWait
  | KillAll
  | ScriptRunningQuestion
  | OtherEvent int

text \<open>What a client of a device does: \<open>Slews\<close> and \<open>Starts\<close> call \<open>startSlew\<close> and \<open>startObservation\<close> of its target.\<close>

datatype device_reply = Posts exec_event | Slews int nat | Starts nat

text \<open>
  \<open>ex_object\<close> is the target whose name and program the values show, \<open>ex_trace\<close> what was delivered to
  the connections, \<open>ex_acts\<close> counts what the clients did, \<open>ex_log\<close> are the messages about observations with their arguments, \<open>ex_que\<close> the targets
  that were observed (\<open>targetsQue\<close>), \<open>ex_obsSeq\<close> the sequence of the ids of observations.
\<close>

record executor = device +
  ex_queue :: exec_queue
  ex_info :: "nat \<Rightarrow> obs_info"
  ex_obsSeq :: int
  ex_current :: "nat option"
  ex_plan :: int
  ex_enabled :: bool
  ex_selectorNext :: bool
  ex_reported :: bool
  ex_wait :: bool
  ex_scripts :: int
  ex_autoLoop :: bool
  ex_defAutoLoop :: bool
  ex_flatsDone :: bool
  ex_ignoreDay :: bool
  ex_nextNight :: bool
  ex_doDarks :: int
  ex_acqOk :: int
  ex_acqFailed :: int
  ex_currentId :: int
  ex_nextId :: int
  ex_nextPlan :: int
  ex_sepLimit :: int
  ex_minSep :: int
  ex_object :: int
  ex_que :: "nat list"
  ex_trace :: "exec_event list"
  ex_acts :: nat
  ex_log :: "(int \<times> int list) list"

text \<open>
  What the executor asks of others: the sky of its queue, the type of a target, whether it is
  continuous, the target of a plan, the settings and data of gamma ray bursts, the answers of the
  devices to what was delivered to them, and how many of them run a script.
\<close>

record exec_env =
  xe_sky :: sky
  xe_now :: int
  xe_type :: "int \<Rightarrow> char"
  xe_continues :: "int \<Rightarrow> int"
  xe_plan :: "int \<Rightarrow> int option"
  xe_validity :: int
  xe_tarEnabled :: "int \<Rightarrow> bool"
  xe_grbDate :: "int \<Rightarrow> int"
  xe_errorBox :: "int \<Rightarrow> int"
  xe_near :: "int \<Rightarrow> int \<Rightarrow> int \<Rightarrow> bool"
  xe_create :: "network_address \<Rightarrow> connection option"
  xe_reply :: "exec_event list \<Rightarrow> nat \<Rightarrow> device_reply option"
  xe_running :: "exec_event list \<Rightarrow> int"

type_synonym ('a, 'r) ex = "('a executor_scheme, 'r) run"
type_synonym 'a poster = "exec_event \<Rightarrow> ('a, unit) ex"

definition TYPE_DARK :: char where "TYPE_DARK = CHR ''d''"
definition TYPE_FLAT :: char where "TYPE_FLAT = CHR ''f''"
definition TYPE_GRB :: char where "TYPE_GRB = CHR ''G''"
definition TYPE_AUGER :: char where "TYPE_AUGER = CHR ''A''"

lemmas target_types = TYPE_DARK_def TYPE_FLAT_def TYPE_GRB_def TYPE_AUGER_def

definition TARGET_SHOWER :: int where "TARGET_SHOWER = 12"
definition INFO_OBSERVATION_END :: int where "INFO_OBSERVATION_END = 0x700"

definition exec_mask :: "rts2_status \<Rightarrow> rts2_status \<Rightarrow> 'a executor_scheme \<Rightarrow> 'a executor_scheme" where
  "exec_mask m s d = maskState (device_stateChanged daemon_setValue maskQueValueBopState) m s None None None None d"

definition exec_state :: "rts2_status \<Rightarrow> ('a, unit) ex" where
  "exec_state s = act (exec_mask EXEC_STATE_MASK s)"

definition on_queue :: "(exec_queue \<Rightarrow> exec_queue) \<Rightarrow> ('a, unit) ex" where
  "on_queue f = act (\<lambda>d. d\<lparr>ex_queue := f (ex_queue d)\<rparr>)"

definition say :: "int \<Rightarrow> int list \<Rightarrow> ('a, unit) ex" where
  "say m xs = act (\<lambda>d. d\<lparr>ex_log := ex_log d @ [(m, xs)]\<rparr>)"

section \<open>Targets\<close>

text \<open>The object a pointer leads to; a null pointer or a deleted object is undefined behaviour.\<close>

definition target_at :: "nat option \<Rightarrow> (nat \<Rightarrow> target_obj \<Rightarrow> ('a, 'r) ex) \<Rightarrow> ('a, 'r) ex" where
  "target_at x f =
     (case x of
        None \<Rightarrow> fails NullPointer
      | Some p \<Rightarrow> look (\<lambda>d. case eq_objs (ex_queue d) p of None \<Rightarrow> fails DanglingPointer | Some t \<Rightarrow> f p t))"

definition with_current :: "(nat \<Rightarrow> target_obj \<Rightarrow> ('a, 'r) ex) \<Rightarrow> ('a, 'r) ex" where
  "with_current f = look (\<lambda>d. target_at (ex_current d) f)"

text \<open>\<open>currentTarget && P\<close>.\<close>

definition current_is :: "(exec_queue \<Rightarrow> target_obj \<Rightarrow> bool) \<Rightarrow> (bool \<Rightarrow> ('a, 'r) ex) \<Rightarrow> ('a, 'r) ex" where
  "current_is P f = look (\<lambda>d. if ex_current d = None then f False else with_current (\<lambda>p t. f (P (ex_queue d) t)))"

definition new_target :: "exec_env \<Rightarrow> int \<Rightarrow> (nat \<Rightarrow> ('a, 'r) ex) \<Rightarrow> ('a, 'r) ex" where
  "new_target env i f =
     look (\<lambda>d. case createTarget (xe_sky env) i (ex_queue d) of
             (None, q) \<Rightarrow> fails Exception
           | (Some p, q) \<Rightarrow> andthen (act (\<lambda>d. d\<lparr>ex_queue := q, ex_info := (ex_info d)(p := no_obs)\<rparr>)) (f p))"

definition set_info :: "nat \<Rightarrow> (obs_info \<Rightarrow> obs_info) \<Rightarrow> ('a, unit) ex" where
  "set_info p f = act (\<lambda>d. d\<lparr>ex_info := (ex_info d)(p := f (ex_info d p))\<rparr>)"

definition obs_args :: "obs_info \<Rightarrow> int \<Rightarrow> int list" where
  "obs_args ob i = (case ob_obs ob of None \<Rightarrow> [-1, i, -1] | Some (obs, plan) \<Rightarrow> [obs, i, plan])"

definition getObsId :: "obs_info \<Rightarrow> int" where
  "getObsId ob = (case ob_obs ob of None \<Rightarrow> -1 | Some (obs, plan) \<Rightarrow> obs)"

definition set_started :: "nat \<Rightarrow> bool \<Rightarrow> ('a, unit) ex" where
  "set_started p b = on_queue (\<lambda>q. q\<lparr>eq_objs := (eq_objs q)(p \<mapsto> (tobj q p)\<lparr>to_started := b\<rparr>)\<rparr>)"

text \<open>\<open>endObservation\<close>; \<open>Rts2Target::setObsId\<close> does not change the id that \<open>Target::getObsId\<close> returns.\<close>

definition endObservation :: "exec_env \<Rightarrow> int \<Rightarrow> nat \<Rightarrow> target_obj \<Rightarrow> (int \<Rightarrow> ('a, 'r) ex) \<Rightarrow> ('a, 'r) ex" where
  "endObservation env next_id p t f =
     (if xe_continues env (to_id t) = 1 \<and> next_id = to_id t then f 1
      else
        andthen (look (\<lambda>d. whenx (getObsId (ex_info d p) > 0) (set_info p (\<lambda>ob. ob\<lparr>ob_base := -1\<rparr>))))
          (andthen (set_started p False) (f 0)))"

definition INFO_OBSERVATION_STARTED :: int where "INFO_OBSERVATION_STARTED = 0x600"

definition target_startObservation :: "nat \<Rightarrow> target_obj \<Rightarrow> ('a, unit) ex" where
  "target_startObservation p t =
     whenx (\<not> to_started t)
       (steps
          [set_started p True,
           look (\<lambda>d. whenx (getObsId (ex_info d p) > 0) (say INFO_OBSERVATION_STARTED (obs_args (ex_info d p) (to_id t))))])"

text \<open>\<open>startSlew\<close> of a target that is not observed yet; the data base gives the id of the observation.\<close>

definition startSlew :: "int \<Rightarrow> nat \<Rightarrow> target_obj \<Rightarrow> ('a, unit) ex" where
  "startSlew plan p t =
     look (\<lambda>d. if getObsId (ex_info d p) > 0 then give ()
       else
         steps
           [act (\<lambda>d. d\<lparr>ex_obsSeq := ex_obsSeq d + 1\<rparr>),
            set_info p (\<lambda>ob. ob\<lparr>ob_obs := Some (ex_obsSeq d + 1, plan), ob_base := ex_obsSeq d + 1\<rparr>),
            say INFO_OBSERVATION_SLEW [ex_obsSeq d + 1, to_id t, plan]])"

definition updateSlew :: "int \<Rightarrow> nat \<Rightarrow> target_obj \<Rightarrow> ('a, unit) ex" where
  "updateSlew plan p t = look (\<lambda>d. whenx (ob_obs (ex_info d p) = None) (startSlew plan p t))"

definition newObsSlew :: "exec_env \<Rightarrow> int \<Rightarrow> nat \<Rightarrow> target_obj \<Rightarrow> ('a, unit) ex" where
  "newObsSlew env plan p t =
     endObservation env (-1) p t (\<lambda>_. steps [set_info p (\<lambda>ob. ob\<lparr>ob_obs := None\<rparr>), updateSlew plan p t])"

section \<open>The end of a target\<close>

definition processTarget :: "exec_env \<Rightarrow> nat \<Rightarrow> target_obj \<Rightarrow> ('a, unit) ex" where
  "processTarget env p t =
     look (\<lambda>d. steps
       [if ob_acquired (ex_info d p) = 1 then act (\<lambda>d. d\<lparr>ex_acqOk := ex_acqOk d + 1\<rparr>)
        else if ob_acquired (ex_info d p) = -1 then act (\<lambda>d. d\<lparr>ex_acqFailed := ex_acqFailed d + 1\<rparr>)
        else give (),
        say INFO_OBSERVATION_END (obs_args (ex_info d p) (to_id t)),
        whenx (xe_type env (to_id t) = TYPE_FLAT) (act (\<lambda>d. d\<lparr>ex_flatsDone := True\<rparr>)),
        act (\<lambda>d. d\<lparr>ex_que := ex_que d @ [p]\<rparr>)])"

definition reset_autoLoop :: "('a, unit) ex" where
  "reset_autoLoop = act (\<lambda>d. d\<lparr>ex_autoLoop := ex_defAutoLoop d\<rparr>)"

definition clearNextTargets :: "('a, unit) ex" where
  "clearNextTargets =
     look (\<lambda>d. steps [on_queue (\<lambda>q. clearNext (q\<lparr>eq_current := ex_current d\<rparr>)), reset_autoLoop])"

text \<open>The current target is ended and forgotten.\<close>

definition end_current :: "exec_env \<Rightarrow> ('a, unit) ex" where
  "end_current env =
     look (\<lambda>d. steps
       [whenx (ex_current d \<noteq> None)
          (with_current (\<lambda>p t. endObservation env (-1) p t (\<lambda>_. processTarget env p t))),
        act (\<lambda>d. d\<lparr>ex_current := None\<rparr>),
        clearNextTargets])"

definition updateScriptCount :: "exec_env \<Rightarrow> 'a poster \<Rightarrow> ('a, unit) ex" where
  "updateScriptCount env post =
     steps [post ScriptRunningQuestion, act (\<lambda>d. d\<lparr>ex_scripts := xe_running env (ex_trace d)\<rparr>)]"

definition exec_info :: "exec_env \<Rightarrow> 'a poster \<Rightarrow> ('a, unit) ex" where
  "exec_info env post =
     steps
       [updateScriptCount env post,
        look (\<lambda>d. if ex_current d = None then act (\<lambda>d. d\<lparr>ex_currentId := -1, ex_plan := -1\<rparr>)
                   else with_current (\<lambda>p t. act (\<lambda>d. d\<lparr>ex_currentId := to_id t\<rparr>))),
        look (\<lambda>d. case eq_list (ex_queue d) of
                    [] \<Rightarrow> act (\<lambda>d. d\<lparr>ex_nextId := -1, ex_nextPlan := -1\<rparr>)
                  | e # es \<Rightarrow> target_at (Some (qt_target e)) (\<lambda>p t. act (\<lambda>d. d\<lparr>ex_nextId := to_id t, ex_nextPlan := qe_plan e\<rparr>)))]"

definition infoAll :: "exec_env \<Rightarrow> 'a poster \<Rightarrow> ('a, unit) ex" where
  "infoAll env post = catching (exec_info env post) (give ())"

section \<open>Switching\<close>

definition front_id :: "exec_queue \<Rightarrow> int option" where
  "front_id q = (case eq_list q of [] \<Rightarrow> None | e # es \<Rightarrow> Some (tid q e))"

text \<open>\<open>beforeChange\<close> of the queue, which is told the current target.\<close>

definition queue_beforeChange :: "exec_env \<Rightarrow> ('a, unit) ex" where
  "queue_beforeChange env =
     look (\<lambda>d. case beforeChange (xe_sky env) (xe_now env) ((ex_queue d)\<lparr>eq_current := ex_current d\<rparr>) of
             (Ret _, q) \<Rightarrow> on_queue (\<lambda>_. q)
           | (Threw, q) \<Rightarrow> andthen (on_queue (\<lambda>_. q)) (fails Exception)
           | (Undef, q) \<Rightarrow> andthen (on_queue (\<lambda>_. q)) (fails DanglingPointer))"

text \<open>The front of the queue becomes the current target; it stays in the queue.\<close>

definition take_front :: "exec_env \<Rightarrow> ('a, unit) ex" where
  "take_front env =
     look (\<lambda>d. case eq_list (ex_queue d) of
         [] \<Rightarrow> give ()
       | e # es \<Rightarrow>
           andthen
             (if ex_current d = None then act (\<lambda>d. d\<lparr>ex_current := Some (qt_target e)\<rparr>)
              else
                with_current (\<lambda>p t.
                  endObservation env (tid (ex_queue d) e) p t (\<lambda>ret.
                    whenx (\<not> (ret = 1 \<and> tid (ex_queue d) e = to_id t))
                      (steps [processTarget env p t, act (\<lambda>d. d\<lparr>ex_current := Some (qt_target e)\<rparr>)]))))
             (act (\<lambda>d. d\<lparr>ex_plan := qe_plan e\<rparr>)))"

text \<open>A target that needs change (\<open>isContinues () == 2\<close>) is created again.\<close>

definition renew_current :: "exec_env \<Rightarrow> ('a, unit) ex" where
  "renew_current env =
     current_is (\<lambda>q t. xe_continues env (to_id t) = 2 \<and> (eq_list q = [] \<or> front_id q = Some (to_id t)))
       (\<lambda>b. whenx b (with_current (\<lambda>p t. new_target env (to_id t) (\<lambda>n. on_queue (\<lambda>q. snd (addFront n None None q))))))"

definition say_loop :: "('a, unit) ex" where
  "say_loop =
     look (\<lambda>d. current_is (\<lambda>q t. front_id q = Some (to_id t) \<or> ex_autoLoop d \<and> eq_list q = [])
       (\<lambda>b. whenx b (with_current (\<lambda>p t. say INFO_OBSERVATION_LOOP [getObsId (ex_info d p), to_id t]))))"

text \<open>Without \<open>auto_loop\<close> an observation that has started is not repeated.\<close>

definition drop_started :: "('a, unit) ex" where
  "drop_started =
     look (\<lambda>d. current_is (\<lambda>q t. \<not> ex_autoLoop d \<and> to_started t)
       (\<lambda>b. whenx b (act (\<lambda>d. d\<lparr>ex_current := None, ex_plan := -1\<rparr>))))"

text \<open>The devices are told to end their scripts, and get the target.\<close>

definition start_current :: "exec_env \<Rightarrow> 'a poster \<Rightarrow> ('a, unit) ex" where
  "start_current env post =
     look (\<lambda>d. whenx (ex_current d \<noteq> None)
       (steps
          [act (queAll (xe_create env) (new_Command ''script_ends'')),
           post (SetTarget (ex_current d)),
           look (\<lambda>d. post (SlewToTarget (ex_plan d)))]))"

definition choose_target :: "exec_env \<Rightarrow> ('a, unit) ex" where
  "choose_target env =
     steps [queue_beforeChange env, renew_current env, say_loop, drop_started, reset_autoLoop, take_front env]"

definition doSwitch :: "exec_env \<Rightarrow> 'a poster \<Rightarrow> ('a, unit) ex" where
  "doSwitch env post = steps [choose_target env, start_current env post]"

definition observing_states :: "rts2_status list" where
  "observing_states = [SERVERD_EVENING, SERVERD_DUSK, SERVERD_NIGHT, SERVERD_DAWN]"

definition standby_states :: "rts2_status list" where
  "standby_states = [SERVERD_DUSK OR SERVERD_STANDBY, SERVERD_NIGHT OR SERVERD_STANDBY, SERVERD_DAWN OR SERVERD_STANDBY]"

text \<open>Whether the executor may observe: in standby only a dark (target 1) when nothing is observed.\<close>

definition may_switch :: "'a executor_scheme \<Rightarrow> bool" where
  "may_switch d \<longleftrightarrow> ex_ignoreDay d \<or> getMasterState d \<in> set observing_states
     \<or> getMasterState d \<in> set standby_states \<and> ex_current d = None \<and> front_id (ex_queue d) = Some 1"

definition switchTarget :: "exec_env \<Rightarrow> 'a poster \<Rightarrow> ('a, int) ex" where
  "switchTarget env post =
     andthen (act deleteTemporaryValues)
       (look (\<lambda>d.
          if \<not> ex_enabled d then andthen clearNextTargets (give (-1))
          else if d_state d AND EXEC_MASK_END = EXEC_END \<or> \<not> ex_autoLoop d \<and> eq_list (ex_queue d) = [] then
            andthen
              (steps
                 [act (exec_mask EXEC_MASK_END EXEC_NOT_END),
                  whenx (ex_autoLoop d) (post KillAll),
                  end_current env,
                  infoAll env post])
              (give 0)
          else if may_switch d then andthen (steps [doSwitch env post, infoAll env post]) (give 0)
          else andthen (end_current env) (give (-1))))"

definition switch :: "exec_env \<Rightarrow> 'a poster \<Rightarrow> ('a, unit) ex" where
  "switch env post = bindx (switchTarget env post) (\<lambda>_. give ())"

definition switch_when_done :: "exec_env \<Rightarrow> 'a poster \<Rightarrow> ('a, unit) ex" where
  "switch_when_done env post = look (\<lambda>d. whenx (ex_scripts d = 0) (switch env post))"

definition stop_exec :: "exec_env \<Rightarrow> 'a poster \<Rightarrow> ('a, unit) ex" where
  "stop_exec env post =
     steps
       [act (\<lambda>d. d\<lparr>ex_flatsDone := False\<rparr>),
        clearNextTargets,
        post KillAll,
        post StopObservation,
        updateScriptCount env post,
        switch_when_done env post]"

definition end_exec :: "('a, unit) ex" where
  "end_exec = act (exec_mask EXEC_MASK_END EXEC_END)"

section \<open>Events\<close>

definition acqusition_ended :: "int \<Rightarrow> rts2_status \<Rightarrow> ('a, unit) ex" where
  "acqusition_ended a s =
     steps
       [look (\<lambda>d. whenx (ex_current d \<noteq> None) (with_current (\<lambda>p t. set_info p (\<lambda>ob. ob\<lparr>ob_acquired := a\<rparr>)))),
        act (exec_mask EXEC_MASK_ACQ s)]"

text \<open>The scripts of a device ended; a continuous target is given to the device again.\<close>

definition script_ended :: "exec_env \<Rightarrow> 'a poster \<Rightarrow> nat option \<Rightarrow> ('a, nat option) ex" where
  "script_ended env post a =
     andthen (updateScriptCount env post)
       (look (\<lambda>d.
          if ex_current d = None then andthen (steps [exec_state EXEC_IDLE, switch_when_done env post]) (give a)
          else
            with_current (\<lambda>p t.
              if ex_scripts d = 0 then
                andthen (steps [exec_state EXEC_IDLE, target_startObservation p t, switch env post]) (give a)
              else if xe_continues env (to_id t) = 1 \<and> (eq_list (ex_queue d) = [] \<or> front_id (ex_queue d) = Some (to_id t))
                \<and> d_state d AND EXEC_MASK_END \<noteq> EXEC_END \<and> ex_autoLoop d
              then give (Some p)
              else give a)))"

text \<open>A move is over: what waits for it may go on, otherwise the target is observed.\<close>

definition move_done :: "'a poster \<Rightarrow> ('a, unit) ex" where
  "move_done post =
     look (\<lambda>d. if ex_wait d then post ClearWait else whenx (ex_current d \<noteq> None) (post Observe))"

text \<open>What the executor does with an event before the connections get it.\<close>

fun react :: "exec_env \<Rightarrow> 'a poster \<Rightarrow> exec_event \<Rightarrow> ('a, unit) ex" where
  "react env post (SlewToTarget i) = exec_state EXEC_MOVE"
| "react env post (SlewToTargetNow i) = exec_state EXEC_MOVE"
| "react env post NewTarget = look (\<lambda>d. with_current (newObsSlew env (ex_plan d)))"
| "react env post ChangeTarget = look (\<lambda>d. with_current (updateSlew (ex_plan d)))"
| "react env post Observe = exec_state EXEC_OBSERVE"
| "react env post ScriptStarted = exec_state EXEC_OBSERVE"
| "react env post AcquireStart = exec_state EXEC_ACQUIRE"
| "react env post AcquireWait = exec_state EXEC_ACQUIRE_WAIT"
| "react env post (AcqusitionEnd c) =
     steps
       [exec_state EXEC_OBSERVE,
        if c = NEXT_COMMAND_PRECISION_OK then acqusition_ended 1 EXEC_ACQ_OK
        else whenx (c = -5 \<or> c = NEXT_COMMAND_PRECISION_FAILED) (acqusition_ended (-1) EXEC_ACQ_FAILED)]"
| "react env post LastReadout =
     steps
       [updateScriptCount env post,
        look (\<lambda>d. whenx (ex_scripts d = 0) (steps [exec_state EXEC_LASTREAD, switch env post]))]"
| "react env post MoveOk = move_done post"
| "react env post CorrectingOk = move_done post"
| "react env post (MoveFailed e) =
     whenx (e \<noteq> DEVICE_ERROR_KILL)
       (steps
          [post StopObservation,
           look (\<lambda>d. if ex_wait d then post ClearWait else whenx (ex_current d \<noteq> None) (with_current (\<lambda>p t. give ()))),
           updateScriptCount env post,
           switch_when_done env post])"
| "react env post EnterWait = act (\<lambda>d. d\<lparr>ex_wait := True\<rparr>)"
| "react env post ClearWait = act (\<lambda>d. d\<lparr>ex_wait := False\<rparr>)"
| "react env post (SetTarget x) = with_current (\<lambda>p t. act (\<lambda>d. d\<lparr>ex_object := to_id t\<rparr>))"
| "react env post (SetTargetKill x) = with_current (\<lambda>p t. act (\<lambda>d. d\<lparr>ex_object := to_id t\<rparr>))"
| "react env post (SetTargetNotClear x) = with_current (\<lambda>p t. act (\<lambda>d. d\<lparr>ex_object := to_id t\<rparr>))"
| "react env post (SetTargetKillNotClear x) = with_current (\<lambda>p t. act (\<lambda>d. d\<lparr>ex_object := to_id t\<rparr>))"
| "react env post _ = give ()"

definition handle_event :: "exec_env \<Rightarrow> 'a poster \<Rightarrow> exec_event \<Rightarrow> ('a, exec_event) ex" where
  "handle_event env post ev =
     (case ev of
        ScriptEnded a \<Rightarrow> bindx (script_ended env post a) (\<lambda>x. give (ScriptEnded x))
      | _ \<Rightarrow> andthen (react env post ev) (give ev))"

definition device_target :: "nat \<Rightarrow> (target_obj \<Rightarrow> ('a, unit) ex) \<Rightarrow> ('a, unit) ex" where
  "device_target p f = look (\<lambda>d. case eq_objs (ex_queue d) p of None \<Rightarrow> fails StalePointer | Some t \<Rightarrow> f t)"

definition do_reply :: "'a poster \<Rightarrow> device_reply \<Rightarrow> ('a, unit) ex" where
  "do_reply post r =
     (case r of
        Posts ev \<Rightarrow> post ev
      | Slews plan p \<Rightarrow> device_target p (startSlew plan p)
      | Starts p \<Rightarrow> device_target p (target_startObservation p))"

text \<open>The clients go on until they have nothing more to do.\<close>

primrec replies :: "exec_env \<Rightarrow> 'a poster \<Rightarrow> nat \<Rightarrow> ('a, unit) ex" where
  "replies env post 0 = look (\<lambda>d. if xe_reply env (ex_trace d) (ex_acts d) = None then give () else fails Endless)"
| "replies env post (Suc k) =
     look (\<lambda>d. case xe_reply env (ex_trace d) (ex_acts d) of
         None \<Rightarrow> give ()
       | Some r \<Rightarrow> steps [act (\<lambda>d. d\<lparr>ex_acts := ex_acts d + 1\<rparr>), do_reply post r, replies env post k])"

primrec exec_post :: "exec_env \<Rightarrow> nat \<Rightarrow> 'a poster" where
  "exec_post env 0 ev = fails Endless"
| "exec_post env (Suc n) ev =
     bindx (handle_event env (exec_post env n) ev)
       (\<lambda>ev1. andthen (act (\<lambda>d. d\<lparr>ex_trace := ex_trace d @ [ev1]\<rparr>)) (replies env (exec_post env n) n))"

section \<open>Setting targets\<close>

text \<open>The target is observed at once; the current one is interrupted.\<close>

definition setNow_target :: "exec_env \<Rightarrow> 'a poster \<Rightarrow> nat \<Rightarrow> int \<Rightarrow> ('a, int) ex" where
  "setNow_target env post n plan =
     andthen
       (steps
          [look (\<lambda>d. whenx (ex_current d \<noteq> None)
             (with_current (\<lambda>p t.
                andthen (say INFO_OBSERVATION_INTERRUPTED (obs_args (ex_info d p) (to_id t)))
                  (endObservation env (-1) p t (\<lambda>_. processTarget env p t))))),
           act (\<lambda>d. d\<lparr>ex_current := Some n, ex_plan := plan\<rparr>),
           clearNextTargets,
           act clearAll,
           look (\<lambda>d. post (SetTargetKill (ex_current d))),
           look (\<lambda>d. post (SlewToTargetNow (ex_plan d))),
           infoAll env post,
           with_current (\<lambda>p t. give ())])
       (give 0)"

definition add_target :: "nat \<Rightarrow> qtime \<Rightarrow> qtime \<Rightarrow> int \<Rightarrow> ('a, unit) ex" where
  "add_target n ts te rep = on_queue (\<lambda>q. snd (addTarget n ts te (-1) rep None (-1) False q))"

definition in_twilight :: "'a executor_scheme \<Rightarrow> bool" where
  "in_twilight d \<longleftrightarrow> getMasterState d = SERVERD_DUSK \<or> getMasterState d = SERVERD_DAWN"

definition at_night :: "'a executor_scheme \<Rightarrow> bool" where
  "at_night d \<longleftrightarrow> getMasterState d = SERVERD_NIGHT"

definition has_type :: "exec_env \<Rightarrow> char \<Rightarrow> exec_queue \<Rightarrow> target_obj \<Rightarrow> bool" where
  "has_type env c q t \<longleftrightarrow> xe_type env (to_id t) = c"

text \<open>
  The end of \<open>queueTarget\<close>, also reached after \<open>setNow\<close>: the id of the plan is given as the number of
  repetitions.
\<close>

definition queue_last :: "exec_env \<Rightarrow> 'a poster \<Rightarrow> nat \<Rightarrow> qtime \<Rightarrow> qtime \<Rightarrow> int \<Rightarrow> ('a, int) ex" where
  "queue_last env post n ts te plan =
     andthen (add_target n ts te plan)
       (look (\<lambda>d. if ex_current d = None then bindx (switchTarget env post) (\<lambda>r. give (if r = 0 then 0 else -2))
                   else andthen (infoAll env post) (give 0)))"

definition queue_new :: "exec_env \<Rightarrow> 'a poster \<Rightarrow> int \<Rightarrow> qtime \<Rightarrow> qtime \<Rightarrow> int \<Rightarrow> nat \<Rightarrow> ('a, int) ex" where
  "queue_new env post i ts te plan n =
     (let type = xe_type env i in
      look (\<lambda>d.
        if type = TYPE_DARK \<and> ex_doDarks d = 0 then
          current_is (has_type env TYPE_FLAT) (\<lambda>flat.
            andthen (steps [whenx (\<not> flat) (stop_exec env post), on_queue (delete_target n)]) (give 0))
        else
          current_is (has_type env TYPE_FLAT) (\<lambda>flat.
            if flat \<and> type \<noteq> TYPE_FLAT \<and> (at_night d \<or> getMasterState d = SERVERD_MORNING)
              \<or> in_twilight d \<and> type = TYPE_FLAT \<and> \<not> flat
            then setNow_target env post n plan
            else
              current_is (has_type env TYPE_DARK) (\<lambda>dark.
                if ex_nextNight d \<and> at_night d \<and> dark \<and> type \<noteq> TYPE_DARK
                then bindx (setNow_target env post n plan)
                       (\<lambda>r. andthen (whenx (r = 0) (act (\<lambda>d. d\<lparr>ex_nextNight := False\<rparr>))) (queue_last env post n ts te plan))
                else queue_last env post n ts te plan))))"

definition queueTarget :: "exec_env \<Rightarrow> 'a poster \<Rightarrow> int \<Rightarrow> qtime \<Rightarrow> qtime \<Rightarrow> int \<Rightarrow> ('a, int) ex" where
  "queueTarget env post i ts te plan = catching (new_target env i (queue_new env post i ts te plan)) (give (-2))"

text \<open>When the first entry is what was asked for, and no flats are taken, nothing changes.\<close>

definition unless_next :: "exec_env \<Rightarrow> (exec_queue \<Rightarrow> bool) \<Rightarrow> ('a, int) ex \<Rightarrow> ('a, int) ex" where
  "unless_next env same f =
     look (\<lambda>d. if eq_list (ex_queue d) = [] then f
       else if same (ex_queue d) then
         current_is (has_type env TYPE_FLAT) (\<lambda>flat. if flat then andthen clearNextTargets f else give 0)
       else andthen clearNextTargets f)"

definition setNext :: "exec_env \<Rightarrow> 'a poster \<Rightarrow> int \<Rightarrow> ('a, int) ex" where
  "setNext env post i =
     unless_next env (\<lambda>q. front_id q = Some i) (queueTarget env post i None None (-1))"

text \<open>A plan that cannot be loaded has no target, which \<open>createTarget\<close> throws on.\<close>

definition setNextPlan :: "exec_env \<Rightarrow> 'a poster \<Rightarrow> int \<Rightarrow> ('a, int) ex" where
  "setNextPlan env post plan =
     unless_next env (\<lambda>q. case eq_list q of [] \<Rightarrow> False | e # es \<Rightarrow> qe_plan e = plan)
       (case xe_plan env plan of
          None \<Rightarrow> fails Exception
        | Some i \<Rightarrow> if sk_exists (xe_sky env) i then queueTarget env post i None None plan else fails Exception)"

definition setNow :: "exec_env \<Rightarrow> 'a poster \<Rightarrow> int \<Rightarrow> int \<Rightarrow> ('a, int) ex" where
  "setNow env post i plan =
     look (\<lambda>d. if ex_current d = None then setNext env post i
       else catching (new_target env i (\<lambda>n. setNow_target env post n plan)) (give (-2)))"

text \<open>The target of a gamma ray burst once it is created; an exception deletes it.\<close>

definition grb_new :: "exec_env \<Rightarrow> 'a poster \<Rightarrow> int \<Rightarrow> nat \<Rightarrow> ('a, int) ex" where
  "grb_new env post i n =
     (let drop = (\<lambda>r. andthen (on_queue (delete_target n)) (give r)); jd = Some (xe_now env) in
      if \<not> sk_constraints (xe_sky env) i jd \<or> \<not> sk_above (xe_sky env) i jd then drop (-2)
      else if \<not> xe_tarEnabled env i then drop 0
      else
        look (\<lambda>d. if ex_current d = None then setNow_target env post n (-1)
          else
            with_current (\<lambda>p t.
              let c = to_id t in
              if xe_type env c = TYPE_GRB \<and> xe_type env i = TYPE_GRB
                \<and> \<bar>xe_grbDate env i - xe_grbDate env c\<bar> < 300 \<and> xe_errorBox env i > xe_errorBox env c
              then drop 0
              else if \<not> xe_near env i c (ex_sepLimit d) then setNow_target env post n (-1)
              else if xe_near env i c (ex_minSep d) then drop 0
              else andthen (steps [clearNextTargets, add_target n None None (-1)]) (give 0))))"

definition setGrb :: "exec_env \<Rightarrow> 'a poster \<Rightarrow> int \<Rightarrow> ('a, int) ex" where
  "setGrb env post i =
     look (\<lambda>d. if \<not> (at_night d \<or> in_twilight d) then give (-2)
       else if xe_validity env = 0 then give 0
       else
         catching
           (new_target env i (\<lambda>n. catching (grb_new env post i n) (andthen (on_queue (delete_target n)) (give (-2)))))
           (give (-2)))"

definition setShower :: "exec_env \<Rightarrow> 'a poster \<Rightarrow> ('a, int) ex" where
  "setShower env post =
     look (\<lambda>d. if \<not> at_night d then give (-2)
       else current_is (has_type env TYPE_AUGER) (\<lambda>b. if b then give (-2) else setNow env post TARGET_SHOWER (-1)))"

definition skip_exec :: "exec_env \<Rightarrow> 'a poster \<Rightarrow> ('a, int) ex" where
  "skip_exec env post =
     andthen (exec_info env post)
       (look (\<lambda>d. if ex_nextId d < 0 then give (-2) else setNow env post (ex_nextId d) (ex_nextPlan d)))"

section \<open>Commands\<close>

text \<open>The targets of \<open>queue\<close> and, with their times, of \<open>queue_at\<close>; None is one that cannot be read.\<close>

definition read_at :: "sky \<Rightarrow> string \<Rightarrow> (int \<times> qtime \<times> qtime) option \<times> string" where
  "read_at w b =
     (case paramNextInteger b of
        (None, b1) \<Rightarrow> (None, b1)
      | (Some i, b1) \<Rightarrow>
          (case paramNextWith (sk_double w) b1 of
             (None, b2) \<Rightarrow> (None, b2)
           | (Some ts, b2) \<Rightarrow>
               (case paramNextWith (sk_double w) b2 of (None, b3) \<Rightarrow> (None, b3) | (Some te, b3) \<Rightarrow> (Some (i, ts, te), b3))))"

definition read_plain :: "string \<Rightarrow> (int \<times> qtime \<times> qtime) option \<times> string" where
  "read_plain b = (case paramNextInteger b of (x, b1) \<Rightarrow> (map_option (\<lambda>i. (i, None, None)) x, b1))"

lemma read_shorter:
  "(x, b') = read_plain b \<Longrightarrow> \<not> fst (paramEnd b) \<Longrightarrow> length b' < length b"
  "(y, b') = read_at w b \<Longrightarrow> \<not> fst (paramEnd b) \<Longrightarrow> length b' < length b"
proof -
  let ?b1 = "snd (paramNextInteger b)"
  let ?b2 = "snd (paramNextWith (sk_double w) ?b1)"
  show "(x, b') = read_plain b \<Longrightarrow> \<not> fst (paramEnd b) \<Longrightarrow> length b' < length b"
    using paramNextInteger_shorter [of b] by (auto simp: read_plain_def split: prod.splits)
  assume y: "(y, b') = read_at w b" and n: "\<not> fst (paramEnd b)"
  have "length (snd (read_at w b)) \<le> length ?b1"
    using paramNextWith_le [of "sk_double w" ?b1] paramNextWith_le [of "sk_double w" ?b2]
    by (auto simp: read_at_def split: prod.splits option.splits)
  then show "length b' < length b" using paramNextInteger_shorter [OF n] y by (metis order.strict_trans1 snd_conv)
qed

function read_targets :: "sky \<Rightarrow> bool \<Rightarrow> string \<Rightarrow> (int \<times> qtime \<times> qtime) option list" where
  "read_targets w at b =
     (if fst (paramEnd b) then []
      else case (if at then read_at w b else read_plain b) of (x, b1) \<Rightarrow> x # read_targets w at b1)"
  by pat_completeness auto

termination read_targets
  by (relation "measure (\<lambda>(w, at, b). length b)")
    (auto dest: read_shorter simp del: split_paired_All split: if_splits)

declare read_targets.simps [simp del]

text \<open>Each target is queued; the number of failures is counted.\<close>

primrec queue_targets :: "exec_env \<Rightarrow> 'a poster \<Rightarrow> (int \<times> qtime \<times> qtime) option list \<Rightarrow> int \<Rightarrow> ('a, int) ex" where
  "queue_targets env post [] failed = give (if failed = 0 then 0 else -2)"
| "queue_targets env post (x # xs) failed =
     (case x of
        None \<Rightarrow> queue_targets env post xs (failed + 1)
      | Some (i, ts, te) \<Rightarrow>
          bindx (queueTarget env post i ts te (-1))
            (\<lambda>r. queue_targets env post xs (if r = 0 then failed else failed + 1)))"

definition set_selectorNext :: "bool \<Rightarrow> ('a, unit) ex" where
  "set_selectorNext b = act (\<lambda>d. d\<lparr>ex_selectorNext := b, ex_reported := False\<rparr>)"

text \<open>\<open>next\<close> and \<open>next_plan\<close>: the selector is not heard while \<open>selector_next\<close> is off.\<close>

definition next_from :: "bool \<Rightarrow> ('a, int) ex \<Rightarrow> ('a, int) ex" where
  "next_from selector f =
     look (\<lambda>d. if selector \<and> \<not> ex_selectorNext d then andthen (act (\<lambda>d. d\<lparr>ex_reported := True\<rparr>)) (give (-2))
       else andthen (set_selectorNext True) f)"

definition exec_commandAuthorized ::
  "exec_env \<Rightarrow> 'a poster \<Rightarrow> (string \<Rightarrow> string \<Rightarrow> ('a, int) ex) \<Rightarrow> bool \<Rightarrow> string \<Rightarrow> string \<Rightarrow> ('a, int) ex"
where
  "exec_commandAuthorized env post device_cmd selector w b =
     (let number = (\<lambda>f. case paramNextInteger b of
              (Some i, r) \<Rightarrow> if fst (paramEnd r) then f i else give (-2) | (None, r) \<Rightarrow> give (-2));
          last = (\<lambda>f. if fst (paramEnd b) then f else give (-2))
      in if w = ''grb'' then number (setGrb env post)
         else if w = ''shower'' then last (setShower env post)
         else if w = ''now'' then andthen (set_selectorNext True) (number (\<lambda>i. setNow env post i (-1)))
         else if w = ''now_single'' then number (\<lambda>i. setNow env post i (-1))
         else if w = ''queue'' then queue_targets env post (read_targets (xe_sky env) False b) 0
         else if w = ''queue_at'' then queue_targets env post (read_targets (xe_sky env) True b) 0
         else if w = ''next'' then number (\<lambda>i. next_from selector (setNext env post i))
         else if w = ''next_plan'' then number (\<lambda>i. next_from selector (setNextPlan env post i))
         else if w = ''skip'' then last (skip_exec env post)
         else if w = ''end'' then last (andthen end_exec (give 0))
         else if w = ''stop'' then last (andthen (steps [set_selectorNext False, end_exec, stop_exec env post]) (give 0))
         else if w = ''clear'' then last (andthen clearNextTargets (give 0))
         else device_cmd w b)"

section \<open>Values and the state of the central server\<close>

datatype exec_value =
    EnabledVal bool
  | NextVal int
  | IgnoreDayVal bool
  | AutoLoopVal bool
  | DefaultAutoLoopVal bool
  | SelectorNextVal bool
  | DoDarksVal int
  | FlatsDoneVal bool

fun set_exec_value :: "exec_value \<Rightarrow> 'a executor_scheme \<Rightarrow> 'a executor_scheme" where
  "set_exec_value (EnabledVal b) d = d\<lparr>ex_enabled := b\<rparr>"
| "set_exec_value (NextVal i) d = d\<lparr>ex_nextId := i\<rparr>"
| "set_exec_value (IgnoreDayVal b) d = d\<lparr>ex_ignoreDay := b\<rparr>"
| "set_exec_value (AutoLoopVal b) d = d\<lparr>ex_autoLoop := b\<rparr>"
| "set_exec_value (DefaultAutoLoopVal b) d = d\<lparr>ex_defAutoLoop := b\<rparr>"
| "set_exec_value (SelectorNextVal b) d = d\<lparr>ex_selectorNext := b\<rparr>"
| "set_exec_value (DoDarksVal i) d = d\<lparr>ex_doDarks := i\<rparr>"
| "set_exec_value (FlatsDoneVal b) d = d\<lparr>ex_flatsDone := b\<rparr>"

text \<open>\<open>setValue\<close>: 0 lets the daemon change the value, a negative number refuses.\<close>

definition exec_setValue :: "exec_env \<Rightarrow> 'a poster \<Rightarrow> exec_value \<Rightarrow> ('a, int) ex" where
  "exec_setValue env post v =
     (case v of
        EnabledVal b \<Rightarrow> if b then give 0 else andthen (stop_exec env post) (give 0)
      | NextVal i \<Rightarrow> bindx (setNext env post i) (\<lambda>r. give (if r \<noteq> 0 then 0 else -2))
      | _ \<Rightarrow> give 0)"

definition exec_change :: "exec_env \<Rightarrow> 'a poster \<Rightarrow> exec_value \<Rightarrow> ('a, int) ex" where
  "exec_change env post v =
     bindx (exec_setValue env post v) (\<lambda>r. andthen (whenx (r = 0) (act (set_exec_value v))) (give r))"

definition front_now :: "exec_env \<Rightarrow> 'a poster \<Rightarrow> ('a, unit) ex" where
  "front_now env post =
     look (\<lambda>d. case eq_list (ex_queue d) of
         [] \<Rightarrow> give ()
       | e # es \<Rightarrow> bindx (setNow env post (tid (ex_queue d) e) (qe_plan e)) (\<lambda>_. give ()))"

text \<open>In a night, a morning, an evening or twilight that has come the executor may stop no longer.\<close>

definition unblock_stop :: "exec_env \<Rightarrow> 'a poster \<Rightarrow> ('a, unit) ex" where
  "unblock_stop env post =
     steps
       [look (\<lambda>d. whenx (d_state d AND EXEC_MASK_END = EXEC_END) (act (exec_mask EXEC_MASK_END EXEC_NOT_END))),
        look (\<lambda>d. whenx (ex_current d = None \<and> eq_list (ex_queue d) \<noteq> []) (switch env post))]"

definition morning_come :: "exec_env \<Rightarrow> 'a poster \<Rightarrow> ('a, unit) ex" where
  "morning_come env post =
     steps
       [act (\<lambda>d. d\<lparr>ex_selectorNext := True\<rparr>),
        current_is (\<lambda>q t. has_type env TYPE_FLAT q t \<and> eq_list q \<noteq> []) (\<lambda>b. whenx b (front_now env post)),
        unblock_stop env post]"

definition night_come :: "exec_env \<Rightarrow> 'a poster \<Rightarrow> ('a, unit) ex" where
  "night_come env post =
     steps
       [act (\<lambda>d. d\<lparr>ex_flatsDone := False\<rparr>),
        current_is (\<lambda>q t. has_type env TYPE_DARK q t \<and> eq_list q \<noteq> [])
          (\<lambda>b. steps [act (\<lambda>d. d\<lparr>ex_nextNight := True\<rparr>), whenx b (front_now env post)]),
        morning_come env post]"

definition standby_come :: "exec_env \<Rightarrow> 'a poster \<Rightarrow> ('a, unit) ex" where
  "standby_come env post =
     steps
       [stop_exec env post,
        look (\<lambda>d. whenx (ex_doDarks d = 2)
          (catching
             (new_target env 1 (\<lambda>n.
                steps
                  [on_queue (\<lambda>q. snd (addFront n None None q)),
                   look (\<lambda>d. whenx (ex_current d = None) (switch env post))]))
             (act (\<lambda>d. d\<lparr>ex_doDarks := 1\<rparr>))))]"

definition exec_changeMasterState :: "exec_env \<Rightarrow> 'a poster \<Rightarrow> rts2_status \<Rightarrow> ('a, unit) ex" where
  "exec_changeMasterState env post new =
     (let s = new AND (SERVERD_STATUS_MASK OR SERVERD_ONOFF_MASK) in
      look (\<lambda>d. steps
        [whenx (\<not> ex_ignoreDay d)
           (steps
              [act (\<lambda>d. d\<lparr>ex_nextNight := False\<rparr>),
               if s = SERVERD_NIGHT then night_come env post
               else if s = SERVERD_MORNING then morning_come env post
               else if s \<in> {SERVERD_EVENING, SERVERD_DAWN, SERVERD_DUSK} then unblock_stop env post
               else if s \<in> set standby_states then standby_come env post
               else stop_exec env post]),
         act block_masterStateChanged]))"

section \<open>Runs\<close>

datatype exec_input =
    ExCommand bool string string
  | ExEvent exec_event
  | ExValue exec_value
  | ExMaster rts2_status

text \<open>
  One input: a command (of the selector or of somebody else), an event of a device, a value, a new state
  of the central server. \<open>n\<close> bounds the depth of events posted from within events.
\<close>

fun exec_step :: "exec_env \<Rightarrow> nat \<Rightarrow> (string \<Rightarrow> string \<Rightarrow> ('a, int) ex) \<Rightarrow> exec_input \<Rightarrow> 'a executor_scheme \<Rightarrow> 'a executor_scheme" where
  "exec_step env n dc (ExCommand sel w b) d = snd (exec_commandAuthorized env (exec_post env n) dc sel w b d)"
| "exec_step env n dc (ExEvent ev) d = snd (exec_post env n ev d)"
| "exec_step env n dc (ExValue v) d = snd (exec_change env (exec_post env n) v d)"
| "exec_step env n dc (ExMaster s) d = snd (exec_changeMasterState env (exec_post env n) s (d\<lparr>bl_masterState := s\<rparr>))"

end
