(* ===== verification/Rts2_QueueCases.thy ===== *)
theory Rts2_QueueCases
  imports Rts2_QueueRun
begin

text \<open>
  The filter of a first-in first-out queue against its reference; what the queue does with an empty
  list, repetitions, entries that have to make room and rows during a simulation; concrete queues.
\<close>

section \<open>The filter of a first-in first-out queue\<close>

text \<open>The entries from the last one on that \<open>P\<close> holds for, all of them without any.\<close>

fun from_last :: "('a \<Rightarrow> bool) \<Rightarrow> 'a list \<Rightarrow> 'a list" where
  "from_last P [] = []"
| "from_last P (x # xs) = (if list_ex P xs then from_last P xs else x # xs)"

lemma from_last_none: "\<not> list_ex P xs \<Longrightarrow> from_last P xs = xs"
  by (induction xs) auto

lemma from_last_subset: "x \<in> set (from_last P xs) \<Longrightarrow> x \<in> set xs"
  by (induction xs) (auto split: if_splits)

lemma distinct_from_last: "distinct (map f xs) \<Longrightarrow> distinct (map f (from_last P xs))"
  by (induction xs) auto

definition due :: "int \<Rightarrow> queued_target \<Rightarrow> bool" where
  "due now e \<longleftrightarrow> past (qe_start e) now \<or> past (qe_end e) now"

lemma fifo_due: "fifo_expired now bs (e # es) q =
  (if due now e then fifo_expired now [e] es (fold (removeEntry REMOVED_NEXT_NEEDED) bs q) else fifo_expired now (bs @ [e]) es q)"
  by (simp add: due_def)

lemma fifo_list: "\<not> list_ex (due now) (tl bs) \<Longrightarrow>
  fst (fifo_expired now bs es q) = (if list_ex (due now) es then from_last (due now) es else bs @ es)"
proof (induction es arbitrary: bs q)
  case (Cons e es)
  show ?case
  proof (cases "due now e")
    case True
    then show ?thesis using Cons.IH [of "[e]"] by (simp add: fifo_due from_last_none del: fifo_expired.simps)
  next
    case False
    then have "\<not> list_ex (due now) (tl (bs @ [e]))" using Cons.prems by (cases bs) simp_all
    then show ?thesis using Cons.IH [of "bs @ [e]"] False by (simp add: fifo_due del: fifo_expired.simps)
  qed
qed simp

text \<open>Removing entries does not change what is known of other targets.\<close>

lemma started_removeEntry: "qt_target f \<noteq> qt_target e \<Longrightarrow> started (removeEntry r e q) f = started q f"
  by (simp add: started_def tobj_def removeEntry_def row_remove_def delete_target_def Let_def)

lemma started_removeEntries:
  "qt_target f \<notin> qt_target ` set es \<Longrightarrow> started (fold (removeEntry r) es q) f = started q f"
  by (induction es arbitrary: q) (simp_all add: started_removeEntry)

lemma fifo_started:
  "distinct (map qt_target (bs @ es)) \<Longrightarrow> f \<in> set (fst (fifo_expired now bs es q)) \<Longrightarrow>
   started (snd (fifo_expired now bs es q)) f = started q f"
proof (induction es arbitrary: bs q)
  case (Cons e es)
  show ?case
  proof (cases "due now e")
    case True
    have "set (fst (fifo_expired now [e] es r)) \<subseteq> set (e # es)" for r
      using fifo_list [of now "[e]" es r] by (auto dest: from_last_subset)
    then have "f \<in> set (e # es)" using Cons.prems(2) True by (auto simp: fifo_due simp del: fifo_expired.simps)
    then have "qt_target f \<notin> qt_target ` set bs" using Cons.prems(1) by (auto simp: disjoint_iff)
    then show ?thesis using True Cons.prems Cons.IH [of "[e]"] by (simp add: fifo_due started_removeEntries del: fifo_expired.simps)
  next
    case False
    then show ?thesis using Cons.prems Cons.IH [of "bs @ [e]"] by (simp add: fifo_due del: fifo_expired.simps)
  qed
qed simp

lemma drop_list:
  "distinct (map qt_target es) \<Longrightarrow> fst (drop_expired now es q) = filter (\<lambda>e. \<not> past (qe_end e) now \<and> \<not> (started q e \<and> eq_remove q)) es"
proof (induction now es q rule: drop_expired.induct)
  case (2 now e es q)
  have "filter (\<lambda>f. \<not> past (qe_end f) now \<and> \<not> (started (removeEntry r e q) f \<and> eq_remove q)) es
    = filter (\<lambda>f. \<not> past (qe_end f) now \<and> \<not> (started q f \<and> eq_remove q)) es" for r
    using 2(4) by (intro filter_cong) (auto simp: started_removeEntry image_iff)
  then show ?case using 2 by (auto simp: split_beta)
qed simp

lemma fifo_filter_list:
  assumes "queue_ok q" "eq_type q = QUEUE_FIFO"
  shows "eq_list (filterExpired now q)
    = filter (\<lambda>e. \<not> past (qe_end e) now \<and> \<not> (started q e \<and> eq_remove q)) (from_last (due now) (eq_list q))"
proof -
  let ?f = "fifo_expired now [] (eq_list q) q"
  have d: "distinct (map qt_target (eq_list q))" using assms(1) by (rule queue_ok_distinct)
  have l: "fst ?f = from_last (due now) (eq_list q)" using fifo_list [of now "[]" "eq_list q" q] by (auto simp: from_last_none)
  then have "distinct (map qt_target (fst ?f))" using d distinct_from_last by metis
  then have "eq_list (filterExpired now q)
    = filter (\<lambda>e. \<not> past (qe_end e) now \<and> \<not> (started (snd ?f) e \<and> eq_remove (snd ?f))) (fst ?f)"
    using assms(2) drop_list by (simp add: filterExpired_def split_beta Let_def)
  also have "\<dots> = filter (\<lambda>e. \<not> past (qe_end e) now \<and> \<not> (started q e \<and> eq_remove q)) (fst ?f)"
    using fifo_started [of "[]" "eq_list q" _ now q] d by (intro filter_cong) auto
  finally show ?thesis using l by simp
qed

text \<open>C15: the filter of expired entries of a first-in first-out queue keeps what its reference keeps: of the
  entries from the last due one on, those that have not ended and need not go because they were started.\<close>

theorem fifo_filter_reference:
  assumes "queue_ok q" "eq_type q = QUEUE_FIFO"
  shows "eq_list (filterExpired now q)
    = filter (\<lambda>e. \<not> past (qe_end e) now \<and> \<not> (started q e \<and> eq_remove q)) (from_last (due now) (eq_list q))"
  by (rule fifo_filter_list [OF assms])

section \<open>Where the queue does not do what it says\<close>

lemma drop_ended: "past (qe_end e) now \<Longrightarrow> drop_expired now [e] q = ([], removeEntry REMOVED_TIMES_EXPIRED e q)"
  by simp

text \<open>A queue that blocks until its target is visible reads the first entry of an empty list when its
  only entry ends before the minute is over.\<close>

theorem emptied_queue_undefined:
  assumes "eq_enabled q" "eq_block q" "eq_list q = [e]" "past (qe_end e) (now + 60 * USEC_SEC)"
  shows "fst (selectNextObservation w now nt len r q) = Undef"
proof -
  let ?t = "now + 60 * USEC_SEC"
  have "eq_list (filterExpired ?t q) = []"
    using assms(3,4) by (cases "eq_type q = QUEUE_FIFO") (simp_all add: filterExpired_def)
  then show ?thesis using assms(1-3) by (simp add: selectNextObservation_def filter_queue_def Let_def)
qed

text \<open>A target that is queued at the first possible place loses its repetitions: the entry is built with the
  plan as their number and with no time between them.\<close>

theorem first_place_loses_repetitions:
  assumes "sk_length w (to_id (tobj q p)) False = Some l" "\<not> eq_simul q"
    and "first_pos w q (to_id (tobj q p)) fo (if l \<le> 0 then 60 * USEC_SEC else l) (if qa_start a \<noteq> None then qa_start a else ns) (eq_list q) = Some n"
  shows "let es = eq_list (snd (queue_target w i (Some fo) ns a p q))
         in qt_target (es ! n) = p \<and> qe_rep_n (es ! n) = -1 \<and> qe_rep_sep (es ! n) = Some 0"
proof -
  have n: "first_pos w q j fo m t es = Some k \<Longrightarrow> k < length es" for j m t es k
    by (induction es arbitrary: t k) (auto simp: Let_def split: if_splits)
  let ?e = "\<lparr>qe_qid = eq_seq q + 1, qe_queue = eq_id q, qe_tar = to_id (tobj q p), qe_plan = -1, qe_start = qa_start a, qe_end = qa_end a,
    qe_rep_n = -1, qe_rep_sep = Some 0, qe_order = -1, qt_target = p, qt_hard = False, qt_reported = False\<rparr>"
  have num: "k < length es \<Longrightarrow> \<exists>m. number_entries j es ! k = (es ! k)\<lparr>qe_order := m\<rparr>" for j k es
    by (induction j es arbitrary: k rule: number_entries.induct) (auto simp: nth_Cons split: nat.split)
  have l: "eq_list (snd (queue_target w i (Some fo) ns a p q)) = number_entries 0 (insert_at n ?e (eq_list q))"
    using assms by (auto simp: queue_target_def addFirst_def new_queued_def row_create_def updateVals_def Let_def)
  have "n < length (insert_at n ?e (eq_list q))" "insert_at n ?e (eq_list q) ! n = ?e"
    using n [OF assms(3)] by (simp_all add: insert_at_def nth_append)
  then obtain m where "number_entries 0 (insert_at n ?e (eq_list q)) ! n = ?e\<lparr>qe_order := m\<rparr>" using num by metis
  then show ?thesis using l by (simp add: Let_def)
qed

text \<open>The simulation of a queue deletes rows of the queue itself: a filter that removes the copy of an
  entry below the horizon removes the row that the entry and its copy share.\<close>

theorem simulation_deletes_rows:
  assumes "queue_ok q" "eq_list q = [e]" "sk_exists w (tid q e)" "\<forall>t. \<not> sk_above w (tid q e) t"
    and "\<not> eq_skip q" "\<not> eq_block q" "qe_start e = None" "qe_end e = None" "\<not> eq_remove q"
  shows "let (ret, s) = SimulQueueTargets w q; (ok, ts, s1) = filter_queue w now None True s
         in ret = Ret () \<and> length (eq_db s) = 1 \<and> eq_db s1 = []"
proof -
  let ?q = "q\<lparr>eq_objs := (eq_objs q)(eq_next q \<mapsto> \<lparr>to_id = tid q e, to_started = False\<rparr>), eq_next := eq_next q + 1\<rparr>"
  let ?c = "copy_queued (eq_next q) e"
  let ?s = "?q\<lparr>eq_list := [?c], eq_simul := True\<rparr>"
  have s: "SimulQueueTargets w q = (Ret (), ?s)" using assms(2,3) by (simp add: SimulQueueTargets_def createTarget_def)
  have c: "qe_start ?c = None" "qe_end ?c = None" "qe_qid ?c = qe_qid e" "qe_queue ?c = qe_queue e" using assms by (simp_all add: copy_queued_def)
  have t: "tid ?s ?c = tid q e" by (simp add: tid_def tobj_def copy_queued_def)
  have ex: "filterExpired now ?s = ?s" using c assms(9) by (cases "eq_type q = QUEUE_FIFO") (simp_all add: filterExpired_def past_def)
  have "\<not> fst (isAboveHorizon w ?s ?c jd)" for jd using t assms(4) by (simp add: isAboveHorizon_def Let_def)
  then have f: "filterUnobservable w now None True [?c] ?s = ([], [], row_remove ?c ?s)" using c assms(5) by (simp add: past_def Let_def)
  have rows: "mset (map qe_qid (eq_db q)) = {#qe_qid e#}" "0 \<le> qe_queue e"
    using queue_ok_distinct(2,4) [OF assms(1)] assms(1,2) by (auto simp: queue_ok_def store_ok_def)
  then have "eq_db (row_remove ?c ?s) = []" using c by (auto simp: row_remove_def filter_empty_conv) (metis image_eqI mset_single_iff set_mset_mset singletonD set_mset_single set_map mset_map)
  moreover have "length (eq_db q) = 1" using rows(1) by (metis length_map size_mset size_single)
  ultimately show ?thesis using s f ex assms(6) by (simp add: filter_queue_def updateVals_def row_remove_def Let_def)
qed

section \<open>Concrete queues\<close>

text \<open>Targets with positive ids exist, target 9 never rises, a script takes as many seconds as the id of its target.\<close>

definition example_sky :: sky where
  "example_sky = \<lparr>sk_exists = (\<lambda>i. 0 < i), sk_above = (\<lambda>i t. i \<noteq> 9), sk_constraints = (\<lambda>i t. True),
     sk_length = (\<lambda>i b. Some (i * USEC_SEC)), sk_ha = (\<lambda>i t. 0), sk_alt = (\<lambda>i t. i), sk_prio = (\<lambda>i. i),
     sk_higher = (\<lambda>t a b. a > b), sk_western = (\<lambda>t a b. a < b), sk_sat = (\<lambda>i a b l. Infinite),
     sk_time = (\<lambda>s. if s = ''nan'' then Some None else map_option Some (fst (paramNextInteger s))),
     sk_double = (\<lambda>s. if s = ''nan'' then Some None else map_option Some (fst (paramNextInteger s)))\<rparr>"

lemma new_queue_ok: "0 \<le> i \<Longrightarrow> queue_ok (new_ExecutorQueue i)"
  by (simp add: new_ExecutorQueue_def queue_ok_def store_ok_def row_ids_def)

definition example_queue :: "int \<Rightarrow> int list \<Rightarrow> exec_queue" where
  "example_queue t is =
     queue_step example_sky (QSettings t False True False False True True None)
       (fold (\<lambda>i. queue_step example_sky (QAdd i None None (-1) (-1) None (-1) False)) is (new_ExecutorQueue 0))"

lemma example_queue_ok: "queue_ok (example_queue t is)"
proof -
  have "queue_ok q \<Longrightarrow> queue_ok (fold (\<lambda>i. queue_step example_sky (QAdd i None None (-1) (-1) None (-1) False)) is q)" for q
    by (induction "is" arbitrary: q) (simp_all only: fold.simps comp_apply id_apply step_ok)
  then show ?thesis unfolding example_queue_def by (intro step_ok) (simp add: new_queue_ok)
qed

theorem rows_follow_entries_witness:
  "let r = fold (queue_step example_sky) [QConn (-1) False False None False ''3 5 7'', QMove 0 2, QRemove (-2)] (new_ExecutorQueue 0)
   in map qe_tar (eq_list r) = [5, 7] \<and> distinct (map qe_qid (eq_list r))"
proof -
  have "map qe_tar (eq_list (fold (queue_step example_sky) [QConn (-1) False False None False ''3 5 7'', QMove 0 2, QRemove (-2)] (new_ExecutorQueue 0))) = [5, 7]"
    by code_simp
  then show ?thesis
    using rows_follow_entries [OF new_queue_ok [of 0], of example_sky "[QConn (-1) False False None False ''3 5 7'', QMove 0 2, QRemove (-2)]"]
    by (simp only: Let_def)
qed

theorem queue_survives_restart_witness:
  "let (ret, r) = load_queue example_sky (restart (updateVals (example_queue QUEUE_FIFO [3, 5])))
   in ret = Ret () \<and> map (tid r) (eq_list r) = [3, 5]"
proof -
  have t: "map qe_tar (eq_list (example_queue QUEUE_FIFO [3, 5])) = [3, 5]" by code_simp
  then have "\<forall>i\<in>set (map qe_tar (eq_list (example_queue QUEUE_FIFO [3, 5]))). sk_exists example_sky i"
    by (simp add: example_sky_def)
  then have "\<forall>e\<in>set (eq_list (example_queue QUEUE_FIFO [3, 5])). sk_exists example_sky (qe_tar e)" by simp
  then show ?thesis using queue_survives_restart [OF example_queue_ok, of QUEUE_FIFO "[3, 5]" example_sky] t
    by (simp add: split_beta)
qed

definition example_selection :: "(selection \<times> qtime) outcome \<times> exec_queue" where
  "example_selection = selectNextObservation example_sky 0 None (Some (4 * USEC_SEC)) False (example_queue QUEUE_FIFO [9, 3, 5])"

theorem selected_is_observable_witness:
  "case eq_list (snd example_selection) of [] \<Rightarrow> False
   | e # es \<Rightarrow> tid (snd example_selection) e = 3 \<and> notExpired (60 * USEC_SEC) e \<and> sk_above example_sky 3 (Some (timet (60 * USEC_SEC)))"
proof -
  have "fst example_selection = Ret (Selected 3 (-1) 2 (Some False), None)" by code_simp
  then have "selectNextObservation example_sky 0 None (Some (4 * USEC_SEC)) False (example_queue QUEUE_FIFO [9, 3, 5])
      = (Ret (Selected 3 (-1) 2 (Some False), None), snd example_selection)"
    unfolding example_selection_def by (metis prod.collapse)
  moreover have "\<not> eq_block (example_queue QUEUE_FIFO [9, 3, 5])" "eq_check (example_queue QUEUE_FIFO [9, 3, 5])"
    "eq_test (example_queue QUEUE_FIFO [9, 3, 5])" by (simp_all add: example_queue_def)
  ultimately show ?thesis using selected_is_observable by (fastforce split: list.splits)
qed

lemma example_circular: "circular_ok example_sky (example_queue QUEUE_CIRCULAR [3, 5, 7])"
proof -
  let ?q = "example_queue QUEUE_CIRCULAR [3, 5, 7]"
  have "map (\<lambda>e. (tid ?q e, qe_start e, qe_end e, qe_rep_sep e)) (eq_list ?q) = [(3, None, None, None), (5, None, None, None), (7, None, None, None)]"
    by code_simp
  then have "\<forall>x\<in>set (map (\<lambda>e. (tid ?q e, qe_start e, qe_end e, qe_rep_sep e)) (eq_list ?q)).
      fst x \<in> {3, 5, 7} \<and> snd x = (None, None, None)" by simp
  then show ?thesis using example_queue_ok [of QUEUE_CIRCULAR "[3, 5, 7]"]
    by (auto simp: circular_ok_def timeless_def visible_def example_sky_def example_queue_def)
qed


theorem fifo_filter_reference_witness:
  "map qe_qid (eq_list (filterExpired 50 (queue_step example_sky (QTimes 1 (Some 40) None) (example_queue QUEUE_FIFO [3, 5, 7])))) = [2, 3]"
proof -
  let ?q = "queue_step example_sky (QTimes 1 (Some 40) None) (example_queue QUEUE_FIFO [3, 5, 7])"
  have "queue_ok ?q" by (intro step_ok example_queue_ok)
  moreover have "eq_type ?q = QUEUE_FIFO" by code_simp
  moreover have "map qe_qid (filter (\<lambda>e. \<not> past (qe_end e) 50 \<and> \<not> (started ?q e \<and> eq_remove ?q)) (from_last (due 50) (eq_list ?q))) = [2, 3]"
    by code_simp
  ultimately show ?thesis using fifo_filter_reference by simp
qed

theorem emptied_queue_undefined_witness:
  "fst (selectNextObservation example_sky 0 None None True
     ((new_ExecutorQueue 0)\<lparr>eq_block := True,
        eq_list := [\<lparr>qe_qid = 1, qe_queue = 0, qe_tar = 3, qe_plan = -1, qe_start = None, qe_end = Some 30, qe_rep_n = -1,
                     qe_rep_sep = None, qe_order = 0, qt_target = 0, qt_hard = False, qt_reported = False\<rparr>]\<rparr>)) = Undef"
  by (rule emptied_queue_undefined, simp_all add: new_ExecutorQueue_def) (simp add: past_def USEC_SEC_def queue_entry.defs)

theorem first_place_loses_repetitions_witness:
  "let es = eq_list (snd (queue_target example_sky 0 (Some ORDER_NONE) None \<lparr>qa_start = None, qa_end = None, qa_rep = 4, qa_sep = Some 60\<rparr> 7
              ((example_queue QUEUE_FIFO [3, 5])\<lparr>eq_objs := Map.empty(7 \<mapsto> \<lparr>to_id = 4, to_started = False\<rparr>)\<rparr>)))
   in qt_target (es ! 0) = 7 \<and> qe_rep_n (es ! 0) = -1 \<and> qe_rep_sep (es ! 0) = Some 0"
  by (rule first_place_loses_repetitions [where l = "4 * USEC_SEC"]) (code_simp | simp add: example_queue_def)+

theorem simulation_deletes_rows_witness:
  "let (ret, s) = SimulQueueTargets example_sky (example_queue QUEUE_FIFO [9]);
       (ok, ts, s1) = filter_queue example_sky 100 None True s
   in ret = Ret () \<and> length (eq_db s) = 1 \<and> eq_db s1 = []"
proof -
  let ?q = "example_queue QUEUE_FIFO [9]"
  have "map (\<lambda>e. (tid ?q e, qe_start e, qe_end e)) (eq_list ?q) = [(9, None, None)]" by code_simp
  then obtain e where e: "eq_list ?q = [e]" "tid ?q e = 9" "qe_start e = None" "qe_end e = None" by auto
  show ?thesis
    by (rule simulation_deletes_rows [OF example_queue_ok e(1)]) (use e in \<open>simp_all add: example_sky_def example_queue_def\<close>)
qed

end
