(* ===== verification/Rts2_SelectorRun.thy ===== *)
theory Rts2_SelectorRun
  imports Rts2_Selector Rts2_QueueCases Rts2_DomeRun
begin

text \<open>
  The selector with its queues: all queues and their tables stay in step whatever commands, messages
  and timers come; in a night that is left to the queues only an observable target is selected; a
  target whose observation starts leaves its queue; and what goes wrong on the way.
\<close>

section \<open>Queues of a selector\<close>

text \<open>The commands of every device keep what the selector adds to a device.\<close>

definition sel_hooks :: "('a selector_scheme) device_hooks" where
  "sel_hooks = \<lparr>dh_chg = device_stateChanged daemon_setValue maskQueValueBopState, dh_refresh = (\<lambda>d. (0, d)),
     dh_refresh_base = (\<lambda>d. (0, d)), dh_more = (\<lambda>conn w b d. (-5, d))\<rparr>"

lemma more_conns [simp]: "device.more (map_conns f d) = device.more d" "device.more (on_conn i g d) = device.more d"
  "device.more (block_masterStateChanged d) = device.more d"
  by (simp_all add: map_conns_def on_conn_def block_masterStateChanged_def Let_def)

lemma more_values [simp]:
  "device.more (sendValueDeleteAll v d) = device.more d" "device.more (snd (deleteValue n d)) = device.more d"
  "device.more (queDeviceStatusCommand conn d) = device.more d" "device.more (deleteTemporaryValues d) = device.more d"
proof -
  have f: "device.more (fold (\<lambda>x. map_conns (h x)) xs d) = device.more d" for xs and h :: "cond_value \<Rightarrow> connection \<Rightarrow> connection"
    by (induction xs arbitrary: d) simp_all
  then show "device.more (deleteTemporaryValues d) = device.more d"
    using f [of "\<lambda>cv. sendDelete (cv_value cv)" "filter (\<lambda>cv. isTemporary (cv_value cv)) (d_values d)"]
    by (simp add: deleteTemporaryValues_def sendValueDeleteAll_def)
qed (simp_all add: sendValueDeleteAll_def deleteValue_def queDeviceStatusCommand_def Let_def split: list.split)

lemma more_info [simp]:
  "device.more (snd (info_conn (\<lambda>d. (0, d)) conn d)) = device.more d" "device.more (snd (baseInfo_conn (\<lambda>d. (0, d)) conn d)) = device.more d"
  by (simp_all add: info_conn_def baseInfo_conn_def end_on_def Let_def split: prod.split)

lemma more_scriptEnds [simp]: "device.more (snd (scriptEnds d)) = device.more d"
  by (simp add: scriptEnds_def)

lemma more_kill [simp]:
  "device.more (snd (killAll (device_stateChanged daemon_setValue maskQueValueBopState) scriptEnds b d)) = device.more d"
  by (simp add: killAll_def case_prod_unfold Let_def)

lemma more_device_command [simp]: "device.more (snd (device_commandAuthorized sel_hooks conn w b d)) = device.more d"
proof -
  have "w = ''killall'' \<or> w = ''killall_wse'' \<or> device.more (snd (device_commandAuthorized sel_hooks conn w b d)) = device.more d"
    by (simp add: device_commandAuthorized_def sel_hooks_def scriptEnds_def split: prod.split option.split)
  then show ?thesis by (elim disjE) (simp_all add: device_commandAuthorized_def sel_hooks_def)
qed

lemma sel_same_more:
  assumes "device.more (d :: 'a selector_scheme) = device.more e"
  shows "sd_queues d = sd_queues e" "sd_lastQueue d = sd_lastQueue e" "sd_cur_queue d = sd_cur_queue e" "sd_next_id d = sd_next_id e"
    "sd_interrupt d = sd_interrupt e" "sd_cur_target d = sd_cur_target e"
  using assms by (cases d rule: selector.cases_scheme; cases e rule: selector.cases_scheme; simp)+

lemma more_send [simp]: "device.more (send_command i c d) = device.more d" "device.more (block_masterStateChanged d) = device.more d"
  by (simp_all add: send_command_def)

lemmas send_fields [simp] = sel_same_more [OF more_send(1)] sel_same_more [OF more_send(2)]

text \<open>The queues are in step with their tables, and the numbers of queues that are kept name queues.\<close>

definition sel_ok :: "nat \<Rightarrow> 'a selector_scheme \<Rightarrow> bool" where
  "sel_ok m d \<longleftrightarrow> list_all queue_ok (sd_queues d) \<and> length (sd_queues d) = m \<and> sd_lastQueue d \<le> m \<and> sd_cur_queue d \<le> m"

lemma sel_ok_device [simp]: "sel_ok m (snd (device_commandAuthorized sel_hooks conn w b d)) = sel_ok m d" "sel_ok m (send_command i c d) = sel_ok m d"
  "sel_ok m (block_masterStateChanged d) = sel_ok m d"
  by (simp_all add: sel_ok_def sel_same_more [OF more_device_command])

lemma list_all_update: "list_all P xs \<Longrightarrow> (n < length xs \<Longrightarrow> P (xs ! n) \<Longrightarrow> P y) \<Longrightarrow> list_all P (xs[n := y])"
  by (cases "n < length xs") (auto simp: list_all_length nth_list_update)

lemma sel_ok_update: "sel_ok m d \<Longrightarrow> (queue_ok (sd_queues d ! n) \<Longrightarrow> queue_ok q) \<Longrightarrow> sel_ok m (d\<lparr>sd_queues := (sd_queues d)[n := q]\<rparr>)"
  by (auto simp: sel_ok_def intro: list_all_update)

lemma sel_ok_fields [simp]:
  "sel_ok m (d\<lparr>sd_next_id := i\<rparr>) = sel_ok m d" "sel_ok m (d\<lparr>sd_nextTime := t\<rparr>) = sel_ok m d" "sel_ok m (d\<lparr>sd_interrupt := b\<rparr>) = sel_ok m d"
  "sel_ok m (d\<lparr>d_crashed := b\<rparr>) = sel_ok m d" "sel_ok m (d\<lparr>sd_last_auto := i\<rparr>) = sel_ok m d" "sel_ok m (d\<lparr>sd_next_qid := i\<rparr>) = sel_ok m d"
  "sel_ok m (d\<lparr>sd_next_plan := i\<rparr>) = sel_ok m d" "sel_ok m (d\<lparr>sd_next_started := b\<rparr>) = sel_ok m d" "sel_ok m (d\<lparr>sd_queueSelectUntil := u\<rparr>) = sel_ok m d"
  "sel_ok m (d\<lparr>sd_selectUntil := u\<rparr>) = sel_ok m d" "sel_ok m (d\<lparr>sd_idle_select := i\<rparr>) = sel_ok m d" "sel_ok m (d\<lparr>sd_selEnabled := b\<rparr>) = sel_ok m d"
  "sel_ok m (d\<lparr>sd_queueOnly := b\<rparr>) = sel_ok m d" "sel_ok m (d\<lparr>sd_cur_target := i\<rparr>) = sel_ok m d" "sel_ok m (d\<lparr>sd_cur_obs := i\<rparr>) = sel_ok m d"
  "sel_ok m (d\<lparr>sd_cur_qid := i\<rparr>) = sel_ok m d" "sel_ok m (d\<lparr>sd_cur_plan := i\<rparr>) = sel_ok m d" "sel_ok m (d\<lparr>sd_cur_start := u\<rparr>) = sel_ok m d"
  "sel_ok m (d\<lparr>sd_cur_end := u\<rparr>) = sel_ok m d"
  by (simp_all add: sel_ok_def)

lemma select_queues_ok:
  "list_all queue_ok qs \<Longrightarrow> select_queues env now n qs nt len qsu rm = (r, qs1, qsu1) \<Longrightarrow>
     list_all queue_ok qs1 \<and> length qs1 = length qs \<and> (case r of Ret (Some p) \<Rightarrow> n \<le> fst p \<and> fst p < n + length qs | _ \<Rightarrow> True)"
proof (induction qs arbitrary: n nt len qsu rm r qs1 qsu1)
  case Nil
  then show ?case by auto
next
  case (Cons q qs)
  obtain o1 q1 where s: "selectNextObservation (se_sky env) now nt len rm q = (o1, q1)" by fastforce
  have ok: "queue_ok q1" using select_ok [of q "se_sky env" now nt len rm] Cons.prems(1) s by simp
  have rest: "list_all queue_ok qs2 \<and> length qs2 = length qs \<and> (case r2 of Ret (Some p) \<Rightarrow> n \<le> fst p \<and> fst p < n + Suc (length qs) | _ \<Rightarrow> True)"
    if "select_queues env now (Suc n) qs nt2 len2 qsu2 rm2 = (r2, qs2, qsu3)" for nt2 len2 qsu2 rm2 r2 qs2 qsu3
    using Cons.IH [OF _ that] Cons.prems(1) by (auto split: outcome.splits option.splits)
  have "(\<exists>nt2 len2 qsu2 rm2. select_queues env now (Suc n) qs nt2 len2 qsu2 rm2 = (r, tl qs1, qsu1) \<and> qs1 = q1 # tl qs1)
      \<or> (qs1 = q1 # qs \<and> (case r of Ret (Some p) \<Rightarrow> fst p = n | _ \<Rightarrow> True))"
    using Cons.prems(2) s by (auto simp: Let_def split: outcome.splits selection.splits prod.splits option.splits if_splits; blast)
  then show ?case
  proof
    assume "\<exists>nt2 len2 qsu2 rm2. select_queues env now (Suc n) qs nt2 len2 qsu2 rm2 = (r, tl qs1, qsu1) \<and> qs1 = q1 # tl qs1"
    then have "list_all queue_ok (tl qs1) \<and> length (tl qs1) = length qs \<and> (case r of Ret (Some p) \<Rightarrow> n \<le> fst p \<and> fst p < n + Suc (length qs) | _ \<Rightarrow> True)" "qs1 = q1 # tl qs1"
      using rest by blast+
    then show ?thesis using ok by (cases qs1) (auto simp: length_Cons split: outcome.splits option.splits)
  next
    assume "qs1 = q1 # qs \<and> (case r of Ret (Some p) \<Rightarrow> fst p = n | _ \<Rightarrow> True)"
    then show ?thesis using ok Cons.prems(1) by (auto split: outcome.splits option.splits)
  qed
qed

lemma selectNext_ok: "sel_ok m d \<Longrightarrow> sel_ok m (snd (selectNext env now d))"
proof -
  assume ok: "sel_ok m d"
  obtain r qs u where s: "select_queues env now 1 (sd_queues d) None (map_option (\<lambda>s. s - now) (sd_selectUntil d)) None True = (r, qs, u)"
    by (metis prod_cases3)
  have q: "list_all queue_ok qs" "length qs = m" and r: "case r of Ret (Some p) \<Rightarrow> fst p \<le> m | _ \<Rightarrow> True"
    using select_queues_ok [OF _ s] ok by (auto simp: sel_ok_def split: outcome.splits option.splits)
  have a: "sel_ok m (snd (auto_target i e)) = sel_ok m e" for i and e :: "'a selector_scheme" by (simp add: auto_target_def)
  have p: "sel_ok m (snd (queue_picked b x (d\<lparr>sd_queues := qs, sd_queueSelectUntil := u\<rparr>)))" if "fst x \<le> m" for b x
    using that q ok by (auto simp: queue_picked_def sel_ok_def split: prod.split)
  have z: "sel_ok m (d\<lparr>sd_queueSelectUntil := None, sd_queues := qs, sd_queueSelectUntil := u, sd_lastQueue := 0\<rparr>)"
    "sel_ok m (d\<lparr>sd_queueSelectUntil := None, sd_queues := qs, sd_queueSelectUntil := u\<rparr>)"
    using q ok by (simp_all add: sel_ok_def)
  show ?thesis using ok s r z
    by (auto simp: selectNext_def Let_def a p split: option.splits outcome.splits)
qed

lemma send_next_ok [simp]: "sel_ok m (send_next d) = sel_ok m d"
  by (simp add: send_next_def split: option.split)

lemma next_selected_ok: "sel_ok m d \<Longrightarrow> sel_ok m (snd (next_selected env now d))"
  using selectNext_ok [of m d env now] by (auto simp: next_selected_def Let_def split: prod.split)

lemma start_observation_ok: "queue_ok q \<Longrightarrow> eq_list q = e # es \<Longrightarrow> queue_ok (startObservation (qt_target e) q)"
  using start_ok [of q 0] by (simp add: start_entry_def)

lemma observation_started_ok: "sel_ok m d \<Longrightarrow> sel_ok m (observation_started env now tar obs d)"
proof -
  assume ok: "sel_ok m d"
  let ?n = "sd_lastQueue d - 1" and ?q = "sd_queues d ! (sd_lastQueue d - 1)"
  have lost: "sel_ok m (d\<lparr>sd_cur_queue := 0\<rparr>)" "sd_lastQueue d \<le> m" using ok by (simp_all add: sel_ok_def)
  show ?thesis
  proof (cases "sd_lastQueue d = 0 \<or> eq_list ?q = []")
    case True
    then show ?thesis using ok by (auto simp: observation_started_def Let_def sel_ok_def)
  next
    case False
    then obtain e es where e: "eq_list ?q = e # es" by (cases "eq_list ?q") auto
    obtain r q1 where b: "beforeChange (se_sky env) now (startObservation (qt_target e) ?q) = (r, q1)" by fastforce
    have "queue_ok ?q \<Longrightarrow> queue_ok q1" using beforeChange_ok [OF start_observation_ok, of ?q e es "se_sky env" now] e b by simp
    then have u: "sel_ok m (d\<lparr>sd_queues := (sd_queues d)[?n := q1]\<rparr>)" by (rule sel_ok_update [OF ok])
    show ?thesis using ok u e b False by (simp add: observation_started_def Let_def sel_ok_def)
  qed
qed

lemma updateNext_ok: "sel_ok m d \<Longrightarrow> sel_ok m (snd (updateNext env now obs d))"
  by (auto simp: updateNext_def Let_def next_selected_ok observation_started_ok split: option.split)

lemma executor_connected_ok: "sel_ok m d \<Longrightarrow> sel_ok m (executor_connected env now conn d)"
  by (simp add: executor_connected_def Let_def updateNext_ok)

lemma new_on_queue_ok:
  assumes "sel_ok m d" "\<And>p q. queue_ok q \<Longrightarrow> unused p (keys (eq_list q)) q \<Longrightarrow> queue_ok (f p q)"
  shows "sel_ok m (new_on_queue env n i f d)"
proof -
  obtain r q1 where c: "createTarget (se_sky env) i (sd_queues d ! n) = (r, q1)" by fastforce
  have "queue_ok (f p q1)" if "queue_ok (sd_queues d ! n)" "r = Some p" for p
    using assms(2) create_queue_ok [OF that(1)] c that(2) by blast
  then show ?thesis using assms(1) c by (auto simp: new_on_queue_def intro: sel_ok_update split: option.split)
qed

lemma sel_message_ok: "sel_ok m d \<Longrightarrow> sel_ok m (sel_message env now mid s d)"
  by (auto simp: sel_message_def requeue_interrupted_def Let_def updateNext_ok new_on_queue_ok addTarget_ok(2))

lemma afterQueueChange_ok: "sel_ok m d \<Longrightarrow> sel_ok m (snd (afterQueueChange env now n d))"
proof -
  assume ok: "sel_ok m d"
  obtain r q1 where b: "beforeChange (se_sky env) now (sd_queues d ! n) = (r, q1)" by fastforce
  have "sel_ok m (d\<lparr>sd_queues := (sd_queues d)[n := q1]\<rparr>)"
    using beforeChange_ok [of "sd_queues d ! n" "se_sky env" now] b by (intro sel_ok_update [OF ok]) simp
  then show ?thesis using ok b
    by (auto simp: afterQueueChange_def Let_def intro: updateNext_ok sel_ok_update split: outcome.split option.split)
qed

lemma change_queue_ok:
  assumes "sel_ok m d" "queue_ok (sd_queues d ! n) \<Longrightarrow> queue_ok (snd r)"
  shows "sel_ok m (snd (change_queue env now n r d))"
  using sel_ok_update [OF assms] afterQueueChange_ok [OF sel_ok_update [OF assms], where env = env and now = now]
  by (simp add: change_queue_def Let_def split: outcome.split)

lemma queue_plans_ok: "queue_ok q \<Longrightarrow> queue_plans env ps q = Ret q1 \<Longrightarrow> queue_ok q1"
proof (induction env ps q rule: queue_plans.induct)
  case (2 env t s e plan ps q)
  obtain r q2 where c: "createTarget (se_sky env) t q = (r, q2)" by fastforce
  then obtain p where p: "r = Some p" using 2(3) by (cases r) auto
  have "queue_ok (snd (addTarget p (Some s) (Some e) plan (-1) None (-1) False q2))"
    using create_queue_ok [OF 2(2)] c p by (intro addTarget_ok(1)) blast+
  then show ?case using 2 c p by simp
qed simp

lemma queuePlan_ok: "sel_ok m d \<Longrightarrow> sel_ok m (queuePlan env now t n d)"
proof -
  assume ok: "sel_ok m d"
  let ?q = "(clearNext (sd_queues d ! n))\<lparr>eq_skip := True\<rparr>"
  have q: "queue_ok ?q" if "queue_ok (sd_queues d ! n)" using clearNext_ok [OF that] by (simp add: queue_ok_def store_ok_def)
  have "sel_ok m (d\<lparr>sd_queues := (sd_queues d)[n := q1]\<rparr>)" if "queue_plans env (se_plans env now (now + t)) ?q = Ret q1" for q1
    by (rule sel_ok_update [OF ok]) (rule queue_plans_ok [OF q that])
  moreover have "sel_ok m (d\<lparr>sd_queues := (sd_queues d)[n := ?q]\<rparr>)" using q by (rule sel_ok_update [OF ok])
  ultimately show ?thesis by (auto simp: queuePlan_def Let_def split: outcome.split)
qed

lemma queuePlanId_ok: "sel_ok m d \<Longrightarrow> sel_ok m (snd (queuePlanId env i n d))"
proof -
  assume ok: "sel_ok m d"
  have "sel_ok m (d\<lparr>sd_queues := (sd_queues d)[n := snd (addTarget p ts te (-1) plan None (-1) False q1)]\<rparr>)"
    if c: "createTarget (se_sky env) t (sd_queues d ! n) = (Some p, q1)" for t p q1 ts te plan
    using create_queue_ok [OF _ c] by (intro sel_ok_update [OF ok] addTarget_ok(1)) blast+
  then show ?thesis using ok by (auto simp: queuePlanId_def split: option.split prod.split)
qed

lemma queueFromConn_ok: "queue_ok q \<Longrightarrow> queue_ok (snd (queueFromConn w i wt first n reps b q))"
  using queue_loop_ok by (auto simp: queueFromConn_def Let_def split: prod.split option.split)

lemma queue_cmd_ok: "sel_ok m d \<Longrightarrow> sel_ok m (snd (queue_cmd env now w n b d))"
proof -
  assume ok: "sel_ok m d"
  have f: "sel_ok m (snd (queue_from_conn env now w' i b' n d))" for w' i b'
    unfolding queue_from_conn_def by (rule change_queue_ok [OF ok queueFromConn_ok])
  have c: "sel_ok m (d\<lparr>sd_queues := (sd_queues d)[n := clearNext (sd_queues d ! n)]\<rparr>)" by (rule sel_ok_update [OF ok clearNext_ok])
  have i: "queuePlanId env k n d = (r, d1) \<Longrightarrow> sel_ok m d1" for k r d1 using queuePlanId_ok [OF ok, of env k n] by simp
  show ?thesis using ok f c
    by (auto simp: queue_cmd_def Let_def updateNext_ok queuePlan_ok dest: i split: option.splits prod.splits)
qed

lemma now_cmd_ok: "sel_ok m d \<Longrightarrow> sel_ok m (snd (now_cmd env now once n i d))"
proof -
  assume ok: "sel_ok m d"
  have u: "sel_ok m (d\<lparr>sd_queues := (sd_queues d)[n := snd (snd (filter_queue w t None True (snd (addFront p None None q1))))]\<rparr>)"
    if c: "createTarget (se_sky env) i (sd_queues d ! n) = (Some p, q1)" for p q1 w t
    using create_queue_ok [OF _ c] by (intro sel_ok_update [OF ok] filter_ok addTarget_ok(2)) blast+
  show ?thesis using ok u by (auto simp: now_cmd_def Let_def intro: updateNext_ok split: option.splits prod.splits list.splits)
qed

lemma sel_command_ok:
  assumes ok: "sel_ok m d" and dc: "\<And>conn w b. sel_ok m (snd (dc conn w b d))"
  shows "sel_ok m (snd (sel_commandAuthorized env dc now conn w b d))"
proof -
  have q: "sel_ok m (snd (change_queue env now n r d))" if "queue_ok (sd_queues d ! n) \<Longrightarrow> queue_ok (snd r)" for n r
    by (rule change_queue_ok [OF ok that])
  have named: "sel_ok m (snd (case paramNextString [] b of (None, r) \<Rightarrow> (-2, d) | (Some s, r) \<Rightarrow> f s r))"
    if "\<And>s r. sel_ok m (snd (f s r))" for f b using that ok by (simp split: prod.split option.split)
  have found: "sel_ok m (snd (case findQueue s d of None \<Rightarrow> (-2, d) | Some n \<Rightarrow> f n (sd_queues d ! n)))"
    if "\<And>n. sel_ok m (snd (f n (sd_queues d ! n)))" for f s using that ok by (simp split: option.split)
  have number: "sel_ok m (snd (case paramNextInteger r of (None, r1) \<Rightarrow> (-2, d) | (Some i, r1) \<Rightarrow> f i r1))"
    if "\<And>s r. sel_ok m (snd (f s r))" for f r using that ok by (simp split: prod.split option.split)
  have time: "sel_ok m (snd (case paramNextWith (sk_time (se_sky env)) r of (None, r1) \<Rightarrow> (-2, d) | (Some t, r1) \<Rightarrow> f t r1))"
    if "\<And>s r. sel_ok m (snd (f s r))" for f r using that ok by (simp split: prod.split option.split)
  have branch: "sel_ok m (snd (if c then x else y))" if "sel_ok m (snd x)" "sel_ok m (snd y)" for c x y using that by simp
  have bad: "sel_ok m (snd (-2, d))" using ok by simp
  have upd: "sel_ok m (snd (if fst (updateNext env now obs d) = 0 then 0 else -2, snd (updateNext env now obs d)))" for obs
    by (simp add: updateNext_ok [OF ok])
  have returned: "queue_ok (snd (returned r))" if "queue_ok (snd r)" for r using that by (simp add: returned_def)
  show ?thesis
    unfolding sel_commandAuthorized_def Let_def
    by (intro branch bad named found number time upd dc q queue_cmd_ok [OF ok] now_cmd_ok [OF ok] qids_ok returned removeIndex_ok moveIndex_ok
          updateIndexTimes_ok)
qed

lemma queue_timer_ok: "sel_ok m d \<Longrightarrow> sel_ok m (queue_timer env now d)"
  by (simp add: queue_timer_def Let_def updateNext_ok)

lemma queue_ok_enabled [simp]: "queue_ok (q\<lparr>eq_enabled := b\<rparr>) = queue_ok q"
  by (simp add: queue_ok_def store_ok_def)

lemma sel_change_ok: "sel_ok m d \<Longrightarrow> sel_ok m (sel_change env now v d)"
  by (cases v) (auto simp: sel_change_def Let_def intro!: updateNext_ok sel_ok_update rep_changed_ok)

lemma sel_master_ok: "sel_ok m d \<Longrightarrow> sel_ok m (sel_changeMasterState env now old new d)"
  by (auto simp: sel_changeMasterState_def updateSelectLength_def Let_def updateNext_ok)

lemma sel_step_ok: "sel_ok m d \<Longrightarrow> sel_ok m (sel_step env (device_commandAuthorized sel_hooks) ev d)"
  by (cases ev)
    (simp_all add: sel_command_ok sel_message_ok updateNext_ok queue_timer_ok executor_connected_ok sel_change_ok sel_master_ok)


section \<open>A night that is left to the queues\<close>

text \<open>The first entry of a queue can be observed at \<open>t\<close>; \<open>i\<close> is its target.\<close>

definition front_visible :: "sky \<Rightarrow> int \<Rightarrow> int \<Rightarrow> exec_queue \<Rightarrow> bool" where
  "front_visible w t i q =
     (case eq_list q of [] \<Rightarrow> False
      | e # es \<Rightarrow> tid q e = i \<and> notExpired t e \<and> sk_above w i (Some (timet t)) \<and> sk_constraints w i (Some (timet t)))"

abbreviation strict :: "exec_queue \<Rightarrow> bool" where
  "strict q \<equiv> \<not> eq_block q \<and> eq_check q \<and> eq_test q"

lemma selected_front:
  assumes "selectNextObservation w now nt len r q = (Ret (Selected i plan qid hard, nt1), q1)" "strict q"
  shows "front_visible w (now + 60 * USEC_SEC) i q1"
  using selected_front_visible [OF assms(1)] assms(2) by (auto simp: front_visible_def split: list.splits)

lemma select_queues_picked:
  "select_queues env now n qs nt len qsu rm = (Ret (Some (k, i, rest)), qs1, u) \<Longrightarrow> list_all strict qs \<Longrightarrow>
     n \<le> k \<and> 0 \<le> i \<and> k - n < length qs1 \<and> front_visible (se_sky env) (now + 60 * USEC_SEC) i (qs1 ! (k - n))"
proof (induction qs arbitrary: n nt len qsu rm qs1 u)
  case Nil
  then show ?case by simp
next
  case (Cons q qs)
  obtain o1 q1 where s: "selectNextObservation (se_sky env) now nt len rm q = (o1, q1)" by fastforce
  have "(\<exists>nt2 len2 qsu2 rm2 qs2. select_queues env now (Suc n) qs nt2 len2 qsu2 rm2 = (Ret (Some (k, i, rest)), qs2, u) \<and> qs1 = q1 # qs2)
      \<or> (\<exists>plan qid hard nt1. o1 = Ret (Selected i plan qid hard, nt1) \<and> 0 \<le> i \<and> k = n \<and> qs1 = q1 # qs)"
    using Cons.prems(1) s by (auto simp: Let_def split: outcome.splits selection.splits prod.splits if_splits; blast)
  then show ?case
  proof (elim disjE exE conjE)
    fix nt2 len2 qsu2 rm2 qs2
    assume r: "select_queues env now (Suc n) qs nt2 len2 qsu2 rm2 = (Ret (Some (k, i, rest)), qs2, u)" "qs1 = q1 # qs2"
    have ih: "Suc n \<le> k \<and> 0 \<le> i \<and> k - Suc n < length qs2 \<and> front_visible (se_sky env) (now + 60 * USEC_SEC) i (qs2 ! (k - Suc n))"
      using Cons.IH [OF r(1)] Cons.prems(2) by simp
    then have "k - n = Suc (k - Suc n)" by linarith
    then show ?thesis using ih r(2) by simp
  next
    fix plan qid hard nt1
    assume r: "o1 = Ret (Selected i plan qid hard, nt1)" "0 \<le> i" "k = n" "qs1 = q1 # qs"
    then show ?thesis using selected_front [of "se_sky env" now nt len rm q i plan qid hard nt1 q1] s Cons.prems(2) by simp
  qed
qed


section \<open>The start of an observation\<close>

abbreviation qids :: "exec_queue \<Rightarrow> int list" where
  "qids q \<equiv> map qe_qid (eq_list q)"

lemma qids_updateVals [simp]: "qids (updateVals q) = qids q"
  by (simp add: updateVals_def number_entries_map Let_def)

lemma qid_set_updateVals [simp]: "qe_qid ` set (eq_list (updateVals q)) = qe_qid ` set (eq_list q)"
  by (metis qids_updateVals list.set_map)

lemma unobservable_qids:
  "filterUnobservable w now m r es q = (rest, skipped, q1) \<Longrightarrow> qe_qid ` set rest \<subseteq> qe_qid ` set es \<and> qe_qid ` set skipped \<subseteq> qe_qid ` set es"
proof (induction es arbitrary: q rest skipped q1)
  case (Cons e es)
  have step: ?case if "filterUnobservable w now m r es p = (rest, sk, q1)" "skipped = sk \<or> skipped = e\<lparr>qt_reported := True\<rparr> # sk" for p sk
    using Cons.IH [OF that(1)] that(2) by (elim disjE conjE) (simp_all add: subset_insertI2)
  have "(\<exists>p sk. filterUnobservable w now m r es p = (rest, sk, q1) \<and> (skipped = sk \<or> skipped = e\<lparr>qt_reported := True\<rparr> # sk))
      \<or> (skipped = [] \<and> (rest = e\<lparr>qt_reported := False\<rparr> # es \<or> rest = e # es))"
    using Cons.prems unfolding filterUnobservable.simps Let_def by (simp only: split: if_splits prod.splits) blast+
  then show ?case
  proof
    assume "skipped = [] \<and> (rest = e\<lparr>qt_reported := False\<rparr> # es \<or> rest = e # es)"
    then show ?thesis by auto
  qed (use step in blast)
qed simp

lemma filter_qids: "qe_qid ` set (eq_list (snd (snd (filter_queue w now m r q)))) \<subseteq> qe_qid ` set (eq_list (filterExpired now q))"
proof -
  obtain rest skipped q2 where u: "filterUnobservable w now m r (eq_list (filterExpired now q)) (filterExpired now q) = (rest, skipped, q2)"
    by (metis prod_cases3)
  note s = unobservable_qids [OF u]
  show ?thesis
  proof (cases rest)
    case Nil
    then show ?thesis using u s by (simp add: filter_queue_def Let_def)
  next
    case (Cons e es)
    then show ?thesis using u s by (simp add: filter_queue_def Let_def image_Un)
  qed
qed

lemma started_goes:
  assumes "queue_ok q" "eq_type q = QUEUE_FIFO" "eq_remove q" "e \<in> set (eq_list q)" "started q e"
  shows "qe_qid e \<notin> set (qids (filterExpired now q))"
proof
  assume "qe_qid e \<in> set (qids (filterExpired now q))"
  then obtain f where f: "f \<in> set (eq_list (filterExpired now q))" "qe_qid f = qe_qid e" by auto
  then have "f \<in> set (eq_list q)" "\<not> started q f"
    using fifo_filter_list [OF assms(1,2)] assms(3) by (auto dest: from_last_subset)
  moreover have "f = e" using f(2) calculation(1) assms(4) queue_ok_distinct(1) [OF assms(1)] by (metis distinct_map inj_onD)
  ultimately show False using assms(5) by simp
qed

text \<open>C17: once the executor reports the start of the first entry of a first-in first-out queue that removes
  what was observed, an entry that is not to be repeated is the current target and is no longer in the queue.\<close>

theorem observed_target_leaves_queue:
  fixes d :: "'a selector_scheme" and n
  defines "n \<equiv> sd_lastQueue d - 1"
  assumes "0 < sd_lastQueue d" "sd_lastQueue d \<le> length (sd_queues d)" "queue_ok (sd_queues d ! n)"
    and "eq_type (sd_queues d ! n) = QUEUE_FIFO" "eq_remove (sd_queues d ! n)"
    and "eq_list (sd_queues d ! n) = e # es" "qe_rep_n e \<le> 1"
  shows "let d1 = observation_started env now (tid (sd_queues d ! n) e) obs d
         in sd_cur_target d1 = tid (sd_queues d ! n) e \<and> sd_cur_queue d1 = n + 1 \<and> sd_cur_qid d1 = qe_qid e
            \<and> qe_qid e \<notin> set (map qe_qid (eq_list (sd_queues d1 ! n)))"
proof -
  let ?q = "startObservation (qt_target e) (sd_queues d ! n)"
  have q: "queue_ok ?q" "eq_list ?q = e # es" "eq_type ?q = QUEUE_FIFO" "eq_remove ?q" "started ?q e"
    using start_observation_ok [OF assms(4,7)] assms by (simp_all add: startObservation_def started_def tobj_def)
  have b: "beforeChange (se_sky env) now ?q = (Ret (), snd (snd (filter_queue (se_sky env) now None True ?q)))"
    using q(2,3) assms(8) by (simp add: beforeChange_def sortQueue_def Let_def queue_types)
  have "qe_qid e \<notin> set (qids (snd (snd (filter_queue (se_sky env) now None True ?q))))"
    using started_goes [OF q(1,3,4) _ q(5), of now] filter_qids [of "se_sky env" now None True ?q] q(2) by auto
  then show ?thesis using assms b by (simp add: observation_started_def Let_def n_def)
qed

section \<open>Where the selector goes wrong\<close>

lemma first_word: "- (2 ^ 31) \<le> i \<Longrightarrow> i < 2 ^ 31 \<Longrightarrow> getMessageArgInt 1 (show_int i @ CHR '' '' # s) = i"
proof -
  assume i: "- (2 ^ 31) \<le> i" "i < 2 ^ 31"
  have n: "c \<noteq> CHR '' ''" if "c \<in> set (show_int i)" for c using show_int_chars(1) [OF that] by (auto simp: isspace_def)
  obtain c cs where s: "show_int i = c # cs" by (meson show_int_not_Nil neq_Nil_conv)
  have "getMessageArg 1 (show_int i @ CHR '' '' # s) = show_int i"
    using n s by (auto simp: getMessageArg_def takeWhile_append2)
  then show ?thesis using i by (simp add: getMessageArgInt_def strtol_show_int clamp64_id to_int32_id)
qed

text \<open>A target that the executor interrupts does not return to its queue: the message starts with the id of
  the observation, and the selector compares that id with its target.\<close>

theorem interrupted_target_lost:
  assumes "- (2 ^ 31) \<le> obs" "obs < 2 ^ 31" "sd_cur_target d \<noteq> obs"
  shows "sel_message env now INFO_OBSERVATION_INTERRUPTED
           (show_int obs @ '' '' @ show_int (sd_cur_target d) @ '' '' @ show_int plan) d = d"
  using assms by (simp add: sel_message_def message_ids first_word [unfolded One_nat_def])

lemma no_length_no_hard:
  "select_queues env now n qs nt None qsu rm = (Ret (Some (k, i, plan, qid, hard)), qs1, u) \<Longrightarrow> hard = None"
proof (induction qs arbitrary: n nt qsu rm qs1 u)
  case (Cons q qs)
  obtain o1 q1 where s: "selectNextObservation (se_sky env) now nt None rm q = (o1, q1)" by fastforce
  have "(\<exists>nt2 qsu2 rm2 qs2. select_queues env now (Suc n) qs nt2 None qsu2 rm2 = (Ret (Some (k, i, plan, qid, hard)), qs2, u))
      \<or> (\<exists>nt1. o1 = Ret (Selected i plan qid hard, nt1))"
    using Cons.prems s by (auto simp: Let_def split: outcome.splits selection.splits prod.splits option.splits if_splits; blast)
  then show ?case using Cons.IH s by (auto simp: selectNextObservation_def Let_def split: if_splits prod.splits list.splits)
qed simp

text \<open>While the end of the selection is not known, the queues leave \<open>hard\<close> alone, and whether the current
  observation is interrupted depends on what an uninitialized variable holds.\<close>

theorem interrupt_undetermined:
  assumes "selectNext env now d = (i, d1)" "i \<ge> 0" "sd_queueOnly d" "getMasterState d = SERVERD_NIGHT" "sd_selectUntil d = None"
  shows "sd_interrupt d1 = se_junk env"
proof -
  obtain r qs u where s: "select_queues env now 1 (sd_queues d) None None None True = (r, qs, u)" by (metis prod_cases3)
  have h: "hard = None" if "r = Ret (Some (k, j, plan, qid, hard))" for k j plan qid hard
    using no_length_no_hard s that by blast
  show ?thesis
    using assms s by (auto simp: selectNext_def auto_target_def queue_picked_def getMasterState_def Let_def split: option.splits outcome.splits if_splits dest: h)
qed

lemma pick_forgets: "queue_picked junk p (d\<lparr>sd_interrupt := b, sd_queueSelectUntil := None, sd_queues := qs, sd_queueSelectUntil := u\<rparr>)
    = queue_picked junk p (d\<lparr>sd_queueSelectUntil := None, sd_queues := qs, sd_queueSelectUntil := u\<rparr>)"
  by (simp add: queue_picked_def split: prod.split)

text \<open>When a queue selects the next target, it does not matter whether an interruption was asked for before:
  the request that \<open>now\<close> and the timers of the queues leave behind is forgotten.\<close>

theorem interrupt_request_forgotten:
  assumes "selectNext env now d = (i, d1)" "i \<ge> 0" "sd_queueOnly d" "getMasterState d = SERVERD_NIGHT"
  shows "selectNext env now (d\<lparr>sd_interrupt := b\<rparr>) = (i, d1)"
proof -
  obtain r qs u where s: "select_queues env now 1 (sd_queues d) None (map_option (\<lambda>s. s - now) (sd_selectUntil d)) None True = (r, qs, u)"
    by (metis prod_cases3)
  then obtain auto p where a: "se_auto env SERVERD_NIGHT (map_option (\<lambda>s. s - now) (sd_selectUntil d)) (sd_ignoreDay d) = Some auto"
      "r = Ret (Some p)" "sd_queues d \<noteq> []"
    using assms by (auto simp: selectNext_def auto_target_def getMasterState_def Let_def split: option.splits outcome.splits if_splits)
  have m: "may_observe d" "may_observe (d\<lparr>sd_interrupt := b\<rparr>)" "getMasterState (d\<lparr>sd_interrupt := b\<rparr>) = SERVERD_NIGHT"
    using assms(4) by (simp_all add: may_observe_def getMasterState_def)
  show ?thesis using assms(1) s a m assms(3,4) pick_forgets [where junk = "se_junk env" and p = p and d = d and b = b and qs = qs and u = u]
    by (simp add: selectNext_def Let_def)
qed

text \<open>A plan that is queued by its id becomes the last entry of the queue, without the id of the plan and to be
  repeated as many times as the id says.\<close>

theorem queued_plan_becomes_repetitions:
  assumes "queuePlanId env i n d = (0, d1)" "se_plan env i = Some (t, s, e, plan)" "n < length (sd_queues d)"
    and "\<not> eq_simul (sd_queues d ! n)"
  shows "let es = eq_list (sd_queues d1 ! n)
         in length es = length (eq_list (sd_queues d ! n)) + 1 \<and> qe_plan (last es) = -1 \<and> qe_rep_n (last es) = plan"
proof -
  let ?q = "sd_queues d ! n"
  obtain p q1 where c: "createTarget (se_sky env) t ?q = (Some p, q1)"
    using assms(1,2) by (auto simp: queuePlanId_def split: prod.splits option.splits)
  have q1: "eq_list q1 = eq_list ?q" "eq_simul q1 = eq_simul ?q" using c by (auto simp: createTarget_def Let_def split: if_splits)
  have f: "findIndex (-1) es = length es" for es :: "queued_target list" by (simp add: findIndex_def)
  have l: "number_entries k (es @ [x]) = number_entries k es @ [x\<lparr>qe_order := k + int (length es)\<rparr>]" "length (number_entries k es) = length es" for k x es
    by (induction k es rule: number_entries.induct) (auto simp: algebra_simps)
  show ?thesis using assms c q1
    by (auto simp: queuePlanId_def addTarget_def new_queued_def row_create_def updateVals_def insert_at_def f l Let_def)
qed

section \<open>A concrete selector\<close>

text \<open>A night, one queue, only queues select; the automatic selection would take target 1000.\<close>

definition example_selector :: "exec_queue \<Rightarrow> qtime \<Rightarrow> selector" where
  "example_selector q until = device.extend ((example_device 0)\<lparr>bl_masterState := SERVERD_NIGHT\<rparr>)
     \<lparr>sd_queues = [q], sd_names = [''plan''], sd_next_id = -1, sd_next_qid = -1, sd_next_plan = -1, sd_next_started = False,
      sd_selectUntil = until, sd_queueSelectUntil = None, sd_nextTime = 0, sd_interrupt = False, sd_idle_select = 30, sd_night_idle = 300,
      sd_selEnabled = True, sd_queueOnly = True, sd_lastQueue = 1, sd_cur_target = 3, sd_cur_qid = -1, sd_cur_plan = -1,
      sd_cur_start = None, sd_cur_end = None, sd_cur_queue = 1, sd_cur_obs = 77, sd_ignoreDay = False, sd_last_auto = -1\<rparr>"

definition example_env :: sel_env where
  "example_env = \<lparr>se_sky = example_sky, se_auto = (\<lambda>s l b. Some 1000), se_bonus = (\<lambda>i. 1), se_junk = True,
     se_plans = (\<lambda>a b. []), se_plan = (\<lambda>i. Some (5, 10, 20, i)), se_evening = None, se_dawn = None\<rparr>"

lemma example_selector_fields [simp]:
  "sd_queues (example_selector q u) = [q]" "sd_lastQueue (example_selector q u) = 1" "sd_cur_queue (example_selector q u) = 1"
  "sd_queueOnly (example_selector q u)" "sd_selectUntil (example_selector q u) = u" "sd_cur_target (example_selector q u) = 3"
  "getMasterState (example_selector q u) = SERVERD_NIGHT"
  by (simp_all add: example_selector_def device.defs getMasterState_def status_bits)


definition example_next :: "qtime \<Rightarrow> int \<times> selector" where
  "example_next u = selectNext example_env 0 (example_selector (example_queue QUEUE_FIFO [9, 3, 5]) u)"


theorem observed_target_leaves_queue_witness:
  "let d1 = observation_started example_env 5 3 78 (example_selector ((example_queue QUEUE_FIFO [3, 5])\<lparr>eq_remove := True\<rparr>) None)
   in sd_cur_target d1 = 3 \<and> 1 \<notin> set (map qe_qid (eq_list (sd_queues d1 ! 0)))"
proof -
  let ?q = "(example_queue QUEUE_FIFO [3, 5])\<lparr>eq_remove := True\<rparr>"
  have "map (\<lambda>e. (tid ?q e, qe_qid e, qe_rep_n e)) (eq_list ?q) = [(3, 1, -1), (5, 2, -1)]" by code_simp
  then obtain e es where e: "eq_list ?q = e # es" "tid ?q e = 3" "qe_qid e = 1" "qe_rep_n e = -1" by auto
  have s: "eq_type ?q = QUEUE_FIFO" "eq_remove ?q" by code_simp+
  have ok: "queue_ok ?q" using example_queue_ok [of QUEUE_FIFO "[3, 5]"] by (simp add: queue_ok_def store_ok_def)
  show ?thesis
    using observed_target_leaves_queue [of "example_selector ?q None" e es example_env 5 78] e s ok
    by (simp add: Let_def)
qed

theorem interrupted_target_lost_witness:
  "sel_message example_env 5 INFO_OBSERVATION_INTERRUPTED (show_int 77 @ '' '' @ show_int 3 @ '' '' @ show_int (-1)) (example_selector (new_ExecutorQueue 0) None)
   = example_selector (new_ExecutorQueue 0) None"
  using interrupted_target_lost [of 77 "example_selector (new_ExecutorQueue 0) None" example_env 5 "-1"] by simp

theorem interrupt_undetermined_witness:
  "sd_interrupt (snd (example_next None)) = True"
proof -
  have "fst (example_next None) = 3" by code_simp
  then show ?thesis
    using interrupt_undetermined [of example_env 0 "example_selector (example_queue QUEUE_FIFO [9, 3, 5]) None" 3 "snd (example_next None)"]
    by (simp add: example_next_def prod_eq_iff) (simp add: example_env_def)
qed

theorem interrupt_request_forgotten_witness:
  "selectNext example_env 0 ((example_selector (example_queue QUEUE_FIFO [9, 3, 5]) (Some (4 * USEC_SEC)))\<lparr>sd_interrupt := True\<rparr>)
   = (3, snd (example_next (Some (4 * USEC_SEC))))"
proof -
  have "fst (example_next (Some (4 * USEC_SEC))) = 3" by code_simp
  then show ?thesis
    using interrupt_request_forgotten [of example_env 0 "example_selector (example_queue QUEUE_FIFO [9, 3, 5]) (Some (4 * USEC_SEC))" 3
        "snd (example_next (Some (4 * USEC_SEC)))" True]
    by (simp add: example_next_def prod_eq_iff)
qed

theorem queued_plan_becomes_repetitions_witness:
  "let es = eq_list (sd_queues (snd (queuePlanId example_env 12 0 (example_selector (example_queue QUEUE_FIFO [3]) None))) ! 0)
   in length es = 2 \<and> qe_plan (last es) = -1 \<and> qe_rep_n (last es) = 12"
proof -
  let ?d = "example_selector (example_queue QUEUE_FIFO [3]) None"
  have "fst (queuePlanId example_env 12 0 ?d) = 0" "length (eq_list (example_queue QUEUE_FIFO [3])) = 1" "\<not> eq_simul (example_queue QUEUE_FIFO [3])"
    by code_simp+
  then show ?thesis
    using queued_plan_becomes_repetitions [of example_env 12 0 ?d "snd (queuePlanId example_env 12 0 ?d)" 5 10 20 12]
    by (simp add: prod_eq_iff) (simp add: example_env_def numeral_2_eq_2)
qed

end
