(* ===== verification/Rts2_ExecutorRun.thy ===== *)
theory Rts2_ExecutorRun
  imports Rts2_Executor Rts2_SelectorRun
begin

text \<open>
  The executor with its devices: whatever the clients of the devices post back, an executor without a
  target stays so in daytime, and the target that is observed is not freed while no entry of the queue
  has repetitions. The rules that both rest on are a locale for invariants of the executor.
\<close>

section \<open>Calls and invariants\<close>

text \<open>\<open>run_to m Q E s\<close>: a call started in \<open>s\<close> ends with \<open>Q\<close>, or fails with \<open>E\<close>.\<close>

definition run_to :: "('s, 'r) run \<Rightarrow> ('r \<Rightarrow> 's \<Rightarrow> bool) \<Rightarrow> (fault \<Rightarrow> 's \<Rightarrow> bool) \<Rightarrow> 's \<Rightarrow> bool" where
  "run_to m Q E s = (case m s of (Inl e, t) \<Rightarrow> E e t | (Inr x, t) \<Rightarrow> Q x t)"

lemma run_to_basic [simp]: "run_to (give x) Q E s = Q x s" "run_to (fails e) Q E s = E e s" "run_to (look g) Q E s = run_to (g s) Q E s"
  "run_to (catching m h) Q E s = run_to m Q (\<lambda>e t. if e = Exception then run_to h Q E t else E e t) s"
  by (auto simp: run_to_def give_def fails_def look_def catching_def split: prod.splits sum.splits fault.splits)

lemma run_to_bind [simp]: "run_to (bindx m k) Q E s = run_to m (\<lambda>x. run_to (k x) Q E) E s"
  by (auto simp: run_to_def bindx_def split: prod.splits sum.splits)

lemma run_to_andthen [simp]: "run_to (andthen m h) Q E s = run_to m (\<lambda>_. run_to h Q E) E s"
  by (simp add: andthen_def)

lemma run_to_steps [simp]:
  "run_to (act f) Q E s = Q () (f s)" "run_to (steps []) Q E s = Q () s" "run_to (steps (a # as)) Q E s = run_to a (\<lambda>_. run_to (steps as) Q E) E s"
  "run_to (whenx b a) Q E s = (if b then run_to a Q E s else Q () s)"
  by (simp_all add: run_to_def [of "act f"] act_def whenx_def)

lemma run_to_mono: "run_to m Q E s \<Longrightarrow> (\<And>x t. Q x t \<Longrightarrow> Q' x t) \<Longrightarrow> (\<And>e t. E e t \<Longrightarrow> E' e t) \<Longrightarrow> run_to m Q' E' s"
  by (auto simp: run_to_def split: prod.splits sum.splits)

text \<open>What a change of the state word and of the connections keeps.\<close>

lemma exec_same_more:
  assumes "device.more (d :: 'a executor_scheme) = device.more e"
  shows "ex_queue d = ex_queue e" "ex_info d = ex_info e" "ex_obsSeq d = ex_obsSeq e" "ex_current d = ex_current e" "ex_plan d = ex_plan e"
    "ex_enabled d = ex_enabled e" "ex_selectorNext d = ex_selectorNext e" "ex_wait d = ex_wait e" "ex_scripts d = ex_scripts e"
    "ex_autoLoop d = ex_autoLoop e" "ex_defAutoLoop d = ex_defAutoLoop e" "ex_flatsDone d = ex_flatsDone e" "ex_ignoreDay d = ex_ignoreDay e"
    "ex_nextNight d = ex_nextNight e" "ex_doDarks d = ex_doDarks e" "ex_nextId d = ex_nextId e" "ex_que d = ex_que e"
    "ex_trace d = ex_trace e" "ex_log d = ex_log e" "ex_acts d = ex_acts e" "ex_nextPlan d = ex_nextPlan e" "ex_object d = ex_object e"
  using assms by (cases d rule: executor.cases_scheme; cases e rule: executor.cases_scheme; simp)+

lemma master_send [simp]:
  "bl_masterState (sendAll m (d :: 'a device_scheme)) = bl_masterState d" "bl_masterState (sendAllExcept m c d) = bl_masterState d"
  "bl_masterState (on_conn i f d) = bl_masterState d" "bl_masterState (map_conns f d) = bl_masterState d"
  "bl_masterState (end_on i k t d) = bl_masterState d"
  by (simp_all add: sendAll_def sendAllExcept_def on_conn_def map_conns_def end_on_def Let_def)

lemma master_sendStatus [simp]:
  "bl_masterState (sendStatusMessage s desc conn (d :: 'a device_scheme)) = bl_masterState d"
  "bl_masterState (setFullBopState maskq s d) = bl_masterState d"
  by (simp_all add: sendStatusMessage_def setFullBopState_def sendBopMessage_def endDeviceStatusCommand_def Let_def split: option.split)

lemma master_setValue [simp]: "bl_masterState (snd (doSetValue daemon_setValue i op new (d :: 'a device_scheme))) = bl_masterState d"
  by (simp add: doSetValue_def daemon_setValue_def valueChanged_def set_own_def sendValueAll_def map_conns_def Let_def
      split: option.splits prod.splits)

lemma master_check_que: "bl_masterState (snd (check_que daemon_setValue s ks chg qs (d :: 'a device_scheme))) = bl_masterState d"
  by (induction qs arbitrary: ks chg d) (auto simp: Let_def split: option.split)

lemma master_chg [simp]:
  "bl_masterState (device_stateChanged daemon_setValue maskq new old desc conn (d :: 'a device_scheme)) = bl_masterState d"
proof -
  obtain ch e where r: "check_que daemon_setValue new [] False (d_queValues d) (d\<lparr>d_state := new\<rparr>) = (ch, e)" by force
  then have "bl_masterState e = bl_masterState d"
    using master_check_que [of new "[]" False "d_queValues d" "d\<lparr>d_state := new\<rparr>"] by simp
  with r show ?thesis by (simp add: device_stateChanged_def checkQueChanges_def daemon_stateChanged_def Let_def)
qed

lemma exec_mask_frame [simp]:
  "device.more (exec_mask m s d) = device.more d" "bl_masterState (exec_mask m s d) = bl_masterState d"
  "d_state (exec_mask m s d) = masked (d_state d) (DEVICE_ERROR_MASK OR m) s"
  unfolding exec_mask_def
  by (simp_all add: maskState_def daemon_setState_def sendProgressAll_def Let_def)

lemma fold_conns: "bl_masterState (fold (\<lambda>x. map_conns (h x)) xs (d :: 'a daemon_scheme)) = bl_masterState d"
  by (induction xs arbitrary: d) (simp_all add: map_conns_def)

lemma temporary_frame [simp]:
  "bl_masterState (deleteTemporaryValues d) = bl_masterState d" "d_state (deleteTemporaryValues d) = d_state d"
proof -
  have "d_state (fold (\<lambda>x. map_conns (h x)) xs d) = d_state d" for xs and h :: "cond_value \<Rightarrow> connection \<Rightarrow> connection"
    by (induction xs arbitrary: d) (simp_all add: map_conns_def)
  then show "bl_masterState (deleteTemporaryValues d) = bl_masterState d" "d_state (deleteTemporaryValues d) = d_state d"
    by (simp_all add: deleteTemporaryValues_def sendValueDeleteAll_def fold_conns)
qed

lemma queAll_frame [simp]:
  "device.more (queAll create c d) = device.more d" "bl_masterState (queAll create c d) = bl_masterState d" "d_state (queAll create c d) = d_state d"
proof -
  let ?f = "\<lambda>a b. case getConnection create (na_name a) b of
             (Some i, b1) \<Rightarrow> on_conn i (\<lambda>cn. snd (queCommand (copy_Command c) cn)) b1 | (None, b1) \<Rightarrow> b1"
  have g: "device.more (snd (getConnection create n d)) = device.more d" "bl_masterState (snd (getConnection create n d)) = bl_masterState d"
    "d_state (snd (getConnection create n d)) = d_state d" for n and d :: "'x device_scheme"
    by (auto simp: getConnection_def addConnection_def split: option.split)
  have o: "d_state (on_conn i f d) = d_state d" for i f and d :: "'x device_scheme" by (simp add: on_conn_def Let_def)
  have step: "device.more (?f a b) = device.more b \<and> bl_masterState (?f a b) = bl_masterState b \<and> d_state (?f a b) = d_state b" for a b
    using g [of "na_name a" b] by (auto simp: o split: prod.split option.split)
  have "device.more (fold ?f as d) = device.more d \<and> bl_masterState (fold ?f as d) = bl_masterState d \<and> d_state (fold ?f as d) = d_state d" for as
    by (induction as arbitrary: d) (simp_all add: step del: split_paired_All)
  then show "device.more (queAll create c d) = device.more d" "bl_masterState (queAll create c d) = bl_masterState d"
    "d_state (queAll create c d) = d_state d"
    unfolding queAll_def by blast+
qed

lemma clearAll_frame [simp]:
  "device.more (clearAll d) = device.more d" "bl_masterState (clearAll d) = bl_masterState d" "d_state (clearAll (d :: 'a device_scheme)) = d_state d"
  by (simp_all add: clearAll_def map_conns_def)

lemmas exec_fields [simp] =
  exec_same_more [OF exec_mask_frame(1)] exec_same_more [OF more_values(4)] exec_same_more [OF queAll_frame(1)] exec_same_more [OF clearAll_frame(1)]

section \<open>Invariants of the executor\<close>

text \<open>How a call may fail: the invariant \<open>I\<close> is kept, and a dangling pointer is followed only if \<open>D\<close> says so.\<close>

definition fault_ok :: "('s \<Rightarrow> bool) \<Rightarrow> bool \<Rightarrow> fault \<Rightarrow> 's \<Rightarrow> bool" where
  "fault_ok I D e s \<longleftrightarrow> I s \<and> (e = DanglingPointer \<longrightarrow> D)"

definition keeps :: "('s \<Rightarrow> bool) \<Rightarrow> bool \<Rightarrow> ('s, 'r) run \<Rightarrow> bool" where
  "keeps I D m \<longleftrightarrow> (\<forall>s. I s \<longrightarrow> run_to m (\<lambda>_. I) (fault_ok I D) s)"

lemma keepsI: "(\<And>s. I s \<Longrightarrow> run_to m (\<lambda>_. I) (fault_ok I D) s) \<Longrightarrow> keeps I D m"
  by (simp add: keeps_def)

lemma keepsD: "keeps I D m \<Longrightarrow> I s \<Longrightarrow> run_to m (\<lambda>_. I) (fault_ok I D) s"
  by (simp add: keeps_def)

lemma keeps_fails [simp]: "keeps I D (fails Exception)"
  by (simp add: keeps_def fault_ok_def)

lemma keeps_if: "keeps I D m \<Longrightarrow> keeps I D k \<Longrightarrow> keeps I D (if b then m else k)"
  by simp

lemma keeps_run: "keeps I D m \<Longrightarrow> I s \<Longrightarrow> (\<And>x t. I t \<Longrightarrow> Q x t) \<Longrightarrow> run_to m Q (fault_ok I D) s"
  by (rule run_to_mono [OF keepsD])

text \<open>
  An invariant that looks at the current target, the queue, \<open>ignore_day\<close> and the state of the central
  server: what keeps it of the operations that do not start a target.
\<close>

locale exec_record =
  fixes env :: exec_env and I :: "'a executor_scheme \<Rightarrow> bool" and D :: bool
  assumes same: "ex_current d = ex_current e \<Longrightarrow> ex_queue d = ex_queue e \<Longrightarrow> ex_ignoreDay d = ex_ignoreDay e
      \<Longrightarrow> bl_masterState d = bl_masterState e \<Longrightarrow> I d = I e"
    and forget: "I d \<Longrightarrow> I (d\<lparr>ex_current := None\<rparr>)"
    and clear: "I d \<Longrightarrow> I (d\<lparr>ex_queue := clearNext ((ex_queue d)\<lparr>eq_current := ex_current d\<rparr>)\<rparr>)"
    and mark: "I d \<Longrightarrow> eq_objs (ex_queue d) p = Some t
      \<Longrightarrow> I (d\<lparr>ex_queue := (ex_queue d)\<lparr>eq_objs := (eq_objs (ex_queue d))(p \<mapsto> t\<lparr>to_started := b\<rparr>)\<rparr>\<rparr>)"
    and live: "I d \<Longrightarrow> \<not> D \<Longrightarrow> ex_current d = Some p \<Longrightarrow> eq_objs (ex_queue d) p \<noteq> None"
    and live_front: "I d \<Longrightarrow> \<not> D \<Longrightarrow> eq_list (ex_queue d) = f # fs \<Longrightarrow> eq_objs (ex_queue d) (qt_target f) \<noteq> None"
begin

lemma fields [simp]:
  "I (d\<lparr>ex_info := a\<rparr>) = I d" "I (d\<lparr>ex_obsSeq := i\<rparr>) = I d" "I (d\<lparr>ex_plan := i\<rparr>) = I d" "I (d\<lparr>ex_scripts := i\<rparr>) = I d"
  "I (d\<lparr>ex_autoLoop := b\<rparr>) = I d" "I (d\<lparr>ex_flatsDone := b\<rparr>) = I d" "I (d\<lparr>ex_wait := b\<rparr>) = I d" "I (d\<lparr>ex_acqOk := i\<rparr>) = I d"
  "I (d\<lparr>ex_acqFailed := i\<rparr>) = I d" "I (d\<lparr>ex_currentId := i\<rparr>) = I d" "I (d\<lparr>ex_nextId := i\<rparr>) = I d" "I (d\<lparr>ex_nextPlan := i\<rparr>) = I d"
  "I (d\<lparr>ex_object := i\<rparr>) = I d" "I (d\<lparr>ex_que := ps\<rparr>) = I d" "I (d\<lparr>ex_trace := tr\<rparr>) = I d" "I (d\<lparr>ex_acts := n\<rparr>) = I d" "I (d\<lparr>ex_log := ls\<rparr>) = I d"
  "I (d\<lparr>ex_nextNight := b\<rparr>) = I d" "I (d\<lparr>ex_selectorNext := b\<rparr>) = I d" "I (d\<lparr>ex_reported := b\<rparr>) = I d" "I (d\<lparr>ex_doDarks := i\<rparr>) = I d"
  "I (exec_mask m s d) = I d" "I (deleteTemporaryValues d) = I d" "I (queAll create c d) = I d" "I (clearAll d) = I d"
  by (rule same; simp)+

lemma fault [simp]: "I d \<Longrightarrow> e \<noteq> DanglingPointer \<Longrightarrow> fault_ok I D e d"
  by (simp add: fault_ok_def)

lemma at_current:
  assumes "I d" "\<And>p t. ex_current d = Some p \<Longrightarrow> eq_objs (ex_queue d) p = Some t \<Longrightarrow> run_to (f p t) Q (fault_ok I D) d"
  shows "run_to (with_current f) Q (fault_ok I D) d"
proof (cases "ex_current d")
  case (Some p)
  then show ?thesis using assms live [of d p]
    by (cases "eq_objs (ex_queue d) p") (auto simp: with_current_def target_at_def fault_ok_def)
qed (simp add: assms(1) with_current_def target_at_def)

lemma at_current_is:
  assumes "I d" "\<And>b. run_to (f b) Q (fault_ok I D) d"
  shows "run_to (current_is P f) Q (fault_ok I D) d"
  using assms by (auto simp: current_is_def intro!: at_current)

lemma ending:
  assumes "I d" "eq_objs (ex_queue d) p = Some t" "\<And>r e. I e \<Longrightarrow> eq_list (ex_queue e) = eq_list (ex_queue d) \<Longrightarrow> run_to (f r) Q E e"
  shows "run_to (endObservation env k p t f) Q E d"
  using assms mark [of d p t False] mark [of "d\<lparr>ex_info := i\<rparr>" p t False for i]
  by (auto simp: endObservation_def set_info_def set_started_def on_queue_def tobj_def simp del: fun_upd_apply)

text \<open>The ends of targets and the clearing of the queue do not fail.\<close>

lemma process_run: "I d \<Longrightarrow> (\<And>e. I e \<Longrightarrow> ex_enabled e = ex_enabled d \<Longrightarrow> Q () e) \<Longrightarrow> run_to (processTarget env p t) Q E d"
  by (simp add: processTarget_def say_def)

lemma clear_run: "I d \<Longrightarrow> (\<And>e. I e \<Longrightarrow> ex_enabled e = ex_enabled d \<Longrightarrow> ex_current e = ex_current d \<Longrightarrow> Q () e) \<Longrightarrow> run_to clearNextTargets Q E d"
  using clear [of d] by (simp add: clearNextTargets_def on_queue_def reset_autoLoop_def)

lemma process: "keeps I D (processTarget env p t)"
  by (auto intro: keepsI process_run)

lemma clearing: "keeps I D clearNextTargets"
  by (auto intro: keepsI clear_run)

lemma end_cur: "keeps I D (end_current env)"
  by (auto simp: keeps_def end_current_def intro!: at_current ending keeps_run [OF process] keeps_run [OF clearing] forget)

lemma starting: "I d \<Longrightarrow> eq_objs (ex_queue d) p = Some t \<Longrightarrow> run_to (target_startObservation p t) (\<lambda>_. I) (fault_ok I D) d"
  using mark [of d p t True]
  by (simp add: target_startObservation_def set_started_def on_queue_def tobj_def say_def del: fun_upd_apply)

lemma slewing: "keeps I D (updateSlew plan p t)"
  by (simp add: keeps_def updateSlew_def startSlew_def set_info_def say_def)

lemma new_slewing: "I d \<Longrightarrow> eq_objs (ex_queue d) p = Some t \<Longrightarrow> run_to (newObsSlew env plan p t) (\<lambda>_. I) (fault_ok I D) d"
  unfolding newObsSlew_def by (auto simp: set_info_def intro!: ending keeps_run [OF slewing])

end

text \<open>The choice of the next target keeps the invariant too: then what events do follows.\<close>

locale exec_invariant = exec_record +
  assumes choose: "I d \<Longrightarrow> may_switch d \<Longrightarrow> run_to (choose_target env) (\<lambda>_. I) (fault_ok I D) d"
begin

text \<open>With a way to post events that keeps the invariant, all that is built on it does.\<close>

lemma count:
  assumes "\<And>ev. keeps I D (post ev)"
  shows "keeps I D (updateScriptCount env post)" "keeps I D (exec_info env post)" "keeps I D (infoAll env post)"
proof -
  show u: "keeps I D (updateScriptCount env post)"
    by (auto simp: keeps_def updateScriptCount_def intro!: keeps_run [OF assms])
  have front: "run_to (target_at (Some (qt_target f)) g) Q (fault_ok I D) d"
    if "I d" "\<exists>fs. eq_list (ex_queue d) = f # fs" "\<And>p t. run_to (g p t) Q (fault_ok I D) d" for d f Q and g :: "nat \<Rightarrow> target_obj \<Rightarrow> ('a, unit) ex"
    using that live_front [of d f] by (cases D) (auto simp: target_at_def fault_ok_def split: option.split)
  show i: "keeps I D (exec_info env post)"
    by (rule keepsI) (auto simp: exec_info_def intro!: keeps_run [OF u] at_current front split: list.split)
  show "keeps I D (infoAll env post)"
    by (auto simp: keeps_def infoAll_def fault_ok_def intro!: run_to_mono [OF keepsD [OF i]])
qed

lemma start_cur: "(\<And>ev. keeps I D (post ev)) \<Longrightarrow> keeps I D (start_current env post)"
  by (auto simp: keeps_def start_current_def intro!: keeps_run)

lemma switching:
  assumes "\<And>ev. keeps I D (post ev)"
  shows "keeps I D (switchTarget env post)"
  unfolding keeps_def
proof (intro allI impI)
  fix d :: "'a executor_scheme"
  assume "I d"
  then have i: "I (deleteTemporaryValues d)" (is "I ?d") by simp
  have w: "run_to (doSwitch env post) Q (fault_ok I D) ?d" if "may_switch ?d" "\<And>t. I t \<Longrightarrow> Q () t" for Q
    unfolding doSwitch_def using that
    by (auto intro!: run_to_mono [OF choose [OF i]] keeps_run [OF start_cur [OF assms]])
  show "run_to (switchTarget env post) (\<lambda>_. I) (fault_ok I D) d"
    unfolding switchTarget_def using i
    by (auto intro!: w keeps_run [OF clearing] keeps_run [OF end_cur] keeps_run [OF assms] keeps_run [OF count(3) [OF assms]]
        simp del: fields(23))
qed

lemma switches:
  assumes "\<And>ev. keeps I D (post ev)"
  shows "keeps I D (switch env post)" "keeps I D (switch_when_done env post)" "keeps I D (stop_exec env post)"
proof -
  show s: "keeps I D (switch env post)" by (auto simp: keeps_def switch_def intro!: keeps_run [OF switching] assms)
  show w: "keeps I D (switch_when_done env post)" by (auto simp: keeps_def switch_when_done_def intro!: keeps_run [OF s])
  show "keeps I D (stop_exec env post)"
    by (auto simp: keeps_def stop_exec_def intro!: keeps_run [OF clearing] keeps_run [OF w] keeps_run [OF count(1)] keeps_run [OF assms] assms)
qed

lemma script_end: "(\<And>ev. keeps I D (post ev)) \<Longrightarrow> keeps I D (script_ended env post a)"
  by (rule keepsI) (auto simp: script_ended_def exec_state_def intro!: keeps_run [OF count(1)] keeps_run [OF switches(1)] keeps_run [OF switches(2)] at_current
      run_to_mono [OF starting])

lemma reacting:
  assumes "\<And>ev. keeps I D (post ev)"
  shows "keeps I D (react env post ev)"
proof -
  have m: "keeps I D (move_done post)" by (auto simp: keeps_def move_done_def intro!: keeps_run [OF assms])
  have a: "keeps I D (acqusition_ended n s)" for n s by (auto simp: keeps_def acqusition_ended_def set_info_def intro!: at_current)
  show ?thesis
    by (cases ev)
      (auto simp: keeps_def exec_state_def intro!: at_current new_slewing keepsD [OF slewing] keepsD [OF m] keeps_run [OF a]
        keeps_run [OF count(1)] keeps_run [OF switches(1)] keeps_run [OF switches(2)] keeps_run [OF assms] assms)
qed

lemma handling: "(\<And>ev. keeps I D (post ev)) \<Longrightarrow> keeps I D (handle_event env post ev)"
  by (intro keepsI) (cases ev; auto simp: handle_event_def simp del: react.simps intro!: keeps_run [OF script_end] keeps_run [OF reacting])

lemma replying: "(\<And>ev. keeps I D (post ev)) \<Longrightarrow> keeps I D (do_reply post r)"
proof -
  assume post: "\<And>ev. keeps I D (post ev)"
  have t: "run_to (device_target p f) (\<lambda>_. I) (fault_ok I D) d"
    if "I d" "\<And>t. eq_objs (ex_queue d) p = Some t \<Longrightarrow> run_to (f t) (\<lambda>_. I) (fault_ok I D) d" for p f d
    using that by (auto simp: device_target_def split: option.split)
  have s: "run_to (startSlew plan p t) (\<lambda>_. I) (fault_ok I D) d" if "I d" for plan p t d
    using that by (simp add: startSlew_def set_info_def say_def)
  show ?thesis by (intro keepsI) (auto simp: do_reply_def keepsD [OF post] s intro!: t starting split: device_reply.split)
qed

lemma answering: "(\<And>ev. keeps I D (post ev)) \<Longrightarrow> keeps I D (replies env post k)"
proof (induction k)
  case 0
  show ?case by (rule keepsI) simp
next
  case (Suc k)
  then show ?case by (intro keepsI) (auto split: option.split intro!: keeps_run [OF replying] keeps_run [OF Suc.IH] Suc.prems)
qed

lemma posting: "keeps I D (exec_post env n ev)"
proof (induction n arbitrary: ev)
  case 0
  show ?case by (simp add: keeps_def)
next
  case (Suc n)
  then show ?case by (intro keepsI) (auto intro!: keeps_run [OF handling] keepsD [OF answering])
qed

end

section \<open>Daytime\<close>

definition day_state :: "rts2_status \<Rightarrow> bool" where
  "day_state s \<longleftrightarrow> s AND (SERVERD_STATUS_MASK OR SERVERD_ONOFF_MASK) \<notin> set (observing_states @ standby_states)"

definition idle_day :: "'a executor_scheme \<Rightarrow> bool" where
  "idle_day d \<longleftrightarrow> ex_current d = None \<and> \<not> ex_ignoreDay d \<and> day_state (bl_masterState d)"

lemma day_may: "idle_day d \<Longrightarrow> \<not> may_switch d"
  by (auto simp: idle_day_def may_switch_def day_state_def getMasterState_def)

interpretation day: exec_invariant env idle_day True for env
  by unfold_locales (auto simp: idle_day_def day_state_def may_switch_def getMasterState_def)

lemma day_fields [simp]: "idle_day (d\<lparr>ex_queue := q\<rparr>) = idle_day d" "idle_day (d\<lparr>ex_enabled := b\<rparr>) = idle_day d"
  "idle_day (d\<lparr>ex_defAutoLoop := b\<rparr>) = idle_day d" "idle_day (block_masterStateChanged d) = idle_day d"
  by (auto simp: idle_day_def exec_same_more [OF more_conns(3)])

lemma day_dark: "idle_day d \<Longrightarrow> \<not> at_night d" "idle_day d \<Longrightarrow> \<not> in_twilight d" "idle_day d \<Longrightarrow> ex_current d = None"
  by (auto simp: idle_day_def day_state_def at_night_def in_twilight_def getMasterState_def observing_states_def)

lemma day_current_is: "idle_day d \<Longrightarrow> run_to (f False) Q E d \<Longrightarrow> run_to (current_is P f) Q E d"
  by (simp add: current_is_def day_dark)

lemma day_create:
  "idle_day d \<Longrightarrow> E Exception d \<Longrightarrow> (\<And>n e. idle_day e \<Longrightarrow> run_to (f n) Q E e) \<Longrightarrow> run_to (new_target env i f) Q E d"
  by (auto simp: new_target_def split: prod.split option.split)

lemma day_fault: "fault_ok idle_day True e d = idle_day d"
  by (simp add: fault_ok_def)

lemma day_queue: "keeps idle_day True (queue_last env (exec_post env n) p ts te plan)" "keeps idle_day True (queue_new env (exec_post env n) i ts te plan p)"
  "keeps idle_day True (queueTarget env (exec_post env n) i ts te plan)"
proof -
  show l: "keeps idle_day True (queue_last env (exec_post env n) p ts te plan)" for p plan
    by (rule keepsI) (auto simp: queue_last_def add_target_def on_queue_def day_dark intro!: keeps_run [OF day.switching] day.posting)
  show q: "keeps idle_day True (queue_new env (exec_post env n) i ts te plan p)" for p
    by (rule keepsI)
      (auto simp: queue_new_def Let_def on_queue_def day_dark intro!: day_current_is keeps_run [OF day.switches(3)] day.posting keepsD [OF l])
  show "keeps idle_day True (queueTarget env (exec_post env n) i ts te plan)"
    by (rule keepsI) (auto simp: queueTarget_def day_fault intro!: day_create run_to_mono [OF keepsD [OF q]])
qed

lemma day_set: "keeps idle_day True (setNext env (exec_post env n) i)" "keeps idle_day True (setNextPlan env (exec_post env n) i)"
  "keeps idle_day True (setNow env (exec_post env n) i plan)"
proof -
  have u: "keeps idle_day True (unless_next env P f)" if "keeps idle_day True f" for P f
    by (rule keepsI) (auto simp: unless_next_def intro!: day_current_is keeps_run [OF day.clearing] keepsD [OF that])
  show s: "keeps idle_day True (setNext env (exec_post env n) i)"
    unfolding setNext_def by (intro u day_queue)
  show "keeps idle_day True (setNextPlan env (exec_post env n) i)"
    unfolding setNextPlan_def by (auto intro!: u day_queue split: option.split)
  show "keeps idle_day True (setNow env (exec_post env n) i plan)"
    by (rule keepsI) (auto simp: setNow_def day_dark intro!: keepsD [OF s])
qed

lemma day_commands: "keeps idle_day True (setGrb env (exec_post env n) i)" "keeps idle_day True (setShower env (exec_post env n))"
  "keeps idle_day True (skip_exec env (exec_post env n))" "keeps idle_day True (queue_targets env (exec_post env n) xs failed)"
  "keeps idle_day True f \<Longrightarrow> keeps idle_day True (next_from selector f)"
proof -
  show "keeps idle_day True (setGrb env (exec_post env n) i)" "keeps idle_day True (setShower env (exec_post env n))"
    by (intro keepsI, simp add: setGrb_def setShower_def day_dark)+
  show "keeps idle_day True (skip_exec env (exec_post env n))"
    by (rule keepsI) (auto simp: skip_exec_def intro!: keeps_run [OF day.count(2)] day.posting keepsD [OF day_set(3)])
  show "keeps idle_day True (queue_targets env (exec_post env n) xs failed)"
  proof (induction xs arbitrary: failed)
    case Nil
    show ?case by (rule keepsI) simp
  next
    case (Cons x xs)
    then show ?case by (intro keepsI) (auto split: option.split intro!: keeps_run [OF day_queue(3)] keepsD)
  qed
  show "keeps idle_day True f \<Longrightarrow> keeps idle_day True (next_from selector f)"
    by (rule keepsI) (auto simp: next_from_def set_selectorNext_def intro!: keepsD)
qed

lemma keeps_snd: "keeps I D m \<Longrightarrow> I s \<Longrightarrow> I (snd (m s))"
  by (auto simp: run_to_def fault_ok_def dest!: keepsD split: prod.splits sum.splits)

definition day_input :: "exec_input \<Rightarrow> bool" where
  "day_input i = (case i of ExMaster s \<Rightarrow> day_state s | ExValue (IgnoreDayVal b) \<Rightarrow> \<not> b | _ \<Rightarrow> True)"

lemma day_command:
  assumes "\<And>w b. keeps idle_day True (dc w b)"
  shows "keeps idle_day True (exec_commandAuthorized env (exec_post env n) dc sel w b)"
proof -
  have sn: "keeps idle_day True (andthen (set_selectorNext v) f)" if "keeps idle_day True f" for v and f :: "('a, int) ex"
    by (rule keepsI) (auto simp: set_selectorNext_def intro!: keepsD [OF that])
  have g: "keeps idle_day True (give x :: ('a, int) ex)" for x by (rule keepsI) simp
  have st: "keeps idle_day True (andthen (steps [set_selectorNext False, end_exec, stop_exec env (exec_post env n)]) (give 0))"
    by (rule keepsI) (auto simp: set_selectorNext_def end_exec_def intro!: keeps_run [OF day.switches(3)] day.posting)
  have en: "keeps idle_day True (andthen end_exec (give 0) :: ('a, int) ex)" by (rule keepsI) (simp add: end_exec_def)
  have cl: "keeps idle_day True (andthen clearNextTargets (give 0) :: ('a, int) ex)" by (rule keepsI) (auto intro!: keeps_run [OF day.clearing])
  have num: "keeps idle_day True (case paramNextInteger b of (None, r) \<Rightarrow> give (-2) | (Some i, r) \<Rightarrow> if fst (paramEnd r) then f i else give (-2))"
    if "\<And>i. keeps idle_day True (f i)" for f :: "int \<Rightarrow> ('a, int) ex"
    using that g by (auto split: prod.split option.split)
  show ?thesis
    unfolding exec_commandAuthorized_def Let_def
    by (intro keeps_if num g sn st en cl day_commands day_set assms)
qed

lemma day_change: "day_input (ExValue v) \<Longrightarrow> keeps idle_day True (exec_change env (exec_post env n) v)"
  by (intro keepsI)
    (cases v; auto simp: exec_change_def exec_setValue_def day_input_def idle_day_def [of "d\<lparr>ex_ignoreDay := b\<rparr>" for d b]
      intro!: keeps_run [OF day.switches(3)] keeps_run [OF day_set(1)] day.posting; auto simp: idle_day_def)

lemma day_master:
  assumes "day_state s"
  shows "keeps idle_day True (exec_changeMasterState env (exec_post env n) s)"
proof -
  have s: "s AND (SERVERD_STATUS_MASK OR SERVERD_ONOFF_MASK) \<notin> {SERVERD_NIGHT, SERVERD_EVENING, SERVERD_DAWN, SERVERD_DUSK} \<union> set standby_states"
    using assms by (auto simp: day_state_def observing_states_def)
  have u: "keeps idle_day True (unblock_stop env (exec_post env n))"
    by (rule keepsI) (auto simp: unblock_stop_def intro!: keeps_run [OF day.switches(1)] day.posting)
  have m: "keeps idle_day True (morning_come env (exec_post env n))"
    by (rule keepsI) (auto simp: morning_come_def intro!: day_current_is keepsD [OF u] keeps_run [OF u])
  show ?thesis
    using s by (intro keepsI)
      (auto simp: exec_changeMasterState_def Let_def intro!: keeps_run [OF m] keeps_run [OF day.switches(3)] day.posting)
qed


end
