(* ===== verification/Rts2_ExecutorMemory.thy ===== *)
theory Rts2_ExecutorMemory
  imports Rts2_ExecutorRun
begin

text \<open>
  The targets of the executor: the current target stays alive while it is the current one, as long as
  the queue is not circular and its entries have no repetitions; a target queued by its plan has as
  many repetitions as the number of the plan and is freed while it is observed.
\<close>

section \<open>Targets of the queue\<close>

text \<open>
  \<open>ts\<close> are the targets of entries that are left, \<open>c\<close> the target that has to stay: the queue knows it,
  or no entry points to it.
\<close>

definition targets_ok :: "nat option \<Rightarrow> nat list \<Rightarrow> exec_queue \<Rightarrow> bool" where
  "targets_ok c ts q \<longleftrightarrow> \<not> eq_simul q \<and> distinct ts \<and> set ts \<subseteq> dom (eq_objs q) \<and> (\<forall>p\<in>dom (eq_objs q). p < eq_next q)
     \<and> (\<forall>p. c = Some p \<longrightarrow> p \<in> dom (eq_objs q) \<and> (eq_current q = Some p \<or> p \<notin> set ts))"

definition targets :: "queued_target list \<Rightarrow> nat list" where
  "targets es = map qt_target es"

lemma targets_simps [simp]: "targets [] = []" "targets (e # es) = qt_target e # targets es" "targets (es @ fs) = targets es @ targets fs"
  by (simp_all add: targets_def)

lemma targets_mset: "mset es = mset fs \<Longrightarrow> mset (targets es) = mset (targets fs)"
  by (simp only: targets_def mset_map)

lemma row_frame [simp]:
  "eq_objs (row_remove e q) = eq_objs q" "eq_simul (row_remove e q) = eq_simul q" "eq_next (row_remove e q) = eq_next q"
  "eq_current (row_remove e q) = eq_current q" "eq_type (row_remove e q) = eq_type q"
  "eq_objs (row_update e q) = eq_objs q" "eq_simul (row_update e q) = eq_simul q" "eq_next (row_update e q) = eq_next q"
  "eq_current (row_update e q) = eq_current q" "eq_type (row_update e q) = eq_type q"
  by (simp_all add: row_remove_def row_update_def)

lemma rows_frame [simp]:
  "eq_simul (fold row_update es q) = eq_simul q" "eq_next (fold row_update es q) = eq_next q"
  "eq_current (fold row_update es q) = eq_current q" "eq_type (fold row_update es q) = eq_type q"
  by (induction es arbitrary: q) simp_all

lemma targets_ok_frame [simp]:
  "targets_ok c ts (q\<lparr>eq_list := es\<rparr>) = targets_ok c ts q" "targets_ok c ts (row_remove e q) = targets_ok c ts q"
  "targets_ok c ts (fold row_update fs q) = targets_ok c ts q" "targets_ok c ts (q\<lparr>eq_shown := es\<rparr>) = targets_ok c ts q"
  by (simp_all add: targets_ok_def)

lemma targets_ok_perm: "mset ts = mset us \<Longrightarrow> targets_ok c ts q = targets_ok c us q"
  using mset_eq_setD [of ts us] mset_eq_imp_distinct_iff [of ts us] by (simp add: targets_ok_def)

lemma targets_ok_less: "targets_ok c (ts @ us) q \<Longrightarrow> targets_ok c us q" "targets_ok c (t # us) q \<Longrightarrow> targets_ok c us q"
  by (auto simp: targets_ok_def)

lemma targets_removeEntry: "targets_ok c (qt_target e # ts) q \<Longrightarrow> targets_ok c ts (removeEntry r e q)"
  by (auto simp: targets_ok_def removeEntry_def delete_target_def Let_def)

lemma targets_removeEntries: "targets_ok c (targets bs @ ts) q \<Longrightarrow> targets_ok c ts (fold (removeEntry r) bs q)"
  by (induction bs arbitrary: q) (simp_all add: targets_removeEntry)

lemma targets_fifo:
  "targets_ok c (targets (bs @ es)) q \<Longrightarrow> targets_ok c (targets (fst (fifo_expired now bs es q))) (snd (fifo_expired now bs es q))"
proof (induction es arbitrary: bs q)
  case (Cons e es)
  show ?case
  proof (cases "due now e")
    case True
    then show ?thesis using Cons.IH [of "[e]"] targets_removeEntries [of c bs "targets (e # es)" q] Cons.prems
      by (simp add: fifo_due del: fifo_expired.simps)
  next
    case False
    then show ?thesis using Cons.IH [of "bs @ [e]" q] Cons.prems by (simp add: fifo_due del: fifo_expired.simps)
  qed
qed simp

lemma targets_drop:
  "targets_ok c (targets es @ ts) q \<Longrightarrow> targets_ok c (targets (fst (drop_expired now es q)) @ ts) (snd (drop_expired now es q))"
proof (induction es arbitrary: ts q)
  case (Cons e es)
  have "targets_ok c (targets es @ qt_target e # ts) q" using Cons.prems targets_ok_perm [of "targets (e # es) @ ts" "targets es @ qt_target e # ts"] by simp
  from Cons.IH [OF this] Cons.prems Cons.IH [OF targets_removeEntry [of c e "targets es @ ts" q]] show ?case
    using targets_ok_perm [of "targets (fst (drop_expired now es q)) @ qt_target e # ts" "qt_target e # targets (fst (drop_expired now es q)) @ ts"]
    by (auto split: prod.split)
qed simp

lemma targets_unobservable:
  "targets_ok c (targets es @ ts) q \<Longrightarrow> filterUnobservable w now m ro es q = (rest, skipped, q1)
    \<Longrightarrow> targets_ok c (targets (rest @ skipped) @ ts) q1 \<and> eq_type q1 = eq_type q"
proof (induction es arbitrary: ts q rest skipped q1)
  case (Cons e es)
  obtain r1 s1 t1 where r: "filterUnobservable w now m ro es q = (r1, s1, t1)" by (cases "filterUnobservable w now m ro es q") auto
  obtain r2 s2 t2 where r2: "filterUnobservable w now m ro es (row_remove e q) = (r2, s2, t2)"
    by (cases "filterUnobservable w now m ro es (row_remove e q)") auto
  have p: "targets_ok c (targets es @ qt_target e # ts) q" using Cons.prems(1) targets_ok_perm [of "targets (e # es) @ ts" "targets es @ qt_target e # ts"] by simp
  have "targets_ok c (targets (r1 @ s1) @ qt_target e # ts) t1 \<and> eq_type t1 = eq_type q" using Cons.IH [OF p r] .
  then have 1: "targets_ok c (targets (r1 @ e # s1) @ ts) t1 \<and> eq_type t1 = eq_type q"
    using targets_ok_perm [of "targets (r1 @ s1) @ qt_target e # ts" "targets (r1 @ e # s1) @ ts"] by simp
  have 2: "targets_ok c (targets (r2 @ s2) @ ts) t2 \<and> eq_type t2 = eq_type q"
    using Cons.IH [OF _ r2, of ts] Cons.prems(1) targets_ok_less(2) [of c "qt_target e" "targets es @ ts" q] by simp
  show ?case using Cons.prems 1 2 by (auto simp: r r2 Let_def split: if_splits)
qed simp

text \<open>Entries without repetitions, in a queue that is not circular.\<close>

definition single :: "queued_target \<Rightarrow> bool" where
  "single e \<longleftrightarrow> qe_rep_n e \<le> 1"

lemma single_simps [simp]: "single (e\<lparr>qe_order := n\<rparr>) = single e" "single (e\<lparr>qt_reported := b\<rparr>) = single e"
  by (simp_all add: single_def)

definition plain :: "nat option \<Rightarrow> exec_queue \<Rightarrow> bool" where
  "plain c q \<longleftrightarrow> targets_ok c (targets (eq_list q)) q \<and> eq_type q \<noteq> QUEUE_CIRCULAR \<and> list_all single (eq_list q)"

lemma type_removeEntry [simp]: "eq_type (removeEntry r e q) = eq_type q" "eq_type (fold (removeEntry r) es q) = eq_type q"
proof -
  show s: "eq_type (removeEntry r e q) = eq_type q" for e q by (simp add: removeEntry_def delete_target_def Let_def)
  show "eq_type (fold (removeEntry r) es q) = eq_type q" by (induction es arbitrary: q) (simp_all add: s)
qed

lemma single_fifo:
  "list_all single (bs @ es) \<Longrightarrow> list_all single (fst (fifo_expired now bs es q))" "eq_type (snd (fifo_expired now bs es q)) = eq_type q"
  by (induction now bs es q rule: fifo_expired.induct) auto

lemma single_drop:
  "list_all single es \<Longrightarrow> list_all single (fst (drop_expired now es q))" "eq_type (snd (drop_expired now es q)) = eq_type q"
  by (induction now es q rule: drop_expired.induct) (auto split: prod.splits)

lemma single_unobservable:
  "list_all single es \<Longrightarrow> filterUnobservable w now m ro es q = (rest, skipped, q1) \<Longrightarrow> list_all single rest \<and> list_all single skipped"
proof (induction es arbitrary: q rest skipped q1)
  case (Cons e es)
  obtain r1 s1 t1 where r: "filterUnobservable w now m ro es q = (r1, s1, t1)" by (cases "filterUnobservable w now m ro es q") auto
  obtain r2 s2 t2 where r2: "filterUnobservable w now m ro es (row_remove e q) = (r2, s2, t2)"
    by (cases "filterUnobservable w now m ro es (row_remove e q)") auto
  from Cons.prems Cons.IH [OF _ r] Cons.IH [OF _ r2] show ?case by (auto simp: r r2 Let_def split: if_splits)
qed simp

lemma targets_number [simp]: "targets (number_entries n es) = targets es" "list_all single (number_entries n es) = list_all single es"
  by (induction es arbitrary: n) simp_all

lemma plain_updateVals [simp]: "plain c (updateVals q) = plain c q"
  by (cases "eq_simul q") (simp_all add: plain_def updateVals_def Let_def)

lemma plain_filterExpired: "plain c q \<Longrightarrow> plain c (filterExpired now q)"
proof -
  assume q: "plain c q"
  define r where "r = (if eq_type q = QUEUE_FIFO then fifo_expired now [] (eq_list q) q else (eq_list q, q))"
  have r: "targets_ok c (targets (fst r)) (snd r)" "list_all single (fst r)" "eq_type (snd r) = eq_type q"
    using q targets_fifo [of c "[]" "eq_list q" q now] single_fifo [where bs = "[]" and es = "eq_list q" and now = now and q = q]
    by (simp_all add: plain_def r_def)
  have "filterExpired now q = (snd (drop_expired now (fst r) (snd r)))\<lparr>eq_list := fst (drop_expired now (fst r) (snd r))\<rparr>"
    by (simp add: filterExpired_def r_def case_prod_unfold Let_def)
  then show ?thesis
    using q r targets_drop [of c "fst r" "[]" "snd r" now] single_drop [where es = "fst r" and now = now and q = "snd r"]
    by (simp add: plain_def)
qed

lemma plain_filter: "plain c q \<Longrightarrow> plain c (snd (snd (filter_queue w now m ro q)))"
proof -
  assume "plain c q"
  then have e: "plain c (filterExpired now q)" (is "plain c ?q") by (rule plain_filterExpired)
  obtain rest skipped q1 where f: "filterUnobservable w now m ro (eq_list ?q) ?q = (rest, skipped, q1)"
    by (cases "filterUnobservable w now m ro (eq_list ?q) ?q") auto
  have u: "targets_ok c (targets (rest @ skipped)) q1" "eq_type q1 = eq_type ?q" "list_all single rest" "list_all single skipped"
    using targets_unobservable [of c "eq_list ?q" "[]" ?q w now m ro rest skipped q1] f e single_unobservable [OF _ f]
    by (simp_all add: plain_def)
  have "plain c (q1\<lparr>eq_list := es\<rparr>)" if "mset es = mset (rest @ skipped)" for es
  proof -
    have "mset (targets es) = mset (targets (rest @ skipped))" using that by (rule targets_mset)
    moreover have "set es = set (rest @ skipped)" using mset_eq_setD [OF that] .
    ultimately show ?thesis using u e targets_ok_perm [of "targets es" "targets (rest @ skipped)"]
      by (simp add: plain_def list_all_iff ball_Un)
  qed
  then show ?thesis using e by (auto simp: filter_queue_def f Let_def split: list.split)
qed

lemma sort_shape: "\<exists>es. sortQueue w now q = q\<lparr>eq_list := es\<rparr> \<and> mset es = mset (eq_list q)"
proof -
  have "q = q\<lparr>eq_list := eq_list q\<rparr>" by simp
  then have n: "\<exists>es. q = q\<lparr>eq_list := es\<rparr> \<and> mset es = mset (eq_list q)" by metis
  show ?thesis using n by (auto simp: sortQueue_def sort_west_def Let_def split: option.split)
qed

lemma plain_beforeChange:
  assumes "plain c q"
  shows "fst (beforeChange w now q) = Ret ()" "plain c (snd (beforeChange w now q))"
proof -
  obtain es where s: "sortQueue w now q = q\<lparr>eq_list := es\<rparr>" and m: "mset es = mset (eq_list q)" using sort_shape by blast
  have "mset (targets es) = mset (targets (eq_list q))" using m by (rule targets_mset)
  then have p: "plain c (q\<lparr>eq_list := es\<rparr>)"
    using assms mset_eq_setD [OF m] targets_ok_perm [of "targets es" "targets (eq_list q)"] by (simp add: plain_def list_all_iff)
  then have b: "beforeChange w now q = (Ret (), snd (snd (filter_queue w now None True (q\<lparr>eq_list := es\<rparr>))))"
    by (cases es) (auto simp: beforeChange_def s plain_def single_def Let_def)
  show "fst (beforeChange w now q) = Ret ()" "plain c (snd (beforeChange w now q))"
    using b plain_filter [OF p] by simp_all
qed

lemma plain_clearNext: "plain c q \<Longrightarrow> plain c (clearNext q)"
proof -
  assume q: "plain c q"
  let ?f = "\<lambda>e r. row_remove e (if eq_current r = Some (qt_target e) then r else delete_target (qt_target e) r)"
  have step: "targets_ok c (qt_target e # ts) r \<Longrightarrow> targets_ok c ts (?f e r)" for e ts r
    by (auto simp: targets_ok_def delete_target_def)
  have f: "targets_ok c (targets es) r \<Longrightarrow> targets_ok c [] (fold ?f es r)" for es r
    by (induction es arbitrary: r) (simp_all add: step del: targets_ok_frame(2))
  have t: "eq_type (fold ?f es r) = eq_type r" for es r by (induction es arbitrary: r) (simp_all add: delete_target_def)
  have "plain c ((fold ?f (eq_list q) q)\<lparr>eq_list := []\<rparr>)" using q f [of "eq_list q" q] by (simp add: plain_def t)
  moreover have "\<not> eq_simul q" using q by (simp add: plain_def targets_ok_def)
  ultimately show ?thesis by (simp add: clearNext_def)
qed

lemma plain_create:
  assumes "plain c q" "createTarget w i q = (r, q1)"
  shows "plain c q1" "r = Some p \<Longrightarrow> p \<in> dom (eq_objs q1) \<and> p \<notin> set (targets (eq_list q1)) \<and> c \<noteq> Some p"
proof -
  have n: "eq_next q \<notin> dom (eq_objs q)" using assms(1) by (auto simp: plain_def targets_ok_def)
  show "plain c q1" using assms
    by (auto simp: createTarget_def plain_def targets_ok_def intro!: less_SucI intro: domI split: if_splits)
  show "r = Some p \<Longrightarrow> p \<in> dom (eq_objs q1) \<and> p \<notin> set (targets (eq_list q1)) \<and> c \<noteq> Some p"
    using assms n by (auto simp: createTarget_def plain_def targets_ok_def split: if_splits)
qed

lemma plain_addFront:
  "plain c q \<Longrightarrow> p \<in> dom (eq_objs q) \<Longrightarrow> p \<notin> set (targets (eq_list q)) \<Longrightarrow> c \<noteq> Some p \<Longrightarrow> plain c (snd (addFront p None None q))"
  by (simp add: addFront_def new_queued_def row_create_def Let_def)
    (auto simp: plain_def targets_ok_def single_def)

section \<open>The current target stays alive\<close>

definition current_alive :: "'a executor_scheme \<Rightarrow> bool" where
  "current_alive d \<longleftrightarrow> plain (ex_current d) ((ex_queue d)\<lparr>eq_current := ex_current d\<rparr>)"

lemma addFront_objs [simp]: "eq_objs (snd (addFront p ts te q)) = eq_objs q"
  by (simp add: addFront_def new_queued_def row_create_def updateVals_def Let_def)

lemma alive_plain: "current_alive d \<longleftrightarrow> plain None (ex_queue d) \<and> (\<forall>p. ex_current d = Some p \<longrightarrow> p \<in> dom (eq_objs (ex_queue d)))"
  by (auto simp: current_alive_def plain_def targets_ok_def)

lemma plain_current: "plain c q \<Longrightarrow> plain c (q\<lparr>eq_current := c\<rparr>)"
  by (auto simp: plain_def targets_ok_def)

lemma alive_live: "current_alive d \<Longrightarrow> ex_current d = Some p \<Longrightarrow> \<exists>t. eq_objs (ex_queue d) p = Some t"
  "current_alive d \<Longrightarrow> f \<in> set (eq_list (ex_queue d)) \<Longrightarrow> \<exists>t. eq_objs (ex_queue d) (qt_target f) = Some t"
  by (auto simp: current_alive_def plain_def targets_ok_def targets_def)

lemma alive_change: "current_alive d \<Longrightarrow> c = None \<or> (\<exists>f\<in>set (eq_list (ex_queue d)). c = Some (qt_target f)) \<Longrightarrow> current_alive (d\<lparr>ex_current := c\<rparr>)"
  by (auto simp: current_alive_def plain_def targets_ok_def targets_def)

lemma alive_queue: "current_alive d \<Longrightarrow> (plain (ex_current d) ((ex_queue d)\<lparr>eq_current := ex_current d\<rparr>) \<Longrightarrow> plain (ex_current d) q)
  \<Longrightarrow> current_alive (d\<lparr>ex_queue := q\<rparr>)"
  by (simp add: current_alive_def plain_current)

interpretation alive: exec_record env current_alive False for env
proof unfold_locales
  fix d :: "'a executor_scheme" and p t b
  assume "current_alive d" "eq_objs (ex_queue d) p = Some t"
  then show "current_alive (d\<lparr>ex_queue := (ex_queue d)\<lparr>eq_objs := (eq_objs (ex_queue d))(p \<mapsto> t\<lparr>to_started := b\<rparr>)\<rparr>\<rparr>)"
    by (auto simp: current_alive_def plain_def targets_ok_def)
next
  fix d :: "'a executor_scheme"
  assume "current_alive d"
  then show "current_alive (d\<lparr>ex_queue := clearNext ((ex_queue d)\<lparr>eq_current := ex_current d\<rparr>)\<rparr>)"
    by (rule alive_queue) (rule plain_clearNext)
qed (simp add: current_alive_def, simp add: alive_change, simp add: alive_live(1), simp add: alive_live(2))

lemma alive_before: "keeps current_alive False (queue_beforeChange env)"
proof (rule keepsI)
  fix d :: "'a executor_scheme"
  assume d: "current_alive d"
  then have p: "plain (ex_current d) ((ex_queue d)\<lparr>eq_current := ex_current d\<rparr>)" by (simp add: current_alive_def)
  then show "run_to (queue_beforeChange env) (\<lambda>_. current_alive) (fault_ok current_alive False) d"
    using plain_beforeChange [OF p, of "xe_sky env" "xe_now env"] d
    by (auto simp: queue_beforeChange_def on_queue_def alive_queue split: prod.split)
qed

lemma alive_renew: "keeps current_alive False (renew_current env)"
proof (rule keepsI)
  fix d :: "'a executor_scheme"
  assume d: "current_alive d"
  have n: "run_to (new_target env i (\<lambda>n. on_queue (\<lambda>q. snd (addFront n None None q)))) (\<lambda>_. current_alive) (fault_ok current_alive False) d" for i
  proof (cases "createTarget (xe_sky env) i (ex_queue d)")
    case (Pair r q)
    have p: "plain None (ex_queue d)" using d by (simp add: alive_plain)
    show ?thesis
    proof (cases r)
      case (Some n)
      have "plain None (snd (addFront n None None q))"
        using plain_create [OF p Pair] Some by (auto intro!: plain_addFront)
      moreover have "p \<in> dom (eq_objs q)" if "p \<in> dom (eq_objs (ex_queue d))" for p
        using Pair that by (auto simp: createTarget_def split: if_splits)
      ultimately show ?thesis using Pair Some d by (simp add: new_target_def on_queue_def alive_plain)
    qed (use Pair d in \<open>simp add: new_target_def\<close>)
  qed
  show "run_to (renew_current env) (\<lambda>_. current_alive) (fault_ok current_alive False) d"
    unfolding renew_current_def by (auto intro!: alive.at_current_is alive.at_current d n)
qed

lemma alive_take: "keeps current_alive False (take_front env)"
proof (rule keepsI)
  fix d :: "'a executor_scheme"
  assume d: "current_alive d"
  have f: "current_alive (e\<lparr>ex_current := Some (qt_target f)\<rparr>)" if "current_alive e" "f \<in> set (eq_list (ex_queue e))" for e :: "'a executor_scheme" and f
    using that by (intro alive_change) auto
  show "run_to (take_front env) (\<lambda>_. current_alive) (fault_ok current_alive False) d"
    unfolding take_front_def using d
    by (auto simp: processTarget_def say_def split: list.split intro!: alive.at_current alive.ending f)
qed

interpretation alive: exec_invariant env current_alive False for env
proof unfold_locales
  fix d :: "'a executor_scheme"
  assume d: "current_alive d"
  have l: "keeps current_alive False (say_loop :: ('a, unit) ex)" "keeps current_alive False (drop_started :: ('a, unit) ex)"
    by (intro keepsI; auto simp: say_loop_def drop_started_def say_def intro!: alive.at_current_is alive.at_current alive_change)+
  show "run_to (choose_target env) (\<lambda>_. current_alive) (fault_ok current_alive False) d"
    unfolding choose_target_def using d
    by (auto simp: reset_autoLoop_def intro!: keeps_run [OF alive_before] keeps_run [OF alive_renew] keeps_run [OF l(1)] keeps_run [OF l(2)]
        keeps_run [OF alive_take])
qed

text \<open>C10: While the queue of the executor is not circular and none of its entries has repetitions, no
  event, whatever the devices post back from within it, makes the executor follow a pointer to a target
  that was deleted; the current target stays alive, although the front of the queue stays in the queue
  when it becomes the current target and is removed there once it is observed.\<close>

theorem current_target_never_freed:
  assumes "current_alive d"
  shows "fst (exec_post env n ev d) \<noteq> Inl DanglingPointer \<and> current_alive (snd (exec_post env n ev d))"
  using keepsD [OF alive.posting assms, of env n ev]
  by (auto simp: run_to_def fault_ok_def split: prod.splits sum.splits)

section \<open>A target queued by its plan\<close>

lemma next_plan_repetitions:
  assumes "targets_ok None (targets (eq_list q)) q" "eq_id q < 0"
  shows "\<exists>e. eq_list (snd (addTarget p ts te (-1) plan None (-1) False q)) = number_entries 0 (eq_list q @ [e]) \<and> qe_rep_n e = plan \<and> qe_plan e = -1 \<and> qt_target e = p"
  using assms
  by (auto simp: addTarget_def new_queued_def row_create_def findIndex_def insert_at_def updateVals_def targets_ok_def Let_def)

text \<open>A deleted target is not created again by the filter.\<close>

lemma gone_removeEntry: "eq_objs q p = None \<Longrightarrow> eq_objs (removeEntry r e q) p = None"
  "eq_objs q p = None \<Longrightarrow> eq_objs (fold (removeEntry r) es q) p = None"
proof -
  show s: "eq_objs q p = None \<Longrightarrow> eq_objs (removeEntry r e q) p = None" for e q
    by (auto simp: removeEntry_def delete_target_def Let_def)
  show "eq_objs q p = None \<Longrightarrow> eq_objs (fold (removeEntry r) es q) p = None" by (induction es arbitrary: q) (simp_all add: s)
qed

lemma gone_fifo: "eq_objs q p = None \<Longrightarrow> eq_objs (snd (fifo_expired now bs es q)) p = None"
  by (induction now bs es q rule: fifo_expired.induct) (simp_all add: gone_removeEntry)

lemma gone_drop: "eq_objs q p = None \<Longrightarrow> eq_objs (snd (drop_expired now es q)) p = None"
  by (induction now es q rule: drop_expired.induct) (auto simp: gone_removeEntry split: prod.splits)

lemma unobservable_objs: "eq_objs (snd (snd (filterUnobservable w now m ro es q))) = eq_objs q"
  by (induction w now m ro es q rule: filterUnobservable.induct) (auto simp: Let_def split: prod.splits)

lemma gone_filter: "eq_objs q p = None \<Longrightarrow> eq_objs (snd (snd (filter_queue w now m ro q))) p = None"
proof -
  assume "eq_objs q p = None"
  then have e: "eq_objs (filterExpired now q) p = None" (is "eq_objs ?q p = None")
    by (auto simp: filterExpired_def gone_fifo gone_drop Let_def case_prod_unfold)
  have u: "eq_objs (updateVals r) = eq_objs r" for r by (simp add: updateVals_def Let_def)
  obtain rest skipped q1 where f: "filterUnobservable w now m ro (eq_list ?q) ?q = (rest, skipped, q1)"
    by (cases "filterUnobservable w now m ro (eq_list ?q) ?q") auto
  then have "eq_objs q1 = eq_objs ?q" using unobservable_objs [of w now m ro "eq_list ?q" ?q] by simp
  then show ?thesis using e by (simp add: filter_queue_def f u Let_def split: list.split)
qed

text \<open>C34: An entry that stands first and has repetitions left is put to the back with a target of its
  own before the next target is chosen, and its own target is deleted: when that is the current target,
  the executor follows a dangling pointer as soon as it asks whether the target is continuous. This is
  how a target queued by \<open>next_plan\<close> ends when the number of the plan, which becomes the number of its
  repetitions, is above 2: the first repetition is spent when it is chosen, the next one while it is observed.\<close>

theorem repeated_target_freed:
  assumes "eq_list (ex_queue d) = e # es" "qe_rep_n e > 1" "ex_current d = Some (qt_target e)" "eq_type (ex_queue d) = QUEUE_FIFO"
    "eq_next (ex_queue d) \<noteq> qt_target e" "sk_exists (xe_sky env) (tid (ex_queue d) e)"
  shows "fst (doSwitch env post d) = Inl DanglingPointer"
proof -
  let ?p = "qt_target e"
  let ?q = "(ex_queue d)\<lparr>eq_current := Some ?p\<rparr>"
  have t: "tid ?q e = tid (ex_queue d) e" by (simp add: tid_def tobj_def)
  obtain q1 where q1: "requeue_front (xe_sky env) (count_down (xe_now env) e) es ?q = (True, q1)" and g: "eq_objs q1 ?p = None"
    using assms(5,6) t by (auto simp: requeue_front_def createTarget_def delete_target_def count_down_def tid_def tobj_def)
  have b: "beforeChange (xe_sky env) (xe_now env) ?q = (Ret (), snd (snd (filter_queue (xe_sky env) (xe_now env) None True q1)))" (is "_ = (_, ?r)")
    using assms(1,2,4) q1 by (simp add: beforeChange_def sortQueue_def queue_types)
  have "eq_objs ?r ?p = None" by (rule gone_filter [OF g])
  then have "renew_current env (d\<lparr>ex_queue := ?r\<rparr>) = (Inl DanglingPointer, d\<lparr>ex_queue := ?r\<rparr>)"
    using assms(3) by (simp add: renew_current_def current_is_def with_current_def target_at_def look_def fails_def)
  moreover have "queue_beforeChange env d = (Inr (), d\<lparr>ex_queue := ?r\<rparr>)"
    using assms(3) b by (simp add: queue_beforeChange_def look_def on_queue_def act_def)
  ultimately show ?thesis by (simp add: doSwitch_def choose_target_def andthen_def bindx_def)
qed

end
