(* ===== verification/Rts2_ExecutorCases.thy ===== *)
theory Rts2_ExecutorCases
  imports Rts2_ExecutorMemory
begin

text \<open>
  The executor with devices that do not answer: what the day, the value \<open>enabled\<close> and the value \<open>next\<close>
  do; what the selector makes of its messages; concrete runs.
\<close>

section \<open>Devices that do not answer\<close>

definition quiet_devices :: "exec_env \<Rightarrow> bool" where
  "quiet_devices env \<longleftrightarrow> xe_reply env = (\<lambda>_ _. None) \<and> xe_running env = (\<lambda>_. 0)"

definition traced :: "exec_event \<Rightarrow> 'a executor_scheme \<Rightarrow> 'a executor_scheme" where
  "traced ev d = d\<lparr>ex_trace := ex_trace d @ [ev]\<rparr>"

lemma quiet_running: "quiet_devices env \<Longrightarrow> xe_running env t = 0"
  by (simp add: quiet_devices_def)

lemma quiet_replies: "quiet_devices env \<Longrightarrow> run_to (replies env post n) Q E d = Q () d"
  by (cases n) (simp_all add: quiet_devices_def)

lemma quiet_post [simp]:
  assumes "quiet_devices env"
  shows "run_to (exec_post env (Suc n) KillAll) Q E d = Q () (traced KillAll d)"
    "run_to (exec_post env (Suc n) StopObservation) Q E d = Q () (traced StopObservation d)"
    "run_to (exec_post env (Suc n) ScriptRunningQuestion) Q E d = Q () (traced ScriptRunningQuestion d)"
    "run_to (exec_post env (Suc n) (SlewToTarget i)) Q E d = Q () (traced (SlewToTarget i) (exec_mask EXEC_STATE_MASK EXEC_MOVE d))"
    "run_to (exec_post env (Suc n) (SetTarget x)) Q E d
      = run_to (with_current (\<lambda>p t. act (\<lambda>d. d\<lparr>ex_object := to_id t\<rparr>))) (\<lambda>_ d. Q () (traced (SetTarget x) d)) E d"
  using assms by (simp_all add: handle_event_def quiet_replies exec_state_def traced_def, auto simp: with_current_def target_at_def quiet_replies split: option.split)

declare exec_post.simps [simp del]

lemma quiet_count [simp]:
  "quiet_devices env \<Longrightarrow> run_to (updateScriptCount env (exec_post env (Suc n))) Q E d = Q () ((traced ScriptRunningQuestion d)\<lparr>ex_scripts := 0\<rparr>)"
  using quiet_post(3) [of env n _ E d] by (simp add: updateScriptCount_def quiet_running)

lemma traced_fields [simp]:
  "ex_trace (traced ev d) = ex_trace d @ [ev]" "ex_current (traced ev d) = ex_current d" "ex_queue (traced ev d) = ex_queue d"
  "ex_enabled (traced ev d) = ex_enabled d" "ex_autoLoop (traced ev d) = ex_autoLoop d" "ex_ignoreDay (traced ev d) = ex_ignoreDay d"
  "d_state (traced ev d) = d_state d" "bl_masterState (traced ev d) = bl_masterState d" "ex_plan (traced ev d) = ex_plan d"
  "ex_defAutoLoop (traced ev d) = ex_defAutoLoop d" "current_alive (traced ev d) = current_alive d" "idle_day (traced ev d) = idle_day d"
  by (simp_all add: traced_def current_alive_def idle_day_def)

text \<open>A queue that is cleared, and what follows a cleared queue.\<close>

lemma clearNext_empty: "\<not> eq_simul q \<Longrightarrow> eq_list (clearNext q) = []"
  by (simp add: clearNext_def updateVals_def Let_def)

lemma plain_simul: "plain c q \<Longrightarrow> \<not> eq_simul q"
  by (simp add: plain_def targets_ok_def)

lemma empty_beforeChange:
  "plain c q \<Longrightarrow> eq_list q = [] \<Longrightarrow> eq_list (snd (beforeChange w now q)) = [] \<and> eq_objs (snd (beforeChange w now q)) = eq_objs q"
proof -
  assume q: "plain c q" "eq_list q = []"
  obtain es where s: "sortQueue w now q = q\<lparr>eq_list := es\<rparr>" "mset es = mset (eq_list q)" using sort_shape by blast
  with q have s: "sortQueue w now q = q" by simp
  have e: "filterExpired now q = q" using q(2) by (simp add: filterExpired_def Let_def)
  have "filter_queue w now None True q = (b, t, r) \<Longrightarrow> eq_list r = [] \<and> eq_objs r = eq_objs q" for b t r
    using q(2) by (auto simp: filter_queue_def e updateVals_def Let_def split: if_splits)
  then show "eq_list (snd (beforeChange w now q)) = [] \<and> eq_objs (snd (beforeChange w now q)) = eq_objs q"
    using q(2) s by (cases "filter_queue w now None True q") (simp add: beforeChange_def)
qed

section \<open>The end of the night\<close>

interpretation day_alive: exec_record env "\<lambda>e. current_alive e \<and> \<not> ex_ignoreDay e \<and> bl_masterState e = m" False for env m
proof unfold_locales
  fix d e :: "'a executor_scheme"
  assume "ex_current d = ex_current e" "ex_queue d = ex_queue e" "ex_ignoreDay d = ex_ignoreDay e" "bl_masterState d = bl_masterState e"
  then show "(current_alive d \<and> \<not> ex_ignoreDay d \<and> bl_masterState d = m) = (current_alive e \<and> \<not> ex_ignoreDay e \<and> bl_masterState e = m)"
    by (simp add: current_alive_def)
qed (use alive.forget alive.clear alive.mark alive.live alive.live_front in \<open>auto simp del: fun_upd_apply\<close>)

lemma at_alive: "current_alive d \<Longrightarrow> ex_current d \<noteq> None \<Longrightarrow> (\<And>p t. ex_current d = Some p \<Longrightarrow> eq_objs (ex_queue d) p = Some t \<Longrightarrow> run_to (f p t) Q E d)
  \<Longrightarrow> run_to (with_current f) Q E d"
  using alive_live(1) [of d] by (auto simp: with_current_def target_at_def)

lemma end_current_day:
  assumes "current_alive d" "\<not> ex_ignoreDay d" "day_state (bl_masterState d)" "\<And>e. idle_day e \<Longrightarrow> current_alive e \<Longrightarrow> Q () e"
  shows "run_to (end_current env) Q E d"
proof -
  let ?I = "\<lambda>e. current_alive e \<and> \<not> ex_ignoreDay e \<and> bl_masterState e = bl_masterState d"
  have x: "run_to (whenx (ex_current d \<noteq> None) (with_current (\<lambda>p t. endObservation env (-1) p t (\<lambda>_. processTarget env p t))))
      (\<lambda>_. ?I) E d"
    using assms by (auto intro!: at_alive day_alive.ending day_alive.process_run)
  have e: "run_to clearNextTargets (\<lambda>_. run_to (give ()) Q E) E (e\<lparr>ex_current := None\<rparr>)" if "?I e" for e :: "'a executor_scheme"
    by (rule day_alive.clear_run [where m = "bl_masterState d"]) (use that assms in \<open>simp_all add: alive.forget idle_day_def\<close>)
  show ?thesis unfolding end_current_def run_to_basic(3) run_to_steps(3)
    by (rule run_to_mono [OF x]) (auto intro!: e)
qed


section \<open>Values\<close>

lemma clearNext_objs: "eq_current q = Some p \<Longrightarrow> \<not> eq_simul q \<Longrightarrow> eq_objs (clearNext q) p = eq_objs q p"
proof -
  let ?f = "\<lambda>e r. row_remove e (if eq_current r = Some (qt_target e) then r else delete_target (qt_target e) r)"
  assume "eq_current q = Some p" "\<not> eq_simul q"
  moreover have "eq_current r = Some p \<Longrightarrow> eq_objs (fold ?f es r) p = eq_objs r p" for es r
    by (induction es arbitrary: r) (auto simp: delete_target_def)
  ultimately show ?thesis by (simp add: clearNext_def updateVals_def Let_def)
qed

text \<open>C39: Disabling the executor at night, while it observes and nothing asked it to end, does not end the
  observation: the scripts of the devices are killed, and as the executor is still enabled when it looks
  for the next target, the current target is sent to the devices again before the value changes.\<close>

theorem disabling_restarts_target:
  assumes "quiet_devices env" "current_alive d" "ex_current d = Some p" "eq_objs (ex_queue d) p = Some t" "xe_continues env (to_id t) \<noteq> 2"
    "ex_enabled d" "ex_defAutoLoop d" "d_state d AND EXEC_MASK_END \<noteq> EXEC_END" "getMasterState d = SERVERD_NIGHT"
  shows "\<exists>e. exec_change env (exec_post env (Suc n)) (EnabledVal False) d = (Inr 0, e) \<and> \<not> ex_enabled e \<and> ex_current e = Some p
      \<and> ex_trace e = ex_trace d @ [KillAll, StopObservation, ScriptRunningQuestion, SetTarget (Some p), SlewToTarget (ex_plan d), ScriptRunningQuestion]"
proof -
  have "run_to (stop_exec env (exec_post env (Suc n))) (\<lambda>_ e. ex_current e = Some p
      \<and> ex_trace e = ex_trace d @ [KillAll, StopObservation, ScriptRunningQuestion, SetTarget (Some p), SlewToTarget (ex_plan d), ScriptRunningQuestion])
      (\<lambda>_ _. False) d"
  proof -
    let ?q = "(ex_queue d)\<lparr>eq_current := Some p\<rparr>"
    have q: "plain (Some p) ?q" using assms(2,3) by (simp add: current_alive_def)
    let ?c = "clearNext ?q"
    have c: "plain (Some p) (?c\<lparr>eq_current := Some p\<rparr>)" "eq_list (?c\<lparr>eq_current := Some p\<rparr>) = []" "eq_objs (?c\<lparr>eq_current := Some p\<rparr>) p = Some t"
      using plain_current [OF plain_clearNext [OF q]] clearNext_empty [of ?q] clearNext_objs [of ?q p] plain_simul [OF q] assms(4) by simp_all
    obtain r where r: "beforeChange (xe_sky env) (xe_now env) (?c\<lparr>eq_current := Some p\<rparr>) = (Ret (), r)"
      using plain_beforeChange(1) [OF c(1), of "xe_sky env" "xe_now env"] by (metis prod.collapse)
    have l: "eq_list r = []" "eq_objs r p = Some t"
      using empty_beforeChange [OF c(1,2), of "xe_sky env" "xe_now env"] r c(3) by simp_all
    have m: "may_switch (deleteTemporaryValues e)" if "bl_masterState e = bl_masterState d" for e :: "'a executor_scheme"
      using that assms(9) by (simp add: may_switch_def observing_states_def getMasterState_def)
    show ?thesis
      using assms clearNext_empty [of ?q] plain_simul [OF q] r l
      by (simp add: stop_exec_def clearNextTargets_def on_queue_def reset_autoLoop_def switch_when_done_def switch_def switchTarget_def m
          doSwitch_def choose_target_def queue_beforeChange_def renew_current_def say_loop_def drop_started_def take_front_def start_current_def
          current_is_def with_current_def target_at_def say_def infoAll_def exec_info_def front_id_def)
  qed
  then show ?thesis
    by (auto simp: exec_change_def exec_setValue_def run_to_def bindx_def andthen_def give_def whenx_def act_def split: prod.splits sum.splits)
qed

text \<open>A new value of \<open>next\<close> is refused when the target was queued, and accepted when it was not.\<close>

theorem next_value_inverted:
  assumes "setNext env post i d = (Inr r, e)"
  shows "exec_change env post (NextVal i) d = (if r = 0 then (Inr (-2), e) else (Inr 0, e\<lparr>ex_nextId := i\<rparr>))"
  using assms by (simp add: exec_change_def exec_setValue_def bindx_def andthen_def give_def whenx_def act_def)

section \<open>The selector hears the executor\<close>

text \<open>The text of a message: its arguments, separated by blanks.\<close>

definition message_text :: "int list \<Rightarrow> string" where
  "message_text xs = unwords (map show_int xs)"

lemma second_word:
  assumes "- (2 ^ 31) \<le> j" "j < 2 ^ 31" "s = [] \<or> (\<exists>r. s = CHR '' '' # r)"
  shows "getMessageArgInt 2 (show_int i @ CHR '' '' # show_int j @ s) = j"
proof -
  have n: "c \<noteq> CHR '' ''" if "c \<in> set (show_int k)" for c k using show_int_chars(1) [OF that] by (auto simp: isspace_def)
  obtain c cs where c: "show_int j = c # cs" by (meson show_int_not_Nil neq_Nil_conv)
  have d: "dropWhile (\<lambda>x. x \<noteq> CHR '' '') (show_int i @ CHR '' '' # t) = CHR '' '' # t" for t
    using n by (induction "show_int i") (simp_all add: dropWhile_append2)
  have "c \<noteq> CHR '' ''" "takeWhile (\<lambda>x. x \<noteq> CHR '' '') (cs @ s) = cs"
    using n [of _ j] c assms(3) by (auto simp: takeWhile_append2)
  then have "getMessageArg 2 (show_int i @ CHR '' '' # show_int j @ s) = show_int j"
    using c by (simp add: getMessageArg_def numeral_2_eq_2 d)
  then show ?thesis using assms by (simp add: getMessageArgInt_def strtol_show_int clamp64_id to_int32_id)
qed

text \<open>C18: When the client of the telescope starts to slew to a target that is not observed yet, the id of a
  new observation is drawn, and the message of the slew is read back by the selector as the start of the
  observation of just that target.\<close>

theorem slew_reaches_selector:
  assumes "eq_objs (ex_queue d) p = Some t" "ob_obs (ex_info d p) = None"
    "- (2 ^ 31) \<le> to_id t" "to_id t < 2 ^ 31" "0 \<le> ex_obsSeq d" "ex_obsSeq d + 1 < 2 ^ 31"
  shows "\<exists>e. do_reply post (Slews plan p) d = (Inr (), e) \<and> ob_obs (ex_info e p) = Some (ex_obsSeq d + 1, plan)
      \<and> ex_log e = ex_log d @ [(INFO_OBSERVATION_SLEW, [ex_obsSeq d + 1, to_id t, plan])]
      \<and> sel_message senv now (fst (last (ex_log e))) (message_text (snd (last (ex_log e)))) s
        = snd (updateNext senv now (Some (to_id t, ex_obsSeq d + 1)) s)"
proof -
  have w: "message_text [i, j, k] = show_int i @ CHR '' '' # show_int j @ CHR '' '' # show_int k" for i j k
    by (simp add: message_text_def)
  have m: "sel_message senv now INFO_OBSERVATION_SLEW (message_text [ex_obsSeq d + 1, to_id t, plan]) s
      = snd (updateNext senv now (Some (to_id t, ex_obsSeq d + 1)) s)"
    using assms(3-6) by (simp add: sel_message_def w first_word [unfolded One_nat_def] second_word)
  have "run_to (do_reply post (Slews plan p)) (\<lambda>_ e. ob_obs (ex_info e p) = Some (ex_obsSeq d + 1, plan)
      \<and> ex_log e = ex_log d @ [(INFO_OBSERVATION_SLEW, [ex_obsSeq d + 1, to_id t, plan])]) (\<lambda>_ _. False) d"
    using assms(1,2) by (simp add: do_reply_def device_target_def set_info_def startSlew_def say_def getObsId_def)
  then show ?thesis using m by (auto simp: run_to_def split: prod.splits sum.splits)
qed

section \<open>Pointers of the devices\<close>

lemma clearNext_deletes: "eq_current q = None \<Longrightarrow> \<not> eq_simul q \<Longrightarrow> p \<in> set (targets (eq_list q)) \<Longrightarrow> eq_objs (clearNext q) p = None"
proof -
  let ?f = "\<lambda>e r. row_remove e (if eq_current r = Some (qt_target e) then r else delete_target (qt_target e) r)"
  assume q: "eq_current q = None" "\<not> eq_simul q" "p \<in> set (targets (eq_list q))"
  have n: "eq_current r = None \<Longrightarrow> eq_objs r x = None \<Longrightarrow> eq_objs (fold ?f es r) x = None" for es r x
    by (induction es arbitrary: r) (simp_all add: delete_target_def)
  have "eq_current r = None \<Longrightarrow> p \<in> set (targets es) \<Longrightarrow> eq_objs (fold ?f es r) p = None" for es r
    by (induction es arbitrary: r) (auto simp: delete_target_def n)
  then show "eq_objs (clearNext q) p = None" using q by (simp add: clearNext_def updateVals_def Let_def)
qed

text \<open>C40: A target that became the current one stays in the queue until its observation is filtered out. When
  the day has come at that time, the executor ends it and clears the queue, and with it deletes the
  target, without an event to the devices: a device that was given it and goes on follows a pointer to a
  deleted target.\<close>

theorem day_leaves_stale_pointer:
  assumes "current_alive d" "ex_current d = Some p" "p \<in> set (targets (eq_list (ex_queue d)))" "\<not> ex_ignoreDay d"
    "day_state (bl_masterState d)" "ex_enabled d" "d_state d AND EXEC_MASK_END \<noteq> EXEC_END"
  shows "\<exists>e. switchTarget env post d = (Inr (-1), e) \<and> ex_current e = None \<and> ex_trace e = ex_trace d \<and> p \<in> set (ex_que e)
      \<and> fst (do_reply post (Starts p) e) = Inl StalePointer"
proof -
  obtain t where t: "eq_objs (ex_queue d) p = Some t" using alive_live(1) [OF assms(1,2)] by blast
  have m: "\<not> may_switch (deleteTemporaryValues d)" using assms(4,5) by (auto simp: may_switch_def day_state_def getMasterState_def)
  have s: "\<not> eq_simul (ex_queue d)" using assms(1) by (auto simp: current_alive_def dest: plain_simul)
  have n: "eq_list (ex_queue d) \<noteq> []" using assms(3) by auto
  have c: "eq_objs (clearNext (q\<lparr>eq_current := None\<rparr>)) p = None" if "eq_list q = eq_list (ex_queue d)" "eq_simul q = eq_simul (ex_queue d)" for q
    using that assms(3) s by (simp add: clearNext_deletes)
  have "run_to (switchTarget env post) (\<lambda>r e. r = -1 \<and> ex_current e = None \<and> ex_trace e = ex_trace d \<and> p \<in> set (ex_que e)
      \<and> eq_objs (ex_queue e) p = None) (\<lambda>_ _. False) d"
    using assms t m s n
    by (simp add: switchTarget_def end_current_def with_current_def target_at_def endObservation_def set_info_def set_started_def on_queue_def
        processTarget_def say_def clearNextTargets_def reset_autoLoop_def c tobj_def)
  then show ?thesis
    by (auto simp: run_to_def do_reply_def device_target_def look_def fails_def split: prod.splits sum.splits)
qed

section \<open>Concrete executors\<close>

definition example_exec_env :: exec_env where
  "example_exec_env = \<lparr>xe_sky = example_sky, xe_now = 0, xe_type = (\<lambda>i. CHR ''O''), xe_continues = (\<lambda>i. 0), xe_plan = (\<lambda>i. Some 5),
     xe_validity = 1, xe_tarEnabled = (\<lambda>i. True), xe_grbDate = (\<lambda>i. 0), xe_errorBox = (\<lambda>i. 0), xe_near = (\<lambda>i j l. False),
     xe_create = (\<lambda>a. None), xe_reply = (\<lambda>_ _. None), xe_running = (\<lambda>_. 0)\<rparr>"

text \<open>An executor in the state \<open>s\<close> of the central server; with \<open>busy\<close> it observes target 5.\<close>

definition example_executor :: "rts2_status \<Rightarrow> bool \<Rightarrow> executor" where
  "example_executor s busy = device.extend ((example_device 0)\<lparr>bl_masterState := s\<rparr>)
     \<lparr>ex_queue = (if busy then (new_ExecutorQueue (-1))\<lparr>eq_objs := [0 \<mapsto> \<lparr>to_id = 5, to_started = True\<rparr>], eq_next := 1\<rparr> else new_ExecutorQueue (-1)),
      ex_info = (\<lambda>_. no_obs), ex_obsSeq = 77, ex_current = (if busy then Some 0 else None), ex_plan = -1, ex_enabled = True,
      ex_selectorNext = True, ex_reported = False, ex_wait = False, ex_scripts = -1, ex_autoLoop = True, ex_defAutoLoop = True,
      ex_flatsDone = False, ex_ignoreDay = False, ex_nextNight = False, ex_doDarks = 2, ex_acqOk = 0, ex_acqFailed = 0, ex_currentId = -1,
      ex_nextId = -1, ex_nextPlan = -1, ex_sepLimit = 0, ex_minSep = 0, ex_object = -1, ex_que = [], ex_trace = [], ex_acts = 0, ex_log = []\<rparr>"

lemma example_executor_fields [simp]:
  "bl_masterState (example_executor s b) = s" "ex_current (example_executor s b) = (if b then Some 0 else None)"
  "ex_ignoreDay (example_executor s b) = False" "ex_enabled (example_executor s b)" "ex_defAutoLoop (example_executor s b)"
  "ex_obsSeq (example_executor s b) = 77" "ex_plan (example_executor s b) = -1" "ex_trace (example_executor s b) = []"
  "ex_log (example_executor s b) = []" "d_state (example_executor s b) = d_state (example_device 0)"
  "eq_objs (ex_queue (example_executor s True)) = [0 \<mapsto> \<lparr>to_id = 5, to_started = True\<rparr>]"
  by (simp_all add: example_executor_def device.defs)

lemma example_quiet: "quiet_devices example_exec_env" "xe_continues example_exec_env i = 0"
  by (simp_all add: quiet_devices_def example_exec_env_def)

lemma example_alive: "current_alive (example_executor s b)"
  by (cases b) (simp_all add: example_executor_def device.defs current_alive_def plain_def targets_ok_def new_ExecutorQueue_def queue_types)

lemma day_examples: "day_state SERVERD_DAY" "day_state SERVERD_HARD_OFF"
  by (simp_all add: day_state_def observing_states_def standby_states_def status_bits)


theorem current_target_never_freed_witness:
  "fst (exec_post example_exec_env 3 (ScriptEnded None) (example_executor SERVERD_NIGHT True)) \<noteq> Inl DanglingPointer"
  using current_target_never_freed [OF example_alive] by blast

text \<open>A plan is set next, observed at once, and freed when its first script ends.\<close>

definition example_planned :: executor where
  "example_planned = snd (exec_commandAuthorized example_exec_env (exec_post example_exec_env 3) (\<lambda>w b. give (-5)) True ''next_plan'' ''4''
     (example_executor SERVERD_NIGHT False))"

theorem repeated_target_freed_witness:
  "ex_current example_planned = Some 1 \<and> fst (doSwitch example_exec_env (exec_post example_exec_env 3) example_planned) = Inl DanglingPointer"
proof -
  have l: "map (\<lambda>e. (qt_target e, qe_rep_n e)) (eq_list (ex_queue example_planned)) = [(1, 3)]" by code_simp
  have c: "ex_current example_planned = Some 1" "eq_type (ex_queue example_planned) = QUEUE_FIFO" "eq_next (ex_queue example_planned) = 2"
    by code_simp+
  have x: "list_all (\<lambda>e. sk_exists example_sky (tid (ex_queue example_planned) e)) (eq_list (ex_queue example_planned))" by code_simp
  from l obtain e where "eq_list (ex_queue example_planned) = [e]" "qt_target e = 1" "qe_rep_n e = 3" by auto
  then show ?thesis
    using repeated_target_freed [of example_planned e "[]" example_exec_env "exec_post example_exec_env 3"] c x by (simp add: example_exec_env_def)
qed


theorem disabling_restarts_target_witness:
  "ex_trace (snd (exec_change example_exec_env (exec_post example_exec_env (Suc 2)) (EnabledVal False) (example_executor SERVERD_NIGHT True)))
   = [KillAll, StopObservation, ScriptRunningQuestion, SetTarget (Some 0), SlewToTarget (-1), ScriptRunningQuestion]"
proof -
  have "d_state (example_device 0) AND EXEC_MASK_END \<noteq> EXEC_END" "getMasterState (example_executor SERVERD_NIGHT True) = SERVERD_NIGHT" by code_simp+
  then show ?thesis
    using disabling_restarts_target [of example_exec_env "example_executor SERVERD_NIGHT True" 0 "\<lparr>to_id = 5, to_started = True\<rparr>" 2]
    by (auto simp: example_quiet example_alive)
qed

theorem slew_reaches_selector_witness:
  "ex_log (snd (do_reply (exec_post example_exec_env 2) (Slews 9 0) (example_executor SERVERD_NIGHT True))) = [(INFO_OBSERVATION_SLEW, [78, 5, 9])]"
proof -
  have "ob_obs (ex_info (example_executor SERVERD_NIGHT True) 0) = None" by (simp add: example_executor_def device.defs no_obs_def)
  then show ?thesis
    using slew_reaches_selector [of "example_executor SERVERD_NIGHT True" 0 "\<lparr>to_id = 5, to_started = True\<rparr>" "exec_post example_exec_env 2" 9
        example_env 0 "example_selector (new_ExecutorQueue 0) None"]
    by auto
qed

text \<open>A target that has become the current one, and is still in the queue, by day.\<close>

definition example_dawned :: executor where
  "example_dawned = (example_executor SERVERD_DAY True)\<lparr>ex_queue := (ex_queue (example_executor SERVERD_DAY True))\<lparr>eq_list :=
     [\<lparr>qe_qid = 1, qe_queue = -1, qe_tar = 5, qe_plan = -1, qe_start = None, qe_end = None, qe_rep_n = -1, qe_rep_sep = None, qe_order = 0,
       qt_target = 0, qt_hard = False, qt_reported = False\<rparr>]\<rparr>\<rparr>"

theorem day_leaves_stale_pointer_witness:
  "fst (do_reply (exec_post example_exec_env 3) (Starts 0) (snd (switchTarget example_exec_env (exec_post example_exec_env 3) example_dawned)))
   = Inl StalePointer"
proof -
  have "current_alive example_dawned"
    by (simp add: example_dawned_def example_executor_def device.defs current_alive_def plain_def targets_ok_def new_ExecutorQueue_def queue_types single_def)
  moreover have "d_state (example_device 0) AND EXEC_MASK_END \<noteq> EXEC_END" by code_simp
  ultimately show ?thesis
    using day_leaves_stale_pointer [of example_dawned 0 example_exec_env "exec_post example_exec_env 3"]
    by (auto simp: example_dawned_def day_examples)
qed

end
