(* ===== verification/Rts2_Script.thy ===== *)
theory Rts2_Script
  imports Rts2_Values Rts2_Status
begin

text \<open>
  Scripts of devices: the elements of \<open>lib/rts2script/element.cpp\<close>, \<open>elementblock.cpp\<close>,
  \<open>elementwaitfor.cpp\<close> and \<open>elementexe.cpp\<close>, and \<open>Script::nextCommand\<close> of \<open>include/rts2script/script.h\<close>, by
  which the client of a device asks for the next command. A class of elements is a constructor with
  its members, an iterator over elements an index. Lengths of exposures are of a type \<open>'f\<close> that is
  carried only, operands of a type \<open>'o\<close> and the elements that are not modelled of a type \<open>'x\<close>, both with
  their behaviour in the environment. Positions of elements in the text of the script, which are sent
  to the observer, and images are left out.
\<close>

section \<open>Commands\<close>

datatype 'f argument = IntArg int | RealArg 'f | TextArg string bool

datatype 'f script_command =
    CommandChangeValue string char "'f argument"
  | CommandExposure
  | CommandShiftStart 'f
  | CommandShiftProgress int 'f
  | CommandShiftEnd int 'f
  | CommandBox int int int int
  | CommandCenter int int
  | CommandChange 'f 'f
  | CommandIntegrate int 'f int
  | Command string

text \<open>The text of a command; \<open>fixed\<close> and \<open>plain\<close> write a number with and without \<open>std::fixed\<close>.\<close>

primrec argument_text :: "('f \<Rightarrow> string) \<Rightarrow> 'f argument \<Rightarrow> string" where
  "argument_text fixed (IntArg i) = show_int i"
| "argument_text fixed (RealArg x) = fixed x"
| "argument_text fixed (TextArg s raw) = (if raw then s else [CHR 0x22] @ s @ [CHR 0x22])"

primrec command_text :: "('f \<Rightarrow> string) \<Rightarrow> ('f \<Rightarrow> string) \<Rightarrow> 'f script_command \<Rightarrow> string" where
  "command_text fixed plain (CommandChangeValue n op a) = ''X '' @ n @ '' '' @ [op] @ '' '' @ argument_text fixed a"
| "command_text fixed plain CommandExposure = ''expose''"
| "command_text fixed plain (CommandShiftStart e) = ''shiftstore start '' @ plain e"
| "command_text fixed plain (CommandShiftProgress s e) = ''shiftstore shift '' @ show_int s @ '' '' @ plain e"
| "command_text fixed plain (CommandShiftEnd s e) = ''shiftstore end '' @ show_int s @ '' '' @ plain e"
| "command_text fixed plain (CommandBox x y w h) =
     ''box '' @ show_int x @ '' '' @ show_int y @ '' '' @ show_int w @ '' '' @ show_int h"
| "command_text fixed plain (CommandCenter w h) = ''center '' @ show_int w @ '' '' @ show_int h"
| "command_text fixed plain (CommandChange r d) = ''change '' @ fixed r @ '' '' @ fixed d"
| "command_text fixed plain (CommandIntegrate i e n) = ''intfil '' @ show_int i @ '' '' @ fixed e @ '' '' @ show_int n"
| "command_text fixed plain (Command s) = s"

section \<open>Answers of elements\<close>

text \<open>The codes after which the caller goes to the next element.\<close>

definition element_done :: "int \<Rightarrow> bool" where
  "element_done ret \<longleftrightarrow> ret \<in> {0, NEXT_COMMAND_CHECK_WAIT, NEXT_COMMAND_PRECISION_FAILED, NEXT_COMMAND_PRECISION_OK,
     NEXT_COMMAND_WAIT_ACQUSITION}"

section \<open>Elements\<close>

datatype call_progress = CallFirst | CallShutter | CallFilter | CallExposure
datatype image_class = PlainImage | Expose | Dark
datatype acq_state = NOT_CALLED | ACQ_OK | ACQ_FAILED

datatype 'o block_class =
    SignalEnd int
  | Acquired int acq_state
  | Else
  | For int
  | WhileSod int
  | While 'o int
  | Do 'o int
  | Once

text \<open>The last three members of a block are \<open>curr_element\<close>, \<open>loopCount\<close> and \<open>elseBlock\<close>.\<close>

datatype ('f, 'o, 'x) element =
    ElementNone
  | ElementSequence string int 'f int call_progress
  | ElementImage image_class 'f call_progress
  | ElementShiftStoreStart 'f
  | ElementShiftStoreProgress int 'f
  | ElementShiftStoreEnd int 'f
  | ElementBox int int int int
  | ElementCenter int int
  | ElementChange string 'f 'f
  | ElementWait
  | ElementWaitAcquire int
  | ElementPhotometer int 'f int
  | ElementWaitSignal int
  | ElementChangeValue string string char "'o list"
  | ElementComment string int
  | ElementCommand string string "string list"
  | ElementLoopDisable
  | ElementWaitForIdle
  | Execute string bool bool
  | Foreign 'x
  | ElementBlock "'o block_class" "('f, 'o, 'x) element list" nat int "('f, 'o, 'x) element option"

record ('f, 'o, 'x) script =
  sc_elements :: "('f, 'o, 'x) element list"
  sc_iter :: nat
  sc_executed :: int
  sc_loopCount :: int
  sc_defaultDevice :: string

text \<open>The parameters \<open>new_command\<close> (with its mask) and \<open>new_device\<close>, and what was sent on the way.\<close>

datatype 'f script_effect = Queued "'f script_command" | AutoLoopDisabled

record 'f cmd_out =
  co_command :: "('f script_command \<times> rts2_status) option"
  co_device :: string
  co_effects :: "'f script_effect list"

text \<open>
  What a call sees of the rest: the values of the device (\<open>se_queExp\<close> is \<open>None\<close> without
  \<open>que_exp_num\<close>), its queue and state, the answers of the other scripts, the second of the day, the
  values of operands, the program of an \<open>exe\<close> element, and the elements that are not modelled.
\<close>

datatype client = Camera | Phot

record ('f, 'o, 'x) script_env =
  se_queExp :: "int option"
  se_has :: "string \<Rightarrow> bool"
  se_queueEmpty :: bool
  se_idle :: bool
  se_acquiring :: "int \<Rightarrow> bool"
  se_acquired :: bool
  se_signalAsked :: "int \<Rightarrow> bool"
  se_sod :: int
  se_true :: "'o \<Rightarrow> bool"
  se_text :: "'o \<Rightarrow> string"
  se_execStarts :: "string \<Rightarrow> bool"
  se_execEnded :: "string \<Rightarrow> bool"
  se_hasAutoLoop :: bool
  se_foreign :: "client option \<Rightarrow> 'f cmd_out \<Rightarrow> 'x \<Rightarrow> int \<times> 'f cmd_out \<times> 'x"
  se_foreignIdle :: "'x \<Rightarrow> int \<times> 'x"

definition new_command :: "'f script_command \<Rightarrow> rts2_status \<Rightarrow> 'f cmd_out \<Rightarrow> 'f cmd_out" where
  "new_command c m out = out\<lparr>co_command := Some (c, m)\<rparr>"

definition new_device :: "string \<Rightarrow> 'f cmd_out \<Rightarrow> 'f cmd_out" where
  "new_device d out = out\<lparr>co_device := d\<rparr>"

definition effect :: "'f script_effect \<Rightarrow> 'f cmd_out \<Rightarrow> 'f cmd_out" where
  "effect e out = out\<lparr>co_effects := co_effects out @ [e]\<rparr>"

lemmas out_defs = new_command_def new_device_def effect_def

section \<open>Elements that are no blocks\<close>

definition queue_not_empty :: "('f, 'o, 'x) script_env \<Rightarrow> bool" where
  "queue_not_empty env = (case se_queExp env of None \<Rightarrow> False | Some n \<Rightarrow> n \<noteq> 0)"

definition targetShutter :: "image_class \<Rightarrow> int" where
  "targetShutter k = (case k of PlainImage \<Rightarrow> -1 | Expose \<Rightarrow> 0 | Dark \<Rightarrow> 1)"

definition Execute_defnextCommand ::
    "('f, 'o, 'x) script_env \<Rightarrow> string \<Rightarrow> bool \<Rightarrow> bool \<Rightarrow> int \<times> ('f, 'o, 'x) element" where
  "Execute_defnextCommand env x conn ends =
     (if \<not> conn \<and> \<not> se_execStarts env x then (NEXT_COMMAND_STOP_TARGET, Execute x True ends)
      else if ends then (NEXT_COMMAND_END_SCRIPT, Execute x False ends)
      else if se_execEnded env x then (NEXT_COMMAND_NEXT, Execute x False ends)
      else (NEXT_COMMAND_KEEP, Execute x True ends))"

definition ChangeValue_defnextCommand ::
    "('f, 'o, 'x) script_env \<Rightarrow> 'f cmd_out \<Rightarrow> string \<Rightarrow> string \<Rightarrow> char \<Rightarrow> 'o list \<Rightarrow> int \<times> 'f cmd_out" where
  "ChangeValue_defnextCommand env out dev n op os =
     (if op = CHR 0x00 \<or> os = [] then (-1, out)
      else
        let a = TextArg (unwords (map (se_text env) os)) (length os > 1) in
        (0, new_device dev
              (case n of
                 CHR ''!'' # m \<Rightarrow> new_command (CommandChangeValue m op a) (BOP_TEL_MOVE OR BOP_WHILE_STATE) out
               | _ \<Rightarrow> new_command (CommandChangeValue n op a) BOP_TEL_MOVE out)))"

fun simple_defnextCommand ::
    "('f, 'o, 'x) script_env \<Rightarrow> ('f, 'o, 'x) script \<Rightarrow> 'f cmd_out \<Rightarrow> ('f, 'o, 'x) element \<Rightarrow> int \<times> 'f cmd_out \<times> ('f, 'o, 'x) element"
where
  "simple_defnextCommand env sc out (ElementChange d r c) = (0, new_device d (new_command (CommandChange r c) 0 out), ElementChange d r c)"
| "simple_defnextCommand env sc out ElementWait = (NEXT_COMMAND_CHECK_WAIT, out, ElementWait)"
| "simple_defnextCommand env sc out (ElementWaitAcquire t) =
     (if se_acquiring env t then NEXT_COMMAND_WAIT_ACQUSITION else NEXT_COMMAND_NEXT, out, ElementWaitAcquire t)"
| "simple_defnextCommand env sc out (ElementWaitSignal s) =
     (if s = -1 \<or> \<not> se_signalAsked env s then NEXT_COMMAND_NEXT else NEXT_COMMAND_WAIT_SIGNAL, out, ElementWaitSignal s)"
| "simple_defnextCommand env sc out (ElementChangeValue d n op os) =
     (case ChangeValue_defnextCommand env out d n op os of (r, out1) \<Rightarrow> (r, out1, ElementChangeValue d n op os))"
| "simple_defnextCommand env sc out (ElementComment t i) =
     (0, new_device (sc_defaultDevice sc)
           (new_command (CommandChangeValue ''SCR_COMM'' CHR ''='' (TextArg t False)) 0
             (effect (Queued (CommandChangeValue ''COMM_NUM'' CHR ''='' (IntArg i))) out)), ElementComment t i)"
| "simple_defnextCommand env sc out (ElementCommand d c args) =
     (0, new_device d (new_command (Command (unwords (c # args))) 0 out), ElementCommand d c args)"
| "simple_defnextCommand env sc out ElementLoopDisable =
     (NEXT_COMMAND_NEXT, if se_hasAutoLoop env then effect AutoLoopDisabled out else out, ElementLoopDisable)"
| "simple_defnextCommand env sc out ElementWaitForIdle =
     (if se_queueEmpty env \<and> se_idle env then NEXT_COMMAND_NEXT else NEXT_COMMAND_KEEP, out, ElementWaitForIdle)"
| "simple_defnextCommand env sc out (Execute x conn ends) =
     (case Execute_defnextCommand env x conn ends of (r, e) \<Rightarrow> (r, out, e))"
| "simple_defnextCommand env sc out (Foreign x) = (case se_foreign env None out x of (r, out1, y) \<Rightarrow> (r, out1, Foreign y))"
| "simple_defnextCommand env sc out e = (NEXT_COMMAND_NEXT, out, e)"

text \<open>
  What a camera is asked: a shutter, a filter and the exposure time first, if it has such values, then
  the exposure. \<open>set_value\<close> is the change of one value, after which the element waits to be asked again.
\<close>

definition set_value :: "string \<Rightarrow> 'f argument \<Rightarrow> 'f cmd_out \<Rightarrow> 'f cmd_out" where
  "set_value n a = new_command (CommandChangeValue n CHR ''='' a) BOP_TEL_MOVE"

definition expose :: "'f cmd_out \<Rightarrow> 'f cmd_out" where
  "expose = new_command CommandExposure BOP_EXPOSURE"

definition Image_nextCommand ::
    "('f, 'o, 'x) script_env \<Rightarrow> 'f cmd_out \<Rightarrow> image_class \<Rightarrow> 'f \<Rightarrow> call_progress \<Rightarrow> int \<times> 'f cmd_out \<times> ('f, 'o, 'x) element" where
  "Image_nextCommand env out k t p =
     (if p = CallFirst \<and> queue_not_empty env then (NEXT_COMMAND_KEEP, out, ElementImage k t CallFirst)
      else if p = CallFirst \<and> 0 \<le> targetShutter k \<and> se_has env ''SHUTTER'' then
        (NEXT_COMMAND_KEEP, set_value ''SHUTTER'' (IntArg (targetShutter k)) out, ElementImage k t CallShutter)
      else if (p = CallFirst \<or> p = CallShutter) \<and> se_has env ''exposure'' then
        (NEXT_COMMAND_KEEP, set_value ''exposure'' (RealArg t) out, ElementImage k t CallExposure)
      else (0, expose out, ElementImage k t CallFirst))"

definition Sequence_nextCommand ::
    "('f, 'o, 'x) script_env \<Rightarrow> 'f cmd_out \<Rightarrow> string \<Rightarrow> int \<Rightarrow> 'f \<Rightarrow> int \<Rightarrow> call_progress \<Rightarrow> int \<times> 'f cmd_out \<times> ('f, 'o, 'x) element" where
  "Sequence_nextCommand env out f n t k p =
     (if p = CallFirst \<and> queue_not_empty env then (NEXT_COMMAND_KEEP, out, ElementSequence f n t k CallFirst)
      else if p = CallFirst \<and> se_has env ''SHUTTER'' then
        (NEXT_COMMAND_KEEP, set_value ''SHUTTER'' (IntArg 0) out, ElementSequence f n t k CallShutter)
      else if (p = CallFirst \<or> p = CallShutter) \<and> se_has env ''filter'' then
        (NEXT_COMMAND_KEEP, set_value ''filter'' (TextArg f False) out, ElementSequence f n t k CallFilter)
      else if p \<noteq> CallExposure \<and> se_has env ''exposure'' then
        (NEXT_COMMAND_KEEP, set_value ''exposure'' (RealArg t) out, ElementSequence f n t k CallExposure)
      else
        let p1 = (if p = CallExposure then CallExposure else CallFilter); k1 = k + 1 in
        if k1 < n then (NEXT_COMMAND_KEEP, expose out, ElementSequence f n t k1 p1)
        else (0, expose out, ElementSequence f n t 0 CallFirst))"

fun simple_nextCommand ::
    "('f, 'o, 'x) script_env \<Rightarrow> ('f, 'o, 'x) script \<Rightarrow> client \<Rightarrow> 'f cmd_out \<Rightarrow> ('f, 'o, 'x) element \<Rightarrow>
     int \<times> 'f cmd_out \<times> ('f, 'o, 'x) element" where
  "simple_nextCommand env sc Camera out (ElementSequence f n t k p) = Sequence_nextCommand env (new_device (sc_defaultDevice sc) out) f n t k p"
| "simple_nextCommand env sc Camera out (ElementImage k t p) = Image_nextCommand env (new_device (sc_defaultDevice sc) out) k t p"
| "simple_nextCommand env sc Camera out (ElementShiftStoreStart t) =
     (0, new_device (sc_defaultDevice sc) (new_command (CommandShiftStart t) BOP_EXPOSURE out), ElementShiftStoreStart t)"
| "simple_nextCommand env sc Camera out (ElementShiftStoreProgress s t) =
     (0, new_device (sc_defaultDevice sc) (new_command (CommandShiftProgress s t) BOP_EXPOSURE out), ElementShiftStoreProgress s t)"
| "simple_nextCommand env sc Camera out (ElementShiftStoreEnd s t) =
     (0, new_device (sc_defaultDevice sc) (new_command (CommandShiftEnd s t) BOP_EXPOSURE out), ElementShiftStoreEnd s t)"
| "simple_nextCommand env sc Camera out (ElementBox x y w h) =
     (0, new_device (sc_defaultDevice sc) (new_command (CommandBox x y w h) 0 out), ElementBox x y w h)"
| "simple_nextCommand env sc Camera out (ElementCenter w h) =
     (0, new_device (sc_defaultDevice sc) (new_command (CommandCenter w h) 0 out), ElementCenter w h)"
| "simple_nextCommand env sc Phot out (ElementPhotometer i t n) =
     (0, new_device (sc_defaultDevice sc) (new_command (CommandIntegrate i t n) 0 out), ElementPhotometer i t n)"
| "simple_nextCommand env sc cl out (Foreign x) = (case se_foreign env (Some cl) out x of (r, out1, y) \<Rightarrow> (r, out1, Foreign y))"
| "simple_nextCommand env sc cl out e = simple_defnextCommand env sc out e"

section \<open>Blocks\<close>

text \<open>Dereferencing the iterator at the end, and the loops that go on for ever, are faults.\<close>

datatype script_fault = PastEnd | Looping

type_synonym ('f, 'o, 'x) next_result = "script_fault + (int \<times> 'f cmd_out \<times> ('f, 'o, 'x) element)"

definition endLoop :: "('f, 'o, 'x) script_env \<Rightarrow> int \<Rightarrow> 'o block_class \<Rightarrow> int \<Rightarrow> bool" where
  "endLoop env scriptLoop k loop =
     (case k of
        SignalEnd s \<Rightarrow> s = -1
      | Acquired t a \<Rightarrow> loop \<noteq> 0
      | Else \<Rightarrow> loop \<noteq> 0
      | For m \<Rightarrow> m \<le> loop
      | WhileSod s \<Rightarrow> s \<le> se_sod env
      | While c m \<Rightarrow> m \<le> loop \<or> \<not> se_true env c
      | Do c m \<Rightarrow> loop \<noteq> 0 \<and> (m \<le> loop \<or> \<not> se_true env c)
      | Once \<Rightarrow> \<not> (scriptLoop = 0 \<and> loop = 0))"

text \<open>
  \<open>curr_element++\<close> with what follows at the end of the block: whether the block has ended, the new
  \<open>curr_element\<close> and the new \<open>loopCount\<close>, which \<open>afterBlockEnd\<close> resets.
\<close>

definition advance :: "('f, 'o, 'x) script_env \<Rightarrow> int \<Rightarrow> 'o block_class \<Rightarrow> nat \<Rightarrow> nat \<Rightarrow> int \<Rightarrow> bool \<times> nat \<times> int" where
  "advance env scriptLoop k len cur loop =
     (if cur + 1 = len then
        (if endLoop env scriptLoop k (loop + 1) then (True, 0, 0) else (False, 0, loop + 1))
      else (False, cur + 1, loop))"

definition blockScriptRet ::
    "('f, 'o, 'x) script_env \<Rightarrow> int \<Rightarrow> 'o block_class \<Rightarrow> nat \<Rightarrow> nat \<Rightarrow> int \<Rightarrow> int \<Rightarrow> int \<times> nat \<times> int" where
  "blockScriptRet env scriptLoop k len cur loop ret =
     (if element_done ret then
        (case advance env scriptLoop k len cur loop of
           (True, c, l) \<Rightarrow> (ret, c, l)
         | (False, c, l) \<Rightarrow> (ret OR NEXT_COMMAND_MASK_BLOCK, c, l))
      else (ret OR NEXT_COMMAND_MASK_BLOCK, cur, loop))"

text \<open>
  The loop of \<open>defnextCommand\<close> and \<open>nextCommand\<close> of a block over its elements, of which \<open>step\<close> is the
  call of the current one. \<open>hold\<close> is the test of \<open>ElementWhileSod\<close> that drops a command.
\<close>

primrec block_loop ::
    "nat \<Rightarrow> ('f cmd_out \<Rightarrow> ('f, 'o, 'x) element \<Rightarrow> ('f, 'o, 'x) next_result) \<Rightarrow> (int \<Rightarrow> nat \<Rightarrow> bool) \<Rightarrow>
     ('f, 'o, 'x) script_env \<Rightarrow> int \<Rightarrow> 'o block_class \<Rightarrow> ('f, 'o, 'x) element option \<Rightarrow>
     'f cmd_out \<Rightarrow> ('f, 'o, 'x) element list \<Rightarrow> nat \<Rightarrow> int \<Rightarrow> ('f, 'o, 'x) next_result" where
  "block_loop 0 step hold env sl k alt out es c l = Inl Looping"
| "block_loop (Suc n) step hold env sl k alt out es c l =
     (if length es \<le> c then Inl PastEnd
      else
        (case step out (es ! c) of
           Inl f \<Rightarrow> Inl f
         | Inr (ret, out1, x) \<Rightarrow>
             let es1 = es[c := x] in
             if hold ret c then Inr (NEXT_COMMAND_KEEP OR NEXT_COMMAND_MASK_BLOCK, out1\<lparr>co_command := None\<rparr>, ElementBlock k es1 c l alt)
             else if ret = NEXT_COMMAND_NEXT then
               (case advance env sl k (length es) c l of
                  (True, c1, l1) \<Rightarrow> Inr (NEXT_COMMAND_NEXT, out1, ElementBlock k es1 c1 l1 alt)
                | (False, c1, l1) \<Rightarrow> block_loop n step hold env sl k alt out1 es1 c1 l1)
             else
               (case blockScriptRet env sl k (length es) c l ret of
                  (r, c1, l1) \<Rightarrow> Inr (r, out1, ElementBlock k es1 c1 l1 alt))))"

definition checkState :: "('f, 'o, 'x) script_env \<Rightarrow> acq_state \<Rightarrow> acq_state" where
  "checkState env a = (if a = NOT_CALLED then (if se_acquired env then ACQ_OK else ACQ_FAILED) else a)"

text \<open>The else branch of \<open>ElementAcquired\<close>, with the block as \<open>elseBlock\<close>.\<close>

definition else_branch ::
    "('f cmd_out \<Rightarrow> ('f, 'o, 'x) element \<Rightarrow> ('f, 'o, 'x) next_result) \<Rightarrow> 'f cmd_out \<Rightarrow> 'o block_class \<Rightarrow>
     ('f, 'o, 'x) element list \<Rightarrow> nat \<Rightarrow> int \<Rightarrow> ('f, 'o, 'x) element option \<Rightarrow> ('f, 'o, 'x) next_result" where
  "else_branch step out k es c l alt =
     (case alt of
        None \<Rightarrow> Inr (NEXT_COMMAND_NEXT, out, ElementBlock k es c l None)
      | Some b \<Rightarrow>
          (case step out b of
             Inl f \<Rightarrow> Inl f
           | Inr (ret, out1, b1) \<Rightarrow> Inr (ret, out1, ElementBlock k es c l (Some b1))))"

primrec defnextCommand ::
    "nat \<Rightarrow> ('f, 'o, 'x) script_env \<Rightarrow> ('f, 'o, 'x) script \<Rightarrow> 'f cmd_out \<Rightarrow> ('f, 'o, 'x) element \<Rightarrow> ('f, 'o, 'x) next_result" where
  "defnextCommand 0 env sc out e = Inl Looping"
| "defnextCommand (Suc n) env sc out e =
     (case e of
        ElementBlock k es c l alt \<Rightarrow>
          (let loop = (\<lambda>k. block_loop n (defnextCommand n env sc) (\<lambda>_ _. False) env (sc_loopCount sc) k alt out es c l) in
           case k of
             Acquired t a \<Rightarrow>
               (let a1 = checkState env a in
                if a1 = ACQ_OK then loop (Acquired t a1) else else_branch (defnextCommand n env sc) out (Acquired t a1) es c l alt)
           | _ \<Rightarrow> loop k)
      | _ \<Rightarrow> Inr (simple_defnextCommand env sc out e))"

text \<open>\<open>nextCommand\<close> for a camera or a photometer; the else branch is left to \<open>defnextCommand\<close>, as in the code.\<close>

definition sod_hold :: "('f, 'o, 'x) script_env \<Rightarrow> client \<Rightarrow> 'o block_class \<Rightarrow> int \<Rightarrow> nat \<Rightarrow> bool" where
  "sod_hold env cl k ret c =
     (case k of
        WhileSod s \<Rightarrow> cl = Camera \<and> ret = 0 \<and> c = 0 \<and> (case se_queExp env of None \<Rightarrow> False | Some q \<Rightarrow> 1 < q)
      | _ \<Rightarrow> False)"

definition block_nextCommand ::
    "nat \<Rightarrow> ('f cmd_out \<Rightarrow> ('f, 'o, 'x) element \<Rightarrow> ('f, 'o, 'x) next_result) \<Rightarrow> ('f, 'o, 'x) script_env \<Rightarrow> ('f, 'o, 'x) script \<Rightarrow>
     client \<Rightarrow> 'f cmd_out \<Rightarrow> 'o block_class \<Rightarrow> ('f, 'o, 'x) element list \<Rightarrow> nat \<Rightarrow> int \<Rightarrow> ('f, 'o, 'x) element option \<Rightarrow>
     ('f, 'o, 'x) next_result" where
  "block_nextCommand n step env sc cl out k es c l alt =
     (if endLoop env (sc_loopCount sc) k l \<or> es = [] then Inr (NEXT_COMMAND_NEXT, out, ElementBlock k es c l alt)
      else block_loop n step (sod_hold env cl k) env (sc_loopCount sc) k alt out es c l)"

primrec nextCommand ::
    "nat \<Rightarrow> ('f, 'o, 'x) script_env \<Rightarrow> ('f, 'o, 'x) script \<Rightarrow> client \<Rightarrow> 'f cmd_out \<Rightarrow> ('f, 'o, 'x) element \<Rightarrow> ('f, 'o, 'x) next_result"
where
  "nextCommand 0 env sc cl out e = Inl Looping"
| "nextCommand (Suc n) env sc cl out e =
     (case e of
        ElementBlock k es c l alt \<Rightarrow>
          (case k of
             Acquired t a \<Rightarrow>
               (let a1 = checkState env a in
                if a1 = ACQ_OK then block_nextCommand n (nextCommand n env sc cl) env sc cl out (Acquired t a1) es c l alt
                else else_branch (defnextCommand n env sc) out (Acquired t a1) es c l alt)
           | _ \<Rightarrow> block_nextCommand n (nextCommand n env sc cl) env sc cl out k es c l alt)
      | _ \<Rightarrow> Inr (simple_nextCommand env sc cl out e))"

section \<open>Scripts\<close>

type_synonym ('f, 'o, 'x) script_result = "script_fault + (int \<times> 'f cmd_out \<times> ('f, 'o, 'x) script)"

text \<open>The loop over the elements; its first argument is the number of elements that are left.\<close>

primrec script_loop ::
    "nat \<Rightarrow> nat \<Rightarrow> ('f, 'o, 'x) script_env \<Rightarrow> client \<Rightarrow> 'f cmd_out \<Rightarrow> ('f, 'o, 'x) script \<Rightarrow> (int option) \<times> ('f, 'o, 'x) script_result"
where
  "script_loop 0 n env cl out s = (None, Inr (NEXT_COMMAND_END_SCRIPT, out, s))"
| "script_loop (Suc k) n env cl out s =
     (case nextCommand n env s cl out (sc_elements s ! sc_iter s) of
        Inl f \<Rightarrow> (None, Inl f)
      | Inr (ret, out1, e) \<Rightarrow>
          let s1 = s\<lparr>sc_elements := (sc_elements s)[sc_iter s := e]\<rparr> in
          if ret = NEXT_COMMAND_NEXT then script_loop k n env cl out1 (s1\<lparr>sc_iter := sc_iter s + 1\<rparr>)
          else (Some ret, Inr (ret, out1, s1)))"

definition after_element :: "int \<Rightarrow> 'f cmd_out \<Rightarrow> ('f, 'o, 'x) script \<Rightarrow> int \<times> 'f cmd_out \<times> ('f, 'o, 'x) script" where
  "after_element ret out s =
     (let s1 = s\<lparr>sc_executed := sc_executed s + 1\<rparr> in
      if ret AND NEXT_COMMAND_MASK_BLOCK \<noteq> 0 then (ret AND NOT NEXT_COMMAND_MASK_BLOCK, out, s1)
      else if element_done ret then (ret, out, s1\<lparr>sc_iter := sc_iter s + 1\<rparr>)
      else if ret = NEXT_COMMAND_WAITING then (ret, out\<lparr>co_command := None\<rparr>, s1)
      else (ret, out, s1))"

definition script_nextCommand ::
    "nat \<Rightarrow> ('f, 'o, 'x) script_env \<Rightarrow> client \<Rightarrow> 'f cmd_out \<Rightarrow> ('f, 'o, 'x) script \<Rightarrow> ('f, 'o, 'x) script_result" where
  "script_nextCommand n env cl out s =
     (let out1 = out\<lparr>co_command := None\<rparr> in
      if sc_executed s < 0 then Inr (NEXT_COMMAND_END_SCRIPT, out1, s)
      else
        (case script_loop (length (sc_elements s) - sc_iter s) n env cl out1 s of
           (Some ret, Inr (r, out2, s1)) \<Rightarrow> Inr (after_element ret out2 s1)
         | (_, res) \<Rightarrow> res))"

definition isLastCommand :: "('f, 'o, 'x) script \<Rightarrow> bool" where
  "isLastCommand s \<longleftrightarrow> length (sc_elements s) \<le> sc_iter s"

section \<open>Signals, idle calls and expected images\<close>

lemma size_nth: "c < length es \<Longrightarrow> size (es ! c) < Suc (size_list size es)"
  using size_list_estimation' [of "es ! c" es "size (es ! c)" size] by (simp add: less_Suc_eq_le)

lemma size_nth_more [termination_simp]: "c < length es \<Longrightarrow> size (es ! c) < Suc (a + size_list size es + b)"
  by (drule size_nth) simp

fun waitForSignal :: "int \<Rightarrow> ('f, 'o, 'x) element \<Rightarrow> bool \<times> ('f, 'o, 'x) element" where
  "waitForSignal sig (ElementWaitSignal s) = (if s = sig then (True, ElementWaitSignal (-1)) else (False, ElementWaitSignal s))"
| "waitForSignal sig (ElementBlock k es c l alt) =
     (let current =
        (if c < length es then (case waitForSignal sig (es ! c) of (r, e) \<Rightarrow> (r, ElementBlock k (es[c := e]) c l alt))
         else (False, ElementBlock k es c l alt))
      in
        case k of
          SignalEnd s \<Rightarrow> if sig = s then (True, ElementBlock (SignalEnd (-1)) es c l alt) else current
        | Acquired t a \<Rightarrow>
            if a = ACQ_OK then current
            else if a = ACQ_FAILED then
              (case alt of
                 None \<Rightarrow> (False, ElementBlock k es c l None)
               | Some b \<Rightarrow> (case waitForSignal sig b of (r, b1) \<Rightarrow> (r, ElementBlock k es c l (Some b1))))
            else (False, ElementBlock k es c l alt)
        | _ \<Rightarrow> current)"
| "waitForSignal sig ElementNone = (False, ElementNone)"
| "waitForSignal sig (ElementSequence f n t i p) = (False, ElementSequence f n t i p)"
| "waitForSignal sig (ElementImage m t p) = (False, ElementImage m t p)"
| "waitForSignal sig (ElementShiftStoreStart t) = (False, ElementShiftStoreStart t)"
| "waitForSignal sig (ElementShiftStoreProgress i t) = (False, ElementShiftStoreProgress i t)"
| "waitForSignal sig (ElementShiftStoreEnd i t) = (False, ElementShiftStoreEnd i t)"
| "waitForSignal sig (ElementBox x y w h) = (False, ElementBox x y w h)"
| "waitForSignal sig (ElementCenter w h) = (False, ElementCenter w h)"
| "waitForSignal sig (ElementChange d x y) = (False, ElementChange d x y)"
| "waitForSignal sig ElementWait = (False, ElementWait)"
| "waitForSignal sig (ElementWaitAcquire t) = (False, ElementWaitAcquire t)"
| "waitForSignal sig (ElementPhotometer i t n) = (False, ElementPhotometer i t n)"
| "waitForSignal sig (ElementChangeValue d n op os) = (False, ElementChangeValue d n op os)"
| "waitForSignal sig (ElementComment t i) = (False, ElementComment t i)"
| "waitForSignal sig (ElementCommand d x as) = (False, ElementCommand d x as)"
| "waitForSignal sig ElementLoopDisable = (False, ElementLoopDisable)"
| "waitForSignal sig ElementWaitForIdle = (False, ElementWaitForIdle)"
| "waitForSignal sig (Execute x a b) = (False, Execute x a b)"
| "waitForSignal sig (Foreign y) = (False, Foreign y)"

text \<open>\<open>EVENT_SIGNAL\<close>: the elements from the current one on are told; the last one that waited becomes current.\<close>

definition signal_element ::
    "nat \<Rightarrow> int \<times> nat \<times> ('f, 'o, 'x) element list \<Rightarrow> int \<times> nat \<times> ('f, 'o, 'x) element list" where
  "signal_element i = (\<lambda>(sig, it, es).
     case waitForSignal sig (es ! i) of (r, e) \<Rightarrow> if r then (-1, i, es[i := e]) else (sig, it, es[i := e]))"

definition script_signal :: "int \<Rightarrow> ('f, 'o, 'x) script \<Rightarrow> int \<times> ('f, 'o, 'x) script" where
  "script_signal sig s =
     (case fold signal_element [sc_iter s..<length (sc_elements s)] (sig, sc_iter s, sc_elements s) of
        (r, it, es) \<Rightarrow> (r, s\<lparr>sc_iter := it, sc_elements := es\<rparr>))"

fun idleCall :: "('f, 'o, 'x) script_env \<Rightarrow> int \<Rightarrow> ('f, 'o, 'x) element \<Rightarrow> int \<times> ('f, 'o, 'x) element" where
  "idleCall env sl (ElementBlock k es c l alt) =
     (if c < length es then
        (case idleCall env sl (es ! c) of
           (ret, e) \<Rightarrow>
             if ret \<noteq> NEXT_COMMAND_NEXT then
               (case blockScriptRet env sl k (length es) c l ret of (r, c1, l1) \<Rightarrow> (r, ElementBlock k (es[c := e]) c1 l1 alt))
             else
               (case advance env sl k (length es) c l of (_, c1, l1) \<Rightarrow> (NEXT_COMMAND_NEXT, ElementBlock k (es[c := e]) c1 l1 alt)))
      else (NEXT_COMMAND_KEEP, ElementBlock k es c l alt))"
| "idleCall env sl (Foreign x) = (case se_foreignIdle env x of (r, y) \<Rightarrow> (r, Foreign y))"
| "idleCall env sl e = (NEXT_COMMAND_KEEP, e)"

definition script_idle :: "('f, 'o, 'x) script_env \<Rightarrow> ('f, 'o, 'x) script \<Rightarrow> int \<times> ('f, 'o, 'x) script" where
  "script_idle env s =
     (if isLastCommand s then (NEXT_COMMAND_KEEP, s)
      else case idleCall env (sc_loopCount s) (sc_elements s ! sc_iter s) of
        (r, e) \<Rightarrow> (r, s\<lparr>sc_elements := (sc_elements s)[sc_iter s := e]\<rparr>))"

fun expectedImages :: "('f, 'o, 'x) element \<Rightarrow> int" where
  "expectedImages (ElementSequence f n t i p) = n"
| "expectedImages (ElementImage m t p) = 1"
| "expectedImages (ElementShiftStoreEnd i t) = 1"
| "expectedImages (ElementBlock k es c l alt) =
     (let b = foldl (\<lambda>a e. to_int32 (a + expectedImages e)) 0 es in
      case k of For m \<Rightarrow> to_int32 (m * b) | _ \<Rightarrow> b)"
| "expectedImages _ = 0"

definition getExpectedImages :: "('f, 'o, 'x) script \<Rightarrow> int" where
  "getExpectedImages s = foldl (\<lambda>a e. to_int32 (a + expectedImages e)) 0 (sc_elements s)"

end
