(* ===== verification/Rts2_ScriptRun.thy ===== *)
theory Rts2_ScriptRun
  imports Rts2_Script
begin

text \<open>
  When the loops over the elements of a script end: a script without blocks that wait for a signal or a
  time always answers, whatever its other elements do.
\<close>

section \<open>Blocks with a limit\<close>

definition limited :: "'o block_class \<Rightarrow> bool" where
  "limited k = (case k of SignalEnd s \<Rightarrow> False | WhileSod s \<Rightarrow> False | _ \<Rightarrow> True)"

definition limit :: "'o block_class \<Rightarrow> int" where
  "limit k = max 1 (case k of For m \<Rightarrow> m | While c m \<Rightarrow> m | Do c m \<Rightarrow> m | _ \<Rightarrow> 1)"

lemma limit_ends: "limited k \<Longrightarrow> limit k \<le> l \<Longrightarrow> endLoop env sl k l"
  by (cases k) (auto simp: limited_def limit_def endLoop_def)

text \<open>\<open>bounded d e\<close>: the blocks in \<open>e\<close> have a limit and are nested at most \<open>d\<close> deep.\<close>

primrec bounded :: "nat \<Rightarrow> ('f, 'o, 'x) element \<Rightarrow> bool" where
  "bounded 0 e = (case e of ElementBlock k es c l alt \<Rightarrow> False | _ \<Rightarrow> True)"
| "bounded (Suc d) e =
     (case e of
        ElementBlock k es c l alt \<Rightarrow> limited k \<and> list_all (bounded d) es \<and> pred_option (bounded d) alt
      | _ \<Rightarrow> True)"

fun limited_blocks :: "('f, 'o, 'x) element \<Rightarrow> bool" where
  "limited_blocks (ElementBlock k es c l alt) \<longleftrightarrow> limited k \<and> list_all limited_blocks es \<and> pred_option limited_blocks alt"
| "limited_blocks e \<longleftrightarrow> True"

lemma bounded_mono: "bounded d e \<Longrightarrow> d \<le> d1 \<Longrightarrow> bounded d1 e"
proof (induction d1 arbitrary: d e)
  case (Suc d1)
  show ?case
  proof (cases d)
    case 0
    then show ?thesis using Suc.prems by (cases e) auto
  next
    case (Suc n)
    then show ?thesis using Suc.prems Suc.IH [of n]
      by (cases e) (auto simp: list_all_iff elim: option.pred_mono_strong)
  qed
qed simp

lemma bounded_list: "(\<And>e. e \<in> set es \<Longrightarrow> \<exists>d. bounded d e) \<Longrightarrow> \<exists>d. list_all (bounded d) es"
proof (induction es)
  case (Cons e es)
  from Cons.prems obtain d1 where "bounded d1 e" by auto
  moreover from Cons obtain d2 where "list_all (bounded d2) es" by auto
  ultimately have "list_all (bounded (max d1 d2)) (e # es)"
    by (auto simp: list_all_iff intro: bounded_mono)
  then show ?case by blast
qed simp

lemma limited_bounded: "limited_blocks e \<Longrightarrow> \<exists>d. bounded d e"
proof (induction e rule: limited_blocks.induct)
  case (1 k es c l alt)
  then obtain d1 where d1: "list_all (bounded d1) es"
    using bounded_list [of es] by (auto simp: list_all_iff)
  obtain d2 where d2: "pred_option (bounded d2) alt"
    using 1 by (cases alt) auto
  have "bounded (Suc (max d1 d2)) (ElementBlock k es c l alt)"
    using d1 d2 1(3) by (cases alt) (auto simp: list_all_iff intro: bounded_mono)
  then show ?case by blast
qed (auto intro: exI [of _ 0])

section \<open>Answers for all fuel from some on\<close>

definition good_answer :: "(('f, 'o, 'x) element \<Rightarrow> bool) \<Rightarrow> ('f, 'o, 'x) next_result \<Rightarrow> bool" where
  "good_answer P r = (case r of Inl f \<Rightarrow> f \<noteq> Looping | Inr (ret, out, e) \<Rightarrow> P e)"

definition settles :: "(('f, 'o, 'x) element \<Rightarrow> bool) \<Rightarrow> (nat \<Rightarrow> ('f, 'o, 'x) next_result) \<Rightarrow> bool" where
  "settles P f \<longleftrightarrow> (\<exists>N r. (\<forall>n\<ge>N. f n = r) \<and> good_answer P r)"

lemma settlesI: "(\<And>n. N \<le> n \<Longrightarrow> f n = r) \<Longrightarrow> good_answer P r \<Longrightarrow> settles P f"
  by (auto simp: settles_def)

lemma settles_Suc: "settles P (\<lambda>n. f (Suc n)) \<Longrightarrow> settles P f"
proof -
  assume "settles P (\<lambda>n. f (Suc n))"
  then obtain N r where "\<And>n. N \<le> n \<Longrightarrow> f (Suc n) = r" "good_answer P r" by (auto simp: settles_def)
  then show "settles P f" by (intro settlesI [of "Suc N" f r]) (metis Suc_le_D Suc_le_mono)
qed

lemma settles_if: "settles P f \<Longrightarrow> settles P g \<Longrightarrow> settles P (\<lambda>n. if b then f n else g n)"
  by (cases b) simp_all

text \<open>The loop of a block settles when the calls of its elements do.\<close>

definition room :: "'o block_class \<Rightarrow> nat \<Rightarrow> nat \<Rightarrow> int \<Rightarrow> nat" where
  "room k len c l = nat (limit k - l) * len + (len - c)"

lemma room_less:
  assumes "limited k" "c < len" "advance env sl k len c l = (False, c1, l1)"
  shows "room k len c1 l1 < room k len c l"
proof (cases "c + 1 = len")
  case True
  then have a: "\<not> endLoop env sl k (l + 1)" "c1 = 0" "l1 = l + 1" using assms(3) by (auto simp: advance_def split: if_splits)
  then have "l + 1 < limit k" by (meson assms(1) limit_ends not_le)
  then have "nat (limit k - l) = Suc (nat (limit k - (l + 1)))" by simp
  then show ?thesis using a True by (simp add: room_def)
next
  case False
  then show ?thesis using assms(2,3) by (auto simp: advance_def room_def)
qed

lemma loop_settles:
  assumes step: "\<And>out x. P x \<Longrightarrow> settles P (\<lambda>n. step n out x)"
    and k: "limited k"
    and block: "\<And>es c l. list_all P es \<Longrightarrow> Q (ElementBlock k es c l alt)"
  shows "list_all P es \<Longrightarrow>
    \<exists>N r. (\<forall>n\<ge>N. \<forall>m\<ge>N. block_loop n (step m) hold env sl k alt out es c l = r) \<and> good_answer Q r"
proof (induction "room k (length es) c l" arbitrary: es c l out rule: less_induct)
  case less
  show ?case
  proof (cases "length es \<le> c")
    case True
    have "block_loop n (step m) hold env sl k alt out es c l = Inl PastEnd" if "Suc 0 \<le> n" for n m
      using that True by (cases n) simp_all
    then show ?thesis by (intro exI [of _ "Suc 0"] exI [of _ "Inl PastEnd"]) (simp add: good_answer_def)
  next
    case False
    then have "P (es ! c)" using less.prems by (auto simp: list_all_length)
    from step [OF this, of out] obtain N r where r: "\<And>m. N \<le> m \<Longrightarrow> step m out (es ! c) = r" "good_answer P r"
      by (auto simp: settles_def)
    show ?thesis
    proof (cases r)
      case (Inl f)
      have "block_loop n (step m) hold env sl k alt out es c l = Inl f" if "Suc N \<le> n" "Suc N \<le> m" for n m
        using that False r(1) Inl by (cases n) simp_all
      then show ?thesis using r(2) Inl by (intro exI [of _ "Suc N"] exI [of _ "Inl f"]) (simp add: good_answer_def)
    next
      case (Inr y)
      then obtain ret out1 x where y: "r = Inr (ret, out1, x)" by (cases y) auto
      let ?es = "es[c := x]"
      have es: "list_all P ?es" using less.prems r(2) y set_update_subset_insert [of es c x]
        by (auto simp: list_all_iff good_answer_def)
      obtain fin c1 l1 where adv: "advance env sl k (length es) c l = (fin, c1, l1)" by (cases "advance env sl k (length es) c l") auto
      show ?thesis
      proof (cases "\<not> hold ret c \<and> ret = NEXT_COMMAND_NEXT \<and> \<not> fin")
        case True
        then have "room k (length ?es) c1 l1 < room k (length es) c l"
          using False adv by (simp add: room_less [OF k])
        from less.hyps [OF this es, of out1] obtain N1 q where q:
          "\<And>n m. N1 \<le> n \<Longrightarrow> N1 \<le> m \<Longrightarrow> block_loop n (step m) hold env sl k alt out1 ?es c1 l1 = q" "good_answer Q q" by blast
        have "block_loop n (step m) hold env sl k alt out es c l = q" if "Suc (max N N1) \<le> n" "Suc (max N N1) \<le> m" for n m
          using that False True adv y q(1) r(1) by (cases n) (auto simp: Let_def)
        then show ?thesis using q(2) by blast
      next
        case stop: False
        define q :: "script_fault + _" where "q = (let es1 = es[c := x] in
             if hold ret c then Inr (NEXT_COMMAND_KEEP OR NEXT_COMMAND_MASK_BLOCK, out1\<lparr>co_command := None\<rparr>, ElementBlock k es1 c l alt)
             else if ret = NEXT_COMMAND_NEXT then Inr (NEXT_COMMAND_NEXT, out1, ElementBlock k es1 c1 l1 alt)
             else (case blockScriptRet env sl k (length es) c l ret of (r, c1, l1) \<Rightarrow> Inr (r, out1, ElementBlock k es1 c1 l1 alt)))"
        have "block_loop n (step m) hold env sl k alt out es c l = q" if "Suc N \<le> n" "Suc N \<le> m" for n m
          using that False stop adv y r(1) by (cases n) (auto simp: q_def Let_def)
        moreover have "good_answer Q q" using block [OF es]
          by (auto simp: q_def good_answer_def Let_def split: prod.splits)
        ultimately show ?thesis by blast
      qed
    qed
  qed
qed

section \<open>Elements and scripts\<close>

text \<open>An element that is no block stays none.\<close>

definition simple :: "('f, 'o, 'x) element \<Rightarrow> bool" where
  "simple e \<longleftrightarrow> (case e of ElementBlock k es c l alt \<Rightarrow> False | _ \<Rightarrow> True)"

lemma simple_defnext: "simple e \<Longrightarrow> simple (snd (snd (simple_defnextCommand env sc out e)))"
  by (cases e) (auto simp: simple_def Execute_defnextCommand_def split: prod.splits)

lemma simple_next: "simple e \<Longrightarrow> simple (snd (snd (simple_nextCommand env sc cl out e)))"
  by (cases cl; cases e)
    (auto simp: simple_def Execute_defnextCommand_def Image_nextCommand_def Sequence_nextCommand_def Let_def split: prod.splits)

lemma simple_bounded: "simple e \<Longrightarrow> bounded d e"
  by (cases d; cases e) (simp_all add: simple_def)

lemma next_simple:
  "simple e \<Longrightarrow> defnextCommand (Suc n) env sc out e = Inr (simple_defnextCommand env sc out e)"
  "simple e \<Longrightarrow> nextCommand (Suc n) env sc cl out e = Inr (simple_nextCommand env sc cl out e)"
  by (cases e; simp add: simple_def)+

lemma bounded_cases:
  assumes "bounded d e"
  obtains "simple e"
    | k es c l alt d1 where "e = ElementBlock k es c l alt" "d = Suc d1" "limited k" "list_all (bounded d1) es" "pred_option (bounded d1) alt"
  using assms by (cases d; cases e) (auto simp: simple_def)

lemma settles_simple: "(\<And>n. f (Suc n) = Inr (ret, out, e)) \<Longrightarrow> P e \<Longrightarrow> settles P f"
  by (intro settles_Suc [of P f] settlesI [of 0]) (auto simp: good_answer_def)

lemma simple_settles:
  assumes "simple e"
  shows "settles (bounded d) (\<lambda>n. defnextCommand n env sc out e)" "settles (bounded d) (\<lambda>n. nextCommand n env sc cl out e)"
proof -
  obtain r o1 e1 where a: "simple_defnextCommand env sc out e = (r, o1, e1)" by (metis prod_cases3)
  obtain q o2 e2 where b: "simple_nextCommand env sc cl out e = (q, o2, e2)" by (metis prod_cases3)
  have "bounded d e1" "bounded d e2"
    using simple_defnext [OF assms, of env sc out] simple_next [OF assms, of env sc cl out] a b by (simp_all add: simple_bounded)
  then show "settles (bounded d) (\<lambda>n. defnextCommand n env sc out e)" "settles (bounded d) (\<lambda>n. nextCommand n env sc cl out e)"
    using next_simple [OF assms] a b settles_simple [of "\<lambda>n. defnextCommand n env sc out e" r o1 e1]
      settles_simple [of "\<lambda>n. nextCommand n env sc cl out e" q o2 e2] by simp_all
qed

text \<open>What a block settles on when its elements do.\<close>

lemma else_settles:
  assumes "\<And>b. alt = Some b \<Longrightarrow> settles P (\<lambda>n. step n out b)"
    and "\<And>alt1. pred_option P alt1 \<Longrightarrow> Q (ElementBlock k es c l alt1)"
  shows "settles Q (\<lambda>n. else_branch (step n) out k es c l alt)"
proof (cases alt)
  case None
  then show ?thesis using assms(2) [of None] by (intro settlesI [of 0]) (auto simp: else_branch_def good_answer_def)
next
  case (Some b)
  then obtain N r where r: "\<And>n. N \<le> n \<Longrightarrow> step n out b = r" "good_answer P r" using assms(1) by (auto simp: settles_def)
  show ?thesis
    by (rule settlesI [of N])
      (use Some r assms(2) in \<open>auto simp: else_branch_def good_answer_def split: sum.splits prod.splits\<close>)
qed

lemma settles_diagonal:
  assumes "\<exists>N r. (\<forall>n\<ge>N. \<forall>m\<ge>N. f n m = r) \<and> good_answer Q r"
  shows "settles Q (\<lambda>n. f n n)"
proof -
  obtain N r where "\<forall>n\<ge>N. \<forall>m\<ge>N. f n m = r" "good_answer Q r" using assms by blast
  then show ?thesis by (intro settlesI [of N]) simp_all
qed

lemma bounded_block:
  "limited k \<Longrightarrow> list_all (bounded d) es \<Longrightarrow> pred_option (bounded d) alt \<Longrightarrow> bounded (Suc d) (ElementBlock k es c l alt)"
  by simp

lemma acquired_limited: "limited (Acquired t a)"
  by (simp add: limited_def)

lemma block_settles:
  assumes "\<And>out x. bounded d x \<Longrightarrow> settles (bounded d) (\<lambda>n. step n out x)"
    and "limited k" "list_all (bounded d) es" "pred_option (bounded d) alt"
  shows "settles (bounded (Suc d)) (\<lambda>n. block_loop n (step n) hold env sl k alt out es c l)"
    and "settles (bounded (Suc d)) (\<lambda>n. block_nextCommand n (step n) env sc cl out k es c l alt)"
proof -
  have l: "settles (bounded (Suc d)) (\<lambda>n. block_loop n (step n) hold env sl k alt out es c l)" for hold sl
    by (rule settles_diagonal [where f = "\<lambda>n m. block_loop n (step m) hold env sl k alt out es c l"],
        rule loop_settles [where P = "bounded d"]) (use assms in auto)
  then show "settles (bounded (Suc d)) (\<lambda>n. block_loop n (step n) hold env sl k alt out es c l)" .
  show "settles (bounded (Suc d)) (\<lambda>n. block_nextCommand n (step n) env sc cl out k es c l alt)"
    using l assms settlesI [of 0 "\<lambda>n. Inr (NEXT_COMMAND_NEXT, out, ElementBlock k es c l alt)"
        "Inr (NEXT_COMMAND_NEXT, out, ElementBlock k es c l alt)" "bounded (Suc d)"]
    by (auto intro: settles_if simp: block_nextCommand_def good_answer_def)
qed

lemma defnext_settles: "bounded d e \<Longrightarrow> settles (bounded d) (\<lambda>n. defnextCommand n env sc out e)"
proof (induction d arbitrary: e out)
  case 0
  then show ?case by (metis bounded_cases nat.distinct(1) simple_settles(1))
next
  case (Suc d)
  from Suc.prems show ?case
  proof (cases rule: bounded_cases)
    case (2 k es c l alt d1)
    note b = block_settles(1) [where step = "\<lambda>n. defnextCommand n env sc" and d = d and es = es and alt = alt, OF Suc.IH]
    have e: "settles (bounded (Suc d)) (\<lambda>n. else_branch (defnextCommand n env sc) out (Acquired t a) es c l alt)" for t a
      by (rule else_settles [where P = "bounded d"]) (use 2 Suc.IH acquired_limited in auto)
    show ?thesis
      using 2 b [OF _ acquired_limited] b e
      by (intro settles_Suc [of _ "\<lambda>n. defnextCommand n env sc out e"]) (cases k; simp add: Let_def settles_if del: bounded.simps)
  qed (rule simple_settles)
qed

lemma next_settles: "bounded d e \<Longrightarrow> settles (bounded d) (\<lambda>n. nextCommand n env sc cl out e)"
proof (induction d arbitrary: e out)
  case 0
  then show ?case by (metis bounded_cases nat.distinct(1) simple_settles(2))
next
  case (Suc d)
  from Suc.prems show ?case
  proof (cases rule: bounded_cases)
    case (2 k es c l alt d1)
    note b = block_settles(2) [where step = "\<lambda>n. nextCommand n env sc cl" and d = d and es = es and alt = alt, OF Suc.IH]
    have e: "settles (bounded (Suc d)) (\<lambda>n. else_branch (defnextCommand n env sc) out (Acquired t a) es c l alt)" for t a
      by (rule else_settles [where P = "bounded d"]) (use 2 defnext_settles acquired_limited in auto)
    show ?thesis
      using 2 b [OF _ acquired_limited] b e
      by (intro settles_Suc [of _ "\<lambda>n. nextCommand n env sc cl out e"]) (cases k; simp add: Let_def settles_if del: bounded.simps)
  qed (rule simple_settles)
qed

section \<open>Scripts\<close>

lemma script_loop_settles:
  "list_all (bounded d) (sc_elements s) \<Longrightarrow> sc_iter s + k \<le> length (sc_elements s) \<Longrightarrow>
   \<exists>N r. (\<forall>n\<ge>N. script_loop k n env cl out s = r) \<and> snd r \<noteq> Inl Looping"
proof (induction k arbitrary: out s)
  case (Suc k)
  let ?e = "sc_elements s ! sc_iter s"
  have "bounded d ?e" using Suc.prems by (auto simp: list_all_length)
  from next_settles [OF this, of env s cl out] obtain N r where r:
    "\<And>n. N \<le> n \<Longrightarrow> nextCommand n env s cl out ?e = r" "good_answer (bounded d) r" by (auto simp: settles_def)
  show ?case
  proof (cases "\<exists>out1 e. r = Inr (NEXT_COMMAND_NEXT, out1, e)")
    case True
    then obtain out1 e where e: "r = Inr (NEXT_COMMAND_NEXT, out1, e)" by blast
    let ?s = "s\<lparr>sc_elements := (sc_elements s)[sc_iter s := e], sc_iter := sc_iter s + 1\<rparr>"
    have "list_all (bounded d) (sc_elements ?s)"
      using Suc.prems(1) r(2) e set_update_subset_insert [of "sc_elements s" "sc_iter s" e] by (auto simp: list_all_iff good_answer_def)
    moreover have "sc_iter ?s + k \<le> length (sc_elements ?s)" using Suc.prems(2) by simp
    ultimately obtain N1 q where q: "\<And>n. N1 \<le> n \<Longrightarrow> script_loop k n env cl out1 ?s = q" "snd q \<noteq> Inl Looping"
      using Suc.IH [of ?s out1] by blast
    then have "\<forall>n\<ge>max N N1. script_loop (Suc k) n env cl out s = q" using r(1) e by (simp add: Let_def)
    then show ?thesis using q(2) by blast
  next
    case False
    obtain q where "\<And>n. N \<le> n \<Longrightarrow> script_loop (Suc k) n env cl out s = q" "snd q \<noteq> Inl Looping"
      using r False by (cases r) (auto simp: Let_def good_answer_def split: prod.splits)
    then show ?thesis by blast
  qed
qed (auto intro!: exI [of _ 0])

lemma script_settles:
  assumes "list_all limited_blocks (sc_elements s)"
  shows "\<exists>N r. (\<forall>n\<ge>N. script_nextCommand n env cl out s = r) \<and> r \<noteq> Inl Looping"
proof -
  have "\<exists>d. list_all (bounded d) (sc_elements s)"
    using assms by (intro bounded_list limited_bounded) (auto simp: list_all_iff)
  then obtain d where d: "list_all (bounded d) (sc_elements s)" by blast
  let ?k = "length (sc_elements s) - sc_iter s"
  have "\<exists>N r. (\<forall>n\<ge>N. script_loop ?k n env cl (out\<lparr>co_command := None\<rparr>) s = r) \<and> snd r \<noteq> Inl Looping"
  proof (cases "sc_iter s \<le> length (sc_elements s)")
    case True
    then show ?thesis using script_loop_settles [OF d, of ?k env cl "out\<lparr>co_command := None\<rparr>"] by force
  qed auto
  then obtain N r where r: "\<And>n. N \<le> n \<Longrightarrow> script_loop ?k n env cl (out\<lparr>co_command := None\<rparr>) s = r" "snd r \<noteq> Inl Looping"
    by blast
  define q where "q = (if sc_executed s < 0 then Inr (NEXT_COMMAND_END_SCRIPT, out\<lparr>co_command := None\<rparr>, s)
    else case r of (Some ret, Inr (x, out2, s1)) \<Rightarrow> Inr (after_element ret out2 s1) | (_, res) \<Rightarrow> res)"
  have "\<forall>n\<ge>N. script_nextCommand n env cl out s = q" using r(1) by (simp add: script_nextCommand_def q_def Let_def)
  moreover have "q \<noteq> Inl Looping" using r(2) by (auto simp: q_def split: prod.splits option.splits sum.splits)
  ultimately show ?thesis by blast
qed


text \<open>A block that waits for a signal while its elements wait for signals that nobody will send.\<close>

definition unsent :: "('f, 'o, 'x) script_env \<Rightarrow> ('f, 'o, 'x) element \<Rightarrow> bool" where
  "unsent env e = (case e of ElementWaitSignal s \<Rightarrow> \<not> se_signalAsked env s | _ \<Rightarrow> False)"

lemma unsent_next:
  assumes "unsent env e"
  shows "nextCommand m env sc cl out e = (case m of 0 \<Rightarrow> Inl Looping | Suc _ \<Rightarrow> Inr (NEXT_COMMAND_NEXT, out, e))"
  using assms by (cases e; cases m; cases cl) (auto simp: unsent_def)

lemma unsent_loop:
  assumes "list_all (unsent env) es" "sig \<noteq> -1"
  shows "c < length es \<Longrightarrow> block_loop n (nextCommand m env sc cl) (\<lambda>_ _. False) env sl (SignalEnd sig) alt out es c l = Inl Looping"
proof (induction n arbitrary: c l)
  case (Suc n)
  then have "unsent env (es ! c)" using assms(1) by (auto simp: list_all_length)
  moreover have "0 < length es" using Suc.prems by linarith
  ultimately show ?case using Suc.IH [of 0 "l + 1"] Suc.IH [of "c + 1" l] Suc.prems assms(2)
    by (auto simp: unsent_next Let_def advance_def endLoop_def simp del: nextCommand.simps split: nat.split)
qed simp

text \<open>C35: A script that has come to a block which waits for a signal, and in which it would wait only for
  signals that no other script is going to send, never answers: the loop over the elements of the block
  goes on for ever, and with it the executor, which could not receive the signal any more.\<close>

theorem unsent_signals_hang:
  assumes "sc_iter s < length (sc_elements s)" "0 \<le> sc_executed s"
    "sc_elements s ! sc_iter s = ElementBlock (SignalEnd sig) es c l None"
    "list_all (unsent env) es" "c < length es" "sig \<noteq> -1"
  shows "script_nextCommand n env cl out s = Inl Looping"
proof -
  have h: "sod_hold env cl (SignalEnd sig) = (\<lambda>_ _. False)" by (simp add: sod_hold_def fun_eq_iff)
  have "nextCommand n env s cl (out\<lparr>co_command := None\<rparr>) (ElementBlock (SignalEnd sig) es c l None) = Inl Looping"
    using unsent_loop [OF assms(4,6,5)] assms(5,6) by (cases n) (auto simp: block_nextCommand_def endLoop_def h)
  moreover obtain k where "length (sc_elements s) - sc_iter s = Suc k" using assms(1) by (metis Suc_diff_Suc)
  ultimately show ?thesis using assms(2,3) by (simp add: script_nextCommand_def Let_def)
qed

end
