(* ===== verification/Rts2_ScriptImages.thy ===== *)
theory Rts2_ScriptImages
  imports Rts2_ScriptRun
begin

text \<open>
  The images a script takes: a script of exposures, sequences, for loops and commands takes exactly the
  images \<open>getExpectedImages\<close> announces, whatever values the camera has.
\<close>

section \<open>Counting\<close>

definition is_image :: "'f script_command \<Rightarrow> bool" where
  "is_image c \<longleftrightarrow> (case c of CommandExposure \<Rightarrow> True | CommandShiftEnd s t \<Rightarrow> True | _ \<Rightarrow> False)"

definition taken :: "'f cmd_out \<Rightarrow> int" where
  "taken out = (case co_command out of None \<Rightarrow> 0 | Some (c, m) \<Rightarrow> if is_image c then 1 else 0)"

fun images :: "('f, 'o, 'x) element \<Rightarrow> int" where
  "images (ElementSequence f n t i p) = n"
| "images (ElementImage k t p) = 1"
| "images (ElementShiftStoreEnd s t) = 1"
| "images (ElementBlock k es c l alt) = (case k of For m \<Rightarrow> m * (\<Sum>x\<leftarrow>es. images x) | _ \<Rightarrow> (\<Sum>x\<leftarrow>es. images x))"
| "images e = 0"

lemma to_int32_sum:
  "foldl (\<lambda>a e. to_int32 (a + expectedImages e)) a es = to_int32 (a + (\<Sum>x\<leftarrow>es. images x))"
  if "to_int32 a = a" "\<And>e. e \<in> set es \<Longrightarrow> expectedImages e = to_int32 (images e)"
  using that
proof (induction es arbitrary: a)
  case (Cons e es)
  have a: "to_int32 (x + to_int32 y) = to_int32 (x + y)" "to_int32 (to_int32 x + y) = to_int32 (x + y)" for x y
    by (metis signed_take_bit_add signed_take_bit_signed_take_bit to_int32_def min.idem)+
  have "to_int32 (to_int32 x) = to_int32 x" for x by (simp add: to_int32_def)
  then show ?case using Cons a by (simp add: add.assoc)
qed simp

lemma to_int32_0: "to_int32 0 = 0"
  by (simp add: to_int32_def)

text \<open>The elements whose images are counted, in a state that a run can reach.\<close>

fun fresh :: "('f, 'o, 'x) element \<Rightarrow> bool" where
  "fresh (ElementSequence f n t i p) \<longleftrightarrow> i = 0 \<and> p = CallFirst"
| "fresh (ElementImage k t p) \<longleftrightarrow> p = CallFirst"
| "fresh (ElementBlock k es c l alt) \<longleftrightarrow> c = 0 \<and> l = 0 \<and> list_all fresh es"
| "fresh e \<longleftrightarrow> True"

definition others_fresh :: "('f, 'o, 'x) element list \<Rightarrow> nat \<Rightarrow> bool" where
  "others_fresh es c \<longleftrightarrow> (\<forall>j<length es. j \<noteq> c \<longrightarrow> fresh (es ! j))"

fun counted :: "('f, 'o, 'x) element \<Rightarrow> bool" where
  "counted (ElementSequence f n t i p) \<longleftrightarrow> 1 \<le> n \<and> n < 2 ^ 31 \<and> 0 \<le> i \<and> i < n"
| "counted (ElementChangeValue d n op os) \<longleftrightarrow> op \<noteq> CHR 0x00 \<and> os \<noteq> []"
| "counted (ElementBlock k es c l alt) \<longleftrightarrow>
     (case k of
        For m \<Rightarrow> alt = None \<and> 0 \<le> m \<and> 0 \<le> l \<and> list_all counted es \<and>
          (es = [] \<or> c < length es \<and> others_fresh es c) \<and> (m \<le> l \<or> es = [] \<longrightarrow> c = 0 \<and> l = 0 \<and> list_all fresh es)
      | _ \<Rightarrow> False)"
| "counted ElementNone \<longleftrightarrow> True"
| "counted (ElementImage k t p) \<longleftrightarrow> True"
| "counted (ElementShiftStoreStart t) \<longleftrightarrow> True"
| "counted (ElementShiftStoreProgress s t) \<longleftrightarrow> True"
| "counted (ElementShiftStoreEnd s t) \<longleftrightarrow> True"
| "counted (ElementBox x y w h) \<longleftrightarrow> True"
| "counted (ElementCenter w h) \<longleftrightarrow> True"
| "counted (ElementChange d x y) \<longleftrightarrow> True"
| "counted ElementWait \<longleftrightarrow> True"
| "counted (ElementComment t i) \<longleftrightarrow> True"
| "counted (ElementCommand d x as) \<longleftrightarrow> True"
| "counted ElementLoopDisable \<longleftrightarrow> True"
| "counted _ \<longleftrightarrow> False"

lemma counted_images: "counted e \<Longrightarrow> 0 \<le> images e \<and> expectedImages e = to_int32 (images e)"
proof (induction e rule: counted.induct)
  case (1 f n t i p)
  then show ?case using to_int32_id [of n] by simp
next
  case (3 k es c l alt)
  then obtain m where m: "k = For m" "0 \<le> m" "list_all counted es" by (cases k) auto
  have e: "\<And>e. e \<in> set es \<Longrightarrow> 0 \<le> images e \<and> expectedImages e = to_int32 (images e)"
    using 3(1) m by (auto simp: list_all_iff)
  have "to_int32 (m * to_int32 x) = to_int32 (m * x)" for x
    unfolding to_int32_def by (metis signed_take_bit_mult signed_take_bit_signed_take_bit min.idem)
  moreover have "0 \<le> (\<Sum>x\<leftarrow>es. images x)" using e by (intro sum_list_nonneg) auto
  ultimately show ?case using m to_int32_sum [OF to_int32_0, of es] e by simp
qed (auto simp: to_int32_def)

section \<open>What is left\<close>

text \<open>\<open>remaining\<close> is the number of images an element still takes before it is done.\<close>

lemma size_nth_for [termination_simp]: "c < length es \<Longrightarrow> size (es ! c) < Suc (Suc (size_list size es + b))"
  by (drule size_nth) simp

fun remaining :: "('f, 'o, 'x) element \<Rightarrow> int" where
  "remaining (ElementSequence f n t i p) = n - i"
| "remaining (ElementImage k t p) = 1"
| "remaining (ElementShiftStoreEnd s t) = 1"
| "remaining (ElementBlock k es c l alt) =
     (case k of
        For m \<Rightarrow>
          if c < length es \<and> l < m then
            remaining (es ! c) + (\<Sum>x\<leftarrow>drop (Suc c) es. images x) + (m - l - 1) * (\<Sum>x\<leftarrow>es. images x)
          else 0
      | _ \<Rightarrow> 0)"
| "remaining e = 0"

text \<open>A bound for the number of calls: \<open>load\<close> of a fresh element, \<open>work\<close> for the rest of one.\<close>

definition rank :: "call_progress \<Rightarrow> nat" where
  "rank p = (case p of CallFirst \<Rightarrow> 3 | CallShutter \<Rightarrow> 2 | CallFilter \<Rightarrow> 1 | CallExposure \<Rightarrow> 0)"

fun load :: "('f, 'o, 'x) element \<Rightarrow> nat" where
  "load (ElementSequence f n t i p) = 4 * nat n + 3"
| "load (ElementImage k t p) = 4"
| "load (ElementBlock k es c l alt) = (case k of For m \<Rightarrow> nat m * (\<Sum>x\<leftarrow>es. load x) | _ \<Rightarrow> 0)"
| "load e = 1"

fun work :: "('f, 'o, 'x) element \<Rightarrow> nat" where
  "work (ElementSequence f n t i p) = 4 * nat (n - i) + rank p"
| "work (ElementImage k t p) = 1 + rank p"
| "work (ElementBlock k es c l alt) =
     (case k of
        For m \<Rightarrow>
          if c < length es \<and> l < m then
            work (es ! c) + (\<Sum>x\<leftarrow>drop (Suc c) es. load x) + nat (m - l - 1) * (\<Sum>x\<leftarrow>es. load x)
          else 0
      | _ \<Rightarrow> 0)"
| "work e = 1"

lemma fresh_remaining: "counted e \<Longrightarrow> fresh e \<Longrightarrow> remaining e = images e \<and> work e = load e"
proof (induction e rule: counted.induct)
  case (3 k es c l alt)
  then obtain m where m: "k = For m" "0 \<le> m" "list_all counted es" "list_all fresh es" "c = 0" "l = 0" by (cases k) auto
  show ?case
  proof (cases es)
    case (Cons e es1)
    then have "remaining e = images e" "work e = load e" using 3 m by auto
    moreover have "0 < m \<Longrightarrow> nat m = Suc (nat (m - 1))" by simp
    ultimately show ?thesis using m Cons by (cases "m = 0") (auto simp: algebra_simps)
  qed (use m in simp)
qed (auto simp: rank_def)

section \<open>One call\<close>

definition ready :: "('f, 'o, 'x) script_env \<Rightarrow> bool" where
  "ready env \<longleftrightarrow> \<not> queue_not_empty env"

definition same :: "('f, 'o, 'x) element \<Rightarrow> ('f, 'o, 'x) element \<Rightarrow> bool" where
  "same e e1 \<longleftrightarrow> counted e1 \<and> images e1 = images e \<and> load e1 = load e"

text \<open>An element is skipped, is done, or has to be called again.\<close>

definition keep_codes :: "int set" where
  "keep_codes = {NEXT_COMMAND_KEEP, NEXT_COMMAND_MASK_BLOCK, NEXT_COMMAND_KEEP OR NEXT_COMMAND_MASK_BLOCK,
     NEXT_COMMAND_CHECK_WAIT OR NEXT_COMMAND_MASK_BLOCK}"

definition played :: "('f, 'o, 'x) element \<Rightarrow> int \<Rightarrow> 'f cmd_out \<Rightarrow> ('f, 'o, 'x) element \<Rightarrow> bool" where
  "played e ret out e1 \<longleftrightarrow> same e e1 \<and>
     (ret = NEXT_COMMAND_NEXT \<and> co_command out = None \<and> remaining e = 0 \<and> fresh e1
      \<or> ret \<in> {0, NEXT_COMMAND_CHECK_WAIT} \<and> remaining e = taken out \<and> fresh e1 \<and> 0 < work e
      \<or> ret \<in> keep_codes \<and> remaining e = taken out + remaining e1 \<and> work e1 < work e)"

definition plays :: "('f, 'o, 'x) element \<Rightarrow> ('f, 'o, 'x) next_result \<Rightarrow> bool" where
  "plays e r \<longleftrightarrow> (case r of Inl f \<Rightarrow> f = Looping | Inr (ret, out, e1) \<Rightarrow> played e ret out e1)"

lemma simple_plays:
  assumes "simple e" "counted e" "ready env" "co_command out = None"
  shows "plays e (Inr (simple_nextCommand env sc Camera out e))"
  using assms
  by (cases e)
    (auto simp: simple_def plays_def played_def same_def keep_codes_def next_codes taken_def is_image_def out_defs expose_def set_value_def
      ready_def Image_nextCommand_def Sequence_nextCommand_def ChangeValue_defnextCommand_def rank_def Let_def
      split: call_progress.splits prod.splits list.splits char.splits bool.splits)

lemma map_same: "f x = f (es ! c) \<Longrightarrow> map f (es[c := x]) = map f es"
  by (metis list_update_beyond list_update_id map_update not_le)

lemma all_fresh: "others_fresh es c \<Longrightarrow> fresh x \<Longrightarrow> list_all fresh (es[c := x])"
  unfolding list_all_length others_fresh_def by (metis length_list_update nth_list_update_eq nth_list_update_neq)

lemma all_counted: "list_all counted es \<Longrightarrow> counted x \<Longrightarrow> list_all counted (es[c := x])"
  using set_update_subset_insert [of es c x] by (auto simp: list_all_iff)

text \<open>A for loop goes on after one of its elements is done: it ends, or has less to take.\<close>

abbreviation for_block :: "int \<Rightarrow> ('f, 'o, 'x) element list \<Rightarrow> nat \<Rightarrow> int \<Rightarrow> ('f, 'o, 'x) element option \<Rightarrow> ('f, 'o, 'x) element" where
  "for_block m es c l alt \<equiv> ElementBlock (For m) es c l alt"

lemma same_sums:
  assumes "same (es ! c) x"
  shows "(\<Sum>x\<leftarrow>es[c := x]. images x) = (\<Sum>x\<leftarrow>es. images x)" "(\<Sum>x\<leftarrow>es[c := x]. load x) = (\<Sum>x\<leftarrow>es. load x)"
  using assms map_same [of images x es c] map_same [of load x es c] by (simp_all add: same_def)

lemma fresh_sums:
  assumes "list_all counted es" "list_all fresh es" "c < length es"
  shows "remaining (es ! c) = images (es ! c)" "work (es ! c) = load (es ! c)"
  using assms fresh_remaining [of "es ! c"] by (auto simp: list_all_length)

lemma sum_drop: "c < length es \<Longrightarrow> (\<Sum>x\<leftarrow>drop c es. f x) = f (es ! c) + (\<Sum>x\<leftarrow>drop (Suc c) es. f x)"
  by (simp add: Cons_nth_drop_Suc [symmetric])

lemma advance_done:
  assumes "counted (for_block m es c l alt)" "c < length es" "l < m" "same (es ! c) x" "fresh x"
    "advance env sl (For m) (length es) c l = (True, c1, l1)"
  shows "same (for_block m es c l alt) (for_block m (es[c := x]) c1 l1 alt)" "fresh (for_block m (es[c := x]) c1 l1 alt)"
    "remaining (for_block m es c l alt) = remaining (es ! c)" "work (es ! c) \<le> work (for_block m es c l alt)"
proof -
  have a: "c1 = 0" "l1 = 0" "c + 1 = length es" "m \<le> l + 1"
    using assms(6) by (auto simp: advance_def endLoop_def split: if_splits)
  have f: "list_all fresh (es[c := x])" "list_all counted (es[c := x])" "length es \<noteq> 0"
    using assms by (auto intro!: all_fresh all_counted simp: same_def)
  show "same (for_block m es c l alt) (for_block m (es[c := x]) c1 l1 alt)" "fresh (for_block m (es[c := x]) c1 l1 alt)"
    using a f assms same_sums [OF assms(4)] by (auto simp: same_def others_fresh_def list_all_length)
  show "remaining (for_block m es c l alt) = remaining (es ! c)" "work (es ! c) \<le> work (for_block m es c l alt)"
    using a assms(2,3) by auto
qed

lemma advance_on:
  assumes "counted (for_block m es c l alt)" "c < length es" "l < m" "same (es ! c) x" "fresh x"
    "advance env sl (For m) (length es) c l = (False, c1, l1)"
  shows "same (for_block m es c l alt) (for_block m (es[c := x]) c1 l1 alt)" "c1 < length es" "l1 < m"
    "remaining (for_block m es c l alt) = remaining (es ! c) + remaining (for_block m (es[c := x]) c1 l1 alt)"
    "work (for_block m es c l alt) = work (es ! c) + work (for_block m (es[c := x]) c1 l1 alt)"
proof -
  let ?es = "es[c := x]"
  have f: "list_all fresh ?es" "list_all counted ?es" using assms by (auto intro!: all_fresh all_counted simp: same_def)
  have s: "(\<Sum>x\<leftarrow>?es. images x) = (\<Sum>x\<leftarrow>es. images x)" "(\<Sum>x\<leftarrow>?es. load x) = (\<Sum>x\<leftarrow>es. load x)"
    using same_sums [OF assms(4)] by auto
  have c: "c + 1 < length es \<and> c1 = c + 1 \<and> l1 = l \<or> c + 1 = length es \<and> c1 = 0 \<and> l1 = l + 1 \<and> l + 1 < m"
    using assms(2,6) by (auto simp: advance_def endLoop_def split: if_splits)
  then show l: "c1 < length es" "l1 < m" using assms(2,3) by auto
  show "same (for_block m es c l alt) (for_block m ?es c1 l1 alt)"
    using c f assms same_sums [OF assms(4)] by (auto simp: same_def others_fresh_def list_all_length)
  have n: "remaining (?es ! c1) = images (?es ! c1)" "work (?es ! c1) = load (?es ! c1)" using fresh_sums [OF f(2,1)] l by auto
  have d: "(\<Sum>x\<leftarrow>drop c1 ?es. h x) = h (?es ! c1) + (\<Sum>x\<leftarrow>drop (Suc c1) ?es. h x)" for h :: "_ \<Rightarrow> 'z :: comm_monoid_add"
    using sum_drop [of c1 ?es h] l by simp
  from c show "remaining (for_block m es c l alt) = remaining (es ! c) + remaining (for_block m ?es c1 l1 alt)"
  proof
    assume "c + 1 < length es \<and> c1 = c + 1 \<and> l1 = l"
    then show ?thesis using assms(2,3) n d [of images] s by (simp add: drop_update_cancel)
  next
    assume e: "c + 1 = length es \<and> c1 = 0 \<and> l1 = l + 1 \<and> l + 1 < m"
    have "es \<noteq> []" using assms(2) by auto
    then show ?thesis using e assms(2,3) n d [of images] s by (simp add: algebra_simps)
  qed
  from c show "work (for_block m es c l alt) = work (es ! c) + work (for_block m ?es c1 l1 alt)"
  proof
    assume "c + 1 < length es \<and> c1 = c + 1 \<and> l1 = l"
    then show ?thesis using assms(2,3) n d [of load] s by (simp add: drop_update_cancel)
  next
    assume e: "c + 1 = length es \<and> c1 = 0 \<and> l1 = l + 1 \<and> l + 1 < m"
    then have "nat (m - l - 1) = Suc (nat (m - (l + 1) - 1))" by (simp add: Suc_nat_eq_nat_zadd1)
    moreover have "es \<noteq> []" using assms(2) by auto
    ultimately show ?thesis using e assms(2,3) n d [of load] s by (simp add: algebra_simps)
  qed
qed

text \<open>The loop over a for block plays it when the calls of its elements play them.\<close>

lemma for_loop_plays:
  assumes "\<And>x out. counted x \<Longrightarrow> co_command out = None \<Longrightarrow> plays x (step out x)"
  shows "counted (for_block m es c l alt) \<Longrightarrow> c < length es \<Longrightarrow> l < m \<Longrightarrow> co_command out = None \<Longrightarrow>
    plays (for_block m es c l alt) (block_loop n step (\<lambda>_ _. False) env sl (For m) alt out es c l)"
proof (induction n arbitrary: out es c l)
  case (Suc n)
  let ?B = "for_block m es c l alt"
  have x: "plays (es ! c) (step out (es ! c))" using Suc.prems by (intro assms) (auto simp: list_all_length)
  show ?case
  proof (cases "step out (es ! c)")
    case (Inl f)
    then show ?thesis using x Suc.prems(2) by (simp add: plays_def)
  next
    case (Inr r)
    obtain ret out1 x where r: "r = (ret, out1, x)" by (metis prod_cases3)
    then have p: "played (es ! c) ret out1 x" using x Inr by (simp add: plays_def)
    obtain fin c1 l1 where adv: "advance env sl (For m) (length es) c l = (fin, c1, l1)" by (metis prod_cases3)
    let ?N = "for_block m (es[c := x]) c1 l1 alt"
    have s: "same (es ! c) x" using p by (simp add: played_def)
    consider (skip) "ret = NEXT_COMMAND_NEXT" "co_command out1 = None" "remaining (es ! c) = 0" "fresh x"
      | (ready) "ret \<in> {0, NEXT_COMMAND_CHECK_WAIT}" "remaining (es ! c) = taken out1" "fresh x" "0 < work (es ! c)"
      | (keep) "ret \<in> keep_codes" "remaining (es ! c) = taken out1 + remaining x" "work x < work (es ! c)"
      using p by (auto simp: played_def)
    then show ?thesis
    proof cases
      case skip
      show ?thesis
      proof (cases fin)
        case True
        then show ?thesis
          using Inr r skip Suc.prems adv advance_done [OF Suc.prems(1-3) s skip(4), of env sl c1 l1]
          by (simp add: Let_def plays_def played_def)
      next
        case False
        note on = advance_on [OF Suc.prems(1-3) s skip(4) adv [unfolded eq_False [THEN iffD2, OF False]]]
        have "plays ?N (block_loop n step (\<lambda>_ _. False) env sl (For m) alt out1 (es[c := x]) c1 l1)"
          using on skip(2) by (intro Suc.IH) (simp_all add: same_def)
        then have "plays ?B (block_loop n step (\<lambda>_ _. False) env sl (For m) alt out1 (es[c := x]) c1 l1)"
          using on skip(3) by (auto simp: plays_def played_def same_def split: sum.splits)
        then show ?thesis using Inr r skip Suc.prems(2) adv False by (simp add: Let_def)
      qed
    next
      case ready
      have e: "element_done ret" "ret \<noteq> NEXT_COMMAND_NEXT" using ready(1) by (auto simp: element_done_def next_codes)
      show ?thesis
      proof (cases fin)
        case True
        then show ?thesis
          using Inr r ready Suc.prems(2) e adv advance_done [OF Suc.prems(1-3) s ready(3), of env sl c1 l1]
          by (auto simp: Let_def plays_def played_def blockScriptRet_def)
      next
        case False
        note on = advance_on [OF Suc.prems(1-3) s ready(3) adv [unfolded eq_False [THEN iffD2, OF False]]]
        have "ret OR NEXT_COMMAND_MASK_BLOCK \<in> keep_codes" using ready(1) by (auto simp: keep_codes_def next_codes)
        then show ?thesis using Inr r ready Suc.prems(2) e adv on False
          by (simp add: Let_def plays_def played_def blockScriptRet_def)
      qed
    next
      case keep
      have e: "\<not> element_done ret" "ret \<noteq> NEXT_COMMAND_NEXT" "ret OR NEXT_COMMAND_MASK_BLOCK \<in> keep_codes"
        using keep(1) by (auto simp: element_done_def keep_codes_def next_codes NEXT_COMMAND_MASK_BLOCK_def)
      have "same ?B (for_block m (es[c := x]) c l alt)"
        using Suc.prems(1,2,3) s same_sums [OF s] all_counted [of es x c]
        by (auto simp: same_def others_fresh_def)
      then show ?thesis
        using Inr r keep Suc.prems(2,3) e same_sums [OF s]
        by (simp add: Let_def plays_def played_def blockScriptRet_def)
    qed
  qed
qed (simp add: plays_def)

lemma next_plays: "counted e \<Longrightarrow> ready env \<Longrightarrow> co_command out = None \<Longrightarrow> plays e (nextCommand n env sc Camera out e)"
proof (induction n arbitrary: e out)
  case (Suc n)
  show ?case
  proof (cases "simple e")
    case True
    then show ?thesis using simple_plays Suc.prems by (simp add: next_simple del: nextCommand.simps)
  next
    case False
    then obtain k es c l alt where e: "e = ElementBlock k es c l alt" by (auto simp: simple_def split: element.splits)
    then obtain m where m: "k = For m" using Suc.prems(1) by (cases k) auto
    show ?thesis
    proof (cases "m \<le> l \<or> es = []")
      case True
      then show ?thesis using Suc.prems e m
        by (auto simp: block_nextCommand_def endLoop_def plays_def played_def same_def)
    next
      case False
      have h: "sod_hold env Camera (For m) = (\<lambda>_ _. False)" by (simp add: sod_hold_def fun_eq_iff)
      have "plays e (block_loop n (nextCommand n env sc Camera) (\<lambda>_ _. False) env (sc_loopCount sc) (For m) alt out es c l)"
        unfolding e m using Suc.IH Suc.prems e m False by (intro for_loop_plays) auto
      then show ?thesis using e m False by (simp add: block_nextCommand_def endLoop_def h)
    qed
  qed
qed (simp add: plays_def)

section \<open>Scripts\<close>

definition script_counted :: "('f, 'o, 'x) script \<Rightarrow> bool" where
  "script_counted s \<longleftrightarrow> 0 \<le> sc_executed s \<and> list_all counted (sc_elements s) \<and> list_all fresh (drop (Suc (sc_iter s)) (sc_elements s))"

definition left_images :: "('f, 'o, 'x) script \<Rightarrow> int" where
  "left_images s =
     (if isLastCommand s then 0
      else remaining (sc_elements s ! sc_iter s) + (\<Sum>x\<leftarrow>drop (Suc (sc_iter s)) (sc_elements s). images x))"

definition left_work :: "('f, 'o, 'x) script \<Rightarrow> nat" where
  "left_work s =
     (if isLastCommand s then 0
      else work (sc_elements s ! sc_iter s) + (\<Sum>x\<leftarrow>drop (Suc (sc_iter s)) (sc_elements s). load x))"

lemmas left_defs = left_images_def left_work_def isLastCommand_def

definition put_element :: "('f, 'o, 'x) element \<Rightarrow> ('f, 'o, 'x) script \<Rightarrow> ('f, 'o, 'x) script" where
  "put_element x s = s\<lparr>sc_elements := (sc_elements s)[sc_iter s := x]\<rparr>"

definition next_element :: "('f, 'o, 'x) script \<Rightarrow> ('f, 'o, 'x) script" where
  "next_element s = s\<lparr>sc_iter := sc_iter s + 1\<rparr>"

lemma put_counted:
  assumes "script_counted s" "same (sc_elements s ! sc_iter s) x"
  shows "script_counted (put_element x s)"
  using assms all_counted by (auto simp: script_counted_def put_element_def same_def drop_update_cancel)

lemma put_left:
  assumes "\<not> isLastCommand s"
  shows "left_images s = remaining (sc_elements s ! sc_iter s) - remaining x + left_images (put_element x s)"
    "left_work s + work x = work (sc_elements s ! sc_iter s) + left_work (put_element x s)"
  using assms by (simp_all add: left_defs put_element_def drop_update_cancel)

lemma next_counted:
  assumes "script_counted s" shows "script_counted (next_element s)"
  using assms set_drop_subset_set_drop [of "Suc (sc_iter s)" "Suc (Suc (sc_iter s))" "sc_elements s"]
  by (auto simp: script_counted_def next_element_def list_all_iff)

lemma next_left:
  assumes "script_counted s" "\<not> isLastCommand s"
  shows "left_images s = remaining (sc_elements s ! sc_iter s) + left_images (next_element s)"
    "left_work s = work (sc_elements s ! sc_iter s) + left_work (next_element s)"
proof -
  let ?es = "sc_elements s" and ?i = "Suc (sc_iter s)"
  have "remaining (?es ! ?i) = images (?es ! ?i)" "work (?es ! ?i) = load (?es ! ?i)" if i: "?i < length ?es"
  proof -
    have "fresh (?es ! ?i)" "counted (?es ! ?i)"
      using assms(1) i by (auto simp: script_counted_def list_all_iff Cons_nth_drop_Suc [symmetric])
    then show "remaining (?es ! ?i) = images (?es ! ?i)" "work (?es ! ?i) = load (?es ! ?i)" using fresh_remaining by auto
  qed
  then show "left_images s = remaining (?es ! sc_iter s) + left_images (next_element s)"
    "left_work s = work (?es ! sc_iter s) + left_work (next_element s)"
    using assms(2) sum_drop [of ?i ?es images] sum_drop [of ?i ?es load]
    by (cases "?i < length ?es"; simp add: left_defs next_element_def)+
qed

text \<open>One call of the script: it has ended, or there is less left.\<close>

definition progress :: "('f, 'o, 'x) script \<Rightarrow> ('f, 'o, 'x) script_result \<Rightarrow> bool" where
  "progress s r \<longleftrightarrow>
     (case r of
        Inl f \<Rightarrow> f = Looping
      | Inr (ret, out, s1) \<Rightarrow>
          if ret = NEXT_COMMAND_END_SCRIPT then left_images s = 0
          else script_counted s1 \<and> left_images s = taken out + left_images s1 \<and> left_work s1 < left_work s)"

definition loop_result :: "int option \<times> ('f, 'o, 'x) script_result \<Rightarrow> ('f, 'o, 'x) script_result" where
  "loop_result x = (case x of (Some ret, Inr (r, out, s1)) \<Rightarrow> Inr (after_element ret out s1) | (_, res) \<Rightarrow> res)"

lemma after_fields [simp]:
  "left_images (s\<lparr>sc_executed := i\<rparr>) = left_images s" "left_work (s\<lparr>sc_executed := i\<rparr>) = left_work s"
  by (simp_all add: left_defs)

lemma after_done:
  "ret \<in> {0, NEXT_COMMAND_CHECK_WAIT} \<Longrightarrow>
   after_element ret out s = (ret, out, (next_element s)\<lparr>sc_executed := sc_executed s + 1\<rparr>)"
  by (auto simp: after_element_def next_element_def element_done_def next_codes NEXT_COMMAND_MASK_BLOCK_def)

lemma after_keep:
  assumes "ret \<in> keep_codes"
  shows "\<exists>r. after_element ret out s = (r, out, s\<lparr>sc_executed := sc_executed s + 1\<rparr>) \<and> r \<noteq> NEXT_COMMAND_END_SCRIPT"
  using assms by (auto simp: after_element_def keep_codes_def element_done_def next_codes NEXT_COMMAND_MASK_BLOCK_def)

lemma executed_counted: "script_counted s \<Longrightarrow> script_counted (s\<lparr>sc_executed := sc_executed s + 1\<rparr>)"
  by (simp add: script_counted_def)

lemma executed_next [simp]: "sc_executed (next_element s) = sc_executed s"
  by (simp add: next_element_def)

lemma script_loop_progress:
  "script_counted s \<Longrightarrow> ready env \<Longrightarrow> co_command out = None \<Longrightarrow> k = length (sc_elements s) - sc_iter s \<Longrightarrow>
   progress s (loop_result (script_loop k n env Camera out s))"
proof (induction k arbitrary: out s)
  case 0
  then show ?case by (simp add: progress_def loop_result_def left_defs)
next
  case (Suc k)
  let ?e = "sc_elements s ! sc_iter s"
  have l: "\<not> isLastCommand s" "sc_iter s < length (sc_elements s)" using Suc.prems(4) by (simp_all add: isLastCommand_def)
  then have p: "plays ?e (nextCommand n env s Camera out ?e)"
    using Suc.prems by (intro next_plays) (auto simp: script_counted_def list_all_length)
  show ?case
  proof (cases "nextCommand n env s Camera out ?e")
    case (Inl f)
    then show ?thesis using p by (simp add: plays_def progress_def loop_result_def)
  next
    case (Inr r)
    obtain ret out1 x where r: "r = (ret, out1, x)" by (metis prod_cases3)
    have pl: "played ?e ret out1 x" using p Inr r by (simp add: plays_def)
    let ?s = "put_element x s"
    have c: "script_counted ?s" "script_counted (next_element ?s)"
      using put_counted [OF Suc.prems(1), of x] pl next_counted by (auto simp: played_def)
    have el: "sc_elements ?s ! sc_iter ?s = x" "\<not> isLastCommand ?s" using l by (simp_all add: put_element_def isLastCommand_def)
    note n = next_left [OF c(1) el(2), unfolded el(1)] put_left [OF l(1), of x]
    consider (skip) "ret = NEXT_COMMAND_NEXT" "co_command out1 = None" "remaining ?e = 0" "fresh x"
      | (finished) "ret \<in> {0, NEXT_COMMAND_CHECK_WAIT}" "remaining ?e = taken out1" "fresh x" "0 < work ?e"
      | (keep) "ret \<in> keep_codes" "remaining ?e = taken out1 + remaining x" "work x < work ?e"
      using pl by (auto simp: played_def)
    then show ?thesis
    proof cases
      case skip
      have "progress (next_element ?s) (loop_result (script_loop k n env Camera out1 (next_element ?s)))"
        using skip c Suc.prems by (intro Suc.IH) (simp_all add: next_element_def put_element_def)
      moreover have "left_images s = left_images (next_element ?s)" "left_work (next_element ?s) \<le> left_work s"
        using n skip(3) by linarith+
      ultimately have "progress s (loop_result (script_loop k n env Camera out1 (next_element ?s)))"
        by (auto simp: progress_def split: sum.splits if_splits)
      then show ?thesis using Inr r skip(1) by (simp add: Let_def next_element_def put_element_def)
    next
      case finished
      have "left_images s = taken out1 + left_images (next_element ?s)" "left_work (next_element ?s) < left_work s"
        using n finished by linarith+
      moreover have "ret \<noteq> NEXT_COMMAND_NEXT" "ret \<noteq> NEXT_COMMAND_END_SCRIPT" using finished(1) by (auto simp: next_codes)
      ultimately show ?thesis
        using Inr r after_done [OF finished(1), of out1 ?s] executed_counted [OF c(2)]
        by (simp add: Let_def loop_result_def progress_def put_element_def [symmetric])
    next
      case keep
      have "left_images s = taken out1 + left_images ?s" "left_work ?s < left_work s"
        using n keep by linarith+
      moreover have "ret \<noteq> NEXT_COMMAND_NEXT" using keep(1) by (auto simp: next_codes keep_codes_def NEXT_COMMAND_MASK_BLOCK_def)
      moreover obtain q where "after_element ret out1 ?s = (q, out1, ?s\<lparr>sc_executed := sc_executed ?s + 1\<rparr>)" "q \<noteq> NEXT_COMMAND_END_SCRIPT"
        using after_keep [OF keep(1)] by blast
      ultimately show ?thesis
        using Inr r executed_counted [OF c(1)]
        by (simp add: Let_def loop_result_def progress_def put_element_def [symmetric])
    qed
  qed
qed

lemma script_progress:
  assumes "script_counted s" "ready env"
  shows "progress s (script_nextCommand n env Camera out s)"
proof -
  have "script_nextCommand n env Camera out s
      = loop_result (script_loop (length (sc_elements s) - sc_iter s) n env Camera (out\<lparr>co_command := None\<rparr>) s)"
    using assms(1) by (simp add: script_counted_def script_nextCommand_def loop_result_def Let_def split: prod.splits option.splits sum.splits)
  then show ?thesis using script_loop_progress [OF assms] by simp
qed

text \<open>
  The client asks again and again, each time with what it then sees; the commands it gets until the
  script ends.
\<close>

primrec script_commands ::
    "nat \<Rightarrow> (nat \<Rightarrow> ('f, 'o, 'x) script_env) \<Rightarrow> nat \<Rightarrow> 'f cmd_out \<Rightarrow> ('f, 'o, 'x) script \<Rightarrow> 'f script_command list option" where
  "script_commands n envs 0 out s = None"
| "script_commands n envs (Suc k) out s =
     (case script_nextCommand n (envs 0) Camera out s of
        Inl f \<Rightarrow> None
      | Inr (ret, out1, s1) \<Rightarrow>
          if ret = NEXT_COMMAND_END_SCRIPT then Some []
          else map_option (\<lambda>cs. (case co_command out1 of None \<Rightarrow> [] | Some (c, m) \<Rightarrow> [c]) @ cs)
                 (script_commands n (\<lambda>i. envs (Suc i)) k out1 s1))"

definition count_images :: "'f script_command list \<Rightarrow> int" where
  "count_images cs = int (length (filter is_image cs))"

lemma count_append: "count_images (cs @ ds) = count_images cs + count_images ds"
  by (simp add: count_images_def)

lemma counted_limited: "counted e \<Longrightarrow> limited_blocks e"
proof (induction e rule: counted.induct)
  case (3 k es c l alt)
  then obtain m where "k = For m" "list_all counted es" "alt = None" by (cases k) auto
  then show ?case using 3(1) by (auto simp: limited_def list_all_iff)
qed auto

lemma commands_count:
  assumes "script_counted s" "\<And>i. ready (envs i)"
  shows "\<exists>N k cs. (\<forall>n\<ge>N. script_commands n envs k out s = Some cs) \<and> count_images cs = left_images s"
  using assms
proof (induction "left_work s" arbitrary: s envs out rule: less_induct)
  case less
  have "list_all limited_blocks (sc_elements s)" using less.prems(1) counted_limited by (auto simp: script_counted_def list_all_iff)
  then obtain N r where r: "\<And>n. N \<le> n \<Longrightarrow> script_nextCommand n (envs 0) Camera out s = r" "r \<noteq> Inl Looping"
    using script_settles by metis
  have p: "progress s r" using script_progress [OF less.prems(1) less.prems(2) [of 0], of N out] r(1) [of N] by simp
  then obtain ret out1 s1 where s1: "r = Inr (ret, out1, s1)" using r(2) by (cases r) (auto simp: progress_def)
  show ?case
  proof (cases "ret = NEXT_COMMAND_END_SCRIPT")
    case True
    then have "\<forall>n\<ge>N. script_commands n envs (Suc 0) out s = Some []" using r(1) s1 by simp
    moreover have "left_images s = count_images []" using p s1 True by (simp add: progress_def count_images_def)
    ultimately show ?thesis by metis
  next
    case False
    then have s: "script_counted s1" "left_images s = taken out1 + left_images s1" "left_work s1 < left_work s"
      using p s1 by (simp_all add: progress_def)
    obtain N1 k cs where cs: "\<And>n. N1 \<le> n \<Longrightarrow> script_commands n (\<lambda>i. envs (Suc i)) k out1 s1 = Some cs" "count_images cs = left_images s1"
      using less.hyps [OF s(3,1) less.prems(2), of "\<lambda>i. Suc i" out1] by blast
    let ?c = "(case co_command out1 of None \<Rightarrow> [] | Some (c, m) \<Rightarrow> [c])"
    have "\<forall>n\<ge>max N N1. script_commands n envs (Suc k) out s = Some (?c @ cs)" using r(1) s1 cs(1) False by simp
    moreover have "count_images ?c = taken out1" by (simp add: count_images_def taken_def split: option.splits prod.splits)
    ultimately show ?thesis using cs(2) s(2) by (metis count_append)
  qed
qed

text \<open>A script that is about to start: every element is as it was made by the parser.\<close>

definition fresh_script :: "('f, 'o, 'x) script \<Rightarrow> bool" where
  "fresh_script s \<longleftrightarrow> sc_executed s = 0 \<and> sc_iter s = 0 \<and> list_all counted (sc_elements s) \<and> list_all fresh (sc_elements s)"

lemma fresh_images:
  assumes "fresh_script s"
  shows "script_counted s" "getExpectedImages s = to_int32 (left_images s)"
proof -
  show "script_counted s" using assms by (auto simp: fresh_script_def script_counted_def list_all_iff dest: in_set_dropD)
  have "left_images s = (\<Sum>x\<leftarrow>sc_elements s. images x)"
    using assms fresh_sums(1) [of "sc_elements s" 0] sum_drop [of 0 "sc_elements s" images]
    by (cases "sc_elements s") (auto simp: fresh_script_def left_defs)
  then show "getExpectedImages s = to_int32 (left_images s)"
    using assms counted_images to_int32_sum [OF to_int32_0, of "sc_elements s"]
    by (auto simp: getExpectedImages_def fresh_script_def list_all_iff)
qed


end
