(* ===== verification/Rts2_ScriptCases.thy ===== *)
theory Rts2_ScriptCases
  imports Rts2_ScriptImages
begin

text \<open>
  Scripts that do not do what they say: the else branch of ifacq, and a program that cannot be started.
  Then concrete scripts to which the theorems apply.
\<close>

section \<open>The else branch\<close>

text \<open>Elements that only a camera is asked for: they have a \<open>nextCommand\<close> but no \<open>defnextCommand\<close>.\<close>

definition camera_only :: "('f, 'o, 'x) element \<Rightarrow> bool" where
  "camera_only e = (case e of
     ElementSequence f n t i p \<Rightarrow> True | ElementImage k t p \<Rightarrow> True | ElementShiftStoreStart t \<Rightarrow> True
   | ElementShiftStoreProgress i t \<Rightarrow> True | ElementShiftStoreEnd i t \<Rightarrow> True | ElementBox x y w h \<Rightarrow> True
   | ElementCenter w h \<Rightarrow> True | _ \<Rightarrow> False)"

lemma camera_only_defnext: "camera_only e \<Longrightarrow> defnextCommand (Suc n) env sc out e = Inr (NEXT_COMMAND_NEXT, out, e)"
  by (cases e) (simp_all add: camera_only_def)

lemma else_loop:
  assumes "list_all camera_only bs"
  shows "c < length bs \<Longrightarrow> length bs \<le> c + n \<Longrightarrow>
    block_loop n (defnextCommand (Suc m) env sc) (\<lambda>_ _. False) env sl Else alt out bs c 0
      = Inr (NEXT_COMMAND_NEXT, out, ElementBlock Else bs 0 0 alt)"
proof (induction n arbitrary: c)
  case (Suc n)
  then have "camera_only (bs ! c)" using assms by (auto simp: list_all_length)
  then show ?case using Suc
    by (auto simp: camera_only_defnext advance_def endLoop_def Let_def simp del: defnextCommand.simps)
qed simp

text \<open>C36: The else branch of ifacq takes no image. When the target is not acquired, a camera that comes to the
  block is sent on to the next command without one, whatever exposures and sequences the else branch
  consists of: it is asked by \<open>defnextCommand\<close>, which these elements do not have.\<close>

theorem else_takes_no_images:
  assumes "checkState env a = ACQ_FAILED" "list_all camera_only bs" "bs \<noteq> []" "length bs + 2 \<le> n"
  shows "nextCommand n env sc Camera out (ElementBlock (Acquired t a) es c l (Some (ElementBlock Else bs 0 0 None)))
    = Inr (NEXT_COMMAND_NEXT, out, ElementBlock (Acquired t ACQ_FAILED) es c l (Some (ElementBlock Else bs 0 0 None)))"
proof -
  obtain m where m: "n = Suc (Suc (Suc m))" using assms(3,4) by (cases bs; cases n; cases "n - 1"; cases "n - 2") auto
  have "block_loop (Suc m) (defnextCommand (Suc m) env sc) (\<lambda>_ _. False) env (sc_loopCount sc) Else None out bs 0 0
      = Inr (NEXT_COMMAND_NEXT, out, ElementBlock Else bs 0 0 None)"
    using assms m by (intro else_loop) auto
  then have "defnextCommand (Suc (Suc m)) env sc out (ElementBlock Else bs 0 0 None) = Inr (NEXT_COMMAND_NEXT, out, ElementBlock Else bs 0 0 None)"
    by simp
  then show ?thesis using assms(1) by (simp add: m Let_def else_branch_def del: defnextCommand.simps)
qed

text \<open>An empty block there is worse: the iterator at its end is dereferenced.\<close>

lemma else_empty_block:
  assumes "checkState env a = ACQ_FAILED"
  shows "nextCommand (Suc (Suc (Suc (Suc n)))) env sc Camera out
    (ElementBlock (Acquired t a) es c l (Some (ElementBlock Else [ElementBlock (For m) [] 0 0 None] 0 0 None))) = Inl PastEnd"
  using assms by (simp add: Let_def else_branch_def)

text \<open>Idle calls of the block go to its first branch, so that a sleep in the else branch does not end.\<close>

lemma idle_ignores_else:
  "\<exists>r es1 c1 l1. idleCall env sl (ElementBlock k es c l alt) = (r, ElementBlock k es1 c1 l1 alt)"
  by (auto split: prod.splits)

section \<open>A program that cannot be started\<close>

lemma mask_not_stop: "ret AND NOT NEXT_COMMAND_MASK_BLOCK \<noteq> NEXT_COMMAND_STOP_TARGET"
proof
  assume "ret AND NOT NEXT_COMMAND_MASK_BLOCK = NEXT_COMMAND_STOP_TARGET"
  then have "bit (ret AND NOT NEXT_COMMAND_MASK_BLOCK) 20 = bit NEXT_COMMAND_STOP_TARGET 20" by simp
  then show False by (simp add: bit_and_int_iff bit_not_int_iff NEXT_COMMAND_MASK_BLOCK_def NEXT_COMMAND_STOP_TARGET_def bit_simps)
qed

lemma after_not_stop: "after_element ret out s \<noteq> (NEXT_COMMAND_STOP_TARGET, o1, s1)"
proof -
  have "NEXT_COMMAND_STOP_TARGET AND NEXT_COMMAND_MASK_BLOCK \<noteq> 0" by (simp add: NEXT_COMMAND_MASK_BLOCK_def NEXT_COMMAND_STOP_TARGET_def)
  then show ?thesis using mask_not_stop [of ret]
    by (auto simp: after_element_def Let_def element_done_def NEXT_COMMAND_STOP_TARGET_def NEXT_COMMAND_WAITING_def split: if_splits)
qed

lemma loop_without_answer:
  "script_loop k n env cl out s = (None, Inr (ret, o1, s1)) \<Longrightarrow> ret = NEXT_COMMAND_END_SCRIPT"
  by (induction k arbitrary: out s) (auto simp: Let_def split: sum.splits prod.splits if_splits)

lemma never_stop_target: "script_nextCommand n env cl out s \<noteq> Inr (NEXT_COMMAND_STOP_TARGET, o1, s1)"
proof -
  obtain a r where l: "script_loop (length (sc_elements s) - sc_iter s) n env cl (out\<lparr>co_command := None\<rparr>) s = (a, r)" by fastforce
  have "NEXT_COMMAND_END_SCRIPT \<noteq> NEXT_COMMAND_STOP_TARGET" by (simp add: next_codes)
  then show ?thesis using l
    by (cases a; cases r) (auto simp: script_nextCommand_def Let_def after_not_stop dest: loop_without_answer)
qed

text \<open>C37: The code by which an element asks that its target is not observed any more never reaches the client: as a
  negative number it has the bit that marks the answer of a block, which is cleared. A script whose program
  cannot be started answers with another code, and counts as executed.\<close>

theorem stop_target_lost:
  assumes "sc_elements s ! sc_iter s = Execute x False ends" "sc_iter s < length (sc_elements s)" "0 \<le> sc_executed s"
    "\<not> se_execStarts env x"
  shows "(\<exists>s1. script_nextCommand (Suc n) env cl out s = Inr (-1048579, out\<lparr>co_command := None\<rparr>, s1)
      \<and> sc_executed s1 = sc_executed s + 1)
    \<and> (\<forall>m out1 s2 out2 s3. script_nextCommand m env cl out1 s2 \<noteq> Inr (NEXT_COMMAND_STOP_TARGET, out2, s3))"
proof -
  obtain k where k: "length (sc_elements s) - sc_iter s = Suc k" using assms(2) by (metis Suc_diff_Suc)
  have "NEXT_COMMAND_STOP_TARGET \<noteq> NEXT_COMMAND_NEXT" "NEXT_COMMAND_STOP_TARGET AND NEXT_COMMAND_MASK_BLOCK \<noteq> 0"
    "NEXT_COMMAND_STOP_TARGET AND NOT NEXT_COMMAND_MASK_BLOCK = -1048579" "-1048579 \<noteq> NEXT_COMMAND_STOP_TARGET"
    by (simp_all add: next_codes NEXT_COMMAND_MASK_BLOCK_def)
  moreover have "nextCommand (Suc n) env s cl o1 (Execute x False ends) = Inr (NEXT_COMMAND_STOP_TARGET, o1, Execute x True ends)" for o1
    using assms(4) by (cases cl) (simp_all add: Execute_defnextCommand_def)
  ultimately have "\<exists>s1. script_nextCommand (Suc n) env cl out s = Inr (-1048579, out\<lparr>co_command := None\<rparr>, s1) \<and> sc_executed s1 = sc_executed s + 1"
    using assms k by (simp add: script_nextCommand_def after_element_def Let_def del: nextCommand.simps)
  then show ?thesis by (simp add: never_stop_target)
qed

section \<open>Concrete scripts\<close>

text \<open>A camera with an exposure time and a filter; exposures last a number of seconds.\<close>

definition example_script_env :: "(nat, bool, unit) script_env" where
  "example_script_env = \<lparr>se_queExp = Some 0, se_has = (\<lambda>v. v \<in> {''exposure'', ''filter''}), se_queueEmpty = True, se_idle = True,
     se_acquiring = (\<lambda>t. False), se_acquired = False, se_signalAsked = (\<lambda>s. False), se_sod = 0, se_true = (\<lambda>b. b),
     se_text = (\<lambda>b. ''1''), se_execStarts = (\<lambda>x. False), se_execEnded = (\<lambda>x. False), se_hasAutoLoop = True,
     se_foreign = (\<lambda>cl out x. (NEXT_COMMAND_NEXT, out, x)), se_foreignIdle = (\<lambda>x. (NEXT_COMMAND_KEEP, x))\<rparr>"

definition no_command :: "nat cmd_out" where
  "no_command = \<lparr>co_command = None, co_device = [], co_effects = []\<rparr>"

definition example_script :: "(nat, bool, unit) element list \<Rightarrow> (nat, bool, unit) script" where
  "example_script es = \<lparr>sc_elements = es, sc_iter = 0, sc_executed = 0, sc_loopCount = 0, sc_defaultDevice = ''C0''\<rparr>"

lemma example_script_fields [simp]:
  "sc_elements (example_script es) = es" "sc_iter (example_script es) = 0" "sc_executed (example_script es) = 0"
  by (simp_all add: example_script_def)

text \<open>\<open>for 2 { SEQUENCE R 3 10 for 2 { E 5 } } D 20\<close> takes eleven images.\<close>

definition example_loops :: "(nat, bool, unit) element list" where
  "example_loops =
     [ElementBlock (For 2) [ElementSequence ''R'' 3 10 0 CallFirst, ElementBlock (For 2) [ElementImage Expose 5 CallFirst] 0 0 None] 0 0 None,
      ElementImage Dark 20 CallFirst]"



text \<open>\<open>block_waitsig 1 { SW 2 }\<close> when nobody sends the signal 2.\<close>

theorem unsent_signals_hang_witness:
  "script_nextCommand 1000 example_script_env Camera no_command
     (example_script [ElementBlock (SignalEnd 1) [ElementWaitSignal 2] 0 0 None]) = Inl Looping"
  by (rule unsent_signals_hang [where es = "[ElementWaitSignal 2]" and sig = 1 and c = 0 and l = 0])
    (simp_all add: unsent_def example_script_env_def)

text \<open>\<open>ifacq { E 10 } else { E 20 SEQUENCE R 2 30 }\<close> without acquisition.\<close>

theorem else_takes_no_images_witness:
  "fst (projr (nextCommand 4 example_script_env (example_script []) Camera no_command
     (ElementBlock (Acquired 5 NOT_CALLED) [ElementImage Expose 10 CallFirst] 0 0
       (Some (ElementBlock Else [ElementImage Expose 20 CallFirst, ElementSequence ''R'' 2 30 0 CallFirst] 0 0 None))))) = NEXT_COMMAND_NEXT"
proof -
  have "checkState example_script_env NOT_CALLED = ACQ_FAILED" by (simp add: checkState_def example_script_env_def)
  from else_takes_no_images [OF this, of "[ElementImage Expose 20 CallFirst, ElementSequence ''R'' 2 30 0 CallFirst]" 4]
  show ?thesis by (simp add: camera_only_def del: nextCommand.simps)
qed

theorem stop_target_lost_witness:
  "\<exists>s1. script_nextCommand 1 example_script_env Camera no_command (example_script [Execute ''script.py'' False False])
     = Inr (-1048579, no_command\<lparr>co_command := None\<rparr>, s1)"
  using stop_target_lost [of "example_script [Execute ''script.py'' False False]" "''script.py''" False example_script_env 0 Camera no_command]
  by (auto simp: example_script_env_def)

end
