(* ===== verification/Rts2_ScriptParse.thy ===== *)
theory Rts2_ScriptParse
  imports Rts2_Script
begin

text \<open>
  The parser of scripts, \<open>Script::parseBuf\<close> and what it uses (\<open>lib/rts2script/script.cpp\<close>), and
  \<open>printScript\<close> of the elements. The buffer is the text from \<open>cmdBufTop\<close> on. Numbers with a fraction,
  operands and the elements that are not modelled are made by functions of the environment.
\<close>

section \<open>Words\<close>

definition quote_chars :: "char set" where "quote_chars = {CHR 0x22, CHR 0x27}"

definition nextElement :: "string \<Rightarrow> string \<times> string" where
  "nextElement b =
     (case dropWhile isspace b of
        [] \<Rightarrow> ([], [])
      | q # r \<Rightarrow>
          if q \<in> quote_chars then (takeWhile (\<lambda>c. c \<noteq> q) r, drop 1 (dropWhile (\<lambda>c. c \<noteq> q) r))
          else (takeWhile (\<lambda>c. \<not> isspace c) (q # r), drop 1 (dropWhile (\<lambda>c. \<not> isspace c) (q # r))))"

definition isNext :: "string \<Rightarrow> string \<Rightarrow> bool \<times> string" where
  "isNext w b =
     (let b1 = dropWhile isspace b in
      if take (length w) b1 = w then (True, drop 1 (drop (length w) b1)) else (False, b1))"

text \<open>A parameter that is missing is \<open>None\<close>; a missing string is the empty string.\<close>

definition getNextParam :: "(string \<Rightarrow> 'a) \<Rightarrow> string \<Rightarrow> 'a option \<times> string" where
  "getNextParam f b = (case nextElement b of (el, r) \<Rightarrow> (if el = [] then None else Some (f el), r))"

definition block_start :: "string \<Rightarrow> bool \<times> string" where
  "block_start b = (case nextElement b of (el, r) \<Rightarrow> (el \<noteq> [] \<and> hd el = CHR ''{'', r))"

section \<open>What the parser needs\<close>

datatype parse_fault = ParsingError string | NullTarget | ParserLooping

record ('f, 'o, 'x) parse_env =
  pe_float :: "string \<Rightarrow> 'f"
  pe_operand :: "string \<Rightarrow> string + ('o \<times> string)"
  pe_operands :: "string \<Rightarrow> string + 'o list"
  pe_target :: "(int \<times> bool) option"
  pe_device :: string
  pe_foreign :: "string \<Rightarrow> string \<Rightarrow> string list \<Rightarrow> 'x"
  pe_foreignBlock :: "string \<Rightarrow> string \<Rightarrow> string list \<Rightarrow> ('f, 'o, 'x) element list \<Rightarrow> 'x"

type_synonym ('f, 'o, 'x) parse_result = "parse_fault + (('f, 'o, 'x) element option \<times> string)"

text \<open>Parsing stops at this point with an element, or with \<open>NULL\<close>.\<close>

definition parsed :: "('f, 'o, 'x) element \<Rightarrow> string \<Rightarrow> ('f, 'o, 'x) parse_result" where
  "parsed e r = Inr (Some e, r)"

definition no_element :: "string \<Rightarrow> ('f, 'o, 'x) parse_result" where
  "no_element r = Inr (None, r)"

text \<open>Reading one parameter, and going on with it or giving up.\<close>

definition param :: "(string \<Rightarrow> 'a) \<Rightarrow> string \<Rightarrow> ('a \<Rightarrow> string \<Rightarrow> ('f, 'o, 'x) parse_result) \<Rightarrow> ('f, 'o, 'x) parse_result" where
  "param f b go = (case getNextParam f b of (None, r) \<Rightarrow> no_element r | (Some x, r) \<Rightarrow> go x r)"

definition param_string :: "string \<Rightarrow> (string \<Rightarrow> string \<Rightarrow> ('f, 'o, 'x) parse_result) \<Rightarrow> ('f, 'o, 'x) parse_result" where
  "param_string b go = (case nextElement b of (el, r) \<Rightarrow> go el r)"

definition operand :: "('f, 'o, 'x) parse_env \<Rightarrow> string \<Rightarrow> ('o \<Rightarrow> string \<Rightarrow> ('f, 'o, 'x) parse_result) \<Rightarrow> ('f, 'o, 'x) parse_result" where
  "operand env b go = (case pe_operand env b of Inl m \<Rightarrow> Inl (ParsingError m) | Inr (x, r) \<Rightarrow> go x r)"

text \<open>\<open>{\<close>, the elements up to the first that gives \<open>NULL\<close>, and what is made of them.\<close>

primrec parse_elements ::
    "nat \<Rightarrow> (string \<Rightarrow> ('f, 'o, 'x) parse_result) \<Rightarrow> string \<Rightarrow> parse_fault + (('f, 'o, 'x) element list \<times> string)" where
  "parse_elements 0 step b = Inl ParserLooping"
| "parse_elements (Suc n) step b =
     (case step b of
        Inl f \<Rightarrow> Inl f
      | Inr (None, r) \<Rightarrow> Inr ([], r)
      | Inr (Some e, r) \<Rightarrow>
          (case parse_elements n step r of Inl f \<Rightarrow> Inl f | Inr (es, r1) \<Rightarrow> Inr (e # es, r1)))"

definition braces ::
    "(string \<Rightarrow> parse_fault + (('f, 'o, 'x) element list \<times> string)) \<Rightarrow> string \<Rightarrow>
     (('f, 'o, 'x) element list \<Rightarrow> string \<Rightarrow> ('f, 'o, 'x) parse_result) \<Rightarrow> ('f, 'o, 'x) parse_result" where
  "braces elements b go =
     (case block_start b of
        (False, r) \<Rightarrow> no_element r
      | (True, r) \<Rightarrow> (case elements r of Inl f \<Rightarrow> Inl f | Inr (es, r1) \<Rightarrow> go es r1))"

definition new_block :: "'o block_class \<Rightarrow> ('f, 'o, 'x) element list \<Rightarrow> ('f, 'o, 'x) element" where
  "new_block k es = ElementBlock k es 0 0 None"

section \<open>Names and operators\<close>

definition index_of :: "char \<Rightarrow> string \<Rightarrow> nat option" where
  "index_of c s = (if c \<in> set s then Some (length (takeWhile (\<lambda>x. x \<noteq> c) s)) else None)"

text \<open>The device of a word, and the word without it.\<close>

definition split_device :: "string \<Rightarrow> string \<Rightarrow> string \<times> string" where
  "split_device dflt w =
     (case index_of CHR ''.'' w of
        Some i \<Rightarrow>
          if (case index_of CHR ''='' w of None \<Rightarrow> True | Some j \<Rightarrow> i < j)
          then (take (DEVICE_NAME_SIZE - 1) (take i w), drop (i + 1) w)
          else (dflt, w)
      | None \<Rightarrow> (dflt, w))"

text \<open>\<open>ElementChangeValue\<close> splits its word at the first operator.\<close>

definition op_chars :: "char set" where "op_chars = {CHR ''+'', CHR ''-'', CHR ''=''}"

definition split_change :: "string \<Rightarrow> string \<times> char \<times> string" where
  "split_change s =
     (let n = takeWhile (\<lambda>c. c \<notin> op_chars) s in
      case dropWhile (\<lambda>c. c \<notin> op_chars) s of
        [] \<Rightarrow> ([], CHR 0x00, [])
      | ch # r \<Rightarrow> (n, ch, if ch \<noteq> CHR ''='' \<and> r \<noteq> [] \<and> hd r = CHR ''='' then tl r else r))"

definition change_value :: "('f, 'o, 'x) parse_env \<Rightarrow> string \<Rightarrow> string \<Rightarrow> string \<Rightarrow> ('f, 'o, 'x) parse_result" where
  "change_value env dev s r =
     (case split_change s of (n, op, v) \<Rightarrow>
        if op = CHR 0x00 then parsed (ElementChangeValue dev n op []) r
        else case pe_operands env v of Inl m \<Rightarrow> Inl (ParsingError m) | Inr os \<Rightarrow> parsed (ElementChangeValue dev n op os) r)"

text \<open>\<open>cmd\<close>: a name, optionally with arguments in brackets.\<close>

definition command_element :: "string \<Rightarrow> string \<Rightarrow> string \<Rightarrow> ('f, 'o, 'x) parse_result" where
  "command_element dev s r =
     (case (index_of CHR ''('' s, index_of CHR '')'' s) of
        (None, None) \<Rightarrow> parsed (ElementCommand dev s []) r
      | (Some i, Some j) \<Rightarrow>
          (let a = (if i < j then take (j - i - 1) (drop (i + 1) s) else drop (i + 1) s) in
           parsed (ElementCommand dev (take (min i j) s) (case SplitStr a '','' of None \<Rightarrow> [] | Some ws \<Rightarrow> ws)) r)
      | _ \<Rightarrow> no_element r)"

section \<open>parseBuf\<close>

text \<open>Elements with parameters only. \<open>None\<close>: the word is none of them.\<close>

definition acquire_element :: "('f, 'o, 'x) parse_env \<Rightarrow> string \<Rightarrow> string \<Rightarrow> ('f, 'o, 'x) parse_result" where
  "acquire_element env dev b =
     param id b (\<lambda>p b. param id b (\<lambda>e r.
       case pe_target env of
         Some (t, True) \<Rightarrow> parsed ElementNone r
       | _ \<Rightarrow> parsed (Foreign (pe_foreign env ''A'' dev [p, e])) r))"

definition parse_simple :: "('f, 'o, 'x) parse_env \<Rightarrow> string \<Rightarrow> string \<Rightarrow> string \<Rightarrow> ('f, 'o, 'x) parse_result option" where
  "parse_simple env dev w b =
     (let float = (\<lambda>b. param (pe_float env) b); int = (\<lambda>b. param atoi b) in
      if w = ''SEQUENCE'' then
        Some (param_string b (\<lambda>f b. int b (\<lambda>n b. float b (\<lambda>t r. parsed (ElementSequence f n t 0 CallFirst) r))))
      else if w = ''I'' then Some (float b (\<lambda>t r. parsed (ElementImage PlainImage t CallFirst) r))
      else if w = ''E'' then Some (float b (\<lambda>t r. parsed (ElementImage Expose t CallFirst) r))
      else if w = ''D'' then Some (float b (\<lambda>t r. parsed (ElementImage Dark t CallFirst) r))
      else if w = ''STARTSHIFT'' then Some (float b (\<lambda>t r. parsed (ElementShiftStoreStart t) r))
      else if w = ''DOSHIFT'' then Some (int b (\<lambda>s b. float b (\<lambda>t r. parsed (ElementShiftStoreProgress s t) r)))
      else if w = ''ENDSHIFT'' then Some (int b (\<lambda>s b. float b (\<lambda>t r. parsed (ElementShiftStoreEnd s t) r)))
      else if w = ''BOX'' then Some (int b (\<lambda>x b. int b (\<lambda>y b. int b (\<lambda>w b. int b (\<lambda>h r. parsed (ElementBox x y w h) r)))))
      else if w = ''CENTER'' then Some (int b (\<lambda>w b. int b (\<lambda>h r. parsed (ElementCenter w h) r)))
      else if w = ''C'' then Some (float b (\<lambda>x b. float b (\<lambda>y r. parsed (ElementChange dev x y) r)))
      else if w = ''W'' then Some (parsed ElementWait b)
      else if w = ''Aw'' then Some (case pe_target env of None \<Rightarrow> Inl NullTarget | Some (t, _) \<Rightarrow> parsed (ElementWaitAcquire t) b)
      else if w = ''P'' then Some (int b (\<lambda>f b. float b (\<lambda>t b. int b (\<lambda>n r. parsed (ElementPhotometer f t n) r))))
      else if w = ''SS'' then Some (param id b (\<lambda>s r. parsed (Foreign (pe_foreign env w dev [s])) r))
      else if w = ''SW'' then Some (int b (\<lambda>s r. if s \<le> 0 then no_element r else parsed (ElementWaitSignal s) r))
      else if w = ''A'' then Some (acquire_element env dev b)
      else None)"

definition parse_late :: "('f, 'o, 'x) parse_env \<Rightarrow> string \<Rightarrow> string \<Rightarrow> string \<Rightarrow> ('f, 'o, 'x) parse_result" where
  "parse_late env dev w b =
     (let foreign = (\<lambda>ps r. parsed (Foreign (pe_foreign env w dev ps)) r) in
      if w = ''waitfor'' then param_string b (\<lambda>v b. param id b (\<lambda>x b. param id b (\<lambda>y r. foreign [v, x, y] r)))
      else if w = ''sleep'' then param id b (\<lambda>x r. foreign [x] r)
      else if w = ''wait_idle'' then parsed ElementWaitForIdle b
      else if w = ''tardisable'' then foreign [] b
      else if w = ''tempdisable'' then param_string b (\<lambda>x r. foreign [x] r)
      else if w = ''tarboost'' then param id b (\<lambda>x b. param id b (\<lambda>y r. foreign [x, y] r))
      else if w = ''loopdisable'' then parsed ElementLoopDisable b
      else if w = ''exe'' then param_string b (\<lambda>x r. parsed (Execute x False False) r)
      else if w = ''cmd'' then param_string b (\<lambda>x r. command_element dev x r)
      else if CHR ''='' \<in> set w then change_value env dev w b
      else no_element b)"

text \<open>Blocks; \<open>elements\<close> is \<open>parseBlock\<close>.\<close>

definition else_part ::
    "(string \<Rightarrow> parse_fault + (('f, 'o, 'x) element list \<times> string)) \<Rightarrow> int \<Rightarrow> ('f, 'o, 'x) element list \<Rightarrow> string \<Rightarrow>
     ('f, 'o, 'x) parse_result" where
  "else_part elements t es b =
     (let acq = (\<lambda>alt. ElementBlock (Acquired t NOT_CALLED) es 0 0 alt) in
      case isNext ''else'' b of
        (False, r) \<Rightarrow> parsed (acq None) r
      | (True, r) \<Rightarrow> braces elements r (\<lambda>bs r. parsed (acq (if bs = [] then None else Some (new_block Else bs))) r))"

definition parse_block ::
    "('f, 'o, 'x) parse_env \<Rightarrow> (string \<Rightarrow> parse_fault + (('f, 'o, 'x) element list \<times> string)) \<Rightarrow> string \<Rightarrow> string \<Rightarrow> string \<Rightarrow>
     ('f, 'o, 'x) parse_result option" where
  "parse_block env elements dev w b =
     (let foreign = (\<lambda>ps b. braces elements b (\<lambda>es r. parsed (Foreign (pe_foreignBlock env w dev ps es)) r)) in
      if w = ''block_waitsig'' then Some (param atoi b (\<lambda>s b. braces elements b (\<lambda>es r. parsed (new_block (SignalEnd s) es) r)))
      else if w = ''ifacq'' then
        Some (braces elements b (\<lambda>es r. else_part elements (case pe_target env of None \<Rightarrow> 1 | Some (t, _) \<Rightarrow> t) es r))
      else if w = ''}'' then Some (no_element b)
      else if w = ''for'' then Some (param atoi b (\<lambda>m b. braces elements b (\<lambda>es r. parsed (new_block (For m) es) r)))
      else if w = ''while'' then
        Some (operand env b (\<lambda>c b. param atoi b (\<lambda>m b. braces elements b (\<lambda>es r. parsed (new_block (While c m) es) r))))
      else if w = ''do'' then
        Some (param atoi b (\<lambda>m b. braces elements b (\<lambda>es b.
          param_string b (\<lambda>x b. if x \<noteq> ''while'' then no_element b else operand env b (\<lambda>c r. parsed (new_block (Do c m) es) r)))))
      else if w = ''once'' then Some (braces elements b (\<lambda>es r. parsed (new_block Once es) r))
      else if w = ''waitsod'' then Some (param atoi b (\<lambda>s b. braces elements b (\<lambda>es r. parsed (new_block (WhileSod s) es) r)))
      else if w = ''hex'' \<or> w = ''fxf'' then Some (param id b (\<lambda>x b. param id b (\<lambda>y b. foreign [x, y] b)))
      else if w = ''spiral'' then Some (param id b (\<lambda>x b. param id b (\<lambda>y b. param id b (\<lambda>l b. foreign [x, y, l] b))))
      else None)"

primrec parseBuf :: "nat \<Rightarrow> ('f, 'o, 'x) parse_env \<Rightarrow> string \<Rightarrow> ('f, 'o, 'x) parse_result" where
  "parseBuf 0 env b = Inl ParserLooping"
| "parseBuf (Suc n) env b =
     (case nextElement b of (el, r) \<Rightarrow>
        case split_device (take (DEVICE_NAME_SIZE) (pe_device env)) el of (dev, w) \<Rightarrow>
          if w = [] then no_element r
          else
            case parse_simple env dev w r of
              Some res \<Rightarrow> res
            | None \<Rightarrow>
                (case parse_block env (parse_elements n (parseBuf n env)) dev w r of
                   Some res \<Rightarrow> res
                 | None \<Rightarrow> parse_late env dev w r))"

definition parseBlock :: "nat \<Rightarrow> ('f, 'o, 'x) parse_env \<Rightarrow> string \<Rightarrow> parse_fault + (('f, 'o, 'x) element list \<times> string)" where
  "parseBlock n env = parse_elements n (parseBuf n env)"

text \<open>\<open>parseScript\<close> of one line: a comment becomes an element at its end.\<close>

definition parse_comment :: "string \<Rightarrow> string option" where
  "parse_comment text =
     (case dropWhile (\<lambda>c. c \<noteq> CHR ''#'') text of [] \<Rightarrow> None | _ # r \<Rightarrow> Some (dropWhile isspace r))"

definition parseScript ::
    "nat \<Rightarrow> ('f, 'o, 'x) parse_env \<Rightarrow> string \<Rightarrow> int \<Rightarrow> parse_fault + (('f, 'o, 'x) element list \<times> int)" where
  "parseScript n env text num =
     (case parseBlock n env (takeWhile (\<lambda>c. c \<noteq> CHR ''#'') text) of
        Inl f \<Rightarrow> Inl f
      | Inr (es, _) \<Rightarrow>
          (case parse_comment text of None \<Rightarrow> Inr (es, num) | Some c \<Rightarrow> Inr (es @ [ElementComment c num], num + 1)))"

section \<open>printScript\<close>

record ('f, 'o, 'x) print_env =
  pr_real :: "'f \<Rightarrow> string"
  pr_operands :: "'o list \<Rightarrow> string"
  pr_condition :: "'o \<Rightarrow> string"
  pr_foreign :: "'x \<Rightarrow> string"

definition block_text :: "string list \<Rightarrow> string" where
  "block_text ts = '' { '' @ unwords ts @ '' }''"

fun printScript :: "('f, 'o, 'x) print_env \<Rightarrow> ('f, 'o, 'x) element \<Rightarrow> string" where
  "printScript pr ElementNone = []"
| "printScript pr (ElementSequence f n t i p) = unwords [''SEQUENCE'', f, show_int n, pr_real pr t]"
| "printScript pr (ElementImage k t p) = unwords [case k of PlainImage \<Rightarrow> ''I'' | Expose \<Rightarrow> ''E'' | Dark \<Rightarrow> ''D'', pr_real pr t]"
| "printScript pr (ElementShiftStoreStart t) = unwords [''STARTSHIFT'', pr_real pr t]"
| "printScript pr (ElementShiftStoreProgress s t) = unwords [''DOSHIFT'', show_int s, pr_real pr t]"
| "printScript pr (ElementShiftStoreEnd s t) = unwords [''ENDSHIFT'', show_int s, pr_real pr t]"
| "printScript pr (ElementBox x y w h) = unwords [''BOX'', show_int y, show_int y, show_int w, show_int h]"
| "printScript pr (ElementCenter w h) = ''CENTER''"
| "printScript pr (ElementChange d x y) = unwords [''C'', pr_real pr x, pr_real pr y]"
| "printScript pr ElementWait = ''W''"
| "printScript pr (ElementWaitAcquire t) = ''Aw''"
| "printScript pr (ElementPhotometer f t n) = unwords [''P'', show_int f, pr_real pr t, show_int n]"
| "printScript pr (ElementWaitSignal s) = unwords [''SW'', show_int s]"
| "printScript pr (ElementChangeValue d n op os) = (if d = [] then [] else d @ ''.'') @ n @ [op] @ pr_operands pr os"
| "printScript pr (ElementComment t i) = ''# '' @ t"
| "printScript pr (ElementCommand d c args) = unwords ([''cmd'', c] @ args)"
| "printScript pr ElementLoopDisable = ''loopdisable''"
| "printScript pr ElementWaitForIdle = ''wait_idle''"
| "printScript pr (Execute x a b) = unwords [''exe'', x]"
| "printScript pr (Foreign x) = pr_foreign pr x"
| "printScript pr (ElementBlock k es c l alt) =
     (let b = block_text (map (printScript pr) es) in
      case k of
        SignalEnd s \<Rightarrow> unwords [''block_waitsig'', show_int s] @ b
      | Acquired t a \<Rightarrow> ''ifacq'' @ b @ (case alt of None \<Rightarrow> [] | Some e \<Rightarrow> '' else '' @ printScript pr e)
      | Else \<Rightarrow> b
      | For m \<Rightarrow> unwords [''for'', show_int m] @ b
      | WhileSod s \<Rightarrow> unwords [''waitsod'', show_int s] @ b
      | While x m \<Rightarrow> unwords [''while'', show_int m] @ b
      | Do x m \<Rightarrow> unwords [''do'', show_int m @ pr_condition pr x] @ b
      | Once \<Rightarrow> ''once'' @ b)"

definition prettyPrint_script :: "('f, 'o, 'x) print_env \<Rightarrow> ('f, 'o, 'x) script \<Rightarrow> string" where
  "prettyPrint_script pr s = unwords (map (printScript pr) (sc_elements s))"

end
