(* ===== verification/Rts2_ScriptPrint.thy ===== *)
theory Rts2_ScriptPrint
  imports Rts2_ScriptParse
begin

text \<open>
  What \<open>printScript\<close> writes is parsed as the same elements, for the elements whose text has all they need.
\<close>

section \<open>Reading words\<close>

abbreviation strip :: "string \<Rightarrow> string" where "strip \<equiv> dropWhile isspace"

definition plain_word :: "string \<Rightarrow> bool" where
  "plain_word w \<longleftrightarrow> w \<noteq> [] \<and> list_all (\<lambda>c. \<not> isspace c) w \<and> hd w \<notin> quote_chars"

definition word_end :: "string \<Rightarrow> bool" where
  "word_end r \<longleftrightarrow> r = [] \<or> isspace (hd r)"

lemma word_end_simps [simp]: "word_end []" "word_end (CHR '' '' # r)"
  by (simp_all add: word_end_def isspace_def)

lemma strip_end: "word_end r \<Longrightarrow> strip (drop 1 r) = strip r"
  by (cases r) (simp_all add: word_end_def)

lemma word_end_while [simp]:
  "word_end r \<Longrightarrow> takeWhile (\<lambda>c. \<not> isspace c) r = []" "word_end r \<Longrightarrow> dropWhile (\<lambda>c. \<not> isspace c) r = r"
  by (cases r; simp add: word_end_def)+

lemma strip_blank [simp]: "strip (CHR '' '' # r) = strip r"
  by (simp add: isspace_def)

lemma strip_strip [simp]: "strip (strip b) = strip b"
  by (induction b) simp_all

lemma nextElement_strip: "nextElement (strip b) = nextElement b"
  by (simp add: nextElement_def)

lemma nextElement_word:
  assumes "plain_word w" "word_end r"
  shows "nextElement (w @ r) = (w, drop 1 r)"
proof -
  obtain c cs where w: "w = c # cs" "\<not> isspace c" "c \<notin> quote_chars" "\<forall>x\<in>set cs. \<not> isspace x"
    using assms(1) by (cases w) (auto simp: plain_word_def list_all_iff)
  have "takeWhile (\<lambda>c. \<not> isspace c) (cs @ r) = cs" "dropWhile (\<lambda>c. \<not> isspace c) (cs @ r) = r"
    using w(4) assms(2) by (cases r; simp add: word_end_def takeWhile_append dropWhile_append)+
  then show ?thesis using w by (simp add: nextElement_def)
qed

lemma nextElement_blank [simp]: "nextElement (CHR '' '' # b) = nextElement b"
  using nextElement_strip [of "CHR '' '' # b"] nextElement_strip [of b] by simp

lemma plain_show_int: "plain_word (show_int i)"
proof -
  have "\<not> isspace c \<and> c \<notin> quote_chars" if "c \<in> set (show_int i)" for c
  proof -
    have "c = CHR ''-'' \<or> isdigit c" using that show_nat_digits by (auto simp: show_int_def split: if_splits)
    then show ?thesis by (auto simp: isdigit_def isspace_def quote_chars_def)
  qed
  moreover have "hd (show_int i) \<in> set (show_int i)" by simp
  ultimately show ?thesis by (auto simp: plain_word_def list_all_iff)
qed

lemma atoi_show_int: "int32 i \<Longrightarrow> atoi (show_int i) = i"
  by (simp add: int32_def atoi_def strtol_show_int clamp64_id to_int32_id)

lemma param_word: "plain_word w \<Longrightarrow> word_end r \<Longrightarrow> param f (w @ r) go = go (f w) (drop 1 r)"
  by (simp add: param_def getNextParam_def nextElement_word) (simp add: plain_word_def)

lemma param_string_word: "plain_word w \<Longrightarrow> word_end r \<Longrightarrow> param_string (w @ r) go = go w (drop 1 r)"
  by (simp add: param_string_def nextElement_word)

lemma param_int: "int32 i \<Longrightarrow> word_end r \<Longrightarrow> param atoi (show_int i @ r) go = go i (drop 1 r)"
  by (simp add: param_word plain_show_int atoi_show_int)

lemmas read_word = param_word param_string_word param_int

lemma brace: "nextElement (CHR ''{'' # CHR '' '' # r) = (''{'', r)"
  using nextElement_word [of "''{''" "CHR '' '' # r"] by (simp add: plain_word_def isspace_def quote_chars_def)

lemma block_open: "braces elements (CHR ''{'' # CHR '' '' # r) go = (case elements r of Inl f \<Rightarrow> Inl f | Inr (es, r1) \<Rightarrow> go es r1)"
  by (simp add: braces_def block_start_def brace)

lemma block_open_blank: "braces elements (CHR '' '' # b) go = braces elements b go"
  by (simp add: braces_def block_start_def)

section \<open>What can be printed\<close>

definition real_ok :: "('f, 'o, 'x) parse_env \<Rightarrow> ('f, 'o, 'x) print_env \<Rightarrow> 'f \<Rightarrow> bool" where
  "real_ok pe pr t \<longleftrightarrow> plain_word (pr_real pr t) \<and> pe_float pe (pr_real pr t) = t"

definition default_device :: "('f, 'o, 'x) parse_env \<Rightarrow> string" where
  "default_device pe = take DEVICE_NAME_SIZE (pe_device pe)"

definition change_ok :: "('f, 'o, 'x) parse_env \<Rightarrow> ('f, 'o, 'x) print_env \<Rightarrow> string \<Rightarrow> string \<Rightarrow> char \<Rightarrow> 'o list \<Rightarrow> bool" where
  "change_ok pe pr d n op os \<longleftrightarrow>
     plain_word d \<and> length d < DEVICE_NAME_SIZE \<and> CHR ''.'' \<notin> set d \<and> CHR ''='' \<notin> set d \<and> take 4 d \<noteq> ''else''
     \<and> list_all (\<lambda>c. \<not> isspace c \<and> c \<notin> op_chars) n \<and> op = CHR ''=''
     \<and> list_all (\<lambda>c. \<not> isspace c) (pr_operands pr os) \<and> pe_operands pe (pr_operands pr os) = Inr os"

fun printable :: "('f, 'o, 'x) parse_env \<Rightarrow> ('f, 'o, 'x) print_env \<Rightarrow> ('f, 'o, 'x) element \<Rightarrow> bool" where
  "printable pe pr (ElementSequence f n t i p) \<longleftrightarrow> plain_word f \<and> int32 n \<and> real_ok pe pr t \<and> i = 0 \<and> p = CallFirst"
| "printable pe pr (ElementImage k t p) \<longleftrightarrow> real_ok pe pr t \<and> p = CallFirst"
| "printable pe pr (ElementShiftStoreStart t) \<longleftrightarrow> real_ok pe pr t"
| "printable pe pr (ElementShiftStoreProgress s t) \<longleftrightarrow> int32 s \<and> real_ok pe pr t"
| "printable pe pr (ElementShiftStoreEnd s t) \<longleftrightarrow> int32 s \<and> real_ok pe pr t"
| "printable pe pr (ElementBox x y w h) \<longleftrightarrow> x = y \<and> int32 y \<and> int32 w \<and> int32 h"
| "printable pe pr (ElementChange d x y) \<longleftrightarrow> d = default_device pe \<and> real_ok pe pr x \<and> real_ok pe pr y"
| "printable pe pr ElementWait \<longleftrightarrow> True"
| "printable pe pr (ElementWaitAcquire t) \<longleftrightarrow> map_option fst (pe_target pe) = Some t"
| "printable pe pr (ElementPhotometer f t n) \<longleftrightarrow> int32 f \<and> real_ok pe pr t \<and> int32 n"
| "printable pe pr (ElementWaitSignal s) \<longleftrightarrow> 0 < s \<and> int32 s"
| "printable pe pr (ElementChangeValue d n op os) \<longleftrightarrow> change_ok pe pr d n op os"
| "printable pe pr (ElementCommand d c args) \<longleftrightarrow>
     d = default_device pe \<and> plain_word c \<and> CHR ''('' \<notin> set c \<and> CHR '')'' \<notin> set c \<and> args = []"
| "printable pe pr ElementLoopDisable \<longleftrightarrow> True"
| "printable pe pr ElementWaitForIdle \<longleftrightarrow> True"
| "printable pe pr (Execute x a b) \<longleftrightarrow> plain_word x \<and> \<not> a \<and> \<not> b"
| "printable pe pr (ElementBlock k es c l alt) \<longleftrightarrow>
     c = 0 \<and> l = 0 \<and> list_all (printable pe pr) es \<and>
     (case k of
        SignalEnd s \<Rightarrow> int32 s \<and> alt = None
      | For m \<Rightarrow> int32 m \<and> alt = None
      | WhileSod s \<Rightarrow> int32 s \<and> alt = None
      | Once \<Rightarrow> alt = None
      | Acquired t a \<Rightarrow> t = (case pe_target pe of None \<Rightarrow> 1 | Some (t, _) \<Rightarrow> t) \<and> a = NOT_CALLED \<and>
          (case alt of
             None \<Rightarrow> True
           | Some (ElementBlock Else bs c1 l1 None) \<Rightarrow> bs \<noteq> [] \<and> c1 = 0 \<and> l1 = 0 \<and> list_all (printable pe pr) bs
           | _ \<Rightarrow> False)
      | _ \<Rightarrow> False)"
| "printable pe pr e \<longleftrightarrow> False"

text \<open>The nesting of the parser that an element needs.\<close>

fun text_fuel :: "('f, 'o, 'x) element \<Rightarrow> nat" where
  "text_fuel (ElementBlock k es c l alt) =
     Suc (\<Sum>e\<leftarrow>es. Suc (text_fuel e)) +
     (case alt of Some (ElementBlock Else bs c1 l1 None) \<Rightarrow> (\<Sum>e\<leftarrow>bs. Suc (text_fuel e)) | _ \<Rightarrow> 0)"
| "text_fuel e = 0"

section \<open>Elements without blocks\<close>

declare parseBuf.simps(2) [simp del]

text \<open>A known character is a blank or not.\<close>

lemma isspace_Char:
  "isspace (Char a b c d e f g h) \<longleftrightarrow>
   Char a b c d e f g h = CHR '' '' \<or> 9 \<le> (of_char (Char a b c d e f g h) :: nat) \<and> (of_char (Char a b c d e f g h) :: nat) \<le> 13"
  by (rule isspace_def)

definition reads_back :: "('f, 'o, 'x) parse_env \<Rightarrow> ('f, 'o, 'x) print_env \<Rightarrow> nat \<Rightarrow> ('f, 'o, 'x) element \<Rightarrow> bool" where
  "reads_back pe pr n e \<longleftrightarrow>
     (\<forall>r. word_end r \<longrightarrow> take 4 (strip r) \<noteq> ''else'' \<longrightarrow>
        (\<exists>r1. parseBuf n pe (printScript pr e @ r) = Inr (Some e, r1) \<and> strip r1 = strip r))"

lemma keyword_device:
  "CHR ''.'' \<notin> set w \<Longrightarrow> split_device d w = (d, w)"
  by (simp add: split_device_def index_of_def)

definition no_block :: "('f, 'o, 'x) element \<Rightarrow> bool" where
  "no_block e = (case e of ElementBlock k es c l alt \<Rightarrow> False | ElementChangeValue d n op os \<Rightarrow> False | _ \<Rightarrow> True)"

lemma simple_reads_back: "no_block e \<Longrightarrow> printable pe pr e \<Longrightarrow> reads_back pe pr (Suc n) e"
  unfolding reads_back_def
  by (cases e)
    (auto simp: parseBuf.simps(2) no_block_def nextElement_def isspace_Char quote_chars_def keyword_device parse_simple_def parse_block_def parse_late_def Let_def
      read_word real_ok_def parsed_def strip_end [unfolded One_nat_def] default_device_def index_of_def command_element_def split: image_class.splits)

text \<open>A change of a value: the word has an equals sign, which no keyword has.\<close>

lemma not_keyword:
  assumes "CHR ''='' \<in> set w"
  shows "parse_simple pe dev w b = None" "parse_block pe elements dev w b = None" "parse_late pe dev w b = change_value pe dev w b"
proof -
  have ne: "w \<noteq> k" if "CHR ''='' \<notin> set k" for k using assms that by auto
  show "parse_simple pe dev w b = None" "parse_block pe elements dev w b = None" "parse_late pe dev w b = change_value pe dev w b"
    using assms by (simp_all add: parse_simple_def parse_block_def parse_late_def Let_def ne)
qed

lemma index_of_append: "c \<notin> set u \<Longrightarrow> index_of c (u @ c # v) = Some (length u)"
  unfolding index_of_def by (subst takeWhile_append2) auto

lemma change_reads_back:
  assumes "change_ok pe pr d n op os"
  shows "reads_back pe pr (Suc m) (ElementChangeValue d n op os)"
  unfolding reads_back_def
proof (intro allI impI)
  fix r assume r: "word_end r" "take 4 (strip r) \<noteq> ''else''"
  let ?v = "n @ CHR ''='' # pr_operands pr os" let ?w = "d @ CHR ''.'' # ?v"
  have a: "plain_word d" "length d < DEVICE_NAME_SIZE" "CHR ''.'' \<notin> set d" "CHR ''='' \<notin> set d" "op = CHR ''=''"
    "\<And>c. c \<in> set n \<Longrightarrow> \<not> isspace c \<and> c \<notin> op_chars" "\<And>c. c \<in> set (pr_operands pr os) \<Longrightarrow> \<not> isspace c"
    "pe_operands pe (pr_operands pr os) = Inr os" "d \<noteq> []"
    using assms by (auto simp: change_ok_def list_all_iff plain_word_def)
  have w: "plain_word ?w" using a by (auto simp: plain_word_def list_all_iff isspace_Char)
  have "index_of CHR ''='' ?w = Some (length (takeWhile (\<lambda>x. x \<noteq> CHR ''='') ?w))" by (simp add: index_of_def)
  moreover have "length d < length (takeWhile (\<lambda>x. x \<noteq> CHR ''='') ?w)" using a(4) by (subst takeWhile_append2) auto
  ultimately have "split_device x ?w = (d, ?v)" for x
    using a(2,3) by (simp add: split_device_def index_of_append)
  moreover have "split_change ?v = (n, CHR ''='', pr_operands pr os)"
    using a(6) by (simp add: split_change_def op_chars_def takeWhile_append2 dropWhile_append2 Let_def)
  ultimately have "parseBuf (Suc m) pe (?w @ r) = Inr (Some (ElementChangeValue d n op os), drop 1 r)"
    using a(5,8) by (simp add: parseBuf.simps(2) nextElement_word [OF w r(1), unfolded append_assoc append_Cons] not_keyword change_value_def parsed_def)
  then show "\<exists>r1. parseBuf (Suc m) pe (printScript pr (ElementChangeValue d n op os) @ r) = Inr (Some (ElementChangeValue d n op os), r1) \<and> strip r1 = strip r"
    using a(5,9) strip_end [OF r(1)] by simp
qed

text \<open>No text of an element is taken for the word else.\<close>

lemma not_else: "printable pe pr e \<Longrightarrow> take 4 (strip (printScript pr e @ s)) \<noteq> ''else''"
proof (cases e)
  case (ElementChangeValue d n op os)
  assume "printable pe pr e"
  then have d: "take 4 d \<noteq> ''else''" "plain_word d" "d \<noteq> []" using ElementChangeValue by (auto simp: change_ok_def plain_word_def)
  then obtain c cs where c: "d = c # cs" "\<not> isspace c" by (cases d) (auto simp: plain_word_def)
  have "take 4 (d @ CHR ''.'' # x) \<noteq> ''else''" for x
  proof (cases "4 \<le> length d")
    case False
    then have "CHR ''.'' \<in> set (take 4 (d @ CHR ''.'' # x))" by (auto simp: take_Cons')
    moreover have "CHR ''.'' \<notin> set ''else''" by simp
    ultimately show ?thesis by metis
  qed (use d in simp)
  then show ?thesis using ElementChangeValue c by simp
next
  case (ElementBlock k es c l alt)
  assume "printable pe pr e"
  then show ?thesis using ElementBlock by (cases k) (simp_all add: isspace_Char block_text_def Let_def)
next
  case (ElementImage k t p)
  then show ?thesis by (cases k) (simp_all add: isspace_Char)
qed (simp_all add: isspace_Char)

lemma parseBuf_strip: "parseBuf n pe (strip b) = parseBuf n pe b"
  by (cases n) (simp_all add: parseBuf.simps(2) nextElement_strip)

lemma elements_strip: "strip a = strip b \<Longrightarrow> parse_elements n (parseBuf m pe) a = parse_elements n (parseBuf m pe) b"
proof (cases n)
  case (Suc k)
  assume "strip a = strip b"
  then have "parseBuf m pe a = parseBuf m pe b" using parseBuf_strip [of m pe a] parseBuf_strip [of m pe b] by simp
  then show ?thesis using Suc by simp
qed simp

lemma closing: "word_end r \<Longrightarrow> parseBuf (Suc m) pe ('' }'' @ r) = Inr (None, drop 1 r)"
  by (simp add: parseBuf.simps(2) nextElement_def isspace_Char quote_chars_def keyword_device parse_simple_def parse_block_def Let_def no_element_def)

lemma elements_read_back:
  assumes "word_end r"
  shows "(\<And>e. e \<in> set es \<Longrightarrow> reads_back pe pr (Suc m) e \<and> printable pe pr e) \<Longrightarrow> length es < n \<Longrightarrow>
    \<exists>r1. parse_elements n (parseBuf (Suc m) pe) (unwords (map (printScript pr) es) @ '' }'' @ r) = Inr (es, r1) \<and> strip r1 = strip r"
proof (induction es arbitrary: n)
  case Nil
  then show ?case using closing [OF assms, of m pe] strip_end [OF assms] by (cases n) auto
next
  case (Cons e es)
  obtain k where k: "n = Suc k" "length es < k" using Cons.prems(2) by (cases n) auto
  define s where "s = (if es = [] then '' }'' @ r else CHR '' '' # unwords (map (printScript pr) es) @ '' }'' @ r)"
  have t: "unwords (map (printScript pr) (e # es)) @ '' }'' @ r = printScript pr e @ s"
    by (cases es) (simp_all add: s_def)
  have s: "strip s = strip (unwords (map (printScript pr) es) @ '' }'' @ r)" by (simp add: s_def)
  have "take 4 (strip s) \<noteq> ''else''"
  proof (cases es)
    case (Cons e1 es1)
    then obtain x where "unwords (map (printScript pr) es) @ '' }'' @ r = printScript pr e1 @ x" by (cases es1) auto
    then show ?thesis using s not_else [of pe pr e1 x] Cons.prems Cons by simp
  qed (simp add: s_def isspace_Char)
  moreover have "word_end s" by (simp add: s_def)
  ultimately obtain r1 where "parseBuf (Suc m) pe (printScript pr e @ s) = Inr (Some e, r1)" "strip r1 = strip s"
    using Cons.prems(1) [of e] by (auto simp: reads_back_def)
  moreover obtain r2 where "parse_elements k (parseBuf (Suc m) pe) (unwords (map (printScript pr) es) @ '' }'' @ r) = Inr (es, r2)" "strip r2 = strip r"
    using Cons.IH [of k] Cons.prems(1) k(2) by auto
  ultimately show ?case using s t k(1) elements_strip [of r1 "unwords (map (printScript pr) es) @ '' }'' @ r" k "Suc m" pe] by simp
qed

section \<open>Blocks\<close>

text \<open>The text of a block after its keyword, from its brace on.\<close>

lemma block_reads_back:
  assumes "\<And>e. e \<in> set es \<Longrightarrow> reads_back pe pr m e \<and> printable pe pr e" "length es < m" "word_end r"
  shows "\<exists>r1. braces (parse_elements m (parseBuf m pe)) (CHR ''{'' # CHR '' '' # unwords (map (printScript pr) es) @ CHR '' '' # CHR ''}'' # r) go
    = go es r1 \<and> strip r1 = strip r"
proof -
  obtain k where k: "m = Suc k" using assms(2) by (cases m) auto
  obtain r1 where "parse_elements m (parseBuf m pe) (unwords (map (printScript pr) es) @ '' }'' @ r) = Inr (es, r1)" "strip r1 = strip r"
    using elements_read_back [of r es pe pr k m] assms k by auto
  then show ?thesis by (auto simp: block_open)
qed

lemma keyword_block:
  assumes "e = ElementBlock k es 0 0 None" "k \<in> {SignalEnd j, For j, WhileSod j, Once}" "int32 j"
    "\<And>x. x \<in> set es \<Longrightarrow> reads_back pe pr m x \<and> printable pe pr x" "length es < m"
  shows "reads_back pe pr (Suc m) e"
  unfolding reads_back_def
proof (intro allI impI)
  fix r assume r: "word_end r"
  obtain r1 where "braces (parse_elements m (parseBuf m pe)) (CHR ''{'' # CHR '' '' # unwords (map (printScript pr) es) @ CHR '' '' # CHR ''}'' # r)
      (\<lambda>es. parsed (new_block k es)) = parsed (new_block k es) r1 \<and> strip r1 = strip r"
    using block_reads_back [OF assms(4,5) r, of "\<lambda>es. parsed (new_block k es)"] by blast
  then show "\<exists>r1. parseBuf (Suc m) pe (printScript pr e @ r) = Inr (Some e, r1) \<and> strip r1 = strip r"
    using assms(1-3)
    by (auto simp: parseBuf.simps(2) nextElement_def isspace_Char quote_chars_def keyword_device parse_simple_def parse_block_def Let_def
        block_text_def read_word parsed_def new_block_def)
qed

lemma isNext_else: "isNext ''else'' b = (if take 4 (strip b) = ''else'' then (True, drop 5 (strip b)) else (False, strip b))"
  by (simp add: isNext_def Let_def eval_nat_numeral)

lemma acquired_block:
  assumes "t = (case pe_target pe of None \<Rightarrow> 1 | Some (t, _) \<Rightarrow> t)" "alt = None \<or> bs \<noteq> [] \<and> alt = Some (ElementBlock Else bs 0 0 None)"
    "\<And>x. x \<in> set es \<union> set bs \<Longrightarrow> reads_back pe pr m x \<and> printable pe pr x" "length es < m" "length bs < m"
  shows "reads_back pe pr (Suc m) (ElementBlock (Acquired t NOT_CALLED) es 0 0 alt)"
  unfolding reads_back_def
proof (intro allI impI)
  fix r assume r: "word_end r" "take 4 (strip r) \<noteq> ''else''"
  let ?el = "parse_elements m (parseBuf m pe)" and ?ts = "\<lambda>es. unwords (map (printScript pr) es)"
  let ?else = "else_part ?el t"
  let ?e = "\<lambda>alt. ElementBlock (Acquired t NOT_CALLED) es 0 0 alt"
  let ?s = "case alt of None \<Rightarrow> r | Some b \<Rightarrow> '' else  { '' @ ?ts bs @ '' }'' @ r"
  have "word_end ?s" using r(1) by (auto split: option.splits)
  then obtain r1 where r1: "braces ?el (CHR ''{'' # CHR '' '' # ?ts es @ CHR '' '' # CHR ''}'' # ?s) ?else = ?else es r1" "strip r1 = strip ?s"
    using block_reads_back [of es pe pr m ?s ?else] assms(3,4) by blast
  have "parseBuf (Suc m) pe (printScript pr (?e alt) @ r) = ?else es r1"
    using r1(1) assms(1,2)
    by (auto simp: parseBuf.simps(2) nextElement_def isspace_Char quote_chars_def keyword_device parse_simple_def parse_block_def Let_def
        block_text_def)
  moreover have "\<exists>r2. ?else es r1 = Inr (Some (?e alt), r2) \<and> strip r2 = strip r"
  proof (cases alt)
    case None
    then show ?thesis using r1(2) r(2) by (simp add: else_part_def isNext_else parsed_def)
  next
    case (Some b)
    then have b: "bs \<noteq> []" "b = ElementBlock Else bs 0 0 None" using assms(2) by auto
    let ?go = "\<lambda>bs. parsed (?e (if bs = [] then None else Some (new_block Else bs)))"
    obtain r2 where "braces ?el (CHR ''{'' # CHR '' '' # ?ts bs @ CHR '' '' # CHR ''}'' # r) ?go = ?go bs r2" "strip r2 = strip r"
      using block_reads_back [of bs pe pr m r ?go] assms(3,5) r(1) by blast
    moreover have "strip r1 = ''else  { '' @ ?ts bs @ '' }'' @ r" using r1(2) Some by (simp add: isspace_Char)
    ultimately show ?thesis
      using Some b by (simp add: else_part_def isNext_else block_open_blank parsed_def new_block_def Let_def)
  qed
  ultimately show "\<exists>r1. parseBuf (Suc m) pe (printScript pr (?e alt) @ r) = Inr (Some (?e alt), r1) \<and> strip r1 = strip r" by simp
qed

section \<open>Scripts\<close>

lemma fuel_elements:
  "length es \<le> (\<Sum>e\<leftarrow>es. Suc (text_fuel e))" "e \<in> set es \<Longrightarrow> text_fuel e < (\<Sum>e\<leftarrow>es. Suc (text_fuel e))"
  by (induction es) auto

lemma size_in: "e \<in> set es \<Longrightarrow> size e < Suc (size_list size es)"
  using size_list_estimation' [of e es "size e" size] by (simp add: less_Suc_eq_le)

lemma int32_0: "int32 0"
  by (simp add: int32_def)

lemma prints_back: "printable pe pr e \<Longrightarrow> text_fuel e < n \<Longrightarrow> reads_back pe pr n e"
proof (induction e arbitrary: n rule: measure_induct_rule [of size])
  case (less e)
  obtain m where n: "n = Suc m" using less.prems(2) by (cases n) auto
  show ?case
  proof (cases e)
    case (ElementChangeValue d x op os)
    then show ?thesis using less.prems(1) change_reads_back n by simp
  next
    case (ElementBlock k es c l alt)
    have z: "c = 0" "l = 0" "\<And>x. x \<in> set es \<Longrightarrow> printable pe pr x" using less.prems(1) ElementBlock by (auto simp: list_all_iff)
    have es: "(\<Sum>e\<leftarrow>es. Suc (text_fuel e)) < m" using less.prems(2) ElementBlock n by simp
    have IH: "reads_back pe pr m x" if "size x < size e" "printable pe pr x" "x \<in> set xs" "(\<Sum>e\<leftarrow>xs. Suc (text_fuel e)) < m" for x xs
      using less.IH [OF that(1,2)] fuel_elements(2) [OF that(3)] that(4) by simp
    have r: "reads_back pe pr m x \<and> printable pe pr x" if "x \<in> set es" for x
      using IH [OF _ z(3) [OF that] that es] size_in [OF that] z(3) [OF that] ElementBlock by simp
    have len: "length es < m" using fuel_elements(1) [of es] es by linarith
    consider (plain) j where "k \<in> {SignalEnd j, For j, WhileSod j, Once}" "int32 j" "alt = None"
      | (acquired) t where "k = Acquired t NOT_CALLED" "t = (case pe_target pe of None \<Rightarrow> 1 | Some (t, _) \<Rightarrow> t)"
      using less.prems(1) ElementBlock int32_0 by (cases k) auto
    then show ?thesis
    proof cases
      case plain
      then show ?thesis using keyword_block [of e k es j pe pr m] r len z n ElementBlock by simp
    next
      case acquired
      show ?thesis
      proof (cases alt)
        case None
        then show ?thesis using acquired_block [of t pe alt "[]" es pr m] acquired r len z n ElementBlock by simp
      next
        case (Some b)
        then obtain bs where b: "b = ElementBlock Else bs 0 0 None" "bs \<noteq> []" "\<And>x. x \<in> set bs \<Longrightarrow> printable pe pr x"
          using less.prems(1) ElementBlock acquired(1) by (auto simp: list_all_iff split: element.splits block_class.splits option.splits)
        have bs: "(\<Sum>e\<leftarrow>bs. Suc (text_fuel e)) < m" using less.prems(2) ElementBlock Some b n by simp
        have rb: "reads_back pe pr m x \<and> printable pe pr x" if "x \<in> set bs" for x
          using IH [OF _ b(3) [OF that] that bs] size_in [OF that] b(3) [OF that] ElementBlock Some b(1) by simp
        have "length bs < m" using fuel_elements(1) [of bs] bs by linarith
        then show ?thesis using acquired_block [of t pe alt bs es pr m] acquired r rb len z n ElementBlock Some b by auto
      qed
    qed
  qed (use less.prems(1) n simple_reads_back [of e pe pr m] in \<open>simp_all add: no_block_def\<close>)
qed

lemma end_of_text: "parseBuf (Suc m) pe [] = Inr (None, [])"
  by (simp add: parseBuf.simps(2) nextElement_def split_device_def index_of_def no_element_def)

lemma whole_reads_back:
  "(\<And>e. e \<in> set es \<Longrightarrow> reads_back pe pr (Suc m) e \<and> printable pe pr e) \<Longrightarrow> length es < n \<Longrightarrow>
    \<exists>r1. parse_elements n (parseBuf (Suc m) pe) (unwords (map (printScript pr) es)) = Inr (es, r1)"
proof (induction es arbitrary: n)
  case Nil
  then show ?case using end_of_text [of m pe] by (cases n) auto
next
  case (Cons e es)
  obtain k where k: "n = Suc k" "length es < k" using Cons.prems(2) by (cases n) auto
  define s where "s = (if es = [] then [] else CHR '' '' # unwords (map (printScript pr) es))"
  have t: "unwords (map (printScript pr) (e # es)) = printScript pr e @ s" by (cases es) (simp_all add: s_def)
  have "take 4 (strip s) \<noteq> ''else''"
  proof (cases es)
    case (Cons e1 es1)
    then obtain x where "unwords (map (printScript pr) es) = printScript pr e1 @ x" by (cases es1) auto
    then show ?thesis using not_else [of pe pr e1 x] Cons.prems Cons by (simp add: s_def)
  qed (simp add: s_def)
  moreover have "word_end s" by (simp add: s_def)
  ultimately obtain r1 where "parseBuf (Suc m) pe (printScript pr e @ s) = Inr (Some e, r1)" "strip r1 = strip s"
    using Cons.prems(1) [of e] by (auto simp: reads_back_def)
  moreover obtain r2 where "parse_elements k (parseBuf (Suc m) pe) (unwords (map (printScript pr) es)) = Inr (es, r2)"
    using Cons.IH [of k] Cons.prems(1) k(2) by auto
  moreover have "strip s = strip (unwords (map (printScript pr) es))" by (simp add: s_def)
  ultimately show ?case using t k(1) elements_strip [of r1 "unwords (map (printScript pr) es)" k "Suc m" pe] by simp
qed


section \<open>Words that are no command\<close>

definition known_words :: "string list" where
  "known_words =
     [''SEQUENCE'', ''I'', ''E'', ''D'', ''STARTSHIFT'', ''DOSHIFT'', ''ENDSHIFT'', ''BOX'', ''CENTER'', ''C'', ''W'', ''Aw'', ''P'', ''SS'', ''SW'',
      ''A'', ''block_waitsig'', ''ifacq'', ''for'', ''while'', ''do'', ''once'', ''waitsod'', ''hex'', ''fxf'', ''spiral'', ''waitfor'', ''sleep'',
      ''wait_idle'', ''tardisable'', ''tempdisable'', ''tarboost'', ''loopdisable'', ''exe'', ''cmd'']"

definition unknown_word :: "string \<Rightarrow> bool" where
  "unknown_word w \<longleftrightarrow> plain_word w \<and> CHR ''.'' \<notin> set w \<and> CHR ''='' \<notin> set w \<and> w \<notin> set known_words"

lemma unknown_parse:
  assumes "unknown_word w" "word_end r"
  shows "parseBuf (Suc m) pe (w @ r) = Inr (None, drop 1 r)"
proof -
  have k: "w \<noteq> k" if "k \<in> set known_words" for k using assms(1) that by (auto simp: unknown_word_def)
  have w: "plain_word w" "CHR ''.'' \<notin> set w" "CHR ''='' \<notin> set w" "w \<noteq> []" using assms(1) by (auto simp: unknown_word_def plain_word_def)
  have "parse_simple pe d w b = None" for d b by (simp add: parse_simple_def Let_def k [unfolded known_words_def])
  moreover have "parse_block pe el d w b = None \<or> parse_block pe el d w b = Some (no_element b)" for el d b
    by (simp add: parse_block_def Let_def k [unfolded known_words_def])
  moreover have "parse_late pe d w b = no_element b" for d b using w(3) by (simp add: parse_late_def Let_def k [unfolded known_words_def])
  ultimately have "parseBuf (Suc m) pe (w @ r) = no_element (drop 1 r)"
    using w by (auto simp: parseBuf.simps(2) nextElement_word [OF w(1) assms(2)] keyword_device split: option.splits)
      (metis option.distinct(1) option.inject)+
  then show ?thesis by (simp add: no_element_def)
qed


section \<open>Concrete texts\<close>

text \<open>Exposure times and operands are integers here.\<close>

definition example_parse :: "(int, int, unit) parse_env" where
  "example_parse = \<lparr>pe_float = atoi, pe_operand = (\<lambda>b. Inl ''none''), pe_operands = (\<lambda>v. Inr [atoi v]), pe_target = Some (7, False),
     pe_device = ''C0'', pe_foreign = (\<lambda>w d ps. ()), pe_foreignBlock = (\<lambda>w d ps es. ())\<rparr>"

definition example_print :: "(int, int, unit) print_env" where
  "example_print = \<lparr>pr_real = show_int, pr_operands = (\<lambda>os. unwords (map show_int os)), pr_condition = show_int, pr_foreign = (\<lambda>x. [])\<rparr>"

definition example_elements :: "(int, int, unit) element list" where
  "example_elements =
     [ElementChangeValue ''W0'' ''filter'' CHR ''='' [3],
      ElementBlock (For 2) [ElementImage Expose 10 CallFirst, ElementBlock (For 3) [ElementImage Dark 5 CallFirst] 0 0 None] 0 0 None,
      ElementBlock (Acquired 7 NOT_CALLED) [ElementSequence ''R'' 4 20 0 CallFirst] 0 0
        (Some (ElementBlock Else [ElementWait, ElementCommand ''C0'' ''home'' []] 0 0 None))]"

definition example_text :: string where
  "example_text = ''W0.filter=3 for 2 { E 10 for 3 { D 5 } } ifacq { SEQUENCE R 4 20 } else  { W cmd home }''"

definition with_elements :: "('f, 'o, 'x) element list \<Rightarrow> ('f, 'o, 'x) script" where
  "with_elements es = \<lparr>sc_elements = es, sc_iter = 0, sc_executed = 0, sc_loopCount = 0, sc_defaultDevice = ''C0''\<rparr>"

lemma example_real: "real_ok example_parse example_print 10" "real_ok example_parse example_print 5" "real_ok example_parse example_print 20"
  by (simp_all add: real_ok_def example_parse_def example_print_def plain_show_int atoi_show_int int32_def)



end
